(* ===== verification/Prelude.thy ===== *)
theory Prelude
  imports Complex_Main
begin

text \<open>
  Shared vocabulary of the development: the collections of rewrite rules the
  component theories extend, Python dictionaries (\<open>pdict\<close>, association lists in
  insertion order with distinct keys, which is what CPython guarantees and what the
  code's \<open>for k in list(d)\<close> loops and its SQLite-backed copies rely on), the
  dictionary interface as a locale, and Python string helpers.
\<close>

named_theorems dict_simps \<open>lookups after dictionary updates\<close>
named_theorems dict_intros \<open>operations that keep dictionary keys distinct\<close>

subsection \<open>Python dictionaries\<close>

type_synonym ('k, 'v) pdict = "('k \<times> 'v) list"

definition dget :: "('k, 'v) pdict \<Rightarrow> 'k \<Rightarrow> 'v option" where
  "dget d k = map_of d k"

fun dput :: "'k \<Rightarrow> 'v \<Rightarrow> ('k, 'v) pdict \<Rightarrow> ('k, 'v) pdict" where
  "dput k v [] = [(k, v)]"
| "dput k v ((k', v') # d) = (if k = k' then (k, v) # d else (k', v') # dput k v d)"

definition ddel :: "'k \<Rightarrow> ('k, 'v) pdict \<Rightarrow> ('k, 'v) pdict" where
  "ddel k d = filter (\<lambda>p. fst p \<noteq> k) d"

definition dkeys :: "('k, 'v) pdict \<Rightarrow> 'k list" where
  "dkeys d = map fst d"

definition dget_or :: "('k, 'v) pdict \<Rightarrow> 'k \<Rightarrow> 'v \<Rightarrow> 'v" where
  "dget_or d k v = (case dget d k of None \<Rightarrow> v | Some w \<Rightarrow> w)"

definition dict_ok :: "('k, 'v) pdict \<Rightarrow> bool" where
  "dict_ok d \<longleftrightarrow> distinct (dkeys d)"

lemma dget_Nil [simp, dict_simps]: "dget [] k = None"
  by (simp add: dget_def)

lemma dget_Cons [simp, dict_simps]:
  "dget ((k, v) # d) k' = (if k' = k then Some v else dget d k')"
  by (simp add: dget_def)

lemma dget_dput [simp, dict_simps]:
  "dget (dput k v d) k' = (if k' = k then Some v else dget d k')"
  by (induction d) auto

lemma dget_ddel [simp, dict_simps]:
  "dget (ddel k d) k' = (if k' = k then None else dget d k')"
  unfolding ddel_def by (induction d) auto

lemma dget_eq_None_iff: "dget d k = None \<longleftrightarrow> k \<notin> set (dkeys d)"
  unfolding dget_def dkeys_def by (simp add: map_of_eq_None_iff)

lemma dkeys_Nil [simp]: "dkeys [] = []"
  and dkeys_Cons [simp]: "dkeys (p # d) = fst p # dkeys d"
  by (simp_all add: dkeys_def)

lemma set_dkeys_dput [simp]: "set (dkeys (dput k v d)) = insert k (set (dkeys d))"
  by (induction k v d rule: dput.induct) (simp_all add: insert_commute)

lemma set_dkeys_ddel [simp]: "set (dkeys (ddel k d)) = set (dkeys d) - {k}"
  by (auto simp: ddel_def dkeys_def)

lemma dkeys_dput:
  "dkeys (dput k v d) = (if k \<in> set (dkeys d) then dkeys d else dkeys d @ [k])"
  by (induction d) auto

lemma dkeys_ddel: "dkeys (ddel k d) = filter (\<lambda>x. x \<noteq> k) (dkeys d)"
  unfolding ddel_def by (induction d) auto

lemma dict_ok_Nil [simp, dict_intros]: "dict_ok []"
  by (simp add: dict_ok_def)

lemma dict_ok_dput [simp, dict_intros]: "dict_ok d \<Longrightarrow> dict_ok (dput k v d)"
  by (auto simp: dict_ok_def dkeys_dput)

lemma dict_ok_ddel [simp, dict_intros]: "dict_ok d \<Longrightarrow> dict_ok (ddel k d)"
  by (auto simp: dict_ok_def dkeys_ddel)

lemma dget_in_set: "dget d k = Some v \<Longrightarrow> (k, v) \<in> set d"
  unfolding dget_def by (rule map_of_SomeD)

lemma dget_iff_in_set: "dict_ok d \<Longrightarrow> dget d k = Some v \<longleftrightarrow> (k, v) \<in> set d"
  by (simp add: dget_def dict_ok_def dkeys_def map_of_eq_Some_iff)

lemma dict_keys_cases:
  obtains (absent) "k \<notin> set (dkeys d)" "dget d k = None"
  | (present) v where "k \<in> set (dkeys d)" "dget d k = Some v"
  by (cases "dget d k") (use dget_eq_None_iff [of d k] in auto)

lemma length_ddel_le: "length (ddel k d) \<le> length d"
  by (simp add: ddel_def)

lemma length_ddel_absent: "k \<notin> set (dkeys d) \<Longrightarrow> ddel k d = d"
  unfolding ddel_def by (induction d) auto

lemma length_dput_present: "k \<in> set (dkeys d) \<Longrightarrow> length (dput k v d) = length d"
  by (induction d) auto

lemma length_dput_absent: "k \<notin> set (dkeys d) \<Longrightarrow> dput k v d = d @ [(k, v)]"
  by (induction d) auto

subsection \<open>The dictionary interface\<close>

text \<open>
  What the components rely on when they keep state in a dictionary, whether it is the
  in-memory \<open>dict\<close> or the SQLite table that mirrors it: lookups after a store and after
  a delete, and an invariant every operation keeps.
\<close>

locale dictionary =
  fixes lookup :: "'d \<Rightarrow> 'k \<Rightarrow> 'v option"
    and store :: "'k \<Rightarrow> 'v \<Rightarrow> 'd \<Rightarrow> 'd"
    and remove :: "'k \<Rightarrow> 'd \<Rightarrow> 'd"
    and ok :: "'d \<Rightarrow> bool"
  assumes lookup_store: "ok d \<Longrightarrow> lookup (store k v d) = (lookup d)(k \<mapsto> v)"
    and lookup_remove: "ok d \<Longrightarrow> lookup (remove k d) = (lookup d)(k := None)"
    and ok_store: "ok d \<Longrightarrow> ok (store k v d)"
    and ok_remove: "ok d \<Longrightarrow> ok (remove k d)"
begin

lemma remove_store_same:
  "ok d \<Longrightarrow> lookup (remove k (store k v d)) = (lookup d)(k := None)"
  by (simp add: lookup_store lookup_remove ok_store)

lemma store_store_same:
  "ok d \<Longrightarrow> lookup (store k w (store k v d)) = (lookup d)(k \<mapsto> w)"
  by (simp add: lookup_store ok_store)

lemma store_all:
  "ok d \<Longrightarrow> lookup (fold (\<lambda>(k, v). store k v) kvs d) = lookup d ++ map_of (rev kvs)
    \<and> ok (fold (\<lambda>(k, v). store k v) kvs d)"
proof (induction kvs arbitrary: d)
  case Nil
  then show ?case by simp
next
  case (Cons kv kvs)
  obtain k v where kv: "kv = (k, v)" by (cases kv)
  from Cons.prems have "ok (store k v d)" by (rule ok_store)
  from Cons.IH [OF this] show ?case
    using Cons.prems by (simp add: kv lookup_store map_add_def fun_eq_iff split: option.splits)
qed

lemma remove_all:
  "ok d \<Longrightarrow> lookup (fold remove ks d) = (\<lambda>x. if x \<in> set ks then None else lookup d x)
    \<and> ok (fold remove ks d)"
  by (induction ks arbitrary: d) (auto simp: lookup_remove ok_remove fun_eq_iff)

end

interpretation pd: dictionary dget dput ddel dict_ok
  by unfold_locales (auto simp: fun_eq_iff)

subsection \<open>Python strings\<close>

text \<open>\<open>s.startswith(p)\<close>, \<open>p in s\<close> and \<open>s.split(c)[0]\<close>.\<close>

fun starts_with :: "string \<Rightarrow> string \<Rightarrow> bool" where
  "starts_with [] s = True"
| "starts_with (c # p) [] = False"
| "starts_with (c # p) (d # s) = (c = d \<and> starts_with p s)"

lemma starts_with_append [simp]: "starts_with p (p @ s)"
  by (induction p) auto

lemma starts_with_iff: "starts_with p s \<longleftrightarrow> (\<exists>t. s = p @ t)"
  by (induction p s rule: starts_with.induct) auto

fun contains_str :: "string \<Rightarrow> string \<Rightarrow> bool" where
  "contains_str p [] = (p = [])"
| "contains_str p (c # s) = (starts_with p (c # s) \<or> contains_str p s)"

lemma contains_str_iff: "contains_str p s \<longleftrightarrow> (\<exists>t u. s = t @ p @ u)"
proof (induction s)
  case Nil
  then show ?case by auto
next
  case (Cons c s)
  show ?case
  proof
    assume "contains_str p (c # s)"
    then consider "starts_with p (c # s)" | "contains_str p s" by auto
    then show "\<exists>t u. c # s = t @ p @ u"
    proof cases
      case 1
      then obtain u where "c # s = [] @ p @ u" by (auto simp: starts_with_iff)
      then show ?thesis by blast
    next
      case 2
      then obtain t u where "s = t @ p @ u" using Cons.IH by blast
      then have "c # s = (c # t) @ p @ u" by simp
      then show ?thesis by blast
    qed
  next
    assume "\<exists>t u. c # s = t @ p @ u"
    then obtain t u where eq: "c # s = t @ p @ u" by blast
    show "contains_str p (c # s)"
    proof (cases t)
      case Nil
      with eq have "starts_with p (c # s)" by (auto simp: starts_with_iff)
      then show ?thesis by simp
    next
      case (Cons d t')
      with eq have "s = t' @ p @ u" by simp
      then have "contains_str p s" using Cons.IH by blast
      then show ?thesis by simp
    qed
  qed
qed

definition prefix_before :: "char \<Rightarrow> string \<Rightarrow> string" where
  "prefix_before c s = takeWhile (\<lambda>x. x \<noteq> c) s"

end
