(* ===== verification/Binary64.thy ===== *)
theory Binary64
  imports Prelude "HOL-Library.Log_Nat"
begin

text \<open>
  Python floats. A finite binary64 value is modelled by the rational number it denotes;
  every arithmetic operation of the code is the exact rational operation followed by
  \<open>fl\<close>, rounding to nearest with ties to even at 53 significant bits (subnormals
  included), which is the IEEE 754 semantics CPython inherits. Not modelled: overflow to
  infinity (no upper bound on the exponent), NaN and the sign of zero. \<open>py_round\<close> is
  \<open>round(x, n)\<close>, \<open>py_trunc\<close> is \<open>int(x)\<close>, \<open>py_sum\<close> is
  the built-in \<open>sum\<close> of Python 3.12 and later, which compensates
  (Neumaier) as soon as a float is seen.
\<close>

type_synonym f64 = rat

subsection \<open>Round half to even\<close>

definition rhe :: "rat \<Rightarrow> int" where
  "rhe x = (let f = \<lfloor>x\<rfloor>; d = x - of_int f in
     if 2 * d < 1 then f else if 2 * d > 1 then f + 1 else if even f then f else f + 1)"

lemma rhe_of_int [simp]: "rhe (of_int n) = n"
  by (simp add: rhe_def Let_def)

lemma rhe_bounds: "\<bar>of_int (rhe x) - x\<bar> \<le> 1 / 2"
proof -
  have "of_int \<lfloor>x\<rfloor> \<le> x" "x < of_int \<lfloor>x\<rfloor> + 1" by linarith+
  then show ?thesis by (auto simp: rhe_def Let_def abs_le_iff)
qed

lemma rhe_mono: "x \<le> y \<Longrightarrow> rhe x \<le> rhe y"
proof -
  assume le: "x \<le> y"
  have fl: "\<lfloor>x\<rfloor> \<le> \<lfloor>y\<rfloor>" using le by (rule floor_mono)
  have up: "rhe x \<le> \<lfloor>x\<rfloor> + 1" and lo: "\<lfloor>y\<rfloor> \<le> rhe y"
    by (simp_all add: rhe_def Let_def)
  show ?thesis
  proof (cases "\<lfloor>x\<rfloor> = \<lfloor>y\<rfloor>")
    case True
    then show ?thesis using le by (auto simp: rhe_def Let_def)
  next
    case False
    with fl up lo show ?thesis by linarith
  qed
qed

lemma rhe_minus: "rhe (- x) = - rhe x"
proof (cases "x = of_int \<lfloor>x\<rfloor>")
  case True
  then have "rhe (- x) = rhe (of_int (- \<lfloor>x\<rfloor>))" by simp
  also have "\<dots> = - rhe x" using True by (metis rhe_of_int)
  finally show ?thesis .
next
  case False
  then have "\<lfloor>- x\<rfloor> = - \<lfloor>x\<rfloor> - 1"
    by linarith
  then show ?thesis by (auto simp: rhe_def Let_def)
qed

lemma rhe_0 [simp]: "rhe 0 = 0"
  using rhe_of_int [of 0] by simp

lemma rhe_ge_int: "of_int n \<le> x \<Longrightarrow> n \<le> rhe x"
  using rhe_mono [of "of_int n" x] by simp

lemma rhe_le_int: "x \<le> of_int n \<Longrightarrow> rhe x \<le> n"
  using rhe_mono [of x "of_int n"] by simp

subsection \<open>The binary exponent\<close>

definition rexp :: "rat \<Rightarrow> int" where
  "rexp x = (case quotient_of \<bar>x\<bar> of (p, q) \<Rightarrow>
     let e = bitlen p - bitlen q in if 2 powi e \<le> \<bar>x\<bar> then e else e - 1)"

lemma powi_2_pos [simp]: "(0::rat) < 2 powi e"
  by (simp add: zero_less_power_int)

lemma powi_2_mono: "a \<le> b \<Longrightarrow> (2::rat) powi a \<le> 2 powi b"
  by (simp add: power_int_increasing)

lemma powi_2_less_iff: "(2::rat) powi a < 2 powi b \<longleftrightarrow> a < b"
  by (metis linorder_not_le power_int_strict_increasing powi_2_mono one_less_numeral_iff semiring_norm(76))

lemma powi_2_nat: "0 \<le> e \<Longrightarrow> (2::rat) powi e = of_int (2 ^ nat e)"
  by (simp add: power_int_def)

lemma powi_2_add: "(2::rat) powi (a + b) = 2 powi a * 2 powi b"
  by (simp add: power_int_add)

lemma bitlen_bounds_rat:
  assumes "0 < n"
  shows "(2::rat) powi (bitlen n - 1) \<le> of_int n" "of_int n < (2::rat) powi (bitlen n)"
proof -
  have b: "1 \<le> bitlen n" using assms by (simp add: bitlen_def compute_floorlog)
  from bitlen_bounds [OF assms]
  have "2 ^ nat (bitlen n - 1) \<le> n" "n < 2 ^ nat (bitlen n)" by simp_all
  then have "(of_int (2 ^ nat (bitlen n - 1)) :: rat) \<le> of_int n"
    "(of_int n :: rat) < of_int (2 ^ nat (bitlen n))"
    by (simp_all only: of_int_le_iff of_int_less_iff)
  then show "(2::rat) powi (bitlen n - 1) \<le> of_int n" "of_int n < (2::rat) powi (bitlen n)"
    using b by (simp_all add: powi_2_nat)
qed

lemma rexp_bounds:
  assumes "x \<noteq> 0"
  shows "2 powi (rexp x) \<le> \<bar>x\<bar>" "\<bar>x\<bar> < 2 powi (rexp x + 1)"
proof -
  obtain p q where pq: "quotient_of \<bar>x\<bar> = (p, q)" by (cases "quotient_of \<bar>x\<bar>")
  have q: "0 < q" using pq by (rule quotient_of_denom_pos)
  have x: "\<bar>x\<bar> = of_int p / of_int q" using pq by (rule quotient_of_div)
  have p: "0 < p"
  proof -
    have "0 < \<bar>x\<bar>" using assms by simp
    then show ?thesis using x q by (simp add: zero_less_divide_iff)
  qed
  let ?e = "bitlen p - bitlen q"
  note P = bitlen_bounds_rat [OF p] and Q = bitlen_bounds_rat [OF q]
  have "\<bar>x\<bar> < 2 powi (bitlen p) / 2 powi (bitlen q - 1)"
    unfolding x using P Q p q by (intro frac_less) auto
  also have "\<dots> = 2 powi (?e + 1)" by (simp add: power_int_diff power_int_add)
  finally have hi: "\<bar>x\<bar> < 2 powi (?e + 1)" .
  have "2 powi (?e - 1) = 2 powi (bitlen p - 1) / (2::rat) powi (bitlen q)"
    by (simp add: power_int_diff)
  also have "\<dots> \<le> \<bar>x\<bar>"
    unfolding x using P Q p q by (intro frac_le) auto
  finally have lo: "2 powi (?e - 1) \<le> \<bar>x\<bar>" .
  show "2 powi (rexp x) \<le> \<bar>x\<bar>" "\<bar>x\<bar> < 2 powi (rexp x + 1)"
    using hi lo by (auto simp: rexp_def pq Let_def)
qed

lemma rexp_mono: "x \<noteq> 0 \<Longrightarrow> \<bar>x\<bar> \<le> \<bar>y\<bar> \<Longrightarrow> rexp x \<le> rexp y"
proof -
  assume x: "x \<noteq> 0" and le: "\<bar>x\<bar> \<le> \<bar>y\<bar>"
  then have "y \<noteq> 0" by auto
  with x le rexp_bounds [of x] rexp_bounds [of y]
  have "(2::rat) powi (rexp x) < 2 powi (rexp y + 1)" by linarith
  then show ?thesis by (simp add: powi_2_less_iff)
qed

lemma rexp_minus [simp]: "rexp (- x) = rexp x"
  by (simp add: rexp_def)

subsection \<open>Rounding to binary64\<close>

definition ulp_exp :: "rat \<Rightarrow> int" where
  "ulp_exp x = max (rexp x - 52) (- 1074)"

definition fl :: "rat \<Rightarrow> f64" where
  "fl x = (if x = 0 then 0
     else let e = ulp_exp x in of_int (rhe (x * 2 powi (- e))) * 2 powi e)"

text \<open>The values a finite float can take: those rounding leaves alone.\<close>

definition is_f64 :: "rat \<Rightarrow> bool" where
  "is_f64 x \<longleftrightarrow> fl x = x"

lemma fl_0 [simp]: "fl 0 = 0"
  by (simp add: fl_def)

lemma fl_minus: "fl (- x) = - fl x"
  by (simp add: fl_def ulp_exp_def Let_def rhe_minus)

lemma powi_2_cancel [simp]: "(2::rat) powi (- e) * 2 powi e = 1"
  by (simp add: power_int_minus)

lemma fl_grid: "x \<noteq> 0 \<Longrightarrow> x = of_int m * 2 powi (ulp_exp x) \<Longrightarrow> fl x = x"
proof -
  assume nz: "x \<noteq> 0" and x: "x = of_int m * 2 powi (ulp_exp x)"
  have "x * 2 powi (- ulp_exp x) = of_int m * (2 powi (ulp_exp x) * 2 powi (- ulp_exp x))"
    by (subst x) (simp only: mult.assoc)
  then have "x * 2 powi (- ulp_exp x) = of_int m"
    by (simp add: power_int_minus)
  then have "fl x = of_int m * 2 powi (ulp_exp x)"
    using nz by (simp add: fl_def Let_def)
  with x show ?thesis by simp
qed

lemma scale_le: "(x::rat) \<le> y \<Longrightarrow> x * 2 powi e \<le> y * 2 powi e"
  by (simp add: mult_right_mono less_imp_le)

lemma ulp_exp_mono: "x \<noteq> 0 \<Longrightarrow> \<bar>x\<bar> \<le> \<bar>y\<bar> \<Longrightarrow> ulp_exp x \<le> ulp_exp y"
  using rexp_mono [of x y] by (auto simp: ulp_exp_def)

lemma fl_pos_mono:
  assumes pos: "0 < x" and le: "x \<le> y"
  shows "fl x \<le> fl y"
proof -
  have y: "0 < y" and nx: "x \<noteq> 0" and ny: "y \<noteq> 0" using assms by auto
  have flx: "fl x = of_int (rhe (x * 2 powi (- ulp_exp x))) * 2 powi (ulp_exp x)"
    and fly: "fl y = of_int (rhe (y * 2 powi (- ulp_exp y))) * 2 powi (ulp_exp y)"
    using nx ny by (simp_all add: fl_def Let_def)
  have u: "ulp_exp x \<le> ulp_exp y" using nx le pos by (intro ulp_exp_mono) auto
  show ?thesis
  proof (cases "ulp_exp x = ulp_exp y")
    case True
    have "rhe (x * 2 powi (- ulp_exp y)) \<le> rhe (y * 2 powi (- ulp_exp y))"
      by (intro rhe_mono scale_le le)
    then have "(of_int (rhe (x * 2 powi (- ulp_exp y))) :: rat) \<le> of_int (rhe (y * 2 powi (- ulp_exp y)))"
      by simp
    then show ?thesis unfolding flx fly True by (rule scale_le)
  next
    case False
    let ?b = "rexp y"
    from False u have uy: "ulp_exp y = ?b - 52" and lt: "ulp_exp x < ?b - 52"
      by (auto simp: ulp_exp_def split: if_splits)
    have rx: "rexp x + 1 \<le> ?b" using lt by (auto simp: ulp_exp_def)
    have xb: "x \<le> 2 powi ?b"
    proof -
      have "x < 2 powi (rexp x + 1)" using rexp_bounds(2) [OF nx] pos by simp
      also have "\<dots> \<le> 2 powi ?b" using rx by (rule powi_2_mono)
      finally show ?thesis by simp
    qed
    have "x * 2 powi (- ulp_exp x) \<le> 2 powi ?b * 2 powi (- ulp_exp x)"
      using xb by (rule scale_le)
    also have "\<dots> = 2 powi (?b - ulp_exp x)" by (simp add: powi_2_add [symmetric])
    also have "\<dots> = of_int (2 ^ nat (?b - ulp_exp x))" using lt by (intro powi_2_nat) simp
    finally have "rhe (x * 2 powi (- ulp_exp x)) \<le> 2 ^ nat (?b - ulp_exp x)" by (rule rhe_le_int)
    then have "(of_int (rhe (x * 2 powi (- ulp_exp x))) :: rat) \<le> of_int (2 ^ nat (?b - ulp_exp x))"
      by (simp only: of_int_le_iff)
    also have "\<dots> = 2 powi (?b - ulp_exp x)" using lt by (intro powi_2_nat [symmetric]) simp
    finally have "fl x \<le> 2 powi (?b - ulp_exp x) * 2 powi (ulp_exp x)"
      unfolding flx by (rule scale_le)
    also have "\<dots> = 2 powi ?b" by (simp add: powi_2_add [symmetric])
    finally have left: "fl x \<le> 2 powi ?b" .
    have "2 powi ?b \<le> y" using rexp_bounds(1) [OF ny] y by simp
    then have "2 powi ?b * 2 powi (- ulp_exp y) \<le> y * 2 powi (- ulp_exp y)" by (rule scale_le)
    then have "of_int (2 ^ 52) \<le> y * 2 powi (- ulp_exp y)"
      by (simp add: uy powi_2_add [symmetric])
    then have "2 ^ 52 \<le> rhe (y * 2 powi (- ulp_exp y))" by (rule rhe_ge_int)
    then have "(of_int (2 ^ 52) :: rat) \<le> of_int (rhe (y * 2 powi (- ulp_exp y)))"
      by (simp only: of_int_le_iff)
    then have "of_int (2 ^ 52) * 2 powi (ulp_exp y) \<le> fl y" unfolding fly by (rule scale_le)
    moreover have "of_int (2 ^ 52) * (2::rat) powi (ulp_exp y) = 2 powi ?b"
      by (simp add: uy power_int_diff)
    ultimately show ?thesis using left by linarith
  qed
qed

lemma fl_nonneg: "0 \<le> x \<Longrightarrow> 0 \<le> fl x"
proof (cases "x = 0")
  case False
  assume "0 \<le> x"
  then have "of_int 0 \<le> x * 2 powi (- ulp_exp x)" by (simp add: less_imp_le)
  then have "0 \<le> rhe (x * 2 powi (- ulp_exp x))" by (rule rhe_ge_int)
  then show ?thesis by (simp add: fl_def Let_def less_imp_le)
qed simp

lemma fl_mono: "x \<le> y \<Longrightarrow> fl x \<le> fl y"
proof -
  assume le: "x \<le> y"
  consider "0 < x" | "x \<le> 0" "0 \<le> y" | "y < 0" by linarith
  then show ?thesis
  proof cases
    case 1
    then show ?thesis using le by (rule fl_pos_mono)
  next
    case 2
    have "0 \<le> fl (- x)" using 2 by (intro fl_nonneg) simp
    moreover have "0 \<le> fl y" using 2 by (intro fl_nonneg)
    ultimately show ?thesis by (simp add: fl_minus)
  next
    case 3
    have "fl (- y) \<le> fl (- x)" using 3 le by (intro fl_pos_mono) auto
    then show ?thesis by (simp add: fl_minus)
  qed
qed


subsection \<open>Representable values\<close>

lemma fl_repr:
  assumes m: "\<bar>m\<bar> \<le> 2 ^ 53" and u: "- 1074 \<le> u"
  shows "fl (of_int m * 2 powi u) = of_int m * 2 powi u"
proof (cases "m = 0")
  case False
  let ?z = "of_int m * 2 powi u :: rat"
  have nz: "?z \<noteq> 0" using False by simp
  have absz: "\<bar>?z\<bar> = of_int \<bar>m\<bar> * 2 powi u" by (simp add: abs_mult)
  show ?thesis
  proof (cases "\<bar>m\<bar> = 2 ^ 53")
    case True
    have z: "\<bar>?z\<bar> = 2 powi (53 + u)" unfolding absz True by (simp add: power_int_add)
    have "(2::rat) powi (rexp ?z) \<le> 2 powi (53 + u)" "2 powi (53 + u) < (2::rat) powi (rexp ?z + 1)"
      using rexp_bounds [OF nz] z by simp_all
    then have "rexp ?z = 53 + u"
      by (metis add.commute linorder_not_less powi_2_less_iff zless_add1_eq order_antisym_conv)
    then have ue: "ulp_exp ?z = u + 1" using u by (simp add: ulp_exp_def)
    obtain k :: int where "m = 2 * k" using True by (metis abs_eq_iff' dvdE dvd_minus_iff dvd_power zero_less_numeral)
    then have "?z = of_int k * 2 powi (ulp_exp ?z)" unfolding ue by (simp add: power_int_add)
    then show ?thesis by (rule fl_grid [OF nz])
  next
    case lt: False
    have "\<bar>m\<bar> < 2 ^ 53" using m lt by simp
    then have "(of_int \<bar>m\<bar> :: rat) < of_int (2 ^ 53)" by (simp only: of_int_less_iff)
    then have "\<bar>?z\<bar> < of_int (2 ^ 53) * 2 powi u" unfolding absz by (rule mult_strict_right_mono) simp
    then have "\<bar>?z\<bar> < 2 powi (53 + u)" by (simp add: power_int_add)
    with rexp_bounds(1) [OF nz] have "(2::rat) powi (rexp ?z) < 2 powi (53 + u)" by linarith
    then have "rexp ?z < 53 + u" by (simp only: powi_2_less_iff)
    then have ue: "ulp_exp ?z \<le> u" using u by (simp add: ulp_exp_def)
    let ?k = "u - ulp_exp ?z"
    have "?z = of_int m * (2 powi ?k * 2 powi (ulp_exp ?z))"
      by (simp add: powi_2_add [symmetric])
    also have "(2::rat) powi ?k = of_int (2 ^ nat ?k)" using ue by (intro powi_2_nat) simp
    finally have "?z = of_int (m * 2 ^ nat ?k) * 2 powi (ulp_exp ?z)"
      by (simp only: of_int_mult mult.assoc)
    then show ?thesis by (rule fl_grid [OF nz])
  qed
qed simp

lemma fl_idem [simp]: "fl (fl x) = fl x"
proof (cases "x = 0")
  case False
  let ?u = "ulp_exp x" and ?m = "rhe (x * 2 powi (- ulp_exp x))"
  have eq: "fl x = of_int ?m * 2 powi ?u" using False by (simp add: fl_def Let_def)
  have "\<bar>x * 2 powi (- ?u)\<bar> \<le> 2 powi (rexp x + 1) * 2 powi (- ?u)"
    using rexp_bounds(2) [OF False] by (simp add: abs_mult scale_le less_imp_le)
  also have "\<dots> = 2 powi (rexp x + 1 - ?u)" by (simp add: powi_2_add [symmetric])
  also have "\<dots> \<le> 2 powi 53" by (rule powi_2_mono) (simp add: ulp_exp_def)
  finally have b: "\<bar>x * 2 powi (- ?u)\<bar> \<le> of_int (2 ^ 53)" by simp
  then have "x * 2 powi (- ?u) \<le> of_int (2 ^ 53)" "of_int (- (2 ^ 53)) \<le> x * 2 powi (- ?u)"
    by (simp_all add: abs_le_iff)
  then have "?m \<le> 2 ^ 53" "- (2 ^ 53) \<le> ?m" by (blast intro: rhe_le_int rhe_ge_int)+
  then have "\<bar>?m\<bar> \<le> 2 ^ 53" by linarith
  then show ?thesis unfolding eq by (rule fl_repr) (simp add: ulp_exp_def)
qed simp

lemma fl_of_int: "\<bar>n\<bar> \<le> 2 ^ 53 \<Longrightarrow> fl (of_int n) = of_int n"
  using fl_repr [of n 0] by simp

lemma is_f64_fl [simp]: "is_f64 (fl x)"
  by (simp add: is_f64_def)

lemma fl_error:
  assumes "x \<noteq> 0"
  shows "\<bar>fl x - x\<bar> \<le> 2 powi (ulp_exp x - 1)"
proof -
  let ?u = "ulp_exp x"
  have "\<bar>of_int (rhe (x * 2 powi (- ?u))) - x * 2 powi (- ?u)\<bar> * 2 powi ?u \<le> 1 / 2 * 2 powi ?u"
    by (rule mult_right_mono [OF rhe_bounds]) simp
  then have "\<bar>(of_int (rhe (x * 2 powi (- ?u))) - x * 2 powi (- ?u)) * 2 powi ?u\<bar> \<le> 1 / 2 * 2 powi ?u"
    by (simp add: abs_mult)
  moreover have "(of_int (rhe (x * 2 powi (- ?u))) - x * 2 powi (- ?u)) * 2 powi ?u = fl x - x"
    using assms by (simp add: fl_def Let_def left_diff_distrib mult.assoc)
  ultimately show ?thesis by (simp add: power_int_diff)
qed

subsection \<open>The rounding interface\<close>

text \<open>
  Everything the component proofs need of float rounding: it is monotone, idempotent,
  odd, and exact on integers of at most 53 bits.
\<close>

locale rounding =
  fixes rnd :: "rat \<Rightarrow> rat"
  assumes rnd_mono: "x \<le> y \<Longrightarrow> rnd x \<le> rnd y"
    and rnd_idem: "rnd (rnd x) = rnd x"
    and rnd_odd: "rnd (- x) = - rnd x"
    and rnd_int: "\<bar>n\<bar> \<le> 2 ^ 53 \<Longrightarrow> rnd (of_int n) = of_int n"
begin

lemma rnd_zero: "rnd 0 = 0"
  using rnd_int [of 0] by simp

lemma rnd_one: "rnd 1 = 1"
  using rnd_int [of 1] by simp

lemma rnd_nonneg: "0 \<le> x \<Longrightarrow> 0 \<le> rnd x"
  using rnd_mono [of 0 x] rnd_zero by simp

lemma rnd_nonpos: "x \<le> 0 \<Longrightarrow> rnd x \<le> 0"
  using rnd_mono [of x 0] rnd_zero by simp

lemma rnd_le_repr: "x \<le> y \<Longrightarrow> rnd y = y \<Longrightarrow> rnd x \<le> y"
  using rnd_mono [of x y] by simp

lemma rnd_ge_repr: "y \<le> x \<Longrightarrow> rnd y = y \<Longrightarrow> y \<le> rnd x"
  using rnd_mono [of y x] by simp

lemma rnd_le_one: "x \<le> 1 \<Longrightarrow> rnd x \<le> 1"
  using rnd_le_repr [OF _ rnd_one] by simp

lemma rnd_ge_one: "1 \<le> x \<Longrightarrow> 1 \<le> rnd x"
  using rnd_ge_repr [OF _ rnd_one] by simp

lemma rnd_complement: "0 \<le> p \<Longrightarrow> p \<le> 1 \<Longrightarrow> 0 \<le> rnd (1 - p) \<and> rnd (1 - p) \<le> 1"
  by (simp add: rnd_nonneg rnd_le_one)

lemma rnd_sub_cancel: "rnd (x - x) = 0"
  by (simp add: rnd_zero)

lemma rnd_add_increasing: "rnd a = a \<Longrightarrow> 0 \<le> b \<Longrightarrow> a \<le> rnd (a + b)"
  by (rule rnd_ge_repr) simp_all

lemma rnd_sub_decreasing: "rnd a = a \<Longrightarrow> 0 \<le> b \<Longrightarrow> rnd (a - b) \<le> a"
  by (rule rnd_le_repr) simp_all

end

interpretation b64: rounding fl
  by unfold_locales (simp_all add: fl_mono fl_minus fl_of_int)

lemma fl_1 [simp]: "fl 1 = 1"
  by (rule b64.rnd_one)

lemma fl_numeral [simp]: "numeral n \<le> (2::int) ^ 53 \<Longrightarrow> fl (numeral n) = numeral n"
  using fl_of_int [of "numeral n"] by simp

subsection \<open>Float operations of the code\<close>

named_theorems flops \<open>the float operations, unfolded to exact arithmetic and rounding\<close>

definition fadd :: "f64 \<Rightarrow> f64 \<Rightarrow> f64" where [flops]: "fadd a b = fl (a + b)"
definition fsub :: "f64 \<Rightarrow> f64 \<Rightarrow> f64" where [flops]: "fsub a b = fl (a - b)"
definition fmul :: "f64 \<Rightarrow> f64 \<Rightarrow> f64" where [flops]: "fmul a b = fl (a * b)"
definition fdiv :: "f64 \<Rightarrow> f64 \<Rightarrow> f64" where [flops]: "fdiv a b = fl (a / b)"

text \<open>An int operand of a mixed operation is converted to float first.\<close>

definition fint :: "int \<Rightarrow> f64" where [flops]: "fint n = fl (of_int n)"

text \<open>\<open>math.ceil\<close>, \<open>int(x)\<close>, and \<open>round(x, n)\<close> (correctly rounded on the exact binary value).\<close>

definition py_ceil :: "f64 \<Rightarrow> int" where "py_ceil x = \<lceil>x\<rceil>"

definition py_trunc :: "f64 \<Rightarrow> int" where
  "py_trunc x = (if 0 \<le> x then \<lfloor>x\<rfloor> else \<lceil>x\<rceil>)"

definition py_round :: "nat \<Rightarrow> f64 \<Rightarrow> f64" where
  "py_round n x = fl (of_int (rhe (x * 10 ^ n)) / 10 ^ n)"

text \<open>Built-in \<open>sum\<close> over floats: the first item is added to the int 0, the rest compensated.\<close>

fun sum_loop :: "f64 \<Rightarrow> f64 \<Rightarrow> f64 list \<Rightarrow> f64" where
  "sum_loop s c [] = (if c = 0 then s else fadd s c)"
| "sum_loop s c (x # xs) =
     (let t = fadd s x
      in sum_loop t (fadd c (if \<bar>x\<bar> \<le> \<bar>s\<bar> then fadd (fsub s t) x else fadd (fsub x t) s)) xs)"

fun py_sum :: "f64 list \<Rightarrow> f64" where
  "py_sum [] = 0"
| "py_sum (x # xs) = sum_loop (fadd 0 x) 0 xs"

lemma fadd_nonneg [simp]: "0 \<le> a \<Longrightarrow> 0 \<le> b \<Longrightarrow> 0 \<le> fadd a b"
  and fmul_nonneg [simp]: "0 \<le> a \<Longrightarrow> 0 \<le> b \<Longrightarrow> 0 \<le> fmul a b"
  and fdiv_nonneg [simp]: "0 \<le> a \<Longrightarrow> 0 \<le> b \<Longrightarrow> 0 \<le> fdiv a b"
  by (simp_all add: flops b64.rnd_nonneg)

lemma fint_nonneg [simp]: "0 \<le> n \<Longrightarrow> 0 \<le> fint n"
  by (simp add: fint_def b64.rnd_nonneg)

lemma fint_mono: "m \<le> n \<Longrightarrow> fint m \<le> fint n"
  by (simp add: fint_def fl_mono)

lemma fint_0 [simp]: "fint 0 = 0" and fint_1 [simp]: "fint 1 = 1"
  by (simp_all add: fint_def)

lemma fmul_0 [simp]: "fmul 0 a = 0" "fmul a 0 = 0"
  and fsub_self [simp]: "fsub a a = 0"
  by (simp_all add: flops)

lemma fadd_mono: "a \<le> a' \<Longrightarrow> b \<le> b' \<Longrightarrow> fadd a b \<le> fadd a' b'"
  and fsub_mono: "a \<le> a' \<Longrightarrow> b' \<le> b \<Longrightarrow> fsub a b \<le> fsub a' b'"
  by (simp_all add: flops fl_mono)

lemma fmul_mono: "0 \<le> a \<Longrightarrow> a \<le> a' \<Longrightarrow> 0 \<le> b \<Longrightarrow> b \<le> b' \<Longrightarrow> fmul a b \<le> fmul a' b'"
  by (simp add: fmul_def fl_mono mult_mono)

lemma fmul_le_left: "is_f64 a \<Longrightarrow> 0 \<le> a \<Longrightarrow> b \<le> 1 \<Longrightarrow> fmul a b \<le> a"
  unfolding fmul_def is_f64_def by (rule b64.rnd_le_repr) (simp_all add: mult_left_le)

lemma f64_results [simp]:
  "is_f64 (fadd a b)" "is_f64 (fsub a b)" "is_f64 (fmul a b)" "is_f64 (fdiv a b)"
  "is_f64 (fint n)" "is_f64 (py_round k a)"
  by (simp_all add: flops py_round_def)

lemma is_f64_0 [simp]: "is_f64 0" and is_f64_1 [simp]: "is_f64 1"
  by (simp_all add: is_f64_def)

lemma fadd_0 [simp]: "is_f64 a \<Longrightarrow> fadd 0 a = a" "is_f64 a \<Longrightarrow> fadd a 0 = a"
  and fsub_0 [simp]: "is_f64 a \<Longrightarrow> fsub a 0 = a"
  and fmul_1 [simp]: "is_f64 a \<Longrightarrow> fmul 1 a = a" "is_f64 a \<Longrightarrow> fmul a 1 = a"
  by (simp_all add: flops is_f64_def)

lemma py_round_nonneg: "0 \<le> x \<Longrightarrow> 0 \<le> py_round n x"
proof -
  assume "0 \<le> x"
  then have "0 \<le> rhe (x * 10 ^ n)" by (intro rhe_ge_int) simp
  then show ?thesis unfolding py_round_def by (intro b64.rnd_nonneg) simp
qed

lemma py_round_mono: "x \<le> y \<Longrightarrow> py_round n x \<le> py_round n y"
proof -
  assume "x \<le> y"
  then have "rhe (x * 10 ^ n) \<le> rhe (y * 10 ^ n)" by (intro rhe_mono) (simp add: mult_right_mono)
  then show ?thesis unfolding py_round_def by (intro fl_mono divide_right_mono) simp_all
qed

lemma py_trunc_nonneg: "0 \<le> x \<Longrightarrow> 0 \<le> py_trunc x"
  by (simp add: py_trunc_def)

lemma py_trunc_le: "0 \<le> x \<Longrightarrow> of_int (py_trunc x) \<le> x"
  by (simp add: py_trunc_def)

lemma py_trunc_of_int [simp]: "py_trunc (of_int n) = n"
  by (simp add: py_trunc_def)

text \<open>\<open>math.ceil(x * 10 ** 6) / 10 ** 6\<close>, the fee rounding, never rounds a fee down to a negative.\<close>

lemma py_ceil_nonneg: "0 \<le> x \<Longrightarrow> 0 \<le> py_ceil x"
  by (simp add: py_ceil_def ceiling_le_iff zero_le_ceiling order_less_le_trans)

end
