(* ===== verification/PyValues.thy ===== *)
theory PyValues
  imports Binary64
begin

text \<open>
  The dynamically typed values the code receives from Kalshi's REST and WebSocket
  payloads: JSON values with Python's truthiness, \<open>or\<close>, \<open>dict.get\<close>,
  \<open>isinstance(x, int)\<close> and \<open>float(x)\<close>. \<open>float\<close> of a string reads the
  decimal grammar (surrounding blanks, sign, digits, fraction, exponent) and rounds the
  exact decimal once; the spellings \<open>inf\<close>, \<open>nan\<close> and digit-group
  underscores are outside the model.
\<close>

datatype json =
    JNull
  | JBool bool
  | JInt int
  | JFloat f64
  | JStr string
  | JArr "json list"
  | JObj "(string \<times> json) list"

type_synonym msg = "(string, json) pdict"

fun truthy :: "json \<Rightarrow> bool" where
  "truthy JNull = False"
| "truthy (JBool b) = b"
| "truthy (JInt n) = (n \<noteq> 0)"
| "truthy (JFloat x) = (x \<noteq> 0)"
| "truthy (JStr s) = (s \<noteq> [])"
| "truthy (JArr xs) = (xs \<noteq> [])"
| "truthy (JObj d) = (d \<noteq> [])"

text \<open>\<open>msg.get(k)\<close>: a missing key and an explicit null both read as None.\<close>

definition jget :: "msg \<Rightarrow> string \<Rightarrow> json" where
  "jget m k = (case dget m k of None \<Rightarrow> JNull | Some v \<Rightarrow> v)"

definition jor :: "json \<Rightarrow> json \<Rightarrow> json" where
  "jor a b = (if truthy a then a else b)"

text \<open>\<open>x if isinstance(x, int) else None\<close>; \<open>bool\<close> is a subclass of \<open>int\<close>.\<close>

fun as_int_instance :: "json \<Rightarrow> int option" where
  "as_int_instance (JInt n) = Some n"
| "as_int_instance (JBool b) = Some (if b then 1 else 0)"
| "as_int_instance _ = None"

subsection \<open>ASCII case\<close>

definition ascii_lower :: "char \<Rightarrow> char" where
  "ascii_lower c = (let n = of_char c :: nat in if 65 \<le> n \<and> n \<le> 90 then char_of (n + 32) else c)"

definition ascii_upper :: "char \<Rightarrow> char" where
  "ascii_upper c = (let n = of_char c :: nat in if 97 \<le> n \<and> n \<le> 122 then char_of (n - 32) else c)"

definition str_lower :: "string \<Rightarrow> string" where "str_lower s = map ascii_lower s"
definition str_upper :: "string \<Rightarrow> string" where "str_upper s = map ascii_upper s"

lemma ascii_lower_idem: "ascii_lower (ascii_lower c) = ascii_lower c"
  by (auto simp: ascii_lower_def Let_def of_char_of)

lemma str_lower_idem [simp]: "str_lower (str_lower s) = str_lower s"
  by (simp add: str_lower_def ascii_lower_idem)

definition is_blank :: "char \<Rightarrow> bool" where
  "is_blank c = (let n = of_char c :: nat in n = 32 \<or> (9 \<le> n \<and> n \<le> 13) \<or> (28 \<le> n \<and> n \<le> 31))"

definition str_strip :: "string \<Rightarrow> string" where
  "str_strip s = rev (dropWhile is_blank (rev (dropWhile is_blank s)))"

subsection \<open>Decimal strings\<close>

definition digit_of :: "char \<Rightarrow> int option" where
  "digit_of c = (let n = of_char c :: nat in if 48 \<le> n \<and> n \<le> 57 then Some (int n - 48) else None)"

definition is_digit :: "char \<Rightarrow> bool" where
  "is_digit c = (digit_of c \<noteq> None)"

fun digits_value :: "int \<Rightarrow> string \<Rightarrow> int" where
  "digits_value acc [] = acc"
| "digits_value acc (c # s) =
     digits_value (acc * 10 + (case digit_of c of None \<Rightarrow> 0 | Some d \<Rightarrow> d)) s"

definition take_sign :: "string \<Rightarrow> int \<times> string" where
  "take_sign s = (case s of
      c # r \<Rightarrow> if c = CHR ''-'' then (- 1, r) else if c = CHR ''+'' then (1, r) else (1, s)
    | [] \<Rightarrow> (1, s))"

text \<open>\<open>[sign] digits [. digits] [e [sign] digits]\<close>, at least one mantissa digit.\<close>

definition parse_exponent :: "string \<Rightarrow> int option" where
  "parse_exponent s = (case s of
      [] \<Rightarrow> Some 0
    | c # r \<Rightarrow>
        if c = CHR ''e'' \<or> c = CHR ''E'' then
          (let (sg, ds) = take_sign r in
           if ds \<noteq> [] \<and> list_all is_digit ds then Some (sg * digits_value 0 ds) else None)
        else None)"

definition parse_decimal :: "string \<Rightarrow> rat option" where
  "parse_decimal str =
     (let (sg, s) = take_sign (str_strip str);
          ip = takeWhile is_digit s; r = dropWhile is_digit s;
          (fp, r') = (case r of
              c # t \<Rightarrow> if c = CHR ''.'' then (takeWhile is_digit t, dropWhile is_digit t) else ([], r)
            | [] \<Rightarrow> ([], r))
      in if ip = [] \<and> fp = [] then None
         else case parse_exponent r' of None \<Rightarrow> None
           | Some e \<Rightarrow>
               Some (of_int sg * of_int (digits_value 0 (ip @ fp)) * 10 powi (e - int (length fp))))"

definition py_float_str :: "string \<Rightarrow> f64 option" where
  "py_float_str s = map_option fl (parse_decimal s)"

text \<open>\<open>float(x)\<close>; None stands for the TypeError or ValueError it raises.\<close>

fun py_float :: "json \<Rightarrow> f64 option" where
  "py_float (JInt n) = Some (fint n)"
| "py_float (JFloat x) = Some x"
| "py_float (JBool b) = Some (if b then 1 else 0)"
| "py_float (JStr s) = py_float_str s"
| "py_float _ = None"

lemma jget_absent: "k \<notin> set (dkeys m) \<Longrightarrow> jget m k = JNull"
  by (simp add: jget_def dget_eq_None_iff [THEN iffD2])

lemma jget_dput [simp]: "jget (dput k v m) k' = (if k' = k then v else jget m k')"
  by (simp add: jget_def)

lemma py_float_str_f64: "py_float_str s = Some x \<Longrightarrow> is_f64 x"
  by (auto simp: py_float_str_def)


subsection \<open>Formatting floats\<close>

text \<open>
  \<open>f"{x:.nf}"\<close>, \<open>f"{x:+.nf}"\<close> and \<open>f"{x:.n%}"\<close>: the exact binary
  value rounded half to even to \<open>n\<close> decimals; the percent form multiplies by 100
  (rounding) first.
\<close>

fun show_nat :: "nat \<Rightarrow> string" where
  "show_nat n = (if n < 10 then [char_of (48 + n)] else show_nat (n div 10) @ [char_of (48 + n mod 10)])"

declare show_nat.simps [simp del]

fun pad_zeros :: "nat \<Rightarrow> string \<Rightarrow> string" where
  "pad_zeros n s = replicate (n - length s) (CHR ''0'') @ s"

definition fmt_abs :: "nat \<Rightarrow> rat \<Rightarrow> string" where
  "fmt_abs n x = (let m = nat (rhe (x * 10 ^ n)) in
     if n = 0 then show_nat m
     else show_nat (m div 10 ^ n) @ ''.'' @ pad_zeros n (show_nat (m mod 10 ^ n)))"

definition fmt_fixed :: "nat \<Rightarrow> f64 \<Rightarrow> string" where
  "fmt_fixed n x = (if x < 0 then ''-'' else []) @ fmt_abs n \<bar>x\<bar>"

definition fmt_signed :: "nat \<Rightarrow> f64 \<Rightarrow> string" where
  "fmt_signed n x = (if x < 0 then ''-'' else ''+'') @ fmt_abs n \<bar>x\<bar>"

definition fmt_percent :: "nat \<Rightarrow> f64 \<Rightarrow> string" where
  "fmt_percent n x = fmt_fixed n (fmul x 100) @ ''%''"

lemma show_nat_digits: "list_all is_digit (show_nat n)"
proof (induction n rule: show_nat.induct)
  case (1 n)
  have d: "is_digit (char_of (48 + k))" if "k < 10" for k :: nat
    using that by (simp add: is_digit_def digit_of_def Let_def of_char_of)
  show ?case
  proof (cases "n < 10")
    case True
    then show ?thesis using d [OF True] by (subst show_nat.simps) simp
  next
    case False
    then show ?thesis using "1.IH" d [of "n mod 10"] by (subst show_nat.simps) simp
  qed
qed

end
