(* ===== verification/Contracts.thy ===== *)
theory Contracts
  imports PyValues
begin

text \<open>
  The exchange contract layer, \<open>services/kalshi/contracts/\<close>: outcome-side
  vocabulary, the WebSocket payload readers (trade, fill, ticker, position, lifecycle)
  and the create-order request. Payloads are JSON dictionaries; a reader never raises, a
  malformed field reads as None. The conversion of \<open>ts_ms\<close> to an ISO string
  (\<open>datetime\<close>) is a parameter of \<open>public_trade_from_ws\<close>.
\<close>

subsection \<open>Outcome sides\<close>

datatype outcome_side = Yes | No
datatype book_side = Bid | Ask

definition side_str :: "outcome_side \<Rightarrow> string" where
  "side_str s = (case s of Yes \<Rightarrow> ''yes'' | No \<Rightarrow> ''no'')"

definition AS_OUTCOME_SIDE :: "(string, outcome_side) pdict" where
  "AS_OUTCOME_SIDE = [(''yes'', Yes), (''no'', No)]"

definition BOOK_SIDE_TO_OUTCOME :: "(string, outcome_side) pdict" where
  "BOOK_SIDE_TO_OUTCOME = [(''bid'', Yes), (''ask'', No)]"

text \<open>
  \<open>str(msg.get(k) or "").lower()\<close> used as a key of one of the two tables: the text of
  a value that is not a string (\<open>str\<close> of a number, list or object) is never a key.
\<close>

definition lower_key :: "json \<Rightarrow> string" where
  "lower_key v = (case v of JStr s \<Rightarrow> str_lower s | _ \<Rightarrow> [])"

definition resolve_side :: "json \<Rightarrow> json \<Rightarrow> json \<Rightarrow> outcome_side option" where
  "resolve_side canonical book legacy =
     (case dget AS_OUTCOME_SIDE (lower_key canonical) of
        Some s \<Rightarrow> Some s
      | None \<Rightarrow>
          (case dget BOOK_SIDE_TO_OUTCOME (lower_key book) of
             Some s \<Rightarrow> Some s
           | None \<Rightarrow> dget AS_OUTCOME_SIDE (lower_key legacy)))"

definition resolve_taker_outcome_side :: "msg \<Rightarrow> outcome_side option" where
  "resolve_taker_outcome_side m =
     resolve_side (jget m ''taker_outcome_side'') (jget m ''taker_book_side'') (jget m ''taker_side'')"

definition fill_outcome_side :: "msg \<Rightarrow> outcome_side option" where
  "fill_outcome_side m =
     resolve_side (jget m ''outcome_side'') (jget m ''book_side'') (jget m ''side'')"

subsection \<open>Fixed-point dollars\<close>

definition parse_fixed_point_dollars :: "json \<Rightarrow> f64 option" where
  "parse_fixed_point_dollars v = (case v of JNull \<Rightarrow> None | _ \<Rightarrow> py_float v)"

definition trade_contract_count :: "msg \<Rightarrow> f64 option" where
  "trade_contract_count m = parse_fixed_point_dollars (jget m ''count_fp'')"

definition taker_notional_usd :: "msg \<Rightarrow> string \<Rightarrow> f64 option" where
  "taker_notional_usd m side =
     (let cnt = parse_fixed_point_dollars (jget m ''count_fp'');
          price = parse_fixed_point_dollars
            (if side = ''yes'' then jget m ''yes_price_dollars'' else jget m ''no_price_dollars'')
      in case (cnt, price) of (Some c, Some p) \<Rightarrow> Some (fmul c p) | _ \<Rightarrow> None)"

subsection \<open>Payload readers\<close>

definition msg_ticker :: "msg \<Rightarrow> json" where
  "msg_ticker m = jor (jget m ''market_ticker'') (jget m ''ticker'')"

record public_trade =
  pt_trade_id :: json
  pt_ticker :: json
  pt_outcome_side :: "outcome_side option"
  pt_count :: "f64 option"
  pt_yes_price :: "f64 option"
  pt_no_price :: "f64 option"
  pt_occurred_at :: "string option"
  pt_ts_ms :: "int option"
  pt_raw_payload :: msg

definition public_trade_from_ws :: "(json \<Rightarrow> string option) \<Rightarrow> msg \<Rightarrow> public_trade" where
  "public_trade_from_ws iso_ts m =
     \<lparr> pt_trade_id = jget m ''trade_id'',
       pt_ticker = msg_ticker m,
       pt_outcome_side = resolve_taker_outcome_side m,
       pt_count = parse_fixed_point_dollars (jget m ''count_fp''),
       pt_yes_price = parse_fixed_point_dollars (jget m ''yes_price_dollars''),
       pt_no_price = parse_fixed_point_dollars (jget m ''no_price_dollars''),
       pt_occurred_at = (if jget m ''ts_ms'' = JNull then None else iso_ts (jget m ''ts_ms'')),
       pt_ts_ms = as_int_instance (jget m ''ts_ms''),
       pt_raw_payload = m \<rparr>"

record user_fill =
  uf_trade_id :: json
  uf_ticker :: json
  uf_outcome_side :: "outcome_side option"
  uf_action :: json
  uf_count :: "f64 option"
  uf_yes_price :: "f64 option"
  uf_ts_ms :: "int option"
  uf_raw_payload :: msg

definition user_fill_from_ws :: "msg \<Rightarrow> user_fill" where
  "user_fill_from_ws m =
     \<lparr> uf_trade_id = jget m ''trade_id'',
       uf_ticker = msg_ticker m,
       uf_outcome_side = fill_outcome_side m,
       uf_action = jget m ''action'',
       uf_count = parse_fixed_point_dollars (jget m ''count_fp''),
       uf_yes_price = parse_fixed_point_dollars (jget m ''yes_price_dollars''),
       uf_ts_ms = as_int_instance (jget m ''ts_ms''),
       uf_raw_payload = m \<rparr>"

record ticker_update =
  tu_ticker :: json
  tu_yes_bid :: "f64 option"
  tu_yes_ask :: "f64 option"
  tu_price :: "f64 option"
  tu_ts_ms :: "int option"
  tu_raw_payload :: msg

definition ticker_update_from_ws :: "msg \<Rightarrow> ticker_update" where
  "ticker_update_from_ws m =
     \<lparr> tu_ticker = msg_ticker m,
       tu_yes_bid = parse_fixed_point_dollars (jget m ''yes_bid_dollars''),
       tu_yes_ask = parse_fixed_point_dollars (jget m ''yes_ask_dollars''),
       tu_price = parse_fixed_point_dollars (jget m ''price_dollars''),
       tu_ts_ms = as_int_instance (jget m ''ts_ms''),
       tu_raw_payload = m \<rparr>"

record market_position =
  mp_ticker :: json
  mp_position :: "f64 option"
  mp_position_cost :: "f64 option"
  mp_realized_pnl :: "f64 option"
  mp_fees_paid :: "f64 option"
  mp_raw_payload :: msg

definition market_position_from_ws :: "msg \<Rightarrow> market_position" where
  "market_position_from_ws m =
     \<lparr> mp_ticker = msg_ticker m,
       mp_position = parse_fixed_point_dollars (jget m ''position_fp''),
       mp_position_cost = parse_fixed_point_dollars (jget m ''position_cost_dollars''),
       mp_realized_pnl = parse_fixed_point_dollars (jget m ''realized_pnl_dollars''),
       mp_fees_paid = parse_fixed_point_dollars (jget m ''fees_paid_dollars''),
       mp_raw_payload = m \<rparr>"

text \<open>Only \<open>settled\<close> resolves an outcome. (A JSON array or object here is unhashable and raises TypeError in the code; the documented type is a string or null.)\<close>

definition resolves_outcome :: "json \<Rightarrow> bool" where
  "resolves_outcome event_type = (event_type = JStr ''settled'')"

record lifecycle_event =
  le_ticker :: json
  le_event_type :: json
  le_close_ts :: "int option"
  le_may_resolve_outcome :: bool
  le_raw_payload :: msg

definition lifecycle_event_from_ws :: "msg \<Rightarrow> lifecycle_event" where
  "lifecycle_event_from_ws m =
     \<lparr> le_ticker = msg_ticker m,
       le_event_type = jget m ''event_type'',
       le_close_ts = as_int_instance (jget m ''close_ts''),
       le_may_resolve_outcome = resolves_outcome (jget m ''event_type''),
       le_raw_payload = m \<rparr>"

definition normalize_ticker_key :: "msg \<Rightarrow> msg" where
  "normalize_ticker_key m = dput ''ticker'' (msg_ticker m) m"

subsection \<open>Create order\<close>

record create_order_request =
  co_ticker :: string
  co_side :: string
  co_count :: string
  co_price :: string
  co_time_in_force :: string
  co_self_trade_prevention_type :: string
  co_client_order_id :: "string option"
  co_expiration_time :: "int option"
  co_post_only :: "bool option"
  co_cancel_order_on_pause :: "bool option"
  co_reduce_only :: "bool option"

datatype order_error = SideValueError string

text \<open>\<open>__post_init__\<close>: the side is the YES-leg book vocabulary, else ValueError.\<close>

definition check_order_request :: "create_order_request \<Rightarrow> order_error + create_order_request" where
  "check_order_request r =
     (if co_side r \<in> set [''bid'', ''ask''] then Inr r else Inl (SideValueError (co_side r)))"

definition opt_entry :: "string \<Rightarrow> ('a \<Rightarrow> json) \<Rightarrow> 'a option \<Rightarrow> msg" where
  "opt_entry k f v = (case v of None \<Rightarrow> [] | Some x \<Rightarrow> [(k, f x)])"

definition create_order_kwargs :: "create_order_request \<Rightarrow> msg" where
  "create_order_kwargs r =
     [(''ticker'', JStr (co_ticker r)), (''side'', JStr (co_side r)),
      (''count'', JStr (co_count r)), (''price'', JStr (co_price r)),
      (''time_in_force'', JStr (co_time_in_force r)),
      (''self_trade_prevention_type'', JStr (co_self_trade_prevention_type r))]
     @ opt_entry ''client_order_id'' JStr (co_client_order_id r)
     @ opt_entry ''expiration_time'' JInt (co_expiration_time r)
     @ opt_entry ''post_only'' JBool (co_post_only r)
     @ opt_entry ''cancel_order_on_pause'' JBool (co_cancel_order_on_pause r)
     @ opt_entry ''reduce_only'' JBool (co_reduce_only r)"

subsection \<open>Properties\<close>

text \<open>
  The side of a public trade is never guessed and never overridden by an older field:
  a recognised canonical side wins over whatever the book-side and legacy fields say, the
  book side wins over the legacy field, and a side is read only when one of the three fields
  holds a recognised word, whatever its letter case.
\<close>

theorem trade_side_precedence:
  "resolve_taker_outcome_side m =
     (if lower_key (jget m ''taker_outcome_side'') = ''yes'' then Some Yes
      else if lower_key (jget m ''taker_outcome_side'') = ''no'' then Some No
      else if lower_key (jget m ''taker_book_side'') = ''bid'' then Some Yes
      else if lower_key (jget m ''taker_book_side'') = ''ask'' then Some No
      else if lower_key (jget m ''taker_side'') = ''yes'' then Some Yes
      else if lower_key (jget m ''taker_side'') = ''no'' then Some No
      else None)"
  by (simp add: resolve_taker_outcome_side_def resolve_side_def AS_OUTCOME_SIDE_def BOOK_SIDE_TO_OUTCOME_def)

end
