(* ===== verification/TitleCache.thy ===== *)
theory TitleCache
  imports Contracts
begin

text \<open>
  \<open>services/title_cache.py\<close> and \<open>signal_log.series_of\<close>: the persisted
  market and event metadata (two SQLite tables), the in-memory market-to-event and
  event-to-series indexes kept beside them, and the two lookups the money code makes
  through them, the event-level fee override and the series of a ticker. A table is a
  dictionary keyed by its primary key; an upsert keeps the row's position, as SQLite does.
\<close>

record market_row =
  mr_title :: "string option"
  mr_yes_sub_title :: "string option"
  mr_no_sub_title :: "string option"
  mr_event_ticker :: "string option"

text \<open>The JSON text columns are represented by the values they serialise.\<close>

record event_row =
  er_title :: "string option"
  er_sub_title :: "string option"
  er_category :: "string option"
  er_mutually_exclusive :: "bool option"
  er_competition :: "string option"
  er_competition_scope :: "string option"
  er_series_ticker :: "string option"
  er_available_on_brokers :: "bool option"
  er_collateral_return_type :: "string option"
  er_strike_date :: "string option"
  er_strike_period :: "string option"
  er_fee_type_override :: "string option"
  er_fee_multiplier_override :: "f64 option"
  er_last_updated_ts :: "string option"
  er_product_metadata :: "json option"
  er_settlement_sources :: "json option"

record title_cache =
  tc_market_titles :: "(string, market_row) pdict"
  tc_event_titles :: "(string, event_row) pdict"
  tc_market_event_index :: "(string, string) pdict"
  tc_event_series_index :: "(string, string) pdict"

definition empty_title_cache :: title_cache where
  "empty_title_cache = \<lparr>tc_market_titles = [], tc_event_titles = [],
     tc_market_event_index = [], tc_event_series_index = []\<rparr>"

text \<open>\<open>if event_ticker:\<close> is false for None and for the empty string.\<close>

definition nonempty :: "string option \<Rightarrow> string option" where
  "nonempty s = (case s of None \<Rightarrow> None | Some t \<Rightarrow> if t = [] then None else Some t)"

definition index_put :: "string \<Rightarrow> string option \<Rightarrow> (string, string) pdict \<Rightarrow> (string, string) pdict" where
  "index_put k v d = (case nonempty v of None \<Rightarrow> d | Some w \<Rightarrow> dput k w d)"

definition save_market_titles :: "(string, market_row) pdict \<Rightarrow> title_cache \<Rightarrow> title_cache" where
  "save_market_titles entries tc =
     (if entries = [] then tc
      else tc\<lparr> tc_market_titles := fold (\<lambda>(k, v). dput k v) entries (tc_market_titles tc),
               tc_market_event_index :=
                 fold (\<lambda>(k, v). index_put k (mr_event_ticker v)) entries (tc_market_event_index tc) \<rparr>)"

text \<open>\<open>json.dumps(x) if x else None\<close> on the two structured columns.\<close>

definition dump_if :: "json option \<Rightarrow> json option" where
  "dump_if v = (case v of None \<Rightarrow> None | Some j \<Rightarrow> if truthy j then Some j else None)"

definition stored_event_row :: "event_row \<Rightarrow> event_row" where
  "stored_event_row v = v\<lparr> er_product_metadata := dump_if (er_product_metadata v),
     er_settlement_sources := dump_if (er_settlement_sources v) \<rparr>"

definition save_event_titles :: "(string, event_row) pdict \<Rightarrow> title_cache \<Rightarrow> title_cache" where
  "save_event_titles entries tc =
     (if entries = [] then tc
      else tc\<lparr> tc_event_titles :=
                 fold (\<lambda>(k, v). dput k (stored_event_row v)) entries (tc_event_titles tc),
               tc_event_series_index :=
                 fold (\<lambda>(k, v). index_put k (er_series_ticker v)) entries (tc_event_series_index tc) \<rparr>)"

text \<open>Loading returns the rows and seeds the indexes from them.\<close>

definition load_market_titles :: "title_cache \<Rightarrow> (string, market_row) pdict \<times> title_cache" where
  "load_market_titles tc =
     (tc_market_titles tc,
      tc\<lparr> tc_market_event_index :=
            fold (\<lambda>(k, v). index_put k (mr_event_ticker v)) (tc_market_titles tc) (tc_market_event_index tc) \<rparr>)"

definition loaded_event_row :: "event_row \<Rightarrow> event_row" where
  "loaded_event_row r = r\<lparr>
     er_product_metadata := Some (case er_product_metadata r of None \<Rightarrow> JObj [] | Some j \<Rightarrow> j),
     er_settlement_sources := Some (case er_settlement_sources r of None \<Rightarrow> JArr [] | Some j \<Rightarrow> j) \<rparr>"

definition load_event_titles :: "title_cache \<Rightarrow> (string, event_row) pdict \<times> title_cache" where
  "load_event_titles tc =
     (map (\<lambda>(k, r). (k, loaded_event_row r)) (tc_event_titles tc),
      tc\<lparr> tc_event_series_index :=
            fold (\<lambda>(k, r). index_put k (er_series_ticker r)) (tc_event_titles tc) (tc_event_series_index tc) \<rparr>)"

text \<open>The join of \<open>fee_override_for_ticker\<close>: no row, or a null column, reads as None.\<close>

definition fee_override_for_ticker :: "title_cache \<Rightarrow> string \<Rightarrow> string option \<times> f64 option" where
  "fee_override_for_ticker tc ticker =
     (case dget (tc_market_titles tc) ticker of
        None \<Rightarrow> (None, None)
      | Some m \<Rightarrow>
          (case mr_event_ticker m of
             None \<Rightarrow> (None, None)
           | Some et \<Rightarrow>
               (case dget (tc_event_titles tc) et of
                  None \<Rightarrow> (None, None)
                | Some e \<Rightarrow> (er_fee_type_override e, er_fee_multiplier_override e))))"

definition series_ticker_for :: "title_cache \<Rightarrow> string \<Rightarrow> string option" where
  "series_ticker_for tc ticker =
     (case dget (tc_market_event_index tc) ticker of
        None \<Rightarrow> None
      | Some et \<Rightarrow> dget (tc_event_series_index tc) et)"

definition series_of :: "title_cache \<Rightarrow> string \<Rightarrow> string" where
  "series_of tc ticker =
     (if ticker = [] then ticker
      else case nonempty (series_ticker_for tc ticker) of
          Some sr \<Rightarrow> sr
        | None \<Rightarrow> prefix_before (CHR ''-'') ticker)"

text \<open>A process restart keeps the tables, forgets the indexes and loads both tables.\<close>

definition restart_title_cache :: "title_cache \<Rightarrow> title_cache" where
  "restart_title_cache tc =
     snd (load_event_titles (snd (load_market_titles
       (tc\<lparr> tc_market_event_index := [], tc_event_series_index := [] \<rparr>))))"

subsection \<open>The indexes agree with the tables\<close>

definition market_index_of :: "(string, market_row) pdict \<Rightarrow> string \<Rightarrow> string option" where
  "market_index_of rows t = (case dget rows t of None \<Rightarrow> None | Some r \<Rightarrow> nonempty (mr_event_ticker r))"

definition event_index_of :: "(string, event_row) pdict \<Rightarrow> string \<Rightarrow> string option" where
  "event_index_of rows e = (case dget rows e of None \<Rightarrow> None | Some r \<Rightarrow> nonempty (er_series_ticker r))"

text \<open>
  What every index keeps: a row with a link in its column is indexed under that link.
  (A save that clears a link leaves the old entry in the index; see the root theory.)
\<close>

definition index_covers :: "title_cache \<Rightarrow> bool" where
  "index_covers tc \<longleftrightarrow>
     (\<forall>t e. market_index_of (tc_market_titles tc) t = Some e \<longrightarrow> dget (tc_market_event_index tc) t = Some e) \<and>
     (\<forall>e s. event_index_of (tc_event_titles tc) e = Some s \<longrightarrow> dget (tc_event_series_index tc) e = Some s)"

lemma nonempty_Some_iff: "nonempty v = Some w \<longleftrightarrow> v = Some w \<and> w \<noteq> []"
  by (auto simp: nonempty_def split: option.splits)

lemma dget_index_put:
  "dget (index_put k v d) k' =
     (case nonempty v of None \<Rightarrow> dget d k' | Some w \<Rightarrow> if k' = k then Some w else dget d k')"
  by (simp add: index_put_def split: option.splits)

lemma fold_upsert_index:
  assumes "\<forall>t e. (case dget rows t of None \<Rightarrow> None | Some r \<Rightarrow> nonempty (link r)) = Some e \<longrightarrow> dget ix t = Some e"
  shows "\<forall>t e. (case dget (fold (\<lambda>(k, v). dput k (st v)) entries rows) t of
             None \<Rightarrow> None | Some r \<Rightarrow> nonempty (link r)) = Some e \<longrightarrow>
           dget (fold (\<lambda>(k, v). index_put k (link (st v))) entries ix) t = Some e"
  using assms
proof (induction entries arbitrary: rows ix)
  case Nil
  then show ?case by simp
next
  case (Cons kv entries)
  obtain k v where kv: "kv = (k, v)" by (cases kv)
  have "\<forall>t e. (case dget (dput k (st v) rows) t of None \<Rightarrow> None | Some r \<Rightarrow> nonempty (link r)) = Some e \<longrightarrow>
      dget (index_put k (link (st v)) ix) t = Some e"
    using Cons.prems by (auto simp: dget_index_put split: option.splits)
  from Cons.IH [OF this] show ?case by (simp add: kv)
qed

lemma index_covers_empty: "index_covers empty_title_cache"
  by (simp add: index_covers_def empty_title_cache_def market_index_of_def event_index_of_def)

lemma index_covers_save_market:
  assumes "index_covers tc"
  shows "index_covers (save_market_titles entries tc)"
proof -
  have "\<forall>t e. market_index_of (fold (\<lambda>(k, v). dput k v) entries (tc_market_titles tc)) t = Some e \<longrightarrow>
      dget (fold (\<lambda>(k, v). index_put k (mr_event_ticker v)) entries (tc_market_event_index tc)) t = Some e"
    using fold_upsert_index [where rows = "tc_market_titles tc" and link = mr_event_ticker
        and ix = "tc_market_event_index tc" and st = "\<lambda>v. v" and entries = entries]
      assms by (simp add: index_covers_def market_index_of_def)
  then show ?thesis using assms by (simp add: index_covers_def save_market_titles_def)
qed

lemma index_covers_save_event:
  assumes "index_covers tc"
  shows "index_covers (save_event_titles entries tc)"
proof -
  have "\<forall>t e. event_index_of (fold (\<lambda>(k, v). dput k (stored_event_row v)) entries (tc_event_titles tc)) t = Some e \<longrightarrow>
      dget (fold (\<lambda>(k, v). index_put k (er_series_ticker v)) entries (tc_event_series_index tc)) t = Some e"
    using fold_upsert_index [where rows = "tc_event_titles tc" and link = er_series_ticker
        and ix = "tc_event_series_index tc" and st = stored_event_row and entries = entries]
      assms by (simp add: index_covers_def event_index_of_def stored_event_row_def)
  then show ?thesis using assms by (simp add: index_covers_def save_event_titles_def)
qed

lemma fold_index_put_rows:
  "dict_ok rows \<Longrightarrow> dget (fold (\<lambda>(k, r). index_put k (link r)) rows ix) t =
     (case dget rows t of None \<Rightarrow> dget ix t
      | Some r \<Rightarrow> (case nonempty (link r) of None \<Rightarrow> dget ix t | Some w \<Rightarrow> Some w))"
proof (induction rows arbitrary: ix)
  case Nil
  then show ?case by simp
next
  case (Cons kr rows)
  obtain k r where kr: "kr = (k, r)" by (cases kr)
  from Cons.prems have ok: "dict_ok rows" and notin: "k \<notin> set (dkeys rows)"
    by (auto simp: dict_ok_def kr)
  then have none: "dget rows k = None" by (simp add: dget_eq_None_iff)
  show ?case
    by (simp add: kr Cons.IH [OF ok] dget_index_put none split: option.splits)
qed

text \<open>After a restart the indexes are exactly the non-empty links of the tables.\<close>

lemma restart_indexes_exact:
  assumes "dict_ok (tc_market_titles tc)" "dict_ok (tc_event_titles tc)"
  shows "dget (tc_market_event_index (restart_title_cache tc)) t = market_index_of (tc_market_titles tc) t"
    and "dget (tc_event_series_index (restart_title_cache tc)) e = event_index_of (tc_event_titles tc) e"
  using assms by (simp_all add: restart_title_cache_def load_market_titles_def load_event_titles_def
      fold_index_put_rows market_index_of_def event_index_of_def split: option.splits)

subsection \<open>Reachable caches\<close>

text \<open>What a process can make of its cache: saves and loads in any order, and restarts.\<close>

inductive title_reachable :: "title_cache \<Rightarrow> bool" where
  fresh: "title_reachable empty_title_cache"
| saved_markets: "title_reachable tc \<Longrightarrow> title_reachable (save_market_titles entries tc)"
| saved_events: "title_reachable tc \<Longrightarrow> title_reachable (save_event_titles entries tc)"
| loaded_markets: "title_reachable tc \<Longrightarrow> title_reachable (snd (load_market_titles tc))"
| loaded_events: "title_reachable tc \<Longrightarrow> title_reachable (snd (load_event_titles tc))"
| restarted: "title_reachable tc \<Longrightarrow> title_reachable (restart_title_cache tc)"

definition rows_ok :: "title_cache \<Rightarrow> bool" where
  "rows_ok tc \<longleftrightarrow> dict_ok (tc_market_titles tc) \<and> dict_ok (tc_event_titles tc)"

lemma dict_ok_fold_dput: "dict_ok d \<Longrightarrow> dict_ok (fold (\<lambda>(k, v). dput k (f v)) entries d)"
  by (induction entries arbitrary: d) auto

lemma rows_ok_saves: "rows_ok tc \<Longrightarrow> rows_ok (save_market_titles entries tc)"
  "rows_ok tc \<Longrightarrow> rows_ok (save_event_titles entries' tc)"
  by (simp_all add: rows_ok_def save_market_titles_def save_event_titles_def
      dict_ok_fold_dput [where f = "\<lambda>v. v"] dict_ok_fold_dput [where f = stored_event_row])

lemma restart_rows [simp]:
  "tc_market_titles (restart_title_cache tc) = tc_market_titles tc"
  "tc_event_titles (restart_title_cache tc) = tc_event_titles tc"
  by (simp_all add: restart_title_cache_def load_market_titles_def load_event_titles_def)

lemma index_covers_restart: "rows_ok tc \<Longrightarrow> index_covers (restart_title_cache tc)"
  by (simp add: index_covers_def rows_ok_def restart_indexes_exact)

lemma index_covers_loads:
  "rows_ok tc \<Longrightarrow> index_covers tc \<Longrightarrow> index_covers (snd (load_market_titles tc))"
  "rows_ok tc \<Longrightarrow> index_covers tc \<Longrightarrow> index_covers (snd (load_event_titles tc))"
  by (auto simp: index_covers_def rows_ok_def load_market_titles_def load_event_titles_def
      fold_index_put_rows market_index_of_def event_index_of_def split: option.splits)

lemma title_reachable_inv: "title_reachable tc \<Longrightarrow> rows_ok tc \<and> index_covers tc"
proof (induction rule: title_reachable.induct)
  case fresh
  then show ?case by (simp add: rows_ok_def index_covers_empty) (simp add: empty_title_cache_def)
next
  case (loaded_markets tc)
  then show ?case by (auto simp: index_covers_loads) (simp add: rows_ok_def load_market_titles_def)
next
  case (loaded_events tc)
  then show ?case by (auto simp: index_covers_loads) (simp add: rows_ok_def load_event_titles_def)
next
  case (restarted tc)
  then show ?case by (auto simp: index_covers_restart) (simp add: rows_ok_def)
qed (auto simp: rows_ok_saves index_covers_save_market index_covers_save_event)

lemma series_of_linked:
  assumes "index_covers tc" "ticker \<noteq> []"
    and "market_index_of (tc_market_titles tc) ticker = Some event"
    and "event_index_of (tc_event_titles tc) event = Some series"
  shows "series_of tc ticker = series"
proof -
  have "series_ticker_for tc ticker = Some series"
    using assms by (simp add: index_covers_def series_ticker_for_def)
  moreover have "series \<noteq> []"
    using assms(4) by (auto simp: event_index_of_def nonempty_Some_iff split: option.splits)
  ultimately show ?thesis using assms(2) by (simp add: series_of_def nonempty_def)
qed

subsection \<open>Properties\<close>

text \<open>
  Fees and series statistics see the stored series: in every cache the process can
  reach by saves, loads and restarts, a ticker whose stored market row names an event whose
  stored row names a series has exactly that series, before and after a further restart.
\<close>

theorem series_of_stored:
  assumes "title_reachable tc" "ticker \<noteq> []"
    and "market_index_of (tc_market_titles tc) ticker = Some event"
    and "event_index_of (tc_event_titles tc) event = Some series"
  shows "series_of tc ticker = series \<and> series_of (restart_title_cache tc) ticker = series"
  using assms title_reachable_inv [of tc] title_reachable_inv [OF restarted, of tc]
    series_of_linked [of tc] series_of_linked [of "restart_title_cache tc"] by simp

definition example_market :: market_row where
  "example_market = \<lparr>mr_title = Some ''T'', mr_yes_sub_title = None, mr_no_sub_title = None,
     mr_event_ticker = Some ''E''\<rparr>"

definition example_event :: event_row where
  "example_event = \<lparr>er_title = None, er_sub_title = None, er_category = None,
     er_mutually_exclusive = Some True, er_competition = None, er_competition_scope = None,
     er_series_ticker = Some ''S'', er_available_on_brokers = None, er_collateral_return_type = None,
     er_strike_date = None, er_strike_period = None, er_fee_type_override = None,
     er_fee_multiplier_override = None, er_last_updated_ts = None, er_product_metadata = None,
     er_settlement_sources = None\<rparr>"

definition example_cache :: title_cache where
  "example_cache = save_event_titles [(''E'', example_event)]
     (save_market_titles [(''M-1'', example_market)] empty_title_cache)"

lemma example_cache_reachable: "title_reachable example_cache"
  unfolding example_cache_def by (intro title_reachable.intros)

theorem series_of_stored_witness:
  "series_of example_cache ''M-1'' = ''S'' \<and> series_of (restart_title_cache example_cache) ''M-1'' = ''S''"
  by (rule series_of_stored [OF example_cache_reachable]) code_simp+

text \<open>
  The indexes are not always the tables: after a save that clears a market's event link,
  the running process still resolves the ticker through the old event, and a restart changes
  the answer to the text before the first dash.
\<close>

theorem cleared_link_is_stale:
  "series_of (save_market_titles [(''M-1'', example_market\<lparr> mr_event_ticker := None \<rparr>)] example_cache) ''M-1'' = ''S''
   \<and> series_of (restart_title_cache
        (save_market_titles [(''M-1'', example_market\<lparr> mr_event_ticker := None \<rparr>)] example_cache)) ''M-1'' = ''M''"
  by code_simp

end
