(* ===== verification/Fees.thy ===== *)
theory Fees
  imports TitleCache
begin

text \<open>
  \<open>services/kalshi_fees.py\<close>: taker and maker fees with the per-series table and the
  event-level overrides, the side-aware unit cost, and the two exit quotes. Every
  expression keeps the code's evaluation order and rounds after each operation. The title
  cache the code reads through its module is the first argument. A contract count is
  given as the float the code multiplies with.
\<close>

definition TAKER_RATE :: f64 where "TAKER_RATE = fl (7 / 100)"
definition MAKER_RATE :: f64 where "MAKER_RATE = fdiv TAKER_RATE 4"

definition FEE_MULTIPLIER_BY_SERIES :: "(string, f64) pdict" where
  "FEE_MULTIPLIER_BY_SERIES =
    [(''KXBTCY'', 0), (''KXCITRINI'', 0), (''KXDOED'', 0), (''KXELECTIRAN'', 0),
     (''KXETHY'', 0), (''KXEXPAND'', 0), (''KXGAMBLINGREPEAL'', 0), (''KXGDPYEAR'', 0),
     (''KXGREENLAND'', 0), (''KXIRANDEMOCRACY'', 0), (''KXLAYOFFSYINFO'', 0),
     (''KXNEXTIRANLEADER'', 0), (''KXPAHLAVIHEAD'', 0), (''KXTRUMPOUT'', 0),
     (''KXMLBEXTRAS'', 1/2), (''KXMLBF3'', 1/2), (''KXMLBF5'', 1/2), (''KXMLBF5SPREAD'', 1/2),
     (''KXMLBF5TOTAL'', 1/2), (''KXMLBF7'', 1/2), (''KXMLBGAME'', 1/2), (''KXMLBHIT'', 1/2),
     (''KXMLBHR'', 1/2), (''KXMLBHRR'', 1/2), (''KXMLBKS'', 1/2), (''KXMLBOUTS'', 1/2),
     (''KXMLBRBI'', 1/2), (''KXMLBRFI'', 1/2), (''KXMLBSB'', 1/2), (''KXMLBSPREAD'', 1/2),
     (''KXMLBTB'', 1/2), (''KXMLBTEAMTOTAL'', 1/2), (''KXMLBTOTAL'', 1/2)]"

definition fee_multiplier :: "title_cache \<Rightarrow> string option \<Rightarrow> f64" where
  "fee_multiplier tc ticker =
     (case ticker of None \<Rightarrow> 1 | Some t \<Rightarrow> dget_or FEE_MULTIPLIER_BY_SERIES (series_of tc t) 1)"

definition event_fee_override :: "title_cache \<Rightarrow> string option \<Rightarrow> string option \<times> f64 option" where
  "event_fee_override tc ticker =
     (case ticker of None \<Rightarrow> (None, None) | Some t \<Rightarrow> fee_override_for_ticker tc t)"

definition effective_multiplier :: "title_cache \<Rightarrow> string option \<Rightarrow> f64 option \<Rightarrow> f64" where
  "effective_multiplier tc ticker override =
     (case override of Some m \<Rightarrow> m | None \<Rightarrow> fee_multiplier tc ticker)"

definition MAKER_TYPE_MULTIPLIER :: "(string, f64) pdict" where
  "MAKER_TYPE_MULTIPLIER = [(''quadratic_with_combo_maker_fees'', 2)]"

definition NFL_COMBO_MAKER_EXEMPT_SERIES :: string where
  "NFL_COMBO_MAKER_EXEMPT_SERIES = ''KXMVECROSSCATEGORY0-SHARD1''"

definition is_nfl_combo_maker_exempt :: "string option \<Rightarrow> bool" where
  "is_nfl_combo_maker_exempt ticker =
     (case ticker of None \<Rightarrow> False
      | Some t \<Rightarrow> t = NFL_COMBO_MAKER_EXEMPT_SERIES
               \<or> starts_with (NFL_COMBO_MAKER_EXEMPT_SERIES @ ''-'') t)"

text \<open>\<open>math.ceil(raw * 1_000_000) / 1_000_000\<close>: an int over an int, rounded once.\<close>

definition ceil_micro :: "f64 \<Rightarrow> f64" where
  "ceil_micro raw = fl (of_int (py_ceil (fmul raw 1000000)) / 1000000)"

definition taker_fee :: "title_cache \<Rightarrow> f64 \<Rightarrow> f64 \<Rightarrow> string option \<Rightarrow> f64" where
  "taker_fee tc contracts price ticker =
     (if contracts \<le> 0 \<or> price \<le> 0 \<or> price \<ge> 1 then 0
      else let m = effective_multiplier tc ticker (snd (event_fee_override tc ticker))
        in if m = 0 then 0
           else ceil_micro (fmul (fmul (fmul (fmul TAKER_RATE m) contracts) price) (fsub 1 price)))"

definition maker_type_factor :: "string option \<Rightarrow> f64" where
  "maker_type_factor ft = (case ft of None \<Rightarrow> 1 | Some t \<Rightarrow> dget_or MAKER_TYPE_MULTIPLIER t 1)"

definition maker_fee :: "title_cache \<Rightarrow> f64 \<Rightarrow> f64 \<Rightarrow> string option \<Rightarrow> f64" where
  "maker_fee tc contracts price ticker =
     (if contracts \<le> 0 \<or> price \<le> 0 \<or> price \<ge> 1 then 0
      else if is_nfl_combo_maker_exempt ticker then 0
      else let ov = event_fee_override tc ticker;
               m = effective_multiplier tc ticker (snd ov)
        in if m = 0 then 0
           else ceil_micro
             (fmul (fmul (fmul (fmul (fmul MAKER_RATE (maker_type_factor (fst ov))) m) contracts) price)
               (fsub 1 price)))"

definition taker_fee_per_contract :: "title_cache \<Rightarrow> f64 \<Rightarrow> string option \<Rightarrow> f64" where
  "taker_fee_per_contract tc price ticker =
     (if price \<le> 0 \<or> price \<ge> 1 then 0
      else fmul (fmul (fmul TAKER_RATE
             (effective_multiplier tc ticker (snd (event_fee_override tc ticker)))) price) (fsub 1 price))"

subsection \<open>Unit cost\<close>

text \<open>
  \<open>unit_cost\<close> on a parsed side and a known price; \<open>unit_cost_py\<close> is the whole
  function: any other side string raises ValueError, and a None price stays None.
\<close>

datatype value_error = ValueError string

definition parse_side :: "string \<Rightarrow> value_error + outcome_side" where
  "parse_side s = (if s = ''yes'' then Inr Yes else if s = ''no'' then Inr No else Inl (ValueError s))"

definition unit_cost :: "outcome_side \<Rightarrow> f64 \<Rightarrow> f64" where
  "unit_cost s p = (case s of Yes \<Rightarrow> p | No \<Rightarrow> fsub 1 p)"

definition unit_cost_py :: "string \<Rightarrow> f64 option \<Rightarrow> value_error + f64 option" where
  "unit_cost_py side yes_price =
     (if side = ''yes'' then Inr yes_price
      else if side = ''no'' then Inr (case yes_price of None \<Rightarrow> None | Some p \<Rightarrow> Some (fsub 1 p))
      else Inl (ValueError side))"

definition breakeven_unit_cost :: "title_cache \<Rightarrow> f64 \<Rightarrow> string option \<Rightarrow> f64" where
  "breakeven_unit_cost tc uc ticker = fadd uc (taker_fee_per_contract tc uc ticker)"

subsection \<open>Exit quotes\<close>

text \<open>
  \<open>crossed_against\<close>: None is the sentinel default (compare with \<open>yes_bid\<close>),
  \<open>Some b\<close> an explicit argument, itself possibly None.
\<close>

definition sellable_quote ::
  "outcome_side \<Rightarrow> f64 option \<Rightarrow> f64 option \<Rightarrow> f64 option option \<Rightarrow> f64 option" where
  "sellable_quote side yes_bid yes_ask crossed_against =
     (case side of
        Yes \<Rightarrow> (case yes_bid of None \<Rightarrow> None
                 | Some b \<Rightarrow> if b \<le> 0 \<or> b \<ge> 1 then None else Some b)
      | No \<Rightarrow> (case yes_ask of None \<Rightarrow> None
                | Some a \<Rightarrow>
                    if a \<ge> 1 \<or> a \<le> 0 then None
                    else (case (case crossed_against of None \<Rightarrow> yes_bid | Some c \<Rightarrow> c) of
                            None \<Rightarrow> Some a
                          | Some b \<Rightarrow> if a < b then None else Some a)))"

definition forced_exit_quote ::
  "outcome_side \<Rightarrow> f64 option \<Rightarrow> f64 option \<Rightarrow> f64 \<Rightarrow> f64" where
  "forced_exit_quote side yes_bid yes_ask unknown_fallback =
     (case side of
        No \<Rightarrow> (case yes_ask of None \<Rightarrow> unknown_fallback
                | Some a \<Rightarrow>
                    if a \<ge> 1 then 1
                    else if a \<le> 0 then unknown_fallback
                    else (case yes_bid of None \<Rightarrow> a
                          | Some b \<Rightarrow> if a < b then unknown_fallback else a))
      | Yes \<Rightarrow> (case yes_bid of None \<Rightarrow> unknown_fallback
                 | Some b \<Rightarrow> if b \<le> 0 then 0 else if b \<ge> 1 then unknown_fallback else b))"

text \<open>The string-typed entry points raise on a side that is neither word.\<close>

definition sellable_quote_py ::
  "string \<Rightarrow> f64 option \<Rightarrow> f64 option \<Rightarrow> f64 option option \<Rightarrow> value_error + f64 option" where
  "sellable_quote_py side yes_bid yes_ask crossed_against =
     (case parse_side side of Inl e \<Rightarrow> Inl e
      | Inr s \<Rightarrow> Inr (sellable_quote s yes_bid yes_ask crossed_against))"

definition forced_exit_quote_py ::
  "string \<Rightarrow> f64 option \<Rightarrow> f64 option \<Rightarrow> f64 \<Rightarrow> value_error + f64" where
  "forced_exit_quote_py side yes_bid yes_ask unknown_fallback =
     (case parse_side side of Inl e \<Rightarrow> Inl e
      | Inr s \<Rightarrow> Inr (forced_exit_quote s yes_bid yes_ask unknown_fallback))"

subsection \<open>The fee interface\<close>

text \<open>
  What the broker asks of the fee function it is given: a fee is a non-negative float and
  a fill of nothing, or at a terminal price, is free.
\<close>

locale fee_schedule =
  fixes fee :: "f64 \<Rightarrow> f64 \<Rightarrow> string option \<Rightarrow> f64"
  assumes fee_nonneg: "0 \<le> fee n p t"
    and fee_f64: "is_f64 (fee n p t)"
    and fee_free: "n \<le> 0 \<or> p \<le> 0 \<or> p \<ge> 1 \<Longrightarrow> fee n p t = 0"
begin

lemma fee_settlement: "fee n 0 t = 0" "fee n 1 t = 0"
  by (simp_all add: fee_free)

lemma fee_empty: "fee 0 p t = 0"
  by (simp add: fee_free)

lemma cost_with_fee_ge: "is_f64 c \<Longrightarrow> c \<le> fadd c (fee n p t)"
  unfolding fadd_def is_f64_def by (rule b64.rnd_add_increasing) (simp_all add: fee_nonneg)

lemma proceeds_net_le: "is_f64 g \<Longrightarrow> fsub g (fee n p t) \<le> g"
  unfolding fsub_def is_f64_def by (rule b64.rnd_sub_decreasing) (simp_all add: fee_nonneg)

end

text \<open>Kalshi's multipliers are non-negative: what the cached overrides have to satisfy.\<close>

definition overrides_ok :: "title_cache \<Rightarrow> bool" where
  "overrides_ok tc \<longleftrightarrow> (\<forall>r \<in> set (tc_event_titles tc).
     (case er_fee_multiplier_override (snd r) of None \<Rightarrow> True | Some m \<Rightarrow> 0 \<le> m))"

lemma TAKER_RATE_pos: "0 < TAKER_RATE" and MAKER_RATE_pos: "0 < MAKER_RATE"
  by code_simp+

lemma maker_rate_le: "f \<in> {1, 2} \<Longrightarrow> fmul MAKER_RATE f \<le> TAKER_RATE"
proof -
  have "fmul MAKER_RATE 1 \<le> TAKER_RATE" "fmul MAKER_RATE 2 \<le> TAKER_RATE" by code_simp+
  then show "f \<in> {1, 2} \<Longrightarrow> ?thesis" by auto
qed

lemma maker_type_factor_range: "maker_type_factor ft \<in> {1, 2}"
  by (auto simp: maker_type_factor_def MAKER_TYPE_MULTIPLIER_def dget_or_def split: option.splits)

lemma table_range: "(s, m) \<in> set FEE_MULTIPLIER_BY_SERIES \<Longrightarrow> 0 \<le> m \<and> m \<le> 1"
  unfolding FEE_MULTIPLIER_BY_SERIES_def by auto

lemma fee_multiplier_range: "0 \<le> fee_multiplier tc t" "fee_multiplier tc t \<le> 1"
  using table_range dget_in_set
  by (fastforce simp: fee_multiplier_def dget_or_def split: option.splits)+

lemma effective_multiplier_nonneg:
  assumes "overrides_ok tc"
  shows "0 \<le> effective_multiplier tc t (snd (event_fee_override tc t))"
  using assms fee_multiplier_range(1) [of tc t]
  by (fastforce simp: effective_multiplier_def event_fee_override_def fee_override_for_ticker_def
      overrides_ok_def dest!: dget_in_set split: option.splits)

lemma ceil_micro_nonneg: "0 \<le> x \<Longrightarrow> 0 \<le> ceil_micro x"
  unfolding ceil_micro_def by (intro b64.rnd_nonneg) (simp add: py_ceil_nonneg)

lemma ceil_micro_mono: "x \<le> y \<Longrightarrow> ceil_micro x \<le> ceil_micro y"
  unfolding ceil_micro_def py_ceil_def fmul_def
  by (intro fl_mono divide_right_mono) (simp_all add: fl_mono ceiling_mono)

lemma ceil_micro_f64 [simp]: "is_f64 (ceil_micro x)"
  by (simp add: ceil_micro_def)

lemma fsub_1_range:
  assumes "0 \<le> p" "p \<le> 1"
  shows "0 \<le> fsub 1 p" "fsub 1 p \<le> 1"
  using b64.rnd_complement [OF assms] by (simp_all add: fsub_def)

lemma taker_fee_nonneg: "overrides_ok tc \<Longrightarrow> 0 \<le> taker_fee tc n p t"
  using effective_multiplier_nonneg [of tc t] TAKER_RATE_pos
  by (simp add: taker_fee_def Let_def ceil_micro_nonneg fsub_1_range)

lemma maker_fee_nonneg: "overrides_ok tc \<Longrightarrow> 0 \<le> maker_fee tc n p t"
  using effective_multiplier_nonneg [of tc t] MAKER_RATE_pos maker_type_factor_range [of "fst (event_fee_override tc t)"]
  by (auto simp: maker_fee_def Let_def intro!: ceil_micro_nonneg fmul_nonneg fsub_1_range)

lemma fee_f64 [simp]: "is_f64 (taker_fee tc n p t)" "is_f64 (maker_fee tc n p t)"
  by (simp_all add: taker_fee_def maker_fee_def Let_def)

lemma fee_free: "n \<le> 0 \<or> p \<le> 0 \<or> p \<ge> 1 \<Longrightarrow> taker_fee tc n p t = 0 \<and> maker_fee tc n p t = 0"
  by (auto simp: taker_fee_def maker_fee_def)

text \<open>
  Both schedules meet the interface for every cache whose overrides are non-negative;
  the interpretation is for the cache reduced to such overrides.
\<close>

definition sane_cache :: "title_cache \<Rightarrow> title_cache" where
  "sane_cache tc = (if overrides_ok tc then tc else empty_title_cache)"

lemma overrides_ok_sane [simp]: "overrides_ok (sane_cache tc)"
  by (simp add: sane_cache_def overrides_ok_def empty_title_cache_def)

lemma sane_cache_id [simp]: "overrides_ok tc \<Longrightarrow> sane_cache tc = tc"
  by (simp add: sane_cache_def)

interpretation taker: fee_schedule "taker_fee (sane_cache tc)" for tc
  by unfold_locales (simp_all add: taker_fee_nonneg fee_free)

interpretation maker: fee_schedule "maker_fee (sane_cache tc)" for tc
  by unfold_locales (simp_all add: maker_fee_nonneg fee_free)

lemma fee_schedule_taker: "overrides_ok tc \<Longrightarrow> fee_schedule (taker_fee tc)"
  using taker.fee_schedule_axioms [of tc] by simp

lemma fee_schedule_maker: "overrides_ok tc \<Longrightarrow> fee_schedule (maker_fee tc)"
  using maker.fee_schedule_axioms [of tc] by simp

subsection \<open>Unit cost and quotes\<close>

lemma parse_side_str [simp]: "parse_side (side_str s) = Inr s"
  by (cases s) (simp_all add: parse_side_def side_str_def)

lemma unit_cost_py_known: "unit_cost_py (side_str s) (Some p) = Inr (Some (unit_cost s p))"
  by (cases s) (simp_all add: unit_cost_py_def unit_cost_def side_str_def)

lemma unit_cost_range:
  "0 \<le> p \<Longrightarrow> p \<le> 1 \<Longrightarrow> 0 \<le> unit_cost s p"
  "0 \<le> p \<Longrightarrow> p \<le> 1 \<Longrightarrow> unit_cost s p \<le> 1"
  by (cases s; simp add: unit_cost_def fsub_1_range)+

lemma unit_cost_f64: "is_f64 p \<Longrightarrow> is_f64 (unit_cost s p)"
  by (cases s) (simp_all add: unit_cost_def)

lemma unit_cost_No_mono: "p \<le> q \<Longrightarrow> unit_cost No q \<le> unit_cost No p"
  by (simp add: unit_cost_def fsub_mono)

subsection \<open>Properties\<close>

text \<open>
  Resting an order never costs more than taking: for every contract count, price and
  ticker, the maker fee is at most the taker fee, combo maker-fee doubling, per-series
  multipliers, event overrides, float rounding and the round-up to a micro-dollar included;
  and neither fee is negative.
\<close>

theorem maker_fee_le_taker_fee:
  assumes "overrides_ok tc"
  shows "0 \<le> maker_fee tc n p t \<and> maker_fee tc n p t \<le> taker_fee tc n p t"
proof (cases "n \<le> 0 \<or> p \<le> 0 \<or> p \<ge> 1")
  case True
  then show ?thesis by (simp add: fee_free)
next
  case False
  let ?ov = "event_fee_override tc t"
  let ?m = "effective_multiplier tc t (snd ?ov)"
  let ?maker = "fmul (fmul (fmul (fmul (fmul MAKER_RATE (maker_type_factor (fst ?ov))) ?m) n) p) (fsub 1 p)"
  let ?taker = "fmul (fmul (fmul (fmul TAKER_RATE ?m) n) p) (fsub 1 p)"
  have m: "0 \<le> ?m" using assms by (rule effective_multiplier_nonneg)
  have f: "0 \<le> maker_type_factor (fst ?ov)" using maker_type_factor_range [of "fst ?ov"] by auto
  have base: "0 \<le> fmul MAKER_RATE (maker_type_factor (fst ?ov))"
    "fmul MAKER_RATE (maker_type_factor (fst ?ov)) \<le> TAKER_RATE"
    using MAKER_RATE_pos f by (simp_all add: maker_rate_le [OF maker_type_factor_range])
  have q: "0 \<le> fsub 1 p" using False by (simp add: fsub_1_range)
  have "?maker \<le> ?taker"
    using False m base q f TAKER_RATE_pos MAKER_RATE_pos by (intro fmul_mono fmul_nonneg) auto
  then have "ceil_micro ?maker \<le> ceil_micro ?taker" by (rule ceil_micro_mono)
  moreover have "0 \<le> taker_fee tc n p t" using assms by (rule taker_fee_nonneg)
  ultimately have "maker_fee tc n p t \<le> taker_fee tc n p t"
    using False by (auto simp: maker_fee_def taker_fee_def Let_def)
  then show ?thesis using maker_fee_nonneg [OF assms] by simp
qed

theorem maker_fee_le_taker_fee_witness:
  "0 \<le> maker_fee empty_title_cache 100 (fl (1/2)) (Some ''KXHIGHNY-26'')
   \<and> maker_fee empty_title_cache 100 (fl (1/2)) (Some ''KXHIGHNY-26'')
       \<le> taker_fee empty_title_cache 100 (fl (1/2)) (Some ''KXHIGHNY-26'')"
  by (rule maker_fee_le_taker_fee) code_simp

text \<open>
  Fees grow with the size of the fill, for both schedules: more contracts at the same
  price and ticker never cost less, through every float rounding and the ceiling.
\<close>

theorem fees_mono_contracts:
  assumes "overrides_ok tc" "n \<le> n'"
  shows "taker_fee tc n p t \<le> taker_fee tc n' p t \<and> maker_fee tc n p t \<le> maker_fee tc n' p t"
proof (cases "n \<le> 0 \<or> p \<le> 0 \<or> p \<ge> 1")
  case True
  then show ?thesis using assms(1) by (simp add: fee_free taker_fee_nonneg maker_fee_nonneg)
next
  case False
  let ?ov = "event_fee_override tc t"
  have m: "0 \<le> effective_multiplier tc t (snd ?ov)" using assms(1) by (rule effective_multiplier_nonneg)
  have f: "0 \<le> maker_type_factor (fst ?ov)" using maker_type_factor_range [of "fst ?ov"] by auto
  have grow: "ceil_micro (fmul (fmul (fmul k n) p) (fsub 1 p)) \<le> ceil_micro (fmul (fmul (fmul k n') p) (fsub 1 p))"
    if "0 \<le> k" for k
    using False assms(2) that by (intro ceil_micro_mono fmul_mono fmul_nonneg fsub_1_range) auto
  have "0 \<le> fmul TAKER_RATE (effective_multiplier tc t (snd ?ov))"
    "0 \<le> fmul (fmul MAKER_RATE (maker_type_factor (fst ?ov))) (effective_multiplier tc t (snd ?ov))"
    using m f TAKER_RATE_pos MAKER_RATE_pos by simp_all
  then show ?thesis
    using False assms(2) grow by (auto simp: taker_fee_def maker_fee_def Let_def)
qed

theorem fees_mono_contracts_witness:
  "taker_fee empty_title_cache 10 (fl (3/10)) (Some ''A'') \<le> taker_fee empty_title_cache 11 (fl (3/10)) (Some ''A'')
   \<and> maker_fee empty_title_cache 10 (fl (3/10)) (Some ''A'') \<le> maker_fee empty_title_cache 11 (fl (3/10)) (Some ''A'')"
  by (rule fees_mono_contracts) code_simp+

text \<open>
  The two exit quotes agree and are safe. A price the strategy may sell at is strictly
  between 0 and 1 and is the one a forced exit takes; and a forced exit, whatever quotes it
  is given (missing, crossed, empty-book 0 or 1), ends at a price in [0, 1] as soon as its
  fallback is one.
\<close>

theorem exit_quotes_agree:
  assumes "0 \<le> fallback" "fallback \<le> 1"
  shows "0 \<le> forced_exit_quote s bid ask fallback \<and> forced_exit_quote s bid ask fallback \<le> 1
    \<and> (case sellable_quote s bid ask None of None \<Rightarrow> True
       | Some q \<Rightarrow> 0 < q \<and> q < 1 \<and> forced_exit_quote s bid ask fallback = q)"
  using assms
  by (cases s; cases bid; cases ask) (auto simp: forced_exit_quote_def sellable_quote_def)

theorem exit_quotes_agree_witness:
  "0 \<le> forced_exit_quote No (Some (2/5)) (Some (3/5)) 1 \<and> forced_exit_quote No (Some (2/5)) (Some (3/5)) 1 \<le> 1
    \<and> (case sellable_quote No (Some (2/5)) (Some (3/5)) None of None \<Rightarrow> True
       | Some q \<Rightarrow> 0 < q \<and> q < 1 \<and> forced_exit_quote No (Some (2/5)) (Some (3/5)) 1 = q)"
  by (rule exit_quotes_agree) simp_all

lemma fee_at_06: "taker_fee empty_title_cache 1 (fl (6/100)) None = fl (3948/1000000)"
  by code_simp

lemma fee_at_94: "taker_fee empty_title_cache 1 (fl (94/100)) None = fl (3949/1000000)"
  by code_simp

lemma fee_at_01: "taker_fee empty_title_cache 1 (fl (1/100)) None = fl (694/1000000)"
  by code_simp

lemma fee_06_less_94: "fl (3948/1000000) < fl (3949/1000000)"
  by code_simp

text \<open>
  The header's "fee is symmetric in price and 1 - price" does not hold of the code: the
  float product before the ceiling can land on either side of a micro-dollar, so one
  contract at 0.06 and at 0.94 pay different fees, and one contract at 0.01, whose exact fee
  0.000693 needs no rounding, is charged 0.000694.
\<close>

theorem taker_fee_asymmetric:
  "taker_fee empty_title_cache 1 (fl (6/100)) None = fl (3948/1000000)
   \<and> taker_fee empty_title_cache 1 (fl (94/100)) None = fl (3949/1000000)
   \<and> taker_fee empty_title_cache 1 (fl (6/100)) None < taker_fee empty_title_cache 1 (fl (94/100)) None
   \<and> taker_fee empty_title_cache 1 (fl (1/100)) None = fl (694/1000000)"
  using fee_at_06 fee_at_94 fee_at_01 fee_06_less_94 by simp

end
