(* ===== verification/Durable.thy ===== *)
theory Durable
  imports Main
begin

text \<open>
  The contract of every component that mirrors its state in its own SQLite file and
  claims that a plain process restart resumes it (\<open>risk_manager.py\<close>,
  \<open>paper_broker.py\<close>): an operation leaves memory and file in step, and reloading
  the file gives back what the component shows its callers.
\<close>

datatype ('op, 'e) act = Op 'op | Restart 'e

fun ops_of :: "('op, 'e) act list \<Rightarrow> 'op list" where
  "ops_of [] = []"
| "ops_of (Op x # as) = x # ops_of as"
| "ops_of (Restart e # as) = ops_of as"

fun run_acts :: "('op \<Rightarrow> 's \<Rightarrow> 's) \<Rightarrow> ('e \<Rightarrow> 's \<Rightarrow> 's) \<Rightarrow> ('op, 'e) act list \<Rightarrow> 's \<Rightarrow> 's" where
  "run_acts step restart [] s = s"
| "run_acts step restart (Op x # as) s = run_acts step restart as (step x s)"
| "run_acts step restart (Restart e # as) s = run_acts step restart as (restart e s)"

text \<open>\<open>ok x s\<close>: the operation's own precondition in state \<open>s\<close> holds all along a run.\<close>

fun run_ok :: "('op \<Rightarrow> 's \<Rightarrow> bool) \<Rightarrow> ('op \<Rightarrow> 's \<Rightarrow> 's) \<Rightarrow> ('e \<Rightarrow> 's \<Rightarrow> 's) \<Rightarrow>
    ('op, 'e) act list \<Rightarrow> 's \<Rightarrow> bool" where
  "run_ok ok step restart [] s = True"
| "run_ok ok step restart (Op x # as) s = (ok x s \<and> run_ok ok step restart as (step x s))"
| "run_ok ok step restart (Restart e # as) s = run_ok ok step restart as (restart e s)"

locale durable =
  fixes ok :: "'op \<Rightarrow> 's \<Rightarrow> bool"
    and step :: "'op \<Rightarrow> 's \<Rightarrow> 's"
    and restart :: "'e \<Rightarrow> 's \<Rightarrow> 's"
    and view :: "'s \<Rightarrow> 'v"
    and synced :: "'s \<Rightarrow> bool"
  assumes step_synced: "synced s \<Longrightarrow> ok x s \<Longrightarrow> synced (step x s)"
    and restart_synced: "synced s \<Longrightarrow> synced (restart e s)"
    and restart_view: "synced s \<Longrightarrow> view (restart e s) = view s"
begin

lemma run_synced:
  "synced s \<Longrightarrow> run_ok ok step restart as s \<Longrightarrow> synced (run_acts step restart as s)"
  by (induction as arbitrary: s rule: ops_of.induct) (simp_all add: step_synced restart_synced)

lemma run_then_restart:
  "synced s \<Longrightarrow> run_ok ok step restart as s \<Longrightarrow>
   view (restart e (run_acts step restart as s)) = view (run_acts step restart as s)"
  by (rule restart_view) (rule run_synced)

end

text \<open>
  When operations are unconditional and the view also determines the next view, restarts
  are invisible anywhere in a run.
\<close>

locale durable_deterministic = durable +
  assumes always_ok: "ok x s"
    and step_view: "synced s \<Longrightarrow> synced t \<Longrightarrow> view s = view t \<Longrightarrow> view (step x s) = view (step x t)"
begin

lemma run_view_cong:
  "synced s \<Longrightarrow> synced t \<Longrightarrow> view s = view t \<Longrightarrow>
   view (run_acts step restart as s) = view (fold step (ops_of as) t)"
proof (induction as arbitrary: s t rule: ops_of.induct)
  case 1
  then show ?case by simp
next
  case (2 x as)
  have "view (run_acts step restart as (step x s)) = view (fold step (ops_of as) (step x t))"
    using "2.prems" by (intro "2.IH" step_synced step_view always_ok)
  then show ?case by simp
next
  case (3 e as)
  have "view (run_acts step restart as (restart e s)) = view (fold step (ops_of as) t)"
    using "3.prems" by (intro "3.IH") (simp_all add: restart_synced restart_view)
  then show ?case by simp
qed

lemma restarts_invisible:
  "synced s \<Longrightarrow> view (run_acts step restart as s) = view (fold step (ops_of as) s)"
  by (rule run_view_cong) simp_all

end

end
