(* ===== verification/Risk.thy ===== *)
theory Risk
  imports PyValues Durable
begin

text \<open>
  \<open>services/risk_manager.py\<close>: the daily-loss kill switch and the exposure cap, with
  the single-row table \<open>risk_meta\<close> it persists to. A UTC calendar date is its day
  number (the \<open>%Y-%m-%d\<close> text is one-to-one on dates); \<open>now\<close> is the clock
  reading the code takes or is given.
\<close>

record risk_row =
  rr_day_start_bankroll :: f64
  rr_halted :: int
  rr_halt_reason :: "string option"
  rr_day_start_date :: "int option"

record risk =
  rk_starting_bankroll :: f64
  rk_max_daily_loss_pct :: f64
  rk_kill_switch_enabled :: bool
  rk_max_total_exposure_pct :: "f64 option"
  rk_day_start_bankroll :: f64
  rk_halted :: bool
  rk_halt_reason :: "string option"
  rk_day_start_date :: int
  rk_db :: "risk_row option"

definition today :: "f64 \<Rightarrow> int" where
  "today now = \<lfloor>now\<rfloor> div 86400"

text \<open>The constructor: seed the row on a first run, otherwise resume it.\<close>

definition init_risk ::
  "f64 \<Rightarrow> f64 \<Rightarrow> bool \<Rightarrow> f64 option \<Rightarrow> risk_row option \<Rightarrow> f64 \<Rightarrow> risk" where
  "init_risk starting max_loss kill cap db now =
     (case db of
        None \<Rightarrow> \<lparr> rk_starting_bankroll = starting, rk_max_daily_loss_pct = max_loss,
            rk_kill_switch_enabled = kill, rk_max_total_exposure_pct = cap,
            rk_day_start_bankroll = starting, rk_halted = False, rk_halt_reason = None,
            rk_day_start_date = today now,
            rk_db = Some \<lparr> rr_day_start_bankroll = starting, rr_halted = 0, rr_halt_reason = None,
                            rr_day_start_date = Some (today now) \<rparr> \<rparr>
      | Some row \<Rightarrow> \<lparr> rk_starting_bankroll = starting, rk_max_daily_loss_pct = max_loss,
            rk_kill_switch_enabled = kill, rk_max_total_exposure_pct = cap,
            rk_day_start_bankroll = rr_day_start_bankroll row,
            rk_halted = (rr_halted row \<noteq> 0), rk_halt_reason = rr_halt_reason row,
            rk_day_start_date = (case rr_day_start_date row of None \<Rightarrow> today now | Some d \<Rightarrow> d),
            rk_db = Some row \<rparr>)"

text \<open>\<open>UPDATE risk_meta ... WHERE id = 1\<close>.\<close>

definition persist_risk :: "risk \<Rightarrow> risk" where
  "persist_risk r = r\<lparr> rk_db := map_option (\<lambda>_.
     \<lparr> rr_day_start_bankroll = rk_day_start_bankroll r,
       rr_halted = (if rk_halted r then 1 else 0),
       rr_halt_reason = rk_halt_reason r,
       rr_day_start_date = Some (rk_day_start_date r) \<rparr>) (rk_db r) \<rparr>"

definition max_trade_size :: "f64 \<Rightarrow> f64 \<Rightarrow> f64" where
  "max_trade_size bankroll max_position_pct = py_round 2 (fmul bankroll max_position_pct)"

definition check_total_exposure :: "risk \<Rightarrow> f64 \<Rightarrow> f64 \<Rightarrow> f64 \<Rightarrow> bool" where
  "check_total_exposure r current_exposure prospective_cost bankroll =
     (case rk_max_total_exposure_pct r of None \<Rightarrow> True
      | Some pct \<Rightarrow> fadd current_exposure prospective_cost \<le> fmul bankroll pct)"

definition reset_day :: "f64 \<Rightarrow> f64 \<Rightarrow> risk \<Rightarrow> risk" where
  "reset_day current_bankroll now r = persist_risk
     (r\<lparr> rk_day_start_bankroll := current_bankroll, rk_halted := False,
         rk_halt_reason := None, rk_day_start_date := today now \<rparr>)"

definition maybe_rollover_day :: "f64 \<Rightarrow> f64 \<Rightarrow> risk \<Rightarrow> bool \<times> risk" where
  "maybe_rollover_day current_bankroll now r =
     (if today now \<noteq> rk_day_start_date r then (True, reset_day current_bankroll now r) else (False, r))"

definition daily_loss_pct :: "risk \<Rightarrow> f64 \<Rightarrow> f64" where
  "daily_loss_pct r current_bankroll =
     fdiv (fsub (rk_day_start_bankroll r) current_bankroll) (rk_day_start_bankroll r)"

definition check_daily_loss :: "f64 \<Rightarrow> f64 \<Rightarrow> risk \<Rightarrow> bool \<times> risk" where
  "check_daily_loss current_bankroll now r0 =
     (let r = snd (maybe_rollover_day current_bankroll now r0) in
      if \<not> rk_kill_switch_enabled r \<or> rk_halted r then (\<not> rk_halted r, r)
      else if rk_day_start_bankroll r = 0 then (True, r)
      else let loss_pct = daily_loss_pct r current_bankroll in
        if loss_pct \<ge> rk_max_daily_loss_pct r
        then (False, persist_risk (r\<lparr> rk_halted := True,
               rk_halt_reason := Some (''Daily loss limit hit: -'' @ fmt_percent 1 loss_pct) \<rparr>))
        else (True, r))"

definition manual_halt :: "string \<Rightarrow> risk \<Rightarrow> risk" where
  "manual_halt reason r = persist_risk (r\<lparr> rk_halted := True, rk_halt_reason := Some reason \<rparr>)"

definition resume :: "risk \<Rightarrow> risk" where
  "resume r = persist_risk (r\<lparr> rk_halted := False, rk_halt_reason := None \<rparr>)"

subsection \<open>Operations as steps, restarts\<close>

datatype risk_op = CheckDaily f64 f64 | ResetDay f64 f64 | ManualHalt string | Resume

fun risk_step :: "risk_op \<Rightarrow> risk \<Rightarrow> risk" where
  "risk_step (CheckDaily b now) r = snd (check_daily_loss b now r)"
| "risk_step (ResetDay b now) r = reset_day b now r"
| "risk_step (ManualHalt reason) r = manual_halt reason r"
| "risk_step Resume r = resume r"

text \<open>A restart constructs a new manager with the same settings over the same file.\<close>

definition restart_risk :: "f64 \<Rightarrow> risk \<Rightarrow> risk" where
  "restart_risk now r = init_risk (rk_starting_bankroll r) (rk_max_daily_loss_pct r)
     (rk_kill_switch_enabled r) (rk_max_total_exposure_pct r) (rk_db r) now"

definition risk_synced :: "risk \<Rightarrow> bool" where
  "risk_synced r \<longleftrightarrow> rk_db r = Some
     \<lparr> rr_day_start_bankroll = rk_day_start_bankroll r,
       rr_halted = (if rk_halted r then 1 else 0),
       rr_halt_reason = rk_halt_reason r,
       rr_day_start_date = Some (rk_day_start_date r) \<rparr>"

lemmas risk_ops = check_daily_loss_def maybe_rollover_day_def reset_day_def manual_halt_def resume_def

lemma synced_persist: "rk_db r \<noteq> None \<Longrightarrow> risk_synced (persist_risk r)"
  by (auto simp: risk_synced_def persist_risk_def)

lemma synced_db: "risk_synced r \<Longrightarrow> rk_db r \<noteq> None"
  by (simp add: risk_synced_def)

lemma persist_db [simp]: "rk_db (persist_risk r) = None \<longleftrightarrow> rk_db r = None"
  "(\<exists>y. rk_db (persist_risk r) = Some y) \<longleftrightarrow> (\<exists>y. rk_db r = Some y)"
  by (simp_all add: persist_risk_def)

lemma risk_synced_init: "risk_synced (init_risk s m k c None now)"
  by (simp add: risk_synced_def init_risk_def)

lemma persist_frame [simp]:
  "rk_halted (persist_risk r) = rk_halted r"
  "rk_halt_reason (persist_risk r) = rk_halt_reason r"
  "rk_day_start_bankroll (persist_risk r) = rk_day_start_bankroll r"
  "rk_day_start_date (persist_risk r) = rk_day_start_date r"
  "rk_max_daily_loss_pct (persist_risk r) = rk_max_daily_loss_pct r"
  "rk_kill_switch_enabled (persist_risk r) = rk_kill_switch_enabled r"
  "rk_max_total_exposure_pct (persist_risk r) = rk_max_total_exposure_pct r"
  "rk_starting_bankroll (persist_risk r) = rk_starting_bankroll r"
  by (simp_all add: persist_risk_def)

lemma risk_step_synced: "risk_synced r \<Longrightarrow> risk_synced (risk_step x r)"
  using synced_db [of r] by (cases x) (auto simp: risk_ops Let_def intro!: synced_persist)

lemma restart_risk_id: "risk_synced r \<Longrightarrow> restart_risk now r = r"
  by (simp add: restart_risk_def init_risk_def risk_synced_def)

interpretation risk_store: durable_deterministic "\<lambda>_ _. True" risk_step restart_risk "\<lambda>r. r" risk_synced
  by unfold_locales (simp_all add: risk_step_synced restart_risk_id)

text \<open>The settings never change.\<close>

lemma risk_step_settings [simp]:
  "rk_max_daily_loss_pct (risk_step x r) = rk_max_daily_loss_pct r"
  "rk_kill_switch_enabled (risk_step x r) = rk_kill_switch_enabled r"
  "rk_max_total_exposure_pct (risk_step x r) = rk_max_total_exposure_pct r"
  by (cases x; simp add: risk_ops Let_def)+

text \<open>A halt within a day: only a resume, a reset or a new UTC date lifts it.\<close>

definition keeps_halt :: "int \<Rightarrow> risk_op \<Rightarrow> bool" where
  "keeps_halt day x = (case x of CheckDaily b now \<Rightarrow> today now = day
     | ResetDay b now \<Rightarrow> False | ManualHalt s \<Rightarrow> True | Resume \<Rightarrow> False)"

lemma risk_step_keeps_halt:
  "rk_halted r \<Longrightarrow> keeps_halt (rk_day_start_date r) x \<Longrightarrow>
   rk_halted (risk_step x r) \<and> rk_day_start_date (risk_step x r) = rk_day_start_date r"
  by (cases x) (auto simp: keeps_halt_def risk_ops Let_def)

lemma check_daily_loss_result: "fst (check_daily_loss b now r) = (\<not> rk_halted (snd (check_daily_loss b now r)))"
  by (auto simp: risk_ops Let_def)

subsection \<open>Properties\<close>

text \<open>
  C15: Restarting the process, any number of times and at any points between the manager's
  operations (each daily-loss check, day reset, manual halt and resume), changes nothing:
  the manager ends with the halt flag, halt reason, day-start bankroll and date it would
  have had without the restarts. A crash cannot lift a halt or move the loss baseline.
\<close>

theorem risk_restarts_invisible:
  assumes "risk_synced r"
  shows "run_acts risk_step restart_risk acts r = fold risk_step (ops_of acts) r"
  using risk_store.restarts_invisible [OF assms] by simp

theorem risk_restarts_invisible_witness:
  "run_acts risk_step restart_risk [Op (CheckDaily 900 10), Restart 20, Op (CheckDaily 850 30), Restart 40]
     (init_risk 1000 (1/8) True None None 5)
   = fold risk_step [CheckDaily 900 10, CheckDaily 850 30] (init_risk 1000 (1/8) True None None 5)
   \<and> rk_halted (fold risk_step [CheckDaily 900 10, CheckDaily 850 30] (init_risk 1000 (1/8) True None None 5))"
proof
  let ?acts = "[Op (CheckDaily 900 10), Restart 20, Op (CheckDaily 850 30), Restart 40]"
  let ?r = "init_risk 1000 (1/8) True None None 5"
  show "run_acts risk_step restart_risk ?acts ?r = fold risk_step [CheckDaily 900 10, CheckDaily 850 30] ?r"
    using risk_restarts_invisible [OF risk_synced_init, of ?acts 1000 "1/8" True None 5]
    by (simp only: ops_of.simps)
  show "rk_halted (fold risk_step [CheckDaily 900 10, CheckDaily 850 30] ?r)"
    by code_simp
qed

text \<open>
  A halt is latched for the day: from a halted state, no sequence of daily-loss checks
  on the same UTC date (whatever bankrolls they see, a full recovery included) and of
  further manual halts lifts it, and every check in it answers that trading is not allowed.
\<close>

theorem risk_halt_latched:
  assumes "rk_halted r" "\<forall>x \<in> set xs. keeps_halt (rk_day_start_date r) x"
    and "today now = rk_day_start_date r"
  shows "rk_halted (fold risk_step xs r) \<and> fst (check_daily_loss bankroll now (fold risk_step xs r)) = False"
proof -
  have "rk_halted (fold risk_step xs r) \<and> rk_day_start_date (fold risk_step xs r) = rk_day_start_date r"
    using assms(1,2)
  proof (induction xs arbitrary: r)
    case Nil
    then show ?case by simp
  next
    case (Cons x xs)
    then have "rk_halted (risk_step x r) \<and> rk_day_start_date (risk_step x r) = rk_day_start_date r"
      by (intro risk_step_keeps_halt) simp_all
    then show ?case using Cons by simp
  qed
  then show ?thesis using assms(3) by (simp add: check_daily_loss_def maybe_rollover_day_def)
qed

theorem risk_halt_latched_witness:
  "rk_halted (fold risk_step [CheckDaily 2000 100, ManualHalt ''x'', CheckDaily 1000 200]
       (manual_halt ''stop'' (init_risk 1000 (1/8) True None None 5)))
   \<and> fst (check_daily_loss 5000 300 (fold risk_step [CheckDaily 2000 100, ManualHalt ''x'', CheckDaily 1000 200]
       (manual_halt ''stop'' (init_risk 1000 (1/8) True None None 5)))) = False"
  by (rule risk_halt_latched) code_simp+

text \<open>
  What the daily check decides on a running day with a positive day-start bankroll: it
  allows trading exactly when the kill switch is off or the loss, as a fraction of the
  day-start bankroll computed in floats, is below the limit; when it refuses, the manager
  is halted in memory and in the file, and nothing else changed.
\<close>

theorem check_daily_loss_decides:
  assumes "risk_synced r" "\<not> rk_halted r" "today now = rk_day_start_date r" "0 < rk_day_start_bankroll r"
  shows "fst (check_daily_loss bankroll now r) =
      (rk_kill_switch_enabled r \<longrightarrow> daily_loss_pct r bankroll < rk_max_daily_loss_pct r)
    \<and> rk_halted (snd (check_daily_loss bankroll now r)) = (\<not> fst (check_daily_loss bankroll now r))
    \<and> risk_synced (snd (check_daily_loss bankroll now r))
    \<and> rk_day_start_bankroll (snd (check_daily_loss bankroll now r)) = rk_day_start_bankroll r"
proof (intro conjI)
  show "fst (check_daily_loss bankroll now r) =
      (rk_kill_switch_enabled r \<longrightarrow> daily_loss_pct r bankroll < rk_max_daily_loss_pct r)"
    using assms by (auto simp: check_daily_loss_def maybe_rollover_day_def Let_def)
  show "rk_halted (snd (check_daily_loss bankroll now r)) = (\<not> fst (check_daily_loss bankroll now r))"
    by (simp add: check_daily_loss_result)
  show "risk_synced (snd (check_daily_loss bankroll now r))"
    using risk_step_synced [OF assms(1), of "CheckDaily bankroll now"] by simp
  show "rk_day_start_bankroll (snd (check_daily_loss bankroll now r)) = rk_day_start_bankroll r"
    using assms by (auto simp: check_daily_loss_def maybe_rollover_day_def Let_def)
qed

theorem check_daily_loss_decides_witness:
  "fst (check_daily_loss 890 10 (init_risk 1000 (1/8) True None None 5)) \<and>
   \<not> fst (check_daily_loss 875 10 (init_risk 1000 (1/8) True None None 5))"
proof -
  let ?r = "init_risk 1000 (1/8) True None None 5"
  have dec: "fst (check_daily_loss b 10 ?r) =
      (rk_kill_switch_enabled ?r \<longrightarrow> daily_loss_pct ?r b < rk_max_daily_loss_pct ?r)" for b
    by (rule check_daily_loss_decides [THEN conjunct1]) (rule risk_synced_init, code_simp+)
  have "daily_loss_pct ?r 890 < rk_max_daily_loss_pct ?r"
    "\<not> (rk_kill_switch_enabled ?r \<longrightarrow> daily_loss_pct ?r 875 < rk_max_daily_loss_pct ?r)"
    by code_simp+
  then show ?thesis unfolding dec by simp
qed

end
