(* ===== verification/HistoryPush.thy ===== *)
theory HistoryPush
  imports Binary64
begin

text \<open>
  \<open>services/history_push.py\<close>: the coalesced "history changed" broadcast every
  store write ends with. The module state is the time of the last dispatch; the dispatch
  itself (an asyncio task) is recorded as its time in a log.
\<close>

record history_push =
  hp_last_broadcast_ts :: f64
  hp_dispatched :: "f64 list"

definition init_history_push :: history_push where
  "init_history_push = \<lparr>hp_last_broadcast_ts = 0, hp_dispatched = []\<rparr>"

definition mark_history_changed :: "f64 \<Rightarrow> history_push \<Rightarrow> history_push" where
  "mark_history_changed now h =
     (if fsub now (hp_last_broadcast_ts h) < 30 then h
      else h\<lparr> hp_last_broadcast_ts := now, hp_dispatched := hp_dispatched h @ [now] \<rparr>)"

text \<open>Consecutive dispatches are at least one interval apart, whatever marks arrive.\<close>

fun spaced :: "f64 list \<Rightarrow> bool" where
  "spaced [] = True"
| "spaced [x] = True"
| "spaced (x # y # ts) = (30 \<le> fsub y x \<and> spaced (y # ts))"

lemma spaced_snoc: "spaced (ts @ [x]) \<Longrightarrow> 30 \<le> fsub y x \<Longrightarrow> spaced (ts @ [x, y])"
  by (induction ts rule: spaced.induct) auto

definition hp_ok :: "history_push \<Rightarrow> bool" where
  "hp_ok h \<longleftrightarrow> spaced (hp_dispatched h) \<and>
     (hp_dispatched h \<noteq> [] \<longrightarrow> last (hp_dispatched h) = hp_last_broadcast_ts h)"

lemma hp_ok_init: "hp_ok init_history_push"
  by (simp add: hp_ok_def init_history_push_def)

lemma hp_ok_mark:
  assumes "hp_ok h"
  shows "hp_ok (mark_history_changed now h)"
proof (cases "fsub now (hp_last_broadcast_ts h) < 30")
  case True
  then show ?thesis using assms by (simp add: mark_history_changed_def)
next
  case False
  show ?thesis
  proof (cases "hp_dispatched h" rule: rev_cases)
    case Nil
    with False show ?thesis by (simp add: mark_history_changed_def hp_ok_def)
  next
    case (snoc ts x)
    with assms False have "spaced (ts @ [x, now])"
      by (intro spaced_snoc) (auto simp: hp_ok_def)
    with False snoc show ?thesis by (simp add: mark_history_changed_def hp_ok_def)
  qed
qed

text \<open>
  However often the stores mark the history changed, two successive broadcasts are at
  least 30 seconds apart: the coalescing never lets a burst of writes through.
\<close>

theorem history_broadcasts_spaced: "spaced (hp_dispatched (fold mark_history_changed marks init_history_push))"
proof -
  have "hp_ok (fold mark_history_changed marks h)" if "hp_ok h" for h
    using that by (induction marks arbitrary: h) (simp_all add: hp_ok_mark)
  from this [OF hp_ok_init] show ?thesis by (simp add: hp_ok_def)
qed

end
