(* ===== verification/Broker.thy ===== *)
theory Broker
  imports Fees Risk HistoryPush
begin

text \<open>
  \<open>services/paper_broker.py\<close>: the paper account. The in-memory fields of
  \<open>PaperBroker\<close>, the four SQLite tables behind them, and every operation of the
  class. Sides are parsed (\<open>outcome_side\<close>); a call with another side string raises
  in \<open>unit_cost\<close> before anything changes. Clock readings and uuids are passed in a
  \<open>stamp\<close>. An \<open>INSERT INTO trades\<close> with an id already in the table violates
  the primary key: the transaction rolls back and the exception leaves the in-memory
  changes in place (\<open>Inl IntegrityError\<close> beside the new state).
\<close>

subsection \<open>Data\<close>

record position =
  po_ticker :: string
  po_side :: outcome_side
  po_size :: int
  po_entry_price :: f64
  po_opened_at :: f64
  po_config_fingerprint :: "string option"
  po_entry_fee :: f64
  po_hold_to_settlement :: bool

record pending_order =
  pn_ticker :: string
  pn_side :: outcome_side
  pn_size :: int
  pn_limit_price :: f64
  pn_placed_at :: f64
  pn_expires_at :: f64
  pn_reason :: string
  pn_config_fingerprint :: "string option"
  pn_signal_seen_at :: "f64 option"
  pn_confidence :: "f64 option"

record trade =
  tr_id :: string
  tr_ticker :: string
  tr_side :: outcome_side
  tr_size :: int
  tr_price :: f64
  tr_reason :: string
  tr_timestamp :: f64
  tr_config_fingerprint :: "string option"
  tr_fee :: f64
  tr_signal_seen_at :: "f64 option"
  tr_excluded :: bool
  tr_netting_improvement_usd :: "f64 option"
  tr_netting_bar_usd :: "f64 option"
  tr_netting_vol_ratio :: "f64 option"
  tr_netting_exit_fee_usd :: "f64 option"

text \<open>
  Table rows. Columns added by later migrations are NULL on older rows; the primary key is
  the dictionary key of the table.
\<close>

record position_row =
  pr_side :: outcome_side
  pr_size :: int
  pr_entry_price :: f64
  pr_opened_at :: f64
  pr_config_fingerprint :: "string option"
  pr_entry_fee :: "f64 option"
  pr_hold_to_settlement :: "int option"

record trade_row =
  tw_ticker :: string
  tw_side :: outcome_side
  tw_size :: int
  tw_price :: f64
  tw_reason :: string
  tw_timestamp :: f64
  tw_config_fingerprint :: "string option"
  tw_fee :: "f64 option"
  tw_signal_seen_at :: "f64 option"
  tw_excluded :: int
  tw_netting_improvement_usd :: "f64 option"
  tw_netting_bar_usd :: "f64 option"
  tw_netting_vol_ratio :: "f64 option"
  tw_netting_exit_fee_usd :: "f64 option"

record broker_db =
  bd_meta :: "(f64 \<times> f64) option"
  bd_positions :: "(string, position_row) pdict"
  bd_trades :: "(string, trade_row) pdict"
  bd_pending :: "(string, pending_order) pdict"

record broker =
  br_bankroll :: f64
  br_starting_bankroll :: f64
  br_positions :: "(string, position) pdict"
  br_trade_log :: "trade list"
  br_last_trade_time :: "(string, f64) pdict"
  br_pending_orders :: "(string, pending_order) pdict"
  br_db :: broker_db
  br_history :: history_push

text \<open>The readings one fill takes: a uuid, the two clocks, and the history hook's clock.\<close>

record stamp =
  st_uuid :: string
  st_opened_at :: f64
  st_timestamp :: f64
  st_pushed_at :: f64

datatype db_error = IntegrityError

text \<open>\<open>INSERT OR REPLACE\<close>: the old row goes, the new one is appended.\<close>

definition dreplace :: "'k \<Rightarrow> 'v \<Rightarrow> ('k, 'v) pdict \<Rightarrow> ('k, 'v) pdict" where
  "dreplace k v d = ddel k d @ [(k, v)]"

subsection \<open>Loading\<close>

definition load_position :: "string \<Rightarrow> position_row \<Rightarrow> position" where
  "load_position ticker r =
     \<lparr> po_ticker = ticker, po_side = pr_side r, po_size = pr_size r,
       po_entry_price = pr_entry_price r, po_opened_at = pr_opened_at r,
       po_config_fingerprint = pr_config_fingerprint r,
       po_entry_fee = (case pr_entry_fee r of None \<Rightarrow> 0 | Some f \<Rightarrow> f),
       po_hold_to_settlement = (case pr_hold_to_settlement r of None \<Rightarrow> False | Some h \<Rightarrow> h \<noteq> 0) \<rparr>"

definition load_trade :: "string \<Rightarrow> trade_row \<Rightarrow> trade" where
  "load_trade tid r =
     \<lparr> tr_id = tid, tr_ticker = tw_ticker r, tr_side = tw_side r, tr_size = tw_size r,
       tr_price = tw_price r, tr_reason = tw_reason r, tr_timestamp = tw_timestamp r,
       tr_config_fingerprint = tw_config_fingerprint r,
       tr_fee = (case tw_fee r of None \<Rightarrow> 0 | Some f \<Rightarrow> f),
       tr_signal_seen_at = tw_signal_seen_at r, tr_excluded = (tw_excluded r \<noteq> 0),
       tr_netting_improvement_usd = tw_netting_improvement_usd r,
       tr_netting_bar_usd = tw_netting_bar_usd r,
       tr_netting_vol_ratio = tw_netting_vol_ratio r,
       tr_netting_exit_fee_usd = tw_netting_exit_fee_usd r \<rparr>"

definition last_times :: "trade list \<Rightarrow> (string, f64) pdict" where
  "last_times ts = fold (\<lambda>t d. dput (tr_ticker t) (max (dget_or d (tr_ticker t) 0) (tr_timestamp t)) d) ts []"

definition init_broker :: "f64 \<Rightarrow> broker_db \<Rightarrow> history_push \<Rightarrow> broker" where
  "init_broker starting_bankroll db hp =
     (case bd_meta db of
        None \<Rightarrow> \<lparr> br_bankroll = starting_bankroll, br_starting_bankroll = starting_bankroll,
            br_positions = [], br_trade_log = [], br_last_trade_time = [], br_pending_orders = [],
            br_db = db\<lparr> bd_meta := Some (starting_bankroll, starting_bankroll) \<rparr>,
            br_history = hp \<rparr>
      | Some (bankroll, starting) \<Rightarrow>
          (let trades = sort_key tr_timestamp (map (\<lambda>(i, r). load_trade i r) (bd_trades db)) in
           \<lparr> br_bankroll = bankroll, br_starting_bankroll = starting,
             br_positions = map (\<lambda>(t, r). (t, load_position t r)) (bd_positions db),
             br_trade_log = trades, br_last_trade_time = last_times trades,
             br_pending_orders = bd_pending db, br_db = db, br_history = hp \<rparr>))"

definition can_trade :: "f64 \<Rightarrow> string \<Rightarrow> f64 \<Rightarrow> broker \<Rightarrow> bool" where
  "can_trade now ticker cooldown_sec b =
     (case dget (br_last_trade_time b) ticker of None \<Rightarrow> True
      | Some last_t \<Rightarrow> fsub now last_t \<ge> cooldown_sec)"

subsection \<open>Valuation\<close>

definition side_dir :: "outcome_side \<Rightarrow> f64" where
  "side_dir s = (case s of Yes \<Rightarrow> 1 | No \<Rightarrow> - 1)"

definition position_pnl :: "position \<Rightarrow> f64 \<Rightarrow> f64" where
  "position_pnl pos current_price =
     fmul (fmul (side_dir (po_side pos)) (fsub current_price (po_entry_price pos))) (fint (po_size pos))"

definition mark_to_market :: "broker \<Rightarrow> string \<Rightarrow> f64 \<Rightarrow> f64" where
  "mark_to_market b ticker current_price =
     (case dget (br_positions b) ticker of None \<Rightarrow> 0 | Some pos \<Rightarrow> position_pnl pos current_price)"

definition position_cost :: "position \<Rightarrow> f64" where
  "position_cost pos = fmul (fint (po_size pos)) (unit_cost (po_side pos) (po_entry_price pos))"

definition cost_basis :: "broker \<Rightarrow> string \<Rightarrow> f64" where
  "cost_basis b ticker =
     (case dget (br_positions b) ticker of None \<Rightarrow> 0 | Some pos \<Rightarrow> position_cost pos)"

definition quote_or_entry :: "(string, f64) pdict \<Rightarrow> string \<Rightarrow> position \<Rightarrow> f64" where
  "quote_or_entry latest_prices ticker pos = dget_or latest_prices ticker (po_entry_price pos)"

definition total_unrealized_pnl :: "broker \<Rightarrow> (string, f64) pdict \<Rightarrow> f64" where
  "total_unrealized_pnl b latest_prices =
     py_sum (map (\<lambda>(t, pos). mark_to_market b t (quote_or_entry latest_prices t pos)) (br_positions b))"

definition total_position_value :: "broker \<Rightarrow> (string, f64) pdict \<Rightarrow> f64" where
  "total_position_value b latest_prices =
     py_sum (map (\<lambda>(t, pos). fadd (cost_basis b t)
        (mark_to_market b t (quote_or_entry latest_prices t pos))) (br_positions b))"

definition equity :: "broker \<Rightarrow> (string, f64) pdict \<Rightarrow> f64" where
  "equity b latest_prices = py_round 2 (fadd (br_bankroll b) (total_position_value b latest_prices))"

subsection \<open>Opening\<close>

definition open_cost :: "f64 \<Rightarrow> outcome_side \<Rightarrow> int \<Rightarrow> f64 \<Rightarrow> f64" where
  "open_cost bankroll side sz price =
     (let c = fmul (fint sz) (unit_cost side price) in if bankroll < c then bankroll else c)"

definition actual_size :: "f64 \<Rightarrow> f64 \<Rightarrow> int" where
  "actual_size cost uc = (if uc > 0 then py_trunc (fdiv cost uc) else 0)"

definition current_exposure :: "broker \<Rightarrow> f64" where
  "current_exposure b = py_sum (map (\<lambda>t. cost_basis b t) (dkeys (br_positions b)))"

definition risk_halts :: "risk option \<Rightarrow> bool" where
  "risk_halts rk = (case rk of None \<Rightarrow> False | Some r \<Rightarrow> rk_halted r)"

definition exposure_ok :: "risk option \<Rightarrow> f64 \<Rightarrow> broker \<Rightarrow> bool" where
  "exposure_ok rk cost b =
     (case rk of None \<Rightarrow> True
      | Some r \<Rightarrow> check_total_exposure r (current_exposure b) cost (br_bankroll b))"

text \<open>The transaction of one fill: meta, position table, trade row; all or nothing.\<close>

definition row_of_trade :: "trade \<Rightarrow> trade_row" where
  "row_of_trade t =
     \<lparr> tw_ticker = tr_ticker t, tw_side = tr_side t, tw_size = tr_size t, tw_price = tr_price t,
       tw_reason = tr_reason t, tw_timestamp = tr_timestamp t,
       tw_config_fingerprint = tr_config_fingerprint t, tw_fee = Some (tr_fee t),
       tw_signal_seen_at = tr_signal_seen_at t, tw_excluded = 0,
       tw_netting_improvement_usd = tr_netting_improvement_usd t,
       tw_netting_bar_usd = tr_netting_bar_usd t,
       tw_netting_vol_ratio = tr_netting_vol_ratio t,
       tw_netting_exit_fee_usd = tr_netting_exit_fee_usd t \<rparr>"

definition row_of_position :: "position \<Rightarrow> position_row" where
  "row_of_position p =
     \<lparr> pr_side = po_side p, pr_size = po_size p, pr_entry_price = po_entry_price p,
       pr_opened_at = po_opened_at p, pr_config_fingerprint = po_config_fingerprint p,
       pr_entry_fee = Some (po_entry_fee p),
       pr_hold_to_settlement = Some (if po_hold_to_settlement p then 1 else 0) \<rparr>"

definition save_bankroll :: "f64 \<Rightarrow> broker_db \<Rightarrow> broker_db" where
  "save_bankroll x db = db\<lparr> bd_meta := map_option (\<lambda>(_, s). (x, s)) (bd_meta db) \<rparr>"

definition commit_trade ::
  "((string, position_row) pdict \<Rightarrow> (string, position_row) pdict) \<Rightarrow> f64 \<Rightarrow> trade \<Rightarrow> broker_db
     \<Rightarrow> db_error + broker_db" where
  "commit_trade upd_positions bankroll t db =
     (if tr_id t \<in> set (dkeys (bd_trades db)) then Inl IntegrityError
      else Inr ((save_bankroll bankroll db)\<lparr>
             bd_positions := upd_positions (bd_positions db),
             bd_trades := bd_trades db @ [(tr_id t, row_of_trade t)] \<rparr>))"

definition record_trade ::
  "((string, position_row) pdict \<Rightarrow> (string, position_row) pdict) \<Rightarrow> stamp \<Rightarrow> trade \<Rightarrow> broker
     \<Rightarrow> (db_error + trade option) \<times> broker" where
  "record_trade upd_positions st t b =
     (case commit_trade upd_positions (br_bankroll b) t (br_db b) of
        Inl e \<Rightarrow> (Inl e, b)
      | Inr db \<Rightarrow> (Inr (Some t),
          b\<lparr> br_db := db, br_history := mark_history_changed (st_pushed_at st) (br_history b) \<rparr>))"

definition entry_trade ::
  "stamp \<Rightarrow> string \<Rightarrow> outcome_side \<Rightarrow> int \<Rightarrow> f64 \<Rightarrow> string \<Rightarrow> string option \<Rightarrow> f64 \<Rightarrow> f64 option \<Rightarrow> trade" where
  "entry_trade st ticker side sz price reason fp fee seen =
     \<lparr> tr_id = st_uuid st, tr_ticker = ticker, tr_side = side, tr_size = sz, tr_price = price,
       tr_reason = reason, tr_timestamp = st_timestamp st, tr_config_fingerprint = fp,
       tr_fee = fee, tr_signal_seen_at = seen, tr_excluded = False,
       tr_netting_improvement_usd = None, tr_netting_bar_usd = None,
       tr_netting_vol_ratio = None, tr_netting_exit_fee_usd = None \<rparr>"

definition open_position ::
  "(f64 \<Rightarrow> f64 \<Rightarrow> string option \<Rightarrow> f64) \<Rightarrow> risk option \<Rightarrow> stamp \<Rightarrow> string \<Rightarrow> outcome_side \<Rightarrow> int \<Rightarrow> f64
     \<Rightarrow> string \<Rightarrow> string option \<Rightarrow> f64 option \<Rightarrow> bool \<Rightarrow> broker \<Rightarrow> (db_error + trade option) \<times> broker" where
  "open_position fee_fn rk st ticker side sz price reason fp seen hold b =
     (if risk_halts rk then (Inr None, b)
      else let uc = unit_cost side price;
               cost = open_cost (br_bankroll b) side sz price;
               n = actual_size cost uc
        in if \<not> exposure_ok rk cost b then (Inr None, b)
           else let fee = fee_fn (fint n) price (Some ticker);
                    pos = \<lparr> po_ticker = ticker, po_side = side, po_size = n, po_entry_price = price,
                            po_opened_at = st_opened_at st, po_config_fingerprint = fp,
                            po_entry_fee = fee, po_hold_to_settlement = hold \<rparr>;
                    t = entry_trade st ticker side n price reason fp fee seen;
                    b' = b\<lparr> br_bankroll := fsub (br_bankroll b) (fadd cost fee),
                            br_positions := dput ticker pos (br_positions b),
                            br_trade_log := br_trade_log b @ [t],
                            br_last_trade_time := dput ticker (tr_timestamp t) (br_last_trade_time b) \<rparr>
             in record_trade (dreplace ticker (row_of_position pos)) st t b')"

subsection \<open>Resting limit orders\<close>

definition place_limit_order :: "pending_order \<Rightarrow> broker \<Rightarrow> pending_order option \<times> broker" where
  "place_limit_order order b =
     (if pn_ticker order \<in> set (dkeys (br_pending_orders b)) \<or> pn_size order \<le> 0 then (None, b)
      else (Some order,
        b\<lparr> br_pending_orders := dput (pn_ticker order) order (br_pending_orders b),
           br_db := (br_db b)\<lparr> bd_pending := dreplace (pn_ticker order) order (bd_pending (br_db b)) \<rparr> \<rparr>))"

definition cancel_pending :: "string \<Rightarrow> broker \<Rightarrow> broker" where
  "cancel_pending ticker b =
     b\<lparr> br_pending_orders := ddel ticker (br_pending_orders b),
        br_db := (br_db b)\<lparr> bd_pending := ddel ticker (bd_pending (br_db b)) \<rparr> \<rparr>"

datatype fill_decision =
    FillRejected string outcome_side f64 string
  | FillTrade trade string

text \<open>The price an order would fill at now: a YES buyer lifts the yes ask, a NO buyer the yes bid.\<close>

definition fill_price ::
  "(string, f64) pdict \<Rightarrow> (string, f64) pdict \<Rightarrow> string \<Rightarrow> pending_order \<Rightarrow> f64 option" where
  "fill_price bids asks ticker order =
     (case pn_side order of Yes \<Rightarrow> dget asks ticker | No \<Rightarrow> dget bids ticker)"

definition order_reached :: "pending_order \<Rightarrow> f64 \<Rightarrow> bool" where
  "order_reached order p = (unit_cost (pn_side order) p \<le> unit_cost (pn_side order) (pn_limit_price order))"

text \<open>
  One round of the loop body of \<open>check_pending_fills\<close>. \<open>validate\<close> is the optional
  \<open>validate_fn\<close>; None as decision means the order produced nothing this tick.
\<close>

definition try_fill ::
  "title_cache \<Rightarrow> risk option \<Rightarrow> (string \<Rightarrow> stamp) \<Rightarrow> (string, f64) pdict \<Rightarrow> (string, f64) pdict \<Rightarrow> f64
   \<Rightarrow> (string \<Rightarrow> outcome_side \<Rightarrow> f64 \<Rightarrow> f64 option \<Rightarrow> bool \<times> string) option
   \<Rightarrow> string \<Rightarrow> pending_order \<Rightarrow> broker \<Rightarrow> (db_error + fill_decision option) \<times> broker" where
  "try_fill tc rk stamps bids asks now validate ticker order b =
     (if now \<ge> pn_expires_at order then (Inr None, cancel_pending ticker b)
      else case fill_price bids asks ticker order of
        None \<Rightarrow> (Inr None, b)
      | Some p \<Rightarrow>
          if \<not> order_reached order p then (Inr None, b)
          else
            (let verdict = (case validate of None \<Rightarrow> (True, [])
                            | Some v \<Rightarrow> v (pn_ticker order) (pn_side order) p (pn_confidence order))
             in if \<not> fst verdict
                then (Inr (Some (FillRejected (pn_ticker order) (pn_side order) p (snd verdict))),
                      cancel_pending ticker b)
                else
                  (case open_position (maker_fee tc) rk (stamps ticker) (pn_ticker order) (pn_side order)
                          (pn_size order) p (pn_reason order) (pn_config_fingerprint order)
                          (pn_signal_seen_at order) False (cancel_pending ticker b) of
                     (Inl e, b') \<Rightarrow> (Inl e, b')
                   | (Inr None, b') \<Rightarrow>
                       (Inr (Some (FillRejected (pn_ticker order) (pn_side order) p
                          ''risk halted or exposure cap'')), b')
                   | (Inr (Some t), b') \<Rightarrow> (Inr (Some (FillTrade t (pn_reason order))), b'))))"

fun fill_loop ::
  "title_cache \<Rightarrow> risk option \<Rightarrow> (string \<Rightarrow> stamp) \<Rightarrow> (string, f64) pdict \<Rightarrow> (string, f64) pdict \<Rightarrow> f64
   \<Rightarrow> (string \<Rightarrow> outcome_side \<Rightarrow> f64 \<Rightarrow> f64 option \<Rightarrow> bool \<times> string) option
   \<Rightarrow> string list \<Rightarrow> fill_decision list \<Rightarrow> broker \<Rightarrow> (db_error + fill_decision list) \<times> broker" where
  "fill_loop tc rk stamps bids asks now validate [] acc b = (Inr acc, b)"
| "fill_loop tc rk stamps bids asks now validate (ticker # ts) acc b =
     (case dget (br_pending_orders b) ticker of
        None \<Rightarrow> fill_loop tc rk stamps bids asks now validate ts acc b
      | Some order \<Rightarrow>
          (case try_fill tc rk stamps bids asks now validate ticker order b of
             (Inl e, b') \<Rightarrow> (Inl e, b')
           | (Inr None, b') \<Rightarrow> fill_loop tc rk stamps bids asks now validate ts acc b'
           | (Inr (Some d), b') \<Rightarrow> fill_loop tc rk stamps bids asks now validate ts (acc @ [d]) b'))"

definition check_pending_fills ::
  "title_cache \<Rightarrow> risk option \<Rightarrow> (string \<Rightarrow> stamp) \<Rightarrow> (string, f64) pdict \<Rightarrow> (string, f64) pdict \<Rightarrow> f64
   \<Rightarrow> (string \<Rightarrow> outcome_side \<Rightarrow> f64 \<Rightarrow> f64 option \<Rightarrow> bool \<times> string) option
   \<Rightarrow> broker \<Rightarrow> (db_error + fill_decision list) \<times> broker" where
  "check_pending_fills tc rk stamps bids asks now validate b =
     fill_loop tc rk stamps bids asks now validate (dkeys (br_pending_orders b)) [] b"

subsection \<open>Closing\<close>

record netting_inputs =
  ni_improvement :: "f64 option"
  ni_bar :: "f64 option"
  ni_vol_ratio :: "f64 option"
  ni_exit_fee :: "f64 option"

definition no_netting :: netting_inputs where
  "no_netting = \<lparr>ni_improvement = None, ni_bar = None, ni_vol_ratio = None, ni_exit_fee = None\<rparr>"

definition cash_back :: "title_cache \<Rightarrow> outcome_side \<Rightarrow> int \<Rightarrow> f64 \<Rightarrow> string \<Rightarrow> f64" where
  "cash_back tc side sz price ticker =
     fsub (fmul (fint sz) (unit_cost side price)) (taker_fee tc (fint sz) price (Some ticker))"

definition realized_pnl :: "title_cache \<Rightarrow> position \<Rightarrow> string \<Rightarrow> f64 \<Rightarrow> f64" where
  "realized_pnl tc pos ticker exit_price =
     fsub (fsub (position_pnl pos exit_price) (po_entry_fee pos))
       (taker_fee tc (fint (po_size pos)) exit_price (Some ticker))"

definition close_reason :: "string \<Rightarrow> f64 \<Rightarrow> string" where
  "close_reason reason pnl = ''closed: '' @ reason @ '' (realized '' @ fmt_signed 2 pnl @ '')''"

definition close_trade ::
  "title_cache \<Rightarrow> stamp \<Rightarrow> string \<Rightarrow> position \<Rightarrow> f64 \<Rightarrow> string \<Rightarrow> netting_inputs \<Rightarrow> trade" where
  "close_trade tc st ticker pos exit_price reason ni =
     \<lparr> tr_id = st_uuid st, tr_ticker = ticker, tr_side = po_side pos, tr_size = po_size pos,
       tr_price = exit_price, tr_reason = close_reason reason (realized_pnl tc pos ticker exit_price),
       tr_timestamp = st_timestamp st, tr_config_fingerprint = po_config_fingerprint pos,
       tr_fee = taker_fee tc (fint (po_size pos)) exit_price (Some ticker),
       tr_signal_seen_at = None, tr_excluded = False,
       tr_netting_improvement_usd = ni_improvement ni, tr_netting_bar_usd = ni_bar ni,
       tr_netting_vol_ratio = ni_vol_ratio ni, tr_netting_exit_fee_usd = ni_exit_fee ni \<rparr>"

definition close_position ::
  "title_cache \<Rightarrow> stamp \<Rightarrow> string \<Rightarrow> f64 \<Rightarrow> string \<Rightarrow> netting_inputs \<Rightarrow> broker
     \<Rightarrow> (db_error + trade option) \<times> broker" where
  "close_position tc st ticker exit_price reason ni b =
     (case dget (br_positions b) ticker of
        None \<Rightarrow> (Inr None, b)
      | Some pos \<Rightarrow>
          (let t = close_trade tc st ticker pos exit_price reason ni;
               b' = b\<lparr> br_bankroll := fadd (br_bankroll b)
                          (cash_back tc (po_side pos) (po_size pos) exit_price ticker),
                       br_trade_log := br_trade_log b @ [t],
                       br_positions := ddel ticker (br_positions b) \<rparr>
           in record_trade (ddel ticker) st t b'))"

definition flatten_price ::
  "(string, f64) pdict \<Rightarrow> (string, f64) pdict option \<Rightarrow> string \<Rightarrow> position \<Rightarrow> f64" where
  "flatten_price latest_prices latest_asks ticker pos =
     (let price = quote_or_entry latest_prices ticker pos in
      case latest_asks of None \<Rightarrow> price
      | Some asks \<Rightarrow> forced_exit_quote (po_side pos) (Some price) (dget asks ticker) (po_entry_price pos))"

fun close_loop ::
  "title_cache \<Rightarrow> (string \<Rightarrow> stamp) \<Rightarrow> (string, f64) pdict \<Rightarrow> (string, f64) pdict option \<Rightarrow> string
   \<Rightarrow> string list \<Rightarrow> trade list \<Rightarrow> broker \<Rightarrow> (db_error + trade list) \<times> broker" where
  "close_loop tc stamps prices asks reason [] acc b = (Inr acc, b)"
| "close_loop tc stamps prices asks reason (ticker # ts) acc b =
     (case dget (br_positions b) ticker of
        None \<Rightarrow> close_loop tc stamps prices asks reason ts acc b
      | Some pos \<Rightarrow>
          (case close_position tc (stamps ticker) ticker (flatten_price prices asks ticker pos)
                  reason no_netting b of
             (Inl e, b') \<Rightarrow> (Inl e, b')
           | (Inr None, b') \<Rightarrow> close_loop tc stamps prices asks reason ts acc b'
           | (Inr (Some t), b') \<Rightarrow> close_loop tc stamps prices asks reason ts (acc @ [t]) b'))"

definition close_all_positions ::
  "title_cache \<Rightarrow> (string \<Rightarrow> stamp) \<Rightarrow> (string, f64) pdict \<Rightarrow> (string, f64) pdict option \<Rightarrow> string
   \<Rightarrow> broker \<Rightarrow> (db_error + trade list) \<times> broker" where
  "close_all_positions tc stamps prices asks reason b =
     close_loop tc stamps prices asks reason (dkeys (br_positions b)) [] b"

subsection \<open>Corrections, reset and history ranges\<close>

fun flag_first :: "string \<Rightarrow> trade list \<Rightarrow> trade list" where
  "flag_first i [] = []"
| "flag_first i (t # ts) = (if tr_id t = i then t\<lparr> tr_excluded := True \<rparr> # ts else t # flag_first i ts)"

record correction =
  cr_trade_id :: string
  cr_ticker :: string
  cr_reversed_cash_back :: f64
  cr_corrected_credit :: f64
  cr_bankroll_after :: f64

definition correct_erroneous_close ::
  "title_cache \<Rightarrow> string \<Rightarrow> f64 option \<Rightarrow> broker \<Rightarrow> correction option \<times> broker" where
  "correct_erroneous_close tc tid corrected_price b =
     (case dget (bd_trades (br_db b)) tid of
        None \<Rightarrow> (None, b)
      | Some r \<Rightarrow>
          if tw_excluded r \<noteq> 0 \<or> \<not> starts_with ''closed:'' (tw_reason r) then (None, b)
          else
            (let fee = (case tw_fee r of None \<Rightarrow> 0 | Some f \<Rightarrow> f);
                 reversed = fsub (fmul (fint (tw_size r)) (unit_cost (tw_side r) (tw_price r))) fee;
                 bank1 = fsub (br_bankroll b) reversed;
                 credit = (case corrected_price of None \<Rightarrow> 0
                           | Some p \<Rightarrow> cash_back tc (tw_side r) (tw_size r) p (tw_ticker r));
                 bank2 = (case corrected_price of None \<Rightarrow> bank1 | Some p \<Rightarrow> fadd bank1 credit);
                 db = (save_bankroll bank2 (br_db b))\<lparr>
                        bd_trades := dput tid (r\<lparr> tw_excluded := 1 \<rparr>) (bd_trades (br_db b)) \<rparr>
             in (Some \<lparr> cr_trade_id = tid, cr_ticker = tw_ticker r,
                        cr_reversed_cash_back = py_round 2 reversed,
                        cr_corrected_credit = py_round 2 credit,
                        cr_bankroll_after = py_round 2 bank2 \<rparr>,
                 b\<lparr> br_bankroll := bank2, br_trade_log := flag_first tid (br_trade_log b), br_db := db \<rparr>)))"

definition reset_broker :: "f64 \<Rightarrow> broker \<Rightarrow> broker" where
  "reset_broker starting_bankroll b =
     b\<lparr> br_bankroll := starting_bankroll, br_starting_bankroll := starting_bankroll,
        br_positions := [], br_trade_log := [], br_last_trade_time := [], br_pending_orders := [],
        br_db := \<lparr> bd_meta = Some (starting_bankroll, starting_bankroll),
                   bd_positions = [], bd_trades = [], bd_pending = [] \<rparr> \<rparr>"

text \<open>\<open>_trade_range_where\<close>: the half-open range \<open>(after, before]\<close>, open where None.\<close>

definition in_trade_range :: "f64 option \<Rightarrow> f64 option \<Rightarrow> f64 \<Rightarrow> bool" where
  "in_trade_range before after ts =
     ((case after of None \<Rightarrow> True | Some a \<Rightarrow> ts > a) \<and> (case before of None \<Rightarrow> True | Some u \<Rightarrow> ts \<le> u))"

text \<open>\<open>Trade(*row)\<close> of ten selected columns: the others take the class defaults.\<close>

definition entry_columns :: "trade_row \<Rightarrow> trade_row" where
  "entry_columns r = r\<lparr> tw_excluded := 0, tw_netting_improvement_usd := None, tw_netting_bar_usd := None,
     tw_netting_vol_ratio := None, tw_netting_exit_fee_usd := None \<rparr>"

definition trades_since :: "f64 option \<Rightarrow> broker \<Rightarrow> (string \<times> trade_row) list" where
  "trades_since after b =
     filter (\<lambda>(i, r). \<not> starts_with ''closed:'' (tw_reason r))
       (map (\<lambda>(i, r). (i, entry_columns r))
         (sort_key (\<lambda>(i, r). tw_timestamp r)
           (filter (\<lambda>(i, r). in_trade_range None after (tw_timestamp r)) (bd_trades (br_db b)))))"

definition count_trade_range :: "f64 option \<Rightarrow> f64 option \<Rightarrow> broker \<Rightarrow> nat" where
  "count_trade_range before after b =
     length (filter (\<lambda>(i, r). in_trade_range before after (tw_timestamp r)) (bd_trades (br_db b)))"

definition clear_trade_range :: "f64 option \<Rightarrow> f64 option \<Rightarrow> broker \<Rightarrow> nat \<times> broker" where
  "clear_trade_range before after b =
     (count_trade_range before after b,
      b\<lparr> br_trade_log := filter (\<lambda>t. \<not> in_trade_range before after (tr_timestamp t)) (br_trade_log b),
         br_db := (br_db b)\<lparr> bd_trades :=
           filter (\<lambda>(i, r). \<not> in_trade_range before after (tw_timestamp r)) (bd_trades (br_db b)) \<rparr> \<rparr>)"

subsection \<open>The account snapshot\<close>

record account_state =
  ac_bankroll :: f64
  ac_equity :: f64
  ac_unrealized_pnl :: f64
  ac_starting_bankroll :: f64
  ac_positions :: "(position \<times> f64) list"
  ac_recent_trades :: "trade list"
  ac_pending_orders :: "pending_order list"

definition broker_state :: "broker \<Rightarrow> (string, f64) pdict \<Rightarrow> account_state" where
  "broker_state b latest_prices =
     \<lparr> ac_bankroll = py_round 2 (br_bankroll b),
       ac_equity = equity b latest_prices,
       ac_unrealized_pnl = py_round 2 (total_unrealized_pnl b latest_prices),
       ac_starting_bankroll = br_starting_bankroll b,
       ac_positions = map (\<lambda>(t, p). (p, py_round 2 (cost_basis b (po_ticker p)))) (br_positions b),
       ac_recent_trades = take 25 (rev (br_trade_log b)),
       ac_pending_orders = map snd (br_pending_orders b) \<rparr>"

end
