(* ===== verification/BrokerStore.thy ===== *)
theory BrokerStore
  imports Broker
begin

text \<open>
  The broker's two copies of its state: what it means that memory and tables agree
  (\<open>broker_synced\<close>), that every operation that does not raise keeps the agreement,
  and that a restart over such a file shows the same account (\<open>broker_view\<close>); the
  interpretation of the \<open>durable\<close> contract.
\<close>

subsection \<open>Dictionary lemmas\<close>

lemma dget_append: "dget (d @ e) k = (case dget d k of None \<Rightarrow> dget e k | Some v \<Rightarrow> Some v)"
  by (simp add: dget_def map_add_def split: option.splits)

lemma dget_dreplace [simp]: "dget (dreplace k v d) k' = (if k' = k then Some v else dget d k')"
  by (auto simp: dreplace_def dget_append split: option.splits)

lemma dict_ok_dreplace [simp]: "dict_ok d \<Longrightarrow> dict_ok (dreplace k v d)"
  by (auto simp: dreplace_def dict_ok_def dkeys_ddel) (simp add: dkeys_def ddel_def distinct_map_filter image_iff)+

lemma dget_map_values: "dget (map (\<lambda>(k, v). (k, f k v)) d) k = map_option (f k) (dget d k)"
  by (induction d) auto

lemma dkeys_map_values: "dkeys (map (\<lambda>(k, v). (k, f k v)) d) = dkeys d"
  by (induction d) auto

lemma dget_filter:
  "dict_ok d \<Longrightarrow> dget (filter (\<lambda>(k, v). P k v) d) k =
     (case dget d k of None \<Rightarrow> None | Some v \<Rightarrow> if P k v then Some v else None)"
proof (induction d)
  case Nil
  then show ?case by simp
next
  case (Cons kv d)
  obtain k' v' where kv: "kv = (k', v')" by (cases kv)
  from Cons.prems have "dict_ok d" and new: "dget d k' = None"
    by (simp_all add: kv dict_ok_def dget_eq_None_iff)
  with Cons.IH show ?case by (auto simp: kv split: option.splits)
qed

lemma dict_ok_filter: "dict_ok d \<Longrightarrow> dict_ok (filter P d)"
  by (simp add: dict_ok_def dkeys_def distinct_map_filter)

lemma dget_cong_set: "dict_ok d \<Longrightarrow> dict_ok e \<Longrightarrow> set d = set e \<Longrightarrow> dget d = dget e"
  using map_of_inject_set [of d e] by (auto simp: dget_def dict_ok_def dkeys_def fun_eq_iff)

subsection \<open>The trade log by id\<close>

definition by_id :: "trade list \<Rightarrow> (string, trade) pdict" where
  "by_id ts = map (\<lambda>t. (tr_id t, t)) ts"

lemma by_id_simps [simp]: "by_id [] = []" "by_id (t # ts) = (tr_id t, t) # by_id ts"
  "by_id (ts @ us) = by_id ts @ by_id us"
  by (simp_all add: by_id_def)

lemma by_id_filter: "by_id (filter P ts) = filter (\<lambda>(i, t). P t) (by_id ts)"
  by (induction ts) auto

lemma tr_id_load_trade [simp]: "tr_id (load_trade i r) = i"
  by (simp add: load_trade_def)

lemma by_id_load: "by_id (map (\<lambda>(i, r). load_trade i r) d) = map (\<lambda>(i, r). (i, load_trade i r)) d"
  by (induction d) auto

lemma dget_by_id_sort:
  assumes "dict_ok (by_id ts)"
  shows "dget (by_id (sort_key f ts)) = dget (by_id ts)" "dict_ok (by_id (sort_key f ts))"
proof -
  have "distinct (map tr_id (sort_key f ts))"
    using assms by (simp add: dict_ok_def dkeys_def by_id_def comp_def distinct_map)
  then show ok: "dict_ok (by_id (sort_key f ts))"
    by (simp add: dict_ok_def dkeys_def by_id_def comp_def)
  show "dget (by_id (sort_key f ts)) = dget (by_id ts)"
    by (rule dget_cong_set [OF ok assms]) (simp add: by_id_def)
qed

lemma dget_flag_first:
  "dget (by_id (flag_first i ts)) j =
     (if j = i then map_option (tr_excluded_update (\<lambda>_. True)) (dget (by_id ts) j) else dget (by_id ts) j)"
  by (induction ts) auto

lemma dkeys_flag_first: "dkeys (by_id (flag_first i ts)) = dkeys (by_id ts)"
  by (induction ts) auto

subsection \<open>Memory and tables in step\<close>

definition tables_ok :: "broker_db \<Rightarrow> bool" where
  "tables_ok db \<longleftrightarrow> dict_ok (bd_positions db) \<and> dict_ok (bd_trades db) \<and> dict_ok (bd_pending db)"

definition memory_ok :: "broker \<Rightarrow> bool" where
  "memory_ok b \<longleftrightarrow> dict_ok (br_positions b) \<and> dict_ok (by_id (br_trade_log b)) \<and> dict_ok (br_pending_orders b)"

definition broker_synced :: "broker \<Rightarrow> bool" where
  "broker_synced b \<longleftrightarrow> tables_ok (br_db b) \<and> memory_ok b
     \<and> bd_meta (br_db b) = Some (br_bankroll b, br_starting_bankroll b)
     \<and> (\<forall>t. dget (br_positions b) t = map_option (load_position t) (dget (bd_positions (br_db b)) t))
     \<and> (\<forall>i. dget (by_id (br_trade_log b)) i = map_option (load_trade i) (dget (bd_trades (br_db b)) i))
     \<and> (\<forall>t. dget (br_pending_orders b) t = dget (bd_pending (br_db b)) t)"

type_synonym account_view =
  "f64 \<times> f64 \<times> (string \<Rightarrow> position option) \<times> (string \<Rightarrow> trade option) \<times> (string \<Rightarrow> pending_order option)"

definition broker_view :: "broker \<Rightarrow> account_view" where
  "broker_view b = (br_bankroll b, br_starting_bankroll b, dget (br_positions b),
     dget (by_id (br_trade_log b)), dget (br_pending_orders b))"

lemma syncedI:
  assumes "tables_ok (br_db b)" "memory_ok b"
    "bd_meta (br_db b) = Some (br_bankroll b, br_starting_bankroll b)"
    "\<And>t. dget (br_positions b) t = map_option (load_position t) (dget (bd_positions (br_db b)) t)"
    "\<And>i. dget (by_id (br_trade_log b)) i = map_option (load_trade i) (dget (bd_trades (br_db b)) i)"
    "\<And>t. dget (br_pending_orders b) t = dget (bd_pending (br_db b)) t"
  shows "broker_synced b"
  using assms by (simp add: broker_synced_def)

lemma syncedD:
  assumes "broker_synced b"
  shows "tables_ok (br_db b)" "memory_ok b"
    "bd_meta (br_db b) = Some (br_bankroll b, br_starting_bankroll b)"
    "dget (br_positions b) t = map_option (load_position t) (dget (bd_positions (br_db b)) t)"
    "dget (by_id (br_trade_log b)) i = map_option (load_trade i) (dget (bd_trades (br_db b)) i)"
    "dget (br_pending_orders b) t = dget (bd_pending (br_db b)) t"
  using assms by (simp_all add: broker_synced_def)

lemma load_row_of_position [simp]: "po_ticker p = t \<Longrightarrow> load_position t (row_of_position p) = p"
  by (auto simp: load_position_def row_of_position_def)

lemma load_row_of_trade [simp]:
  "tr_id t = i \<Longrightarrow> \<not> tr_excluded t \<Longrightarrow> load_trade i (row_of_trade t) = t"
  by (auto simp: load_trade_def row_of_trade_def)

lemma load_excluded:
  "load_trade i (r\<lparr> tw_excluded := 1 \<rparr>) = (load_trade i r)\<lparr> tr_excluded := True \<rparr>"
  by (simp add: load_trade_def)

subsection \<open>Every write keeps them in step\<close>

lemma record_trade_synced:
  assumes "record_trade upd st t b = (Inr r, b')"
    and "broker_synced b0"
    and "br_db b = br_db b0" "br_starting_bankroll b = br_starting_bankroll b0"
    and "br_pending_orders b = br_pending_orders b0"
    and "br_trade_log b = br_trade_log b0 @ [t]" "\<not> tr_excluded t"
    and "dict_ok (br_positions b)" "dict_ok (upd (bd_positions (br_db b)))"
    and "\<And>k. dget (br_positions b) k = map_option (load_position k) (dget (upd (bd_positions (br_db b))) k)"
  shows "broker_synced b'"
proof -
  note sy = syncedD [OF assms(2)]
  let ?db = "br_db b0"
  have new: "dget (bd_trades ?db) (tr_id t) = None"
    and b': "b' = b\<lparr> br_db := (save_bankroll (br_bankroll b) ?db)\<lparr>
             bd_positions := upd (bd_positions ?db),
             bd_trades := bd_trades ?db @ [(tr_id t, row_of_trade t)] \<rparr>,
             br_history := mark_history_changed (st_pushed_at st) (br_history b) \<rparr>"
    using assms(1,3) by (auto simp: record_trade_def commit_trade_def dget_eq_None_iff split: if_splits)
  have ok: "dict_ok (bd_positions ?db)" "dict_ok (bd_trades ?db)" "dict_ok (bd_pending ?db)"
    using sy(1) by (simp_all add: tables_ok_def)
  have mem: "dict_ok (by_id (br_trade_log b0))" "dict_ok (br_pending_orders b0)"
    using sy(2) by (simp_all add: memory_ok_def)
  have newmem: "dget (by_id (br_trade_log b0)) (tr_id t) = None"
    by (simp add: sy(5) new)
  show ?thesis
  proof (rule syncedI)
    show "tables_ok (br_db b')"
      using ok assms(9) new by (simp add: b' tables_ok_def assms(3) save_bankroll_def)
        (simp add: dict_ok_def dkeys_def dget_def map_of_eq_None_iff)
    show "memory_ok b'"
      using mem assms(8) newmem by (simp add: b' memory_ok_def assms)
        (simp add: dict_ok_def dkeys_def dget_def map_of_eq_None_iff)
    show "bd_meta (br_db b') = Some (br_bankroll b', br_starting_bankroll b')"
      by (simp add: b' save_bankroll_def sy(3) assms)
    show "dget (br_positions b') k = map_option (load_position k) (dget (bd_positions (br_db b')) k)" for k
      using assms(10) by (simp add: b' assms(3))
    show "dget (br_pending_orders b') k = dget (bd_pending (br_db b')) k" for k
      by (simp add: b' assms sy(6) save_bankroll_def)
    show "dget (by_id (br_trade_log b')) i = map_option (load_trade i) (dget (bd_trades (br_db b')) i)" for i
      using new newmem assms(7) by (simp add: b' assms dget_append sy(5) split: option.splits)
  qed
qed

lemma open_position_cases:
  assumes "open_position fee rk st ticker side sz price reason fp seen hold b = res"
  obtains (refused) "res = (Inr None, b)" "risk_halts rk \<or>
      \<not> exposure_ok rk (open_cost (br_bankroll b) side sz price) b"
  | (recorded) pos t cost where
      "\<not> risk_halts rk" "cost = open_cost (br_bankroll b) side sz price" "exposure_ok rk cost b"
      "po_ticker pos = ticker" "po_side pos = side" "po_entry_price pos = price"
      "po_size pos = actual_size cost (unit_cost side price)"
      "po_entry_fee pos = fee (fint (po_size pos)) price (Some ticker)"
      "t = entry_trade st ticker side (po_size pos) price reason fp (po_entry_fee pos) seen"
      "record_trade (dreplace ticker (row_of_position pos)) st t
         (b\<lparr> br_bankroll := fsub (br_bankroll b) (fadd cost (po_entry_fee pos)),
             br_positions := dput ticker pos (br_positions b),
             br_trade_log := br_trade_log b @ [t],
             br_last_trade_time := dput ticker (tr_timestamp t) (br_last_trade_time b) \<rparr>) = res"
proof (cases "risk_halts rk \<or> \<not> exposure_ok rk (open_cost (br_bankroll b) side sz price) b")
  case True
  then show ?thesis using assms by (intro refused) (auto simp: open_position_def Let_def)
next
  case False
  let ?cost = "open_cost (br_bankroll b) side sz price"
  let ?n = "actual_size ?cost (unit_cost side price)"
  let ?pos = "\<lparr> po_ticker = ticker, po_side = side, po_size = ?n, po_entry_price = price,
      po_opened_at = st_opened_at st, po_config_fingerprint = fp,
      po_entry_fee = fee (fint ?n) price (Some ticker), po_hold_to_settlement = hold \<rparr>"
  show ?thesis
    using False assms
    by (intro recorded [of ?cost ?pos "entry_trade st ticker side ?n price reason fp (po_entry_fee ?pos) seen"])
      (simp_all add: open_position_def Let_def)
qed

lemma open_position_synced:
  assumes "broker_synced b" "open_position fee rk st ticker side sz price reason fp seen hold b = (Inr r, b')"
  shows "broker_synced b'"
  using assms(2)
proof (cases rule: open_position_cases)
  case refused
  then show ?thesis using assms(1) by simp
next
  case (recorded pos t cost)
  from syncedD(1,2) [OF assms(1)] show ?thesis
    by (intro record_trade_synced [OF recorded(10) assms(1)])
      (simp_all add: recorded(4,9) entry_trade_def tables_ok_def memory_ok_def syncedD(4) [OF assms(1)])
qed

lemma close_position_synced:
  assumes "broker_synced b" "close_position tc st ticker price reason ni b = (Inr r, b')"
  shows "broker_synced b'"
proof (cases "dget (br_positions b) ticker")
  case None
  then show ?thesis using assms by (simp add: close_position_def)
next
  case (Some pos)
  let ?t = "close_trade tc st ticker pos price reason ni"
  let ?b1 = "b\<lparr> br_bankroll := fadd (br_bankroll b) (cash_back tc (po_side pos) (po_size pos) price ticker),
        br_trade_log := br_trade_log b @ [?t], br_positions := ddel ticker (br_positions b) \<rparr>"
  have rec: "record_trade (ddel ticker) st ?t ?b1 = (Inr r, b')"
    using assms(2) Some by (simp add: close_position_def Let_def)
  from syncedD(1,2) [OF assms(1)] show ?thesis
    by (intro record_trade_synced [OF rec assms(1)])
      (simp_all add: close_trade_def tables_ok_def memory_ok_def syncedD(4) [OF assms(1)])
qed

lemma place_limit_order_synced:
  "broker_synced b \<Longrightarrow> broker_synced (snd (place_limit_order order b))"
  by (auto simp: place_limit_order_def broker_synced_def tables_ok_def memory_ok_def)

lemma cancel_pending_synced: "broker_synced b \<Longrightarrow> broker_synced (cancel_pending ticker b)"
  by (auto simp: cancel_pending_def broker_synced_def tables_ok_def memory_ok_def)

lemma try_fill_synced:
  assumes "broker_synced b" "try_fill tc rk stamps bids asks now validate ticker order b = (Inr r, b')"
  shows "broker_synced b'"
  using assms cancel_pending_synced [OF assms(1), of ticker]
  by (auto simp: try_fill_def Let_def split: if_splits option.splits prod.splits sum.splits
      intro: open_position_synced)

lemma fill_loop_synced:
  "broker_synced b \<Longrightarrow> fill_loop tc rk stamps bids asks now validate ts acc b = (Inr r, b') \<Longrightarrow>
   broker_synced b'"
proof (induction ts arbitrary: acc b)
  case Nil
  then show ?case by simp
next
  case (Cons ticker ts)
  then show ?case
    by (auto split: option.splits prod.splits sum.splits intro: try_fill_synced)
qed

lemma close_loop_synced:
  "broker_synced b \<Longrightarrow> close_loop tc stamps prices asks reason ts acc b = (Inr r, b') \<Longrightarrow>
   broker_synced b'"
proof (induction ts arbitrary: acc b)
  case Nil
  then show ?case by simp
next
  case (Cons ticker ts)
  then show ?case
    by (auto split: option.splits prod.splits sum.splits intro: close_position_synced)
qed

lemma correct_erroneous_close_synced:
  assumes "broker_synced b"
  shows "broker_synced (snd (correct_erroneous_close tc tid p b))"
proof (cases "dget (bd_trades (br_db b)) tid")
  case None
  then show ?thesis using assms by (simp add: correct_erroneous_close_def)
next
  case (Some r)
  note sy = syncedD [OF assms]
  show ?thesis
  proof (cases "tw_excluded r \<noteq> 0 \<or> \<not> starts_with ''closed:'' (tw_reason r)")
    case True
    then show ?thesis using assms Some by (auto simp: correct_erroneous_close_def)
  next
    case False
    have flags: "dget (by_id (flag_first tid (br_trade_log b))) i =
        map_option (load_trade i) (dget (dput tid (r\<lparr> tw_excluded := 1 \<rparr>) (bd_trades (br_db b))) i)" for i
      using sy(5) [of i] Some by (auto simp: dget_flag_first load_excluded)
    have "dict_ok (by_id (flag_first tid (br_trade_log b)))"
      using sy(2) by (simp add: memory_ok_def dict_ok_def dkeys_flag_first)
    then show ?thesis
      using False Some sy(1,2) flags
      by (auto simp: correct_erroneous_close_def Let_def save_bankroll_def broker_synced_def
          tables_ok_def memory_ok_def sy(3) sy(4) sy(6))
  qed
qed

lemma reset_broker_synced: "broker_synced (reset_broker x b)"
  by (simp add: reset_broker_def broker_synced_def tables_ok_def memory_ok_def)

lemma clear_trade_range_synced:
  assumes "broker_synced b"
  shows "broker_synced (snd (clear_trade_range before after b))"
proof -
  note sy = syncedD [OF assms]
  have ok: "dict_ok (by_id (br_trade_log b))" "dict_ok (bd_trades (br_db b))"
    using sy(1,2) by (simp_all add: tables_ok_def memory_ok_def)
  have "dget (filter (\<lambda>(j, t). \<not> in_trade_range before after (tr_timestamp t)) (by_id (br_trade_log b))) i =
      map_option (load_trade i)
        (dget (filter (\<lambda>(j, r). \<not> in_trade_range before after (tw_timestamp r)) (bd_trades (br_db b))) i)" for i
    using sy(5) [of i]
    by (auto simp: dget_filter [OF ok(1)] dget_filter [OF ok(2)] load_trade_def split: option.splits)
  then show ?thesis
    using assms by (auto simp: clear_trade_range_def broker_synced_def tables_ok_def memory_ok_def
        by_id_filter dict_ok_filter)
qed

subsection \<open>Restart\<close>

lemma init_broker_first_run:
  "bd_meta db = None \<Longrightarrow> bd_positions db = [] \<Longrightarrow> bd_trades db = [] \<Longrightarrow> bd_pending db = [] \<Longrightarrow>
   broker_synced (init_broker s db hp)"
  by (simp add: init_broker_def broker_synced_def tables_ok_def memory_ok_def)

lemma init_broker_synced:
  assumes "tables_ok db" "bd_meta db = Some m"
  shows "broker_synced (init_broker s db hp)"
proof -
  let ?ts = "map (\<lambda>(i, r). load_trade i r) (bd_trades db)"
  have ok: "dict_ok (by_id ?ts)"
    using assms(1) by (simp add: by_id_load dict_ok_def dkeys_map_values tables_ok_def)
  have "dget (by_id (sort_key tr_timestamp ?ts)) i = map_option (load_trade i) (dget (bd_trades db) i)" for i
    by (simp add: dget_by_id_sort(1) [OF ok]) (simp add: by_id_load dget_map_values)
  then show ?thesis
    using assms dget_by_id_sort(2) [OF ok, of tr_timestamp]
    by (cases m) (simp add: init_broker_def Let_def broker_synced_def tables_ok_def memory_ok_def
        dget_map_values dict_ok_def dkeys_map_values)
qed

definition restart_broker :: "f64 \<times> history_push \<Rightarrow> broker \<Rightarrow> broker" where
  "restart_broker e b = init_broker (fst e) (br_db b) (snd e)"

lemma restart_broker_synced: "broker_synced b \<Longrightarrow> broker_synced (restart_broker e b)"
  unfolding restart_broker_def using syncedD(1,3) by (rule init_broker_synced)

lemma restart_broker_view:
  assumes "broker_synced b"
  shows "broker_view (restart_broker e b) = broker_view b"
proof -
  note old = syncedD [OF assms] and new = syncedD [OF restart_broker_synced [OF assms], of e]
  have "br_db (restart_broker e b) = br_db b"
    by (simp add: restart_broker_def init_broker_def old(3) Let_def)
  with old new show ?thesis by (simp add: broker_view_def fun_eq_iff)
qed

subsection \<open>The durable contract\<close>

text \<open>
  One operation of the class with everything it reads from outside. \<open>broker_raises\<close>:
  the call ends in an IntegrityError, which needs two equal truncated uuids.
\<close>

datatype broker_op =
    OpOpen "f64 \<Rightarrow> f64 \<Rightarrow> string option \<Rightarrow> f64" "risk option" stamp string outcome_side int f64 string
      "string option" "f64 option" bool
  | OpPlace pending_order
  | OpFills title_cache "risk option" "string \<Rightarrow> stamp" "(string, f64) pdict" "(string, f64) pdict" f64
      "(string \<Rightarrow> outcome_side \<Rightarrow> f64 \<Rightarrow> f64 option \<Rightarrow> bool \<times> string) option"
  | OpClose title_cache stamp string f64 string netting_inputs
  | OpCloseAll title_cache "string \<Rightarrow> stamp" "(string, f64) pdict" "(string, f64) pdict option" string
  | OpCorrect title_cache string "f64 option"
  | OpReset f64
  | OpClear "f64 option" "f64 option"

definition raised :: "'e + 'a \<Rightarrow> bool" where
  "raised r = (case r of Inl e \<Rightarrow> True | Inr x \<Rightarrow> False)"

fun broker_run :: "broker_op \<Rightarrow> broker \<Rightarrow> bool \<times> broker" where
  "broker_run (OpOpen fee rk st t s n p why fp seen hold) b =
     (case open_position fee rk st t s n p why fp seen hold b of (r, b') \<Rightarrow> (raised r, b'))"
| "broker_run (OpPlace order) b = (False, snd (place_limit_order order b))"
| "broker_run (OpFills tc rk stamps bids asks now v) b =
     (case check_pending_fills tc rk stamps bids asks now v b of (r, b') \<Rightarrow> (raised r, b'))"
| "broker_run (OpClose tc st t p why ni) b =
     (case close_position tc st t p why ni b of (r, b') \<Rightarrow> (raised r, b'))"
| "broker_run (OpCloseAll tc stamps prices asks why) b =
     (case close_all_positions tc stamps prices asks why b of (r, b') \<Rightarrow> (raised r, b'))"
| "broker_run (OpCorrect tc tid p) b = (False, snd (correct_erroneous_close tc tid p b))"
| "broker_run (OpReset x) b = (False, reset_broker x b)"
| "broker_run (OpClear before after) b = (False, snd (clear_trade_range before after b))"

definition broker_step :: "broker_op \<Rightarrow> broker \<Rightarrow> broker" where
  "broker_step x b = snd (broker_run x b)"

definition broker_fine :: "broker_op \<Rightarrow> broker \<Rightarrow> bool" where
  "broker_fine x b \<longleftrightarrow> \<not> fst (broker_run x b)"

lemma broker_step_synced: "broker_synced b \<Longrightarrow> broker_fine x b \<Longrightarrow> broker_synced (broker_step x b)"
  by (cases x)
    (auto simp: broker_fine_def broker_step_def check_pending_fills_def close_all_positions_def raised_def
      place_limit_order_synced correct_erroneous_close_synced reset_broker_synced clear_trade_range_synced
      split: prod.splits sum.splits
      dest: open_position_synced fill_loop_synced close_position_synced close_loop_synced)

interpretation broker_store: durable broker_fine broker_step restart_broker broker_view broker_synced
  by unfold_locales (simp_all add: broker_step_synced restart_broker_synced restart_broker_view)

subsection \<open>Properties\<close>

definition empty_broker_db :: broker_db where
  "empty_broker_db = \<lparr>bd_meta = None, bd_positions = [], bd_trades = [], bd_pending = []\<rparr>"

definition example_broker :: broker where
  "example_broker = init_broker 1000 empty_broker_db init_history_push"

definition example_stamp :: "string \<Rightarrow> f64 \<Rightarrow> stamp" where
  "example_stamp i now = \<lparr>st_uuid = i, st_opened_at = now, st_timestamp = now, st_pushed_at = now\<rparr>"

definition example_order :: pending_order where
  "example_order = \<lparr>pn_ticker = ''B'', pn_side = Yes, pn_size = 4, pn_limit_price = 1/2,
     pn_placed_at = 100, pn_expires_at = 900, pn_reason = ''rest'', pn_config_fingerprint = None,
     pn_signal_seen_at = None, pn_confidence = None\<rparr>"

lemma example_broker_synced: "broker_synced example_broker"
  unfolding example_broker_def by (rule init_broker_first_run) (simp_all add: empty_broker_db_def)

text \<open>
  C1: The paper account survives restarts: from an account in step with its file, after any
  sequence of the class's operations (openings, resting orders, fill ticks, closes,
  flattenings, corrections, resets, range deletions) and restarts in which no call raised,
  one more restart shows the same bankroll, starting bankroll, positions, trades by id and
  resting orders.
\<close>

theorem broker_restart_resumes:
  assumes "broker_synced b" "run_ok broker_fine broker_step restart_broker acts b"
  shows "broker_view (restart_broker e (run_acts broker_step restart_broker acts b))
    = broker_view (run_acts broker_step restart_broker acts b)"
  using assms by (rule broker_store.run_then_restart)

definition example_acts :: "(broker_op, f64 \<times> history_push) act list" where
  "example_acts =
    [Op (OpOpen (\<lambda>n p t. 0) None (example_stamp ''t1'' 100) ''A'' Yes 10 (1/4) ''why'' None None False),
     Op (OpPlace example_order), Restart (1000, init_history_push),
     Op (OpClose empty_title_cache (example_stamp ''t2'' 200) ''A'' 1 ''settled'' no_netting)]"

theorem broker_restart_resumes_witness:
  "broker_view (restart_broker (1000, init_history_push)
      (run_acts broker_step restart_broker example_acts example_broker))
    = broker_view (run_acts broker_step restart_broker example_acts example_broker)
   \<and> length (br_trade_log (run_acts broker_step restart_broker example_acts example_broker)) = 2"
proof
  show "broker_view (restart_broker (1000, init_history_push)
      (run_acts broker_step restart_broker example_acts example_broker))
    = broker_view (run_acts broker_step restart_broker example_acts example_broker)"
    by (rule broker_restart_resumes [OF example_broker_synced]) code_simp
  show "length (br_trade_log (run_acts broker_step restart_broker example_acts example_broker)) = 2"
    by code_simp
qed

lemma last_times_step_ge:
  "(\<exists>m. dget d k = Some m \<and> x \<le> m) \<Longrightarrow>
   \<exists>m. dget (fold (\<lambda>t d. dput (tr_ticker t) (max (dget_or d (tr_ticker t) 0) (tr_timestamp t)) d) ts d) k
     = Some m \<and> x \<le> m"
proof (induction ts arbitrary: d)
  case Nil
  then show ?case by simp
next
  case (Cons t ts)
  have "\<exists>m. dget (dput (tr_ticker t) (max (dget_or d (tr_ticker t) 0) (tr_timestamp t)) d) k = Some m \<and> x \<le> m"
    using Cons.prems by (auto simp: dget_or_def le_max_iff_disj)
  from Cons.IH [OF this] show ?case by simp
qed

lemma last_times_ge:
  assumes "t \<in> set ts"
  shows "\<exists>m. dget (last_times ts) (tr_ticker t) = Some m \<and> tr_timestamp t \<le> m"
proof -
  from assms obtain us vs where ts: "ts = us @ t # vs" by (auto simp: in_set_conv_decomp)
  show ?thesis unfolding last_times_def ts by (simp add: last_times_step_ge)
qed

text \<open>
  The cooldown is the part of the account a restart does change. A close leaves
  \<open>can_trade\<close> as it was, but the constructor rebuilds the last-trade times from every
  trade, closes included: after a restart the ticker is tradable only once the cooldown has
  passed since the close.
\<close>

theorem restart_tightens_cooldown:
  assumes "broker_synced b" "close_position tc st ticker price reason ni b = (Inr (Some t), b')"
    and "can_trade now ticker cooldown (restart_broker e b')"
  shows "(\<forall>n c. can_trade n ticker c b' = can_trade n ticker c b) \<and> cooldown \<le> fsub now (st_timestamp st)"
proof -
  have b': "broker_synced b'" using assms(1,2) by (rule close_position_synced)
  obtain pos where pos: "dget (br_positions b) ticker = Some pos"
    using assms(2) by (auto simp: close_position_def split: option.splits)
  have same: "br_last_trade_time b' = br_last_trade_time b"
    and t: "t = close_trade tc st ticker pos price reason ni" "t \<in> set (br_trade_log b')"
    using assms(2) pos by (auto simp: close_position_def Let_def record_trade_def split: sum.splits)
  let ?r = "restart_broker e b'"
  have r: "br_last_trade_time ?r = last_times (br_trade_log ?r)"
    using syncedD(3) [OF b'] by (simp add: restart_broker_def init_broker_def Let_def)
  have "dget (by_id (br_trade_log b')) (tr_id t) = Some t"
    using t(2) syncedD(2) [OF b'] by (auto simp: memory_ok_def by_id_def dget_iff_in_set)
  then have "dget (by_id (br_trade_log ?r)) (tr_id t) = Some t"
    using restart_broker_view [OF b', of e] by (simp add: broker_view_def)
  then have "t \<in> set (br_trade_log ?r)"
    by (auto dest!: dget_in_set simp: by_id_def)
  from last_times_ge [OF this] obtain m where
    m: "dget (br_last_trade_time ?r) ticker = Some m" "st_timestamp st \<le> m"
    by (auto simp: r t(1) close_trade_def)
  have "cooldown \<le> fsub now m" using assms(3) m(1) by (simp add: can_trade_def)
  also have "\<dots> \<le> fsub now (st_timestamp st)" using m(2) by (simp add: fsub_mono)
  finally show ?thesis by (simp add: can_trade_def same)
qed

theorem restart_tightens_cooldown_witness:
  "(\<forall>n c. can_trade n ''A'' c (run_acts broker_step restart_broker example_acts example_broker)
      = can_trade n ''A'' c (run_acts broker_step restart_broker (take 3 example_acts) example_broker))
   \<and> (50::f64) \<le> fsub 260 (st_timestamp (example_stamp ''t2'' 200))"
proof (rule restart_tightens_cooldown)
  show "broker_synced (run_acts broker_step restart_broker (take 3 example_acts) example_broker)"
    by (rule broker_store.run_synced [OF example_broker_synced]) code_simp
  let ?b = "run_acts broker_step restart_broker (take 3 example_acts) example_broker"
  show "close_position empty_title_cache (example_stamp ''t2'' 200) ''A'' 1 ''settled'' no_netting ?b
    = (Inr (Some (close_trade empty_title_cache (example_stamp ''t2'' 200) ''A''
         (the (dget (br_positions ?b) ''A'')) 1 ''settled'' no_netting)),
       run_acts broker_step restart_broker example_acts example_broker)"
    by code_simp
  show "can_trade 260 ''A'' 50
    (restart_broker (1000, init_history_push) (run_acts broker_step restart_broker example_acts example_broker))"
    by code_simp
qed

end
