(* ===== verification/FloatBounds.thy ===== *)
theory FloatBounds
  imports Binary64
begin

text \<open>
  The relative rounding error in the normal range, and what it does to the one float
  expression of the program that decides a contract count: \<open>int(n * u / u)\<close>.
\<close>

lemma fl_rel:
  assumes "2 powi (- 1022) \<le> \<bar>x\<bar>"
  shows "\<bar>fl x - x\<bar> \<le> \<bar>x\<bar> * 2 powi (- 53)"
proof -
  have x: "x \<noteq> 0" using assms by auto
  note b = rexp_bounds [OF x]
  have "(2::rat) powi (- 1022) < 2 powi (rexp x + 1)" using assms b(2) by linarith
  then have "- 1022 < rexp x + 1" by (simp only: powi_2_less_iff)
  then have u: "ulp_exp x = rexp x - 52" by (simp add: ulp_exp_def)
  have "\<bar>fl x - x\<bar> \<le> 2 powi (rexp x + (- 53))"
    using fl_error [OF x] by (simp add: u)
  also have "\<dots> = 2 powi (rexp x) * 2 powi (- 53)" by (rule powi_2_add)
  also have "\<dots> \<le> \<bar>x\<bar> * 2 powi (- 53)" using b(1) by (intro mult_right_mono) auto
  finally show ?thesis .
qed

lemma fl_eighths: "\<bar>m\<bar> \<le> 2 ^ 53 \<Longrightarrow> fl (of_int m / 8) = of_int m / 8"
  using fl_repr [of m "- 3"] by (simp add: power_int_def field_simps)

text \<open>\<open>int(n * u / u)\<close> is \<open>n\<close> or one less, never more.\<close>

lemma trunc_mul_div:
  assumes n: "0 \<le> n" "n \<le> 2 ^ 49" and u: "2 powi (- 1000) \<le> u"
  shows "py_trunc (fdiv (fmul (fint n) u) u) \<in> {n - 1, n}" "0 \<le> py_trunc (fdiv (fmul (fint n) u) u)"
proof -
  let ?c = "fmul (fint n) u" and ?q = "fdiv (fmul (fint n) u) u"
  have u0: "0 < u" using u powi_2_pos [of "- 1000"] by linarith
  have int: "fint n = of_int n" using n by (simp add: fint_def fl_of_int)
  have err: "\<bar>?c - of_int n * u\<bar> \<le> of_int n * u * 2 powi (- 53)"
  proof (cases "n = 0")
    case True
    then show ?thesis by (simp add: int)
  next
    case False
    then have "1 * u \<le> of_int n * u" using n u0 by (intro mult_right_mono) auto
    moreover have "(2::rat) powi (- 1022) \<le> 2 powi (- 1000)" by (rule powi_2_mono) simp
    ultimately have "2 powi (- 1022) \<le> \<bar>of_int n * u\<bar>" using u by linarith
    from fl_rel [OF this] show ?thesis using n u0 by (simp add: int fmul_def abs_mult)
  qed
  have small: "of_int n * 2 powi (- 53) \<le> (1 / 8 :: rat)"
  proof -
    have "(of_int n :: rat) \<le> of_int (2 ^ 49)" using n by (simp only: of_int_le_iff)
    then have "of_int n * 2 powi (- 53) \<le> (2 ^ 49 :: rat) * 2 powi (- 53)" by (intro mult_right_mono) auto
    also have "\<dots> \<le> 1 / 8" by code_simp
    finally show ?thesis .
  qed
  have "\<bar>?c - of_int n * u\<bar> \<le> 1 / 8 * u"
  proof -
    note err
    also have "of_int n * u * 2 powi (- 53) = (of_int n * 2 powi (- 53)) * u" by (simp only: ac_simps)
    also have "\<dots> \<le> 1 / 8 * u" using u0 by (intro mult_right_mono [OF small]) simp
    finally show ?thesis .
  qed
  then have "of_int n * u - 1 / 8 * u \<le> ?c" "?c \<le> of_int n * u + 1 / 8 * u"
    by linarith+
  then have "(of_int n - 1 / 8) * u \<le> ?c" "?c \<le> (of_int n + 1 / 8) * u"
    by (simp_all only: left_diff_distrib distrib_right)
  then have "of_int (8 * n - 1) / 8 \<le> ?c / u" "?c / u \<le> of_int (8 * n + 1) / 8"
    using u0 by (simp_all add: field_simps)
  then have "fl (of_int (8 * n - 1) / 8) \<le> ?q" "?q \<le> fl (of_int (8 * n + 1) / 8)"
    unfolding fdiv_def by (simp_all only: fl_mono)
  moreover have "fl (of_int (8 * n - 1) / 8) = of_int (8 * n - 1) / 8"
    "fl (of_int (8 * n + 1) / 8) = of_int (8 * n + 1) / 8"
    using n by (intro fl_eighths; simp)+
  ultimately have q: "of_int n - 1 / 8 \<le> ?q" "?q \<le> of_int n + 1 / 8"
    by simp_all
  have q0: "0 \<le> ?q" using n u0 by simp
  have "n - 1 \<le> \<lfloor>?q\<rfloor>" using q(1) by (simp add: le_floor_iff)
  moreover have "\<lfloor>?q\<rfloor> < n + 1" using q(2) by (simp only: floor_less_iff)
  ultimately show "py_trunc ?q \<in> {n - 1, n}" using q0 by (auto simp: py_trunc_def)
  show "0 \<le> py_trunc ?q" using q0 by (rule py_trunc_nonneg)
qed

text \<open>
  Rounding certified by its result: once the scaled value is within half a unit of the 53-bit
  mantissa \<open>m\<close>, the float is \<open>m / 2 ^ k\<close>. This evaluates a float operation by
  plain integer arithmetic.
\<close>

lemma fl_cert:
  assumes "k \<le> 1074" "2 ^ 52 \<le> x * 2 ^ k" "x * 2 ^ k < 2 ^ 53" "\<bar>x * 2 ^ k - of_int m\<bar> < 1 / 2"
  shows "fl x = of_int m / 2 ^ k"
proof -
  have pow: "(2::rat) powi (52 - int k) * 2 ^ k = 2 ^ 52" "(2::rat) powi (53 - int k) * 2 ^ k = 2 ^ 53"
    by (simp_all add: power_int_diff)
  have "0 < x * 2 ^ k" by (rule less_le_trans [OF _ assms(2)]) simp
  then have x: "x \<noteq> 0" "0 < x" by (auto simp: zero_less_mult_iff)
  have lo: "2 powi (52 - int k) \<le> x" and hi: "x < 2 powi (53 - int k)"
    using assms(2,3) pow by (metis mult_le_cancel_right_pos zero_less_numeral zero_less_power,
      metis mult_less_cancel_right_pos zero_less_numeral zero_less_power)
  note b = rexp_bounds [OF x(1)]
  have "2 powi (rexp x) < (2::rat) powi (53 - int k)" "(2::rat) powi (52 - int k) < 2 powi (rexp x + 1)"
    using b lo hi x by auto
  then have "rexp x = 52 - int k" unfolding powi_2_less_iff by simp
  then have u: "ulp_exp x = - int k" using assms(1) by (simp add: ulp_exp_def)
  have scaled: "x * 2 powi (- ulp_exp x) = x * 2 ^ k" by (simp add: u)
  have "\<bar>of_int (rhe (x * 2 ^ k)) - of_int m\<bar> < (1::rat)"
    using rhe_bounds [of "x * 2 ^ k"] assms(4) by linarith
  then have "\<bar>rhe (x * 2 ^ k) - m\<bar> < 1" by (simp flip: of_int_diff of_int_abs)
  then have "rhe (x * 2 ^ k) = m" by simp
  then show ?thesis using x(1) by (simp add: fl_def Let_def scaled u power_int_minus divide_inverse)
qed

end
