(* ===== verification/BrokerFacts.thy ===== *)
theory BrokerFacts
  imports BrokerStore FloatBounds
begin

text \<open>
  What the broker's operations do to the account: guards and refusals, contract counts,
  which resting orders fill and at which price, flattening, settlement payouts, the
  correction and the history ranges.
\<close>

subsection \<open>Opening\<close>

lemma record_trade_Inr:
  "record_trade upd st t b = (Inr r, b') \<Longrightarrow> r = Some t \<and> br_bankroll b' = br_bankroll b
     \<and> br_positions b' = br_positions b \<and> br_trade_log b' = br_trade_log b
     \<and> br_pending_orders b' = br_pending_orders b"
  by (auto simp: record_trade_def split: sum.splits)

lemma record_trade_memory:
  "record_trade upd st t b = (r, b') \<Longrightarrow> br_bankroll b' = br_bankroll b
     \<and> br_positions b' = br_positions b \<and> br_trade_log b' = br_trade_log b
     \<and> br_pending_orders b' = br_pending_orders b"
  by (auto simp: record_trade_def split: sum.splits)

lemma open_position_opened:
  assumes "open_position fee rk st ticker side sz price reason fp seen hold b = (Inr (Some t), b')"
  shows "\<not> risk_halts rk" "exposure_ok rk (open_cost (br_bankroll b) side sz price) b"
    "tr_ticker t = ticker" "tr_side t = side" "tr_price t = price" "tr_reason t = reason"
    "tr_size t = actual_size (open_cost (br_bankroll b) side sz price) (unit_cost side price)"
    "tr_fee t = fee (fint (tr_size t)) price (Some ticker)"
    "br_bankroll b' = fsub (br_bankroll b) (fadd (open_cost (br_bankroll b) side sz price) (tr_fee t))"
    "br_pending_orders b' = br_pending_orders b" "br_trade_log b' = br_trade_log b @ [t]"
  using assms
  by (cases rule: open_position_cases; auto dest!: record_trade_Inr simp: entry_trade_def)+

lemma open_position_pending:
  "open_position fee rk st ticker side sz price reason fp seen hold b = (r, b') \<Longrightarrow>
   br_pending_orders b' = br_pending_orders b"
  by (erule open_position_cases) (auto dest: record_trade_memory)

lemma open_position_halted:
  "risk_halts rk \<Longrightarrow> open_position fee rk st ticker side sz price reason fp seen hold b = (Inr None, b)"
  by (simp add: open_position_def)

lemma open_position_capped:
  "\<not> exposure_ok rk (open_cost (br_bankroll b) side sz price) b \<Longrightarrow>
   open_position fee rk st ticker side sz price reason fp seen hold b = (Inr None, b)"
  by (simp add: open_position_def Let_def)

lemma actual_size_le:
  assumes "0 \<le> sz" "sz \<le> 2 ^ 49" "2 powi (- 1000) \<le> unit_cost side price" "0 \<le> bankroll"
  shows "actual_size (open_cost bankroll side sz price) (unit_cost side price) \<le> sz"
    "0 \<le> actual_size (open_cost bankroll side sz price) (unit_cost side price)"
proof -
  let ?u = "unit_cost side price"
  let ?full = "fmul (fint sz) ?u" and ?c = "open_cost bankroll side sz price"
  have u: "0 < ?u" using assms(3) powi_2_pos [of "- 1000"] by linarith
  have full: "0 \<le> ?full" using assms(1) u by simp
  have c: "0 \<le> ?c" "?c \<le> ?full" using full assms(4) by (auto simp: open_cost_def Let_def)
  have "fdiv ?c ?u \<le> fdiv ?full ?u"
    using c u unfolding fdiv_def by (intro fl_mono divide_right_mono) auto
  then have "py_trunc (fdiv ?c ?u) \<le> py_trunc (fdiv ?full ?u)"
    using c full u by (simp add: py_trunc_def floor_mono)
  also have "\<dots> \<le> sz" using trunc_mul_div(1) [OF assms(1,2,3)] by auto
  finally show "actual_size ?c ?u \<le> sz" using u by (simp add: actual_size_def)
  show "0 \<le> actual_size ?c ?u" using u c by (simp add: actual_size_def py_trunc_nonneg)
qed

lemma actual_size_affordable:
  assumes "0 \<le> sz" "sz \<le> 2 ^ 49" "2 powi (- 1000) \<le> unit_cost side price"
    and "fmul (fint sz) (unit_cost side price) \<le> bankroll"
  shows "open_cost bankroll side sz price = fmul (fint sz) (unit_cost side price)"
    "actual_size (open_cost bankroll side sz price) (unit_cost side price) \<in> {sz - 1, sz}"
proof -
  have u: "0 < unit_cost side price" using assms(3) powi_2_pos [of "- 1000"] by linarith
  show c: "open_cost bankroll side sz price = fmul (fint sz) (unit_cost side price)"
    using assms(4) by (simp add: open_cost_def Let_def)
  show "actual_size (open_cost bankroll side sz price) (unit_cost side price) \<in> {sz - 1, sz}"
    unfolding c using u trunc_mul_div(1) [OF assms(1-3)] by (simp add: actual_size_def)
qed

subsection \<open>Resting orders\<close>

text \<open>Every pending order is stored under its own ticker.\<close>

definition orders_keyed :: "broker \<Rightarrow> bool" where
  "orders_keyed b \<longleftrightarrow> (\<forall>t o'. dget (br_pending_orders b) t = Some o' \<longrightarrow> pn_ticker o' = t)"

lemma orders_keyed_place: "orders_keyed b \<Longrightarrow> orders_keyed (snd (place_limit_order order b))"
  by (auto simp: orders_keyed_def place_limit_order_def)

text \<open>What a fill of \<open>order\<close> by trade \<open>t\<close> needs.\<close>

definition fill_of ::
  "(string, f64) pdict \<Rightarrow> (string, f64) pdict \<Rightarrow> f64
   \<Rightarrow> (string \<Rightarrow> outcome_side \<Rightarrow> f64 \<Rightarrow> f64 option \<Rightarrow> bool \<times> string) option
   \<Rightarrow> pending_order \<Rightarrow> trade \<Rightarrow> bool" where
  "fill_of bids asks now validate order t \<longleftrightarrow>
     now < pn_expires_at order \<and> tr_ticker t = pn_ticker order \<and> tr_side t = pn_side order
     \<and> fill_price bids asks (pn_ticker order) order = Some (tr_price t)
     \<and> unit_cost (pn_side order) (tr_price t) \<le> unit_cost (pn_side order) (pn_limit_price order)
     \<and> (case validate of None \<Rightarrow> True
        | Some v \<Rightarrow> fst (v (pn_ticker order) (pn_side order) (tr_price t) (pn_confidence order)))"

lemma try_fill_trade:
  assumes "try_fill tc rk stamps bids asks now validate ticker order b = (Inr (Some (FillTrade t why)), b')"
    and "pn_ticker order = ticker"
  shows "fill_of bids asks now validate order t \<and> \<not> risk_halts rk"
  using assms
  by (auto simp: try_fill_def fill_of_def order_reached_def Let_def
      split: if_splits option.splits prod.splits sum.splits dest: open_position_opened)

lemma try_fill_pending:
  assumes "try_fill tc rk stamps bids asks now validate ticker order b = (r, b')"
  shows "br_pending_orders b' = br_pending_orders b \<or> br_pending_orders b' = ddel ticker (br_pending_orders b)"
  using assms
  by (auto simp: try_fill_def cancel_pending_def Let_def
      split: if_splits option.splits prod.splits sum.splits dest: open_position_pending)

lemma fill_loop_trades:
  assumes "fill_loop tc rk stamps bids asks now validate ts acc b = (Inr ds, b')"
    and "orders_keyed b" "FillTrade t why \<in> set ds"
  shows "FillTrade t why \<in> set acc \<or>
     (\<exists>order. dget (br_pending_orders b) (tr_ticker t) = Some order
        \<and> fill_of bids asks now validate order t \<and> \<not> risk_halts rk)"
  using assms
proof (induction ts arbitrary: acc b)
  case Nil
  then show ?case by simp
next
  case (Cons ticker ts)
  show ?case
  proof (cases "dget (br_pending_orders b) ticker")
    case None
    then show ?thesis using Cons by simp
  next
    case (Some order)
    obtain r b1 where tf: "try_fill tc rk stamps bids asks now validate ticker order b = (r, b1)"
      by fastforce
    have key: "pn_ticker order = ticker" using Cons.prems(2) Some by (simp add: orders_keyed_def)
    have sub: "dget (br_pending_orders b1) t' = Some o' \<Longrightarrow> dget (br_pending_orders b) t' = Some o'" for t' o'
      using try_fill_pending [OF tf] by (auto split: if_splits)
    then have k1: "orders_keyed b1" using Cons.prems(2) by (auto simp: orders_keyed_def)
    obtain d where r: "r = Inr d" using Cons.prems(1) Some tf by (cases r) auto
    let ?acc = "case d of None \<Rightarrow> acc | Some x \<Rightarrow> acc @ [x]"
    have rest: "fill_loop tc rk stamps bids asks now validate ts ?acc b1 = (Inr ds, b')"
      using Cons.prems(1) Some tf r by (simp split: option.splits)
    from Cons.IH [OF rest k1 Cons.prems(3)] show ?thesis
    proof (elim disjE exE conjE)
      assume mem: "FillTrade t why \<in> set ?acc"
      then consider "FillTrade t why \<in> set acc" | "d = Some (FillTrade t why)"
        by (cases d) auto
      then show ?thesis
      proof cases
        case 2
        with tf r have "fill_of bids asks now validate order t \<and> \<not> risk_halts rk"
          by (intro try_fill_trade [OF _ key]) simp
        moreover from this have "tr_ticker t = ticker" by (simp add: fill_of_def key)
        ultimately show ?thesis using Some by auto
      qed simp
    next
      fix o' assume "dget (br_pending_orders b1) (tr_ticker t) = Some o'"
        "fill_of bids asks now validate o' t" "\<not> risk_halts rk"
      then show ?thesis using sub by blast
    qed
  qed
qed

text \<open>What is still resting after a tick was resting before and has not expired.\<close>

lemma fill_loop_absent:
  "fill_loop tc rk stamps bids asks now validate ts acc b = (r, b') \<Longrightarrow>
   dget (br_pending_orders b') t = Some order \<Longrightarrow> dget (br_pending_orders b) t = Some order"
proof (induction ts arbitrary: acc b)
  case Nil
  then show ?case by simp
next
  case (Cons ticker ts)
  show ?case
  proof (cases "dget (br_pending_orders b) ticker")
    case None
    then show ?thesis using Cons by simp
  next
    case (Some o')
    obtain r1 b1 where tf: "try_fill tc rk stamps bids asks now validate ticker o' b = (r1, b1)"
      by fastforce
    have "dget (br_pending_orders b1) t = Some order"
      using Cons Some tf by (auto split: sum.splits option.splits)
    then show ?thesis using try_fill_pending [OF tf] by (auto split: if_splits)
  qed
qed

lemma try_fill_unexpired:
  assumes "try_fill tc rk stamps bids asks now validate ticker order b = (r, b')"
    "dget (br_pending_orders b') ticker = Some order'"
  shows "now < pn_expires_at order"
  using assms by (auto simp: try_fill_def cancel_pending_def split: if_splits)

lemma fill_loop_unexpired:
  "fill_loop tc rk stamps bids asks now validate ts acc b = (Inr ds, b') \<Longrightarrow>
   t \<in> set ts \<Longrightarrow> dget (br_pending_orders b') t = Some order \<Longrightarrow> now < pn_expires_at order"
proof (induction ts arbitrary: acc b)
  case Nil
  then show ?case by simp
next
  case (Cons ticker ts)
  have old: "dget (br_pending_orders b) t = Some order"
    using fill_loop_absent [OF Cons.prems(1,3)] .
  show ?case
  proof (cases "dget (br_pending_orders b) ticker")
    case None
    then show ?thesis using Cons old by auto
  next
    case (Some o')
    obtain r1 b1 where tf: "try_fill tc rk stamps bids asks now validate ticker o' b = (r1, b1)"
      by fastforce
    obtain acc' where rest: "fill_loop tc rk stamps bids asks now validate ts acc' b1 = (Inr ds, b')"
      using Cons.prems(1) Some tf by (auto split: sum.splits option.splits)
    show ?thesis
    proof (cases "t = ticker")
      case True
      have "dget (br_pending_orders b1) ticker = Some order"
        using fill_loop_absent [OF rest] Cons.prems(3) True by simp
      from try_fill_unexpired [OF tf this] show ?thesis using old Some True by simp
    next
      case False
      then show ?thesis using Cons.IH [OF rest] Cons.prems by auto
    qed
  qed
qed

subsection \<open>Closing\<close>

lemma close_position_closed:
  assumes "close_position tc st ticker price reason ni b = (r, b')" "dget (br_positions b) ticker = Some pos"
  shows "br_positions b' = ddel ticker (br_positions b)"
    "br_bankroll b' = fadd (br_bankroll b) (cash_back tc (po_side pos) (po_size pos) price ticker)"
    "br_trade_log b' = br_trade_log b @ [close_trade tc st ticker pos price reason ni]"
    "r = Inr x \<Longrightarrow> x = Some (close_trade tc st ticker pos price reason ni)"
  using assms
  by (auto simp: close_position_def Let_def dest: record_trade_memory record_trade_Inr)

text \<open>Settlement: a winning contract pays 1, a losing one 0, and neither pays a fee.\<close>

definition settles :: "outcome_side \<Rightarrow> f64" where
  "settles s = (case s of Yes \<Rightarrow> 1 | No \<Rightarrow> 0)"

lemma unit_cost_settled: "unit_cost s (settles s') = (if s = s' then 1 else 0)"
  by (cases s; cases s') (simp_all add: unit_cost_def settles_def flops)

lemma cash_back_settled:
  "cash_back tc s n (settles s') ticker = (if s = s' then fint n else 0)"
proof -
  have "taker_fee tc (fint n) (settles s') (Some ticker) = 0"
    by (cases s') (simp_all add: settles_def fee_free)
  then show ?thesis by (simp add: cash_back_def unit_cost_settled)
qed

lemma close_loop_keys:
  "close_loop tc stamps prices asks reason ts acc b = (Inr trades, b') \<Longrightarrow>
   set (dkeys (br_positions b')) = set (dkeys (br_positions b)) - set ts"
proof (induction ts arbitrary: acc b)
  case Nil
  then show ?case by simp
next
  case (Cons ticker ts)
  show ?case
  proof (cases "dget (br_positions b) ticker")
    case None
    then have "ticker \<notin> set (dkeys (br_positions b))" by (simp add: dget_eq_None_iff)
    moreover have "close_loop tc stamps prices asks reason ts acc b = (Inr trades, b')"
      using Cons.prems None by simp
    ultimately show ?thesis using Cons.IH by auto
  next
    case (Some pos)
    obtain r b1 where cp: "close_position tc (stamps ticker) ticker (flatten_price prices asks ticker pos)
        reason no_netting b = (r, b1)" by fastforce
    obtain acc' where "close_loop tc stamps prices asks reason ts acc' b1 = (Inr trades, b')"
      using Cons.prems Some cp by (auto split: sum.splits option.splits)
    from Cons.IH [OF this] show ?thesis
      by (auto simp: close_position_closed(1) [OF cp Some])
  qed
qed

lemma close_loop_log:
  "close_loop tc stamps prices asks reason ts acc b = (Inr trades, b') \<Longrightarrow>
   \<exists>new. trades = acc @ new \<and> br_trade_log b' = br_trade_log b @ new
     \<and> length new \<le> length ts"
proof (induction ts arbitrary: acc b)
  case Nil
  then show ?case by simp
next
  case (Cons ticker ts)
  show ?case
  proof (cases "dget (br_positions b) ticker")
    case None
    then show ?thesis using Cons by (fastforce intro: le_SucI)
  next
    case (Some pos)
    let ?p = "flatten_price prices asks ticker pos"
    let ?t = "close_trade tc (stamps ticker) ticker pos ?p reason no_netting"
    obtain r b1 where cp: "close_position tc (stamps ticker) ticker ?p reason no_netting b = (r, b1)"
      by fastforce
    have "r = Inr (Some ?t)"
      using Cons.prems Some cp close_position_closed(4) [OF cp Some] by (cases r) auto
    then have "close_loop tc stamps prices asks reason ts (acc @ [?t]) b1 = (Inr trades, b')"
      using Cons.prems Some cp by simp
    from Cons.IH [OF this] show ?thesis by (auto simp: close_position_closed(3) [OF cp Some])
  qed
qed

subsection \<open>History ranges and corrections\<close>

lemma filter_split_length: "length (filter P xs) + length (filter (\<lambda>x. \<not> P x) xs) = length xs"
  by (rule sum_length_filter_compl)

lemma clear_trade_range_counts:
  "clear_trade_range before after b = (n, b') \<Longrightarrow>
   n = count_trade_range before after b \<and> count_trade_range before after b' = 0
   \<and> n + length (bd_trades (br_db b')) = length (bd_trades (br_db b))"
  using filter_split_length [of "\<lambda>(i, r). in_trade_range before after (tw_timestamp r)" "bd_trades (br_db b)"]
  by (auto simp: clear_trade_range_def count_trade_range_def case_prod_unfold filter_empty_conv)

lemma correct_twice:
  assumes "correct_erroneous_close tc tid p b = (Some c, b')"
  shows "correct_erroneous_close tc' tid p' b' = (None, b')"
  using assms
  by (auto simp: correct_erroneous_close_def Let_def save_bankroll_def split: option.splits if_splits)

subsection \<open>Properties\<close>

text \<open>
  C9: A resting order never fills worse than its limit. Every trade a fill tick returns comes
  from an order that was resting under the trade's ticker, had not expired, and is filled at
  the quote its side actually pays now (the yes ask for a YES buyer, the yes bid for a NO
  buyer), whose cost per contract on that side is at most the limit's, with the entry
  validation passed at that price; and no tick fills anything while the account is halted.
\<close>

theorem fills_honour_limits:
  assumes "orders_keyed b"
    and "check_pending_fills tc rk stamps bids asks now validate b = (Inr ds, b')"
    and "FillTrade t why \<in> set ds"
  shows "(\<exists>order. dget (br_pending_orders b) (tr_ticker t) = Some order
      \<and> fill_of bids asks now validate order t) \<and> \<not> risk_halts rk"
  using fill_loop_trades [OF assms(2) [unfolded check_pending_fills_def] assms(1,3)] by auto

definition resting_broker :: broker where
  "resting_broker = snd (place_limit_order example_order example_broker)"

lemma resting_broker_keyed: "orders_keyed resting_broker"
  unfolding resting_broker_def
  by (rule orders_keyed_place) (simp add: orders_keyed_def example_broker_def init_broker_def empty_broker_db_def)

definition example_fill :: "(db_error + fill_decision list) \<times> broker" where
  "example_fill = check_pending_fills empty_title_cache None (\<lambda>t. example_stamp t 500) []
     [(''B'', 1/4)] 500 None resting_broker"

definition filled_trade :: trade where
  "filled_trade = entry_trade (example_stamp ''B'' 500) ''B'' Yes 4 (1/4) ''rest'' None
     (maker_fee empty_title_cache 4 (1/4) (Some ''B'')) None"

lemma example_fill_result: "fst example_fill = Inr [FillTrade filled_trade ''rest'']"
  by code_simp

theorem fills_honour_limits_witness:
  "\<exists>order. dget (br_pending_orders resting_broker) ''B'' = Some order
     \<and> fill_of [] [(''B'', 1/4)] 500 None order filled_trade"
proof -
  have "example_fill = (Inr [FillTrade filled_trade ''rest''], snd example_fill)"
    by (simp add: prod_eq_iff example_fill_result)
  from fills_honour_limits [OF resting_broker_keyed this [unfolded example_fill_def], of filled_trade "''rest''"]
  show ?thesis by (simp add: filled_trade_def entry_trade_def)
qed

text \<open>
  Expiry is complete: after a fill tick that did not raise, every order still resting was
  resting, unchanged, before the tick and is not expired at the tick's clock; the tick
  neither invents nor edits orders.
\<close>

theorem fills_leave_live_orders:
  assumes "check_pending_fills tc rk stamps bids asks now validate b = (Inr ds, b')"
    and "dget (br_pending_orders b') t = Some order"
  shows "dget (br_pending_orders b) t = Some order \<and> now < pn_expires_at order"
proof -
  note run = assms(1) [unfolded check_pending_fills_def]
  have old: "dget (br_pending_orders b) t = Some order" using fill_loop_absent [OF run assms(2)] .
  then have "t \<in> set (dkeys (br_pending_orders b))"
    using dget_eq_None_iff [of "br_pending_orders b" t] by auto
  from old fill_loop_unexpired [OF run this assms(2)] show ?thesis by simp
qed

theorem fills_leave_live_orders_witness:
  "dget (br_pending_orders resting_broker) ''B'' = Some example_order \<and> 500 < pn_expires_at example_order"
proof -
  let ?run = "check_pending_fills empty_title_cache None (\<lambda>t. example_stamp t 500) [] [] 500 None resting_broker"
  have "?run = (Inr [], resting_broker)" by code_simp
  moreover have "dget (br_pending_orders resting_broker) ''B'' = Some example_order" by code_simp
  ultimately show ?thesis by (rule fills_leave_live_orders)
qed

text \<open>
  C10: No entry gets past the risk guards: when the risk manager is halted, or the exposure
  plus the order's cost would exceed the configured share of the bankroll, opening returns
  None and the account is exactly as before; a returned trade means neither was the case, and
  then the bankroll has been charged the cost and the fee of the contracts recorded.
\<close>

theorem open_position_guarded:
  assumes "open_position fee rk st ticker side sz price reason fp seen hold b = (Inr r, b')"
  shows "case r of
      None \<Rightarrow> b' = b
    | Some t \<Rightarrow> \<not> risk_halts rk \<and> exposure_ok rk (open_cost (br_bankroll b) side sz price) b
        \<and> br_bankroll b' = fsub (br_bankroll b)
            (fadd (open_cost (br_bankroll b) side sz price) (fee (fint (tr_size t)) price (Some ticker)))
        \<and> br_trade_log b' = br_trade_log b @ [t]"
proof (cases r)
  case None
  with assms have "b' = b"
    by (cases rule: open_position_cases) (auto dest: record_trade_Inr)
  with None show ?thesis by simp
next
  case (Some t)
  with open_position_opened [of fee rk st ticker side sz price reason fp seen hold b t b'] assms
  show ?thesis by simp
qed

definition capped_risk :: risk where
  "capped_risk = init_risk 1000 (1/8) True (Some (1/2)) None 5"

theorem open_position_guarded_witness:
  "open_position (\<lambda>n p t. 0) (Some capped_risk) (example_stamp ''t1'' 100) ''A'' Yes 3000 (1/4) ''why''
     None None False example_broker = (Inr None, example_broker)
   \<and> (case Some (entry_trade (example_stamp ''t1'' 100) ''A'' Yes 10 (1/4) ''why'' None 0 None) of
        None \<Rightarrow> True | Some t \<Rightarrow> \<not> risk_halts (Some capped_risk))"
proof
  show "open_position (\<lambda>n p t. 0) (Some capped_risk) (example_stamp ''t1'' 100) ''A'' Yes 3000 (1/4) ''why''
     None None False example_broker = (Inr None, example_broker)" by code_simp
  let ?t = "entry_trade (example_stamp ''t1'' 100) ''A'' Yes 10 (1/4) ''why'' None 0 None"
  let ?o = "open_position (\<lambda>n p t. 0) (Some capped_risk) (example_stamp ''t1'' 100) ''A'' Yes 10 (1/4) ''why''
     None None False example_broker"
  have "?o = (Inr (Some ?t), snd ?o)" by code_simp
  from open_position_guarded [OF this]
  show "case Some ?t of None \<Rightarrow> True | Some t \<Rightarrow> \<not> risk_halts (Some capped_risk)" by simp
qed

text \<open>
  Contract counts. An entry the bankroll can pay for in full is charged for all the
  contracts asked for, but the count it records is the float quotient cost / unit cost cut
  to an integer: the number asked for or one less, never more and never a larger gap, for
  every price down to 2^-1000 and every size up to 2^49.
\<close>

theorem filled_count_off_by_at_most_one:
  assumes "open_position fee rk st ticker side sz price reason fp seen hold b = (Inr (Some t), b')"
    and "0 \<le> sz" "sz \<le> 2 ^ 49" "2 powi (- 1000) \<le> unit_cost side price"
    and "fmul (fint sz) (unit_cost side price) \<le> br_bankroll b"
  shows "tr_size t \<in> {sz - 1, sz}
    \<and> br_bankroll b' = fsub (br_bankroll b) (fadd (fmul (fint sz) (unit_cost side price)) (tr_fee t))"
  using open_position_opened(7,9) [OF assms(1)] actual_size_affordable [OF assms(2-5)] by simp

text \<open>The lost contract is real: 29 contracts at 2 cents are paid for and 28 are recorded.\<close>

definition short_fill :: "(db_error + trade option) \<times> broker" where
  "short_fill = open_position (\<lambda>n p t. 0) None (example_stamp ''t1'' 100) ''A'' Yes 29 (fl (2/100)) ''why''
     None None False example_broker"

lemma short_fill_result:
  "fst short_fill = Inr (Some (entry_trade (example_stamp ''t1'' 100) ''A'' Yes 28 (fl (2/100)) ''why'' None 0 None))"
  "br_bankroll (snd short_fill) = fsub 1000 (fmul 29 (fl (2/100)))"
  by code_simp+

theorem filled_count_off_by_at_most_one_witness:
  "\<exists>t. fst short_fill = Inr (Some t) \<and> tr_size t = 28 \<and> tr_size t \<in> {29 - 1, 29}
    \<and> br_bankroll (snd short_fill) = fsub 1000 (fadd (fmul 29 (fl (2/100))) (tr_fee t))"
proof -
  let ?t = "entry_trade (example_stamp ''t1'' 100) ''A'' Yes 28 (fl (2/100)) ''why'' None 0 None"
  have run: "short_fill = (Inr (Some ?t), snd short_fill)" by (simp add: prod_eq_iff short_fill_result)
  have "tr_size ?t \<in> {29 - 1, 29} \<and> br_bankroll (snd short_fill) =
      fsub (br_bankroll example_broker) (fadd (fmul (fint 29) (unit_cost Yes (fl (2/100)))) (tr_fee ?t))"
    by (rule filled_count_off_by_at_most_one [OF run [unfolded short_fill_def], folded short_fill_def]) code_simp+
  moreover have "br_bankroll example_broker = 1000" "fint 29 = 29" "unit_cost Yes (fl (2/100)) = fl (2/100)"
    by code_simp+
  ultimately show ?thesis by (intro exI [of _ ?t]) (simp add: short_fill_result entry_trade_def)
qed

text \<open>
  The emergency flatten is total: closing all positions without an error leaves no open
  position, returns exactly the trades it appended to the log, in order, and never more than
  one per position.
\<close>

theorem close_all_leaves_none:
  assumes "close_all_positions tc stamps prices asks reason b = (Inr trades, b')"
  shows "br_positions b' = [] \<and> br_trade_log b' = br_trade_log b @ trades
    \<and> length trades \<le> length (br_positions b)"
proof -
  note run = assms [unfolded close_all_positions_def]
  have "set (dkeys (br_positions b')) = {}" using close_loop_keys [OF run] by simp
  then have "br_positions b' = []" by (simp add: dkeys_def)
  with close_loop_log [OF run] show ?thesis by (auto simp: dkeys_def)
qed

definition open_broker :: broker where
  "open_broker = run_acts broker_step restart_broker (take 1 example_acts) example_broker"

theorem close_all_leaves_none_witness:
  "br_positions (snd (close_all_positions empty_title_cache (\<lambda>t. example_stamp t 300) [(''A'', 1)] None ''halt'' open_broker)) = []"
proof -
  let ?run = "close_all_positions empty_title_cache (\<lambda>t. example_stamp t 300) [(''A'', 1)] None ''halt'' open_broker"
  have "\<not> raised (fst ?run)" by code_simp
  then obtain trades where "?run = (Inr trades, snd ?run)"
    by (auto simp: raised_def prod_eq_iff split: sum.splits)
  from close_all_leaves_none [OF this] show ?thesis by simp
qed

text \<open>
  Settlement is fee-free and pays the contract: closing at the settled price of the
  market (1 when YES won, 0 when NO won) credits the bankroll with one dollar per contract of
  a winning position and nothing for a losing one, charges no fee, and removes the position.
\<close>

theorem settlement_pays_contracts:
  assumes "dget (br_positions b) ticker = Some pos"
    and "close_position tc st ticker (settles winner) reason ni b = (Inr r, b')"
  shows "br_bankroll b' = fadd (br_bankroll b) (if po_side pos = winner then fint (po_size pos) else 0)
    \<and> dget (br_positions b') ticker = None
    \<and> (\<exists>t. r = Some t \<and> tr_fee t = 0 \<and> tr_size t = po_size pos \<and> tr_side t = po_side pos)"
  using close_position_closed [OF assms(2,1)]
  by (cases winner) (simp_all add: cash_back_settled [where s' = Yes, unfolded settles_def, simplified]
      cash_back_settled [where s' = No, unfolded settles_def, simplified] settles_def close_trade_def fee_free)

theorem settlement_pays_contracts_witness:
  "br_bankroll (snd (close_position empty_title_cache (example_stamp ''t2'' 300) ''A'' (settles Yes) ''settled''
      no_netting open_broker)) = fadd (br_bankroll open_broker) (fint 10)"
proof -
  let ?pos = "the (dget (br_positions open_broker) ''A'')"
  let ?run = "close_position empty_title_cache (example_stamp ''t2'' 300) ''A'' (settles Yes) ''settled'' no_netting open_broker"
  have pos: "dget (br_positions open_broker) ''A'' = Some ?pos" "po_side ?pos = Yes" "po_size ?pos = 10"
    by code_simp+
  have "fst ?run = Inr (Some (close_trade empty_title_cache (example_stamp ''t2'' 300) ''A'' ?pos
      (settles Yes) ''settled'' no_netting))"
    by code_simp
  then have "?run = (Inr (Some (close_trade empty_title_cache (example_stamp ''t2'' 300) ''A'' ?pos
      (settles Yes) ''settled'' no_netting)), snd ?run)"
    by (simp add: prod_eq_iff)
  from settlement_pays_contracts [OF pos(1) this] show ?thesis by (simp add: pos(2,3))
qed

text \<open>
  A correction happens once: after \<open>correct_erroneous_close\<close> has corrected a trade,
  any further correction of the same trade, at whatever price, answers None and leaves the
  bankroll, the log and the file as they are.
\<close>

theorem correction_once:
  assumes "correct_erroneous_close tc tid p b = (Some c, b')"
  shows "correct_erroneous_close tc' tid p' b' = (None, b')"
  using assms by (rule correct_twice)

definition closed_broker :: broker where
  "closed_broker = run_acts broker_step restart_broker example_acts example_broker"

theorem correction_once_witness:
  "correct_erroneous_close empty_title_cache ''t2'' (Some (1/2))
      (snd (correct_erroneous_close empty_title_cache ''t2'' None closed_broker))
   = (None, snd (correct_erroneous_close empty_title_cache ''t2'' None closed_broker))"
proof -
  let ?run = "correct_erroneous_close empty_title_cache ''t2'' None closed_broker"
  have "\<exists>c. fst ?run = Some c" by (rule exI [of _ "the (fst ?run)"]) code_simp
  then obtain c where "?run = (Some c, snd ?run)" by (metis prod.collapse)
  then show ?thesis by (rule correction_once)
qed

text \<open>
  What a range deletion reports is what it did: the count returned is the count a caller
  sees beforehand for the same range, the range is empty afterwards, and exactly the rest of
  the table remains.
\<close>

theorem clear_range_reports:
  assumes "clear_trade_range before after b = (n, b')"
  shows "n = count_trade_range before after b \<and> count_trade_range before after b' = 0
   \<and> n + length (bd_trades (br_db b')) = length (bd_trades (br_db b))"
  using assms by (rule clear_trade_range_counts)

theorem clear_range_reports_witness:
  "count_trade_range (Some 150) None (snd (clear_trade_range (Some 150) None closed_broker)) = 0
   \<and> 1 + length (bd_trades (br_db (snd (clear_trade_range (Some 150) None closed_broker)))) = 2"
proof -
  have "fst (clear_trade_range (Some 150) None closed_broker) = 1" by code_simp
  then have "clear_trade_range (Some 150) None closed_broker = (1, snd (clear_trade_range (Some 150) None closed_broker))"
    by (simp only: prod_eq_iff fst_conv snd_conv)
  note clear_range_reports [OF this]
  moreover have "length (bd_trades (br_db closed_broker)) = 2" by code_simp
  ultimately show ?thesis by simp
qed

text \<open>
  A clash of truncated uuids tears memory from the file: when the id of an entry is
  already in the trades table, opening raises with the bankroll already debited and the
  position already in memory, while the file still holds the old account; the account is no
  longer in step and a restart silently undoes the entry.
\<close>

theorem uuid_clash_tears_account:
  assumes "broker_synced b" "st_uuid st \<in> set (dkeys (bd_trades (br_db b)))"
    and "open_position fee rk st ticker side sz price reason fp seen hold b = (Inl e, b')"
  shows "dget (br_positions b') ticker \<noteq> None \<and> br_trade_log b' \<noteq> br_trade_log b
    \<and> \<not> broker_synced b' \<and> broker_view (restart_broker x b') = broker_view b"
proof -
  from assms(3) obtain pos t where
    mem: "br_positions b' = dput ticker pos (br_positions b)" "br_trade_log b' = br_trade_log b @ [t]"
    and db: "br_db b' = br_db b" and id: "tr_id t = st_uuid st"
    by (cases rule: open_position_cases)
      (auto simp: record_trade_def commit_trade_def entry_trade_def split: if_splits)
  have clash: "st_uuid st \<in> set (dkeys (by_id (br_trade_log b)))"
    using assms(2) syncedD(5) [OF assms(1), of "st_uuid st"]
    by (metis dget_eq_None_iff option.map_disc_iff)
  have "\<not> dict_ok (by_id (br_trade_log b'))"
    using clash id by (simp add: mem dict_ok_def dkeys_def)
  then have "\<not> broker_synced b'" by (simp add: broker_synced_def memory_ok_def)
  moreover have "broker_view (restart_broker x b') = broker_view (restart_broker x b)"
    by (simp add: restart_broker_def db)
  ultimately show ?thesis using mem restart_broker_view [OF assms(1), of x] by simp
qed

theorem uuid_clash_tears_account_witness:
  "\<exists>b'. \<not> broker_synced b' \<and> broker_view (restart_broker (1000, init_history_push) b') = broker_view open_broker"
proof -
  let ?run = "open_position (\<lambda>n p t. 0) None (example_stamp ''t1'' 100) ''Z'' Yes 10 (1/4) ''why'' None None False open_broker"
  have sy: "broker_synced open_broker"
    unfolding open_broker_def by (rule broker_store.run_synced [OF example_broker_synced]) code_simp
  have "fst ?run = Inl IntegrityError" by code_simp
  then have run: "?run = (Inl IntegrityError, snd ?run)" by (simp add: prod_eq_iff)
  have "st_uuid (example_stamp ''t1'' 100) \<in> set (dkeys (bd_trades (br_db open_broker)))" by code_simp
  from uuid_clash_tears_account [OF sy this run] show ?thesis by blast
qed

end
