(* ===== verification/MarketHistory.thy ===== *)
theory MarketHistory
  imports Fees
begin

text \<open>
  \<open>services/market_history.py\<close>: the snapshot, outcome and markout tables, the
  throttled writer fed by the ticker channel, the readers the exit and netting logic
  corroborate prices with, pruning, and the hypothetical-trade and markout queries. Rows are
  in insertion (id) order; \<open>ORDER BY timestamp\<close> walks the (ticker, timestamp) index, so
  equal timestamps stay in id order. Parsing an ISO close time (\<open>datetime\<close>), the
  square root (\<open>pow\<close>) and which old rows a \<open>LIMIT\<close> without an order picks are
  parameters.
\<close>

record snapshot =
  sn_id :: int
  sn_ticker :: string
  sn_series :: string
  sn_yes_price :: f64
  sn_spread :: "f64 option"
  sn_volume_24h :: "f64 option"
  sn_time_to_close_sec :: "f64 option"
  sn_timestamp :: f64

record snapshot_input =
  si_ticker :: string
  si_yes_price :: "f64 option"
  si_spread :: "f64 option"
  si_volume_24h :: "f64 option"
  si_time_to_close_sec :: "f64 option"

record outcome_row =
  oc_series :: string
  oc_result :: string
  oc_resolved_at :: f64

record markout_row =
  mk_ticker :: string
  mk_entry_side :: string
  mk_entry_price :: f64
  mk_entry_ts :: f64
  mk_offset_sec :: "f64 option"
  mk_target_ts :: f64
  mk_markout_price :: "f64 option"
  mk_captured_at :: f64

record market_history =
  mh_next_id :: int
  mh_snapshots :: "snapshot list"
  mh_outcomes :: "(string, outcome_row) pdict"
  mh_markouts :: "(string \<times> string, markout_row) pdict"
  mh_last_ticker_snapshot :: "(string, f64) pdict"
  mh_skipped_no_price :: nat
  mh_faults :: "string list"

definition init_market_history :: market_history where
  "init_market_history = \<lparr>mh_next_id = 1, mh_snapshots = [], mh_outcomes = [], mh_markouts = [],
     mh_last_ticker_snapshot = [], mh_skipped_no_price = 0, mh_faults = []\<rparr>"

subsection \<open>Writing\<close>

text \<open>\<open>close_time\<close> is None, a number of seconds, or text; other values have no \<open>replace\<close>.\<close>

definition seconds_to_close :: "(string \<Rightarrow> f64 option) \<Rightarrow> json \<Rightarrow> f64 \<Rightarrow> f64 option" where
  "seconds_to_close iso_ts close_time now =
     (case close_time of
        JInt n \<Rightarrow> Some (fsub (fint n) now)
      | JFloat x \<Rightarrow> Some (fsub x now)
      | JBool b \<Rightarrow> Some (fsub (if b then 1 else 0) now)
      | JStr s \<Rightarrow> map_option (\<lambda>t. fsub t now) (iso_ts s)
      | _ \<Rightarrow> None)"

fun insert_snapshots ::
  "title_cache \<Rightarrow> f64 \<Rightarrow> (snapshot_input \<times> f64) list \<Rightarrow> market_history \<Rightarrow> market_history" where
  "insert_snapshots tc ts [] h = h"
| "insert_snapshots tc ts ((r, price) # rows) h =
     insert_snapshots tc ts rows
       (h\<lparr> mh_next_id := mh_next_id h + 1,
           mh_snapshots := mh_snapshots h @
             [\<lparr> sn_id = mh_next_id h, sn_ticker = si_ticker r, sn_series = series_of tc (si_ticker r),
                sn_yes_price = price, sn_spread = si_spread r, sn_volume_24h = si_volume_24h r,
                sn_time_to_close_sec = si_time_to_close_sec r, sn_timestamp = ts \<rparr>] \<rparr>)"

definition priced :: "snapshot_input list \<Rightarrow> (snapshot_input \<times> f64) list" where
  "priced rows = List.map_filter (\<lambda>r. map_option (\<lambda>p. (r, p)) (si_yes_price r)) rows"

definition record_snapshots ::
  "title_cache \<Rightarrow> snapshot_input list \<Rightarrow> f64 \<Rightarrow> market_history \<Rightarrow> market_history" where
  "record_snapshots tc rows ts h =
     insert_snapshots tc ts (priced rows)
       (h\<lparr> mh_skipped_no_price := mh_skipped_no_price h + (length rows - length (priced rows)) \<rparr>)"

text \<open>
  The ticker-channel writer: at most one snapshot per ticker in 5 seconds. \<open>db_ok\<close> is
  whether the insert succeeds; a failing insert is recorded as a fault after the throttle
  stamp has already been set.
\<close>

definition record_snapshot_from_ticker ::
  "title_cache \<Rightarrow> (string \<Rightarrow> f64 option) \<Rightarrow> bool \<Rightarrow> string \<Rightarrow> f64 option \<Rightarrow> f64 option \<Rightarrow> f64 option \<Rightarrow> json
     \<Rightarrow> f64 \<Rightarrow> market_history \<Rightarrow> bool \<times> market_history" where
  "record_snapshot_from_ticker tc iso_ts db_ok ticker yes_price spread volume_24h close_time now h =
     (case yes_price of
        None \<Rightarrow> (False, h)
      | Some p \<Rightarrow>
          if (case dget (mh_last_ticker_snapshot h) ticker of None \<Rightarrow> False | Some t \<Rightarrow> fsub now t < 5)
          then (False, h)
          else
            (let h1 = h\<lparr> mh_last_ticker_snapshot := dput ticker now (mh_last_ticker_snapshot h) \<rparr>
             in if db_ok
                then (True, record_snapshots tc
                  [\<lparr> si_ticker = ticker, si_yes_price = Some p, si_spread = spread,
                     si_volume_24h = volume_24h,
                     si_time_to_close_sec = seconds_to_close iso_ts close_time now \<rparr>] now h1)
                else (False, h1\<lparr> mh_faults := mh_faults h1 @ [''record_snapshot_from_ticker''] \<rparr>)))"

text \<open>\<open>INSERT OR IGNORE\<close>: the first result of a ticker stays.\<close>

definition record_outcome :: "title_cache \<Rightarrow> string \<Rightarrow> string \<Rightarrow> f64 \<Rightarrow> market_history \<Rightarrow> market_history" where
  "record_outcome tc ticker result resolved_at h =
     (case dget (mh_outcomes h) ticker of
        Some r \<Rightarrow> h
      | None \<Rightarrow> h\<lparr> mh_outcomes := mh_outcomes h @
          [(ticker, \<lparr>oc_series = series_of tc ticker, oc_result = result, oc_resolved_at = resolved_at\<rparr>)] \<rparr>)"

definition outcomes_for_tickers :: "string list \<Rightarrow> market_history \<Rightarrow> (string, string) pdict" where
  "outcomes_for_tickers tickers h =
     map (\<lambda>(t, r). (t, oc_result r)) (filter (\<lambda>(t, r). t \<noteq> [] \<and> t \<in> set tickers) (mh_outcomes h))"

subsection \<open>Reading\<close>

text \<open>The rows of a ticker up to \<open>as_of\<close>, oldest first.\<close>

definition ticker_rows :: "string \<Rightarrow> f64 \<Rightarrow> market_history \<Rightarrow> snapshot list" where
  "ticker_rows ticker as_of h =
     sort_key sn_timestamp (filter (\<lambda>s. sn_ticker s = ticker \<and> sn_timestamp s \<le> as_of) (mh_snapshots h))"

record momentum_reading =
  mo_delta :: f64
  mo_from_price :: f64
  mo_to_price :: f64
  mo_span_sec :: f64

definition momentum :: "string \<Rightarrow> f64 \<Rightarrow> f64 \<Rightarrow> market_history \<Rightarrow> momentum_reading option" where
  "momentum ticker lookback_sec as_of h =
     (let in_window = filter (\<lambda>s. sn_timestamp s \<ge> fsub as_of lookback_sec) (ticker_rows ticker as_of h) in
      if length in_window < 2 then None
      else let earliest = hd in_window; latest = last in_window;
               span_sec = fsub (sn_timestamp latest) (sn_timestamp earliest)
        in if span_sec < fmul lookback_sec (1/2) then None
           else Some \<lparr> mo_delta = fsub (sn_yes_price latest) (sn_yes_price earliest),
                       mo_from_price = sn_yes_price earliest, mo_to_price = sn_yes_price latest,
                       mo_span_sec = span_sec \<rparr>)"

fun deltas :: "f64 list \<Rightarrow> f64 list" where
  "deltas (x # y # xs) = fsub y x # deltas (y # xs)"
| "deltas _ = []"

definition volatility ::
  "(f64 \<Rightarrow> f64) \<Rightarrow> string \<Rightarrow> f64 \<Rightarrow> f64 \<Rightarrow> market_history \<Rightarrow> f64 option" where
  "volatility pow_half ticker lookback_sec as_of h =
     (let rows = filter (\<lambda>s. sn_timestamp s \<ge> fsub as_of lookback_sec) (ticker_rows ticker as_of h) in
      if length rows < 3 then None
      else let ds = deltas (map sn_yes_price rows);
               mean_delta = fdiv (py_sum ds) (fint (int (length ds)));
               variance = fdiv (py_sum (map (\<lambda>d. fmul (fsub d mean_delta) (fsub d mean_delta)) ds))
                 (fint (int (length ds)))
        in Some (pow_half variance))"

definition recent_price :: "string \<Rightarrow> f64 \<Rightarrow> f64 \<Rightarrow> market_history \<Rightarrow> f64 option" where
  "recent_price ticker max_age_sec as_of h =
     (let rows = ticker_rows ticker as_of h in
      if rows = [] then None
      else if fsub as_of (sn_timestamp (last rows)) > max_age_sec then None
      else Some (sn_yes_price (last rows)))"

definition snapshot_count :: "string option \<Rightarrow> market_history \<Rightarrow> nat" where
  "snapshot_count ticker h = (case nonempty ticker of
      Some t \<Rightarrow> length (filter (\<lambda>s. sn_ticker s = t) (mh_snapshots h))
    | None \<Rightarrow> length (mh_snapshots h))"

definition tracked_ticker_count :: "market_history \<Rightarrow> nat" where
  "tracked_ticker_count h = length (remdups (map sn_ticker (mh_snapshots h)))"

definition outcome_count :: "market_history \<Rightarrow> nat" where
  "outcome_count h = length (mh_outcomes h)"

subsection \<open>Pruning\<close>

text \<open>\<open>pick n ids\<close>: the at most \<open>n\<close> ids the unordered \<open>LIMIT\<close> query returns.\<close>

definition old_ids :: "f64 \<Rightarrow> market_history \<Rightarrow> int list" where
  "old_ids cutoff h = map sn_id (filter (\<lambda>s. sn_timestamp s < cutoff) (mh_snapshots h))"

definition prune ::
  "(nat \<Rightarrow> int list \<Rightarrow> int list) \<Rightarrow> bool \<Rightarrow> f64 \<Rightarrow> f64 \<Rightarrow> nat \<Rightarrow> market_history \<Rightarrow> nat \<times> market_history" where
  "prune pick db_ok retention_hours now batch_size h =
     (let cutoff = fsub now (fmul retention_hours 3600);
          victims = pick batch_size (old_ids cutoff h)
      in if \<not> db_ok then (0, h\<lparr> mh_faults := mh_faults h @ [''prune''] \<rparr>)
         else (length victims,
           h\<lparr> mh_snapshots := filter (\<lambda>s. sn_id s \<notin> set victims) (mh_snapshots h) \<rparr>))"

definition limit_pick :: "(nat \<Rightarrow> int list \<Rightarrow> int list) \<Rightarrow> bool" where
  "limit_pick pick \<longleftrightarrow> (\<forall>n ids. distinct ids \<longrightarrow>
     distinct (pick n ids) \<and> set (pick n ids) \<subseteq> set ids \<and> length (pick n ids) = min n (length ids))"

definition clear_all_history :: "market_history \<Rightarrow> market_history" where
  "clear_all_history h = h\<lparr> mh_snapshots := [], mh_outcomes := [] \<rparr>"

subsection \<open>Hypothetical trades and markouts\<close>

record hypothetical_trade =
  ht_ticker :: string
  ht_series :: string
  ht_lookback_sec :: f64
  ht_entry_price :: f64
  ht_entry_timestamp :: f64
  ht_side :: outcome_side
  ht_result :: string
  ht_won :: bool
  ht_pnl_per_contract :: f64
  ht_resolved_at :: f64

definition hypothetical_trade_at ::
  "string \<Rightarrow> outcome_row \<Rightarrow> snapshot list \<Rightarrow> f64 \<Rightarrow> hypothetical_trade option" where
  "hypothetical_trade_at ticker o' snaps window =
     (let candidates = filter (\<lambda>s. sn_timestamp s \<le> fsub (oc_resolved_at o') window) snaps in
      if candidates = [] then None
      else let entry = last candidates;
               side = (if sn_yes_price entry > 1/2 then Yes else No);
               won = (oc_result o' = side_str side)
        in Some \<lparr> ht_ticker = ticker, ht_series = oc_series o', ht_lookback_sec = window,
             ht_entry_price = sn_yes_price entry, ht_entry_timestamp = sn_timestamp entry,
             ht_side = side, ht_result = oc_result o', ht_won = won,
             ht_pnl_per_contract = py_round 4 (fsub (if won then 1 else 0) (unit_cost side (sn_yes_price entry))),
             ht_resolved_at = oc_resolved_at o' \<rparr>)"

definition compute_hypothetical_trades :: "f64 list \<Rightarrow> market_history \<Rightarrow> hypothetical_trade list" where
  "compute_hypothetical_trades windows h =
     concat (map (\<lambda>(ticker, o').
       List.map_filter (hypothetical_trade_at ticker o' (ticker_rows ticker (oc_resolved_at o') h)) windows)
       (mh_outcomes h))"

definition already_captured_offset_labels ::
  "string list \<Rightarrow> market_history \<Rightarrow> string \<Rightarrow> string list" where
  "already_captured_offset_labels trade_ids h i =
     (if i \<in> set trade_ids then map snd (filter (\<lambda>k. fst k = i) (dkeys (mh_markouts h))) else [])"

record markout_trade =
  mt_id :: string
  mt_ticker :: string
  mt_side :: string
  mt_price :: f64
  mt_timestamp :: f64

record markout_target =
  mg_trade_id :: string
  mg_ticker :: string
  mg_entry_side :: string
  mg_entry_price :: f64
  mg_entry_ts :: f64
  mg_offset_label :: string
  mg_offset_sec :: "f64 option"
  mg_target_ts :: f64

definition show_int :: "int \<Rightarrow> string" where
  "show_int n = (if n < 0 then ''-'' @ show_nat (nat (- n)) else show_nat (nat n))"

definition markout_target_at ::
  "f64 \<Rightarrow> (string, f64) pdict \<Rightarrow> string list \<Rightarrow> markout_trade \<Rightarrow> f64 option \<Rightarrow> markout_target option" where
  "markout_target_at now close_ts_by_ticker captured t offset =
     (let label = (case offset of None \<Rightarrow> ''close'' | Some x \<Rightarrow> show_int (py_trunc x));
          target = (case offset of None \<Rightarrow> dget close_ts_by_ticker (mt_ticker t)
                    | Some x \<Rightarrow> Some (fadd (mt_timestamp t) x))
      in case target of None \<Rightarrow> None
         | Some ts \<Rightarrow>
             if label \<in> set captured \<or> ts > now then None
             else Some \<lparr> mg_trade_id = mt_id t, mg_ticker = mt_ticker t, mg_entry_side = mt_side t,
                    mg_entry_price = mt_price t, mg_entry_ts = mt_timestamp t,
                    mg_offset_label = label, mg_offset_sec = offset, mg_target_ts = ts \<rparr>)"

definition pending_markout_targets ::
  "markout_trade list \<Rightarrow> f64 option list \<Rightarrow> f64 \<Rightarrow> (string, f64) pdict \<Rightarrow> market_history \<Rightarrow> markout_target list" where
  "pending_markout_targets trades offsets now close_ts_by_ticker h =
     concat (map (\<lambda>t. List.map_filter
        (markout_target_at now close_ts_by_ticker (already_captured_offset_labels (map mt_id trades) h (mt_id t)) t)
        offsets) trades)"

definition record_markout ::
  "markout_target \<Rightarrow> f64 option \<Rightarrow> f64 \<Rightarrow> market_history \<Rightarrow> market_history" where
  "record_markout g markout_price captured_at h =
     (let k = (mg_trade_id g, mg_offset_label g) in
      case dget (mh_markouts h) k of
        Some r \<Rightarrow> h
      | None \<Rightarrow> h\<lparr> mh_markouts := mh_markouts h @
          [(k, \<lparr> mk_ticker = mg_ticker g, mk_entry_side = mg_entry_side g,
                 mk_entry_price = mg_entry_price g, mk_entry_ts = mg_entry_ts g,
                 mk_offset_sec = mg_offset_sec g, mk_target_ts = mg_target_ts g,
                 mk_markout_price = markout_price, mk_captured_at = captured_at \<rparr>)] \<rparr>)"

subsection \<open>Point-in-time reads\<close>

lemma ticker_rows_cong:
  assumes "filter (\<lambda>s. sn_ticker s = ticker \<and> sn_timestamp s \<le> as_of) (mh_snapshots h)
    = filter (\<lambda>s. sn_ticker s = ticker \<and> sn_timestamp s \<le> as_of) (mh_snapshots h')"
  shows "ticker_rows ticker as_of h = ticker_rows ticker as_of h'"
  using assms by (simp add: ticker_rows_def)

lemma insert_snapshots_frame:
  "\<exists>new. mh_snapshots (insert_snapshots tc ts rows h) = mh_snapshots h @ new
     \<and> (\<forall>s \<in> set new. sn_timestamp s = ts \<and> sn_ticker s \<in> set (map (\<lambda>(r, p). si_ticker r) rows))
     \<and> mh_last_ticker_snapshot (insert_snapshots tc ts rows h) = mh_last_ticker_snapshot h
     \<and> mh_outcomes (insert_snapshots tc ts rows h) = mh_outcomes h
     \<and> mh_markouts (insert_snapshots tc ts rows h) = mh_markouts h"
proof (induction tc ts rows h rule: insert_snapshots.induct)
  case (1 tc ts h)
  then show ?case by simp
next
  case (2 tc ts r price rows h)
  then show ?case by fastforce
qed

lemma record_snapshots_frame:
  "\<exists>new. mh_snapshots (record_snapshots tc rows ts h) = mh_snapshots h @ new
     \<and> (\<forall>s \<in> set new. sn_timestamp s = ts) \<and> mh_outcomes (record_snapshots tc rows ts h) = mh_outcomes h
     \<and> mh_markouts (record_snapshots tc rows ts h) = mh_markouts h
     \<and> mh_last_ticker_snapshot (record_snapshots tc rows ts h) = mh_last_ticker_snapshot h"
  using insert_snapshots_frame [of tc ts "priced rows"
      "h\<lparr> mh_skipped_no_price := mh_skipped_no_price h + (length rows - length (priced rows)) \<rparr>"]
  unfolding record_snapshots_def by (fastforce simp: comp_def)

text \<open>
  No reading looks ahead: whatever is written at times after \<open>as_of\<close>, the momentum,
  the volatility and the corroborating price of a ticker as of \<open>as_of\<close> do not change.
\<close>

theorem readings_never_look_ahead:
  assumes "as_of < ts"
  shows "momentum ticker lookback as_of (record_snapshots tc rows ts h) = momentum ticker lookback as_of h
    \<and> volatility pow_half ticker lookback as_of (record_snapshots tc rows ts h) = volatility pow_half ticker lookback as_of h
    \<and> recent_price ticker max_age as_of (record_snapshots tc rows ts h) = recent_price ticker max_age as_of h"
proof -
  obtain new where new: "mh_snapshots (record_snapshots tc rows ts h) = mh_snapshots h @ new"
    "\<forall>s \<in> set new. sn_timestamp s = ts"
    using record_snapshots_frame [of tc rows ts h] by blast
  then have "filter (\<lambda>s. sn_ticker s = ticker \<and> sn_timestamp s \<le> as_of) new = []"
    using assms by (auto simp: filter_empty_conv)
  then have "ticker_rows ticker as_of (record_snapshots tc rows ts h) = ticker_rows ticker as_of h"
    by (intro ticker_rows_cong) (simp add: new(1))
  then show ?thesis by (simp add: momentum_def volatility_def recent_price_def)
qed

definition example_input :: "string \<Rightarrow> f64 \<Rightarrow> snapshot_input" where
  "example_input t p = \<lparr>si_ticker = t, si_yes_price = Some p, si_spread = None, si_volume_24h = None,
     si_time_to_close_sec = None\<rparr>"

definition example_history :: market_history where
  "example_history = record_snapshots empty_title_cache [example_input ''A'' (1/2)] 100 init_market_history"

theorem readings_never_look_ahead_witness:
  "recent_price ''A'' 120 150 (record_snapshots empty_title_cache [example_input ''A'' (9/10)] 200 example_history)
     = Some (1/2)"
proof -
  have "recent_price ''A'' 120 150 example_history = Some (1/2)" by code_simp
  with readings_never_look_ahead [of 150 200 "''A''" 0 empty_title_cache "[example_input ''A'' (9/10)]"
      example_history id 120]
  show ?thesis by simp
qed

record ticker_event =
  te_db_ok :: bool
  te_ticker :: string
  te_yes_price :: "f64 option"
  te_now :: f64

definition ticker_write ::
  "title_cache \<Rightarrow> (string \<Rightarrow> f64 option) \<Rightarrow> ticker_event \<Rightarrow> market_history \<Rightarrow> market_history" where
  "ticker_write tc iso_ts e h = snd (record_snapshot_from_ticker tc iso_ts (te_db_ok e) (te_ticker e)
     (te_yes_price e) None None JNull (te_now e) h)"

definition throttled :: "market_history \<Rightarrow> bool" where
  "throttled h \<longleftrightarrow>
     (\<forall>s \<in> set (mh_snapshots h). \<exists>t. dget (mh_last_ticker_snapshot h) (sn_ticker s) = Some t \<and> sn_timestamp s \<le> t)
     \<and> sorted_wrt (\<lambda>a b. sn_ticker a = sn_ticker b \<longrightarrow> 5 \<le> fsub (sn_timestamp b) (sn_timestamp a)) (mh_snapshots h)"

lemma throttled_init: "throttled init_market_history"
  by (simp add: throttled_def init_market_history_def)

lemma throttled_write:
  assumes "throttled h" and mono: "\<forall>k t. dget (mh_last_ticker_snapshot h) k = Some t \<longrightarrow> t \<le> te_now e"
  shows "throttled (ticker_write tc iso_ts e h)
    \<and> (\<forall>k t. dget (mh_last_ticker_snapshot (ticker_write tc iso_ts e h)) k = Some t \<longrightarrow> t \<le> te_now e)"
proof (cases "te_yes_price e")
  case None
  then show ?thesis using assms by (simp add: ticker_write_def record_snapshot_from_ticker_def)
next
  case (Some p)
  let ?last = "dget (mh_last_ticker_snapshot h) (te_ticker e)"
  let ?new = "\<lparr> sn_id = mh_next_id h, sn_ticker = te_ticker e, sn_series = series_of tc (te_ticker e),
      sn_yes_price = p, sn_spread = None, sn_volume_24h = None, sn_time_to_close_sec = None,
      sn_timestamp = te_now e \<rparr>"
  show ?thesis
  proof (cases "case ?last of None \<Rightarrow> False | Some t \<Rightarrow> fsub (te_now e) t < 5")
    case True
    then show ?thesis using assms Some by (simp add: ticker_write_def record_snapshot_from_ticker_def)
  next
    case False
    have gap: "5 \<le> fsub (te_now e) (sn_timestamp s)" if "s \<in> set (mh_snapshots h)" "sn_ticker s = te_ticker e" for s
    proof -
      obtain t where t: "?last = Some t" "sn_timestamp s \<le> t" using assms(1) \<open>s \<in> _\<close> \<open>sn_ticker s = _\<close>
        by (auto simp: throttled_def)
      have "5 \<le> fsub (te_now e) t" using False t(1) by simp
      also have "\<dots> \<le> fsub (te_now e) (sn_timestamp s)" using t(2) by (simp add: fsub_mono)
      finally show ?thesis .
    qed
    have le: "\<exists>t. dget (dput (te_ticker e) (te_now e) (mh_last_ticker_snapshot h)) (sn_ticker s) = Some t
        \<and> sn_timestamp s \<le> t" if s: "s \<in> set (mh_snapshots h)" for s
    proof -
      obtain t where "dget (mh_last_ticker_snapshot h) (sn_ticker s) = Some t" "sn_timestamp s \<le> t"
        using assms(1) s by (auto simp: throttled_def)
      then show ?thesis using mono by (auto intro: order_trans)
    qed
    have old: "sorted_wrt (\<lambda>a b. sn_ticker a = sn_ticker b \<longrightarrow> 5 \<le> fsub (sn_timestamp b) (sn_timestamp a)) (mh_snapshots h)"
      using assms(1) by (simp add: throttled_def)
    show ?thesis
    proof (cases "te_db_ok e")
      case True
      have w: "mh_snapshots (ticker_write tc iso_ts e h) = mh_snapshots h @ [?new]"
        "mh_last_ticker_snapshot (ticker_write tc iso_ts e h) = dput (te_ticker e) (te_now e) (mh_last_ticker_snapshot h)"
        using False Some True by (simp_all add: ticker_write_def record_snapshot_from_ticker_def Let_def
            record_snapshots_def priced_def map_filter_def seconds_to_close_def)
      show ?thesis using old gap le mono by (auto simp: throttled_def w sorted_wrt_append)
    next
      case fail: False
      have w: "mh_snapshots (ticker_write tc iso_ts e h) = mh_snapshots h"
        "mh_last_ticker_snapshot (ticker_write tc iso_ts e h) = dput (te_ticker e) (te_now e) (mh_last_ticker_snapshot h)"
        using False Some fail by (simp_all add: ticker_write_def record_snapshot_from_ticker_def Let_def)
      show ?thesis using old le mono by (auto simp: throttled_def w)
    qed
  qed
qed

text \<open>
  The ticker channel cannot flood the table: starting from an empty history, after any
  sequence of ticker updates (priced or not, failing inserts included) with a clock that does
  not run backwards, two snapshots of one ticker are at least 5 seconds apart.
\<close>

theorem ticker_snapshots_spaced:
  assumes "sorted (map te_now events)"
  shows "sorted_wrt (\<lambda>a b. sn_ticker a = sn_ticker b \<longrightarrow> 5 \<le> fsub (sn_timestamp b) (sn_timestamp a))
    (mh_snapshots (fold (ticker_write tc iso_ts) events init_market_history))"
proof -
  have "throttled (fold (ticker_write tc iso_ts) es h)"
    if "throttled h" "sorted (map te_now es)"
      "\<forall>k t. dget (mh_last_ticker_snapshot h) k = Some t \<longrightarrow> (\<forall>e \<in> set es. t \<le> te_now e)" for es h
    using that
  proof (induction es arbitrary: h)
    case Nil
    then show ?case by simp
  next
    case (Cons e es)
    have w: "throttled (ticker_write tc iso_ts e h)"
      "\<forall>k t. dget (mh_last_ticker_snapshot (ticker_write tc iso_ts e h)) k = Some t \<longrightarrow> t \<le> te_now e"
      using throttled_write [of h e tc iso_ts] Cons.prems by auto
    have "throttled (fold (ticker_write tc iso_ts) es (ticker_write tc iso_ts e h))"
      using Cons.prems(2) w by (intro Cons.IH) (auto intro: order_trans)
    then show ?case by simp
  qed
  from this [OF throttled_init assms] show ?thesis
    by (simp add: throttled_def init_market_history_def)
qed

theorem ticker_snapshots_spaced_witness:
  "length (mh_snapshots (fold (ticker_write empty_title_cache (\<lambda>s. None))
     [\<lparr>te_db_ok = True, te_ticker = ''A'', te_yes_price = Some (1/2), te_now = 10\<rparr>,
      \<lparr>te_db_ok = True, te_ticker = ''A'', te_yes_price = Some (1/4), te_now = 12\<rparr>,
      \<lparr>te_db_ok = True, te_ticker = ''A'', te_yes_price = Some (1/4), te_now = 15\<rparr>] init_market_history)) = 2
   \<and> sorted_wrt (\<lambda>a b. sn_ticker a = sn_ticker b \<longrightarrow> 5 \<le> fsub (sn_timestamp b) (sn_timestamp a))
    (mh_snapshots (fold (ticker_write empty_title_cache (\<lambda>s. None))
     [\<lparr>te_db_ok = True, te_ticker = ''A'', te_yes_price = Some (1/2), te_now = 10\<rparr>,
      \<lparr>te_db_ok = True, te_ticker = ''A'', te_yes_price = Some (1/4), te_now = 12\<rparr>,
      \<lparr>te_db_ok = True, te_ticker = ''A'', te_yes_price = Some (1/4), te_now = 15\<rparr>] init_market_history))"
  by (rule conjI [OF _ ticker_snapshots_spaced]) code_simp+

lemma pending_targets_in:
  assumes "g \<in> set (pending_markout_targets trades offsets now closes h)"
  shows "mg_target_ts g \<le> now \<and> (mg_trade_id g, mg_offset_label g) \<notin> set (dkeys (mh_markouts h))"
proof -
  obtain t off where t: "t \<in> set trades" and at: "markout_target_at now closes
      (already_captured_offset_labels (map mt_id trades) h (mt_id t)) t off = Some g"
    using assms unfolding pending_markout_targets_def map_filter_def by auto
  have key: "mg_trade_id g = mt_id t"
    and free: "mg_target_ts g \<le> now" "mg_offset_label g \<notin> set (already_captured_offset_labels (map mt_id trades) h (mt_id t))"
    using at by (auto simp: markout_target_at_def Let_def split: option.splits if_splits)
  have "l \<in> set (already_captured_offset_labels (map mt_id trades) h (mt_id t))"
    if "(mt_id t, l) \<in> set (dkeys (mh_markouts h))" for l
    using that t by (force simp: already_captured_offset_labels_def)
  with key free show ?thesis by auto
qed

lemma dkeys_snoc: "dkeys (d @ [(k, v)]) = dkeys d @ [k]"
  by (simp add: dkeys_def)

lemma record_markout_keys:
  "set (dkeys (mh_markouts (record_markout g p c h))) = insert (mg_trade_id g, mg_offset_label g) (set (dkeys (mh_markouts h)))"
proof -
  let ?k = "(mg_trade_id g, mg_offset_label g)"
  consider "dget (mh_markouts h) ?k = None" | r where "dget (mh_markouts h) ?k = Some r" by fastforce
  then show ?thesis
  proof cases
    case 1
    then obtain r where "mh_markouts (record_markout g p c h) = mh_markouts h @ [(?k, r)]"
      unfolding record_markout_def Let_def by simp
    then show ?thesis by (simp only: dkeys_snoc set_append list.set Un_insert_right Un_empty_right)
  next
    case 2
    then have "?k \<in> set (dkeys (mh_markouts h))"
      using dget_eq_None_iff [of "mh_markouts h" ?k] by simp
    moreover have "record_markout g p c h = h" unfolding record_markout_def Let_def 2 by simp
    ultimately show ?thesis by (simp only: insert_absorb)
  qed
qed

text \<open>
  A markout is captured once: a target still pending is due and not captured, and once it
  has been recorded it is never pending again, whatever the later trades, offsets and clock.
\<close>

theorem markouts_captured_once:
  assumes "g \<in> set (pending_markout_targets trades offsets now closes h)"
    and "g' \<in> set (pending_markout_targets trades' offsets' now' closes' (record_markout g price captured_at h))"
  shows "mg_target_ts g \<le> now \<and> (mg_trade_id g', mg_offset_label g') \<noteq> (mg_trade_id g, mg_offset_label g)"
  using pending_targets_in [OF assms(1)] pending_targets_in [OF assms(2)]
  by (simp add: record_markout_keys)

theorem markouts_captured_once_witness:
  "\<exists>g (g' :: markout_target). g \<in> set (pending_markout_targets [\<lparr>mt_id = ''t'', mt_ticker = ''A'', mt_side = ''yes'', mt_price = 1/2,
       mt_timestamp = 10\<rparr>] [Some 60, Some 300] 400 [] init_market_history)
     \<and> (mg_trade_id g', mg_offset_label g') \<noteq> (mg_trade_id g, mg_offset_label g)"
proof -
  let ?trade = "\<lparr>mt_id = ''t'', mt_ticker = ''A'', mt_side = ''yes'', mt_price = 1/2, mt_timestamp = 10\<rparr>"
  let ?g = "\<lambda>off. \<lparr> mg_trade_id = ''t'', mg_ticker = ''A'', mg_entry_side = ''yes'', mg_entry_price = 1/2,
      mg_entry_ts = 10, mg_offset_label = show_int (py_trunc off), mg_offset_sec = Some off,
      mg_target_ts = fadd 10 off \<rparr>"
  have g: "?g 60 \<in> set (pending_markout_targets [?trade] [Some 60, Some 300] 400 [] init_market_history)"
    and g': "?g 300 \<in> set (pending_markout_targets [?trade] [Some 60, Some 300] 400 []
       (record_markout (?g 60) None 400 init_market_history))"
    by code_simp+
  have ne: "(mg_trade_id (?g 300), mg_offset_label (?g 300)) \<noteq> (mg_trade_id (?g 60), mg_offset_label (?g 60))"
    by (rule markouts_captured_once [OF g g', THEN conjunct2])
  from conjI [OF g ne] show ?thesis by (intro exI)
qed

text \<open>
  Pruning only forgets: whichever rows SQLite's unordered LIMIT picks, a prune removes
  exactly as many snapshots as it reports, at most one batch, all of them older than the
  cutoff, and keeps every younger row; when nothing older is left, the batch had room for all.
\<close>

definition ids_distinct :: "market_history \<Rightarrow> bool" where
  "ids_distinct h \<longleftrightarrow> distinct (map sn_id (mh_snapshots h))"

lemma length_filter_not_in:
  "distinct (map f xs) \<Longrightarrow> distinct vs \<Longrightarrow> set vs \<subseteq> f ` set xs \<Longrightarrow>
   length (filter (\<lambda>x. f x \<notin> set vs) xs) + length vs = length xs"
proof -
  assume d: "distinct (map f xs)" and v: "distinct vs" and sub: "set vs \<subseteq> f ` set xs"
  have "length (filter (\<lambda>x. f x \<in> set vs) xs) = card (set (map f (filter (\<lambda>x. f x \<in> set vs) xs)))"
    using d distinct_map_filter [of f xs] by (metis distinct_card length_map)
  also have "set (map f (filter (\<lambda>x. f x \<in> set vs) xs)) = set vs" using sub by auto
  also have "card (set vs) = length vs" using v by (rule distinct_card)
  finally show ?thesis using sum_length_filter_compl [of "\<lambda>x. f x \<in> set vs" xs] by simp
qed

theorem prune_only_forgets:
  assumes "ids_distinct h" "limit_pick pick" "prune pick True hours now batch h = (n, h')"
  shows "n \<le> batch \<and> length (mh_snapshots h') + n = length (mh_snapshots h)
    \<and> set (mh_snapshots h') \<subseteq> set (mh_snapshots h)
    \<and> (\<forall>s \<in> set (mh_snapshots h). s \<notin> set (mh_snapshots h') \<longrightarrow> sn_timestamp s < fsub now (fmul hours 3600))"
proof -
  let ?cutoff = "fsub now (fmul hours 3600)"
  let ?victims = "pick batch (old_ids ?cutoff h)"
  have d: "distinct (map sn_id (mh_snapshots h))" using assms(1) by (simp add: ids_distinct_def)
  then have "distinct (old_ids ?cutoff h)" by (simp add: old_ids_def distinct_map_filter)
  then have v: "distinct ?victims" "set ?victims \<subseteq> set (old_ids ?cutoff h)" "length ?victims \<le> batch"
    using assms(2) by (auto simp: limit_pick_def)
  have h': "n = length ?victims" "mh_snapshots h' = filter (\<lambda>s. sn_id s \<notin> set ?victims) (mh_snapshots h)"
    using assms(3) by (auto simp: prune_def Let_def)
  have "set ?victims \<subseteq> sn_id ` set (mh_snapshots h)" using v(2) by (auto simp: old_ids_def)
  then have len: "length (mh_snapshots h') + n = length (mh_snapshots h)"
    unfolding h' by (rule length_filter_not_in [OF d v(1)])
  have "sn_timestamp s < ?cutoff" if "s \<in> set (mh_snapshots h)" "sn_id s \<in> set ?victims" for s
  proof -
    note here = that
    obtain s' where s': "s' \<in> set (mh_snapshots h)" "sn_id s' = sn_id s" "sn_timestamp s' < ?cutoff"
      using v(2) here(2) by (auto simp: old_ids_def)
    then have "s' = s" using d here(1) by (auto simp: distinct_map inj_on_def)
    with s' show ?thesis by simp
  qed
  then show ?thesis using v(3) len by (auto simp: h')
qed

theorem prune_only_forgets_witness:
  "fst (prune take True 1 4000 10 example_history) = 1 \<and>
   length (mh_snapshots (snd (prune take True 1 4000 10 example_history))) + 1 = length (mh_snapshots example_history)"
proof -
  have d: "ids_distinct example_history" by code_simp
  have p: "limit_pick take" by (auto simp: limit_pick_def dest: in_set_takeD)
  have n: "fst (prune take True 1 4000 10 example_history) = 1" by code_simp
  have "prune take True 1 4000 10 example_history = (1, snd (prune take True 1 4000 10 example_history))"
    by (simp only: prod_eq_iff n fst_conv snd_conv)
  from prune_only_forgets [OF d p this] n show ?thesis by blast
qed

end
