(* ===== verification/ConfigOverrides.thy ===== *)
theory ConfigOverrides
  imports Fees
begin

text \<open>
  \<open>services/config/config_overrides.py\<close>: per-category and per-series overrides of the
  flat strategy settings. A settings dictionary maps field names to JSON values; an absent
  or empty overrides object is the record with two empty tiers.
\<close>

type_synonym settings = "(string, json) pdict"

record overrides =
  ov_by_category :: "(string, settings) pdict"
  ov_by_series :: "(string, settings) pdict"

definition no_overrides :: overrides where
  "no_overrides = \<lparr>ov_by_category = [], ov_by_series = []\<rparr>"

definition dict_update :: "('k, 'v) pdict \<Rightarrow> ('k, 'v) pdict \<Rightarrow> ('k, 'v) pdict" where
  "dict_update d e = fold (\<lambda>(k, v). dput k v) e d"

text \<open>One tier: nothing for a missing or empty key, else the fields stored under it.\<close>

definition tier_layer :: "string option \<Rightarrow> (string, settings) pdict \<Rightarrow> settings" where
  "tier_layer key tier = (case nonempty key of None \<Rightarrow> [] | Some k \<Rightarrow> dget_or tier k [])"

definition resolve :: "settings \<Rightarrow> overrides \<Rightarrow> string option \<Rightarrow> string option \<Rightarrow> settings" where
  "resolve strat_cfg ov category series =
     dict_update (dict_update strat_cfg (tier_layer category (ov_by_category ov)))
       (tier_layer series (ov_by_series ov))"

definition tier_of :: "string \<Rightarrow> overrides \<Rightarrow> (string, settings) pdict" where
  "tier_of scope ov = (if scope = ''by_category'' then ov_by_category ov else ov_by_series ov)"

definition with_tier :: "string \<Rightarrow> (string, settings) pdict \<Rightarrow> overrides \<Rightarrow> overrides" where
  "with_tier scope t ov =
     (if scope = ''by_category'' then ov\<lparr> ov_by_category := t \<rparr> else ov\<lparr> ov_by_series := t \<rparr>)"

definition merge_override ::
  "overrides \<Rightarrow> string \<Rightarrow> string \<Rightarrow> string \<Rightarrow> json \<Rightarrow> value_error + overrides" where
  "merge_override ov scope key field v =
     (if scope \<notin> set [''by_category'', ''by_series''] then Inl (ValueError scope)
      else Inr (with_tier scope
        (dput key (dput field v (dget_or (tier_of scope ov) key [])) (tier_of scope ov)) ov))"

definition remove_override ::
  "overrides \<Rightarrow> string \<Rightarrow> string \<Rightarrow> string option \<Rightarrow> value_error + overrides" where
  "remove_override ov scope key field =
     (if scope \<notin> set [''by_category'', ''by_series''] then Inl (ValueError scope)
      else (case dget (tier_of scope ov) key of
          None \<Rightarrow> Inr ov
        | Some entry \<Rightarrow>
            (case field of
               None \<Rightarrow> Inr (with_tier scope (ddel key (tier_of scope ov)) ov)
             | Some f \<Rightarrow>
                 Inr (with_tier scope
                   (if ddel f entry = [] then ddel key (tier_of scope ov)
                    else dput key (ddel f entry) (tier_of scope ov)) ov))))"

subsection \<open>Reading numbers\<close>

text \<open>\<open>d.get(k)\<close> and \<open>d.get(k, default)\<close> where the code computes with a number; a bool is an int.\<close>

definition json_num :: "json \<Rightarrow> f64 option" where
  "json_num v = (case v of JInt n \<Rightarrow> Some (fint n) | JFloat x \<Rightarrow> Some x
     | JBool b \<Rightarrow> Some (if b then 1 else 0) | _ \<Rightarrow> None)"

definition cfg_num :: "settings \<Rightarrow> string \<Rightarrow> f64 option" where
  "cfg_num d k = json_num (jget d k)"

definition cfg_num_or :: "settings \<Rightarrow> string \<Rightarrow> f64 \<Rightarrow> f64" where
  "cfg_num_or d k dflt = (case cfg_num d k of None \<Rightarrow> dflt | Some x \<Rightarrow> x)"

definition cfg_flag :: "settings \<Rightarrow> string \<Rightarrow> bool" where
  "cfg_flag d k = truthy (jget d k)"

subsection \<open>Lookups after the operations\<close>

lemma dget_dict_update:
  "dict_ok e \<Longrightarrow> dget (dict_update d e) k = (case dget e k of None \<Rightarrow> dget d k | Some v \<Rightarrow> Some v)"
  unfolding dict_update_def
proof (induction e arbitrary: d)
  case Nil
  then show ?case by simp
next
  case (Cons kv e)
  obtain k' v' where kv: "kv = (k', v')" by (cases kv)
  from Cons.prems have ok: "dict_ok e" and new: "dget e k' = None"
    by (simp_all add: kv dict_ok_def dget_eq_None_iff)
  show ?case using new by (simp add: kv Cons.IH [OF ok] split: option.splits)
qed

definition tier_ok :: "(string, settings) pdict \<Rightarrow> bool" where
  "tier_ok t \<longleftrightarrow> (\<forall>k s. dget t k = Some s \<longrightarrow> dict_ok s)"

definition overrides_wf :: "overrides \<Rightarrow> bool" where
  "overrides_wf ov \<longleftrightarrow> tier_ok (ov_by_category ov) \<and> tier_ok (ov_by_series ov)"

lemma tier_layer_ok: "tier_ok t \<Longrightarrow> dict_ok (tier_layer key t)"
  by (auto simp: tier_layer_def tier_ok_def dget_or_def split: option.splits)

lemma dget_resolve:
  "overrides_wf ov \<Longrightarrow> dget (resolve cfg ov category series) f =
     (case dget (tier_layer series (ov_by_series ov)) f of Some v \<Rightarrow> Some v
      | None \<Rightarrow> (case dget (tier_layer category (ov_by_category ov)) f of Some v \<Rightarrow> Some v
        | None \<Rightarrow> dget cfg f))"
  by (simp add: resolve_def overrides_wf_def dget_dict_update tier_layer_ok split: option.splits)

lemma merge_override_wf:
  "overrides_wf ov \<Longrightarrow> merge_override ov scope key field v = Inr ov' \<Longrightarrow> overrides_wf ov'"
  by (auto simp: merge_override_def overrides_wf_def tier_of_def with_tier_def tier_ok_def dget_or_def
      dict_ok_def dkeys_dput split: if_splits option.splits)

lemma merge_override_cases:
  assumes "merge_override ov scope key field v = Inr ov'"
  obtains (category) "scope = ''by_category''"
      "ov' = ov\<lparr> ov_by_category := dput key (dput field v (dget_or (ov_by_category ov) key [])) (ov_by_category ov) \<rparr>"
  | (series) "scope = ''by_series''"
      "ov' = ov\<lparr> ov_by_series := dput key (dput field v (dget_or (ov_by_series ov) key [])) (ov_by_series ov) \<rparr>"
  using assms by (auto simp: merge_override_def tier_of_def with_tier_def split: if_splits)

lemma tier_layer_dput:
  "key \<noteq> [] \<Longrightarrow> tier_layer (Some k) (dput key s t) = (if k = key then s else tier_layer (Some k) t)"
  by (auto simp: tier_layer_def nonempty_def dget_or_def)

subsection \<open>Properties\<close>

text \<open>
  An edited override is what the strategies see, and only where it applies: after setting
  a field for a series, resolving for that series (with any category) reads the new value,
  every other field of it and every other series resolve as before, and an edit in a scope
  other than the two tiers is refused.
\<close>

theorem merge_then_resolve:
  assumes "overrides_wf ov" "key \<noteq> []"
    and "merge_override ov ''by_series'' key field v = Inr ov'"
  shows "dget (resolve cfg ov' category (Some key)) field = Some v
    \<and> (\<forall>f. f \<noteq> field \<longrightarrow> dget (resolve cfg ov' category (Some key)) f = dget (resolve cfg ov category (Some key)) f)
    \<and> (\<forall>k f. k \<noteq> key \<longrightarrow> dget (resolve cfg ov' category (Some k)) f = dget (resolve cfg ov category (Some k)) f)
    \<and> (\<forall>s. s \<notin> {''by_category'', ''by_series''} \<longrightarrow> merge_override ov s key field v = Inl (ValueError s))"
proof -
  have wf: "overrides_wf ov'" using assms(1,3) by (rule merge_override_wf)
  have ov': "ov' = ov\<lparr> ov_by_series := dput key (dput field v (dget_or (ov_by_series ov) key [])) (ov_by_series ov) \<rparr>"
    using assms(3) by (cases rule: merge_override_cases) auto
  have layer: "tier_layer (Some key) (ov_by_series ov) = dget_or (ov_by_series ov) key []"
    using assms(2) by (simp add: tier_layer_def nonempty_def)
  have none: "s \<notin> {''by_category'', ''by_series''} \<Longrightarrow> merge_override ov s key field v = Inl (ValueError s)" for s
    by (simp add: merge_override_def)
  have "dget (resolve cfg ov' category (Some key)) field = Some v"
    by (simp add: dget_resolve [OF wf]) (simp add: ov' tier_layer_dput [OF assms(2)])
  moreover have "dget (resolve cfg ov' category (Some key)) f = dget (resolve cfg ov category (Some key)) f"
    if "f \<noteq> field" for f
    using that by (simp add: dget_resolve [OF wf] dget_resolve [OF assms(1)])
      (simp add: ov' tier_layer_dput [OF assms(2)] layer cong: option.case_cong)
  moreover have "dget (resolve cfg ov' category (Some k)) f = dget (resolve cfg ov category (Some k)) f"
    if "k \<noteq> key" for k f
    using that by (simp add: dget_resolve [OF wf] dget_resolve [OF assms(1)])
      (simp add: ov' tier_layer_dput [OF assms(2)] cong: option.case_cong)
  ultimately show ?thesis using none by blast
qed

theorem merge_then_resolve_witness:
  "dget (resolve [(''cooldown'', JInt 60)] \<lparr>ov_by_category = [], ov_by_series = [(''KXBTC'', [(''cooldown'', JInt 5)])]\<rparr>
     (Some ''Crypto'') (Some ''KXBTC'')) ''cooldown'' = Some (JInt 5)"
proof -
  have wf: "overrides_wf no_overrides" by (simp add: overrides_wf_def no_overrides_def tier_ok_def)
  have "merge_override no_overrides ''by_series'' ''KXBTC'' ''cooldown'' (JInt 5) =
      Inr \<lparr>ov_by_category = [], ov_by_series = [(''KXBTC'', [(''cooldown'', JInt 5)])]\<rparr>"
    by code_simp
  from merge_then_resolve [OF wf _ this, THEN conjunct1] show ?thesis by simp
qed

lemma dget_or_ddel_dput: "f \<notin> set (dkeys s) \<Longrightarrow> ddel f (dput f v s) = s"
  by (simp add: length_dput_absent ddel_def) (induction s; auto simp: dkeys_def)

lemma tier_layer_undo:
  assumes "field \<notin> set (dkeys (dget_or t key []))" "t' = dput key (dput field v (dget_or t key [])) t"
  shows "tier_layer k (if dget_or t key [] = [] then ddel key t' else dput key (dget_or t key []) t') =
    tier_layer k t"
  using assms by (auto simp: tier_layer_def dget_or_def split: option.splits)

text \<open>
  C32: Removing a field undoes setting it: after a field that the key did not have is set and
  removed again, every resolution reads as before the edit; and removing what is not there
  changes nothing.
\<close>

theorem remove_undoes_merge:
  assumes "scope \<in> {''by_category'', ''by_series''}" "field \<notin> set (dkeys (dget_or (tier_of scope ov) key []))"
    and "merge_override ov scope key field v = Inr ov1" "remove_override ov1 scope key (Some field) = Inr ov2"
  shows "resolve cfg ov2 category series = resolve cfg ov category series"
proof -
  let ?s = "dget_or (tier_of scope ov) key []"
  have ov1: "ov1 = with_tier scope (dput key (dput field v ?s) (tier_of scope ov)) ov"
    using assms(3) by (simp add: merge_override_def split: if_splits)
  have ov2: "ov2 = with_tier scope (if ?s = [] then ddel key (tier_of scope ov1)
      else dput key ?s (tier_of scope ov1)) ov1"
    using assms(1,4) dget_or_ddel_dput [OF assms(2), of v]
    by (elim insertE) (simp_all add: remove_override_def ov1 tier_of_def with_tier_def split: if_splits)
  from assms(1) show ?thesis
  proof (elim insertE)
    assume s: "scope = ''by_category''"
    from tier_layer_undo [OF assms(2) refl, of category v] show ?thesis
      unfolding ov2 ov1 by (simp add: resolve_def s tier_of_def with_tier_def split: if_splits)
  next
    assume s: "scope = ''by_series''"
    from tier_layer_undo [OF assms(2) refl, of series v] show ?thesis
      unfolding ov2 ov1 by (simp add: resolve_def s tier_of_def with_tier_def split: if_splits)
  qed simp
qed

theorem remove_undoes_merge_witness:
  "\<exists>ov1 ov2. merge_override no_overrides ''by_series'' ''KXBTC'' ''cooldown'' (JInt 5) = Inr ov1
     \<and> remove_override ov1 ''by_series'' ''KXBTC'' (Some ''cooldown'') = Inr ov2
     \<and> resolve [(''cooldown'', JInt 60)] ov2 (Some ''Crypto'') (Some ''KXBTC'')
       = resolve [(''cooldown'', JInt 60)] no_overrides (Some ''Crypto'') (Some ''KXBTC'')"
proof -
  let ?ov1 = "\<lparr>ov_by_category = [], ov_by_series = [(''KXBTC'', [(''cooldown'', JInt 5)])]\<rparr>"
  have m: "merge_override no_overrides ''by_series'' ''KXBTC'' ''cooldown'' (JInt 5) = Inr ?ov1"
    and r: "remove_override ?ov1 ''by_series'' ''KXBTC'' (Some ''cooldown'') = Inr no_overrides"
    by code_simp+
  have "resolve [(''cooldown'', JInt 60)] no_overrides (Some ''Crypto'') (Some ''KXBTC'')
   = resolve [(''cooldown'', JInt 60)] no_overrides (Some ''Crypto'') (Some ''KXBTC'')"
    by (rule remove_undoes_merge [OF _ _ m r]) code_simp+
  with m r show ?thesis by blast
qed

end
