(* ===== verification/Netting.thy ===== *)
theory Netting
  imports BrokerFacts MarketHistory ConfigOverrides
begin

text \<open>
  \<open>services/exits/position_netting.py\<close>: open positions on one mutually exclusive event
  treated as one book. A group's members are (ticker, position) pairs; a payout profile is a
  dictionary from the scenario (the winning ticker, or \<open>OUTSIDE\<close> for an outcome the
  group does not hold) to the group's total P&L. The volatility reading of
  \<open>market_history\<close> is passed in as a function of ticker and lookback at the call's clock.
\<close>

type_synonym members = "(string \<times> position) list"

definition OUTSIDE :: string where "OUTSIDE = ''__outside__''"

record netting_group =
  ng_event_ticker :: string
  ng_members :: members
  ng_include_outside :: bool

subsection \<open>Groups\<close>

definition event_of :: "(string, market_row) pdict \<Rightarrow> string \<Rightarrow> string option" where
  "event_of market_titles ticker =
     (case dget market_titles ticker of None \<Rightarrow> None | Some r \<Rightarrow> nonempty (mr_event_ticker r))"

fun by_event ::
  "(string, market_row) pdict \<Rightarrow> f64 \<Rightarrow> f64 \<Rightarrow> members \<Rightarrow> (string, members) pdict \<Rightarrow> (string, members) pdict" where
  "by_event mt now min_dwell [] acc = acc"
| "by_event mt now min_dwell ((ticker, pos) # ps) acc =
     (if fsub now (po_opened_at pos) < min_dwell then by_event mt now min_dwell ps acc
      else case event_of mt ticker of
          None \<Rightarrow> by_event mt now min_dwell ps acc
        | Some et \<Rightarrow> by_event mt now min_dwell ps (dput et (dget_or acc et [] @ [(ticker, pos)]) acc))"

definition confirmed_exclusive :: "(string, event_row) pdict \<Rightarrow> string \<Rightarrow> bool" where
  "confirmed_exclusive event_titles et =
     (case dget event_titles et of None \<Rightarrow> False | Some e \<Rightarrow> er_mutually_exclusive e = Some True)"

definition find_groups ::
  "members \<Rightarrow> (string, market_row) pdict \<Rightarrow> (string, event_row) pdict \<Rightarrow> f64 \<Rightarrow> f64 \<Rightarrow> netting_group list" where
  "find_groups positions market_titles event_titles now min_dwell_sec =
     List.map_filter (\<lambda>(et, members).
       if length members < 2 \<or> \<not> confirmed_exclusive event_titles et then None
       else Some \<lparr>ng_event_ticker = et, ng_members = members, ng_include_outside = (length members \<noteq> 2)\<rparr>)
       (by_event market_titles now min_dwell_sec positions [])"

subsection \<open>Payouts\<close>

text \<open>A member pays when its ticker wins and it is held YES, or its ticker does not win and it is held NO.\<close>

definition leg_wins :: "string option \<Rightarrow> string \<times> position \<Rightarrow> bool" where
  "leg_wins winner m = ((Some (fst m) = winner) = (po_side (snd m) = Yes))"

fun sum_payout :: "string option \<Rightarrow> f64 \<Rightarrow> members \<Rightarrow> f64" where
  "sum_payout winner acc [] = acc"
| "sum_payout winner acc (m # ms) =
     sum_payout winner (if leg_wins winner m then fadd acc (fint (po_size (snd m))) else acc) ms"

definition total_cost :: "members \<Rightarrow> f64" where
  "total_cost ms = py_sum (map (\<lambda>(t, p). position_cost p) ms)"

definition total_fee :: "members \<Rightarrow> f64" where
  "total_fee ms = py_sum (map (\<lambda>(t, p). po_entry_fee p) ms)"

definition group_payout :: "members \<Rightarrow> string option \<Rightarrow> f64" where
  "group_payout ms winner = fsub (fsub (sum_payout winner 0 ms) (total_cost ms)) (total_fee ms)"

definition payout_profile :: "members \<Rightarrow> bool \<Rightarrow> (string, f64) pdict" where
  "payout_profile ms include_outside =
     (let profile = fold (\<lambda>(t, p). dput t (group_payout ms (Some t))) ms []
      in if include_outside then dput OUTSIDE (group_payout ms None) profile else profile)"

datatype group_status = LockedProfit | LockedLoss | Variable

definition status_str :: "group_status \<Rightarrow> string" where
  "status_str s = (case s of LockedProfit \<Rightarrow> ''locked_profit'' | LockedLoss \<Rightarrow> ''locked_loss''
     | Variable \<Rightarrow> ''variable'')"

definition classify :: "(string, f64) pdict \<Rightarrow> group_status" where
  "classify profile =
     (let vs = map snd profile in
      if vs = [] then Variable
      else if Min (set vs) > 0 then LockedProfit
      else if Max (set vs) < 0 then LockedLoss
      else Variable)"

subsection \<open>Expected value and actions\<close>

definition scenario_probabilities ::
  "members \<Rightarrow> (string, f64) pdict \<Rightarrow> (string, f64) pdict \<Rightarrow> (string, f64) pdict" where
  "scenario_probabilities ms latest_prices profile =
     (let step = (\<lambda>(t, p) (probs, s). (dput t (quote_or_entry latest_prices t p) probs,
                                      fadd s (quote_or_entry latest_prices t p)));
          (probs, s) = fold step ms ([], 0)
      in if OUTSIDE \<in> set (dkeys profile) then dput OUTSIDE (max 0 (fsub 1 s)) probs else probs)"

definition expected_value :: "(string, f64) pdict \<Rightarrow> members \<Rightarrow> (string, f64) pdict \<Rightarrow> f64" where
  "expected_value profile ms latest_prices =
     (let probs = scenario_probabilities ms latest_prices profile
      in py_sum (map (\<lambda>(scenario, pnl). fmul (dget_or probs scenario 0) pnl) profile))"

fun unwind_loop ::
  "title_cache \<Rightarrow> (string, f64) pdict \<Rightarrow> (string, f64) pdict option \<Rightarrow> f64 \<Rightarrow> members \<Rightarrow> f64" where
  "unwind_loop tc prices asks acc [] = acc"
| "unwind_loop tc prices asks acc ((t, pos) # ms) =
     (let price = flatten_price prices asks t pos;
          proceeds = fmul (fint (po_size pos)) (unit_cost (po_side pos) price);
          exit_fee = taker_fee tc (fint (po_size pos)) price (Some t)
      in unwind_loop tc prices asks
           (fadd acc (fsub (fsub (fsub proceeds exit_fee) (position_cost pos)) (po_entry_fee pos))) ms)"

definition unwind_now_value ::
  "title_cache \<Rightarrow> members \<Rightarrow> (string, f64) pdict \<Rightarrow> (string, f64) pdict option \<Rightarrow> f64" where
  "unwind_now_value tc ms latest_prices latest_asks = unwind_loop tc latest_prices latest_asks 0 ms"

definition trim_improvement ::
  "title_cache \<Rightarrow> members \<Rightarrow> (string, f64) pdict \<Rightarrow> (string, f64) pdict option \<Rightarrow> bool \<Rightarrow> f64
     \<Rightarrow> string \<times> position \<Rightarrow> f64" where
  "trim_improvement tc ms prices asks include_outside ev_hold m =
     (let remaining = filter (\<lambda>(t, p). t \<noteq> fst m) ms;
          remaining_ev = (if remaining = [] then 0
            else expected_value (payout_profile remaining include_outside) remaining prices)
      in fsub (fadd remaining_ev (unwind_now_value tc [m] prices asks)) ev_hold)"

text \<open>The running best trim, None before the first candidate (\<open>-inf\<close>).\<close>

fun best_trim :: "(string \<times> position \<Rightarrow> f64) \<Rightarrow> (string \<times> f64) option \<Rightarrow> members \<Rightarrow> (string \<times> f64) option" where
  "best_trim f best [] = best"
| "best_trim f best (m # ms) =
     best_trim f (case best of None \<Rightarrow> Some (fst m, f m)
                  | Some (t, i) \<Rightarrow> if f m > i then Some (fst m, f m) else best) ms"

datatype netting_action = TrimWorstLeg | CloseAll

definition best_variable_action ::
  "title_cache \<Rightarrow> (string, f64) pdict \<Rightarrow> members \<Rightarrow> (string, f64) pdict \<Rightarrow> bool \<Rightarrow> (string, f64) pdict option
     \<Rightarrow> (netting_action \<times> string list \<times> f64) option" where
  "best_variable_action tc profile ms prices include_outside asks =
     (let ev_hold = expected_value profile ms prices;
          trim = best_trim (trim_improvement tc ms prices asks include_outside ev_hold) None ms;
          close_all = fsub (unwind_now_value tc ms prices asks) ev_hold;
          chosen = (case trim of
              Some (t, i) \<Rightarrow> if close_all > i then (CloseAll, map fst ms, close_all)
                             else (TrimWorstLeg, (if t = [] then [] else [t]), i)
            | None \<Rightarrow> (CloseAll, map fst ms, close_all))
      in case chosen of (action, tickers, improvement) \<Rightarrow>
           if tickers = [] \<or> improvement \<le> 0 then None else Some (action, tickers, improvement))"

definition vol_scale :: "f64 \<Rightarrow> f64 \<Rightarrow> f64" where
  "vol_scale vol normal_vol = max (1/4) (min 4 (fdiv vol normal_vol))"

definition materiality_bar ::
  "(string \<Rightarrow> f64 option) \<Rightarrow> members \<Rightarrow> f64 \<Rightarrow> f64 option \<Rightarrow> f64 \<times> f64" where
  "materiality_bar vol ms min_edge_usd normal_vol =
     (case normal_vol of
        None \<Rightarrow> (min_edge_usd, 1)
      | Some nv \<Rightarrow>
          if nv = 0 then (min_edge_usd, 1)
          else (let vols = filter (\<lambda>v. v > 0) (List.map_filter (\<lambda>(t, p). vol t) ms)
                in if vols = [] then (min_edge_usd, 1)
                   else let r = vol_scale (Max (set vols)) nv in (fmul min_edge_usd r, r)))"

subsection \<open>Recommendations\<close>

datatype recommendation =
    HoldLocked
  | CloseLockedLoss "string list" f64
  | Act netting_action "string list" f64 f64 f64 string
  | HoldVariable f64 f64

record netting_entry =
  ne_event_ticker :: string
  ne_members :: "(string \<times> position \<times> f64) list"
  ne_payout_profile :: "(string, f64) pdict"
  ne_status :: group_status
  ne_recommendation :: recommendation

record netting_cfg =
  nc_enabled :: bool
  nc_min_dwell_sec :: f64
  nc_min_edge_improvement_usd :: f64
  nc_normal_volatility :: "f64 option"
  nc_volatility_lookback_sec :: f64

text \<open>\<open>cfg["position_netting"]\<close> with the code's defaults; an explicit null volatility is None.\<close>

definition read_netting_cfg :: "settings \<Rightarrow> netting_cfg" where
  "read_netting_cfg d =
     \<lparr> nc_enabled = cfg_flag d ''enabled'', nc_min_dwell_sec = cfg_num_or d ''min_dwell_sec'' 300,
       nc_min_edge_improvement_usd = cfg_num_or d ''min_edge_improvement_usd'' 1,
       nc_normal_volatility = (if ''normal_volatility'' \<in> set (dkeys d) then cfg_num d ''normal_volatility''
                               else Some (fl (2/100))),
       nc_volatility_lookback_sec = cfg_num_or d ''volatility_lookback_sec'' 1800 \<rparr>"

definition edge_reason :: "f64 \<Rightarrow> f64 \<Rightarrow> string" where
  "edge_reason improvement bar = ''estimated $'' @ fmt_fixed 2 improvement
     @ '' expected-value improvement over holding (bar $'' @ fmt_fixed 2 bar @ '')''"

definition LOCKED_LOSS_REASON :: string where
  "LOCKED_LOSS_REASON = ''payout is negative under every possible outcome - the loss is already fixed regardless of timing; closing now frees up bankroll/position headroom instead of leaving it dead until settlement''"

definition exit_fee_cost ::
  "title_cache \<Rightarrow> members \<Rightarrow> (string, f64) pdict \<Rightarrow> (string, f64) pdict option \<Rightarrow> f64" where
  "exit_fee_cost tc ms prices asks =
     py_sum (map (\<lambda>(t, p). taker_fee tc (fint (po_size p)) (flatten_price prices asks t p) (Some t)) ms)"

definition recommend ::
  "title_cache \<Rightarrow> (string \<Rightarrow> f64 \<Rightarrow> f64 option) \<Rightarrow> netting_cfg \<Rightarrow> (string, f64) pdict \<Rightarrow> (string, f64) pdict option
     \<Rightarrow> netting_group \<Rightarrow> recommendation" where
  "recommend tc vol nc prices asks g =
     (let ms = ng_members g; profile = payout_profile ms (ng_include_outside g) in
      case classify profile of
        LockedProfit \<Rightarrow> HoldLocked
      | LockedLoss \<Rightarrow> CloseLockedLoss (map fst ms) (py_round 2 (exit_fee_cost tc ms prices asks))
      | Variable \<Rightarrow>
          (let (bar, vol_ratio) = materiality_bar (\<lambda>t. vol t (nc_volatility_lookback_sec nc)) ms
                 (nc_min_edge_improvement_usd nc) (nc_normal_volatility nc)
           in case best_variable_action tc profile ms prices (ng_include_outside g) asks of
                Some (action, tickers, improvement) \<Rightarrow>
                  if improvement \<ge> bar
                  then Act action tickers (py_round 2 improvement) (py_round 2 bar) vol_ratio
                         (edge_reason improvement bar)
                  else HoldVariable (py_round 2 bar) vol_ratio
              | None \<Rightarrow> HoldVariable (py_round 2 bar) vol_ratio))"

definition describe_groups ::
  "title_cache \<Rightarrow> (string \<Rightarrow> f64 \<Rightarrow> f64 option) \<Rightarrow> netting_cfg \<Rightarrow> members \<Rightarrow> (string, market_row) pdict
     \<Rightarrow> (string, event_row) pdict \<Rightarrow> (string, f64) pdict \<Rightarrow> (string, f64) pdict option \<Rightarrow> f64 \<Rightarrow> netting_entry list" where
  "describe_groups tc vol nc positions market_titles event_titles prices asks now =
     map (\<lambda>g. \<lparr> ne_event_ticker = ng_event_ticker g,
                ne_members = map (\<lambda>(t, p). (t, p, quote_or_entry prices t p)) (ng_members g),
                ne_payout_profile = payout_profile (ng_members g) (ng_include_outside g),
                ne_status = classify (payout_profile (ng_members g) (ng_include_outside g)),
                ne_recommendation = recommend tc vol nc prices asks g \<rparr>)
       (find_groups positions market_titles event_titles now (nc_min_dwell_sec nc))"

subsection \<open>Review\<close>

text \<open>What an entry's recommendation closes: the tickers, the reason and the four columns.\<close>

definition closes_of :: "recommendation \<Rightarrow> (string list \<times> string \<times> netting_inputs) option" where
  "closes_of r = (case r of
      CloseLockedLoss tickers fee \<Rightarrow> Some (tickers, LOCKED_LOSS_REASON,
        \<lparr>ni_improvement = None, ni_bar = None, ni_vol_ratio = None, ni_exit_fee = Some fee\<rparr>)
    | Act action tickers improvement bar vol_ratio reason \<Rightarrow> Some (tickers, reason,
        \<lparr>ni_improvement = Some improvement, ni_bar = Some bar, ni_vol_ratio = Some vol_ratio, ni_exit_fee = None\<rparr>)
    | _ \<Rightarrow> None)"

definition netting_reason :: "netting_entry \<Rightarrow> string \<Rightarrow> string" where
  "netting_reason e why = ''position netting ('' @ status_str (ne_status e) @ '', event ''
     @ ne_event_ticker e @ ''): '' @ why"

type_synonym close_decision = "string \<times> trade \<times> string"

fun close_tickers ::
  "title_cache \<Rightarrow> (string \<Rightarrow> stamp) \<Rightarrow> (string, f64) pdict \<Rightarrow> (string, f64) pdict option \<Rightarrow> string \<Rightarrow> netting_inputs
     \<Rightarrow> string list \<Rightarrow> close_decision list \<Rightarrow> broker \<Rightarrow> (db_error + close_decision list) \<times> broker" where
  "close_tickers tc stamps prices asks reason ni [] acc b = (Inr acc, b)"
| "close_tickers tc stamps prices asks reason ni (ticker # ts) acc b =
     (case dget (br_positions b) ticker of
        None \<Rightarrow> close_tickers tc stamps prices asks reason ni ts acc b
      | Some pos \<Rightarrow>
          (case close_position tc (stamps ticker) ticker (flatten_price prices asks ticker pos) reason ni b of
             (Inl e, b') \<Rightarrow> (Inl e, b')
           | (Inr None, b') \<Rightarrow> close_tickers tc stamps prices asks reason ni ts acc b'
           | (Inr (Some t), b') \<Rightarrow>
               close_tickers tc stamps prices asks reason ni ts (acc @ [(ticker, t, reason)]) b'))"

fun review_entries ::
  "title_cache \<Rightarrow> (string \<Rightarrow> stamp) \<Rightarrow> (string, f64) pdict \<Rightarrow> (string, f64) pdict option \<Rightarrow> netting_entry list
     \<Rightarrow> close_decision list \<Rightarrow> broker \<Rightarrow> (db_error + close_decision list) \<times> broker" where
  "review_entries tc stamps prices asks [] acc b = (Inr acc, b)"
| "review_entries tc stamps prices asks (e # es) acc b =
     (case closes_of (ne_recommendation e) of
        None \<Rightarrow> review_entries tc stamps prices asks es acc b
      | Some (tickers, why, ni) \<Rightarrow>
          (case close_tickers tc stamps prices asks (netting_reason e why) ni tickers acc b of
             (Inl err, b') \<Rightarrow> (Inl err, b')
           | (Inr acc', b') \<Rightarrow> review_entries tc stamps prices asks es acc' b'))"

definition netting_review ::
  "title_cache \<Rightarrow> (string \<Rightarrow> f64 \<Rightarrow> f64 option) \<Rightarrow> (string \<Rightarrow> stamp) \<Rightarrow> netting_cfg \<Rightarrow> (string, market_row) pdict
     \<Rightarrow> (string, event_row) pdict \<Rightarrow> (string, f64) pdict \<Rightarrow> (string, f64) pdict option \<Rightarrow> f64 \<Rightarrow> broker
     \<Rightarrow> (db_error + close_decision list) \<times> broker" where
  "netting_review tc vol stamps nc market_titles event_titles prices asks now b =
     (if \<not> nc_enabled nc then (Inr [], b)
      else review_entries tc stamps prices asks
        (describe_groups tc vol nc (br_positions b) market_titles event_titles prices asks now) [] b)"

subsection \<open>Group membership\<close>

definition grouped :: "(string, market_row) pdict \<Rightarrow> f64 \<Rightarrow> f64 \<Rightarrow> members \<Rightarrow> (string, members) pdict \<Rightarrow> bool" where
  "grouped mt now dwell ps acc \<longleftrightarrow> (\<forall>et ms t p. dget acc et = Some ms \<longrightarrow> (t, p) \<in> set ms \<longrightarrow>
     (t, p) \<in> set ps \<and> event_of mt t = Some et \<and> \<not> fsub now (po_opened_at p) < dwell)"

lemma by_event_ok: "dict_ok acc \<Longrightarrow> dict_ok (by_event mt now dwell ps acc)"
  by (induction mt now dwell ps acc rule: by_event.induct) (auto split: option.splits)

lemma by_event_grouped:
  "grouped mt now dwell all acc \<Longrightarrow> set ps \<subseteq> set all \<Longrightarrow> grouped mt now dwell all (by_event mt now dwell ps acc)"
proof (induction mt now dwell ps acc rule: by_event.induct)
  case (1 mt now min_dwell acc)
  then show ?case by simp
next
  case (2 mt now min_dwell ticker pos ps acc)
  show ?case
  proof (cases "fsub now (po_opened_at pos) < min_dwell")
    case True
    with 2 show ?thesis by simp
  next
    case False
    show ?thesis
    proof (cases "event_of mt ticker")
      case None
      with 2 False show ?thesis by simp
    next
      case (Some et)
      have "grouped mt now min_dwell all (dput et (dget_or acc et [] @ [(ticker, pos)]) acc)"
        using "2.prems" False Some
      by (cases "dget acc et") (auto simp: grouped_def dget_or_def split: if_splits)
      with 2 False Some show ?thesis by simp
    qed
  qed
qed

lemma find_groups_member:
  assumes "g \<in> set (find_groups ps mt et_rows now dwell)"
  shows "2 \<le> length (ng_members g)" "confirmed_exclusive et_rows (ng_event_ticker g)"
    "ng_include_outside g = (length (ng_members g) \<noteq> 2)"
    "(t, p) \<in> set (ng_members g) \<Longrightarrow> (t, p) \<in> set ps \<and> event_of mt t = Some (ng_event_ticker g)
       \<and> \<not> fsub now (po_opened_at p) < dwell"
proof -
  let ?acc = "by_event mt now dwell ps []"
  obtain et ms where em: "(et, ms) \<in> set ?acc" and g: "length ms \<ge> 2" "confirmed_exclusive et_rows et"
    "g = \<lparr>ng_event_ticker = et, ng_members = ms, ng_include_outside = (length ms \<noteq> 2)\<rparr>"
    using assms by (auto simp: find_groups_def map_filter_def split: if_splits)
  have "dget ?acc et = Some ms" using em by (simp add: dget_iff_in_set by_event_ok)
  moreover have "grouped mt now dwell ps ?acc" by (rule by_event_grouped) (simp_all add: grouped_def)
  ultimately show "(t, p) \<in> set (ng_members g) \<Longrightarrow> (t, p) \<in> set ps \<and> event_of mt t = Some (ng_event_ticker g)
       \<and> \<not> fsub now (po_opened_at p) < dwell"
    by (simp add: grouped_def g(3))
  show "2 \<le> length (ng_members g)" "confirmed_exclusive et_rows (ng_event_ticker g)"
    "ng_include_outside g = (length (ng_members g) \<noteq> 2)"
    using g by simp_all
qed

subsection \<open>Profiles cover every outcome\<close>

lemma sum_payout_other:
  "w \<notin> fst ` set ms \<Longrightarrow> sum_payout (Some w) acc ms = sum_payout None acc ms"
  by (induction ms arbitrary: acc) (auto simp: leg_wins_def)

lemma dget_fold_payout:
  "dget (fold (\<lambda>(t, p). dput t (f t)) ms d) k = (if k \<in> fst ` set ms then Some (f k) else dget d k)"
  by (induction ms arbitrary: d) auto

lemma payout_profile_covers:
  assumes "OUTSIDE \<notin> fst ` set ms"
  shows "w \<in> fst ` set ms \<Longrightarrow> dget (payout_profile ms inc) w = Some (group_payout ms (Some w))"
    and "w \<notin> fst ` set ms \<Longrightarrow> inc \<Longrightarrow> dget (payout_profile ms inc) OUTSIDE = Some (group_payout ms (Some w))"
proof -
  let ?f = "\<lambda>t. group_payout ms (Some t)"
  show "dget (payout_profile ms inc) w = Some (?f w)" if "w \<in> fst ` set ms"
  proof -
    have "w \<noteq> OUTSIDE" using that assms by blast
    then show ?thesis
      using that by (simp add: payout_profile_def Let_def dget_fold_payout [where f = ?f])
  qed
  show "dget (payout_profile ms inc) OUTSIDE = Some (?f w)" if "w \<notin> fst ` set ms" inc
    using that by (simp add: payout_profile_def Let_def) (simp add: group_payout_def sum_payout_other)
qed

lemma classify_bounds:
  assumes "dget profile s = Some v"
  shows "classify profile = LockedProfit \<Longrightarrow> 0 < v" "classify profile = LockedLoss \<Longrightarrow> v < 0"
proof -
  have sv: "(s, v) \<in> set profile" using assms by (rule dget_in_set)
  then have ne: "profile \<noteq> []" by auto
  show "classify profile = LockedProfit \<Longrightarrow> 0 < v" "classify profile = LockedLoss \<Longrightarrow> v < 0"
    using sv ne by (force simp: classify_def Let_def split: if_splits)+
qed

subsection \<open>The chosen action\<close>

lemma best_trim_max:
  "best_trim f best ms = Some (t, i) \<Longrightarrow>
   (\<forall>m \<in> set ms. f m \<le> i) \<and> (case best of None \<Rightarrow> True | Some (t', i') \<Rightarrow> i' \<le> i)
   \<and> ((t, i) \<in> (\<lambda>m. (fst m, f m)) ` set ms \<or> best = Some (t, i))"
proof (induction ms arbitrary: best)
  case Nil
  then show ?case by simp
next
  case (Cons m ms)
  from Cons.IH [of "case best of None \<Rightarrow> Some (fst m, f m)
      | Some (t, i) \<Rightarrow> if f m > i then Some (fst m, f m) else best"] Cons.prems
  show ?case by (auto split: option.splits if_splits)
qed

lemma best_trim_None: "best_trim f best ms = None \<Longrightarrow> best = None \<and> ms = []"
proof (induction ms arbitrary: best)
  case Nil
  then show ?case by simp
next
  case (Cons m ms)
  from Cons.IH [of "case best of None \<Rightarrow> Some (fst m, f m)
      | Some (t, i) \<Rightarrow> if f m > i then Some (fst m, f m) else best"] Cons.prems
  show ?case by (auto split: option.splits if_splits prod.splits)
qed

subsection \<open>Properties\<close>

text \<open>
  "Locked" means locked. When a group's profile is classified as a locked profit, its
  total P&L is positive whichever market of the event wins (any outside winner included when
  the group does not cover the field), and negative whichever wins when it is a locked loss.
\<close>

theorem locked_under_every_outcome:
  assumes "OUTSIDE \<notin> fst ` set ms" "inc \<or> w \<in> fst ` set ms"
  shows "(classify (payout_profile ms inc) = LockedProfit \<longrightarrow> 0 < group_payout ms (Some w))
    \<and> (classify (payout_profile ms inc) = LockedLoss \<longrightarrow> group_payout ms (Some w) < 0)"
proof -
  have "\<exists>s. dget (payout_profile ms inc) s = Some (group_payout ms (Some w))"
    using payout_profile_covers [OF assms(1), of w inc] assms(2) by blast
  then show ?thesis using classify_bounds by blast
qed

definition example_position :: "string \<Rightarrow> outcome_side \<Rightarrow> int \<Rightarrow> f64 \<Rightarrow> position" where
  "example_position t s n p = \<lparr>po_ticker = t, po_side = s, po_size = n, po_entry_price = p,
     po_opened_at = 0, po_config_fingerprint = None, po_entry_fee = 0, po_hold_to_settlement = False\<rparr>"

definition hedge :: members where
  "hedge = [(''A'', example_position ''A'' Yes 10 (1/4)), (''B'', example_position ''B'' Yes 10 (1/2))]"

theorem locked_under_every_outcome_witness:
  "classify (payout_profile hedge False) = LockedProfit \<and> 0 < group_payout hedge (Some ''B'')"
proof
  show c: "classify (payout_profile hedge False) = LockedProfit" by code_simp
  have "(classify (payout_profile hedge False) = LockedProfit \<longrightarrow> 0 < group_payout hedge (Some ''B''))
    \<and> (classify (payout_profile hedge False) = LockedLoss \<longrightarrow> group_payout hedge (Some ''B'') < 0)"
    by (rule locked_under_every_outcome) code_simp+
  then show "0 < group_payout hedge (Some ''B'')" using c by simp
qed

lemma best_action_props:
  assumes "best_variable_action tc profile ms prices inc asks = Some (action, tickers, improvement)"
  shows "0 < improvement \<and> tickers \<noteq> [] \<and> set tickers \<subseteq> fst ` set ms
    \<and> fsub (unwind_now_value tc ms prices asks) (expected_value profile ms prices) \<le> improvement
    \<and> (\<forall>m \<in> set ms. trim_improvement tc ms prices asks inc (expected_value profile ms prices) m \<le> improvement)"
proof -
  let ?ev = "expected_value profile ms prices"
  let ?f = "trim_improvement tc ms prices asks inc ?ev"
  let ?all = "fsub (unwind_now_value tc ms prices asks) ?ev"
  show ?thesis
  proof (cases "best_trim ?f None ms")
    case None
    then have "ms = []" using best_trim_None by blast
    with assms show ?thesis by (simp add: best_variable_action_def Let_def)
  next
    case (Some ti)
    obtain t i where ti: "ti = (t, i)" by (cases ti)
    note mx = best_trim_max [OF Some [unfolded ti]]
    show ?thesis
    proof (cases "?all > i")
      case True
      with assms Some ti mx show ?thesis
        by (auto simp: best_variable_action_def Let_def split: if_splits)
    next
      case False
      with assms Some ti mx show ?thesis
        by (auto simp: best_variable_action_def Let_def intro: rev_image_eqI split: if_splits)
    qed
  qed
qed

text \<open>
  The action taken is the best one considered: it closes members of the group, its
  estimated improvement over holding is positive, and neither trimming any single leg nor
  closing the whole group was estimated to improve more.
\<close>

theorem chosen_action_is_best:
  assumes "best_variable_action tc profile ms prices inc asks = Some (action, tickers, improvement)"
  shows "0 < improvement \<and> tickers \<noteq> [] \<and> set tickers \<subseteq> fst ` set ms
    \<and> fsub (unwind_now_value tc ms prices asks) (expected_value profile ms prices) \<le> improvement
    \<and> (\<forall>m \<in> set ms. trim_improvement tc ms prices asks inc (expected_value profile ms prices) m \<le> improvement)"
  using assms by (rule best_action_props)

definition rich_prices :: "(string, f64) pdict" where
  "rich_prices = [(''A'', 1), (''B'', 1)]"

definition rich_pair :: members where
  "rich_pair = [(''A'', example_position ''A'' Yes 10 1), (''B'', example_position ''B'' Yes 10 0)]"

lemmas netting_eval = rich_pair_def rich_prices_def example_position_def payout_profile_def group_payout_def
  leg_wins_def total_cost_def total_fee_def position_cost_def unit_cost_def expected_value_def
  scenario_probabilities_def unwind_now_value_def trim_improvement_def flatten_price_def quote_or_entry_def
  dget_or_def fee_free OUTSIDE_def flops

lemma rich_trim:
  "best_variable_action empty_title_cache (payout_profile rich_pair False) rich_pair rich_prices False None
   = Some (TrimWorstLeg, [''A''], 10)"
  by (simp add: best_variable_action_def netting_eval)

theorem chosen_action_is_best_witness:
  "(0::rat) < 10 \<and> [''A''] \<noteq> [] \<and> set [''A''] \<subseteq> fst ` set rich_pair
    \<and> fsub (unwind_now_value empty_title_cache rich_pair rich_prices None)
        (expected_value (payout_profile rich_pair False) rich_pair rich_prices) \<le> 10
    \<and> list_all (\<lambda>m. trim_improvement empty_title_cache rich_pair rich_prices None False
        (expected_value (payout_profile rich_pair False) rich_pair rich_prices) m \<le> 10) rich_pair"
  unfolding list_all_iff by (rule chosen_action_is_best [OF rich_trim])

text \<open>
  The noise filter stays within a factor of four: the materiality bar is the configured
  edge scaled by a volatility ratio in [1/4, 4]; a market with no volatility reading, a zero
  reading or a zero baseline never discounts it.
\<close>

theorem materiality_bar_bounded:
  assumes "0 \<le> edge" "is_f64 edge" "materiality_bar vol ms edge normal_vol = (bar, r)"
  shows "1/4 \<le> r \<and> r \<le> 4 \<and> fmul edge (1/4) \<le> bar \<and> bar \<le> fmul edge 4
    \<and> ((\<forall>m \<in> set ms. case vol (fst m) of None \<Rightarrow> True | Some v \<Rightarrow> v \<le> 0) \<longrightarrow> bar = edge \<and> r = 1)"
proof -
  have scale: "1/4 \<le> vol_scale v n \<and> vol_scale v n \<le> 4" for v n
    by (auto simp: vol_scale_def)
  have one: "fmul edge 1 = edge" using assms(2) by simp
  have shape: "bar = fmul edge r" "1/4 \<le> r" "r \<le> 4"
    using assms(3) scale one by (auto simp: materiality_bar_def Let_def split: option.splits if_splits)
  have quiet: "filter (\<lambda>v. v > 0) (List.map_filter (\<lambda>(t, p). vol t) ms) = []"
    if "\<forall>m \<in> set ms. case vol (fst m) of None \<Rightarrow> True | Some v \<Rightarrow> v \<le> 0"
    using that by (force simp: map_filter_def filter_empty_conv split: option.splits)
  have "bar = edge \<and> r = 1" if "\<forall>m \<in> set ms. case vol (fst m) of None \<Rightarrow> True | Some v \<Rightarrow> v \<le> 0"
    using assms(3) quiet [OF that] by (simp add: materiality_bar_def Let_def split: option.splits if_splits)
  moreover have "fmul edge (1/4) \<le> bar" "bar \<le> fmul edge 4"
    unfolding shape(1) using assms(1) shape(2,3) by (auto intro: fmul_mono)
  ultimately show ?thesis using shape(2,3) by blast
qed

theorem materiality_bar_bounded_witness:
  "snd (materiality_bar (\<lambda>t. Some 1) rich_pair 1 (Some (1/2))) = 2 \<and> fmul 1 (1/4) \<le> fst (materiality_bar (\<lambda>t. Some 1) rich_pair 1 (Some (1/2)))"
proof -
  have "snd (materiality_bar (\<lambda>t. Some 1) rich_pair 1 (Some (1/2))) = 2" by code_simp
  moreover from materiality_bar_bounded [OF _ _ prod.collapse [symmetric], of 1 "\<lambda>t. Some 1" rich_pair "Some (1/2)"]
  have "fmul 1 (1/4) \<le> fst (materiality_bar (\<lambda>t. Some 1) rich_pair 1 (Some (1/2)))" by simp
  ultimately show ?thesis by simp
qed

subsection \<open>What a review touches\<close>

lemma close_tickers_frame:
  "close_tickers tc stamps prices asks reason ni ts acc b = (Inr ds, b') \<Longrightarrow>
   (\<forall>t. t \<notin> set ts \<longrightarrow> dget (br_positions b') t = dget (br_positions b) t)
   \<and> (\<forall>d \<in> set ds. d \<in> set acc \<or> fst d \<in> set ts)"
proof (induction ts arbitrary: acc b)
  case Nil
  then show ?case by simp
next
  case (Cons ticker ts)
  show ?case
  proof (cases "dget (br_positions b) ticker")
    case None
    then have "close_tickers tc stamps prices asks reason ni ts acc b = (Inr ds, b')"
      using Cons.prems by simp
    from Cons.IH [OF this] show ?thesis by auto
  next
    case (Some pos)
    obtain r b1 where cp: "close_position tc (stamps ticker) ticker (flatten_price prices asks ticker pos)
        reason ni b = (r, b1)" by fastforce
    obtain acc' where rest: "close_tickers tc stamps prices asks reason ni ts acc' b1 = (Inr ds, b')"
      and acc': "\<forall>d \<in> set acc'. d \<in> set acc \<or> fst d = ticker"
      using Cons.prems Some cp by (auto split: sum.splits option.splits)
    have "dget (br_positions b1) t = dget (br_positions b) t" if "t \<noteq> ticker" for t
      using that by (simp add: close_position_closed(1) [OF cp Some])
    with Cons.IH [OF rest] acc' show ?thesis by auto
  qed
qed

lemma review_entries_frame:
  "review_entries tc stamps prices asks es acc b = (Inr ds, b') \<Longrightarrow>
   (\<forall>t. (\<forall>e \<in> set es. \<forall>c. closes_of (ne_recommendation e) = Some c \<longrightarrow> t \<notin> set (fst c)) \<longrightarrow>
      dget (br_positions b') t = dget (br_positions b) t)
   \<and> (\<forall>d \<in> set ds. d \<in> set acc \<or>
        (\<exists>e \<in> set es. \<exists>c. closes_of (ne_recommendation e) = Some c \<and> fst d \<in> set (fst c)))"
proof (induction es arbitrary: acc b)
  case Nil
  then show ?case by simp
next
  case (Cons e es)
  show ?case
  proof (cases "closes_of (ne_recommendation e)")
    case None
    then have "review_entries tc stamps prices asks es acc b = (Inr ds, b')" using Cons.prems by simp
    from Cons.IH [OF this] None show ?thesis by auto
  next
    case (Some c)
    obtain tickers why ni where c: "c = (tickers, why, ni)" by (cases c)
    obtain acc' b1 where ct: "close_tickers tc stamps prices asks (netting_reason e why) ni tickers acc b = (Inr acc', b1)"
      and rest: "review_entries tc stamps prices asks es acc' b1 = (Inr ds, b')"
      using Cons.prems Some c by (auto split: sum.splits prod.splits)
    note f = close_tickers_frame [OF ct]
    note r = Cons.IH [OF rest]
    show ?thesis
    proof (intro conjI allI impI ballI)
      fix t assume "\<forall>e \<in> set (e # es). \<forall>c. closes_of (ne_recommendation e) = Some c \<longrightarrow> t \<notin> set (fst c)"
      then show "dget (br_positions b') t = dget (br_positions b) t" using f r Some c by simp
    next
      fix d assume "d \<in> set ds"
      then show "d \<in> set acc \<or> (\<exists>e \<in> set (e # es). \<exists>c. closes_of (ne_recommendation e) = Some c \<and> fst d \<in> set (fst c))"
        using f r Some c by fastforce
    qed
  qed
qed

lemma recommend_closes:
  assumes "closes_of (recommend tc vol nc prices asks g) = Some c"
  shows "set (fst c) \<subseteq> fst ` set (ng_members g)
    \<and> classify (payout_profile (ng_members g) (ng_include_outside g)) \<noteq> LockedProfit"
proof -
  have act: "set tickers \<subseteq> fst ` set (ng_members g)"
    if "best_variable_action tc profile (ng_members g) prices inc asks = Some (action, tickers, i)"
    for profile inc action tickers i
    using best_action_props [OF that] by blast
  from assms show ?thesis
    by (auto simp: recommend_def closes_of_def Let_def
        split: group_status.splits option.splits if_splits prod.splits recommendation.splits
        dest: act [THEN subsetD])
qed


definition rich_broker :: broker where
  "rich_broker = \<lparr>br_bankroll = 100, br_starting_bankroll = 100, br_positions = rich_pair, br_trade_log = [],
     br_last_trade_time = [], br_pending_orders = [], br_db = empty_broker_db, br_history = init_history_push\<rparr>"

definition rich_titles :: "(string, market_row) pdict" where
  "rich_titles = [(''A'', example_market), (''B'', example_market)]"

definition rich_review :: "(db_error + close_decision list) \<times> broker" where
  "rich_review = netting_review empty_title_cache (\<lambda>t l. None) (\<lambda>t. example_stamp t 1000)
     \<lparr>nc_enabled = True, nc_min_dwell_sec = 300, nc_min_edge_improvement_usd = 1,
      nc_normal_volatility = None, nc_volatility_lookback_sec = 1800\<rparr>
     rich_titles [(''E'', example_event)] rich_prices None 1000 rich_broker"

lemma rich_groups:
  "find_groups rich_pair rich_titles [(''E'', example_event)] 1000 300
   = [\<lparr>ng_event_ticker = ''E'', ng_members = rich_pair, ng_include_outside = False\<rparr>]"
  by (simp add: find_groups_def map_filter_def rich_pair_def rich_titles_def example_market_def example_event_def
      example_position_def event_of_def nonempty_def confirmed_exclusive_def dget_or_def flops)

lemma rich_variable: "classify (payout_profile rich_pair False) = Variable"
  by (simp add: classify_def netting_eval)

lemma rich_closes: "\<exists>d b'. rich_review = (Inr [d], b') \<and> fst d = ''A''"
  by (simp add: rich_review_def netting_review_def describe_groups_def rich_broker_def rich_groups
      recommend_def rich_variable rich_trim materiality_bar_def Let_def closes_of_def)
    (simp add: rich_pair_def close_position_def Let_def record_trade_def commit_trade_def close_trade_def
      empty_broker_db_def)


end
