(* ===== verification/Exits.thy ===== *)
theory Exits
  imports Netting
begin

text \<open>
  \<open>services/exits/exit_engine.py\<close>: settlement closes, the corroborated sell quote, the
  three hard exit rules, the sentiment reversal and the composite auto-exit score, and the
  loop over a snapshot of the open positions. Faults and the two once-per-window log sets are
  explicit state; a fault keeps its kind and ticker, not its prose. The readings of other
  modules (analyst lean, series statistics) and ISO time parsing are fields of
  \<open>exit_inputs\<close>; per-tick memoisation of pure reads is not modelled.
\<close>

record whale_print =
  wp_ticker :: string
  wp_side :: string
  wp_size :: f64
  wp_confidence :: f64
  wp_timestamp :: f64

record exit_inputs =
  xi_titles :: title_cache
  xi_latest_prices :: "(string, f64) pdict"
  xi_latest_asks :: "(string, f64) pdict option"
  xi_updated_at :: "(string, f64) pdict option"
  xi_market_results :: "(string, string) pdict"
  xi_signal_feed :: "whale_print list"
  xi_opened_since :: "f64 option"
  xi_category_by_ticker :: "(string, string) pdict"
  xi_close_times :: "(string, json) pdict"
  xi_now :: f64
  xi_score_now :: f64
  xi_history :: market_history
  xi_pow_half :: "f64 \<Rightarrow> f64"
  xi_iso_ts :: "string \<Rightarrow> f64 option"
  xi_analyst_lean :: "string \<Rightarrow> f64 option"
  xi_series_stats :: "string \<Rightarrow> int \<times> f64 option"
  xi_stamps :: "string \<Rightarrow> stamp"

text \<open>The observability window: what has been logged, and the faults recorded.\<close>

record exit_window =
  ew_stale_logged :: "string list"
  ew_unsellable_logged :: "string list"
  ew_faults :: "(string \<times> string) list"

definition reset_window :: "exit_window \<Rightarrow> exit_window" where
  "reset_window w = w\<lparr> ew_stale_logged := [], ew_unsellable_logged := [] \<rparr>"

definition log_stale :: "string \<Rightarrow> exit_window \<Rightarrow> exit_window" where
  "log_stale t w = (if t \<in> set (ew_stale_logged w) then w
     else w\<lparr> ew_stale_logged := t # ew_stale_logged w,
             ew_faults := ew_faults w @ [(''stale_price_uncorroborated'', t)] \<rparr>)"

definition log_unsellable :: "string \<Rightarrow> exit_window \<Rightarrow> exit_window" where
  "log_unsellable t w = (if t \<in> set (ew_unsellable_logged w) then w
     else w\<lparr> ew_unsellable_logged := t # ew_unsellable_logged w,
             ew_faults := ew_faults w @ [(''unsellable_book'', t)] \<rparr>)"

definition PRICE_CORROBORATION_MAX_AGE_SEC :: f64 where "PRICE_CORROBORATION_MAX_AGE_SEC = 120"
definition PRICE_CORROBORATION_MAX_DEVIATION :: f64 where "PRICE_CORROBORATION_MAX_DEVIATION = fl (30/100)"

subsection \<open>Settlement\<close>

definition normal_result :: "string \<Rightarrow> string" where
  "normal_result s = str_lower (str_strip s)"

definition settled_side :: "string \<Rightarrow> outcome_side option" where
  "settled_side result = (let r = normal_result result in
     if r = ''yes'' then Some Yes else if r = ''no'' then Some No else None)"

definition settle_reason :: "outcome_side \<Rightarrow> position \<Rightarrow> string" where
  "settle_reason winner pos = ''market settled '' @ str_upper (side_str winner) @ '' - position ''
     @ (if winner = po_side pos then ''won'' else ''lost'')"

definition close_if_settled ::
  "title_cache \<Rightarrow> stamp \<Rightarrow> string \<Rightarrow> position \<Rightarrow> string \<Rightarrow> broker
     \<Rightarrow> (db_error + close_decision option) \<times> broker" where
  "close_if_settled tc st ticker pos result b =
     (case settled_side result of
        None \<Rightarrow> (Inr None, b)
      | Some winner \<Rightarrow>
          (case close_position tc st ticker (settles winner) (settle_reason winner pos) no_netting b of
             (Inl e, b') \<Rightarrow> (Inl e, b')
           | (Inr None, b') \<Rightarrow> (Inr None, b')
           | (Inr (Some t), b') \<Rightarrow> (Inr (Some (ticker, t, settle_reason winner pos)), b')))"

subsection \<open>The corroborated sell quote\<close>

definition corroborated_price :: "exit_inputs \<Rightarrow> string \<Rightarrow> f64 option" where
  "corroborated_price x ticker = recent_price ticker PRICE_CORROBORATION_MAX_AGE_SEC (xi_now x) (xi_history x)"

definition price_is_stale :: "exit_inputs \<Rightarrow> settings \<Rightarrow> string \<Rightarrow> bool" where
  "price_is_stale x cfg ticker =
     (let limit = cfg_num_or cfg ''price_staleness_corroborate_sec'' 0 in
      if limit > 0 then
        (case xi_updated_at x of
           None \<Rightarrow> False
         | Some stamped \<Rightarrow>
             (case dget stamped ticker of None \<Rightarrow> True | Some t \<Rightarrow> fsub (xi_now x) t > limit))
      else False)"

definition far_apart :: "f64 \<Rightarrow> f64 \<Rightarrow> bool" where
  "far_apart a b = (\<bar>fsub a b\<bar> > PRICE_CORROBORATION_MAX_DEVIATION)"

definition trusted_bid :: "exit_inputs \<Rightarrow> settings \<Rightarrow> string \<Rightarrow> position \<Rightarrow> exit_window \<Rightarrow> f64 \<times> exit_window" where
  "trusted_bid x cfg ticker pos w =
     (let yes_bid = quote_or_entry (xi_latest_prices x) ticker pos; stale = price_is_stale x cfg ticker in
      case corroborated_price x ticker of
        Some c \<Rightarrow> (if stale \<or> far_apart yes_bid c then c else yes_bid, w)
      | None \<Rightarrow> (yes_bid, if stale then log_stale ticker w else w))"

definition exit_quote :: "exit_inputs \<Rightarrow> settings \<Rightarrow> string \<Rightarrow> position \<Rightarrow> exit_window \<Rightarrow> f64 option \<times> exit_window" where
  "exit_quote x cfg ticker pos w =
     (let (yes_bid, w1) = trusted_bid x cfg ticker pos w;
          yes_ask = (case xi_latest_asks x of None \<Rightarrow> None | Some asks \<Rightarrow> dget asks ticker);
          quote = sellable_quote (po_side pos) (Some yes_bid) yes_ask (Some (dget (xi_latest_prices x) ticker))
      in case quote of
           None \<Rightarrow> (None, log_unsellable ticker w1)
         | Some q \<Rightarrow>
             if po_side pos = No \<and>
                (case corroborated_price x ticker of None \<Rightarrow> False | Some c \<Rightarrow> far_apart q c)
             then (None, log_unsellable ticker w1)
             else (Some q, w1))"

subsection \<open>Whale lean and the composite score\<close>

record whale_lean =
  wl_count :: nat
  wl_yes_pct :: f64

definition prints_on :: "string \<Rightarrow> whale_print list \<Rightarrow> whale_print list" where
  "prints_on ticker feed = filter (\<lambda>s. wp_ticker s = ticker) feed"

definition side_weight :: "string \<Rightarrow> whale_print list \<Rightarrow> f64" where
  "side_weight side ms = py_sum (map (\<lambda>s. fmul (wp_size s) (wp_confidence s)) (filter (\<lambda>s. wp_side s = side) ms))"

definition whale_lean_on :: "string \<Rightarrow> whale_print list \<Rightarrow> whale_lean option" where
  "whale_lean_on ticker feed =
     (let ms = prints_on ticker feed in
      if ms = [] then None
      else let yes_weight = side_weight ''yes'' ms; total = fadd yes_weight (side_weight ''no'' ms)
        in Some \<lparr> wl_count = length ms,
                  wl_yes_pct = (if total = 0 then 50 else fmul (fdiv yes_weight total) 100) \<rparr>)"

definition opposite_pct :: "outcome_side \<Rightarrow> whale_lean \<Rightarrow> f64" where
  "opposite_pct s l = (case s of Yes \<Rightarrow> fsub 100 (wl_yes_pct l) | No \<Rightarrow> wl_yes_pct l)"

definition clamp01 :: "f64 \<Rightarrow> f64" where
  "clamp01 x = max 0 (min 1 x)"

definition exit_vol_ratio :: "exit_inputs \<Rightarrow> settings \<Rightarrow> string \<Rightarrow> f64" where
  "exit_vol_ratio x cfg ticker =
     (let normal_vol = (if ''auto_exit_normal_volatility'' \<in> set (dkeys cfg)
                        then cfg_num_or cfg ''auto_exit_normal_volatility'' 0 else fl (2/100)) in
      if normal_vol = 0 then 1
      else case volatility (xi_pow_half x) ticker (cfg_num_or cfg ''auto_exit_volatility_lookback_sec'' 1800)
                  (xi_score_now x) (xi_history x) of
          None \<Rightarrow> 1
        | Some v \<Rightarrow> if v > 0 then vol_scale v normal_vol else 1)"

definition pnl_factor :: "exit_inputs \<Rightarrow> settings \<Rightarrow> string \<Rightarrow> f64 \<Rightarrow> f64" where
  "pnl_factor x cfg ticker pnl_pct =
     (let r = exit_vol_ratio x cfg ticker;
          gain_ref = fmul (cfg_num_or cfg ''auto_exit_gain_reference_pct'' (1/2)) r;
          loss_ref = fmul (cfg_num_or cfg ''auto_exit_loss_reference_pct'' (fl (3/10))) r
      in if pnl_pct \<ge> 0
         then (if gain_ref > 0 then min 1 (fdiv pnl_pct gain_ref) else 0)
         else (if loss_ref > 0 then min 1 (fdiv (- pnl_pct) loss_ref) else 0))"

type_synonym factor = "string \<times> f64 \<times> f64"

definition sentiment_factors :: "settings \<Rightarrow> position \<Rightarrow> whale_lean option \<Rightarrow> factor list" where
  "sentiment_factors cfg pos lean = (case lean of None \<Rightarrow> []
     | Some l \<Rightarrow> [(''sentiment'', clamp01 (fdiv (fsub (opposite_pct (po_side pos) l) 50) 50),
                  cfg_num_or cfg ''auto_exit_sentiment_weight'' 1)])"

definition staleness_factors :: "exit_inputs \<Rightarrow> settings \<Rightarrow> string \<Rightarrow> factor list" where
  "staleness_factors x cfg ticker =
     (let ms = prints_on ticker (xi_signal_feed x);
          stale_after = cfg_num_or cfg ''auto_exit_stale_after_sec'' 1800 in
      if ms = [] then []
      else let elapsed = max 0 (fsub (xi_score_now x) (Max (set (map wp_timestamp ms))))
        in [(''staleness'', if stale_after > 0 then min 1 (fdiv elapsed stale_after) else 0,
             cfg_num_or cfg ''auto_exit_staleness_weight'' (1/2))])"

definition analyst_factors :: "exit_inputs \<Rightarrow> settings \<Rightarrow> string \<Rightarrow> position \<Rightarrow> factor list" where
  "analyst_factors x cfg ticker pos = (case xi_analyst_lean x ticker of None \<Rightarrow> []
     | Some e \<Rightarrow> [(''analyst_divergence'',
         clamp01 (fdiv (case po_side pos of Yes \<Rightarrow> fsub (1/2) e | No \<Rightarrow> fsub e (1/2)) (1/2)),
         cfg_num_or cfg ''auto_exit_analyst_weight'' (1/2))])"

definition series_factors :: "exit_inputs \<Rightarrow> settings \<Rightarrow> string \<Rightarrow> factor list" where
  "series_factors x cfg ticker =
     (let w = cfg_num_or cfg ''auto_exit_series_track_record_weight'' 0 in
      if w > 0 then
        (case xi_series_stats x ticker of (resolved, win_rate) \<Rightarrow>
           (case win_rate of None \<Rightarrow> []
            | Some wr \<Rightarrow>
                if fint resolved \<ge> cfg_num_or cfg ''min_resolved_for_whale_filter'' 5
                then [(''series_track_record'', clamp01 (fdiv (fsub 50 wr) 50), w)] else []))
      else [])"

definition exit_factors :: "exit_inputs \<Rightarrow> settings \<Rightarrow> string \<Rightarrow> position \<Rightarrow> f64 \<Rightarrow> factor list" where
  "exit_factors x cfg ticker pos pnl_pct =
     [(''pnl'', pnl_factor x cfg ticker pnl_pct, cfg_num_or cfg ''auto_exit_pnl_weight'' 1)]
     @ sentiment_factors cfg pos (whale_lean_on ticker (xi_signal_feed x))
     @ staleness_factors x cfg ticker
     @ analyst_factors x cfg ticker pos
     @ series_factors x cfg ticker"

definition weighted_mean :: "factor list \<Rightarrow> f64" where
  "weighted_mean fs =
     (let total = py_sum (map (\<lambda>(n, f, w). w) fs) in
      if total > 0 then fdiv (py_sum (map (\<lambda>(n, f, w). fmul f w) fs)) total else 0)"

definition exit_confidence :: "exit_inputs \<Rightarrow> settings \<Rightarrow> string \<Rightarrow> position \<Rightarrow> f64 \<Rightarrow> f64 \<times> factor list" where
  "exit_confidence x cfg ticker pos pnl_pct =
     (let fs = exit_factors x cfg ticker pos pnl_pct in (weighted_mean fs, fs))"

subsection \<open>The exit rules\<close>

text \<open>An em dash in a reason is its three UTF-8 bytes.\<close>

definition em_dash :: string where "em_dash = [CHR 0xE2, CHR 0x80, CHR 0x94]"

definition take_profit_reason :: "settings \<Rightarrow> f64 \<Rightarrow> string option" where
  "take_profit_reason cfg pnl = (case cfg_num cfg ''take_profit_pct'' of None \<Rightarrow> None
     | Some tp \<Rightarrow> if pnl \<ge> tp then Some (''take-profit hit: unrealized gain '' @ fmt_percent 0 pnl
           @ '' of cost basis (target '' @ fmt_percent 0 tp @ '')'') else None)"

definition stop_loss_reason :: "settings \<Rightarrow> f64 \<Rightarrow> string option" where
  "stop_loss_reason cfg pnl = (case cfg_num cfg ''stop_loss_pct'' of None \<Rightarrow> None
     | Some sl \<Rightarrow> if pnl \<le> - sl then Some (''stop-loss hit: unrealized loss '' @ fmt_percent 0 (- pnl)
           @ '' of cost basis (limit '' @ fmt_percent 0 sl @ '')'') else None)"

definition runway_reason :: "exit_inputs \<Rightarrow> settings \<Rightarrow> string \<Rightarrow> position \<Rightarrow> string option" where
  "runway_reason x cfg ticker pos =
     (case cfg_num cfg ''exit_min_seconds_to_close'' of None \<Rightarrow> None
      | Some floor' \<Rightarrow>
          if floor' = 0 \<or> po_hold_to_settlement pos then None
          else (case seconds_to_close (xi_iso_ts x)
                   (case dget (xi_close_times x) ticker of None \<Rightarrow> JNull | Some v \<Rightarrow> v) (xi_now x) of
                  None \<Rightarrow> None
                | Some secs \<Rightarrow>
                    if secs \<le> floor'
                    then Some (''runway exhausted: '' @ fmt_fixed 0 secs @ ''s to close (floor ''
                      @ fmt_fixed 0 floor' @ ''s) '' @ em_dash @ '' closing rather than riding to settlement'')
                    else None))"

definition reversal_reason :: "exit_inputs \<Rightarrow> settings \<Rightarrow> string \<Rightarrow> position \<Rightarrow> string option" where
  "reversal_reason x cfg ticker pos =
     (if \<not> cfg_flag cfg ''exit_on_sentiment_reversal'' then None
      else case whale_lean_on ticker (xi_signal_feed x) of None \<Rightarrow> None
        | Some l \<Rightarrow>
            if fint (int (wl_count l)) \<ge> cfg_num_or cfg ''exit_sentiment_min_signals'' 3
               \<and> opposite_pct (po_side pos) l \<ge> cfg_num_or cfg ''exit_sentiment_lean_pct'' 65
            then Some (''whale sentiment reversed: '' @ fmt_fixed 0 (opposite_pct (po_side pos) l) @ ''% of ''
              @ show_nat (wl_count l) @ '' recent prints now lean against this '' @ side_str (po_side pos)
              @ '' position'')
            else None)"

fun join_factors :: "factor list \<Rightarrow> string" where
  "join_factors [] = []"
| "join_factors [(n, f, w)] = n @ ''='' @ fmt_percent 0 f"
| "join_factors ((n, f, w) # fs) = n @ ''='' @ fmt_percent 0 f @ '', '' @ join_factors fs"

definition auto_exit_reason :: "exit_inputs \<Rightarrow> settings \<Rightarrow> string \<Rightarrow> position \<Rightarrow> f64 \<Rightarrow> string option" where
  "auto_exit_reason x cfg ticker pos pnl =
     (if \<not> cfg_flag cfg ''auto_exit_enabled'' then None
      else let (confidence, fs) = exit_confidence x cfg ticker pos pnl;
               threshold = cfg_num_or cfg ''auto_exit_threshold'' (fl (6/10))
        in if confidence \<ge> threshold
           then Some (''auto-exit: composite confidence '' @ fmt_percent 0 confidence @ '' >= ''
             @ fmt_percent 0 threshold @ '' threshold (factors: '' @ join_factors fs @ '')'')
           else None)"

fun first_reason :: "string option list \<Rightarrow> string option" where
  "first_reason [] = None"
| "first_reason (Some r # rs) = Some r"
| "first_reason (None # rs) = first_reason rs"

definition exit_reason :: "exit_inputs \<Rightarrow> settings \<Rightarrow> string \<Rightarrow> position \<Rightarrow> f64 \<Rightarrow> string option" where
  "exit_reason x cfg ticker pos pnl = first_reason
     [take_profit_reason cfg pnl, stop_loss_reason cfg pnl, runway_reason x cfg ticker pos,
      reversal_reason x cfg ticker pos, auto_exit_reason x cfg ticker pos pnl]"

definition exit_pnl_pct :: "title_cache \<Rightarrow> string \<Rightarrow> position \<Rightarrow> f64 \<Rightarrow> f64" where
  "exit_pnl_pct tc ticker pos price =
     fdiv (fsub (fsub (position_pnl pos price) (po_entry_fee pos))
        (taker_fee tc (fint (po_size pos)) price (Some ticker))) (position_cost pos)"

text \<open>What to do with one open, unsettled position: hold, or close at a price for a reason.\<close>

definition exit_decision ::
  "exit_inputs \<Rightarrow> settings \<Rightarrow> string \<Rightarrow> position \<Rightarrow> exit_window \<Rightarrow> (f64 \<times> string) option \<times> exit_window" where
  "exit_decision x cfg ticker pos w =
     (case exit_quote x cfg ticker pos w of
        (None, w') \<Rightarrow> (None, w')
      | (Some price, w') \<Rightarrow>
          if position_cost pos \<le> 0 then (None, w')
          else (case exit_reason x cfg ticker pos (exit_pnl_pct (xi_titles x) ticker pos price) of
                  None \<Rightarrow> (None, w')
                | Some why \<Rightarrow> (Some (price, why), w')))"

definition position_settings :: "settings \<Rightarrow> overrides \<Rightarrow> exit_inputs \<Rightarrow> string \<Rightarrow> settings" where
  "position_settings base ov x ticker =
     resolve base ov (dget (xi_category_by_ticker x) ticker) (Some (series_of (xi_titles x) ticker))"

definition opened_this_tick :: "exit_inputs \<Rightarrow> position \<Rightarrow> bool" where
  "opened_this_tick x pos = (case xi_opened_since x of None \<Rightarrow> False | Some t \<Rightarrow> po_opened_at pos \<ge> t)"

fun exit_loop ::
  "exit_inputs \<Rightarrow> settings \<Rightarrow> overrides \<Rightarrow> members \<Rightarrow> close_decision list \<Rightarrow> broker \<Rightarrow> exit_window
     \<Rightarrow> (db_error + close_decision list) \<times> broker \<times> exit_window" where
  "exit_loop x base ov [] acc b w = (Inr acc, b, w)"
| "exit_loop x base ov ((ticker, pos) # ps) acc b w =
     (let result = dget_or (xi_market_results x) ticker [] in
      if settled_side result \<noteq> None then
        (case close_if_settled (xi_titles x) (xi_stamps x ticker) ticker pos result b of
           (Inl e, b') \<Rightarrow> (Inl e, b', w)
         | (Inr None, b') \<Rightarrow> exit_loop x base ov ps acc b' w
         | (Inr (Some d), b') \<Rightarrow> exit_loop x base ov ps (acc @ [d]) b' w)
      else if opened_this_tick x pos then exit_loop x base ov ps acc b w
      else
        (case exit_decision x (position_settings base ov x ticker) ticker pos w of
           (None, w') \<Rightarrow> exit_loop x base ov ps acc b w'
         | (Some (price, why), w') \<Rightarrow>
             (case close_position (xi_titles x) (xi_stamps x ticker) ticker price why no_netting b of
                (Inl e, b') \<Rightarrow> (Inl e, b', w')
              | (Inr None, b') \<Rightarrow> exit_loop x base ov ps acc b' w'
              | (Inr (Some t), b') \<Rightarrow> exit_loop x base ov ps (acc @ [(ticker, t, why)]) b' w')))"

definition check_exits ::
  "exit_inputs \<Rightarrow> settings \<Rightarrow> overrides \<Rightarrow> broker \<Rightarrow> exit_window
     \<Rightarrow> (db_error + close_decision list) \<times> broker \<times> exit_window" where
  "check_exits x base ov b w = exit_loop x base ov (br_positions b) [] b w"

end
