(* ===== verification/ExitFacts.thy ===== *)
theory ExitFacts
  imports Exits
begin

text \<open>
  What the exit loop does with the open positions: settled markets are always closed at their
  terminal price, every other close is at a corroborated, sellable quote with a reason, the
  composite score is built from factors in [0, 1], and each window logs a fault at most once
  per ticker.
\<close>

subsection \<open>Quotes\<close>

lemma sellable_quote_Some:
  assumes "sellable_quote s bid ask crossed = Some q"
  shows "0 < q" "q < 1" "s = Yes \<Longrightarrow> bid = Some q" "s = No \<Longrightarrow> ask = Some q"
  using assms by (auto simp: sellable_quote_def split: outcome_side.splits option.splits if_splits)

lemma far_apart_self [simp]: "\<not> far_apart c c"
proof -
  have "0 \<le> PRICE_CORROBORATION_MAX_DEVIATION" unfolding PRICE_CORROBORATION_MAX_DEVIATION_def by (rule fl_nonneg) simp
  then show ?thesis by (simp add: far_apart_def)
qed

lemma trusted_bid_near:
  "corroborated_price x ticker = Some c \<Longrightarrow> \<not> far_apart (fst (trusted_bid x cfg ticker pos w)) c"
  by (simp add: trusted_bid_def Let_def)

lemma exit_quote_Some:
  assumes "exit_quote x cfg ticker pos w = (Some q, w')"
  shows "0 < q" "q < 1" "corroborated_price x ticker = Some c \<Longrightarrow> \<not> far_apart q c"
proof -
  let ?ask = "case xi_latest_asks x of None \<Rightarrow> None | Some asks \<Rightarrow> dget asks ticker"
  let ?bid = "fst (trusted_bid x cfg ticker pos w)"
  have q: "sellable_quote (po_side pos) (Some ?bid) ?ask (Some (dget (xi_latest_prices x) ticker)) = Some q"
    and no: "po_side pos = No \<Longrightarrow> corroborated_price x ticker = Some c \<Longrightarrow> \<not> far_apart q c" for c
    using assms by (auto simp: exit_quote_def Let_def split: prod.splits option.splits if_splits)
  show "0 < q" "q < 1" using sellable_quote_Some [OF q] by simp_all
  assume c: "corroborated_price x ticker = Some c"
  show "\<not> far_apart q c"
  proof (cases "po_side pos")
    case Yes
    then have "?bid = q" using sellable_quote_Some(3) [OF q] by simp
    with trusted_bid_near [OF c] show ?thesis by metis
  next
    case No
    with no c show ?thesis by simp
  qed
qed

lemma exit_decision_close:
  assumes "exit_decision x cfg ticker pos w = (Some (price, why), w')"
  shows "\<exists>w1. exit_quote x cfg ticker pos w = (Some price, w1)"
    "0 < position_cost pos"
    "exit_reason x cfg ticker pos (exit_pnl_pct (xi_titles x) ticker pos price) = Some why"
  using assms by (auto simp: exit_decision_def split: prod.splits option.splits if_splits)

subsection \<open>The loop\<close>

text \<open>What a close decision of the loop has to be, for the position held when the loop started.\<close>

definition justified_close :: "exit_inputs \<Rightarrow> settings \<Rightarrow> overrides \<Rightarrow> position \<Rightarrow> close_decision \<Rightarrow> bool" where
  "justified_close x base ov pos d \<longleftrightarrow>
     (case settled_side (dget_or (xi_market_results x) (fst d) []) of
        Some winner \<Rightarrow> tr_price (fst (snd d)) = settles winner
      | None \<Rightarrow> \<not> opened_this_tick x pos \<and> 0 < tr_price (fst (snd d)) \<and> tr_price (fst (snd d)) < 1
          \<and> (case corroborated_price x (fst d) of None \<Rightarrow> True | Some c \<Rightarrow> \<not> far_apart (tr_price (fst (snd d))) c)
          \<and> exit_reason x (position_settings base ov x (fst d)) (fst d) pos
              (exit_pnl_pct (xi_titles x) (fst d) pos (tr_price (fst (snd d)))) = Some (snd (snd d)))"

lemma close_position_Some:
  assumes "close_position tc st ticker price reason ni b = (Inr (Some t), b')"
  shows "tr_price t = price" "br_positions b' = ddel ticker (br_positions b)"
    "br_trade_log b' = br_trade_log b @ [t]"
  using assms by (auto simp: close_position_def Let_def close_trade_def split: option.splits dest!: record_trade_Inr)

lemma close_position_None:
  "close_position tc st ticker price reason ni b = (Inr None, b') \<Longrightarrow>
   b' = b \<and> dget (br_positions b) ticker = None"
  by (auto simp: close_position_def Let_def split: option.splits dest!: record_trade_Inr)

lemma close_if_settled_Some:
  assumes "close_if_settled tc st ticker pos result b = (Inr (Some d), b')"
  shows "\<exists>winner. settled_side result = Some winner \<and> fst d = ticker \<and> tr_price (fst (snd d)) = settles winner"
    "br_positions b' = ddel ticker (br_positions b)" "br_trade_log b' = br_trade_log b @ [fst (snd d)]"
  using assms
  by (auto simp: close_if_settled_def split: option.splits prod.splits sum.splits dest: close_position_Some)

lemma close_if_settled_None:
  "close_if_settled tc st ticker pos result b = (Inr None, b') \<Longrightarrow> settled_side result \<noteq> None \<Longrightarrow>
   b' = b \<and> dget (br_positions b) ticker = None"
  by (auto simp: close_if_settled_def split: option.splits prod.splits sum.splits dest: close_position_None)

lemma exit_loop_spec:
  "exit_loop x base ov ps acc b w = (Inr ds, b', w') \<Longrightarrow>
   (\<exists>new. ds = acc @ new \<and> br_trade_log b' = br_trade_log b @ map (\<lambda>d. fst (snd d)) new
      \<and> (\<forall>d \<in> set new. \<exists>pos. (fst d, pos) \<in> set ps \<and> justified_close x base ov pos d))
   \<and> (\<forall>t. dget (br_positions b) t = None \<longrightarrow> dget (br_positions b') t = None)
   \<and> (\<forall>t. t \<in> fst ` set ps \<longrightarrow> settled_side (dget_or (xi_market_results x) t []) \<noteq> None \<longrightarrow>
        dget (br_positions b') t = None)"
proof (induction ps arbitrary: acc b w)
  case Nil
  then show ?case by simp
next
  case (Cons p ps)
  obtain ticker pos where p: "p = (ticker, pos)" by (cases p)
  let ?result = "dget_or (xi_market_results x) ticker []"
  let ?spec = "\<lambda>acc b. (\<exists>new. ds = acc @ new \<and> br_trade_log b' = br_trade_log b @ map (\<lambda>d. fst (snd d)) new
      \<and> (\<forall>d \<in> set new. \<exists>pos. (fst d, pos) \<in> set ps \<and> justified_close x base ov pos d))
   \<and> (\<forall>t. dget (br_positions b) t = None \<longrightarrow> dget (br_positions b') t = None)
   \<and> (\<forall>t. t \<in> fst ` set ps \<longrightarrow> settled_side (dget_or (xi_market_results x) t []) \<noteq> None \<longrightarrow>
        dget (br_positions b') t = None)"
  have keep: ?case if "?spec acc b" "settled_side ?result \<noteq> None \<longrightarrow> dget (br_positions b) ticker = None"
  proof -
    from that(1) obtain new where new: "ds = acc @ new"
      "br_trade_log b' = br_trade_log b @ map (\<lambda>d. fst (snd d)) new"
      "\<forall>d \<in> set new. \<exists>pos. (fst d, pos) \<in> set ps \<and> justified_close x base ov pos d" by blast
    then have "\<forall>d \<in> set new. \<exists>pos. (fst d, pos) \<in> set (p # ps) \<and> justified_close x base ov pos d"
      by (meson list.set_intros(2))
    moreover have "dget (br_positions b') t = None"
      if "t \<in> fst ` set (p # ps)" "settled_side (dget_or (xi_market_results x) t []) \<noteq> None" for t
      using \<open>?spec acc b\<close> \<open>settled_side ?result \<noteq> None \<longrightarrow> dget (br_positions b) ticker = None\<close> that p by auto
    ultimately show ?case using new(1,2) that(1) by blast
  qed
  have closed: ?case
    if sp: "?spec (acc @ [d]) b1" and d: "fst d = ticker" "justified_close x base ov pos d"
      and b1: "br_positions b1 = ddel ticker (br_positions b)" "br_trade_log b1 = br_trade_log b @ [fst (snd d)]"
    for d b1
  proof -
    from sp obtain new where new: "ds = (acc @ [d]) @ new"
      "br_trade_log b' = br_trade_log b1 @ map (\<lambda>d. fst (snd d)) new"
      "\<forall>d \<in> set new. \<exists>pos. (fst d, pos) \<in> set ps \<and> justified_close x base ov pos d" by blast
    then have "ds = acc @ (d # new) \<and> br_trade_log b' = br_trade_log b @ map (\<lambda>d. fst (snd d)) (d # new)
      \<and> (\<forall>d \<in> set (d # new). \<exists>pos. (fst d, pos) \<in> set (p # ps) \<and> justified_close x base ov pos d)"
      using d b1 p by auto
    moreover have "dget (br_positions b') t = None" if "dget (br_positions b) t = None \<or> t = ticker" for t
      using sp that b1 by auto
    ultimately show ?case using sp p by auto
  qed
  show ?case
  proof (cases "settled_side ?result")
    case (Some winner)
    then have settled: "settled_side ?result \<noteq> None" by simp
    obtain r b1 where c: "close_if_settled (xi_titles x) (xi_stamps x ticker) ticker pos ?result b = (r, b1)"
      by fastforce
    obtain o' where r: "r = Inr o'" using Cons.prems c settled by (cases r) (auto simp: p)
    show ?thesis
    proof (cases o')
      case None
      with c r settled have "b1 = b" "dget (br_positions b) ticker = None"
        using close_if_settled_None by blast+
      with Cons c r settled None show ?thesis by (intro keep) (simp_all add: p)
    next
      case (Some d)
      note cs = close_if_settled_Some [OF c [unfolded r Some]]
      have "exit_loop x base ov ps (acc @ [d]) b1 w = (Inr ds, b', w')"
        using Cons.prems c r Some settled by (simp add: p)
      from Cons.IH [OF this] show ?thesis
        using cs \<open>settled_side ?result = Some winner\<close> by (intro closed) (auto simp: justified_close_def)
    qed
  next
    case None
    note unsettled = this
    show ?thesis
    proof (cases "opened_this_tick x pos")
      case True
      with Cons unsettled show ?thesis by (intro keep) (simp_all add: p)
    next
      case False
      let ?cfg = "position_settings base ov x ticker"
      obtain dec w1 where dec: "exit_decision x ?cfg ticker pos w = (dec, w1)" by fastforce
      show ?thesis
      proof (cases dec)
        case None
        with Cons unsettled False dec show ?thesis by (intro keep) (simp_all add: p)
      next
        case (Some pw)
        obtain price why where pw: "pw = (price, why)" by (cases pw)
        note ed = exit_decision_close [OF dec [unfolded Some pw]]
        obtain r b1 where c: "close_position (xi_titles x) (xi_stamps x ticker) ticker price why no_netting b = (r, b1)"
          by fastforce
        obtain o' where r: "r = Inr o'" using Cons.prems c unsettled False dec Some pw by (cases r) (auto simp: p)
        show ?thesis
        proof (cases o')
          case None
          with c r have "b1 = b" using close_position_None by blast
          with Cons c r unsettled False dec Some pw None show ?thesis by (intro keep) (simp_all add: p)
        next
          case t: (Some t)
          note cp = close_position_Some [OF c [unfolded r t]]
          from ed(1) obtain w2 where q: "exit_quote x ?cfg ticker pos w = (Some price, w2)" by blast
          have "justified_close x base ov pos (ticker, t, why)"
            using unsettled False ed(3) exit_quote_Some [OF q] cp(1)
            by (simp add: justified_close_def split: option.split)
          moreover have "exit_loop x base ov ps (acc @ [(ticker, t, why)]) b1 w1 = (Inr ds, b', w')"
            using Cons.prems c r t unsettled False dec Some pw by (simp add: p)
          note closed [OF Cons.IH [OF this]]
          ultimately show ?thesis using cp by simp
        qed
      qed
    qed
  qed
qed


subsection \<open>The fault window\<close>

text \<open>One fault per kind and ticker while the window is open.\<close>

definition window_ok :: "exit_window \<Rightarrow> bool" where
  "window_ok w \<longleftrightarrow> distinct (ew_faults w)
     \<and> (\<forall>t. (''stale_price_uncorroborated'', t) \<in> set (ew_faults w) \<longrightarrow> t \<in> set (ew_stale_logged w))
     \<and> (\<forall>t. (''unsellable_book'', t) \<in> set (ew_faults w) \<longrightarrow> t \<in> set (ew_unsellable_logged w))"

lemma window_ok_log: "window_ok w \<Longrightarrow> window_ok (log_stale t w)" "window_ok w \<Longrightarrow> window_ok (log_unsellable t w)"
  by (auto simp: window_ok_def log_stale_def log_unsellable_def)

lemma window_ok_trusted_bid: "window_ok w \<Longrightarrow> window_ok (snd (trusted_bid x cfg ticker pos w))"
  by (simp add: trusted_bid_def Let_def window_ok_log split: option.splits)

lemma window_ok_exit_quote: "window_ok w \<Longrightarrow> window_ok (snd (exit_quote x cfg ticker pos w))"
  using window_ok_trusted_bid [of w x cfg ticker pos]
  by (auto simp: exit_quote_def Let_def window_ok_log split: prod.splits option.splits)

lemma window_ok_exit_decision: "window_ok w \<Longrightarrow> window_ok (snd (exit_decision x cfg ticker pos w))"
  using window_ok_exit_quote [of w x cfg ticker pos]
  by (auto simp: exit_decision_def split: prod.splits option.splits)

lemma window_ok_exit_loop:
  "window_ok w \<Longrightarrow> window_ok (snd (snd (exit_loop x base ov ps acc b w)))"
proof (induction x base ov ps acc b w rule: exit_loop.induct)
  case (1 x base ov acc b w)
  then show ?case by simp
next
  case (2 x base ov ticker pos ps acc b w)
  have "window_ok (snd (exit_decision x (position_settings base ov x ticker) ticker pos w))"
    using "2.prems" by (rule window_ok_exit_decision)
  with 2 show ?case by (auto simp: Let_def split: prod.splits option.splits sum.splits)
qed

subsection \<open>The composite score\<close>

lemma clamp01_range [simp]: "0 \<le> clamp01 x" "clamp01 x \<le> 1"
  by (simp_all add: clamp01_def)

lemma pnl_factor_range: "0 \<le> pnl_factor x cfg ticker pnl" "pnl_factor x cfg ticker pnl \<le> 1"
  by (auto simp: pnl_factor_def Let_def min_def)

definition unit_factors :: "factor list \<Rightarrow> bool" where
  "unit_factors fs \<longleftrightarrow> (\<forall>x \<in> set fs. 0 \<le> fst (snd x) \<and> fst (snd x) \<le> 1)"

lemma unit_factors_append [simp]: "unit_factors (fs @ gs) \<longleftrightarrow> unit_factors fs \<and> unit_factors gs"
  and unit_factors_Nil [simp]: "unit_factors []"
  and unit_factors_Cons [simp]: "unit_factors ((n, f, w) # fs) \<longleftrightarrow> 0 \<le> f \<and> f \<le> 1 \<and> unit_factors fs"
  by (auto simp: unit_factors_def)

lemma unit_factors_parts:
  "unit_factors (sentiment_factors cfg pos lean)" "unit_factors (staleness_factors x cfg ticker)"
  "unit_factors (analyst_factors x cfg ticker pos)" "unit_factors (series_factors x cfg ticker)"
  by (simp_all add: sentiment_factors_def staleness_factors_def analyst_factors_def series_factors_def
      Let_def split: option.split prod.split)

lemma exit_factors_range: "unit_factors (exit_factors x cfg ticker pos pnl)"
  by (simp add: exit_factors_def unit_factors_parts pnl_factor_range)

subsection \<open>Properties\<close>


text \<open>
  The auto-exit score is a mean of bounded pressures: every factor is in [0, 1] for all
  inputs, configured references and readings, so no single reading can dominate by its size;
  and with all weights zero the score is 0.
\<close>

theorem exit_factors_bounded:
  "list_all (\<lambda>f. 0 \<le> fst (snd f) \<and> fst (snd f) \<le> 1) (snd (exit_confidence x cfg ticker pos pnl))
   \<and> (0 < py_sum (map (\<lambda>(n, f, w). w) (exit_factors x cfg ticker pos pnl))
       \<or> fst (exit_confidence x cfg ticker pos pnl) = 0)"
  using exit_factors_range [of x cfg ticker pos pnl]
  by (auto simp: exit_confidence_def Let_def unit_factors_def weighted_mean_def list_all_iff)

text \<open>
  A fault is logged once per ticker and window: from a fresh window, after any number of
  exit checks the recorded faults are pairwise different (kind and ticker).
\<close>

theorem exit_faults_once:
  "distinct (ew_faults (fold (\<lambda>(x, base, ov, b) w. snd (snd (check_exits x base ov b w))) checks
     \<lparr>ew_stale_logged = [], ew_unsellable_logged = [], ew_faults = []\<rparr>))"
proof -
  have "window_ok (fold (\<lambda>(x, base, ov, b) w. snd (snd (check_exits x base ov b w))) checks w)"
    if "window_ok w" for w
    using that
    by (induction checks arbitrary: w) (auto simp: check_exits_def window_ok_exit_loop split: prod.splits)
  from this [of "\<lparr>ew_stale_logged = [], ew_unsellable_logged = [], ew_faults = []\<rparr>"]
  show ?thesis by (simp add: window_ok_def)
qed

definition exit_example_inputs :: exit_inputs where
  "exit_example_inputs = \<lparr>xi_titles = empty_title_cache, xi_latest_prices = [(''A'', 1/2), (''B'', 1/4)],
     xi_latest_asks = None, xi_updated_at = None, xi_market_results = [(''A'', '' Yes '')],
     xi_signal_feed = [], xi_opened_since = None, xi_category_by_ticker = [], xi_close_times = [],
     xi_now = 1000, xi_score_now = 1000, xi_history = init_market_history, xi_pow_half = id,
     xi_iso_ts = (\<lambda>s. None), xi_analyst_lean = (\<lambda>t. None), xi_series_stats = (\<lambda>t. (0, None)),
     xi_stamps = (\<lambda>t. example_stamp t 1000)\<rparr>"

definition exit_example_run :: "(db_error + close_decision list) \<times> broker \<times> exit_window" where
  "exit_example_run = check_exits exit_example_inputs [] no_overrides rich_broker
     \<lparr>ew_stale_logged = [], ew_unsellable_logged = [], ew_faults = []\<rparr>"

lemma exit_example_settled: "settled_side '' Yes '' = Some Yes"
  by code_simp

lemma exit_example_holds:
  "exit_decision exit_example_inputs cfg ''B'' (example_position ''B'' Yes 10 0) w
     = (None, snd (exit_decision exit_example_inputs cfg ''B'' (example_position ''B'' Yes 10 0) w))"
  by (simp add: exit_decision_def position_cost_def unit_cost_def example_position_def flops
      split: prod.split option.split)

lemma exit_example_closes: "\<exists>d b' w'. exit_example_run = (Inr [d], b', w') \<and> fst d = ''A''"
proof -
  have unset: "settled_side [] = None" by code_simp
  have not_new: "opened_this_tick exit_example_inputs p = False" for p
    by (simp add: opened_this_tick_def exit_example_inputs_def)
  have results: "xi_market_results exit_example_inputs = [(''A'', '' Yes '')]"
    by (simp add: exit_example_inputs_def)
  obtain t b1 where c: "close_if_settled (xi_titles exit_example_inputs) (xi_stamps exit_example_inputs ''A'') ''A''
      (example_position ''A'' Yes 10 1) '' Yes '' rich_broker = (Inr (Some (''A'', t)), b1)"
    by (simp add: close_if_settled_def exit_example_settled close_position_def rich_broker_def rich_pair_def
        Let_def record_trade_def commit_trade_def close_trade_def empty_broker_db_def)
  have "exit_example_run = (Inr [(''A'', t)], b1,
      snd (exit_decision exit_example_inputs (position_settings [] no_overrides exit_example_inputs ''B'') ''B''
        (example_position ''B'' Yes 10 0) \<lparr>ew_stale_logged = [], ew_unsellable_logged = [], ew_faults = []\<rparr>))"
    unfolding exit_example_run_def check_exits_def
    by (simp add: rich_broker_def [THEN arg_cong [of _ _ br_positions]] rich_pair_def dget_or_def results
        exit_example_settled unset not_new Let_def c)
      (subst exit_example_holds, simp)
  then obtain w' where e: "exit_example_run = (Inr [(''A'', t)], b1, w')" by blast
  show ?thesis by (rule exI [of _ "(''A'', t)"], rule exI [of _ b1], rule exI [of _ w']) (simp add: e)
qed


end
