(* ===== verification/PyRepr.thy ===== *)
theory PyRepr
  imports PyValues
begin

text \<open>
  \<open>repr\<close> of a float and \<open>str\<close> of an int, which f-strings without a format spec
  use: the shortest decimal that reads back as the same float, the closest one when two of
  that length do, in fixed notation for exponents from -4 to 15.
\<close>

text \<open>The decimal exponent of a positive number; 400 steps cover the binary64 range.\<close>

fun dexp_up :: "nat \<Rightarrow> rat \<Rightarrow> int" where
  "dexp_up 0 x = 0"
| "dexp_up (Suc n) x = (if x < 10 then 0 else 1 + dexp_up n (x / 10))"

fun dexp_down :: "nat \<Rightarrow> rat \<Rightarrow> int" where
  "dexp_down 0 x = 0"
| "dexp_down (Suc n) x = (if x \<ge> 1 then 0 else dexp_down n (x * 10) - 1)"

definition dexp :: "rat \<Rightarrow> int" where
  "dexp x = (if x \<ge> 1 then dexp_up 400 x else dexp_down 400 x)"

text \<open>The \<open>n\<close>-digit neighbours of \<open>x\<close> that read back as \<open>x\<close>, the closest first.\<close>

definition repr_candidates :: "rat \<Rightarrow> int \<Rightarrow> nat \<Rightarrow> int list" where
  "repr_candidates x e n =
     (let u = 10 powi (e - int n + 1); lo = \<lfloor>x / u\<rfloor>;
          near = (if rhe (x / u) = lo then [lo, lo + 1] else [lo + 1, lo])
      in filter (\<lambda>m. fl (of_int m * u) = x) near)"

fun repr_search :: "rat \<Rightarrow> int \<Rightarrow> nat \<Rightarrow> nat \<Rightarrow> nat \<times> int" where
  "repr_search x e n 0 = (nat (rhe (x / 10 powi (e - 16))), e - 16)"
| "repr_search x e n (Suc k) =
     (case repr_candidates x e n of
        m # _ \<Rightarrow> (nat m, e - int n + 1)
      | [] \<Rightarrow> repr_search x e (Suc n) k)"

text \<open>Drop the trailing zeros of a mantissa, at most 17 of them.\<close>

fun strip_zeros :: "nat \<Rightarrow> nat \<times> int \<Rightarrow> nat \<times> int" where
  "strip_zeros 0 (m, p) = (m, p)"
| "strip_zeros (Suc n) (m, p) = (if m mod 10 = 0 then strip_zeros n (m div 10, p + 1) else (m, p))"

text \<open>Lay out the digits \<open>ds\<close> with the decimal point after the first \<open>dp\<close> of them.\<close>

definition repr_fixed :: "string \<Rightarrow> int \<Rightarrow> string" where
  "repr_fixed ds dp =
     (if dp \<le> 0 then ''0.'' @ replicate (nat (- dp)) (CHR ''0'') @ ds
      else if int (length ds) \<le> dp then ds @ replicate (nat dp - length ds) (CHR ''0'') @ ''.0''
      else take (nat dp) ds @ ''.'' @ drop (nat dp) ds)"

definition repr_sci :: "string \<Rightarrow> int \<Rightarrow> string" where
  "repr_sci ds e =
     take 1 ds @ (if length ds = 1 then [] else ''.'' @ drop 1 ds)
       @ (if e < 0 then ''e-'' else ''e+'') @ pad_zeros 2 (show_nat (nat \<bar>e\<bar>))"

definition repr_pos :: "rat \<Rightarrow> string" where
  "repr_pos x =
     (let (m, p) = strip_zeros 17 (repr_search x (dexp x) 1 17);
          ds = show_nat m; dp = int (length ds) + p
      in if - 4 < dp \<and> dp \<le> 16 then repr_fixed ds dp else repr_sci ds (dp - 1))"

definition py_repr :: "f64 \<Rightarrow> string" where
  "py_repr x = (if x = 0 then ''0.0'' else if x < 0 then ''-'' @ repr_pos (- x) else repr_pos x)"

definition str_int :: "int \<Rightarrow> string" where
  "str_int n = (if n < 0 then ''-'' @ show_nat (nat (- n)) else show_nat (nat n))"

end
