(* ===== verification/ConfigBounds.thy ===== *)
theory ConfigBounds
  imports ConfigOverrides PyRepr
begin

text \<open>
  \<open>services/config/config_bounds.py\<close>: the tradeable price range, the largest gain a
  price band allows, the report of settings no position can reach, and the clamp applied to
  tuned values. An infinite gain (unit cost at most 0) is \<open>Unbounded\<close>. A violation
  keeps its fields; the prose of its \<open>detail\<close> is not modelled.
\<close>

definition MIN_TRADEABLE_UNIT_COST :: f64 where "MIN_TRADEABLE_UNIT_COST = fl (2/100)"
definition MAX_TRADEABLE_UNIT_COST :: f64 where "MAX_TRADEABLE_UNIT_COST = fl (98/100)"
definition FEE_HEADROOM :: f64 where "FEE_HEADROOM = fl (5/100)"
definition EPS :: f64 where "EPS = fl (1 / 10^9)"

definition is_tradeable_unit_cost :: "f64 option \<Rightarrow> bool" where
  "is_tradeable_unit_cost uc =
     (case uc of None \<Rightarrow> False | Some c \<Rightarrow> MIN_TRADEABLE_UNIT_COST \<le> c \<and> c \<le> MAX_TRADEABLE_UNIT_COST)"

datatype gain = Unbounded | Gain f64

definition max_gain_fraction :: "f64 \<Rightarrow> gain" where
  "max_gain_fraction uc = (if uc \<le> 0 then Unbounded else Gain (fdiv (fsub 1 uc) uc))"

definition take_profit_ceiling :: "settings \<Rightarrow> gain option" where
  "take_profit_ceiling cfg = map_option max_gain_fraction (cfg_num cfg ''min_unit_cost'')"

definition take_profit_universal :: "settings \<Rightarrow> gain option" where
  "take_profit_universal cfg = map_option max_gain_fraction (cfg_num cfg ''max_unit_cost'')"

definition reachable_below :: "f64 \<Rightarrow> f64" where
  "reachable_below tp = fdiv 1 (fadd 1 tp)"

text \<open>\<open>x > g + eps\<close> and \<open>x <= g\<close> against a possibly infinite gain.\<close>

fun above_gain :: "f64 \<Rightarrow> gain \<Rightarrow> bool" where
  "above_gain x Unbounded = False"
| "above_gain x (Gain g) = (x > fadd g EPS)"

fun within_gain :: "f64 \<Rightarrow> gain \<Rightarrow> bool" where
  "within_gain x Unbounded = True"
| "within_gain x (Gain g) = (x \<le> g)"

datatype severity = Unreachable | Partial | Clamped
datatype shown_bound = Bound f64 | NoBound | OpenUnit

record violation =
  vi_scope :: string
  vi_field :: string
  vi_value :: f64
  vi_bound :: shown_bound
  vi_severity :: severity

definition violation_of :: "string \<Rightarrow> string \<Rightarrow> f64 \<Rightarrow> shown_bound \<Rightarrow> severity \<Rightarrow> violation" where
  "violation_of scope field v bnd sev =
     \<lparr> vi_scope = scope, vi_field = field, vi_value = v, vi_bound = bnd, vi_severity = sev \<rparr>"

fun round_gain :: "gain \<Rightarrow> shown_bound" where
  "round_gain Unbounded = NoBound"
| "round_gain (Gain g) = Bound (py_round 3 g)"

definition check_stop_loss :: "settings \<Rightarrow> string \<Rightarrow> violation list" where
  "check_stop_loss cfg scope =
     (case cfg_num cfg ''stop_loss_pct'' of None \<Rightarrow> []
      | Some sl \<Rightarrow> if sl > fadd 1 FEE_HEADROOM
          then [violation_of scope ''stop_loss_pct'' sl (Bound (py_round 3 (fadd 1 FEE_HEADROOM))) Unreachable]
          else [])"

definition check_take_profit :: "settings \<Rightarrow> string \<Rightarrow> violation list" where
  "check_take_profit cfg scope =
     (case (cfg_num cfg ''take_profit_pct'', take_profit_ceiling cfg) of
        (Some tp, Some most) \<Rightarrow>
          if above_gain tp most
          then [violation_of scope ''take_profit_pct'' tp (round_gain most) Unreachable]
          else (case take_profit_universal cfg of
                  None \<Rightarrow> []
                | Some u \<Rightarrow> if above_gain tp u
                    then [violation_of scope ''take_profit_pct'' tp (round_gain u) Partial] else [])
      | _ \<Rightarrow> [])"

definition check_kelly :: "settings \<Rightarrow> string \<Rightarrow> violation list" where
  "check_kelly cfg scope =
     (case cfg_num cfg ''kelly_fraction_of_cap'' of None \<Rightarrow> []
      | Some k \<Rightarrow>
          if k > 1 then [violation_of scope ''kelly_fraction_of_cap'' k (Bound 1) Clamped]
          else if k < 0 then [violation_of scope ''kelly_fraction_of_cap'' k (Bound 0) Unreachable]
          else [])"

definition check_band :: "settings \<Rightarrow> string \<Rightarrow> violation list" where
  "check_band cfg scope =
     (case (cfg_num cfg ''min_unit_cost'', cfg_num cfg ''max_unit_cost'') of
        (Some lo, Some hi) \<Rightarrow>
          if lo > hi then [violation_of scope ''min_unit_cost'' lo (Bound hi) Unreachable] else []
      | _ \<Rightarrow> [])"

definition check_unit_field :: "settings \<Rightarrow> string \<Rightarrow> string \<Rightarrow> violation list" where
  "check_unit_field cfg scope field =
     (case cfg_num cfg field of None \<Rightarrow> []
      | Some v \<Rightarrow> if 0 < v \<and> v < 1 then [] else [violation_of scope field v OpenUnit Unreachable])"

definition check_settings :: "settings \<Rightarrow> string \<Rightarrow> violation list" where
  "check_settings cfg scope =
     check_stop_loss cfg scope @ check_take_profit cfg scope @ check_kelly cfg scope
     @ check_band cfg scope @ check_unit_field cfg scope ''min_unit_cost''
     @ check_unit_field cfg scope ''max_unit_cost''"

definition check_all :: "settings \<Rightarrow> overrides \<Rightarrow> violation list" where
  "check_all base ov =
     check_settings base ''strategy''
     @ concat (map (\<lambda>k. check_settings (resolve base ov (Some k) None) (''category:'' @ k))
         (dkeys (tier_of ''by_category'' ov)))
     @ concat (map (\<lambda>k. check_settings (resolve base ov None (Some k)) (''series:'' @ k))
         (dkeys (tier_of ''by_series'' ov)))"

text \<open>\<open>clamp\<close>: the value, and whether it was clamped (the code's message or None).\<close>

definition clamp_ceiling :: "string \<Rightarrow> settings \<Rightarrow> gain option" where
  "clamp_ceiling field cfg =
     (if field = ''stop_loss_pct'' then Some (Gain (fadd 1 FEE_HEADROOM))
      else if field = ''take_profit_pct'' then take_profit_ceiling cfg else None)"

definition clamp :: "string \<Rightarrow> f64 \<Rightarrow> settings \<Rightarrow> f64 \<times> bool" where
  "clamp field v cfg =
     (case clamp_ceiling field cfg of
        None \<Rightarrow> (v, False)
      | Some Unbounded \<Rightarrow> (v, False)
      | Some (Gain c) \<Rightarrow> if v \<le> c then (v, False) else (py_round 3 c, True))"

text \<open>
  Clamping does not always reach. The clamp rounds the ceiling to three decimals, and rounding
  may go up: in a band whose cheapest entry costs 0.60 the largest gain is 0.6667, a
  \<open>take_profit_pct\<close> of 5 is clamped to 0.667, the report still calls that value
  unreachable, and 0.6668 is "clamped" to a larger value than it was.
\<close>

definition band_60 :: settings where
  "band_60 = [(''min_unit_cost'', JFloat (fl (6/10)))]"

theorem clamp_can_overshoot:
  "clamp ''take_profit_pct'' 5 band_60 = (fl (667/1000), True)
   \<and> check_settings (dput ''take_profit_pct'' (JFloat (fl (667/1000))) band_60) ''strategy''
       = [violation_of ''strategy'' ''take_profit_pct'' (fl (667/1000)) (Bound (fl (667/1000))) Unreachable]
   \<and> fl (6668/10000) < fst (clamp ''take_profit_pct'' (fl (6668/10000)) band_60)"
proof -
  have "clamp ''take_profit_pct'' 5 band_60 = (fl (667/1000), True)" by code_simp
  moreover have "check_settings (dput ''take_profit_pct'' (JFloat (fl (667/1000))) band_60) ''strategy''
       = [violation_of ''strategy'' ''take_profit_pct'' (fl (667/1000)) (Bound (fl (667/1000))) Unreachable]"
    by code_simp
  moreover have "fl (6668/10000) < fst (clamp ''take_profit_pct'' (fl (6668/10000)) band_60)" by code_simp
  ultimately show ?thesis by blast
qed

end
