(* ===== verification/MarketLookup.thy ===== *)
theory MarketLookup
  imports TitleCache
begin

text \<open>
  \<open>services/market_lookup.py\<close>: the close time a market is really traded against, and
  the per-ticker lookups built from the shared application state. Market objects are the
  JSON objects of Kalshi's REST payload; the parts of \<open>app_state.state\<close> read here are
  the record \<open>lookup_state\<close>.
\<close>

record lookup_state =
  ls_markets :: "msg list"
  ls_event_schedules :: "(string, msg) pdict"
  ls_event_titles :: "(string, event_row) pdict"
  ls_market_titles :: "(string, market_row) pdict"
  ls_sport_by_competition :: "(string, string) pdict"

text \<open>Python's \<open>==\<close> on JSON values: numbers, bools included, compare by value.\<close>

fun json_number :: "json \<Rightarrow> rat option" where
  "json_number (JInt n) = Some (of_int n)"
| "json_number (JFloat x) = Some x"
| "json_number (JBool b) = Some (if b then 1 else 0)"
| "json_number _ = None"

definition json_eq :: "json \<Rightarrow> json \<Rightarrow> bool" where
  "json_eq a b = (case (json_number a, json_number b) of
     (Some x, Some y) \<Rightarrow> x = y | (None, None) \<Rightarrow> a = b | _ \<Rightarrow> False)"

definition jkey :: "json \<Rightarrow> string" where
  "jkey v = (case v of JStr s \<Rightarrow> s | _ \<Rightarrow> [])"

text \<open>\<open>schedule.get("end_ts")\<close> of the market's event, when there is a schedule and it is set.\<close>

definition schedule_end :: "(string, msg) pdict \<Rightarrow> json \<Rightarrow> json option" where
  "schedule_end schedules event_ticker =
     (if \<not> truthy event_ticker then None
      else case dget schedules (jkey event_ticker) of
        None \<Rightarrow> None
      | Some sched \<Rightarrow> if sched \<noteq> [] \<and> truthy (jget sched ''end_ts'') then Some (jget sched ''end_ts'') else None)"

definition effective_close_time :: "(string, msg) pdict \<Rightarrow> msg option \<Rightarrow> json" where
  "effective_close_time schedules market =
     (case market of
        None \<Rightarrow> JNull
      | Some m \<Rightarrow>
          if m = [] then JNull
          else (let expected = jget m ''expected_expiration_time'' in
            if truthy expected \<and> \<not> json_eq expected (jget m ''close_time'') then expected
            else (case schedule_end schedules (jget m ''event_ticker'') of
                    Some e \<Rightarrow> e
                  | None \<Rightarrow>
                      if truthy (jget m ''occurrence_datetime'') then jget m ''occurrence_datetime''
                      else jget m ''close_time'')))"

fun close_times :: "(string, msg) pdict \<Rightarrow> msg list \<Rightarrow> (string, json) pdict \<Rightarrow> (string, json) pdict" where
  "close_times schedules [] acc = acc"
| "close_times schedules (m # ms) acc =
     close_times schedules ms
       (let ticker = jget m ''ticker''; ect = effective_close_time schedules (Some m) in
        if truthy ticker \<and> truthy ect then dput (jkey ticker) ect acc else acc)"

definition close_time_by_ticker :: "lookup_state \<Rightarrow> (string, json) pdict" where
  "close_time_by_ticker s = close_times (ls_event_schedules s) (ls_markets s) []"

text \<open>A dictionary comprehension over the market titles that have an event.\<close>

definition by_linked_event ::
  "((string, event_row) pdict \<Rightarrow> string \<Rightarrow> 'a) \<Rightarrow> lookup_state \<Rightarrow> (string, 'a) pdict" where
  "by_linked_event f s =
     concat (map (\<lambda>(t, r). case nonempty (mr_event_ticker r) of
         None \<Rightarrow> [] | Some e \<Rightarrow> [(t, f (ls_event_titles s) e)]) (ls_market_titles s))"

definition category_by_ticker :: "lookup_state \<Rightarrow> (string, string option) pdict" where
  "category_by_ticker = by_linked_event
     (\<lambda>events e. case dget events e of None \<Rightarrow> None | Some r \<Rightarrow> er_category r)"

definition sport_for_event :: "(string, string) pdict \<Rightarrow> string option \<Rightarrow> string option" where
  "sport_for_event sports competition =
     (case nonempty competition of None \<Rightarrow> None | Some c \<Rightarrow> Some (dget_or sports c c))"

definition subcategory_by_ticker :: "lookup_state \<Rightarrow> (string, string option) pdict" where
  "subcategory_by_ticker s = by_linked_event
     (\<lambda>events e. sport_for_event (ls_sport_by_competition s)
        (case dget events e of None \<Rightarrow> None | Some r \<Rightarrow> er_competition r)) s"

end
