(* ===== verification/Strategy.thy ===== *)
theory Strategy
  imports ConfigBounds MarketLookup Exits
begin

text \<open>
  \<open>services/strategy_engine.py\<close>: the follow-the-whale entry decision. \<open>evaluate\<close> is the
  chain of gates of \<open>FollowTheWhaleStrategy.evaluate\<close> in the code's order, on the account, the risk manager
  and the module's own state; \<open>validate_pending_fill\<close> is the re-check of a resting order.
  Readings of modules modelled elsewhere or not at all (series statistics, fee type of a
  series, calibrated delta) are fields of \<open>entry_env\<close>. A refusal is kept as the gate that made it
  and its numbers rather than as prose; sides are parsed; one clock reading serves a call.
\<close>

subsection \<open>Data\<close>

record whale_signal =
  ws_id :: string
  ws_ticker :: string
  ws_side :: outcome_side
  ws_size :: int
  ws_price :: f64
  ws_confidence :: f64
  ws_timestamp :: f64
  ws_factors :: json
  ws_raw_context :: json
  ws_close_time :: json

record entry_env =
  en_titles :: title_cache
  en_history :: market_history
  en_iso_ts :: "string \<Rightarrow> f64 option"
  en_now :: f64
  en_schedules :: "(string, msg) pdict"
  en_series_stats :: "string \<Rightarrow> int \<times> f64 option"
  en_fee_type :: "string \<Rightarrow> string option"
  en_delta :: "string option \<Rightarrow> f64 \<Rightarrow> f64"
  en_stamp :: stamp

text \<open>The module's own state: the mutual-exclusivity counters, faults, and the rejections logged.\<close>

record rejection =
  rj_ticker :: string
  rj_gate :: string
  rj_observed :: "f64 option"
  rj_threshold :: "f64 option"
  rj_side :: outcome_side
  rj_unit_cost :: f64

record strategy_state =
  sg_me_unknown_total :: nat
  sg_me_unknown_logged :: "string list"
  sg_faults :: "(string \<times> string) list"
  sg_rejections :: "rejection list"

definition init_strategy_state :: strategy_state where
  "init_strategy_state =
     \<lparr>sg_me_unknown_total = 0, sg_me_unknown_logged = [], sg_faults = [], sg_rejections = []\<rparr>"

definition reset_me_window :: "strategy_state \<Rightarrow> strategy_state" where
  "reset_me_window s = s\<lparr> sg_me_unknown_logged := [] \<rparr>"

definition record_me_gate_unknown :: "string \<Rightarrow> string option \<Rightarrow> string \<Rightarrow> strategy_state \<Rightarrow> strategy_state" where
  "record_me_gate_unknown ticker event_ticker operation s =
     (let s1 = s\<lparr> sg_me_unknown_total := sg_me_unknown_total s + 1 \<rparr>;
          key = (case nonempty event_ticker of Some e \<Rightarrow> e | None \<Rightarrow> ticker)
      in if key \<in> set (sg_me_unknown_logged s1) then s1
         else s1\<lparr> sg_me_unknown_logged := key # sg_me_unknown_logged s1,
                  sg_faults := sg_faults s1 @ [(operation, ticker)] \<rparr>)"

definition reject :: "rejection \<Rightarrow> strategy_state \<Rightarrow> strategy_state" where
  "reject r s = s\<lparr> sg_rejections := sg_rejections s @ [r] \<rparr>"

subsection \<open>Size and threshold\<close>

definition open_position_count_in_series :: "title_cache \<Rightarrow> broker \<Rightarrow> string \<Rightarrow> nat" where
  "open_position_count_in_series tc b ticker =
     length (filter (\<lambda>t. series_of tc t = series_of tc ticker) (dkeys (br_positions b)))"

definition kelly_scaled_max_size :: "f64 \<Rightarrow> f64 \<Rightarrow> f64 \<Rightarrow> f64 option \<Rightarrow> f64" where
  "kelly_scaled_max_size max_size confidence effective_threshold kelly_fraction =
     (case kelly_fraction of
        None \<Rightarrow> max_size
      | Some k \<Rightarrow>
          if k \<le> 0 \<or> effective_threshold \<ge> 1 then max_size
          else (let raw_scale = min 1 (max 0 (fdiv (fsub confidence effective_threshold) (fsub 1 effective_threshold)))
                in fmul max_size (fsub 1 (fmul (min 1 k) (fsub 1 raw_scale)))))"

definition effective_entry_threshold :: "settings \<Rightarrow> f64 \<Rightarrow> f64 \<Rightarrow> bool \<Rightarrow> f64 option \<Rightarrow> f64 \<times> bool" where
  "effective_entry_threshold cfg base price is_live secs =
     (let zone = cfg_num_or cfg ''longshot_price_threshold'' (fl (15/100));
          bonus = cfg_num_or cfg ''longshot_entry_threshold_bonus'' (fl (15/100));
          window = cfg_num_or cfg ''longshot_close_window_sec'' 900;
          is_longshot = (price \<le> zone \<or> price \<ge> fsub 1 zone);
          near = (case secs of None \<Rightarrow> False | Some x \<Rightarrow> x \<le> window);
          bonus' = (if is_longshot \<and> (is_live \<or> near) then 0 else bonus)
      in (fadd base (if is_longshot then bonus' else 0), is_longshot))"

subsection \<open>The price gates\<close>

record edge_detail =
  ed_p_est :: f64
  ed_q_pre :: f64
  ed_delta :: f64
  ed_edge :: f64
  ed_min_edge :: f64

record entry_validation =
  va_ok :: bool
  va_gate_name :: "string option"
  va_observed :: "f64 option"
  va_threshold :: "f64 option"
  va_edge_gate_detail :: "edge_detail option"

definition passed :: "edge_detail option \<Rightarrow> entry_validation" where
  "passed d = \<lparr>va_ok = True, va_gate_name = None, va_observed = None, va_threshold = None, va_edge_gate_detail = d\<rparr>"

definition refused :: "string \<Rightarrow> f64 \<Rightarrow> f64 \<Rightarrow> edge_detail option \<Rightarrow> entry_validation" where
  "refused gate observed threshold d =
     \<lparr>va_ok = False, va_gate_name = Some gate, va_observed = Some observed, va_threshold = Some threshold,
      va_edge_gate_detail = d\<rparr>"

definition micro :: f64 where "micro = fl (1 / 10^6)"

definition edge_gate_check ::
  "entry_env \<Rightarrow> outcome_side \<Rightarrow> f64 \<Rightarrow> string \<Rightarrow> string option \<Rightarrow> f64 \<Rightarrow> settings
     \<Rightarrow> (bool \<times> edge_detail) option" where
  "edge_gate_check en side price ticker category as_of cfg =
     (if en_fee_type en (series_of (en_titles en) ticker) = Some ''flat'' then None
      else case recent_price ticker (cfg_num_or cfg ''edge_gate_p_pre_max_age_sec'' 600)
                  (fsub as_of (cfg_num_or cfg ''edge_gate_pre_print_offset_sec'' 10)) (en_history en) of
        None \<Rightarrow> None
      | Some p_pre \<Rightarrow>
          (let q_pre = unit_cost side p_pre;
               delta = en_delta en category q_pre;
               p_est = min (max (fadd q_pre delta) micro) (fsub 1 micro);
               ask = unit_cost side price;
               fee = fadd (taker_fee_per_contract (en_titles en) price (Some ticker))
                       (cfg_num_or cfg ''edge_gate_fee_buffer_usd'' (fl (5/1000)));
               edge = fsub (fsub p_est ask) fee;
               min_edge = cfg_num_or cfg ''edge_gate_min_edge'' (fl (4/100));
               d = \<lparr>ed_p_est = p_est, ed_q_pre = q_pre, ed_delta = delta, ed_edge = edge, ed_min_edge = min_edge\<rparr>
           in Some (edge \<ge> min_edge, d)))"

definition edge_gate_applied ::
  "entry_env \<Rightarrow> outcome_side \<Rightarrow> f64 \<Rightarrow> string option \<Rightarrow> string option \<Rightarrow> f64 \<Rightarrow> settings \<Rightarrow> entry_validation" where
  "edge_gate_applied en side price ticker category as_of cfg =
     (case ticker of
        None \<Rightarrow> passed None
      | Some t \<Rightarrow>
          if \<not> cfg_flag cfg ''edge_gate_enabled'' then passed None
          else (case edge_gate_check en side price t category as_of cfg of
                  None \<Rightarrow> passed None
                | Some (ok, d) \<Rightarrow>
                    if ok then passed (Some d)
                    else refused ''edge_gate'' (ed_edge d) (ed_min_edge d) (Some d)))"

definition band_refusal :: "settings \<Rightarrow> f64 \<Rightarrow> entry_validation option" where
  "band_refusal cfg uc =
     (case cfg_num cfg ''min_unit_cost'' of
        Some lo \<Rightarrow> if uc < lo then Some (refused ''min_unit_cost'' uc lo None) else None
      | None \<Rightarrow> None)"

definition band_refusal_above :: "settings \<Rightarrow> f64 \<Rightarrow> entry_validation option" where
  "band_refusal_above cfg uc =
     (case cfg_num cfg ''max_unit_cost'' of
        Some hi \<Rightarrow> if uc > hi then Some (refused ''max_unit_cost'' uc hi None) else None
      | None \<Rightarrow> None)"

definition validate_entry_price ::
  "entry_env \<Rightarrow> outcome_side \<Rightarrow> f64 \<Rightarrow> f64 \<Rightarrow> f64 \<Rightarrow> settings \<Rightarrow> string option \<Rightarrow> string option \<Rightarrow> f64
     \<Rightarrow> entry_validation" where
  "validate_entry_price en side price confidence effective_threshold cfg ticker category as_of =
     (if confidence < effective_threshold
      then refused ''entry_threshold'' confidence effective_threshold None
      else let uc = unit_cost side price in
        if \<not> is_tradeable_unit_cost (Some uc)
        then refused ''tradeable_price_range'' uc MIN_TRADEABLE_UNIT_COST None
        else (case band_refusal cfg uc of Some v \<Rightarrow> v
          | None \<Rightarrow> (case band_refusal_above cfg uc of Some v \<Rightarrow> v
              | None \<Rightarrow> edge_gate_applied en side price ticker category as_of cfg)))"

subsection \<open>The gates before the price\<close>

datatype skip_reason =
    HaltedSkip "string option"
  | AlreadyResolved
  | NotLive
  | OutsideCloseWindow
  | NoRunway f64 f64
  | SpecialMarketGrace
  | SeriesExcluded string
  | OutsideWatchlist string
  | LowWinRate f64 f64
  | PositionOpen
  | ComplementHeld string
  | PriceRefused "string option"
  | SeriesFull f64
  | CooldownActive
  | RoundsToZero
  | OrderResting
  | ExposureCapped

text \<open>Everything one call of \<open>evaluate\<close> is given besides the signal and the configuration.\<close>

record market_context =
  mx_is_live :: bool
  mx_market_results :: "(string, string) pdict"
  mx_config_fingerprint :: "string option"
  mx_latest_prices :: "(string, f64) pdict"
  mx_category :: "string option"
  mx_me_complement :: "string option"
  mx_market_titles :: "(string, market_row) pdict"
  mx_event_titles :: "(string, event_row) pdict"
  mx_markets :: "msg list option"

definition rejection_of :: "whale_signal \<Rightarrow> string \<Rightarrow> f64 option \<Rightarrow> f64 option \<Rightarrow> rejection" where
  "rejection_of sig gate observed threshold =
     \<lparr>rj_ticker = ws_ticker sig, rj_gate = gate, rj_observed = observed, rj_threshold = threshold,
      rj_side = ws_side sig, rj_unit_cost = unit_cost (ws_side sig) (ws_price sig)\<rparr>"

definition this_market :: "market_context \<Rightarrow> string \<Rightarrow> msg option" where
  "this_market mx ticker =
     (case mx_markets mx of None \<Rightarrow> None | Some ms \<Rightarrow> find (\<lambda>m. jget m ''ticker'' = JStr ticker) ms)"

definition signal_seconds_to_close :: "entry_env \<Rightarrow> market_context \<Rightarrow> whale_signal \<Rightarrow> f64 option" where
  "signal_seconds_to_close en mx sig =
     seconds_to_close (en_iso_ts en)
       (jor (effective_close_time (en_schedules en) (this_market mx (ws_ticker sig))) (ws_close_time sig))
       (en_now en)"

text \<open>A gate answers a reason to skip, or None to go on, and may log a rejection.\<close>

type_synonym gate = "skip_reason option \<times> strategy_state"

definition timing_gate ::
  "market_context \<Rightarrow> settings \<Rightarrow> whale_signal \<Rightarrow> f64 option \<Rightarrow> strategy_state \<Rightarrow> gate" where
  "timing_gate mx cfg sig secs st =
     (let window = cfg_num_or cfg ''close_window_sec'' 7200;
          runway = cfg_num_or cfg ''min_seconds_to_close'' 0 in
      if settled_side (dget_or (mx_market_results mx) (ws_ticker sig) []) \<noteq> None then (Some AlreadyResolved, st)
      else if cfg_flag cfg ''live_markets_only'' \<and> \<not> mx_is_live mx then (Some NotLive, st)
      else case secs of
        None \<Rightarrow> (None, st)
      | Some s \<Rightarrow>
          if mx_is_live mx then (None, st)
          else if \<not> (0 < s \<and> s \<le> window)
          then (Some OutsideCloseWindow, reject (rejection_of sig ''close_window'' (Some s) (Some window)) st)
          else if runway \<noteq> 0 \<and> s < runway
          then (Some (NoRunway s runway),
                reject (rejection_of sig ''min_seconds_to_close'' (Some s) (Some runway)) st)
          else (None, st))"

text \<open>
  The mutual-exclusivity look-up fails open: a ticker without a title row, without an event,
  or with an event whose titles are unknown is counted (and logged once), and goes on as not
  special.
\<close>

definition me_lookup_unknown :: "market_context \<Rightarrow> string \<Rightarrow> bool \<times> string option" where
  "me_lookup_unknown mx ticker =
     (case dget (mx_market_titles mx) ticker of
        None \<Rightarrow> (True, None)
      | Some r \<Rightarrow>
          (case nonempty (mr_event_ticker r) of
             None \<Rightarrow> (True, mr_event_ticker r)
           | Some e \<Rightarrow> (e \<notin> set (dkeys (mx_event_titles mx)), Some e)))"

definition is_special_market :: "market_context \<Rightarrow> string \<Rightarrow> string option \<Rightarrow> bool" where
  "is_special_market mx ticker et =
     (let ev = (case et of None \<Rightarrow> None | Some e \<Rightarrow> dget (mx_event_titles mx) e);
          early = (case this_market mx ticker of None \<Rightarrow> False | Some m \<Rightarrow> truthy (jget m ''can_close_early''))
      in early
         \<or> (case ev of None \<Rightarrow> False | Some r \<Rightarrow> nonempty (er_collateral_return_type r) \<noteq> None)
         \<or> (case ev of None \<Rightarrow> False | Some r \<Rightarrow> er_mutually_exclusive r = Some True))"

definition special_market_gate ::
  "market_context \<Rightarrow> settings \<Rightarrow> whale_signal \<Rightarrow> f64 option \<Rightarrow> strategy_state \<Rightarrow> gate" where
  "special_market_gate mx cfg sig secs st =
     (let (unknown, et) = me_lookup_unknown mx (ws_ticker sig);
          st' = (if unknown then record_me_gate_unknown (ws_ticker sig) et ''me_gate_unknown'' st else st);
          grace = cfg_num_or cfg ''special_market_min_seconds_to_close'' 300
      in if is_special_market mx (ws_ticker sig) et \<and> \<not> mx_is_live mx
         then (case secs of
                 None \<Rightarrow> (None, st')
               | Some s \<Rightarrow>
                   if s < grace
                   then (Some SpecialMarketGrace,
                         reject (rejection_of sig ''special_market_gate'' (Some s) (Some grace)) st')
                   else (None, st'))
         else (None, st'))"

text \<open>\<open>x in (cfg.get(k) or [])\<close>\<close>

definition listed :: "json \<Rightarrow> string \<Rightarrow> bool" where
  "listed v s = (case v of JArr xs \<Rightarrow> JStr s \<in> set xs | JStr t \<Rightarrow> contains_str s t | _ \<Rightarrow> False)"

definition watchlist_gate ::
  "entry_env \<Rightarrow> market_context \<Rightarrow> settings \<Rightarrow> settings option \<Rightarrow> whale_signal \<Rightarrow> skip_reason option" where
  "watchlist_gate en mx cfg kalshi_cfg sig =
     (let series = series_of (en_titles en) (ws_ticker sig) in
      if truthy (jget cfg ''excluded_series'') \<and> listed (jget cfg ''excluded_series'') series
      then Some (SeriesExcluded series)
      else case kalshi_cfg of
        None \<Rightarrow> None
      | Some kc \<Rightarrow>
          if mx_markets mx \<noteq> None \<and> this_market mx (ws_ticker sig) = None
             \<and> \<not> (case jget kc ''markets_watchlist'' of JArr xs \<Rightarrow> JStr series \<in> set xs | _ \<Rightarrow> False)
          then Some (OutsideWatchlist (ws_ticker sig)) else None)"

definition winrate_gate :: "entry_env \<Rightarrow> settings \<Rightarrow> whale_signal \<Rightarrow> strategy_state \<Rightarrow> gate" where
  "winrate_gate en cfg sig st =
     (let (resolved, win_rate) = en_series_stats en (ws_ticker sig);
          min_winrate = cfg_num_or cfg ''min_whale_winrate_pct'' 40 in
      case win_rate of
        None \<Rightarrow> (None, st)
      | Some w \<Rightarrow>
          if fint resolved \<ge> cfg_num_or cfg ''min_resolved_for_whale_filter'' 5 \<and> w < min_winrate
          then (Some (LowWinRate w min_winrate),
                reject (rejection_of sig ''min_whale_winrate_pct'' (Some w) (Some min_winrate)) st)
          else (None, st))"

definition holding_gate :: "market_context \<Rightarrow> broker \<Rightarrow> whale_signal \<Rightarrow> strategy_state \<Rightarrow> gate" where
  "holding_gate mx b sig st =
     (if ws_ticker sig \<in> set (dkeys (br_positions b)) then (Some PositionOpen, st)
      else case nonempty (mx_me_complement mx) of
        None \<Rightarrow> (None, st)
      | Some c \<Rightarrow>
          if c \<in> set (dkeys (br_positions b))
          then (Some (ComplementHeld c),
                reject (rejection_of sig ''mutually_exclusive_duplicate'' (Some 1) (Some 0)) st)
          else (None, st))"

definition series_cap_gate :: "entry_env \<Rightarrow> settings \<Rightarrow> broker \<Rightarrow> whale_signal \<Rightarrow> skip_reason option" where
  "series_cap_gate en cfg b sig =
     (let cap = cfg_num_or cfg ''max_open_positions_per_series'' 0 in
      if cap \<noteq> 0 \<and> fint (int (open_position_count_in_series (en_titles en) b (ws_ticker sig))) \<ge> cap
      then Some (SeriesFull cap) else None)"

subsection \<open>The decision\<close>

datatype strategy_error = KeyError string | StoreError db_error

datatype decision =
    Skip skip_reason
  | LimitPlaced pending_order "edge_detail option"
  | Traded trade "edge_detail option"

type_synonym strategy_world = "broker \<times> risk \<times> strategy_state"

definition entry_reason :: "whale_signal \<Rightarrow> string" where
  "entry_reason sig = ''whale print '' @ str_int (ws_size sig) @ '' @ '' @ py_repr (ws_price sig)
     @ '' (conf '' @ py_repr (ws_confidence sig) @ '')''"

definition sized_contracts :: "settings \<Rightarrow> f64 \<Rightarrow> f64 \<Rightarrow> whale_signal \<Rightarrow> f64 \<Rightarrow> int" where
  "sized_contracts cfg bankroll pct sig thr =
     actual_size
       (kelly_scaled_max_size (max_trade_size bankroll pct) (ws_confidence sig) thr
          (Some (cfg_num_or cfg ''kelly_fraction_of_cap'' 0)))
       (unit_cost (ws_side sig) (ws_price sig))"

definition resting_order ::
  "entry_env \<Rightarrow> market_context \<Rightarrow> settings \<Rightarrow> whale_signal \<Rightarrow> int \<Rightarrow> pending_order" where
  "resting_order en mx cfg sig n =
     \<lparr>pn_ticker = ws_ticker sig, pn_side = ws_side sig, pn_size = n, pn_limit_price = ws_price sig,
      pn_placed_at = en_now en,
      pn_expires_at = fadd (en_now en) (cfg_num_or cfg ''limit_order_timeout_sec'' 60),
      pn_reason = entry_reason sig, pn_config_fingerprint = mx_config_fingerprint mx,
      pn_signal_seen_at = Some (ws_timestamp sig), pn_confidence = Some (ws_confidence sig)\<rparr>"

text \<open>The last part: rest a limit order, or open the position at once.\<close>

definition enter_position ::
  "entry_env \<Rightarrow> market_context \<Rightarrow> settings \<Rightarrow> whale_signal \<Rightarrow> int \<Rightarrow> edge_detail option \<Rightarrow> strategy_world
     \<Rightarrow> (strategy_error + decision) \<times> strategy_world" where
  "enter_position en mx cfg sig n detail w =
     (case w of (b, r, st) \<Rightarrow>
        if cfg_flag cfg ''use_limit_orders'' then
          (case place_limit_order (resting_order en mx cfg sig n) b of
             (None, b') \<Rightarrow> (Inr (Skip OrderResting), b', r, st)
           | (Some order, b') \<Rightarrow> (Inr (LimitPlaced order detail), b', r, st))
        else
          (case open_position (taker_fee (en_titles en)) (Some r) (en_stamp en) (ws_ticker sig) (ws_side sig)
                  n (ws_price sig) (entry_reason sig) (mx_config_fingerprint mx)
                  (Some (ws_timestamp sig)) False b of
             (Inl e, b') \<Rightarrow> (Inl (StoreError e), b', r, st)
           | (Inr None, b') \<Rightarrow>
               (Inr (Skip (if rk_halted r then HaltedSkip (rk_halt_reason r) else ExposureCapped)), b', r, st)
           | (Inr (Some t), b') \<Rightarrow> (Inr (Traded t detail), b', r, st)))"

text \<open>From the cooldown on: the size, and the entry.\<close>

definition size_and_enter ::
  "entry_env \<Rightarrow> market_context \<Rightarrow> settings \<Rightarrow> whale_signal \<Rightarrow> f64 \<Rightarrow> edge_detail option \<Rightarrow> strategy_world
     \<Rightarrow> (strategy_error + decision) \<times> strategy_world" where
  "size_and_enter en mx cfg sig thr detail w =
     (case cfg_num cfg ''cooldown_sec'' of
        None \<Rightarrow> (Inl (KeyError ''cooldown_sec''), w)
      | Some cooldown \<Rightarrow>
          if \<not> can_trade (en_now en) (ws_ticker sig) cooldown (fst w) then (Inr (Skip CooldownActive), w)
          else (case cfg_num cfg ''max_position_pct'' of
              None \<Rightarrow> (Inl (KeyError ''max_position_pct''), w)
            | Some pct \<Rightarrow>
                (let n = sized_contracts cfg (br_bankroll (fst w)) pct sig thr in
                 if n \<le> 0 then (Inr (Skip RoundsToZero), w)
                 else enter_position en mx cfg sig n detail w)))"

text \<open>The price gates, then the series cap.\<close>

definition price_and_enter ::
  "entry_env \<Rightarrow> market_context \<Rightarrow> settings \<Rightarrow> whale_signal \<Rightarrow> f64 \<Rightarrow> strategy_world
     \<Rightarrow> (strategy_error + decision) \<times> strategy_world" where
  "price_and_enter en mx cfg sig thr w =
     (case w of (b, r, st) \<Rightarrow>
        let v = validate_entry_price en (ws_side sig) (ws_price sig) (ws_confidence sig) thr cfg
                  (Some (ws_ticker sig)) (mx_category mx) (ws_timestamp sig)
        in if \<not> va_ok v
           then (Inr (Skip (PriceRefused (va_gate_name v))), b, r,
                 reject (rejection_of sig (case va_gate_name v of Some g \<Rightarrow> g | None \<Rightarrow> [])
                   (va_observed v) (va_threshold v)) st)
           else (case series_cap_gate en cfg b sig of
               Some why \<Rightarrow> (Inr (Skip why), w)
             | None \<Rightarrow> size_and_enter en mx cfg sig thr (va_edge_gate_detail v) w))"

text \<open>The gates on what the account holds and on the series' record, with the threshold read between.\<close>

definition record_and_enter ::
  "entry_env \<Rightarrow> market_context \<Rightarrow> settings \<Rightarrow> whale_signal \<Rightarrow> f64 option \<Rightarrow> strategy_world
     \<Rightarrow> (strategy_error + decision) \<times> strategy_world" where
  "record_and_enter en mx cfg sig secs w =
     (case w of (b, r, st) \<Rightarrow>
        case cfg_num cfg ''entry_threshold'' of
          None \<Rightarrow> (Inl (KeyError ''entry_threshold''), w)
        | Some base \<Rightarrow>
            (case winrate_gate en cfg sig st of
               (Some why, st') \<Rightarrow> (Inr (Skip why), b, r, st')
             | (None, st') \<Rightarrow>
                 (case holding_gate mx b sig st' of
                    (Some why, st'') \<Rightarrow> (Inr (Skip why), b, r, st'')
                  | (None, st'') \<Rightarrow>
                      price_and_enter en mx cfg sig
                        (fst (effective_entry_threshold cfg base (ws_price sig) (mx_is_live mx) secs))
                        (b, r, st''))))"

definition entry_settings :: "entry_env \<Rightarrow> settings \<Rightarrow> overrides \<Rightarrow> string option \<Rightarrow> string \<Rightarrow> settings" where
  "entry_settings en base ov category ticker =
     resolve base ov category (Some (series_of (en_titles en) ticker))"

definition evaluate ::
  "entry_env \<Rightarrow> settings \<Rightarrow> overrides \<Rightarrow> settings option \<Rightarrow> market_context \<Rightarrow> whale_signal \<Rightarrow> strategy_world
     \<Rightarrow> (strategy_error + decision) \<times> strategy_world" where
  "evaluate en base ov kalshi_cfg mx sig w =
     (case w of (b, r, st) \<Rightarrow>
        let cfg = entry_settings en base ov (mx_category mx) (ws_ticker sig);
            (ok, r') = check_daily_loss (equity b (mx_latest_prices mx)) (en_now en) r;
            secs = signal_seconds_to_close en mx sig
        in if \<not> ok then (Inr (Skip (HaltedSkip (rk_halt_reason r'))), b, r', st)
           else (case timing_gate mx cfg sig secs st of
               (Some why, st1) \<Rightarrow> (Inr (Skip why), b, r', st1)
             | (None, st1) \<Rightarrow>
                 (case special_market_gate mx cfg sig secs st1 of
                    (Some why, st2) \<Rightarrow> (Inr (Skip why), b, r', st2)
                  | (None, st2) \<Rightarrow>
                      (case watchlist_gate en mx cfg kalshi_cfg sig of
                         Some why \<Rightarrow> (Inr (Skip why), b, r', st2)
                       | None \<Rightarrow> record_and_enter en mx cfg sig secs (b, r', st2)))))"

subsection \<open>The re-check of a resting order\<close>

definition fill_validation ::
  "entry_env \<Rightarrow> settings \<Rightarrow> overrides \<Rightarrow> string option \<Rightarrow> bool \<Rightarrow> f64 option \<Rightarrow> string \<Rightarrow> outcome_side \<Rightarrow> f64
     \<Rightarrow> f64 option \<Rightarrow> strategy_error + entry_validation" where
  "fill_validation en base ov category is_live secs ticker side price confidence =
     (let cfg = entry_settings en base ov category ticker in
      case cfg_num cfg ''entry_threshold'' of
        None \<Rightarrow> Inl (KeyError ''entry_threshold'')
      | Some base_thr \<Rightarrow>
          Inr (validate_entry_price en side price (case confidence of None \<Rightarrow> 0 | Some c \<Rightarrow> c)
            (fst (effective_entry_threshold cfg base_thr price is_live secs)) cfg
            (Some ticker) category (en_now en)))"

definition validate_pending_fill ::
  "entry_env \<Rightarrow> settings \<Rightarrow> overrides \<Rightarrow> string option \<Rightarrow> bool \<Rightarrow> f64 option \<Rightarrow> string \<Rightarrow> outcome_side \<Rightarrow> f64
     \<Rightarrow> f64 option \<Rightarrow> strategy_state \<Rightarrow> (strategy_error + bool \<times> string option) \<times> strategy_state" where
  "validate_pending_fill en base ov category is_live secs ticker side price confidence st =
     (case fill_validation en base ov category is_live secs ticker side price confidence of
        Inl e \<Rightarrow> (Inl e, st)
      | Inr v \<Rightarrow>
          (Inr (va_ok v, va_gate_name v),
           if va_ok v then st
           else reject \<lparr>rj_ticker = ticker, rj_gate = (case va_gate_name v of Some g \<Rightarrow> g | None \<Rightarrow> []),
                  rj_observed = va_observed v, rj_threshold = va_threshold v, rj_side = side,
                  rj_unit_cost = unit_cost side price\<rparr> st))"

end
