(* ===== verification/StrategyFacts.thy ===== *)
theory StrategyFacts
  imports Strategy
begin

text \<open>
  What the entry decision guarantees: an entry has passed every gate, a refusal leaves the
  account as it was, the confidence scaling never enlarges a position, the contracts sized stay
  within the position cap, and a resting order is re-checked by the rule that placed it.
\<close>

subsection \<open>Size\<close>

definition raw_scale :: "f64 \<Rightarrow> f64 \<Rightarrow> f64" where
  "raw_scale confidence thr = min 1 (max 0 (fdiv (fsub confidence thr) (fsub 1 thr)))"

lemma raw_scale_range: "0 \<le> raw_scale c t" "raw_scale c t \<le> 1"
  by (simp_all add: raw_scale_def)

lemma raw_scale_mono: "c \<le> c' \<Longrightarrow> t \<le> 1 \<Longrightarrow> raw_scale c t \<le> raw_scale c' t"
proof -
  assume le: "c \<le> c'" and t: "t \<le> 1"
  have "0 \<le> fsub 1 t" using t by (simp add: fsub_def b64.rnd_nonneg)
  then have "fdiv (fsub c t) (fsub 1 t) \<le> fdiv (fsub c' t) (fsub 1 t)"
    unfolding fdiv_def by (intro fl_mono divide_right_mono fsub_mono le order_refl)
  then show ?thesis unfolding raw_scale_def by (intro min.mono max.mono) simp_all
qed

definition kelly_scale :: "f64 \<Rightarrow> f64 \<Rightarrow> f64" where
  "kelly_scale k raw = fsub 1 (fmul (min 1 k) (fsub 1 raw))"

lemma kelly_scale_range:
  assumes "0 < k" "0 \<le> raw" "raw \<le> 1"
  shows "0 \<le> kelly_scale k raw" "kelly_scale k raw \<le> 1"
proof -
  have r: "0 \<le> fsub 1 raw" "fsub 1 raw \<le> 1"
    using b64.rnd_complement [of raw] assms by (simp_all add: fsub_def)
  have m: "0 \<le> min 1 k" "min 1 k \<le> 1" using assms by simp_all
  have "fmul (min 1 k) (fsub 1 raw) \<le> fmul 1 1"
    using m r by (intro fmul_mono) simp_all
  then have p: "0 \<le> fmul (min 1 k) (fsub 1 raw)" "fmul (min 1 k) (fsub 1 raw) \<le> 1"
    using m r by (auto simp: fmul_def [of 1 1])
  show "0 \<le> kelly_scale k raw" "kelly_scale k raw \<le> 1"
    using b64.rnd_complement [of "fmul (min 1 k) (fsub 1 raw)"] p by (simp_all add: kelly_scale_def fsub_def)
qed

lemma kelly_scale_mono:
  assumes "0 < k" "raw \<le> raw'" "raw' \<le> 1"
  shows "kelly_scale k raw \<le> kelly_scale k raw'"
proof -
  have "0 \<le> fsub 1 raw'" using assms by (simp add: fsub_def b64.rnd_nonneg)
  moreover have "fsub 1 raw' \<le> fsub 1 raw" using assms by (intro fsub_mono) simp_all
  ultimately have "fmul (min 1 k) (fsub 1 raw') \<le> fmul (min 1 k) (fsub 1 raw)"
    using assms by (intro fmul_mono) simp_all
  then show ?thesis unfolding kelly_scale_def by (intro fsub_mono) simp_all
qed

lemma kelly_scaled_eq:
  "kelly_scaled_max_size ms c t (Some k) =
     (if k \<le> 0 \<or> 1 \<le> t then ms else fmul ms (kelly_scale k (raw_scale c t)))"
  by (simp add: kelly_scaled_max_size_def kelly_scale_def raw_scale_def Let_def)

lemma kelly_scaled_None [simp]: "kelly_scaled_max_size ms c t None = ms"
  by (simp add: kelly_scaled_max_size_def)

lemma kelly_scaled_range:
  assumes "0 \<le> ms" "is_f64 ms"
  shows "0 \<le> kelly_scaled_max_size ms c t kf \<and> kelly_scaled_max_size ms c t kf \<le> ms"
  using assms kelly_scale_range [OF _ raw_scale_range(1) raw_scale_range(2), of _ c t]
  by (cases kf) (auto simp: kelly_scaled_eq fmul_le_left)

lemma kelly_scaled_mono:
  assumes "0 \<le> ms" "c \<le> c'"
  shows "kelly_scaled_max_size ms c t kf \<le> kelly_scaled_max_size ms c' t kf"
  using assms kelly_scale_range [OF _ raw_scale_range(1) raw_scale_range(2), of _ c t]
    kelly_scale_mono [OF _ raw_scale_mono raw_scale_range(2), of _ c c' t]
  by (cases kf) (auto simp: kelly_scaled_eq intro!: fmul_mono)

text \<open>
  Confidence scaling is a brake, never a lever: for every configured fraction, out of range
  ones included, the scaled size lies between 0 and the cap, and a more confident signal is
  never given a smaller size.
\<close>

theorem kelly_size_within_cap:
  assumes "0 \<le> max_size" "is_f64 max_size" "c \<le> c'"
  shows "0 \<le> kelly_scaled_max_size max_size c t kf \<and> kelly_scaled_max_size max_size c t kf \<le> max_size
    \<and> kelly_scaled_max_size max_size c t kf \<le> kelly_scaled_max_size max_size c' t kf"
  using kelly_scaled_range [OF assms(1,2)] kelly_scaled_mono [OF assms(1,3)] by blast

theorem kelly_size_within_cap_witness:
  "kelly_scaled_max_size 100 (3/4) (1/2) (Some 2) = 50
   \<and> kelly_scaled_max_size 100 (3/4) (1/2) (Some 2) \<le> kelly_scaled_max_size 100 1 (1/2) (Some 2)"
proof -
  have "kelly_scaled_max_size 100 (3/4) (1/2) (Some 2) = 50" by code_simp
  then show ?thesis using kelly_size_within_cap [of 100 "3/4" 1 "1/2" "Some 2"] by (simp add: is_f64_def)
qed

text \<open>The contracts sized cost no more than the cap, up to the rounding of one division.\<close>

lemma actual_size_within:
  assumes "0 \<le> cost" "0 < uc"
  shows "of_int (actual_size cost uc) * uc \<le> cost * (1 + 2 powi (- 52))"
proof (cases "actual_size cost uc \<le> 0")
  case True
  then have "of_int (actual_size cost uc) * uc \<le> 0"
    using assms(2) by (simp add: mult_nonpos_nonneg)
  moreover have "0 \<le> cost * (1 + 2 powi (- 52))" using assms(1) by (simp add: add_nonneg_nonneg less_imp_le)
  ultimately show ?thesis by linarith
next
  case False
  define q where "q = cost / uc"
  have q0: "0 \<le> q" using assms by (simp add: q_def)
  have n: "of_int (actual_size cost uc) \<le> fl q"
    using assms q0 by (simp add: actual_size_def fdiv_def py_trunc_le q_def fl_nonneg)
  have one: "1 \<le> fl q" using n False by (meson int_one_le_iff_zero_less linorder_not_le of_int_1_le_iff order_trans)
  have half: "1/2 \<le> q"
  proof (rule ccontr)
    assume "\<not> 1/2 \<le> q"
    then have "fl q \<le> fl (1/2)" by (intro fl_mono) simp
    also have "fl (1/2) = 1/2" using fl_repr [of 1 "- 1"] by (simp add: power_int_def)
    finally show False using one by simp
  qed
  have "(2::rat) powi (- 1022) \<le> 2 powi (- 1)" by (intro powi_2_mono) simp
  also have "(2::rat) powi (- 1) = 1/2" by (simp add: power_int_def)
  finally have "2 powi (- 1022) \<le> \<bar>q\<bar>" using half by simp
  note order_trans [OF abs_ge_self fl_rel [OF this]]
  then have "fl q \<le> q + q * 2 powi (- 53)" unfolding abs_of_nonneg [OF q0] by linarith
  also have "\<dots> \<le> q * (1 + 2 powi (- 52))"
    using q0 powi_2_mono [of "- 53" "- 52"] by (simp add: distrib_left mult_left_mono)
  finally have "of_int (actual_size cost uc) * uc \<le> q * (1 + 2 powi (- 52)) * uc"
    using n assms(2) by (intro mult_right_mono) auto
  then show ?thesis using assms(2) by (simp add: q_def)
qed

text \<open>
  The size stays under the cap: the contracts an entry is sized to, at their unit cost, cost
  at most the configured share of the bankroll rounded to cents, up to the rounding error of one
  float division (a factor of 1 + 2^-52).
\<close>

theorem sized_contracts_within_cap:
  assumes "0 \<le> bankroll" "0 \<le> pct" "0 < unit_cost (ws_side sig) (ws_price sig)"
  shows "of_int (sized_contracts cfg bankroll pct sig thr) * unit_cost (ws_side sig) (ws_price sig)
    \<le> max_trade_size bankroll pct * (1 + 2 powi (- 52))"
proof -
  let ?ms = "max_trade_size bankroll pct"
  let ?k = "kelly_scaled_max_size ?ms (ws_confidence sig) thr (Some (cfg_num_or cfg ''kelly_fraction_of_cap'' 0))"
  have ms: "0 \<le> ?ms" "is_f64 ?ms" using assms by (simp_all add: max_trade_size_def py_round_nonneg)
  have k: "0 \<le> ?k" "?k \<le> ?ms" using kelly_scaled_range [OF ms] by simp_all
  have "of_int (sized_contracts cfg bankroll pct sig thr) * unit_cost (ws_side sig) (ws_price sig)
      \<le> ?k * (1 + 2 powi (- 52))"
    using actual_size_within [OF k(1) assms(3)] by (simp add: sized_contracts_def)
  also have "\<dots> \<le> ?ms * (1 + 2 powi (- 52))" using k(2) by (intro mult_right_mono) simp_all
  finally show ?thesis .
qed

subsection \<open>The gates\<close>

definition is_skip :: "decision \<Rightarrow> bool" where
  "is_skip d = (case d of Skip why \<Rightarrow> True | _ \<Rightarrow> False)"

lemma is_skip_simps [simp]:
  "is_skip (Skip why)" "\<not> is_skip (LimitPlaced q d)" "\<not> is_skip (Traded t d)"
  by (simp_all add: is_skip_def)

text \<open>What an entry leaves behind, from the account it was decided on.\<close>

definition entered :: "whale_signal \<Rightarrow> int \<Rightarrow> broker \<Rightarrow> decision \<Rightarrow> broker \<Rightarrow> bool" where
  "entered sig n b d b' = (case d of
      Skip why \<Rightarrow> False
    | LimitPlaced q ed \<Rightarrow> pn_ticker q = ws_ticker sig \<and> pn_side q = ws_side sig \<and> pn_size q = n
        \<and> pn_limit_price q = ws_price sig \<and> dget (br_pending_orders b') (ws_ticker sig) = Some q
        \<and> br_bankroll b' = br_bankroll b \<and> br_positions b' = br_positions b \<and> br_trade_log b' = br_trade_log b
    | Traded t ed \<Rightarrow> tr_ticker t = ws_ticker sig \<and> tr_side t = ws_side sig \<and> tr_price t = ws_price sig
        \<and> tr_size t = actual_size (open_cost (br_bankroll b) (ws_side sig) n (ws_price sig))
            (unit_cost (ws_side sig) (ws_price sig))
        \<and> br_trade_log b' = br_trade_log b @ [t] \<and> br_pending_orders b' = br_pending_orders b)"

lemma enter_position_entered:
  assumes "enter_position en mx cfg sig n ed (b, r, st) = (Inr d, b', r', st')" "\<not> is_skip d"
  shows "entered sig n b d b'" "r' = r" "st' = st"
  using assms
  by (auto simp: enter_position_def entered_def place_limit_order_def resting_order_def
      dest: open_position_opened split: if_splits prod.splits option.splits sum.splits)

lemma enter_position_skip:
  assumes "enter_position en mx cfg sig n ed (b, r, st) = (Inr d, b', r', st')" "is_skip d"
  shows "b' = b" "r' = r" "st' = st"
proof -
  have "b2 = b" if "open_position f rk s t sd m p why fp seen h b = (Inr None, b2)" for f rk s t sd m p why fp seen h b2
    using that by (cases rule: open_position_cases) (auto dest: record_trade_Inr)
  with assms show "b' = b" "r' = r" "st' = st"
    by (auto simp: enter_position_def place_limit_order_def
      split: if_splits prod.splits option.splits sum.splits)
qed

text \<open>What has to hold of the signal and the account for an entry.\<close>

definition entry_allowed ::
  "entry_env \<Rightarrow> market_context \<Rightarrow> settings \<Rightarrow> whale_signal \<Rightarrow> f64 option \<Rightarrow> broker \<Rightarrow> bool" where
  "entry_allowed en mx cfg sig secs b \<longleftrightarrow>
     settled_side (dget_or (mx_market_results mx) (ws_ticker sig) []) = None
     \<and> (mx_is_live mx \<or> \<not> cfg_flag cfg ''live_markets_only'')
     \<and> (mx_is_live mx \<or> (case secs of None \<Rightarrow> True
          | Some s \<Rightarrow> 0 < s \<and> s \<le> cfg_num_or cfg ''close_window_sec'' 7200))
     \<and> ws_ticker sig \<notin> set (dkeys (br_positions b))
     \<and> (case nonempty (mx_me_complement mx) of None \<Rightarrow> True | Some c \<Rightarrow> c \<notin> set (dkeys (br_positions b)))
     \<and> (case cfg_num cfg ''entry_threshold'' of None \<Rightarrow> False
        | Some t \<Rightarrow> fst (effective_entry_threshold cfg t (ws_price sig) (mx_is_live mx) secs) \<le> ws_confidence sig)
     \<and> is_tradeable_unit_cost (Some (unit_cost (ws_side sig) (ws_price sig)))
     \<and> series_cap_gate en cfg b sig = None
     \<and> (case cfg_num cfg ''cooldown_sec'' of None \<Rightarrow> False | Some c \<Rightarrow> can_trade (en_now en) (ws_ticker sig) c b)"

lemma validate_entry_price_ok:
  assumes "va_ok (validate_entry_price en side price c thr cfg ticker category as_of)"
  shows "thr \<le> c" "is_tradeable_unit_cost (Some (unit_cost side price))"
  using assms by (auto simp: validate_entry_price_def refused_def Let_def split: if_splits)

lemma size_and_enter_entered:
  assumes "size_and_enter en mx cfg sig thr ed w = (Inr d, w')" "\<not> is_skip d"
  obtains cd pct where "cfg_num cfg ''cooldown_sec'' = Some cd" "can_trade (en_now en) (ws_ticker sig) cd (fst w)"
    "cfg_num cfg ''max_position_pct'' = Some pct"
    "0 < sized_contracts cfg (br_bankroll (fst w)) pct sig thr"
    "enter_position en mx cfg sig (sized_contracts cfg (br_bankroll (fst w)) pct sig thr) ed w = (Inr d, w')"
proof -
  note here = that
  show ?thesis
    using assms by (auto simp: size_and_enter_def Let_def split: option.splits if_splits intro: here)
qed

lemma price_and_enter_entered:
  assumes "price_and_enter en mx cfg sig thr (b, r, st) = (Inr d, w')" "\<not> is_skip d"
  shows "thr \<le> ws_confidence sig" "is_tradeable_unit_cost (Some (unit_cost (ws_side sig) (ws_price sig)))"
    "series_cap_gate en cfg b sig = None"
    "\<exists>ed. size_and_enter en mx cfg sig thr ed (b, r, st) = (Inr d, w')"
proof -
  let ?v = "validate_entry_price en (ws_side sig) (ws_price sig) (ws_confidence sig) thr cfg
              (Some (ws_ticker sig)) (mx_category mx) (ws_timestamp sig)"
  have ok: "va_ok ?v" and g: "series_cap_gate en cfg b sig = None"
    and ed: "size_and_enter en mx cfg sig thr (va_edge_gate_detail ?v) (b, r, st) = (Inr d, w')"
    using assms by (auto simp: price_and_enter_def Let_def split: if_splits option.splits)
  from validate_entry_price_ok [OF ok] g ed
  show "thr \<le> ws_confidence sig" "is_tradeable_unit_cost (Some (unit_cost (ws_side sig) (ws_price sig)))"
    "series_cap_gate en cfg b sig = None"
    "\<exists>ed. size_and_enter en mx cfg sig thr ed (b, r, st) = (Inr d, w')" by blast+
qed

lemma gates_pass:
  "timing_gate mx cfg sig secs st = (None, st') \<Longrightarrow>
     settled_side (dget_or (mx_market_results mx) (ws_ticker sig) []) = None
     \<and> (mx_is_live mx \<or> \<not> cfg_flag cfg ''live_markets_only'')
     \<and> (mx_is_live mx \<or> (case secs of None \<Rightarrow> True
          | Some s \<Rightarrow> 0 < s \<and> s \<le> cfg_num_or cfg ''close_window_sec'' 7200)) \<and> st' = st"
  "holding_gate mx b sig st = (None, st') \<Longrightarrow>
     ws_ticker sig \<notin> set (dkeys (br_positions b))
     \<and> (case nonempty (mx_me_complement mx) of None \<Rightarrow> True | Some c \<Rightarrow> c \<notin> set (dkeys (br_positions b)))
     \<and> st' = st"
  "winrate_gate en cfg sig st = (None, st') \<Longrightarrow> st' = st"
  "special_market_gate mx cfg sig secs st = (None, st') \<Longrightarrow> sg_rejections st' = sg_rejections st"
  by (auto simp: timing_gate_def holding_gate_def winrate_gate_def special_market_gate_def
      record_me_gate_unknown_def Let_def split: if_splits option.splits prod.splits)

lemma record_and_enter_entered:
  assumes "record_and_enter en mx cfg sig secs (b, r, st) = (Inr d, w')" "\<not> is_skip d"
  obtains base where "cfg_num cfg ''entry_threshold'' = Some base"
    "ws_ticker sig \<notin> set (dkeys (br_positions b))"
    "case nonempty (mx_me_complement mx) of None \<Rightarrow> True | Some c \<Rightarrow> c \<notin> set (dkeys (br_positions b))"
    "price_and_enter en mx cfg sig (fst (effective_entry_threshold cfg base (ws_price sig) (mx_is_live mx) secs))
       (b, r, st) = (Inr d, w')"
proof -
  note here = that
  show ?thesis
    using assms
    by (auto simp: record_and_enter_def split: option.splits prod.splits
      dest!: gates_pass(2,3) intro: here)
qed

lemma evaluate_entered:
  assumes "evaluate en base ov kc mx sig (b, r, st) = (Inr d, b', r', st')" "\<not> is_skip d"
  defines "cfg \<equiv> entry_settings en base ov (mx_category mx) (ws_ticker sig)"
    and "secs \<equiv> signal_seconds_to_close en mx sig"
  obtains st2 where
    "record_and_enter en mx cfg sig secs
       (b, snd (check_daily_loss (equity b (mx_latest_prices mx)) (en_now en) r), st2) = (Inr d, b', r', st')"
    "fst (check_daily_loss (equity b (mx_latest_prices mx)) (en_now en) r)"
    "timing_gate mx cfg sig secs st = (None, st)" "sg_rejections st2 = sg_rejections st"
proof -
  note here = that
  show ?thesis
    using assms(1,2) unfolding cfg_def secs_def
    by (auto simp: evaluate_def Let_def split: if_splits option.splits prod.splits
      dest!: gates_pass(4) dest: gates_pass(1) intro!: here [unfolded cfg_def secs_def])
qed


lemma evaluate_skip_frame:
  assumes "evaluate en base ov kc mx sig (b, r, st) = (Inr (Skip why), b', r', st')"
  shows "b' = b \<and> r' = snd (check_daily_loss (equity b (mx_latest_prices mx)) (en_now en) r)"
proof -
  have enter: "b2 = b \<and> r2 = r1"
    if "enter_position en mx cfg sig n ed (b, r1, s1) = (Inr (Skip why), b2, r2, s2)" for cfg n ed r1 s1 b2 r2 s2
    using enter_position_skip [OF that] by simp
  have size: "b2 = b \<and> r2 = r1"
    if "size_and_enter en mx cfg sig thr ed (b, r1, s1) = (Inr (Skip why), b2, r2, s2)" for cfg thr ed r1 s1 b2 r2 s2
    using that enter by (auto simp: size_and_enter_def Let_def split: option.splits if_splits)
  have price: "b2 = b \<and> r2 = r1"
    if "price_and_enter en mx cfg sig thr (b, r1, s1) = (Inr (Skip why), b2, r2, s2)" for cfg thr r1 s1 b2 r2 s2
    using that size by (auto simp: price_and_enter_def Let_def split: option.splits if_splits)
  have rec: "b2 = b \<and> r2 = r1"
    if "record_and_enter en mx cfg sig secs (b, r1, s1) = (Inr (Skip why), b2, r2, s2)" for cfg secs r1 s1 b2 r2 s2
    using that price by (auto simp: record_and_enter_def split: option.splits prod.splits)
  show ?thesis
    using assms rec by (auto simp: evaluate_def Let_def split: if_splits option.splits prod.splits)
qed

text \<open>
  A refusal costs nothing: when the decision is to skip, for whichever of the seventeen
  reasons, the account (memory and database) is untouched and the risk manager is as its daily check left it.
\<close>

theorem skip_leaves_account:
  assumes "evaluate en base ov kc mx sig (b, r, st) = (Inr (Skip why), b', r', st')"
  shows "b' = b \<and> r' = snd (check_daily_loss (equity b (mx_latest_prices mx)) (en_now en) r)"
  by (rule evaluate_skip_frame [OF assms])

subsection \<open>A concrete entry\<close>

definition example_settings :: settings where
  "example_settings = [(''entry_threshold'', JInt 1), (''longshot_price_threshold'', JInt 0),
     (''cooldown_sec'', JInt 0), (''max_position_pct'', JInt 1), (''use_limit_orders'', JBool True)]"

definition example_env :: entry_env where
  "example_env = \<lparr>en_titles = empty_title_cache, en_history = init_market_history, en_iso_ts = (\<lambda>s. None),
     en_now = 1000, en_schedules = [], en_series_stats = (\<lambda>t. (0, None)), en_fee_type = (\<lambda>s. None),
     en_delta = (\<lambda>c q. 0), en_stamp = example_stamp ''A'' 1000\<rparr>"

definition example_context :: market_context where
  "example_context = \<lparr>mx_is_live = False, mx_market_results = [], mx_config_fingerprint = None,
     mx_latest_prices = [], mx_category = None, mx_me_complement = None, mx_market_titles = [],
     mx_event_titles = [], mx_markets = None\<rparr>"

definition example_signal :: "f64 \<Rightarrow> whale_signal" where
  "example_signal confidence = \<lparr>ws_id = ''s'', ws_ticker = ''A'', ws_side = Yes, ws_size = 5000, ws_price = 1/2,
     ws_confidence = confidence, ws_timestamp = 999, ws_factors = JNull, ws_raw_context = JNull, ws_close_time = JNull\<rparr>"

definition idle_risk :: risk where
  "idle_risk = \<lparr>rk_starting_bankroll = 100, rk_max_daily_loss_pct = 1, rk_kill_switch_enabled = False,
     rk_max_total_exposure_pct = None, rk_day_start_bankroll = 100, rk_halted = False, rk_halt_reason = None,
     rk_day_start_date = 0, rk_db = None\<rparr>"

definition idle_broker :: broker where
  "idle_broker = init_broker 100 empty_broker_db init_history_push"

definition example_world :: strategy_world where
  "example_world = (idle_broker, idle_risk, init_strategy_state)"

definition example_decision :: "f64 \<Rightarrow> (strategy_error + decision) \<times> strategy_world" where
  "example_decision confidence =
     evaluate example_env example_settings no_overrides None example_context (example_signal confidence) example_world"

lemma example_tradeable: "is_tradeable_unit_cost (Some (1/2))"
  by code_simp

lemma example_risk_ok: "check_daily_loss e 1000 idle_risk = (True, idle_risk)"
  by (simp add: check_daily_loss_def idle_risk_def maybe_rollover_day_def today_def Let_def)

lemmas example_entry_defs = example_decision_def example_world_def evaluate_def entry_settings_def resolve_def
  tier_layer_def no_overrides_def dict_update_def nonempty_def timing_gate_def special_market_gate_def
  me_lookup_unknown_def is_special_market_def watchlist_gate_def record_and_enter_def winrate_gate_def
  holding_gate_def price_and_enter_def validate_entry_price_def band_refusal_def band_refusal_above_def
  edge_gate_applied_def series_cap_gate_def size_and_enter_def enter_position_def
  example_env_def example_context_def example_settings_def signal_seconds_to_close_def this_market_def
  effective_close_time_def jor_def seconds_to_close_def effective_entry_threshold_def cfg_num_or_def cfg_num_def
  json_num_def cfg_flag_def jget_def passed_def refused_def can_trade_def

lemma example_settled: "settled_side [] = None"
  by code_simp

lemma example_sized: "sized_contracts example_settings 100 1 (example_signal 1) 1 = 200"
  by (simp add: sized_contracts_def example_settings_def cfg_num_or_def cfg_num_def jget_def json_num_def
      kelly_scaled_max_size_def max_trade_size_def py_round_def actual_size_def example_signal_def unit_cost_def
      fdiv_def fmul_def py_trunc_def rhe_of_int [of 10000, simplified] fl_of_int [of 200, simplified])

lemma example_broker_idle:
  "br_positions idle_broker = []" "br_pending_orders idle_broker = []" "br_bankroll idle_broker = 100"
  "br_last_trade_time idle_broker = []"
  by (simp_all add: idle_broker_def init_broker_def empty_broker_db_def)

lemma example_placed:
  "\<exists>q b' st'. example_decision 1 = (Inr (LimitPlaced q None), b', idle_risk, st')"
  using example_sized
  by (simp add: Let_def example_entry_defs example_risk_ok example_settled dget_or_def example_tradeable
      example_broker_idle place_limit_order_def resting_order_def open_position_count_in_series_def
      example_signal_def unit_cost_def fsub_def fadd_def)

lemma example_skipped:
  "\<exists>st'. example_decision 0 = (Inr (Skip (PriceRefused (Some ''entry_threshold''))), idle_broker, idle_risk, st')"
  by (simp add: Let_def example_entry_defs example_risk_ok example_settled dget_or_def
      example_broker_idle open_position_count_in_series_def example_signal_def unit_cost_def fsub_def fadd_def)

theorem sized_contracts_within_cap_witness:
  "rat_of_int 200 * unit_cost Yes (1/2) \<le> max_trade_size 100 1 * (1 + 2 powi (- 52))"
  using sized_contracts_within_cap [of 100 1 "example_signal 1" example_settings 1] example_sized
  by (simp add: example_signal_def unit_cost_def)


theorem skip_leaves_account_witness:
  "\<exists>why st'. example_decision 0 = (Inr (Skip why), idle_broker, idle_risk, st')"
proof -
  obtain st' where run: "example_decision 0
      = (Inr (Skip (PriceRefused (Some ''entry_threshold''))), idle_broker, idle_risk, st')"
    using example_skipped by blast
  with skip_leaves_account [OF run [unfolded example_decision_def example_world_def]]
  show ?thesis by blast
qed

text \<open>
  A resting order is re-checked by the rule that placed it: with the edge gate off, an order
  \<open>evaluate\<close> placed is admitted by \<open>validate_pending_fill\<close> at its limit price whenever the
  configuration, category, live flag and time to close are unchanged, whatever the clock, the
  price history and the module state are by then; and its limit price is tradeable.
\<close>

theorem placed_order_revalidates:
  assumes "evaluate en base ov kc mx sig (b, r, st) = (Inr (LimitPlaced q ed), b', r', st')"
    and "en_titles en' = en_titles en"
    and "\<not> cfg_flag (entry_settings en base ov (mx_category mx) (ws_ticker sig)) ''edge_gate_enabled''"
  shows "validate_pending_fill en' base ov (mx_category mx) (mx_is_live mx) (signal_seconds_to_close en mx sig)
      (pn_ticker q) (pn_side q) (pn_limit_price q) (pn_confidence q) st'' = (Inr (True, None), st'')
    \<and> is_tradeable_unit_cost (Some (unit_cost (pn_side q) (pn_limit_price q)))"
proof -
  let ?cfg = "entry_settings en base ov (mx_category mx) (ws_ticker sig)"
  let ?secs = "signal_seconds_to_close en mx sig"
  let ?r = "snd (check_daily_loss (equity b (mx_latest_prices mx)) (en_now en) r)"
  have ns: "\<not> is_skip (LimitPlaced q ed)" by simp
  obtain st2 where rec: "record_and_enter en mx ?cfg sig ?secs (b, ?r, st2) = (Inr (LimitPlaced q ed), b', r', st')"
    by (rule evaluate_entered [OF assms(1) ns])
  obtain thr where thr: "cfg_num ?cfg ''entry_threshold'' = Some thr"
    and price: "price_and_enter en mx ?cfg sig
        (fst (effective_entry_threshold ?cfg thr (ws_price sig) (mx_is_live mx) ?secs)) (b, ?r, st2)
      = (Inr (LimitPlaced q ed), b', r', st')"
    by (rule record_and_enter_entered [OF rec ns])
  have q: "pn_ticker q = ws_ticker sig" "pn_side q = ws_side sig" "pn_limit_price q = ws_price sig"
    "pn_confidence q = Some (ws_confidence sig)"
    using price by (auto simp: price_and_enter_def size_and_enter_def enter_position_def place_limit_order_def
        resting_order_def Let_def split: if_splits option.splits prod.splits sum.splits)
  let ?v = "\<lambda>en. validate_entry_price en (ws_side sig) (ws_price sig) (ws_confidence sig)
      (fst (effective_entry_threshold ?cfg thr (ws_price sig) (mx_is_live mx) ?secs)) ?cfg (Some (ws_ticker sig))
      (mx_category mx)"
  have same: "?v en' (en_now en') = ?v en (ws_timestamp sig)"
    using assms(3) by (simp add: validate_entry_price_def edge_gate_applied_def Let_def split: option.split)
  have ok: "va_ok (?v en (ws_timestamp sig))"
    using price by (auto simp: price_and_enter_def Let_def split: if_splits)
  have gate: "va_gate_name (?v en (ws_timestamp sig)) = None"
    using ok assms(3) by (auto simp: validate_entry_price_def edge_gate_applied_def refused_def passed_def Let_def
        band_refusal_def band_refusal_above_def split: if_splits option.splits)
  have cfg': "entry_settings en' base ov (mx_category mx) (ws_ticker sig) = ?cfg"
    by (simp add: entry_settings_def assms(2))
  show ?thesis
    using ok gate same thr validate_entry_price_ok(2) [OF ok]
    by (simp add: validate_pending_fill_def fill_validation_def cfg' q Let_def)
qed

theorem placed_order_revalidates_witness:
  "\<exists>q b' st'. example_decision 1 = (Inr (LimitPlaced q None), b', idle_risk, st')
     \<and> validate_pending_fill (example_env\<lparr>en_now := 2000\<rparr>) example_settings no_overrides None False None
         (pn_ticker q) (pn_side q) (pn_limit_price q) (pn_confidence q) st' = (Inr (True, None), st')"
proof -
  obtain q b' st' where run: "example_decision 1 = (Inr (LimitPlaced q None), b', idle_risk, st')"
    using example_placed by blast
  have off: "\<not> cfg_flag (entry_settings example_env example_settings no_overrides (mx_category example_context)
      (ws_ticker (example_signal 1))) ''edge_gate_enabled''"
    by (simp add: example_entry_defs dget_or_def)
  have secs: "signal_seconds_to_close example_env example_context (example_signal 1) = None"
    by (simp add: example_entry_defs example_signal_def)
  have ctx: "mx_category example_context = None" "mx_is_live example_context = False"
    by (simp_all add: example_context_def)
  have "validate_pending_fill (example_env\<lparr>en_now := 2000\<rparr>) example_settings no_overrides None False None
         (pn_ticker q) (pn_side q) (pn_limit_price q) (pn_confidence q) st' = (Inr (True, None), st')"
    using placed_order_revalidates [OF run [unfolded example_decision_def example_world_def] _ off,
        of "example_env\<lparr>en_now := 2000\<rparr>" st'] by (simp add: secs ctx)
  with run show ?thesis by blast
qed

end
