(* ===== verification/LatencyAgg.thy ===== *)
theory LatencyAgg
  imports PyValues
begin

text \<open>
  \<open>services/latency_agg.py\<close>: constant-memory aggregates of durations, the fixed
  histogram buckets, and the conservative 95th percentile read from them.
\<close>

record latency_agg =
  la_count :: nat
  la_total :: f64
  la_max :: f64

definition new_latency_agg :: latency_agg where
  "new_latency_agg = \<lparr>la_count = 0, la_total = 0, la_max = 0\<rparr>"

definition agg_add :: "f64 \<Rightarrow> latency_agg \<Rightarrow> latency_agg" where
  "agg_add v a = \<lparr>la_count = la_count a + 1, la_total = fadd (la_total a) v,
     la_max = (if v > la_max a then v else la_max a)\<rparr>"

text \<open>\<open>snapshot\<close>: count, average and maximum, scaled and rounded to four decimals.\<close>

definition agg_snapshot :: "f64 \<Rightarrow> latency_agg \<Rightarrow> nat \<times> f64 option \<times> f64 option" where
  "agg_snapshot scale a =
     (if la_count a = 0 then (0, None, None)
      else (la_count a,
            Some (py_round 4 (fmul (fdiv (la_total a) (fint (int (la_count a)))) scale)),
            Some (py_round 4 (fmul (la_max a) scale))))"

subsection \<open>Buckets\<close>

definition BUCKET_BOUNDS :: "(f64 \<times> string) list" where
  "BUCKET_BOUNDS = [(fl (1/1000), ''le_1ms''), (fl (1/100), ''le_10ms''), (fl (1/10), ''le_100ms''),
     (1, ''le_1s''), (10, ''le_10s'')]"

definition BUCKET_OVERFLOW :: string where "BUCKET_OVERFLOW = ''gt_10s''"

definition empty_buckets :: "(string, nat) pdict" where
  "empty_buckets = map (\<lambda>n. (n, 0)) (map snd BUCKET_BOUNDS @ [BUCKET_OVERFLOW])"

fun bucket_scan :: "(f64 \<times> string) list \<Rightarrow> f64 \<Rightarrow> string" where
  "bucket_scan [] seconds = BUCKET_OVERFLOW"
| "bucket_scan ((bnd, name) # bs) seconds = (if seconds \<le> bnd then name else bucket_scan bs seconds)"

definition bucket_for :: "f64 \<Rightarrow> string" where
  "bucket_for seconds = bucket_scan BUCKET_BOUNDS seconds"

fun p95_scan :: "(f64 \<times> string) list \<Rightarrow> (string, nat) pdict \<Rightarrow> int \<Rightarrow> int \<Rightarrow> f64 option" where
  "p95_scan [] buckets target cumulative = None"
| "p95_scan ((bnd, name) # bs) buckets target cumulative =
     (let c = cumulative + int (dget_or buckets name 0) in
      if c \<ge> target then Some bnd else p95_scan bs buckets target c)"

definition p95_target :: "nat \<Rightarrow> int" where
  "p95_target n = py_ceil (fmul (fl (95/100)) (fint (int n)))"

definition p95_upper_bound :: "(string, nat) pdict \<Rightarrow> nat \<Rightarrow> f64 option" where
  "p95_upper_bound buckets n =
     (if n = 0 then None else p95_scan BUCKET_BOUNDS buckets (p95_target n) 0)"

text \<open>How the callers fill the buckets: one increment of the sample's bucket.\<close>

definition count_bucket :: "f64 \<Rightarrow> (string, nat) pdict \<Rightarrow> (string, nat) pdict" where
  "count_bucket v d = dput (bucket_for v) (dget_or d (bucket_for v) 0 + 1) d"

definition buckets_of :: "f64 list \<Rightarrow> (string, nat) pdict" where
  "buckets_of vs = fold count_bucket vs empty_buckets"

subsection \<open>The percentile is an upper bound\<close>

lemma dget_buckets_of:
  "dget_or (fold count_bucket vs d) n 0 = dget_or d n 0 + length (filter (\<lambda>v. bucket_for v = n) vs)"
  by (induction vs arbitrary: d) (auto simp: count_bucket_def dget_or_def split: option.splits)

lemma empty_buckets_0: "dget_or empty_buckets n 0 = 0"
  by (simp add: empty_buckets_def BUCKET_BOUNDS_def BUCKET_OVERFLOW_def dget_or_def)

lemma buckets_of_count: "dget_or (buckets_of vs) n 0 = length (filter (\<lambda>v. bucket_for v = n) vs)"
  by (simp add: buckets_of_def dget_buckets_of empty_buckets_0)

text \<open>
  Along the ascending bounds the running sum of the bucket counts is the number of samples up
  to the bound last added.
\<close>

definition bounds_ok :: "(f64 \<times> string) list \<Rightarrow> bool" where
  "bounds_ok bs \<longleftrightarrow> sorted_wrt (\<lambda>a b. fst a < fst b) bs \<and> distinct (map snd bs) \<and> BUCKET_OVERFLOW \<notin> snd ` set bs"

lemma bounds_ok_BUCKET_BOUNDS: "bounds_ok BUCKET_BOUNDS"
proof -
  have "fl (1/1000) < fl (1/100)" "fl (1/100) < fl (1/10)" "fl (1/10) < 1" by code_simp+
  then show ?thesis by (simp add: bounds_ok_def BUCKET_BOUNDS_def BUCKET_OVERFLOW_def)
qed

lemma bucket_scan_in: "bucket_scan bs v \<in> insert BUCKET_OVERFLOW (snd ` set bs)"
  by (induction bs v rule: bucket_scan.induct) auto

lemma bucket_scan_prefix:
  assumes "bounds_ok (pre @ (bnd, name) # bs)"
  shows "bucket_scan (pre @ (bnd, name) # bs) v \<in> insert name (snd ` set pre) \<longleftrightarrow> v \<le> bnd"
  using assms
proof (induction pre)
  case Nil
  then show ?case using bucket_scan_in [of bs v] by (auto simp: bounds_ok_def)
next
  case (Cons p pre)
  obtain q n where p: "p = (q, n)" by (cases p)
  have ok: "bounds_ok (pre @ (bnd, name) # bs)" and q: "q < bnd" and fresh: "n \<noteq> name" "n \<notin> snd ` set pre"
    using Cons.prems by (auto simp: bounds_ok_def p)
  have out: "n \<notin> insert BUCKET_OVERFLOW (snd ` set (pre @ (bnd, name) # bs))"
    using Cons.prems by (auto simp: bounds_ok_def p image_iff)
  show ?case
    using Cons.IH [OF ok] q bucket_scan_in [of "pre @ (bnd, name) # bs" v] out by (auto simp: p)
qed

lemma length_filter_disj:
  assumes "name \<notin> N"
  shows "length (filter (\<lambda>v. f v \<in> insert name N) vs)
    = length (filter (\<lambda>v. f v \<in> N) vs) + length (filter (\<lambda>v. f v = name) vs)"
  using assms by (induction vs) auto

lemma p95_scan_counts:
  assumes "bounds_ok (pre @ bs)" "p95_scan bs (buckets_of vs) target
      (int (length (filter (\<lambda>v. bucket_scan (pre @ bs) v \<in> snd ` set pre) vs))) = Some bnd"
    and "pre @ bs = BUCKET_BOUNDS"
  shows "target \<le> int (length (filter (\<lambda>v. v \<le> bnd) vs))"
  using assms
proof (induction bs arbitrary: pre)
  case Nil
  then show ?case by simp
next
  case (Cons p bs)
  obtain q n where p: "p = (q, n)" by (cases p)
  let ?all = "pre @ (q, n) # bs"
  have fresh: "n \<notin> snd ` set pre" using Cons.prems(1) by (auto simp: bounds_ok_def p)
  have all: "bucket_scan ?all v = bucket_for v" for v using Cons.prems(3) by (simp add: bucket_for_def p)
  have c: "int (length (filter (\<lambda>v. bucket_scan ?all v \<in> snd ` set pre) vs)) + int (dget_or (buckets_of vs) n 0)
      = int (length (filter (\<lambda>v. bucket_scan ?all v \<in> snd ` set (pre @ [(q, n)])) vs))"
    using length_filter_disj [OF fresh, of "bucket_scan ?all" vs] by (simp add: buckets_of_count all)
  have upto: "(bucket_scan ?all v \<in> snd ` set (pre @ [(q, n)])) = (v \<le> q)" for v
    using bucket_scan_prefix [of pre q n bs v] Cons.prems(1) by (simp add: p)
  show ?case
  proof (cases "target \<le> int (length (filter (\<lambda>v. v \<le> q) vs))")
    case True
    then show ?thesis using Cons.prems(2) c by (simp add: p Let_def upto [simplified])
  next
    case False
    then show ?thesis
      using Cons.IH [of "pre @ [(q, n)]"] Cons.prems c by (simp add: p Let_def upto [simplified])
  qed
qed

text \<open>
  The conservative percentile is one: whenever \<open>p95_upper_bound\<close> names a bound for the
  buckets the recorded samples fell into, at least the float ceiling of 0.95 times the count of
  them are at most that bound.
\<close>

theorem p95_bounds_the_samples:
  assumes "p95_upper_bound (buckets_of vs) (length vs) = Some bnd"
  shows "p95_target (length vs) \<le> int (length (filter (\<lambda>v. v \<le> bnd) vs))"
  using assms p95_scan_counts [of "[]" BUCKET_BOUNDS vs "p95_target (length vs)" bnd] bounds_ok_BUCKET_BOUNDS
  by (auto simp: p95_upper_bound_def split: if_splits)

theorem p95_bounds_the_samples_witness:
  "p95_target 1 \<le> int (length (filter (\<lambda>v. v \<le> 10) [5::f64]))"
proof -
  have "fl (1/1000) < 5" "fl (1/100) < 5" "fl (1/10) < 5" by code_simp+
  then have b: "bucket_for 5 = ''le_10s''" by (simp add: bucket_for_def BUCKET_BOUNDS_def)
  have "p95_target 1 = 1" by code_simp
  then have "p95_upper_bound (buckets_of [5]) (length [5::f64]) = Some 10"
    by (simp add: p95_upper_bound_def BUCKET_BOUNDS_def buckets_of_count b)
  from p95_bounds_the_samples [OF this] show ?thesis by simp
qed

end
