(* ===== verification/HttpClient.thy ===== *)
theory HttpClient
  imports LatencyAgg FloatBounds
begin

text \<open>
  \<open>services/http_client.py\<close>: the token bucket every Kalshi REST call waits on, the retry
  loop with exponential backoff, and the per-class, per-endpoint and per-window statistics.
  The limiter's lock serialises the waiters, so one \<open>acquire\<close> is a loop over the clock readings it takes.
  What the wrapped coroutine answers, and the durations measured, are given per attempt. The
  shared \<open>httpx\<close> client and the context variable that carries the caller class are not modelled; the
  class name is an argument.
\<close>

subsection \<open>The token bucket\<close>

record limiter =
  tb_rate :: f64
  tb_burst :: f64
  tb_tokens :: f64
  tb_last_refill :: f64
  tb_waiters :: nat
  tb_waiters_high_water :: nat

definition new_limiter :: "f64 \<Rightarrow> f64 option \<Rightarrow> f64 \<Rightarrow> limiter" where
  "new_limiter rate burst now =
     (let bu = (case burst of None \<Rightarrow> rate | Some x \<Rightarrow> x) in
      \<lparr>tb_rate = rate, tb_burst = bu, tb_tokens = bu, tb_last_refill = now, tb_waiters = 0, tb_waiters_high_water = 0\<rparr>)"

definition tokens_available :: "f64 \<Rightarrow> limiter \<Rightarrow> f64" where
  "tokens_available now b =
     min (tb_burst b) (fadd (tb_tokens b) (fmul (fsub now (tb_last_refill b)) (tb_rate b)))"

text \<open>One turn of the loop: refill at \<open>now\<close>, and take a token when there is one.\<close>

definition limiter_turn :: "f64 \<Rightarrow> limiter \<Rightarrow> bool \<times> limiter" where
  "limiter_turn now b =
     (let b1 = b\<lparr> tb_tokens := tokens_available now b, tb_last_refill := now \<rparr> in
      if tb_tokens b1 \<ge> 1 then (True, b1\<lparr> tb_tokens := fsub (tb_tokens b1) 1 \<rparr>) else (False, b1))"

definition limiter_sleep :: "limiter \<Rightarrow> f64" where
  "limiter_sleep b = fdiv (fsub 1 (tb_tokens b)) (tb_rate b)"

text \<open>The loop of \<open>acquire\<close> on the readings the clock gives it; None while it is still waiting.\<close>

fun acquire_loop :: "f64 list \<Rightarrow> limiter \<Rightarrow> (limiter \<times> f64 list) option" where
  "acquire_loop [] b = None"
| "acquire_loop (now # readings) b =
     (case limiter_turn now b of
        (True, b') \<Rightarrow> Some (b', readings)
      | (False, b') \<Rightarrow> acquire_loop readings b')"

definition enter_waiters :: "limiter \<Rightarrow> limiter" where
  "enter_waiters b = (let n = tb_waiters b + 1 in
     b\<lparr> tb_waiters := n, tb_waiters_high_water := max (tb_waiters_high_water b) n \<rparr>)"

definition leave_waiters :: "limiter \<Rightarrow> limiter" where
  "leave_waiters b = b\<lparr> tb_waiters := tb_waiters b - 1 \<rparr>"

definition acquire :: "f64 list \<Rightarrow> limiter \<Rightarrow> limiter option" where
  "acquire readings b = map_option (\<lambda>(b', _). leave_waiters b') (acquire_loop readings (enter_waiters b))"

definition KALSHI_READ_RATE_PER_SEC :: f64 where "KALSHI_READ_RATE_PER_SEC = 8"
definition KALSHI_WRITE_RATE_PER_SEC :: f64 where "KALSHI_WRITE_RATE_PER_SEC = 3/2"
definition KALSHI_READ_BURST :: f64 where "KALSHI_READ_BURST = 8"
definition KALSHI_WRITE_BURST :: f64 where "KALSHI_WRITE_BURST = 1"

subsection \<open>Statistics\<close>

datatype rest_component = LimiterWait | Network | Backoff | Total

record rest_counts =
  rc_calls :: nat
  rc_attempts :: nat
  rc_rate_limited :: nat
  rc_errors :: nat

definition no_counts :: rest_counts where
  "no_counts = \<lparr>rc_calls = 0, rc_attempts = 0, rc_rate_limited = 0, rc_errors = 0\<rparr>"

record class_stats =
  cs_lifetime_counts :: rest_counts
  cs_window_counts :: rest_counts
  cs_window :: "rest_component \<Rightarrow> latency_agg"
  cs_lifetime :: "rest_component \<Rightarrow> latency_agg"

definition new_class_stats :: class_stats where
  "new_class_stats = \<lparr>cs_lifetime_counts = no_counts, cs_window_counts = no_counts,
     cs_window = (\<lambda>c. new_latency_agg), cs_lifetime = (\<lambda>c. new_latency_agg)\<rparr>"

definition count_both :: "(rest_counts \<Rightarrow> rest_counts) \<Rightarrow> class_stats \<Rightarrow> class_stats" where
  "count_both f s = s\<lparr> cs_lifetime_counts := f (cs_lifetime_counts s), cs_window_counts := f (cs_window_counts s) \<rparr>"

definition add_component :: "rest_component \<Rightarrow> f64 \<Rightarrow> class_stats \<Rightarrow> class_stats" where
  "add_component c secs s =
     s\<lparr> cs_window := (cs_window s)(c := agg_add secs (cs_window s c)),
        cs_lifetime := (cs_lifetime s)(c := agg_add secs (cs_lifetime s c)) \<rparr>"

definition reset_class_window :: "class_stats \<Rightarrow> class_stats" where
  "reset_class_window s = s\<lparr> cs_window_counts := no_counts, cs_window := (\<lambda>c. new_latency_agg) \<rparr>"

record endpoint_window =
  ew_calls :: nat
  ew_rate_limited :: nat
  ew_errors :: nat

record endpoint_metrics =
  em_calls :: nat
  em_successes :: nat
  em_errors :: nat
  em_rate_limited :: nat
  em_total_latency_ms :: f64

definition no_metrics :: endpoint_metrics where
  "no_metrics = \<lparr>em_calls = 0, em_successes = 0, em_errors = 0, em_rate_limited = 0, em_total_latency_ms = 0\<rparr>"

record http_state =
  hs_class_stats :: "(string, class_stats) pdict"
  hs_endpoint_window :: "(string, endpoint_window) pdict"
  hs_metrics :: "(string, endpoint_metrics) pdict"
  hs_rate_limit_hits :: nat

definition init_http_state :: http_state where
  "init_http_state = \<lparr>hs_class_stats = [], hs_endpoint_window = [], hs_metrics = [], hs_rate_limit_hits = 0\<rparr>"

text \<open>\<open>_class_stats(name)\<close> then a method call on it.\<close>

definition on_class :: "string \<Rightarrow> (class_stats \<Rightarrow> class_stats) \<Rightarrow> http_state \<Rightarrow> http_state" where
  "on_class name f s = s\<lparr> hs_class_stats :=
     dput name (f (dget_or (hs_class_stats s) name new_class_stats)) (hs_class_stats s) \<rparr>"

definition reset_rest_latency_window :: "http_state \<Rightarrow> http_state" where
  "reset_rest_latency_window s =
     s\<lparr> hs_class_stats := map (\<lambda>(n, c). (n, reset_class_window c)) (hs_class_stats s), hs_endpoint_window := [] \<rparr>"

definition count_endpoint_window :: "string \<Rightarrow> bool \<Rightarrow> bool \<Rightarrow> http_state \<Rightarrow> http_state" where
  "count_endpoint_window ep rate_limited err s =
     (let c = dget_or (hs_endpoint_window s) ep \<lparr>ew_calls = 0, ew_rate_limited = 0, ew_errors = 0\<rparr> in
      s\<lparr> hs_endpoint_window := dput ep
          \<lparr>ew_calls = ew_calls c + 1,
           ew_rate_limited = ew_rate_limited c + (if rate_limited then 1 else 0),
           ew_errors = ew_errors c + (if err then 1 else 0)\<rparr> (hs_endpoint_window s) \<rparr>)"

definition record_http_attempt :: "string \<Rightarrow> bool \<Rightarrow> bool \<Rightarrow> f64 \<Rightarrow> http_state \<Rightarrow> http_state" where
  "record_http_attempt ep rate_limited success latency_ms s =
     (let m = dget_or (hs_metrics s) ep no_metrics; m1 = m\<lparr> em_calls := em_calls m + 1 \<rparr>;
          m2 = (if rate_limited then m1\<lparr> em_rate_limited := em_rate_limited m1 + 1 \<rparr>
                else if success then m1\<lparr> em_successes := em_successes m1 + 1,
                  em_total_latency_ms := fadd (em_total_latency_ms m1) latency_ms \<rparr>
                else m1\<lparr> em_errors := em_errors m1 + 1 \<rparr>)
      in s\<lparr> hs_metrics := dput ep m2 (hs_metrics s) \<rparr>)"

record endpoint_snapshot =
  es_calls :: nat
  es_successes :: nat
  es_errors :: nat
  es_rate_limited :: nat
  es_avg_latency_ms :: "f64 option"

definition http_metrics_snapshot :: "bool \<Rightarrow> http_state \<Rightarrow> (string, endpoint_snapshot) pdict \<times> http_state" where
  "http_metrics_snapshot reset s =
     (map (\<lambda>(ep, m). (ep, \<lparr>es_calls = em_calls m, es_successes = em_successes m, es_errors = em_errors m,
         es_rate_limited = em_rate_limited m,
         es_avg_latency_ms = (if em_successes m = 0 then None
            else Some (fdiv (em_total_latency_ms m) (fint (int (em_successes m)))))\<rparr>)) (hs_metrics s),
      if reset then s\<lparr> hs_metrics := [] \<rparr> else s)"

definition get_and_reset_rate_limit_hits :: "http_state \<Rightarrow> nat \<times> http_state" where
  "get_and_reset_rate_limit_hits s = (hs_rate_limit_hits s, s\<lparr> hs_rate_limit_hits := 0 \<rparr>)"

subsection \<open>The retry loop\<close>

text \<open>
  One attempt as the loop sees it: the seconds spent in the limiter and on the network, whether
  \<open>reset_rest_latency_window\<close> ran while the call was suspended at each of its three await
  points, the answer, and the seconds slept after a rate-limited one.
\<close>

datatype 'a answer = Ok 'a | RateLimited string | Failed string

record 'a attempt =
  at_limiter_wait :: f64
  at_network :: f64
  at_reset_in_limiter :: bool
  at_reset_in_request :: bool
  at_reset_in_sleep :: bool
  at_answer :: "'a answer"
  at_slept :: f64

datatype http_error = Upstream string | KeyError string

definition reset_if :: "bool \<Rightarrow> http_state \<Rightarrow> http_state" where
  "reset_if happened s = (if happened then reset_rest_latency_window s else s)"

definition await_attempt :: "string \<Rightarrow> 'a attempt \<Rightarrow> http_state \<Rightarrow> http_state" where
  "await_attempt cls a s =
     (let s1 = on_class cls (count_both (\<lambda>c. c\<lparr> rc_attempts := rc_attempts c + 1 \<rparr>)) s;
          s2 = on_class cls (add_component LimiterWait (at_limiter_wait a)) (reset_if (at_reset_in_limiter a) s1)
      in on_class cls (add_component Network (at_network a)) (reset_if (at_reset_in_request a) s2))"

text \<open>\<open>_endpoint_window[endpoint]["..."] += 1\<close> raises when the endpoint has no entry.\<close>

definition bump_endpoint_window ::
  "string \<Rightarrow> (endpoint_window \<Rightarrow> endpoint_window) \<Rightarrow> http_state \<Rightarrow> http_state option" where
  "bump_endpoint_window ep f s =
     (case dget (hs_endpoint_window s) ep of
        None \<Rightarrow> None
      | Some c \<Rightarrow> Some (s\<lparr> hs_endpoint_window := dput ep (f c) (hs_endpoint_window s) \<rparr>))"

text \<open>The result of the loop: the answer or the exception, the \<open>failed\<close> flag, and the sleeps asked for.\<close>

record 'a call_result =
  cl_result :: "http_error + 'a"
  cl_failed :: bool
  cl_backoff_total :: f64
  cl_delays :: "f64 list"

function backoff_loop ::
  "nat \<Rightarrow> string \<Rightarrow> string \<Rightarrow> (nat \<Rightarrow> 'a attempt) \<Rightarrow> nat \<Rightarrow> f64 \<Rightarrow> f64 \<Rightarrow> f64 list \<Rightarrow> http_state
     \<Rightarrow> 'a call_result \<times> http_state" where
  "backoff_loop max_retries cls ep env k delay backoff delays s =
     (let a = env k;
          s1 = await_attempt cls a s;
          finish = (\<lambda>r failed s. (\<lparr>cl_result = r, cl_failed = failed, cl_backoff_total = backoff, cl_delays = delays\<rparr>, s))
      in case at_answer a of
        Ok x \<Rightarrow> finish (Inr x) False (record_http_attempt ep False True (fmul (at_network a) 1000) s1)
      | Failed e \<Rightarrow>
          (let s2 = record_http_attempt ep False False 0 s1 in
           case bump_endpoint_window ep (\<lambda>c. c\<lparr> ew_errors := ew_errors c + 1 \<rparr>) s2 of
             None \<Rightarrow> finish (Inl (KeyError ep)) False s2
           | Some s3 \<Rightarrow> finish (Inl (Upstream e)) True s3)
      | RateLimited e \<Rightarrow>
          (let s2 = record_http_attempt ep True False 0 s1 in
           case bump_endpoint_window ep (\<lambda>c. c\<lparr> ew_rate_limited := ew_rate_limited c + 1 \<rparr>) s2 of
             None \<Rightarrow> finish (Inl (KeyError ep)) False s2
           | Some s3 \<Rightarrow>
               (let s4 = on_class cls (count_both (\<lambda>c. c\<lparr> rc_rate_limited := rc_rate_limited c + 1 \<rparr>)) s3 in
                if k \<ge> max_retries then finish (Inl (Upstream e)) True s4
                else backoff_loop max_retries cls ep env (k + 1) (fmul delay 2) (fadd backoff (at_slept a))
                       (delays @ [delay])
                       (reset_if (at_reset_in_sleep a) (s4\<lparr> hs_rate_limit_hits := hs_rate_limit_hits s4 + 1 \<rparr>)))))"
  by pat_completeness auto
termination
  by (relation "measure (\<lambda>(m, _, _, _, k, _). Suc m - k)") auto

definition call_with_backoff ::
  "nat \<Rightarrow> f64 \<Rightarrow> string \<Rightarrow> string \<Rightarrow> f64 \<Rightarrow> (nat \<Rightarrow> 'a attempt) \<Rightarrow> http_state \<Rightarrow> 'a call_result \<times> http_state" where
  "call_with_backoff max_retries base_delay cls ep elapsed env s =
     (let s1 = count_endpoint_window ep False False (on_class cls (count_both (\<lambda>c. c\<lparr> rc_calls := rc_calls c + 1 \<rparr>)) s);
          (r, s2) = backoff_loop max_retries cls ep env 0 base_delay 0 [] s1;
          s3 = on_class cls (add_component Total elapsed) s2;
          s4 = (if cl_backoff_total r > 0 then on_class cls (add_component Backoff (cl_backoff_total r)) s3 else s3);
          s5 = (if cl_failed r then on_class cls (count_both (\<lambda>c. c\<lparr> rc_errors := rc_errors c + 1 \<rparr>)) s4 else s4)
      in (r, s5))"

end
