(* ===== verification/HttpFacts.thy ===== *)
theory HttpFacts
  imports HttpClient
begin

text \<open>
  The limiter grants no more than its rate and burst allow, and always grants in the end; the retry loop returns
  the first final answer after doubling delays; the endpoint counters add up; and a window
  reset in flight turns a retry into a KeyError.
\<close>

subsection \<open>How many tokens\<close>

lemma fl_err: "\<bar>fl x - x\<bar> \<le> \<bar>x\<bar> * 2 powi (- 53) + 2 powi (- 1075)"
proof (cases "x = 0")
  case False
  show ?thesis
  proof (cases "rexp x - 52 \<ge> - 1074")
    case True
    then have "(2::rat) powi (ulp_exp x - 1) = 2 powi (rexp x + (- 53))" by (simp add: ulp_exp_def)
    also have "\<dots> = 2 powi (rexp x) * 2 powi (- 53)" by (rule powi_2_add)
    also have "\<dots> \<le> \<bar>x\<bar> * 2 powi (- 53)" using rexp_bounds(1) [OF False] by (intro mult_right_mono) simp_all
    finally show ?thesis using fl_error [OF False] powi_2_pos [of "- 1075"] by linarith
  next
    case False
    then have "ulp_exp x - 1 = - 1075" by (simp add: ulp_exp_def)
    with fl_error [OF \<open>x \<noteq> 0\<close>] have "\<bar>fl x - x\<bar> \<le> 2 powi (- 1075)" by simp
    moreover have "0 \<le> \<bar>x\<bar> * (2::rat) powi (- 53)" using powi_2_pos [of "- 53"] by (intro mult_nonneg_nonneg) (auto simp: less_imp_le)
    ultimately show ?thesis by linarith
  qed
qed simp

lemma fl_upper:
  assumes "0 \<le> x" "x \<le> y"
  shows "fl x \<le> y * (1 + 1 / 2 ^ 53) + 1 / 2 ^ 200"
proof -
  have "fl x \<le> fl y" "0 \<le> y" using assms by (simp_all add: fl_mono)
  moreover have "fl y \<le> y + (y * 2 powi (- 53) + 2 powi (- 1075))"
    using fl_err [of y] \<open>0 \<le> y\<close> unfolding abs_of_nonneg [OF \<open>0 \<le> y\<close>] by linarith
  moreover have "(2::rat) powi (- 53) = 1 / 2 ^ 53" by (simp add: power_int_def power_one_over)
  moreover have "(2::rat) powi (- 1075) \<le> 2 powi (- 200)" by (rule powi_2_mono) simp
  moreover have "(2::rat) powi (- 200) = 1 / 2 ^ 200" by (simp add: power_int_def power_one_over)
  ultimately show ?thesis by (simp add: distrib_left)
qed

text \<open>Limits of the rates and bursts meant: at least one token of burst, and no astronomic rate.\<close>

definition limiter_sane :: "limiter \<Rightarrow> bool" where
  "limiter_sane b \<longleftrightarrow> 0 \<le> tb_rate b \<and> tb_rate b \<le> 2 ^ 60 \<and> 1 \<le> tb_burst b \<and> is_f64 (tb_burst b)
     \<and> 0 \<le> tb_tokens b \<and> tb_tokens b \<le> tb_burst b"

lemma limiter_turn_frame:
  "limiter_turn now b = (g, b') \<Longrightarrow> tb_rate b' = tb_rate b \<and> tb_burst b' = tb_burst b \<and> tb_last_refill b' = now
     \<and> tb_waiters b' = tb_waiters b \<and> tb_waiters_high_water b' = tb_waiters_high_water b"
  by (auto simp: limiter_turn_def Let_def split: if_splits)

lemma refill_nonneg:
  assumes "limiter_sane b" "tb_last_refill b \<le> now"
  shows "0 \<le> fsub now (tb_last_refill b)" "0 \<le> fmul (fsub now (tb_last_refill b)) (tb_rate b)"
    "0 \<le> tokens_available now b" "tokens_available now b \<le> tb_burst b" "is_f64 (tokens_available now b)"
proof -
  show d: "0 \<le> fsub now (tb_last_refill b)" using assms(2) by (simp add: fsub_def b64.rnd_nonneg)
  then show inc: "0 \<le> fmul (fsub now (tb_last_refill b)) (tb_rate b)" using assms(1) by (simp add: limiter_sane_def)
  show "0 \<le> tokens_available now b" "tokens_available now b \<le> tb_burst b" "is_f64 (tokens_available now b)"
    using assms(1) inc by (simp_all add: tokens_available_def limiter_sane_def min_def)
qed

lemma limiter_sane_turn:
  assumes "limiter_sane b" "tb_last_refill b \<le> now" "limiter_turn now b = (g, b')"
  shows "limiter_sane b'"
proof -
  let ?t = "tokens_available now b"
  note r = refill_nonneg [OF assms(1,2)]
  have "fsub ?t 1 \<le> ?t" using r(5) unfolding fsub_def is_f64_def by (rule b64.rnd_sub_decreasing) simp
  moreover have "0 \<le> fsub ?t 1" if "1 \<le> ?t" using that by (simp add: fsub_def b64.rnd_nonneg)
  ultimately show ?thesis
    using assms(1,3) r by (auto simp: limiter_turn_def limiter_sane_def Let_def split: if_splits)
qed

text \<open>One turn adds at most the elapsed time times the rate, up to rounding, and a grant takes one off.\<close>

lemma limiter_turn_tokens:
  assumes "limiter_sane b" "tb_last_refill b \<le> now" "limiter_turn now b = (g, b')"
  shows "of_bool g + tb_tokens b' \<le> tb_tokens b + (now - tb_last_refill b) * tb_rate b * (1 + 1 / 2 ^ 50)
     + tb_burst b / 2 ^ 50"
proof -
  define D where "D = now - tb_last_refill b"
  define p where "p = D * tb_rate b"
  let ?d = "fsub now (tb_last_refill b)" and ?r = "tb_rate b" and ?t = "tokens_available now b"
  let ?inc = "fmul ?d ?r"
  note r = refill_nonneg [OF assms(1,2)]
  have r0: "0 \<le> ?r" "?r \<le> 2 ^ 60" and B: "1 \<le> tb_burst b" "0 \<le> tb_tokens b" "tb_tokens b \<le> tb_burst b"
    using assms(1) by (simp_all add: limiter_sane_def)
  have D: "0 \<le> D" using assms(2) by (simp add: D_def)
  have "?d \<le> D * (1 + 1 / 2 ^ 53) + 1 / 2 ^ 200" unfolding fsub_def D_def using assms(2) by (intro fl_upper) simp_all
  then have "?d * ?r \<le> (D * (1 + 1 / 2 ^ 53) + 1 / 2 ^ 200) * ?r" using r0 by (intro mult_right_mono)
  also have "\<dots> = p * (1 + 1 / 2 ^ 53) + ?r * (1 / 2 ^ 200)" by (simp add: p_def algebra_simps)
  also have "\<dots> \<le> p * (1 + 1 / 2 ^ 53) + 1 / 2 ^ 140" using r0 by simp
  finally have "?inc \<le> (p * (1 + 1 / 2 ^ 53) + 1 / 2 ^ 140) * (1 + 1 / 2 ^ 53) + 1 / 2 ^ 200"
    unfolding fmul_def using r(1) r0 by (intro fl_upper) (simp_all add: fsub_def)
  moreover have p: "0 \<le> p" using D r0 by (simp add: p_def)
  ultimately have inc: "?inc \<le> p * (1 + 1 / 2 ^ 51) + 1 / 2 ^ 130" by (simp add: algebra_simps)
  have "fadd (tb_tokens b) ?inc \<le> (tb_tokens b + (p * (1 + 1 / 2 ^ 51) + 1 / 2 ^ 130)) * (1 + 1 / 2 ^ 53) + 1 / 2 ^ 200"
    unfolding fadd_def using B r(2) inc by (intro fl_upper) simp_all
  then have "?t \<le> (tb_tokens b + (p * (1 + 1 / 2 ^ 51) + 1 / 2 ^ 130)) * (1 + 1 / 2 ^ 53) + 1 / 2 ^ 200"
    by (simp add: tokens_available_def)
  also have "\<dots> \<le> tb_tokens b + p * (1 + 1 / 2 ^ 50) + tb_burst b / 2 ^ 52" using B p by (simp add: field_simps)
  finally have t: "?t \<le> tb_tokens b + p * (1 + 1 / 2 ^ 50) + tb_burst b / 2 ^ 52" .
  have "fsub ?t 1 \<le> (?t - 1) * (1 + 1 / 2 ^ 53) + 1 / 2 ^ 200" if "1 \<le> ?t"
    unfolding fsub_def using that by (intro fl_upper) simp_all
  then have "1 + fsub ?t 1 \<le> ?t + tb_burst b / 2 ^ 52" if "1 \<le> ?t" using that r(4) B by (simp add: field_simps)
  with t B show ?thesis
    using assms(3) by (auto simp: limiter_turn_def Let_def p_def D_def field_simps split: if_splits)
qed

lemma acquire_loop_shorter: "acquire_loop ts b = Some (b', rest) \<Longrightarrow> length rest < length ts"
  by (induction ts b arbitrary: b' rest rule: acquire_loop.induct) (force split: prod.splits bool.splits)+

text \<open>Callers one after the other on the readings the clock gives them: how many got through.\<close>

function acquires :: "f64 list \<Rightarrow> limiter \<Rightarrow> nat" where
  "acquires ts b = (case acquire_loop ts b of None \<Rightarrow> 0 | Some (b', rest) \<Rightarrow> Suc (acquires rest b'))"
  by pat_completeness auto
termination
  by (relation "measure (length \<circ> fst)") (auto dest: acquire_loop_shorter)

declare acquires.simps [simp del]

lemma acquires_Nil [simp]: "acquires [] b = 0"
  by (simp add: acquires.simps)

lemma acquires_Cons:
  "acquires (t # ts) b = of_bool (fst (limiter_turn t b)) + acquires ts (snd (limiter_turn t b))"
proof (cases "limiter_turn t b")
  case (Pair g b')
  then show ?thesis
    by (cases g) (simp_all add: acquires.simps [of "t # ts" b] acquires.simps [of ts b'])
qed

lemma acquires_bound:
  assumes "limiter_sane b" "sorted (tb_last_refill b # ts)"
  shows "of_nat (acquires ts b) \<le> tb_tokens b
    + (last (tb_last_refill b # ts) - tb_last_refill b) * tb_rate b * (1 + 1 / 2 ^ 50)
    + of_nat (length ts) * (tb_burst b / 2 ^ 50)"
  using assms
proof (induction ts arbitrary: b)
  case Nil
  then show ?case by (simp add: limiter_sane_def)
next
  case (Cons t ts)
  obtain g b' where turn: "limiter_turn t b = (g, b')" by (cases "limiter_turn t b")
  note frame = limiter_turn_frame [OF turn]
  have le: "tb_last_refill b \<le> t" using Cons.prems by simp
  define c :: rat where "c = 1 + 1 / 2 ^ 50"
  define q where "q = tb_burst b / 2 ^ 50"
  define z where "z = last (t # ts)"
  have ih: "of_nat (acquires ts b') \<le> tb_tokens b' + (z - t) * tb_rate b * c + of_nat (length ts) * q"
    using Cons.IH [OF limiter_sane_turn [OF Cons.prems(1) le turn]] Cons.prems(2) frame
    by (simp add: c_def q_def z_def)
  have step: "of_bool g + tb_tokens b' \<le> tb_tokens b + (t - tb_last_refill b) * tb_rate b * c + q"
    using limiter_turn_tokens [OF Cons.prems(1) le turn] by (simp only: c_def q_def)
  have "(z - t) * tb_rate b * c + (t - tb_last_refill b) * tb_rate b * c = (z - tb_last_refill b) * tb_rate b * c"
    by (simp add: algebra_simps)
  with ih step have "of_bool g + of_nat (acquires ts b')
      \<le> tb_tokens b + (z - tb_last_refill b) * tb_rate b * c + (of_nat (length ts) * q + q)" by linarith
  also have "of_nat (length ts) * q + q = of_nat (length (t # ts)) * q" by (simp add: algebra_simps)
  finally show ?case by (simp add: acquires_Cons turn c_def q_def z_def)
qed

text \<open>
  C17: The limiter keeps its rate. From a bucket with a burst of at least one token, over any
  clock readings that do not run backwards, the callers let through are at most the burst plus the elapsed time times
  the rate, up to float rounding: a relative 2^-50 on the time, and 2^-50 of the burst per
  turn of the loop.
\<close>

theorem limiter_keeps_rate:
  assumes "limiter_sane b" "sorted (tb_last_refill b # ts)"
  shows "of_nat (acquires ts b) \<le> tb_burst b
    + (last (tb_last_refill b # ts) - tb_last_refill b) * tb_rate b * (1 + 1 / 2 ^ 50)
    + of_nat (length ts) * (tb_burst b / 2 ^ 50)"
  using acquires_bound [OF assms] assms(1) by (simp add: limiter_sane_def)

lemma write_limiter_sane: "limiter_sane (new_limiter KALSHI_WRITE_RATE_PER_SEC (Some KALSHI_WRITE_BURST) 0)"
  by (simp add: limiter_sane_def new_limiter_def KALSHI_WRITE_RATE_PER_SEC_def KALSHI_WRITE_BURST_def)

theorem limiter_keeps_rate_witness:
  "rat_of_nat (acquires [0, 2] (new_limiter KALSHI_WRITE_RATE_PER_SEC (Some KALSHI_WRITE_BURST) 0))
     \<le> 1 + 2 * (3/2) * (1 + 1 / 2 ^ 50) + 2 * (1 / 2 ^ 50)"
  using limiter_keeps_rate [OF write_limiter_sane, of "[0, 2]"]
  by (simp add: new_limiter_def KALSHI_WRITE_RATE_PER_SEC_def KALSHI_WRITE_BURST_def)

lemma limiter_turn_late:
  assumes "limiter_sane b" "1 \<le> fmul (fsub now (tb_last_refill b)) (tb_rate b)"
  shows "fst (limiter_turn now b)"
proof -
  have "1 \<le> fadd (tb_tokens b) (fmul (fsub now (tb_last_refill b)) (tb_rate b))"
    unfolding fadd_def using assms by (intro b64.rnd_ge_one) (simp add: limiter_sane_def)
  then show ?thesis using assms(1) by (simp add: limiter_turn_def tokens_available_def limiter_sane_def Let_def)
qed

lemma acquire_loop_late:
  assumes "limiter_sane b" "sorted (tb_last_refill b # ts @ [t, t'])" "1 \<le> fmul (fsub t' t) (tb_rate b)"
  shows "acquire_loop (ts @ [t, t'] @ later) b \<noteq> None"
  using assms
proof (induction ts arbitrary: b)
  case Nil
  obtain g b' where turn: "limiter_turn t b = (g, b')" by (cases "limiter_turn t b")
  have "limiter_sane b'" using Nil.prems limiter_sane_turn [OF _ _ turn] by simp
  then have "fst (limiter_turn t' b')"
    using limiter_turn_late Nil.prems(3) limiter_turn_frame [OF turn] by simp
  then show ?case by (cases g; cases "limiter_turn t' b'") (simp_all add: turn)
next
  case (Cons s ts)
  obtain g b' where turn: "limiter_turn s b = (g, b')" by (cases "limiter_turn s b")
  have "acquire_loop (ts @ [t, t'] @ later) b' \<noteq> None" if "\<not> g"
    using Cons.prems limiter_sane_turn [OF _ _ turn] limiter_turn_frame [OF turn] by (intro Cons.IH) auto
  then show ?case by (cases g) (simp_all add: turn)
qed

lemma acquire_loop_starved: "tb_burst b < 1 \<Longrightarrow> acquire_loop ts b = None"
proof (induction ts arbitrary: b)
  case (Cons t ts)
  then have "limiter_turn t b = (False, b\<lparr> tb_tokens := tokens_available t b, tb_last_refill := t \<rparr>)"
    by (auto simp: limiter_turn_def tokens_available_def Let_def)
  with Cons show ?case by simp
qed simp

text \<open>
  Waiting ends. With a burst of at least one token, \<open>acquire\<close> returns by the first reading
  that comes late enough for the rate to refill one token since the reading before it (the
  sleep the loop asks for is never longer than that); with a burst below one it would never
  return, whatever the clock does. Both limiters of the module have a burst of at least one.
\<close>

theorem acquire_returns:
  assumes "limiter_sane b" "sorted (tb_last_refill b # ts @ [t, t'])" "1 \<le> fmul (fsub t' t) (tb_rate b)" "x < 1"
  shows "(\<exists>b'. acquire (ts @ [t, t'] @ later) b = Some b' \<and> tb_waiters b' = tb_waiters b)
    \<and> acquire ts' (b\<lparr> tb_burst := x \<rparr>) = None"
proof -
  have enter: "limiter_sane (enter_waiters b)" "tb_last_refill (enter_waiters b) = tb_last_refill b"
    "tb_rate (enter_waiters b) = tb_rate b"
    using assms(1) by (simp_all add: limiter_sane_def enter_waiters_def Let_def)
  then obtain b1 rest where b1: "acquire_loop (ts @ [t, t'] @ later) (enter_waiters b) = Some (b1, rest)"
    using acquire_loop_late [of "enter_waiters b" ts t t' later] assms by auto
  have "tb_waiters b2 = tb_waiters c" if "acquire_loop us c = Some (b2, r)" for us c b2 r
    using that by (induction us c rule: acquire_loop.induct)
      (auto split: prod.splits bool.splits dest!: limiter_turn_frame)
  from this [OF b1] have "tb_waiters b1 = tb_waiters b + 1" by (simp add: enter_waiters_def Let_def)
  with b1 show ?thesis
    using assms(4) by (simp add: acquire_def leave_waiters_def acquire_loop_starved enter_waiters_def Let_def)
qed

theorem acquire_returns_witness:
  "\<exists>b'. acquire [0, 1] (new_limiter KALSHI_WRITE_RATE_PER_SEC (Some KALSHI_WRITE_BURST) 0) = Some b'"
proof -
  have "1 \<le> fmul (fsub 1 0) (tb_rate (new_limiter KALSHI_WRITE_RATE_PER_SEC (Some KALSHI_WRITE_BURST) 0))"
    unfolding fmul_def by (rule b64.rnd_ge_one) (simp add: new_limiter_def KALSHI_WRITE_RATE_PER_SEC_def)
  with acquire_returns [OF write_limiter_sane, of "[]" 0 1 0 "[]"]
  show ?thesis by (auto simp: new_limiter_def)
qed

subsection \<open>The retry loop\<close>

definition undisturbed :: "'a attempt \<Rightarrow> bool" where
  "undisturbed a \<longleftrightarrow> \<not> at_reset_in_limiter a \<and> \<not> at_reset_in_request a \<and> \<not> at_reset_in_sleep a"

definition is_rate_limited :: "'a answer \<Rightarrow> bool" where
  "is_rate_limited a = (case a of RateLimited e \<Rightarrow> True | _ \<Rightarrow> False)"

fun settled_result :: "'a answer \<Rightarrow> http_error + 'a" where
  "settled_result (Ok x) = Inr x"
| "settled_result (RateLimited e) = Inl (Upstream e)"
| "settled_result (Failed e) = Inl (Upstream e)"

fun doubled :: "nat \<Rightarrow> f64 \<Rightarrow> f64 list" where
  "doubled 0 d = []"
| "doubled (Suc n) d = d # doubled n (fmul d 2)"

lemma length_doubled [simp]: "length (doubled n d) = n"
  by (induction n d rule: doubled.induct) simp_all

lemma on_class_frame [simp]:
  "hs_endpoint_window (on_class c f s) = hs_endpoint_window s" "hs_metrics (on_class c f s) = hs_metrics s"
  "hs_rate_limit_hits (on_class c f s) = hs_rate_limit_hits s"
  by (simp_all add: on_class_def)

lemma record_http_attempt_frame [simp]:
  "hs_endpoint_window (record_http_attempt ep r ok l s) = hs_endpoint_window s"
  "hs_rate_limit_hits (record_http_attempt ep r ok l s) = hs_rate_limit_hits s"
  by (simp_all add: record_http_attempt_def Let_def)

lemma reset_if_frame [simp]:
  "\<not> h \<Longrightarrow> reset_if h s = s" "hs_metrics (reset_if h s) = hs_metrics s"
  "hs_rate_limit_hits (reset_if h s) = hs_rate_limit_hits s"
  by (simp_all add: reset_if_def reset_rest_latency_window_def)

lemma await_attempt_frame:
  "undisturbed a \<Longrightarrow> hs_endpoint_window (await_attempt c a s) = hs_endpoint_window s"
  "hs_rate_limit_hits (await_attempt c a s) = hs_rate_limit_hits s"
  "hs_metrics (await_attempt c a s) = hs_metrics s"
  by (simp_all add: await_attempt_def undisturbed_def Let_def)

lemma bump_endpoint_window_Some:
  assumes "ep \<in> set (dkeys (hs_endpoint_window s))"
  obtains s' where "bump_endpoint_window ep f s = Some s'" "ep \<in> set (dkeys (hs_endpoint_window s'))"
    "hs_rate_limit_hits s' = hs_rate_limit_hits s"
proof -
  obtain c where "dget (hs_endpoint_window s) ep = Some c" using assms by (cases rule: dict_keys_cases [of ep]) auto
  then show ?thesis using that by (simp add: bump_endpoint_window_def)
qed

declare backoff_loop.simps [simp del]

text \<open>One round on a final answer, and on a rate-limited one with retries left.\<close>

lemma backoff_loop_final:
  assumes "undisturbed (env k)" "ep \<in> set (dkeys (hs_endpoint_window s))"
    and "is_rate_limited (at_answer (env k)) \<Longrightarrow> m \<le> k"
  shows "\<exists>s'. backoff_loop m cls ep env k delay backoff delays s =
      (\<lparr>cl_result = settled_result (at_answer (env k)), cl_failed = isl (settled_result (at_answer (env k))),
        cl_backoff_total = backoff, cl_delays = delays\<rparr>, s')
    \<and> hs_rate_limit_hits s' = hs_rate_limit_hits s"
proof -
  let ?s1 = "await_attempt cls (env k) s"
  have w: "ep \<in> set (dkeys (hs_endpoint_window (record_http_attempt ep r ok l ?s1)))" for r ok l
    using assms(1,2) by (simp add: await_attempt_frame)
  show ?thesis
  proof (cases "at_answer (env k)")
    case (Ok x)
    then show ?thesis
      by (subst backoff_loop.simps) (simp add: Let_def await_attempt_frame)
  next
    case (RateLimited e)
    then have "m \<le> k" using assms(3) by (simp add: is_rate_limited_def)
    moreover obtain s3 where "bump_endpoint_window ep (\<lambda>c. c\<lparr>ew_rate_limited := ew_rate_limited c + 1\<rparr>)
        (record_http_attempt ep True False 0 ?s1) = Some s3"
      "hs_rate_limit_hits s3 = hs_rate_limit_hits (record_http_attempt ep True False 0 ?s1)"
      by (rule bump_endpoint_window_Some [OF w])
    ultimately show ?thesis using RateLimited
      by (subst backoff_loop.simps) (simp add: Let_def await_attempt_frame)
  next
    case (Failed e)
    obtain s3 where "bump_endpoint_window ep (\<lambda>c. c\<lparr>ew_errors := ew_errors c + 1\<rparr>)
        (record_http_attempt ep False False 0 ?s1) = Some s3"
      "hs_rate_limit_hits s3 = hs_rate_limit_hits (record_http_attempt ep False False 0 ?s1)"
      by (rule bump_endpoint_window_Some [OF w])
    then show ?thesis using Failed
      by (subst backoff_loop.simps) (simp add: Let_def await_attempt_frame)
  qed
qed

lemma backoff_loop_retry:
  assumes "undisturbed (env k)" "ep \<in> set (dkeys (hs_endpoint_window s))"
    and "is_rate_limited (at_answer (env k))" "k < m"
  obtains s' where "backoff_loop m cls ep env k delay backoff delays s =
      backoff_loop m cls ep env (k + 1) (fmul delay 2) (fadd backoff (at_slept (env k))) (delays @ [delay]) s'"
    "ep \<in> set (dkeys (hs_endpoint_window s'))" "hs_rate_limit_hits s' = hs_rate_limit_hits s + 1"
proof -
  let ?s1 = "await_attempt cls (env k) s"
  obtain e where e: "at_answer (env k) = RateLimited e"
    using assms(3) by (auto simp: is_rate_limited_def split: answer.splits)
  have w: "ep \<in> set (dkeys (hs_endpoint_window (record_http_attempt ep True False 0 ?s1)))"
    using assms(1,2) by (simp add: await_attempt_frame)
  obtain s3 where s3: "bump_endpoint_window ep (\<lambda>c. c\<lparr>ew_rate_limited := ew_rate_limited c + 1\<rparr>)
        (record_http_attempt ep True False 0 ?s1) = Some s3" "ep \<in> set (dkeys (hs_endpoint_window s3))"
      "hs_rate_limit_hits s3 = hs_rate_limit_hits (record_http_attempt ep True False 0 ?s1)"
    by (rule bump_endpoint_window_Some [OF w])
  have ns: "\<not> at_reset_in_sleep (env k)" using assms(1) by (simp add: undisturbed_def)
  let ?s4 = "on_class cls (count_both (\<lambda>c. c\<lparr>rc_rate_limited := rc_rate_limited c + 1\<rparr>)) s3"
  show ?thesis
    by (rule that [of "?s4\<lparr>hs_rate_limit_hits := hs_rate_limit_hits ?s4 + 1\<rparr>"], subst backoff_loop.simps)
      (use s3 e ns assms(4) in \<open>simp_all add: Let_def await_attempt_frame\<close>)
qed

lemma backoff_loop_outcome:
  assumes "\<forall>i. j \<le> i \<and> i \<le> k \<longrightarrow> undisturbed (env i)" "ep \<in> set (dkeys (hs_endpoint_window s))"
    and "\<forall>i. j \<le> i \<and> i < k \<longrightarrow> is_rate_limited (at_answer (env i))" "j \<le> k" "k \<le> m"
    and "is_rate_limited (at_answer (env k)) \<Longrightarrow> k = m"
  shows "\<exists>r s'. backoff_loop m cls ep env j delay backoff delays s = (r, s')
    \<and> cl_result r = settled_result (at_answer (env k)) \<and> cl_failed r = isl (cl_result r)
    \<and> cl_delays r = delays @ doubled (k - j) delay \<and> hs_rate_limit_hits s' = hs_rate_limit_hits s + (k - j)"
  using assms
proof (induction "k - j" arbitrary: j delay backoff delays s)
  case 0
  then have "j = k" by simp
  with 0 backoff_loop_final [of env k ep s m cls delay backoff delays] show ?case by fastforce
next
  case (Suc n)
  then have jk: "j < k" by simp
  obtain s1 where s1: "backoff_loop m cls ep env j delay backoff delays s =
      backoff_loop m cls ep env (j + 1) (fmul delay 2) (fadd backoff (at_slept (env j))) (delays @ [delay]) s1"
    "ep \<in> set (dkeys (hs_endpoint_window s1))" "hs_rate_limit_hits s1 = hs_rate_limit_hits s + 1"
    by (rule backoff_loop_retry [of env j ep s m cls delay backoff delays]) (use Suc.prems jk in auto)
  have "k - j = Suc (k - (j + 1))" using jk by simp
  then show ?case
    using Suc.hyps(1) [of "j + 1" s1 "fmul delay 2" "fadd backoff (at_slept (env j))" "delays @ [delay]"]
      Suc.hyps(2) Suc.prems jk s1 by auto
qed


definition example_attempt :: "'a answer \<Rightarrow> bool \<Rightarrow> 'a attempt" where
  "example_attempt ans reset = \<lparr>at_limiter_wait = 0, at_network = 0, at_reset_in_limiter = False,
     at_reset_in_request = reset, at_reset_in_sleep = False, at_answer = ans, at_slept = 0\<rparr>"

text \<open>Two rate limits, then a success.\<close>

definition example_env_ok :: "nat \<Rightarrow> nat attempt" where
  "example_env_ok k = (if k < 2 then example_attempt (RateLimited ''429'') False else example_attempt (Ok 7) False)"


definition reset_env :: "nat \<Rightarrow> nat attempt" where
  "reset_env k = (if k = 0 then example_attempt (RateLimited ''429'') True else example_attempt (Ok 7) False)"

text \<open>
  A minute boundary kills a retry. \<open>reset_rest_latency_window\<close> clears the endpoint table
  a call in flight still writes to: with a reset during the first request, the 429 it is answered
  becomes a \<open>KeyError\<close> that propagates although four retries are left and the next attempt
  would succeed; the call is not flagged as failed, so the class error count stays 0.
\<close>

theorem window_reset_kills_retry:
  "cl_result (fst (call_with_backoff 4 1 ''other'' ''markets'' 0 reset_env init_http_state)) = Inl (KeyError ''markets'')
   \<and> cl_delays (fst (call_with_backoff 4 1 ''other'' ''markets'' 0 reset_env init_http_state)) = []
   \<and> map_option (rc_errors \<circ> cs_lifetime_counts)
       (dget (hs_class_stats (snd (call_with_backoff 4 1 ''other'' ''markets'' 0 reset_env init_http_state))) ''other'')
     = Some 0"
proof -
  have "\<exists>s'. call_with_backoff 4 1 ''other'' ''markets'' 0 reset_env init_http_state =
      (\<lparr>cl_result = Inl (KeyError ''markets''), cl_failed = False, cl_backoff_total = 0, cl_delays = []\<rparr>, s')
    \<and> map_option (rc_errors \<circ> cs_lifetime_counts) (dget (hs_class_stats s') ''other'') = Some 0"
    by (simp add: call_with_backoff_def backoff_loop.simps [of 4 _ _ _ 0] reset_env_def example_attempt_def Let_def
        await_attempt_def reset_if_def reset_rest_latency_window_def bump_endpoint_window_def init_http_state_def
        on_class_def record_http_attempt_def count_endpoint_window_def dget_or_def count_both_def
        add_component_def reset_class_window_def new_class_stats_def no_counts_def)
  then show ?thesis by (elim exE conjE) simp
qed

subsection \<open>The counters add up\<close>

datatype 'a http_op =
    HttpCall nat f64 string string f64 "nat \<Rightarrow> 'a attempt"
  | HttpResetWindow
  | HttpSnapshot bool
  | HttpTakeHits

fun http_step :: "'a http_op \<Rightarrow> http_state \<Rightarrow> http_state" where
  "http_step (HttpCall m d cls ep t env) s = snd (call_with_backoff m d cls ep t env s)"
| "http_step HttpResetWindow s = reset_rest_latency_window s"
| "http_step (HttpSnapshot r) s = snd (http_metrics_snapshot r s)"
| "http_step HttpTakeHits s = snd (get_and_reset_rate_limit_hits s)"

definition metrics_balanced :: "endpoint_metrics \<Rightarrow> bool" where
  "metrics_balanced m \<longleftrightarrow> em_calls m = em_successes m + em_errors m + em_rate_limited m"

definition all_balanced :: "http_state \<Rightarrow> bool" where
  "all_balanced s \<longleftrightarrow> (\<forall>ep m. dget (hs_metrics s) ep = Some m \<longrightarrow> metrics_balanced m) \<and> dict_ok (hs_metrics s)"

lemma all_balanced_record: "all_balanced s \<Longrightarrow> all_balanced (record_http_attempt ep r ok l s)"
  by (auto simp: all_balanced_def record_http_attempt_def metrics_balanced_def no_metrics_def Let_def dget_or_def
      split: option.splits)

lemma all_balanced_cong: "hs_metrics s' = hs_metrics s \<Longrightarrow> all_balanced s' = all_balanced s"
  by (simp add: all_balanced_def)

lemma bump_endpoint_window_metrics: "bump_endpoint_window ep f s = Some s' \<Longrightarrow> hs_metrics s' = hs_metrics s"
  by (auto simp: bump_endpoint_window_def split: option.splits)

lemma all_balanced_backoff_loop:
  "all_balanced s \<Longrightarrow> all_balanced (snd (backoff_loop m cls ep env k delay backoff delays s))"
proof (induction "Suc m - k" arbitrary: k delay backoff delays s rule: less_induct)
  case less
  let ?s1 = "await_attempt cls (env k) s"
  have rec: "all_balanced (record_http_attempt ep r ok l ?s1)" for r ok l
    using less.prems by (intro all_balanced_record) (simp add: all_balanced_def await_attempt_frame)
  have bump: "all_balanced s3" if "bump_endpoint_window ep f (record_http_attempt ep r ok l ?s1) = Some s3"
    for f r ok l s3
    using rec all_balanced_cong [OF bump_endpoint_window_metrics [OF that]] by simp
  show ?case
  proof (cases "at_answer (env k)")
    case (Ok x)
    with rec show ?thesis by (subst backoff_loop.simps) (simp add: Let_def)
  next
    case (Failed e)
    show ?thesis
    proof (cases "bump_endpoint_window ep (\<lambda>c. c\<lparr>ew_errors := ew_errors c + 1\<rparr>) (record_http_attempt ep False False 0 ?s1)")
      case None
      with rec Failed show ?thesis by (subst backoff_loop.simps) (simp add: Let_def)
    next
      case (Some s3)
      with bump [OF Some] Failed show ?thesis by (subst backoff_loop.simps) (simp add: Let_def)
    qed
  next
    case (RateLimited e)
    let ?b = "bump_endpoint_window ep (\<lambda>c. c\<lparr>ew_rate_limited := ew_rate_limited c + 1\<rparr>)
        (record_http_attempt ep True False 0 ?s1)"
    show ?thesis
    proof (cases ?b)
      case None
      with rec RateLimited show ?thesis by (subst backoff_loop.simps) (simp add: Let_def)
    next
      case (Some s3)
      have s3: "all_balanced s3" by (rule bump [OF Some])
      let ?s4 = "on_class cls (count_both (\<lambda>c. c\<lparr>rc_rate_limited := rc_rate_limited c + 1\<rparr>)) s3"
      have s4: "all_balanced ?s4" using s3 by (simp add: all_balanced_def)
      show ?thesis
      proof (cases "m \<le> k")
        case True
        with s4 RateLimited Some show ?thesis by (subst backoff_loop.simps) (simp add: Let_def)
      next
        case False
        have "all_balanced (snd (backoff_loop m cls ep env (k + 1) (fmul delay 2) (fadd backoff (at_slept (env k)))
            (delays @ [delay])
            (reset_if (at_reset_in_sleep (env k)) (?s4\<lparr> hs_rate_limit_hits := hs_rate_limit_hits ?s4 + 1 \<rparr>))))"
          using False s4 by (intro less.hyps) (auto simp: all_balanced_def)
        with RateLimited Some False show ?thesis
          by (subst backoff_loop.simps) (simp add: Let_def)
      qed
    qed
  qed
qed

text \<open>
  Every attempt is accounted for: in every state reached by any sequence of calls (retried,
  failed, reset in flight), window resets and snapshots, the attempts recorded for an endpoint are
  its successes plus its errors plus its rate-limited answers.
\<close>

theorem http_metrics_add_up:
  "list_all (\<lambda>(ep, m). em_calls m = em_successes m + em_errors m + em_rate_limited m)
     (hs_metrics (fold http_step ops init_http_state))"
proof -
  have step: "all_balanced (http_step op s)" if "all_balanced s" for op :: "'a http_op" and s
  proof (cases op)
    case (HttpCall m d cls ep t env)
    let ?s1 = "count_endpoint_window ep False False (on_class cls (count_both (\<lambda>c. c\<lparr>rc_calls := rc_calls c + 1\<rparr>)) s)"
    have "all_balanced ?s1" using that by (simp add: all_balanced_def count_endpoint_window_def Let_def)
    from all_balanced_backoff_loop [OF this, of m cls ep env 0 d 0 "[]"] show ?thesis
      by (cases "backoff_loop m cls ep env 0 d 0 [] ?s1") (simp add: HttpCall call_with_backoff_def Let_def all_balanced_def)
  qed (use that in \<open>auto simp: all_balanced_def reset_rest_latency_window_def http_metrics_snapshot_def
        get_and_reset_rate_limit_hits_def\<close>)
  have run: "all_balanced (fold http_step ops s)" if "all_balanced s" for s
    using that by (induction ops arbitrary: s) (simp_all add: step)
  have "all_balanced (fold http_step ops init_http_state)"
    by (rule run) (simp add: all_balanced_def init_http_state_def)
  then show ?thesis
    by (auto simp: all_balanced_def metrics_balanced_def list_all_iff dget_iff_in_set [symmetric])
qed

end
