(* ===== verification/SignalLog.thy ===== *)
theory SignalLog
  imports TitleCache HistoryPush "HOL-Library.List_Lexorder" "HOL-Library.Char_ord" "HOL-Library.Product_Lexorder"
begin

text \<open>
  \<open>services/signal_log.py\<close>: the persisted whale signals, their resolution, the accuracy
  statistics per series and overall, and the detection of same-actor clusters. The table is the
  list of its rows in rowid order; a query's ORDER BY breaks ties by rowid. Times and days
  enter as the float expressions of the code; JSON columns hold the value they serialise.
\<close>

record signal_row =
  sr_id :: int
  sr_ticker :: string
  sr_series :: string
  sr_side :: string
  sr_size :: int
  sr_confidence :: f64
  sr_source :: string
  sr_seen_at :: f64
  sr_resolved :: int
  sr_correct :: "int option"
  sr_resolved_at :: "f64 option"
  sr_factors :: "json option"
  sr_raw_notional_usd :: "f64 option"
  sr_raw_spread :: "f64 option"
  sr_raw_volume_24h :: "f64 option"
  sr_last_checked_at :: "f64 option"
  sr_price :: "f64 option"
  sr_excluded :: int

record signal_log =
  sl_rows :: "signal_row list"
  sl_next_id :: int
  sl_history :: history_push

definition empty_signal_log :: signal_log where
  "empty_signal_log = \<lparr>sl_rows = [], sl_next_id = 1, sl_history = init_history_push\<rparr>"

definition update_rows :: "(signal_row \<Rightarrow> bool) \<Rightarrow> (signal_row \<Rightarrow> signal_row) \<Rightarrow> signal_log \<Rightarrow> signal_log" where
  "update_rows P f l = l\<lparr> sl_rows := map (\<lambda>r. if P r then f r else r) (sl_rows l) \<rparr>"

subsection \<open>Writing\<close>

record raw_context =
  rx_notional_usd :: "f64 option"
  rx_spread :: "f64 option"
  rx_volume_24h :: "f64 option"

definition log_signal ::
  "title_cache \<Rightarrow> string \<Rightarrow> string \<Rightarrow> int \<Rightarrow> f64 \<Rightarrow> string \<Rightarrow> f64 option \<Rightarrow> f64 \<Rightarrow> json option
     \<Rightarrow> raw_context \<Rightarrow> f64 option \<Rightarrow> bool \<Rightarrow> signal_log \<Rightarrow> signal_log" where
  "log_signal tc ticker side sz confidence source seen_at now factors raw price excluded l =
     l\<lparr> sl_rows := sl_rows l @
          [\<lparr>sr_id = sl_next_id l, sr_ticker = ticker, sr_series = series_of tc ticker, sr_side = side,
            sr_size = sz, sr_confidence = confidence, sr_source = source,
            sr_seen_at = (case seen_at of None \<Rightarrow> now | Some t \<Rightarrow> if t = 0 then now else t),
            sr_resolved = 0, sr_correct = None, sr_resolved_at = None, sr_factors = factors,
            sr_raw_notional_usd = rx_notional_usd raw, sr_raw_spread = rx_spread raw,
            sr_raw_volume_24h = rx_volume_24h raw, sr_last_checked_at = None, sr_price = price,
            sr_excluded = (if excluded then 1 else 0)\<rparr>],
        sl_next_id := sl_next_id l + 1 \<rparr>"

definition mark_excluded_range :: "f64 \<Rightarrow> f64 \<Rightarrow> bool \<Rightarrow> signal_log \<Rightarrow> nat \<times> signal_log" where
  "mark_excluded_range after before excluded l =
     (let P = (\<lambda>r. sr_seen_at r > after \<and> sr_seen_at r \<le> before) in
      (length (filter P (sl_rows l)),
       update_rows P (\<lambda>r. r\<lparr> sr_excluded := (if excluded then 1 else 0) \<rparr>) l))"

subsection \<open>Evidence for a new print\<close>

definition recent_sides_for_ticker :: "string \<Rightarrow> f64 \<Rightarrow> signal_log \<Rightarrow> string list" where
  "recent_sides_for_ticker ticker since l =
     map sr_side (filter (\<lambda>r. sr_ticker r = ticker \<and> sr_seen_at r \<ge> since) (sl_rows l))"

definition size_ratio_ok :: "f64 \<Rightarrow> f64 \<Rightarrow> f64 \<Rightarrow> bool" where
  "size_ratio_ok a b max_ratio = (let lo = min a b; hi = max a b in lo > 0 \<and> fdiv hi lo \<le> max_ratio)"

definition cluster_factor :: "string \<Rightarrow> string \<Rightarrow> f64 \<Rightarrow> f64 \<Rightarrow> f64 \<Rightarrow> signal_log \<Rightarrow> f64" where
  "cluster_factor ticker side sz since max_ratio l =
     (let n = length (filter (\<lambda>r. sr_ticker r = ticker \<and> sr_side r = side \<and> sr_seen_at r \<ge> since
                  \<and> size_ratio_ok (of_int (sr_size r)) sz max_ratio) (sl_rows l))
      in min (fdiv (fint (int n)) 3) 1)"

subsection \<open>Resolution\<close>

definition recheck_due :: "f64 \<Rightarrow> f64 \<Rightarrow> f64 \<Rightarrow> signal_row \<Rightarrow> bool" where
  "recheck_due older_than_sec recheck_cooldown_sec now r \<longleftrightarrow>
     sr_resolved r = 0 \<and> sr_seen_at r < fsub now older_than_sec
     \<and> (case sr_last_checked_at r of None \<Rightarrow> True | Some t \<Rightarrow> t < fsub now recheck_cooldown_sec)"

definition unresolved_batch ::
  "nat \<Rightarrow> f64 \<Rightarrow> f64 \<Rightarrow> f64 \<Rightarrow> signal_log \<Rightarrow> (int \<times> string \<times> string) list \<times> signal_log" where
  "unresolved_batch limit older_than_sec recheck_cooldown_sec now l =
     (let rows = take limit (sort_key sr_seen_at
             (filter (recheck_due older_than_sec recheck_cooldown_sec now) (sl_rows l)));
          ids = map sr_id rows
      in (map (\<lambda>r. (sr_id r, sr_ticker r, sr_side r)) rows,
          update_rows (\<lambda>r. sr_id r \<in> set ids) (\<lambda>r. r\<lparr> sr_last_checked_at := Some now \<rparr>) l))"

definition grade :: "bool \<Rightarrow> f64 \<Rightarrow> signal_row \<Rightarrow> signal_row" where
  "grade correct now r = r\<lparr> sr_resolved := 1, sr_correct := Some (if correct then 1 else 0), sr_resolved_at := Some now \<rparr>"

definition push_history :: "f64 \<Rightarrow> signal_log \<Rightarrow> signal_log" where
  "push_history now l = l\<lparr> sl_history := mark_history_changed now (sl_history l) \<rparr>"

definition mark_resolved :: "int \<Rightarrow> bool \<Rightarrow> f64 \<Rightarrow> signal_log \<Rightarrow> signal_log" where
  "mark_resolved i correct now l = push_history now (update_rows (\<lambda>r. sr_id r = i) (grade correct now) l)"

definition resolve_from_market_results :: "string \<Rightarrow> string \<Rightarrow> f64 \<Rightarrow> signal_log \<Rightarrow> nat \<times> signal_log" where
  "resolve_from_market_results ticker result now l =
     (let r = str_lower (str_strip result) in
      if r \<noteq> ''yes'' \<and> r \<noteq> ''no'' then (0, l)
      else let P = (\<lambda>x. sr_ticker x = ticker \<and> sr_resolved x = 0); n = length (filter P (sl_rows l))
        in if n = 0 then (0, l)
           else (n, push_history now (update_rows P (\<lambda>x. grade (r = sr_side x) now x) l)))"

subsection \<open>Statistics\<close>

record series_record =
  se_series :: string
  se_window_days :: int
  se_total_signals :: nat
  se_resolved :: nat
  se_correct :: int
  se_win_rate :: "f64 option"

definition since_days :: "int \<Rightarrow> f64 \<Rightarrow> f64" where
  "since_days days now = fsub now (fint (days * 86400))"

definition counted :: "f64 \<Rightarrow> signal_row \<Rightarrow> bool" where
  "counted since r \<longleftrightarrow> sr_seen_at r \<ge> since \<and> sr_resolved r = 1 \<and> sr_excluded r = 0"

text \<open>\<open>SUM(correct)\<close> skips NULLs; NULL over no rows reads as 0.\<close>

definition correct_sum :: "signal_row list \<Rightarrow> int" where
  "correct_sum rs = sum_list (map (\<lambda>r. case sr_correct r of None \<Rightarrow> 0 | Some c \<Rightarrow> c) rs)"

text \<open>\<open>round(correct / resolved * 100, 1)\<close>, with int true division.\<close>

definition win_rate :: "nat \<Rightarrow> int \<Rightarrow> f64 option" where
  "win_rate resolved correct =
     (if resolved = 0 then None else Some (py_round 1 (fmul (fl (of_int correct / of_nat resolved)) 100)))"

definition stats_of_series :: "string \<Rightarrow> int \<Rightarrow> f64 \<Rightarrow> signal_log \<Rightarrow> series_record" where
  "stats_of_series series days since l =
     (let total = length (filter (\<lambda>r. sr_series r = series \<and> sr_seen_at r \<ge> since) (sl_rows l));
          rs = filter (\<lambda>r. sr_series r = series \<and> counted since r) (sl_rows l)
      in \<lparr>se_series = series, se_window_days = days, se_total_signals = total, se_resolved = length rs,
          se_correct = correct_sum rs, se_win_rate = win_rate (length rs) (correct_sum rs)\<rparr>)"

definition series_stats :: "title_cache \<Rightarrow> string \<Rightarrow> int \<Rightarrow> f64 \<Rightarrow> signal_log \<Rightarrow> series_record" where
  "series_stats tc ticker days now l = stats_of_series (series_of tc ticker) days (since_days days now) l"

definition series_stats_bulk ::
  "title_cache \<Rightarrow> string list \<Rightarrow> int \<Rightarrow> f64 \<Rightarrow> signal_log \<Rightarrow> (string, series_record) pdict" where
  "series_stats_bulk tc tickers days now l =
     (if tickers = [] then []
      else let since = since_days days now;
               series_by_ticker = fold (\<lambda>t d. dput t (series_of tc t) d) tickers [];
               stats_by_series = fold (\<lambda>s d. dput s (stats_of_series s days since l) d)
                 (remdups (map snd series_by_ticker)) []
        in concat (map (\<lambda>(t, s). case dget stats_by_series s of None \<Rightarrow> [] | Some r \<Rightarrow> [(t, r)]) series_by_ticker))"

definition resolved_signals_with_series :: "int \<Rightarrow> f64 \<Rightarrow> signal_log \<Rightarrow> (string \<times> bool) list" where
  "resolved_signals_with_series days now l =
     map (\<lambda>r. (sr_series r, case sr_correct r of None \<Rightarrow> False | Some c \<Rightarrow> c \<noteq> 0))
       (filter (counted (since_days days now)) (sl_rows l))"

record series_summary =
  sy_series :: string
  sy_window_days :: int
  sy_resolved :: nat
  sy_correct :: int
  sy_win_rate :: "f64 option"

definition all_series_stats :: "int \<Rightarrow> f64 \<Rightarrow> signal_log \<Rightarrow> (string, series_summary) pdict" where
  "all_series_stats days now l =
     (let rs = filter (counted (since_days days now)) (sl_rows l) in
      map (\<lambda>s. let g = filter (\<lambda>r. sr_series r = s) rs in
          (s, \<lparr>sy_series = s, sy_window_days = days, sy_resolved = length g, sy_correct = correct_sum g,
               sy_win_rate = win_rate (length g) (correct_sum g)\<rparr>))
        (remdups (map sr_series rs)))"

record log_stats =
  lo_window_days :: int
  lo_total_signals :: nat
  lo_resolved :: nat
  lo_correct :: int
  lo_win_rate :: "f64 option"
  lo_tracking_since :: "f64 option"

definition log_stats_of :: "int \<Rightarrow> f64 \<Rightarrow> signal_log \<Rightarrow> log_stats" where
  "log_stats_of days now l =
     (let since = since_days days now; rs = filter (counted since) (sl_rows l) in
      \<lparr>lo_window_days = days, lo_total_signals = length (filter (\<lambda>r. sr_seen_at r \<ge> since) (sl_rows l)),
       lo_resolved = length rs, lo_correct = correct_sum rs, lo_win_rate = win_rate (length rs) (correct_sum rs),
       lo_tracking_since = (if sl_rows l = [] then None else Some (Min (set (map sr_seen_at (sl_rows l)))))\<rparr>)"


subsection \<open>Reading and clearing\<close>

definition after_opt :: "f64 option \<Rightarrow> signal_row \<Rightarrow> bool" where
  "after_opt since r \<longleftrightarrow> (case since of None \<Rightarrow> True | Some t \<Rightarrow> sr_seen_at r \<ge> t)"

definition signal_count_for_series_since :: "string \<Rightarrow> f64 \<Rightarrow> signal_log \<Rightarrow> nat" where
  "signal_count_for_series_since series since l =
     length (filter (\<lambda>r. sr_series r = series \<and> sr_seen_at r \<ge> since) (sl_rows l))"

definition count_for_ticker :: "string \<Rightarrow> f64 option \<Rightarrow> signal_log \<Rightarrow> nat" where
  "count_for_ticker ticker since l =
     length (filter (\<lambda>r. sr_ticker r = ticker \<and> after_opt since r) (sl_rows l))"

text \<open>The index on \<open>(ticker, seen_at)\<close> is read backwards, so ties come in descending rowid order.\<close>

definition for_ticker :: "string \<Rightarrow> f64 option \<Rightarrow> nat \<Rightarrow> signal_log \<Rightarrow> signal_row list" where
  "for_ticker ticker since limit l =
     take limit (rev (sort_key sr_seen_at
       (filter (\<lambda>r. sr_ticker r = ticker \<and> after_opt since r) (sl_rows l))))"

definition clear_all_signals :: "signal_log \<Rightarrow> signal_log" where
  "clear_all_signals l = l\<lparr> sl_rows := [] \<rparr>"

definition range_where :: "f64 option \<Rightarrow> f64 option \<Rightarrow> signal_row \<Rightarrow> bool" where
  "range_where before after r \<longleftrightarrow>
     (case after of None \<Rightarrow> True | Some a \<Rightarrow> sr_seen_at r > a) \<and>
     (case before of None \<Rightarrow> True | Some b \<Rightarrow> sr_seen_at r \<le> b)"

definition count_signal_range :: "f64 option \<Rightarrow> f64 option \<Rightarrow> signal_log \<Rightarrow> nat" where
  "count_signal_range before after l = length (filter (range_where before after) (sl_rows l))"

definition clear_signal_range :: "f64 option \<Rightarrow> f64 option \<Rightarrow> signal_log \<Rightarrow> nat \<times> signal_log" where
  "clear_signal_range before after l =
     (count_signal_range before after l,
      l\<lparr> sl_rows := filter (\<lambda>r. \<not> range_where before after r) (sl_rows l) \<rparr>)"

definition recent_signals :: "nat \<Rightarrow> nat \<Rightarrow> bool \<Rightarrow> signal_log \<Rightarrow> signal_row list" where
  "recent_signals limit offset resolved_only l =
     take limit (drop offset (sort_key (\<lambda>r. - sr_seen_at r)
       (filter (\<lambda>r. resolved_only \<longrightarrow> sr_resolved r = 1) (sl_rows l))))"

definition total_signal_count :: "bool \<Rightarrow> signal_log \<Rightarrow> nat" where
  "total_signal_count resolved_only l = length (filter (\<lambda>r. resolved_only \<longrightarrow> sr_resolved r = 1) (sl_rows l))"

definition with_factors :: "signal_row \<Rightarrow> bool" where
  "with_factors r \<longleftrightarrow> sr_resolved r = 1 \<and> sr_excluded r = 0 \<and> sr_factors r \<noteq> None"

definition resolved_with_factors_count :: "signal_log \<Rightarrow> nat" where
  "resolved_with_factors_count l = length (filter with_factors (sl_rows l))"

text \<open>The query of \<open>_resolved_with_factors_query\<close>; the JSON column parses back to the value it serialised.\<close>

definition resolved_with_factors_rows :: "f64 option \<Rightarrow> signal_log \<Rightarrow> signal_row list" where
  "resolved_with_factors_rows since l =
     sort_key sr_seen_at (filter (\<lambda>r. with_factors r \<and> after_opt since r) (sl_rows l))"

record graded_factors =
  gf_confidence :: f64
  gf_correct :: bool
  gf_factors :: json
  gf_raw_notional_usd :: "f64 option"
  gf_raw_spread :: "f64 option"
  gf_raw_volume_24h :: "f64 option"
  gf_series :: string

definition materialize_signals_with_factors :: "signal_row list \<Rightarrow> graded_factors list" where
  "materialize_signals_with_factors rows =
     concat (map (\<lambda>r. case sr_factors r of None \<Rightarrow> []
       | Some j \<Rightarrow> [\<lparr>gf_confidence = sr_confidence r,
           gf_correct = (case sr_correct r of None \<Rightarrow> False | Some c \<Rightarrow> c \<noteq> 0), gf_factors = j,
           gf_raw_notional_usd = sr_raw_notional_usd r, gf_raw_spread = sr_raw_spread r,
           gf_raw_volume_24h = sr_raw_volume_24h r, gf_series = sr_series r\<rparr>]) rows)"

definition resolved_signals_with_factors :: "f64 option \<Rightarrow> signal_log \<Rightarrow> graded_factors list" where
  "resolved_signals_with_factors since l = materialize_signals_with_factors (resolved_with_factors_rows since l)"

definition resolved_signals_for_edge_calibration :: "f64 option \<Rightarrow> signal_log \<Rightarrow> signal_row list" where
  "resolved_signals_for_edge_calibration since l =
     sort_key sr_seen_at (filter (\<lambda>r. sr_resolved r = 1 \<and> sr_excluded r = 0 \<and> after_opt since r) (sl_rows l))"

subsection \<open>Clusters\<close>

record cluster =
  cl_ticker :: string
  cl_side :: string
  cl_print_count :: nat
  cl_total_size :: int
  cl_avg_confidence :: f64
  cl_cluster_confidence :: f64
  cl_span_sec :: int
  cl_first_seen :: f64
  cl_last_seen :: f64

definition cluster_confidence :: "nat \<Rightarrow> f64 \<Rightarrow> f64" where
  "cluster_confidence n width =
     (let c = fsub (fadd (fl (3/10)) (fmul (fl (15/100)) (fint (int n - 1))))
                   (min (fmul (fdiv width 3600) (fl (1/10))) (fl (3/10)))
      in py_round 2 (min (max c (fl (1/10))) (fl (95/100))))"

definition summarize_cluster :: "signal_row list \<Rightarrow> cluster" where
  "summarize_cluster signals =
     (let width = fsub (sr_seen_at (last signals)) (sr_seen_at (hd signals)) in
      \<lparr>cl_ticker = sr_ticker (hd signals), cl_side = sr_side (hd signals), cl_print_count = length signals,
       cl_total_size = sum_list (map sr_size signals),
       cl_avg_confidence = py_round 2 (fdiv (py_sum (map sr_confidence signals)) (fint (int (length signals)))),
       cl_cluster_confidence = cluster_confidence (length signals) width, cl_span_sec = rhe width,
       cl_first_seen = sr_seen_at (hd signals), cl_last_seen = sr_seen_at (last signals)\<rparr>)"

text \<open>Whether the print \<open>s\<close> continues the run that ends with \<open>p\<close>.\<close>

definition continues_run :: "int \<Rightarrow> f64 \<Rightarrow> signal_row \<Rightarrow> signal_row \<Rightarrow> bool" where
  "continues_run time_window_min max_ratio p s \<longleftrightarrow>
     sr_ticker s = sr_ticker p \<and> sr_side s = sr_side p
     \<and> fsub (sr_seen_at s) (sr_seen_at p) \<le> of_int (time_window_min * 60)
     \<and> size_ratio_ok (of_int (sr_size s)) (of_int (sr_size p)) max_ratio"

fun runs_loop :: "(signal_row \<Rightarrow> signal_row \<Rightarrow> bool) \<Rightarrow> signal_row list \<Rightarrow> signal_row list list \<Rightarrow> signal_row list
    \<Rightarrow> signal_row list list" where
  "runs_loop C [] clusters current = clusters @ (if length current > 1 then [current] else [])"
| "runs_loop C (s # ss) clusters current =
     (if current \<noteq> [] \<and> C (last current) s then runs_loop C ss clusters (current @ [s])
      else runs_loop C ss (clusters @ (if length current > 1 then [current] else [])) [s])"

definition cluster_order :: "signal_row \<Rightarrow> string \<times> string \<times> f64" where
  "cluster_order r = (sr_ticker r, sr_side r, sr_seen_at r)"

definition cluster_runs :: "int \<Rightarrow> int \<Rightarrow> f64 \<Rightarrow> f64 \<Rightarrow> signal_log \<Rightarrow> signal_row list list" where
  "cluster_runs hours time_window_min max_ratio now l =
     (let since = fsub now (fint (hours * 3600)) in
      runs_loop (continues_run time_window_min max_ratio)
        (sort_key cluster_order (filter (\<lambda>r. sr_seen_at r \<ge> since) (sl_rows l))) [] [])"

definition find_clusters :: "int \<Rightarrow> int \<Rightarrow> f64 \<Rightarrow> f64 \<Rightarrow> signal_log \<Rightarrow> cluster list" where
  "find_clusters hours time_window_min max_ratio now l =
     sort_key (\<lambda>c. - cl_total_size c)
       (map summarize_cluster (cluster_runs hours time_window_min max_ratio now l))"

end
