(* ===== verification/SignalFacts.thy ===== *)
theory SignalFacts
  imports SignalLog
begin

text \<open>
  What the signal log promises: the bulk statistics agree with the per-ticker ones, the totals
  are the sums over the series, a settlement grades every open row once, the recheck claim does
  not hand a row out twice within its cooldown, and the clusters are the maximal runs of the
  time-ordered prints.
\<close>

subsection \<open>Statistics\<close>

lemma dget_fold_dput:
  "dget (fold (\<lambda>x d. dput x (f x) d) xs d) k = (if k \<in> set xs then Some (f k) else dget d k)"
  by (induction xs arbitrary: d) auto

lemma dkeys_fold_dput: "set (dkeys (fold (\<lambda>x d. dput x (f x) d) xs d)) = set xs \<union> set (dkeys d)"
  by (induction xs arbitrary: d) auto

lemma dget_map_concat:
  "dget (concat (map (\<lambda>(t, s). case g s of None \<Rightarrow> [] | Some r \<Rightarrow> [(t, r)]) d)) k =
     (case dget (filter (\<lambda>(t, s). g s \<noteq> None) d) k of None \<Rightarrow> None | Some s \<Rightarrow> g s)"
  by (induction d) (auto split: option.splits)

lemma filter_True_snd:
  "(\<And>t s. (t, s) \<in> set d \<Longrightarrow> P s) \<Longrightarrow> filter (\<lambda>(t, s). P s) d = d"
  by (induction d) auto

text \<open>
  C29: The statistics read in bulk for a list of tickers hold, for every ticker of the list and
  no other, exactly the record the single-ticker query returns, although they are computed once
  per distinct series.
\<close>

theorem bulk_stats_agree:
  "dget (series_stats_bulk tc tickers days now l) t =
     (if t \<in> set tickers then Some (series_stats tc t days now l) else None)"
proof (cases "tickers = []")
  case True
  then show ?thesis by (simp add: series_stats_bulk_def)
next
  case False
  let ?d = "fold (\<lambda>t d. dput t (series_of tc t) d) tickers []"
  let ?st = "fold (\<lambda>s d. dput s (stats_of_series s days (since_days days now) l) d) (remdups (map snd ?d)) []"
  have st: "dget ?st s = Some (stats_of_series s days (since_days days now) l)" if "(t, s) \<in> set ?d" for t s
    using that by (force simp: dget_fold_dput)
  then have "filter (\<lambda>(t, s). dget ?st s \<noteq> None) ?d = ?d"
    by (intro filter_True_snd) auto
  then have "dget (series_stats_bulk tc tickers days now l) t =
      (case dget ?d t of None \<Rightarrow> None | Some s \<Rightarrow> dget ?st s)"
    using False by (simp add: series_stats_bulk_def Let_def dget_map_concat)
  also have "\<dots> = (if t \<in> set tickers then Some (series_stats tc t days now l) else None)"
  proof (cases "t \<in> set tickers")
    case True
    then have "dget ?d t = Some (series_of tc t)" by (simp add: dget_fold_dput)
    then show ?thesis using True st [OF dget_in_set] by (simp add: series_stats_def)
  next
    case False
    then show ?thesis by (simp add: dget_fold_dput)
  qed
  finally show ?thesis .
qed

lemma sum_filter_split:
  fixes f :: "'a list \<Rightarrow> 'b::comm_monoid_add"
  assumes "f [] = 0" and "\<And>x xs. f (x # xs) = g x + f xs" and "distinct ss"
  shows "sum_list (map (\<lambda>s. f (filter (\<lambda>r. k r = s) rs)) ss) = f (filter (\<lambda>r. k r \<in> set ss) rs)"
  using assms(3)
proof (induction rs)
  case Nil
  then show ?case by (simp add: assms(1) sum_list_0)
next
  case (Cons r rs)
  have "sum_list (map (\<lambda>s. f (filter (\<lambda>r. k r = s) (r # rs))) ss) =
      sum_list (map (\<lambda>s. (if k r = s then g r else 0) + f (filter (\<lambda>r. k r = s) rs)) ss)"
    by (intro arg_cong [of _ _ sum_list] map_cong) (auto simp: assms(2))
  also have "\<dots> = sum_list (map (\<lambda>s. if k r = s then g r else 0) ss) + f (filter (\<lambda>r. k r \<in> set ss) rs)"
    using Cons by (simp add: sum_list_addf)
  also have "sum_list (map (\<lambda>s. if k r = s then g r else 0) ss) = (if k r \<in> set ss then g r else 0)"
    using Cons.prems by (induction ss) auto
  finally show ?case by (simp add: assms(2))
qed

text \<open>
  The overall track record is the sum of the per-series ones: over the same window the
  resolved and the correct counts of the log are the totals of \<open>all_series_stats\<close>, and each
  series listed there carries the resolved count, correct count and win rate of its own query.
\<close>

theorem totals_split_by_series:
  "lo_resolved (log_stats_of days now l) = sum_list (map (sy_resolved \<circ> snd) (all_series_stats days now l))
   \<and> lo_correct (log_stats_of days now l) = sum_list (map (sy_correct \<circ> snd) (all_series_stats days now l))
   \<and> list_all (\<lambda>(s, y). sy_resolved y > 0
       \<and> sy_resolved y = se_resolved (stats_of_series s days (since_days days now) l)
       \<and> sy_correct y = se_correct (stats_of_series s days (since_days days now) l)
       \<and> sy_win_rate y = se_win_rate (stats_of_series s days (since_days days now) l)) (all_series_stats days now l)"
proof -
  let ?rs = "filter (counted (since_days days now)) (sl_rows l)"
  have all: "filter (\<lambda>r. sr_series r \<in> set (remdups (map sr_series ?rs))) ?rs = ?rs"
    unfolding filter_id_conv by simp
  have 1: "sum_list (map (\<lambda>s. length (filter (\<lambda>r. sr_series r = s) ?rs)) (remdups (map sr_series ?rs))) = length ?rs"
    using sum_filter_split [of length "\<lambda>_. 1" "remdups (map sr_series ?rs)" sr_series ?rs] all by simp
  have 2: "sum_list (map (\<lambda>s. correct_sum (filter (\<lambda>r. sr_series r = s) ?rs)) (remdups (map sr_series ?rs))) = correct_sum ?rs"
    using sum_filter_split [of correct_sum "\<lambda>r. case sr_correct r of None \<Rightarrow> 0 | Some c \<Rightarrow> c" "remdups (map sr_series ?rs)" sr_series ?rs]
    by (simp only: all) (simp add: correct_sum_def)
  have f: "filter (\<lambda>r. sr_series r = s \<and> counted (since_days days now) r) (sl_rows l)
      = filter (\<lambda>r. counted (since_days days now) r \<and> sr_series r = s) (sl_rows l)" for s
    by (rule filter_cong) auto
  have 3: "list_all (\<lambda>s. 0 < length (filter (\<lambda>r. sr_series r = s) ?rs)) (remdups (map sr_series ?rs))"
    unfolding list_all_iff length_greater_0_conv filter_empty_conv by fastforce
  show ?thesis
    using 1 2 3
    by (simp add: log_stats_of_def all_series_stats_def Let_def comp_def list_all_iff stats_of_series_def f)
qed


subsection \<open>Resolution\<close>

lemma update_rows_rows [simp]: "sl_rows (update_rows P f l) = map (\<lambda>r. if P r then f r else r) (sl_rows l)"
  by (simp add: update_rows_def)

lemma push_history_rows [simp]: "sl_rows (push_history now l) = sl_rows l"
  by (simp add: push_history_def)

lemma resolved_rows:
  "sl_rows (snd (resolve_from_market_results ticker result now l)) =
     (if str_lower (str_strip result) \<in> {''yes'', ''no''}
      then map (\<lambda>x. if sr_ticker x = ticker \<and> sr_resolved x = 0
             then grade (str_lower (str_strip result) = sr_side x) now x else x) (sl_rows l)
      else sl_rows l)"
  by (auto simp: resolve_from_market_results_def Let_def filter_empty_conv intro!: map_idI [symmetric])

lemma none_open:
  "filter (\<lambda>x. sr_ticker x = t \<and> sr_resolved x = 0)
     (map (\<lambda>x. if sr_ticker x = t \<and> sr_resolved x = 0 then grade (g x) now x else x) rows) = []"
  by (induction rows) (simp_all add: grade_def)

text \<open>
  C28: A settlement with a yes or no result closes exactly the open signals of its ticker: the
  count returned is their number, each is graded by whether its own side won, every other row is
  untouched, and whatever result arrives later for the ticker finds nothing to grade, so no
  verdict reached this way is ever reopened by it.
\<close>

theorem settlement_grades_once:
  assumes "str_lower (str_strip result) \<in> {''yes'', ''no''}"
  shows "let (n, l') = resolve_from_market_results ticker result now l in
     n = length (filter (\<lambda>x. sr_ticker x = ticker \<and> sr_resolved x = 0) (sl_rows l))
     \<and> sl_rows l' = map (\<lambda>x. if sr_ticker x = ticker \<and> sr_resolved x = 0
           then x\<lparr> sr_resolved := 1, sr_correct := Some (if str_lower (str_strip result) = sr_side x then 1 else 0),
                   sr_resolved_at := Some now \<rparr> else x) (sl_rows l)
     \<and> resolve_from_market_results ticker result2 now2 l' = (0, l')"
proof -
  let ?R = "resolve_from_market_results ticker result now l"
  have ok: "\<not> (str_lower (str_strip result) \<noteq> ''yes'' \<and> str_lower (str_strip result) \<noteq> ''no'')"
    using assms by blast
  have n: "fst ?R = length (filter (\<lambda>x. sr_ticker x = ticker \<and> sr_resolved x = 0) (sl_rows l))"
    using ok by (simp add: resolve_from_market_results_def Let_def)
  have rows: "sl_rows (snd ?R) = map (\<lambda>x. if sr_ticker x = ticker \<and> sr_resolved x = 0
      then grade (str_lower (str_strip result) = sr_side x) now x else x) (sl_rows l)"
    using assms by (simp only: resolved_rows if_True)
  have "filter (\<lambda>x. sr_ticker x = ticker \<and> sr_resolved x = 0) (sl_rows (snd ?R)) = []"
    unfolding rows by (rule none_open)
  then have "resolve_from_market_results ticker result2 now2 (snd ?R) = (0, snd ?R)"
    by (simp add: resolve_from_market_results_def Let_def)
  then show ?thesis
    unfolding case_prod_beta Let_def using n rows by (simp only: grade_def)
qed

definition sample_row :: "int \<Rightarrow> string \<Rightarrow> string \<Rightarrow> int \<Rightarrow> signal_row" where
  "sample_row i ticker side res = \<lparr>sr_id = i, sr_ticker = ticker, sr_series = ''KX'', sr_side = side,
     sr_size = 100, sr_confidence = 1/2, sr_source = ''kalshi_live'', sr_seen_at = of_int i, sr_resolved = res,
     sr_correct = None, sr_resolved_at = None, sr_factors = None, sr_raw_notional_usd = None,
     sr_raw_spread = None, sr_raw_volume_24h = None, sr_last_checked_at = None, sr_price = None, sr_excluded = 0\<rparr>"

definition sample_log :: signal_log where
  "sample_log = \<lparr>sl_rows = [sample_row 1 ''KX-A'' ''yes'' 0, sample_row 2 ''KX-A'' ''no'' 0,
       sample_row 3 ''KX-B'' ''no'' 0], sl_next_id = 4, sl_history = init_history_push\<rparr>"

theorem settlement_grades_once_witness:
  "let (n, l') = resolve_from_market_results ''KX-A'' '' No '' 5 sample_log in
     n = 2 \<and> map sr_correct (sl_rows l') = [Some 0, Some 1, None]
     \<and> resolve_from_market_results ''KX-A'' ''yes'' 9 l' = (0, l')"
proof -
  have r: "str_lower (str_strip '' No '') = ''no''" by code_simp
  show ?thesis
    using settlement_grades_once [of "'' No ''" "''KX-A''" 5 sample_log "''yes''" 9] r
    by (simp add: case_prod_beta) (simp add: sample_log_def sample_row_def)
qed

text \<open>
  A direct \<open>mark_resolved\<close> has no such guard: it overwrites the verdict of a row that is
  already resolved, although the docstring of \<open>resolve_from_market_results\<close> says a row
  resolved by either path is never re-graded.
\<close>

theorem mark_resolved_regrades:
  "\<exists>l r r'. r \<in> set (sl_rows l) \<and> sr_resolved r = 1 \<and> sr_correct r = Some 1
     \<and> r' \<in> set (sl_rows (mark_resolved (sr_id r) False 9 l)) \<and> sr_id r' = sr_id r \<and> sr_correct r' = Some 0"
  by (rule exI [of _ "sample_log\<lparr> sl_rows := [grade True 5 (sample_row 1 ''KX-A'' ''yes'' 0)] \<rparr>"])
     (simp add: mark_resolved_def grade_def sample_row_def)


subsection \<open>The recheck claim\<close>

lemma take_sort_key_left:
  assumes "y \<in> set xs" "y \<notin> set (take n (sort_key f xs))"
  shows "y \<in> set (drop n (sort_key f xs))" "length (take n (sort_key f xs)) = n"
proof -
  show "y \<in> set (drop n (sort_key f xs))"
    using assms by (metis UnE append_take_drop_id set_append set_sort)
  then show "length (take n (sort_key f xs)) = n" by (cases "n \<le> length xs") auto
qed

lemma take_sort_key_oldest:
  assumes "x \<in> set (take n (sort_key f xs))" "y \<in> set xs" "y \<notin> set (take n (sort_key f xs))"
  shows "f x \<le> f y"
proof -
  have "sorted (map f (take n (sort_key f xs)) @ map f (drop n (sort_key f xs)))"
    by (metis append_take_drop_id map_append sorted_sort_key)
  then show ?thesis using assms(1) take_sort_key_left(1) [OF assms(2,3)] by (auto simp: sorted_append)
qed

text \<open>
  A recheck batch holds at most the limit of open signals that are old enough, the oldest
  first: a due row is left out only when the batch is full of rows at least as old. The rows
  handed out are claimed: a second batch taken while the cooldown of the first claim still runs
  shares no row with it, whatever the first caller did with its rows.
\<close>

theorem recheck_claims_rows:
  assumes "distinct (map sr_id (sl_rows l))" and "fsub now2 cooldown \<le> now"
  shows "let (b, l') = unresolved_batch limit older cooldown now l in
     length b \<le> limit
     \<and> list_all (\<lambda>r. if (sr_id r, sr_ticker r, sr_side r) \<in> set b then sr_resolved r = 0 \<and> sr_seen_at r < fsub now older
          else recheck_due older cooldown now r \<longrightarrow> length b = limit
             \<and> list_all (\<lambda>q. (sr_id q, sr_ticker q, sr_side q) \<in> set b \<longrightarrow> sr_seen_at q \<le> sr_seen_at r) (sl_rows l))
        (sl_rows l)
     \<and> set (map fst b) \<inter> set (map fst (fst (unresolved_batch limit2 older2 cooldown now2 l'))) = {}"
proof -
  let ?due = "filter (recheck_due older cooldown now) (sl_rows l)"
  let ?rows = "take limit (sort_key sr_seen_at ?due)"
  let ?k = "\<lambda>r. (sr_id r, sr_ticker r, sr_side r)"
  let ?b = "fst (unresolved_batch limit older cooldown now l)"
  let ?l' = "snd (unresolved_batch limit older cooldown now l)"
  have sub: "set ?rows \<subseteq> set ?due"
    using set_take_subset [of limit "sort_key sr_seen_at ?due"] by simp
  have b: "?b = map ?k ?rows" and rows': "sl_rows ?l' =
      map (\<lambda>r. if sr_id r \<in> set (map sr_id ?rows) then r\<lparr> sr_last_checked_at := Some now \<rparr> else r) (sl_rows l)"
    by (simp_all add: unresolved_batch_def Let_def)
  have inj: "q \<in> set ?rows" if "?k q \<in> set ?b" "q \<in> set (sl_rows l)" for q
    using that sub assms(1) unfolding b by (auto simp: distinct_map dest: inj_onD)
  have 1: "length ?b \<le> limit" unfolding b by simp
  have 2: "sr_resolved r = 0 \<and> sr_seen_at r < fsub now older"
    if "r \<in> set (sl_rows l)" "?k r \<in> set ?b" for r
    using inj [OF that(2,1)] sub by (auto simp: recheck_due_def)
  have 3: "length ?b = limit \<and> list_all (\<lambda>q. ?k q \<in> set ?b \<longrightarrow> sr_seen_at q \<le> sr_seen_at r) (sl_rows l)"
    if "r \<in> set (sl_rows l)" "?k r \<notin> set ?b" "recheck_due older cooldown now r" for r
  proof -
    have r: "r \<in> set ?due" "r \<notin> set ?rows" using that by (auto simp: b)
    have "length ?rows = limit" by (rule take_sort_key_left(2) [OF r])
    moreover have "sr_seen_at q \<le> sr_seen_at r" if "q \<in> set (sl_rows l)" "?k q \<in> set ?b" for q
      using take_sort_key_oldest [OF inj [OF that(2,1)] r] .
    ultimately show ?thesis unfolding b list_all_iff by (simp add: b)
  qed
  have 4: "i \<notin> set (map fst (fst (unresolved_batch limit2 older2 cooldown now2 ?l')))" if "i \<in> set (map fst ?b)" for i
  proof
    assume "i \<in> set (map fst (fst (unresolved_batch limit2 older2 cooldown now2 ?l')))"
    then obtain r where "r \<in> set (sl_rows ?l')" "sr_id r = i" "recheck_due older2 cooldown now2 r"
      by (auto simp: unresolved_batch_def Let_def dest!: in_set_takeD simp flip: update_rows_rows)
    then show False using that assms(2) by (auto simp: rows' b recheck_due_def)
  qed
  show ?thesis
    using 1 2 3 4 unfolding case_prod_beta Let_def list_all_iff by (intro conjI) (auto simp del: set_map)
qed

theorem recheck_claims_rows_witness:
  "let (b, l') = unresolved_batch 2 1 4 5 sample_log in
     length b = 2 \<and> map fst b = [1, 2]
     \<and> set (map fst b) \<inter> set (map fst (fst (unresolved_batch 9 1 4 7 l'))) = {}"
proof -
  have f: "fsub 7 4 = 3" "fsub 5 4 = 1" "fsub 5 1 = 4" by (simp_all add: flops)
  show ?thesis
    using recheck_claims_rows [of sample_log 7 4 5 2 1 9 1] f
    by (simp add: case_prod_beta) (simp add: sample_log_def sample_row_def unresolved_batch_def recheck_due_def Let_def)
qed

subsection \<open>Clusters\<close>

lemma successively_snoc:
  "successively C (xs @ [y]) \<longleftrightarrow> successively C xs \<and> (xs = [] \<or> C (last xs) y)"
  by (auto simp: successively_append_iff)

lemma runs_loop_parts:
  assumes "successively C current" "current \<noteq> []"
  shows "\<exists>p parts. concat (p # parts) = current @ ss \<and> take (length current) p = current
     \<and> list_all (\<lambda>q. q \<noteq> [] \<and> successively C q) (p # parts)
     \<and> successively (\<lambda>q q'. \<not> C (last q) (hd q')) (p # parts)
     \<and> runs_loop C ss clusters current = clusters @ filter (\<lambda>q. 1 < length q) (p # parts)"
  using assms
proof (induction ss arbitrary: clusters current)
  case Nil
  then show ?case by (intro exI [of _ current] exI [of _ "[]"]) simp
next
  case (Cons s ss)
  show ?case
  proof (cases "C (last current) s")
    case True
    with Cons.prems have "successively C (current @ [s])" by (simp add: successively_snoc)
    from Cons.IH [OF this, of clusters] obtain p parts where
      h: "concat (p # parts) = (current @ [s]) @ ss" "take (length (current @ [s])) p = current @ [s]"
         "list_all (\<lambda>q. q \<noteq> [] \<and> successively C q) (p # parts)"
         "successively (\<lambda>q q'. \<not> C (last q) (hd q')) (p # parts)"
         "runs_loop C ss clusters (current @ [s]) = clusters @ filter (\<lambda>q. 1 < length q) (p # parts)"
      by auto
    have "take (length current) p = current"
      using arg_cong [OF h(2), of "take (length current)"] by simp
    with h True Cons.prems(2) show ?thesis by (intro exI [of _ p] exI [of _ parts]) simp
  next
    case False
    let ?cl = "clusters @ (if length current > 1 then [current] else [])"
    from Cons.IH [of "[s]" ?cl] obtain p parts where
      h: "concat (p # parts) = [s] @ ss" "take (length [s]) p = [s]"
         "list_all (\<lambda>q. q \<noteq> [] \<and> successively C q) (p # parts)"
         "successively (\<lambda>q q'. \<not> C (last q) (hd q')) (p # parts)"
         "runs_loop C ss ?cl [s] = ?cl @ filter (\<lambda>q. 1 < length q) (p # parts)"
      by auto
    have "hd p = s" using h(2) by (cases p) auto
    with h False Cons.prems show ?thesis
      by (intro exI [of _ current] exI [of _ "p # parts"]) simp
  qed
qed

lemma runs_split:
  "\<exists>parts. concat parts = sort_key cluster_order (filter (\<lambda>r. sr_seen_at r \<ge> fsub now (fint (hours * 3600))) (sl_rows l))
     \<and> list_all (\<lambda>q. q \<noteq> [] \<and> successively (continues_run minutes ratio) q) parts
     \<and> successively (\<lambda>q q'. \<not> continues_run minutes ratio (last q) (hd q')) parts
     \<and> cluster_runs hours minutes ratio now l = filter (\<lambda>q. 1 < length q) parts"
proof (cases "sort_key cluster_order (filter (\<lambda>r. sr_seen_at r \<ge> fsub now (fint (hours * 3600))) (sl_rows l))")
  case Nil
  then show ?thesis by (intro exI [of _ "[]"]) (simp add: cluster_runs_def Let_def)
next
  case (Cons s ss)
  obtain p parts where "concat (p # parts) = [s] @ ss"
     "list_all (\<lambda>q. q \<noteq> [] \<and> successively (continues_run minutes ratio) q) (p # parts)"
     "successively (\<lambda>q q'. \<not> continues_run minutes ratio (last q) (hd q')) (p # parts)"
     "runs_loop (continues_run minutes ratio) ss [] [s] = [] @ filter (\<lambda>q. 1 < length q) (p # parts)"
    using runs_loop_parts [of "continues_run minutes ratio" "[s]" ss "[]"] by auto
  then show ?thesis
    unfolding Cons cluster_runs_def Let_def by (intro exI [of _ "p # parts"]) simp
qed

text \<open>
  The clusters are the maximal runs of the prints of the window ordered by ticker, side and
  time: that list splits into consecutive parts whose neighbouring prints continue each other,
  no part can be extended by the next one, and the runs reported are exactly the parts of two
  or more prints.
\<close>

theorem clusters_are_maximal_runs:
  "\<exists>parts. concat parts = sort_key cluster_order (filter (\<lambda>r. sr_seen_at r \<ge> fsub now (fint (hours * 3600))) (sl_rows l))
     \<and> list_all (\<lambda>q. q \<noteq> [] \<and> successively (continues_run minutes ratio) q) parts
     \<and> successively (\<lambda>q q'. \<not> continues_run minutes ratio (last q) (hd q')) parts
     \<and> cluster_runs hours minutes ratio now l = filter (\<lambda>q. 1 < length q) parts"
  by (rule runs_split)

lemma cluster_confidence_bounds: "fl (1/10) \<le> cluster_confidence n w" "cluster_confidence n w \<le> fl (95/100)"
proof -
  have r: "py_round 2 (fl (1/10)) = fl (1/10)" "py_round 2 (fl (95/100)) = fl (95/100)" by code_simp+
  have le: "fl (1/10) \<le> fl (95/100)" by (rule fl_mono) simp
  have "fl (1/10) \<le> py_round 2 (min (max c (fl (1/10))) (fl (95/100)))" for c
    using py_round_mono [of "fl (1/10)" "min (max c (fl (1/10))) (fl (95/100))" 2] le unfolding r by simp
  moreover have "py_round 2 (min c (fl (95/100))) \<le> fl (95/100)" for c
    using py_round_mono [of "min c (fl (95/100))" "fl (95/100)" 2] unfolding r by simp
  ultimately show "fl (1/10) \<le> cluster_confidence n w" "cluster_confidence n w \<le> fl (95/100)"
    by (simp_all add: cluster_confidence_def Let_def)
qed

text \<open>
  Every cluster reported has at least two prints, a confidence between 0.1 and 0.95, prints
  of one ticker and side only, and the list is ordered by total size, largest first.
\<close>

theorem clusters_well_formed:
  "sorted_wrt (\<lambda>c d. cl_total_size d \<le> cl_total_size c) (find_clusters hours minutes ratio now l)
   \<and> list_all (\<lambda>c. 2 \<le> cl_print_count c \<and> fl (1/10) \<le> cl_cluster_confidence c \<and> cl_cluster_confidence c \<le> fl (95/100)
        \<and> (\<exists>run. c = summarize_cluster run \<and> set run \<subseteq> set (sl_rows l)
             \<and> list_all (\<lambda>r. sr_ticker r = cl_ticker c \<and> sr_side r = cl_side c) run))
      (find_clusters hours minutes ratio now l)"
proof -
  let ?runs = "cluster_runs hours minutes ratio now l"
  obtain parts where parts: "concat parts = sort_key cluster_order (filter (\<lambda>r. sr_seen_at r \<ge> fsub now (fint (hours * 3600))) (sl_rows l))"
     "list_all (\<lambda>q. q \<noteq> [] \<and> successively (continues_run minutes ratio) q) parts"
     "?runs = filter (\<lambda>q. 1 < length q) parts"
    using runs_split [of now hours l minutes ratio] by blast
  have same: "list_all (\<lambda>r. sr_ticker r = sr_ticker (hd q) \<and> sr_side r = sr_side (hd q)) q"
    if "successively (continues_run minutes ratio) q" for q
    using that
  proof (induction q rule: induct_list012)
    case (3 x y zs)
    then show ?case by (auto simp: continues_run_def)
  qed simp_all
  have "\<exists>run. c = summarize_cluster run \<and> 2 \<le> length run \<and> set run \<subseteq> set (sl_rows l)
      \<and> list_all (\<lambda>r. sr_ticker r = cl_ticker c \<and> sr_side r = cl_side c) run"
    if "c \<in> set (find_clusters hours minutes ratio now l)" for c
  proof -
    from that obtain q where q: "c = summarize_cluster q" "q \<in> set parts" "1 < length q"
      by (auto simp: find_clusters_def parts(3))
    have "set q \<subseteq> set (concat parts)" using q(2) by auto
    then have "set q \<subseteq> set (sl_rows l)" unfolding parts(1) by auto
    moreover have "successively (continues_run minutes ratio) q" using q(2) parts(2) by (auto simp: list_all_iff)
    ultimately show ?thesis using q same [of q]
      by (intro exI [of _ q]) (simp add: summarize_cluster_def Let_def)
  qed
  note run = this
  have "2 \<le> cl_print_count c \<and> fl (1/10) \<le> cl_cluster_confidence c \<and> cl_cluster_confidence c \<le> fl (95/100)
        \<and> (\<exists>run. c = summarize_cluster run \<and> set run \<subseteq> set (sl_rows l)
             \<and> list_all (\<lambda>r. sr_ticker r = cl_ticker c \<and> sr_side r = cl_side c) run)"
    if c: "c \<in> set (find_clusters hours minutes ratio now l)" for c
  proof -
    from run [OF c] obtain q where q: "c = summarize_cluster q" "2 \<le> length q" "set q \<subseteq> set (sl_rows l)"
       "list_all (\<lambda>r. sr_ticker r = cl_ticker c \<and> sr_side r = cl_side c) q" by blast
    have "cl_print_count c = length q" "\<exists>n w. cl_cluster_confidence c = cluster_confidence n w"
      unfolding q(1) by (simp_all add: summarize_cluster_def Let_def) blast
    then show ?thesis using q cluster_confidence_bounds by metis
  qed
  moreover have "sorted (map (\<lambda>c. - cl_total_size c) (find_clusters hours minutes ratio now l))"
    by (simp add: find_clusters_def)
  ultimately show ?thesis unfolding list_all_iff [of _ "find_clusters hours minutes ratio now l"] by (simp add: sorted_map)
qed

end
