(* ===== verification/Confidence.thy ===== *)
theory Confidence
  imports FloatBounds ConfigOverrides
begin

text \<open>
  \<open>services/confidence_scoring.py\<close>: the composite confidence of a whale print. Nine factors,
  some possibly absent, are averaged with weights over the factors that are present. \<open>math.exp\<close>
  is the parameter \<open>ex\<close>; weights are numbers read as floats; the volume of a market is
  \<open>float(market.get("volume_24h_fp") or 0)\<close>, whose ValueError is None here.
\<close>

definition CLOSE_PROXIMITY_WINDOW_SEC :: f64 where "CLOSE_PROXIMITY_WINDOW_SEC = 172800"

text \<open>\<open>math.log(10)\<close>, the double 2.302585092994046.\<close>

definition DEPTH_SATURATION_K :: f64 where "DEPTH_SATURATION_K = fl (2302585092994046 / 10 ^ 15)"

definition DEFAULT_WEIGHTS :: "(string, f64) pdict" where
  "DEFAULT_WEIGHTS =
     [(''depth_factor'', fl (18/100)), (''unusualness_factor'', fl (8/100)), (''proximity_factor'', fl (11/100)),
      (''context_factor'', fl (7/100)), (''agreement_factor'', fl (11/100)), (''cluster_factor'', fl (11/100)),
      (''trend_factor'', fl (7/100)), (''analyst_factor'', fl (13/100)), (''block_trade_factor'', fl (15/100))]"

record confidence_breakdown =
  cb_depth_factor :: "f64 option"
  cb_unusualness_factor :: f64
  cb_proximity_factor :: f64
  cb_context_factor :: f64
  cb_agreement_factor :: "f64 option"
  cb_cluster_factor :: f64
  cb_trend_factor :: "f64 option"
  cb_analyst_factor :: f64
  cb_block_trade_factor :: f64
  cb_score :: f64

definition market_volume :: "msg \<Rightarrow> f64 option" where
  "market_volume m = py_float (jor (jget m ''volume_24h_fp'') (JInt 0))"

definition depth_factor :: "(f64 \<Rightarrow> f64) \<Rightarrow> f64 \<Rightarrow> f64 \<Rightarrow> f64 option" where
  "depth_factor ex volume sz =
     (if volume \<le> 0 then None
      else Some (fsub 1 (ex (fmul (- DEPTH_SATURATION_K) (fdiv sz volume)))))"

definition unusualness_factor :: "outcome_side \<Rightarrow> f64 \<Rightarrow> f64" where
  "unusualness_factor side price = fsub 1 (fmul \<bar>fsub (unit_cost side price) (1/2)\<bar> 2)"

text \<open>A close time that is not text has no \<open>replace\<close>, one that does not parse raises: both are skipped.\<close>

definition proximity_factor :: "(string \<Rightarrow> f64 option) \<Rightarrow> json \<Rightarrow> f64 \<Rightarrow> f64" where
  "proximity_factor iso_ts close_time now =
     (case close_time of
        JStr s \<Rightarrow>
          (if s = [] then 0
           else case iso_ts s of None \<Rightarrow> 0
             | Some ts \<Rightarrow>
                 (let seconds_left = fsub ts now in
                  if 0 < seconds_left \<and> seconds_left \<le> CLOSE_PROXIMITY_WINDOW_SEC
                  then fsub 1 (fdiv seconds_left CLOSE_PROXIMITY_WINDOW_SEC) else 0))
      | _ \<Rightarrow> 0)"

fun all_some :: "'a option list \<Rightarrow> 'a list option" where
  "all_some [] = Some []"
| "all_some (x # xs) =
     (case x of None \<Rightarrow> None | Some a \<Rightarrow> (case all_some xs of None \<Rightarrow> None | Some as \<Rightarrow> Some (a # as)))"

definition context_factor :: "f64 \<Rightarrow> f64 list \<Rightarrow> f64" where
  "context_factor volume others =
     (if others = [] then 1/2
      else fl (of_nat (length (filter (\<lambda>v. v \<le> volume) others)) / of_nat (length others)))"

definition present :: "(string \<times> f64 option) list \<Rightarrow> (string \<times> f64) list" where
  "present fs = concat (map (\<lambda>(n, v). case v of None \<Rightarrow> [] | Some x \<Rightarrow> [(n, x)]) fs)"

text \<open>The average over the present factors; one half when they carry no weight.\<close>

definition weighted_score :: "(string, f64) pdict \<Rightarrow> (string \<times> f64 option) list \<Rightarrow> f64" where
  "weighted_score w fs =
     (let ps = present fs;
          weight_sum = py_sum (map (\<lambda>(n, x). dget_or w n 0) ps)
      in if weight_sum > 0 then fdiv (py_sum (map (\<lambda>(n, x). fmul (dget_or w n 0) x) ps)) weight_sum
         else 1/2)"

definition effective_weights :: "(string, f64) pdict \<Rightarrow> (string, f64) pdict" where
  "effective_weights weights = dict_update DEFAULT_WEIGHTS weights"

record given_factors =
  gv_agreement :: "f64 option"
  gv_cluster :: f64
  gv_trend :: "f64 option"
  gv_analyst :: f64
  gv_block_trade :: f64

definition composite_confidence_breakdown ::
  "(f64 \<Rightarrow> f64) \<Rightarrow> (string \<Rightarrow> f64 option) \<Rightarrow> msg \<Rightarrow> msg list \<Rightarrow> f64 \<Rightarrow> f64 \<Rightarrow> f64 \<Rightarrow> given_factors
     \<Rightarrow> (string, f64) pdict \<Rightarrow> outcome_side \<Rightarrow> confidence_breakdown option" where
  "composite_confidence_breakdown ex iso_ts market markets sz price now g weights side =
     (case market_volume market of
        None \<Rightarrow> None
      | Some volume \<Rightarrow>
          (case all_some (map market_volume markets) of
             None \<Rightarrow> None
           | Some others \<Rightarrow>
               (let depth = depth_factor ex volume sz;
                    unusual = unusualness_factor side price;
                    proximity = proximity_factor iso_ts (jget market ''close_time'') now;
                    context = context_factor volume others;
                    score = weighted_score (effective_weights weights)
                      [(''depth_factor'', depth), (''unusualness_factor'', Some unusual),
                       (''proximity_factor'', Some proximity), (''context_factor'', Some context),
                       (''agreement_factor'', gv_agreement g), (''cluster_factor'', Some (gv_cluster g)),
                       (''trend_factor'', gv_trend g), (''analyst_factor'', Some (gv_analyst g)),
                       (''block_trade_factor'', Some (gv_block_trade g))]
                in Some \<lparr>cb_depth_factor = depth, cb_unusualness_factor = unusual, cb_proximity_factor = proximity,
                     cb_context_factor = context, cb_agreement_factor = gv_agreement g,
                     cb_cluster_factor = gv_cluster g, cb_trend_factor = gv_trend g,
                     cb_analyst_factor = gv_analyst g, cb_block_trade_factor = gv_block_trade g,
                     cb_score = min (max score 0) 1\<rparr>)))"

definition composite_confidence ::
  "(f64 \<Rightarrow> f64) \<Rightarrow> (string \<Rightarrow> f64 option) \<Rightarrow> msg \<Rightarrow> msg list \<Rightarrow> f64 \<Rightarrow> f64 \<Rightarrow> f64 \<Rightarrow> given_factors
     \<Rightarrow> (string, f64) pdict \<Rightarrow> outcome_side \<Rightarrow> f64 option" where
  "composite_confidence ex iso_ts market markets sz price now g weights side =
     map_option cb_score (composite_confidence_breakdown ex iso_ts market markets sz price now g weights side)"

subsection \<open>An absent factor has no say\<close>

lemma fl_f64: "is_f64 x \<Longrightarrow> fl x = x"
  by (simp add: is_f64_def)

lemma flops_f64 [simp]: "is_f64 (fadd a b)" "is_f64 (fsub a b)" "is_f64 (fmul a b)" "is_f64 (fdiv a b)"
  by (simp_all add: flops)

text \<open>A zero term anywhere in a compensated sum of floats leaves it as it is.\<close>

lemma sum_loop_zero:
  "is_f64 s \<Longrightarrow> is_f64 c \<Longrightarrow> sum_loop s c (xs @ 0 # ys) = sum_loop s c (xs @ ys)"
proof (induction xs arbitrary: s c)
  case Nil
  then show ?case by (simp add: Let_def flops fl_f64)
qed (simp add: Let_def)

lemma py_sum_zero:
  assumes "list_all is_f64 (xs @ ys)"
  shows "py_sum (xs @ 0 # ys) = py_sum (xs @ ys)"
proof (cases xs)
  case Nil
  show ?thesis
  proof (cases ys)
    case (Cons y zs)
    then have "fadd 0 y = y" "fsub y y = 0" using assms Nil by (simp_all add: flops fl_f64)
    moreover have "is_f64 0" by (simp add: is_f64_def)
    ultimately show ?thesis using Nil Cons by (simp add: Let_def flops)
  qed (simp add: Nil flops)
next
  case (Cons x zs)
  have "is_f64 0" by (simp add: is_f64_def)
  then show ?thesis by (simp add: Cons sum_loop_zero)
qed


lemma present_append [simp]: "present (fs @ gs) = present fs @ present gs"
  by (simp add: present_def)

lemma present_simps [simp]:
  "present [] = []" "present ((n, None) # fs) = present fs" "present ((n, Some v) # fs) = (n, v) # present fs"
  by (simp_all add: present_def)

lemma set_present: "(m, x) \<in> set (present fs) \<Longrightarrow> m \<in> set (map fst fs)"
  by (force simp: present_def split: option.splits)

lemma map_weights_cong:
  assumes "\<And>m. m \<in> set (map fst fs) \<Longrightarrow> dget_or w' m 0 = dget_or w m (0::f64)"
  shows "map (\<lambda>(n, x). f (dget_or w' n 0) x) (present fs) = map (\<lambda>(n, x). f (dget_or w n 0) x) (present fs)"
  using assms set_present by (intro map_cong) fastforce+

lemma weighted_score_absent:
  assumes n: "n \<notin> set (map fst (fs @ gs))"
    and w': "\<And>m. dget_or w' m 0 = (if m = n then 0 else dget_or w m 0)"
    and f64: "\<And>m. is_f64 (dget_or w m 0)"
  shows "weighted_score w (fs @ (n, None) # gs) = weighted_score w' (fs @ (n, Some v) # gs)"
proof -
  have same: "map (\<lambda>(m, x). f (dget_or w' m 0) x) (present hs) = map (\<lambda>(m, x). f (dget_or w m 0) x) (present hs)"
    if "n \<notin> set (map fst hs)" for hs and f :: "f64 \<Rightarrow> f64 \<Rightarrow> f64"
    using that w' by (intro map_weights_cong) auto
  have sums: "py_sum (map (\<lambda>(m, x). f (dget_or w' m 0) x) (present (fs @ (n, Some v) # gs)))
      = py_sum (map (\<lambda>(m, x). f (dget_or w m 0) x) (present (fs @ (n, None) # gs)))"
    if "\<And>m x. is_f64 (f (dget_or w m 0) x)" "f 0 v = 0" for f :: "f64 \<Rightarrow> f64 \<Rightarrow> f64"
  proof -
    have "map (\<lambda>(m, x). f (dget_or w' m 0) x) (present fs) = map (\<lambda>(m, x). f (dget_or w m 0) x) (present fs)"
         "map (\<lambda>(m, x). f (dget_or w' m 0) x) (present gs) = map (\<lambda>(m, x). f (dget_or w m 0) x) (present gs)"
      by (rule same, use n in simp)+
    moreover have "f (dget_or w' n 0) v = 0" using that(2) w' [of n] by simp
    ultimately have "py_sum (map (\<lambda>(m, x). f (dget_or w' m 0) x) (present (fs @ (n, Some v) # gs)))
        = py_sum (map (\<lambda>(m, x). f (dget_or w m 0) x) (present fs) @ 0 #
            map (\<lambda>(m, x). f (dget_or w m 0) x) (present gs))"
      by (simp only: present_append present_simps map_append list.map prod.case)
    also have "\<dots> = py_sum (map (\<lambda>(m, x). f (dget_or w m 0) x) (present (fs @ (n, None) # gs)))"
      unfolding present_append present_simps map_append
      by (rule py_sum_zero) (auto simp: list_all_iff that(1))
    finally show ?thesis .
  qed
  show ?thesis
    unfolding weighted_score_def Let_def
    using sums [of "\<lambda>a x. a"] sums [of fmul] f64 by (simp add: fmul_def [of 0])
qed

lemma dget_or_effective:
  assumes "dict_ok w"
  shows "dget_or (effective_weights (dput n 0 w)) m 0 = (if m = n then 0 else dget_or (effective_weights w) m 0)"
  using assms by (simp add: effective_weights_def dget_or_def dget_dict_update)

lemma effective_weights_f64:
  assumes "dict_ok w" "list_all (\<lambda>(n, x). is_f64 x) w"
  shows "is_f64 (dget_or (effective_weights w) m 0)"
proof -
  have "is_f64 0" by (simp add: is_f64_def)
  moreover have "list_all (\<lambda>(n, x). is_f64 x) DEFAULT_WEIGHTS" by (simp add: DEFAULT_WEIGHTS_def)
  ultimately show ?thesis
    using assms dget_in_set [of w m] dget_in_set [of DEFAULT_WEIGHTS m]
    by (fastforce simp: effective_weights_def dget_or_def dget_dict_update list_all_iff split: option.splits)
qed

text \<open>
  A factor nobody could compute does not count against a print. The confidence with an absent
  agreement factor is, bit for bit, the confidence with any agreement reading at weight zero, and
  likewise for the trend: absence is left out of the average rather than scored as a zero.
\<close>

theorem absent_factor_has_no_weight:
  assumes "dict_ok weights" "list_all (\<lambda>(n, x). is_f64 x) weights"
  shows "composite_confidence_breakdown ex iso_ts market markets sz price now (g\<lparr> gv_agreement := None \<rparr>) weights side
     = map_option (\<lambda>b. b\<lparr> cb_agreement_factor := None \<rparr>)
         (composite_confidence_breakdown ex iso_ts market markets sz price now (g\<lparr> gv_agreement := Some v \<rparr>)
           (dput ''agreement_factor'' 0 weights) side)
   \<and> composite_confidence_breakdown ex iso_ts market markets sz price now (g\<lparr> gv_trend := None \<rparr>) weights side
     = map_option (\<lambda>b. b\<lparr> cb_trend_factor := None \<rparr>)
         (composite_confidence_breakdown ex iso_ts market markets sz price now (g\<lparr> gv_trend := Some v \<rparr>)
           (dput ''trend_factor'' 0 weights) side)"
proof -
  note w = dget_or_effective [OF assms(1)] effective_weights_f64 [OF assms]
  have a: "weighted_score (effective_weights weights)
       [d, u, p, c, (''agreement_factor'', None), k, t, l, b]
     = weighted_score (effective_weights (dput ''agreement_factor'' 0 weights))
       [d, u, p, c, (''agreement_factor'', Some v), k, t, l, b]"
    if "''agreement_factor'' \<notin> set (map fst [d, u, p, c, k, t, l, b])" for d u p c k t l b
    using weighted_score_absent [of "''agreement_factor''" "[d, u, p, c]" "[k, t, l, b]", OF _ w] that by simp
  have t: "weighted_score (effective_weights weights)
       [d, u, p, c, r, k, (''trend_factor'', None), l, b]
     = weighted_score (effective_weights (dput ''trend_factor'' 0 weights))
       [d, u, p, c, r, k, (''trend_factor'', Some v), l, b]"
    if "''trend_factor'' \<notin> set (map fst [d, u, p, c, r, k, l, b])" for d u p c r k l b
    using weighted_score_absent [of "''trend_factor''" "[d, u, p, c, r, k]" "[l, b]", OF _ w] that by simp
  show ?thesis
    unfolding composite_confidence_breakdown_def by (simp add: a t Let_def split: option.split)
qed

definition quiet_market :: msg where
  "quiet_market = [(''ticker'', JStr ''KX-A''), (''volume_24h_fp'', JInt 0)]"

theorem absent_factor_has_no_weight_witness:
  "composite_confidence_breakdown id (\<lambda>_. None) quiet_market [] 10 (1/2) 0
      \<lparr>gv_agreement = None, gv_cluster = 0, gv_trend = None, gv_analyst = 1/2, gv_block_trade = 0\<rparr>
      [(''depth_factor'', 1/2)] Yes
   = map_option (\<lambda>b. b\<lparr> cb_agreement_factor := None \<rparr>)
       (composite_confidence_breakdown id (\<lambda>_. None) quiet_market [] 10 (1/2) 0
          \<lparr>gv_agreement = Some 1, gv_cluster = 0, gv_trend = None, gv_analyst = 1/2, gv_block_trade = 0\<rparr>
          [(''depth_factor'', 1/2), (''agreement_factor'', 0)] Yes)"
proof -
  have "is_f64 (1/2)" using fl_eighths [of 4] by (simp add: is_f64_def)
  then have w: "dict_ok [(''depth_factor'', 1/2 :: f64)]" "list_all (\<lambda>(n, x). is_f64 x) [(''depth_factor'', 1/2)]"
    by (simp_all add: dict_ok_def dkeys_def)
  have d: "dput ''agreement_factor'' 0 [(''depth_factor'', 1/2)] = [(''depth_factor'', 1/2), (''agreement_factor'', 0 :: f64)]"
    by simp
  have g: "\<lparr>gv_agreement = Some 1, gv_cluster = 0, gv_trend = None, gv_analyst = 1/2, gv_block_trade = 0\<rparr>\<lparr>gv_agreement := x\<rparr>
      = \<lparr>gv_agreement = x, gv_cluster = 0, gv_trend = None, gv_analyst = 1/2, gv_block_trade = 0\<rparr>" for x
    by simp
  show ?thesis
    using absent_factor_has_no_weight [OF w, of id "\<lambda>_. None" quiet_market "[]" 10 "1/2" 0
        "\<lparr>gv_agreement = Some 1, gv_cluster = 0, gv_trend = None, gv_analyst = 1/2, gv_block_trade = 0\<rparr>" Yes 1]
    unfolding d g by (rule conjunct1)
qed

subsection \<open>Bounds\<close>

lemma unusualness_bounds:
  assumes "0 \<le> price" "price \<le> 1"
  shows "0 \<le> unusualness_factor side price" "unusualness_factor side price \<le> 1"
proof -
  have uc: "0 \<le> unit_cost side price" "unit_cost side price \<le> 1"
    using assms unit_cost_range [of price side] by simp_all
  have h: "fl (1/2) = 1/2" "fl (- (1/2)) = - (1/2)" using fl_eighths [of 4] fl_eighths [of "- 4"] by simp_all
  have "fsub (unit_cost side price) (1/2) \<le> 1/2"
    using fl_mono [of "unit_cost side price - 1/2" "1/2"] uc h by (simp add: flops)
  moreover have "- (1/2) \<le> fsub (unit_cost side price) (1/2)"
    using fl_mono [of "- (1/2)" "unit_cost side price - 1/2"] uc h by (simp add: flops)
  ultimately have "\<bar>fsub (unit_cost side price) (1/2)\<bar> * 2 \<le> 1" by linarith
  then have m: "fmul \<bar>fsub (unit_cost side price) (1/2)\<bar> 2 \<le> 1" "0 \<le> fmul \<bar>fsub (unit_cost side price) (1/2)\<bar> 2"
    using fl_mono [of "\<bar>fsub (unit_cost side price) (1/2)\<bar> * 2" 1] by (simp_all add: fmul_def fl_nonneg)
  then show "0 \<le> unusualness_factor side price" "unusualness_factor side price \<le> 1"
    using fl_mono [of 0 "1 - fmul \<bar>fsub (unit_cost side price) (1/2)\<bar> 2"]
          fl_mono [of "1 - fmul \<bar>fsub (unit_cost side price) (1/2)\<bar> 2" 1]
    by (simp_all add: unusualness_factor_def fsub_def [of 1])
qed

lemma one_minus_bounds: "0 \<le> x \<Longrightarrow> x \<le> 1 \<Longrightarrow> 0 \<le> fsub 1 x \<and> fsub 1 x \<le> 1"
  using fl_mono [of 0 "1 - x"] fl_mono [of "1 - x" 1] by (simp add: fsub_def)

lemma proximity_bounds: "0 \<le> proximity_factor iso_ts v now" "proximity_factor iso_ts v now \<le> 1"
proof -
  have "0 \<le> fsub 1 (fdiv s CLOSE_PROXIMITY_WINDOW_SEC) \<and> fsub 1 (fdiv s CLOSE_PROXIMITY_WINDOW_SEC) \<le> 1"
    if "0 < s" "s \<le> CLOSE_PROXIMITY_WINDOW_SEC" for s
    using that fl_mono [of 0 "s / CLOSE_PROXIMITY_WINDOW_SEC"] fl_mono [of "s / CLOSE_PROXIMITY_WINDOW_SEC" 1]
    by (intro one_minus_bounds) (simp_all add: fdiv_def CLOSE_PROXIMITY_WINDOW_SEC_def)
  then show "0 \<le> proximity_factor iso_ts v now" "proximity_factor iso_ts v now \<le> 1"
    by (auto simp: proximity_factor_def Let_def split: json.split option.split)
qed

lemma context_bounds: "0 \<le> context_factor volume others" "context_factor volume others \<le> 1"
proof -
  let ?q = "rat_of_nat (length (filter (\<lambda>v. v \<le> volume) others)) / of_nat (length others)"
  have "?q \<le> 1" if "others \<noteq> []" using that length_filter_le [of "\<lambda>v. v \<le> volume" others] by (simp add: divide_le_eq)
  then show "0 \<le> context_factor volume others" "context_factor volume others \<le> 1"
    using fl_mono [of 0 ?q] fl_mono [of ?q 1] by (auto simp: context_factor_def)
qed

lemma depth_bounds:
  assumes "\<forall>x. x \<le> 0 \<longrightarrow> 0 \<le> ex x \<and> ex x \<le> 1" "0 \<le> sz" "depth_factor ex volume sz = Some d"
  shows "0 \<le> d" "d \<le> 1"
proof -
  have k: "0 \<le> DEPTH_SATURATION_K" using fl_mono [of 0 "2302585092994046 / 10 ^ 15"] by (simp add: DEPTH_SATURATION_K_def)
  have v: "0 < volume" and d: "d = fsub 1 (ex (fmul (- DEPTH_SATURATION_K) (fdiv sz volume)))"
    using assms(3) by (auto simp: depth_factor_def split: if_splits)
  have "fmul (- DEPTH_SATURATION_K) (fdiv sz volume) \<le> 0"
    using k v assms(2) fl_mono [of "- (DEPTH_SATURATION_K * fdiv sz volume)" 0] by (simp add: fmul_def)
  then show "0 \<le> d" "d \<le> 1" using one_minus_bounds assms(1) d by simp_all
qed

text \<open>
  Every factor the score computes itself is a number in [0, 1] and so is the score, for any
  price in [0, 1], any size and any market, as long as \<open>math.exp\<close> maps the non-positive
  numbers into [0, 1].
\<close>

theorem confidence_in_unit_interval:
  assumes "\<forall>x. x \<le> 0 \<longrightarrow> 0 \<le> ex x \<and> ex x \<le> 1" "0 \<le> sz" "0 \<le> price" "price \<le> 1"
    and "composite_confidence_breakdown ex iso_ts market markets sz price now g weights side = Some b"
  shows "list_all (\<lambda>x. 0 \<le> x \<and> x \<le> 1)
     ((case cb_depth_factor b of None \<Rightarrow> [] | Some d \<Rightarrow> [d])
       @ [cb_unusualness_factor b, cb_proximity_factor b, cb_context_factor b, cb_score b])"
proof -
  obtain volume where v: "market_volume market = Some volume"
    using assms(5) by (cases "market_volume market") (simp_all add: composite_confidence_breakdown_def)
  obtain others where o: "all_some (map market_volume markets) = Some others"
    using assms(5) v by (cases "all_some (map market_volume markets)") (simp_all add: composite_confidence_breakdown_def)
  have b: "cb_depth_factor b = depth_factor ex volume sz" "cb_unusualness_factor b = unusualness_factor side price"
      "cb_proximity_factor b = proximity_factor iso_ts (jget market ''close_time'') now"
      "cb_context_factor b = context_factor volume others" "\<exists>s. cb_score b = min (max s 0) 1"
    using assms(5) by (auto simp: composite_confidence_breakdown_def v o Let_def)
  show ?thesis
    using b(5) unusualness_bounds [OF assms(3,4)] proximity_bounds context_bounds depth_bounds [OF assms(1,2)]
    unfolding b(1-4) by (cases "depth_factor ex volume sz") auto
qed

theorem confidence_in_unit_interval_witness:
  "\<exists>b. composite_confidence_breakdown (\<lambda>x. if x < 0 then 0 else 1) (\<lambda>_. None) quiet_market [quiet_market] 10 (1/4) 0
      \<lparr>gv_agreement = None, gv_cluster = 0, gv_trend = None, gv_analyst = 1/2, gv_block_trade = 0\<rparr> [] Yes = Some b
    \<and> list_all (\<lambda>x. 0 \<le> x \<and> x \<le> 1)
     ((case cb_depth_factor b of None \<Rightarrow> [] | Some d \<Rightarrow> [d])
       @ [cb_unusualness_factor b, cb_proximity_factor b, cb_context_factor b, cb_score b])"
proof -
  have v: "market_volume quiet_market = Some 0" by (simp add: market_volume_def quiet_market_def jget_def jor_def fint_def)
  obtain b where b: "composite_confidence_breakdown (\<lambda>x. if x < 0 then 0 else 1) (\<lambda>_. None) quiet_market [quiet_market] 10 (1/4) 0
      \<lparr>gv_agreement = None, gv_cluster = 0, gv_trend = None, gv_analyst = 1/2, gv_block_trade = 0\<rparr> [] Yes = Some b"
    by (simp add: composite_confidence_breakdown_def v Let_def)
  show ?thesis by (intro exI [of _ b] conjI b) (rule confidence_in_unit_interval [OF _ _ _ _ b]; simp)
qed

end
