(* ===== verification/CandidateRetry.thy ===== *)
theory CandidateRetry
  imports PyValues FloatBounds HistoryPush
begin

text \<open>
  \<open>services/candidate_retry.py\<close>, the bounded retry queue for trades whose market could not be
  read, and \<open>services/candidate_ledger.py\<close>, the durable claim that makes the decision on a
  trade happen once. A retry pass is run by one caller at a time. The market lookup, the scoring
  and the handling of signals are arguments: a lookup that raises or finds nothing is None; scoring
  answers the signals handled and whether something raised on the way.
\<close>

subsection \<open>The retry queue\<close>

definition BACKOFF_SCHEDULE_SEC :: "f64 list" where
  "BACKOFF_SCHEDULE_SEC = [1/2, 1, 2, 4, 8, 16, 30, 30]"

record retry_entry =
  re_trade :: msg
  re_attempts :: nat
  re_next_at :: f64
  re_failure :: string

record retry_state =
  rq_pending :: "(string, retry_entry) pdict"
  rq_window_retried :: nat
  rq_window_recovered :: nat
  rq_window_abandoned :: nat

definition init_retry_state :: retry_state where
  "init_retry_state = \<lparr>rq_pending = [], rq_window_retried = 0, rq_window_recovered = 0, rq_window_abandoned = 0\<rparr>"

definition reset_retry_window :: "retry_state \<Rightarrow> retry_state" where
  "reset_retry_window s = s\<lparr> rq_window_retried := 0, rq_window_recovered := 0, rq_window_abandoned := 0 \<rparr>"

definition retry_snapshot :: "retry_state \<Rightarrow> nat \<times> nat \<times> nat \<times> nat" where
  "retry_snapshot s = (length (rq_pending s), rq_window_retried s, rq_window_recovered s, rq_window_abandoned s)"

definition pending_count :: "retry_state \<Rightarrow> nat" where
  "pending_count s = length (rq_pending s)"

definition enqueue :: "msg \<Rightarrow> string \<Rightarrow> f64 \<Rightarrow> retry_state \<Rightarrow> retry_state" where
  "enqueue trade failure now s =
     (case jget trade ''trade_id'' of
        JStr tid \<Rightarrow>
          if tid = [] \<or> tid \<in> set (dkeys (rq_pending s)) then s
          else s\<lparr> rq_pending := dput tid
                   \<lparr>re_trade = trade, re_attempts = 0, re_next_at = fadd now (BACKOFF_SCHEDULE_SEC ! 0),
                    re_failure = failure\<rparr> (rq_pending s) \<rparr>
      | _ \<Rightarrow> s)"

record 'sig scored =
  sc_handled :: "'sig list"
  sc_raised :: bool

record 'sig retry_env =
  rv_market :: "json \<Rightarrow> json option"
  rv_score :: "msg \<Rightarrow> json \<Rightarrow> f64 \<Rightarrow> 'sig scored"

text \<open>The counters of one pass, and the signals handled by it.\<close>

record 'sig retry_pass =
  rp_retried :: nat
  rp_recovered :: nat
  rp_abandoned :: nat
  rp_handled :: "'sig list"

definition empty_pass :: "'sig retry_pass" where
  "empty_pass = \<lparr>rp_retried = 0, rp_recovered = 0, rp_abandoned = 0, rp_handled = []\<rparr>"

text \<open>\<open>result.get(ticker)\<close>, refused when it is falsy.\<close>

definition found_market :: "'sig retry_env \<Rightarrow> retry_entry \<Rightarrow> json option" where
  "found_market env e =
     (case rv_market env (jget (re_trade e) ''ticker'') of
        None \<Rightarrow> None | Some m \<Rightarrow> if truthy m then Some m else None)"

definition retry_failed :: "f64 \<Rightarrow> string \<Rightarrow> retry_entry \<Rightarrow> 'sig retry_pass \<Rightarrow> retry_state \<Rightarrow> 'sig retry_pass \<times> retry_state" where
  "retry_failed now tid e p s =
     (let n = re_attempts e + 1 in
      if n \<ge> length BACKOFF_SCHEDULE_SEC
      then (p\<lparr> rp_abandoned := rp_abandoned p + 1 \<rparr>, s\<lparr> rq_pending := ddel tid (rq_pending s) \<rparr>)
      else (p, s\<lparr> rq_pending := dput tid
              (e\<lparr> re_attempts := n, re_next_at := fadd now (BACKOFF_SCHEDULE_SEC ! n) \<rparr>) (rq_pending s) \<rparr>))"

text \<open>The loop over the snapshot of the ids; the flag says whether an exception escaped.\<close>

fun retry_loop ::
  "'sig retry_env \<Rightarrow> f64 \<Rightarrow> string list \<Rightarrow> 'sig retry_pass \<Rightarrow> retry_state \<Rightarrow> bool \<times> 'sig retry_pass \<times> retry_state" where
  "retry_loop env now [] p s = (False, p, s)"
| "retry_loop env now (tid # tids) p s =
     (case dget (rq_pending s) tid of
        None \<Rightarrow> (True, p, s)
      | Some e \<Rightarrow>
          if now < re_next_at e then retry_loop env now tids p s
          else (let p1 = p\<lparr> rp_retried := rp_retried p + 1 \<rparr> in
            case found_market env e of
              None \<Rightarrow> (case retry_failed now tid e p1 s of (p2, s2) \<Rightarrow> retry_loop env now tids p2 s2)
            | Some m \<Rightarrow>
                (let sc = rv_score env (re_trade e) m now;
                     p2 = p1\<lparr> rp_recovered := rp_recovered p1 + 1, rp_handled := rp_handled p1 @ sc_handled sc \<rparr>;
                     s2 = s\<lparr> rq_pending := ddel tid (rq_pending s) \<rparr>
                 in if sc_raised sc then (True, p2, s2) else retry_loop env now tids p2 s2)))"

definition run_pending :: "'sig retry_env \<Rightarrow> f64 \<Rightarrow> retry_state \<Rightarrow> bool \<times> 'sig retry_pass \<times> retry_state" where
  "run_pending env now s =
     (case retry_loop env now (dkeys (rq_pending s)) empty_pass s of
        (True, p, s') \<Rightarrow> (True, p, s')
      | (False, p, s') \<Rightarrow> (False, p,
          s'\<lparr> rq_window_retried := rq_window_retried s' + rp_retried p,
              rq_window_recovered := rq_window_recovered s' + rp_recovered p,
              rq_window_abandoned := rq_window_abandoned s' + rp_abandoned p \<rparr>))"

subsection \<open>The ledger\<close>

record candidate_row =
  ca_ticker :: "string option"
  ca_claimed_at :: f64
  ca_decision :: "string option"

record ledger =
  lg_candidates :: "(string, candidate_row) pdict"
  lg_duplicates :: nat
  lg_history :: history_push

definition claim :: "string \<Rightarrow> string option \<Rightarrow> f64 \<Rightarrow> ledger \<Rightarrow> bool \<times> ledger" where
  "claim tid ticker now l =
     (if tid \<in> set (dkeys (lg_candidates l)) then (False, l\<lparr> lg_duplicates := lg_duplicates l + 1 \<rparr>)
      else (True, l\<lparr> lg_candidates := lg_candidates l
             @ [(tid, \<lparr>ca_ticker = ticker, ca_claimed_at = now, ca_decision = None\<rparr>)] \<rparr>))"

definition record_decision :: "string \<Rightarrow> string \<Rightarrow> f64 \<Rightarrow> ledger \<Rightarrow> ledger" where
  "record_decision tid decision now l =
     l\<lparr> lg_candidates := map (\<lambda>(k, r). (k, if k = tid then r\<lparr> ca_decision := Some decision \<rparr> else r)) (lg_candidates l),
        lg_history := mark_history_changed now (lg_history l) \<rparr>"

definition decision_for :: "string \<Rightarrow> ledger \<Rightarrow> string option" where
  "decision_for tid l = (case dget (lg_candidates l) tid of None \<Rightarrow> None | Some r \<Rightarrow> ca_decision r)"

definition ledger_stats :: "ledger \<Rightarrow> nat \<times> nat" where
  "ledger_stats l = (length (lg_candidates l), lg_duplicates l)"

text \<open>A restart keeps the table; the duplicate counter and the push guard start afresh.\<close>

definition restart_ledger :: "history_push \<Rightarrow> ledger \<Rightarrow> ledger" where
  "restart_ledger hp l = l\<lparr> lg_duplicates := 0, lg_history := hp \<rparr>"

subsection \<open>One pass over one entry\<close>

lemma retry_failed_other:
  "retry_failed now tid e p s = (p', s') \<Longrightarrow> k \<noteq> tid \<Longrightarrow> dget (rq_pending s') k = dget (rq_pending s) k"
  by (auto simp: retry_failed_def Let_def split: if_splits)

lemma retry_failed_keys:
  "retry_failed now tid e p s = (p', s') \<Longrightarrow> k \<in> set (dkeys (rq_pending s')) \<Longrightarrow> k \<in> insert tid (set (dkeys (rq_pending s)))"
  by (auto simp: retry_failed_def Let_def split: if_splits)

text \<open>What a pass that raised nothing makes of an entry.\<close>

definition after_pass :: "'sig retry_env \<Rightarrow> f64 \<Rightarrow> retry_entry \<Rightarrow> retry_entry option" where
  "after_pass env now e =
     (if now < re_next_at e then Some e
      else if found_market env e \<noteq> None then None
      else if re_attempts e + 1 \<ge> length BACKOFF_SCHEDULE_SEC then None
      else Some (e\<lparr> re_attempts := re_attempts e + 1,
        re_next_at := fadd now (BACKOFF_SCHEDULE_SEC ! (re_attempts e + 1)) \<rparr>))"

lemma retry_loop_entries:
  assumes "retry_loop env now tids p s = (False, p', s')" "distinct tids"
  shows "dget (rq_pending s') k = (if k \<in> set tids then Option.bind (dget (rq_pending s) k) (after_pass env now)
     else dget (rq_pending s) k)"
  using assms
proof (induction tids arbitrary: p s)
  case Nil
  then show ?case by simp
next
  case (Cons tid tids)
  then obtain e where e: "dget (rq_pending s) tid = Some e" by (auto split: option.splits)
  have notin: "tid \<notin> set tids" and dist: "distinct tids" using Cons.prems(2) by simp_all
  show ?case
  proof (cases "now < re_next_at e")
    case True
    with Cons.prems(1) e have "retry_loop env now tids p s = (False, p', s')" by simp
    moreover have "after_pass env now e = Some e" using True by (simp add: after_pass_def)
    ultimately show ?thesis using Cons.IH [OF _ dist] e notin by auto
  next
    case due: False
    show ?thesis
    proof (cases "found_market env e")
      case None
      obtain p2 s2 where f: "retry_failed now tid e (p\<lparr> rp_retried := rp_retried p + 1 \<rparr>) s = (p2, s2)" by fastforce
      with Cons.prems(1) e due None have "retry_loop env now tids p2 s2 = (False, p', s')" by (simp add: Let_def)
      note ih = Cons.IH [OF this dist]
      have "dget (rq_pending s2) tid = after_pass env now e"
        using f due None by (auto simp: after_pass_def retry_failed_def Let_def split: if_splits)
      then show ?thesis using ih retry_failed_other [OF f, of k] e notin by (cases "k = tid") auto
    next
      case (Some m)
      have "\<exists>p2. retry_loop env now tids p2 (s\<lparr> rq_pending := ddel tid (rq_pending s) \<rparr>) = (False, p', s')"
        using Cons.prems(1) e due Some by (auto simp: Let_def split: if_splits)
      then obtain p2 where "retry_loop env now tids p2 (s\<lparr> rq_pending := ddel tid (rq_pending s) \<rparr>) = (False, p', s')" ..
      moreover have "after_pass env now e = None" using due Some by (simp add: after_pass_def)
      ultimately show ?thesis using Cons.IH [OF _ dist] e notin by auto
    qed
  qed
qed

lemma run_pending_entries:
  assumes "run_pending env now s = (False, p, s')" "dict_ok (rq_pending s)"
  shows "dget (rq_pending s') k = Option.bind (dget (rq_pending s) k) (after_pass env now)"
proof -
  obtain p1 s1 where l: "retry_loop env now (dkeys (rq_pending s)) empty_pass s = (False, p1, s1)"
    and s': "rq_pending s' = rq_pending s1"
    using assms(1) by (auto simp: run_pending_def split: prod.splits bool.splits)
  have "dget (rq_pending s) k = None" if "k \<notin> set (dkeys (rq_pending s))"
    using that by (simp add: dget_eq_None_iff)
  with retry_loop_entries [OF l] assms(2) show ?thesis by (auto simp: s' dict_ok_def)
qed

lemma retry_failed_ok: "retry_failed now tid e p s = (p', s') \<Longrightarrow> dict_ok (rq_pending s) \<Longrightarrow> dict_ok (rq_pending s')"
  by (auto simp: retry_failed_def Let_def split: if_splits)

lemma retry_loop_ok:
  "retry_loop env now tids p s = (r, p', s') \<Longrightarrow> dict_ok (rq_pending s) \<Longrightarrow> dict_ok (rq_pending s')"
proof (induction tids arbitrary: p s)
  case (Cons tid tids)
  then show ?case
    by (auto simp: Let_def split: option.splits if_splits prod.splits dest: retry_failed_ok)
qed simp

lemma run_pending_ok: "run_pending env now s = (r, p, s') \<Longrightarrow> dict_ok (rq_pending s) \<Longrightarrow> dict_ok (rq_pending s')"
  by (auto simp: run_pending_def split: prod.splits bool.splits dest: retry_loop_ok)

text \<open>A run of passes; None as soon as one of them raises.\<close>

fun run_passes :: "('sig retry_env \<times> f64) list \<Rightarrow> retry_state \<Rightarrow> retry_state option" where
  "run_passes [] s = Some s"
| "run_passes ((env, now) # ps) s =
     (case run_pending env now s of (True, p, s') \<Rightarrow> None | (False, p, s') \<Rightarrow> run_passes ps s')"

lemma schedule_range: "n < 8 \<Longrightarrow> 0 \<le> BACKOFF_SCHEDULE_SEC ! n \<and> BACKOFF_SCHEDULE_SEC ! n \<le> 30"
  by (simp add: BACKOFF_SCHEDULE_SEC_def less_Suc_eq numeral_eq_Suc) auto

lemma length_schedule [simp]: "length BACKOFF_SCHEDULE_SEC = 8"
  by (simp add: BACKOFF_SCHEDULE_SEC_def)

lemma run_passes_gone:
  assumes "dget (rq_pending s) k = None" "run_passes ps s = Some s'" "dict_ok (rq_pending s)"
  shows "dget (rq_pending s') k = None"
  using assms
proof (induction ps arbitrary: s)
  case (Cons a ps)
  obtain env now where a: "a = (env, now)" by (cases a)
  obtain p s1 where r: "run_pending env now s = (False, p, s1)" and rest: "run_passes ps s1 = Some s'"
    using Cons.prems(2) by (auto simp: a split: prod.splits bool.splits)
  have "dget (rq_pending s1) k = None"
    using run_pending_entries [OF r Cons.prems(3), of k] Cons.prems(1) by simp
  then show ?case by (rule Cons.IH [OF _ rest run_pending_ok [OF r Cons.prems(3)]])
qed simp

text \<open>Passes at least the longest backoff apart, the first not before \<open>t\<close>.\<close>

fun spaced_passes :: "f64 \<Rightarrow> f64 list \<Rightarrow> bool" where
  "spaced_passes t [] = True"
| "spaced_passes t (now # ts) = (t \<le> now \<and> spaced_passes (fadd now 30) ts)"

lemma run_passes_drain:
  assumes "run_passes ps s = Some s'" "dict_ok (rq_pending s)" "dget (rq_pending s) k = Some e"
    and "spaced_passes t (map snd ps)" "re_next_at e \<le> t" "8 \<le> re_attempts e + length ps" "re_attempts e < 8"
  shows "dget (rq_pending s') k = None"
  using assms
proof (induction ps arbitrary: s e t)
  case (Cons a ps)
  obtain env now where a: "a = (env, now)" by (cases a)
  obtain p s1 where r: "run_pending env now s = (False, p, s1)" and rest: "run_passes ps s1 = Some s'"
    using Cons.prems(1) by (auto simp: a split: prod.splits bool.splits)
  note ok = run_pending_ok [OF r Cons.prems(2)]
  have k1: "dget (rq_pending s1) k = after_pass env now e"
    using run_pending_entries [OF r Cons.prems(2), of k] Cons.prems(3) by simp
  show ?case
  proof (cases "after_pass env now e")
    case None
    with k1 show ?thesis by (intro run_passes_gone [OF _ rest ok]) simp
  next
    case (Some e1)
    have due: "\<not> now < re_next_at e" using Cons.prems(4,5) by (simp add: a)
    with Some have e1: "re_attempts e1 = re_attempts e + 1" "re_attempts e + 1 < 8"
      "re_next_at e1 = fadd now (BACKOFF_SCHEDULE_SEC ! (re_attempts e + 1))"
      by (auto simp: after_pass_def split: if_splits)
    have "re_next_at e1 \<le> fadd now 30"
      unfolding e1(3) using schedule_range [OF e1(2)] by (intro fadd_mono) simp_all
    moreover have "spaced_passes (fadd now 30) (map snd ps)" using Cons.prems(4) by (simp add: a)
    ultimately show ?thesis
      using e1 Cons.prems(6) k1 Some by (intro Cons.IH [OF rest ok, of e1 "fadd now 30"]) simp_all
  qed
qed simp

text \<open>
  C30: The retry queue drains. Whatever the market lookups answer, a queued trade is gone (recovered or
  abandoned) after eight retry passes that raise nothing and come at least the longest backoff
  (30 seconds) apart, the first no earlier than the entry is due.
\<close>

theorem retry_queue_drains:
  assumes "run_passes ps s = Some s'" "dict_ok (rq_pending s)" "dget (rq_pending s) k = Some e"
    and "re_attempts e < 8" "spaced_passes (re_next_at e) (map snd ps)" "8 \<le> length ps"
  shows "dget (rq_pending s') k = None"
  using run_passes_drain [OF assms(1,2,3,5)] assms(4,6) by simp

definition failing_env :: "unit retry_env" where
  "failing_env = \<lparr>rv_market = (\<lambda>t. None), rv_score = (\<lambda>t m now. \<lparr>sc_handled = [], sc_raised = False\<rparr>)\<rparr>"

definition example_trade :: msg where
  "example_trade = [(''trade_id'', JStr ''T''), (''ticker'', JStr ''A'')]"

definition example_queue :: retry_state where
  "example_queue = enqueue example_trade ''timeout'' 0 init_retry_state"

definition example_passes :: "(unit retry_env \<times> f64) list" where
  "example_passes = map (\<lambda>now. (failing_env, now)) [100, 200, 300, 400, 500, 600, 700, 800]"

lemma example_queue_eq:
  "rq_pending example_queue
     = [(''T'', \<lparr>re_trade = example_trade, re_attempts = 0, re_next_at = fl (1/2), re_failure = ''timeout''\<rparr>)]"
  by (simp add: example_queue_def enqueue_def example_trade_def jget_def init_retry_state_def fadd_def BACKOFF_SCHEDULE_SEC_def)

lemma fl_half: "fl (1/2) = 1/2"
  using fl_repr [of 1 "- 1"] by (simp add: power_int_def)

lemma example_run: "\<exists>s'. run_passes example_passes example_queue = Some s'"
  by (simp add: example_passes_def run_pending_def example_queue_eq found_market_def failing_env_def retry_failed_def
      fl_half fadd_def BACKOFF_SCHEDULE_SEC_def Let_def ddel_def)

theorem retry_queue_drains_witness:
  "\<exists>s'. run_passes example_passes example_queue = Some s' \<and> dget (rq_pending s') ''T'' = None"
proof -
  obtain s' where run: "run_passes example_passes example_queue = Some s'" using example_run by blast
  have "spaced_passes (fl (1/2)) (map snd example_passes)"
    by (simp add: example_passes_def fl_half fadd_def)
  then have "dget (rq_pending s') ''T'' = None"
    using retry_queue_drains [OF run, of "''T''"] by (simp add: example_queue_eq dict_ok_def example_passes_def)
  with run show ?thesis by blast
qed

subsection \<open>The outage survived\<close>

text \<open>The backoff still ahead of an entry once it is next due.\<close>

definition backoff_left :: "nat \<Rightarrow> f64" where
  "backoff_left n = sum_list (drop (n + 1) BACKOFF_SCHEDULE_SEC)"

lemma backoff_left_Suc: "n < 7 \<Longrightarrow> backoff_left n = BACKOFF_SCHEDULE_SEC ! (n + 1) + backoff_left (n + 1)"
  using Cons_nth_drop_Suc [of "n + 1" BACKOFF_SCHEDULE_SEC, symmetric] by (simp add: backoff_left_def)

text \<open>Adding a backoff to a clock reading below 2^40 seconds loses less than a millisecond.\<close>

lemma clock_add:
  assumes "0 \<le> now" "now \<le> 2 ^ 40" "0 \<le> d" "d \<le> 30"
  shows "now + d - 1 / 1000 \<le> fadd now d"
proof (cases "now + d < 2 powi (- 1022)")
  case True
  have "(2::rat) powi (- 1022) \<le> 2 powi (- 10)" by (rule powi_2_mono) simp
  moreover have "(2::rat) powi (- 10) = 1 / 1024" by (simp add: power_int_def power_one_over)
  ultimately have "now + d \<le> 1 / 1000" using True by simp
  moreover have "0 \<le> fadd now d" using assms by simp
  ultimately show ?thesis by linarith
next
  case False
  then have "2 powi (- 1022) \<le> \<bar>now + d\<bar>" using assms by simp
  from fl_rel [OF this] have "\<bar>fadd now d - (now + d)\<bar> \<le> \<bar>now + d\<bar> * 2 powi (- 53)" by (simp only: fadd_def)
  also have "\<dots> \<le> 2 ^ 41 * 2 powi (- 53)" using assms by (intro mult_right_mono) simp_all
  also have "(2::rat) ^ 41 * 2 powi (- 53) \<le> 1 / 1000" by (simp add: power_int_def power_one_over)
  finally show ?thesis by linarith
qed

text \<open>Lookups that keep failing, at clock readings below 2^40 seconds.\<close>

definition outage :: "('sig retry_env \<times> f64) list \<Rightarrow> bool" where
  "outage ps \<longleftrightarrow> list_all (\<lambda>(env, now). (\<forall>e. found_market env e = None) \<and> 0 \<le> now \<and> now \<le> 2 ^ 40) ps"

lemma run_passes_outage:
  assumes "run_passes ps s = Some s'" "dict_ok (rq_pending s)" "dget (rq_pending s) k = Some e"
    and "outage ps" "dget (rq_pending s') k = None" "re_attempts e < 8"
  shows "\<exists>now \<in> snd ` set ps. re_next_at e + backoff_left (re_attempts e) - of_nat (7 - re_attempts e) / 1000 \<le> now"
  using assms
proof (induction ps arbitrary: s e)
  case (Cons a ps)
  obtain env now where a: "a = (env, now)" by (cases a)
  obtain p s1 where r: "run_pending env now s = (False, p, s1)" and rest: "run_passes ps s1 = Some s'"
    using Cons.prems(1) by (auto simp: a split: prod.splits bool.splits)
  note ok = run_pending_ok [OF r Cons.prems(2)]
  have k1: "dget (rq_pending s1) k = after_pass env now e"
    using run_pending_entries [OF r Cons.prems(2), of k] Cons.prems(3) by simp
  have fail: "found_market env e = None" and t: "0 \<le> now" "now \<le> 2 ^ 40" and out: "outage ps"
    using Cons.prems(4) by (simp_all add: outage_def a)
  show ?case
  proof (cases "now < re_next_at e")
    case True
    then have "dget (rq_pending s1) k = Some e" using k1 by (simp add: after_pass_def)
    from Cons.IH [OF rest ok this out Cons.prems(5,6)] show ?thesis by (auto simp: a)
  next
    case due: False
    show ?thesis
    proof (cases "re_attempts e + 1 < 8")
      case True
      let ?e = "e\<lparr> re_attempts := re_attempts e + 1, re_next_at := fadd now (BACKOFF_SCHEDULE_SEC ! (re_attempts e + 1)) \<rparr>"
      have "dget (rq_pending s1) k = Some ?e" using k1 due fail True by (simp add: after_pass_def)
      from Cons.IH [OF rest ok this out Cons.prems(5)] True obtain u where u: "u \<in> snd ` set ps"
        and le: "fadd now (BACKOFF_SCHEDULE_SEC ! (re_attempts e + 1)) + backoff_left (re_attempts e + 1)
          - of_nat (7 - (re_attempts e + 1)) / 1000 \<le> u" by auto
      have "of_nat (7 - re_attempts e) = of_nat (7 - (re_attempts e + 1)) + (1::rat)" using True by simp
      moreover have "now + BACKOFF_SCHEDULE_SEC ! (re_attempts e + 1) - 1 / 1000
          \<le> fadd now (BACKOFF_SCHEDULE_SEC ! (re_attempts e + 1))"
        using schedule_range [OF True] by (intro clock_add t) simp_all
      moreover have "backoff_left (re_attempts e) = BACKOFF_SCHEDULE_SEC ! (re_attempts e + 1) + backoff_left (re_attempts e + 1)"
        using True by (intro backoff_left_Suc) simp
      ultimately have "re_next_at e + backoff_left (re_attempts e) - of_nat (7 - re_attempts e) / 1000 \<le> u"
        using le due by linarith
      with u show ?thesis by (auto simp: a)
    next
      case False
      then have "re_attempts e = 7" using Cons.prems(6) by simp
      then show ?thesis using due by (auto simp: a backoff_left_def BACKOFF_SCHEDULE_SEC_def)
    qed
  qed
qed simp

text \<open>
  A trade is not given up on early. If every lookup keeps failing, a trade queued at time
  \<open>t0\<close> is still queued unless some pass ran at least 91.4 seconds later: the schedule
  survives the 72-second outage it was made for, float rounding of the clock included.
\<close>

theorem retry_survives_outage:
  assumes "run_passes ps (enqueue trade failure t0 s) = Some s'" "dict_ok (rq_pending s)" "outage ps"
    and "jget trade ''trade_id'' = JStr tid" "tid \<noteq> []" "tid \<notin> set (dkeys (rq_pending s))" "0 \<le> t0" "t0 \<le> 2 ^ 40"
    and "dget (rq_pending s') tid = None"
  shows "\<exists>now \<in> snd ` set ps. t0 + 914 / 10 \<le> now"
proof -
  let ?e = "\<lparr>re_trade = trade, re_attempts = 0, re_next_at = fadd t0 (BACKOFF_SCHEDULE_SEC ! 0), re_failure = failure\<rparr>"
  let ?s = "enqueue trade failure t0 s"
  have s: "rq_pending ?s = dput tid ?e (rq_pending s)" using assms(4-6) by (simp add: enqueue_def)
  have "\<exists>now \<in> snd ` set ps. re_next_at ?e + backoff_left (re_attempts ?e) - of_nat (7 - re_attempts ?e) / 1000 \<le> now"
    by (rule run_passes_outage [OF assms(1) _ _ assms(3,9)]) (simp_all add: s assms(2))
  then obtain now where now: "now \<in> snd ` set ps" "fadd t0 (1/2) + backoff_left 0 - 7 / 1000 \<le> now"
    by (auto simp: BACKOFF_SCHEDULE_SEC_def)
  have "backoff_left 0 = 91" by (simp add: backoff_left_def BACKOFF_SCHEDULE_SEC_def)
  with now clock_add [OF assms(7,8), of "1/2"] have "t0 + 914 / 10 \<le> now" by simp
  with now(1) show ?thesis by blast
qed

theorem retry_survives_outage_witness:
  "\<exists>s'. run_passes example_passes (enqueue example_trade ''timeout'' 0 init_retry_state) = Some s'
     \<and> (\<exists>now \<in> snd ` set example_passes. 914 / 10 \<le> now)"
proof -
  obtain s' where run: "run_passes example_passes (enqueue example_trade ''timeout'' 0 init_retry_state) = Some s'"
    using example_run by (auto simp: example_queue_def)
  have spaced: "spaced_passes (fl (1/2)) (map snd example_passes)"
    by (simp add: example_passes_def fl_half fadd_def)
  have gone: "dget (rq_pending s') ''T'' = None"
    using run_passes_drain [OF run [folded example_queue_def], of "''T''" _ "fl (1/2)"] spaced
    by (simp add: example_queue_eq dict_ok_def example_passes_def)
  have "outage example_passes" by (simp add: outage_def example_passes_def found_market_def failing_env_def)
  from retry_survives_outage [OF run _ this, of "''T''"] gone have "\<exists>now \<in> snd ` set example_passes. 914 / 10 \<le> now"
    by (simp add: init_retry_state_def example_trade_def jget_def)
  with run show ?thesis by blast
qed

subsection \<open>Once per trade\<close>

datatype ledger_op =
    Claim string "string option" f64
  | Decide string string f64
  | RestartLedger history_push

fun ledger_step :: "ledger_op \<Rightarrow> ledger \<Rightarrow> ledger" where
  "ledger_step (Claim tid ticker now) l = snd (claim tid ticker now l)"
| "ledger_step (Decide tid d now) l = record_decision tid d now l"
| "ledger_step (RestartLedger hp) l = restart_ledger hp l"

text \<open>How many claims of a trade were granted along a run.\<close>

fun grants :: "string \<Rightarrow> ledger_op list \<Rightarrow> ledger \<Rightarrow> nat" where
  "grants tid [] l = 0"
| "grants tid (op # ops) l =
     (case op of Claim k ticker now \<Rightarrow> of_bool (k = tid \<and> fst (claim k ticker now l)) | _ \<Rightarrow> 0)
     + grants tid ops (ledger_step op l)"

definition claims_it :: "string \<Rightarrow> ledger_op \<Rightarrow> bool" where
  "claims_it tid op = (case op of Claim k ticker now \<Rightarrow> k = tid | _ \<Rightarrow> False)"

lemma claimed_stays: "tid \<in> set (dkeys (lg_candidates l)) \<Longrightarrow> tid \<in> set (dkeys (lg_candidates (ledger_step op l)))"
  by (cases op) (auto simp: claim_def record_decision_def restart_ledger_def dkeys_def image_iff split_beta)

lemma grants_claimed: "tid \<in> set (dkeys (lg_candidates l)) \<Longrightarrow> grants tid ops l = 0"
proof (induction ops arbitrary: l)
  case (Cons op ops)
  from Cons.IH [OF claimed_stays [OF Cons.prems, of op]] Cons.prems show ?case
    by (cases op) (auto simp: claim_def)
qed simp

text \<open>
  C25: A trade is decided on once. Along any run of claims (by the live path, the retry queue or a
  reconciliation), recorded decisions and restarts, a trade that has no row yet is granted exactly once if it is claimed at
  all, however often, and never if it already had one.
\<close>

theorem claimed_exactly_once:
  "grants tid ops l = of_bool (tid \<notin> set (dkeys (lg_candidates l)) \<and> list_ex (claims_it tid) ops)"
proof (cases "tid \<in> set (dkeys (lg_candidates l))")
  case True
  then show ?thesis by (simp add: grants_claimed)
next
  case False
  then show ?thesis
  proof (induction ops arbitrary: l)
    case (Cons op ops)
    show ?case
    proof (cases "claims_it tid op")
      case True
      then obtain ticker now where op: "op = Claim tid ticker now" by (auto simp: claims_it_def split: ledger_op.splits)
      have "tid \<in> set (dkeys (lg_candidates (ledger_step op l)))"
        using Cons.prems by (simp add: op claim_def dkeys_def)
      from grants_claimed [OF this, of ops] show ?thesis using Cons.prems by (simp add: op claims_it_def claim_def)
    next
      case no: False
      then have fresh: "tid \<notin> set (dkeys (lg_candidates (ledger_step op l)))"
        using Cons.prems by (cases op) (auto simp: claims_it_def claim_def record_decision_def restart_ledger_def
            dkeys_def image_iff split_beta)
      from Cons.IH [OF fresh] fresh show ?thesis using no Cons.prems
        by (cases op) (simp_all add: claims_it_def)
    qed
  qed simp
qed

end
