(* ===== verification/TradeTape.thy ===== *)
theory TradeTape
  imports Confidence SignalLog CandidateRetry Strategy
begin

text \<open>
  \<open>services/whalewatchers/kalshi_trade_tape.py\<close>: whale prints found on Kalshi's public trade
  tape. One call of \<open>fetch_signals\<close> resolves the markets it does not know and then judges the
  tape trade by trade. Trade ids and tickers are texts, as the exchange sends them. What the
  scoring only reads (titles, signal log, price history, analyst lean, \<open>exp\<close>, ISO text) is the
  record \<open>tape_env\<close>; the candidate log is the list of rejections written.
\<close>

definition TREND_LOOKBACK_SEC :: f64 where "TREND_LOOKBACK_SEC = 1800"
definition TREND_FULL_SCALE :: f64 where "TREND_FULL_SCALE = fl (5/100)"
definition MAX_SEEN_TRADE_IDS :: nat where "MAX_SEEN_TRADE_IDS = 250000"
definition MARKET_CACHE_TTL_SEC :: f64 where "MARKET_CACHE_TTL_SEC = 300"
definition MAX_MARKET_CACHE :: nat where "MAX_MARKET_CACHE = 2000"
definition MAX_ONDEMAND_MARKET_FETCH :: nat where "MAX_ONDEMAND_MARKET_FETCH = 100"
definition AGREEMENT_LOOKBACK_SEC :: f64 where "AGREEMENT_LOOKBACK_SEC = 21600"
definition CLUSTER_LOOKBACK_SEC :: f64 where "CLUSTER_LOOKBACK_SEC = 1800"

record tape_rejection =
  tj_ticker :: string
  tj_gate :: string
  tj_observed :: f64
  tj_threshold :: f64
  tj_side :: outcome_side
  tj_unit_cost :: "f64 option"

record tape_env =
  tp_titles :: title_cache
  tp_log :: signal_log
  tp_history :: market_history
  tp_analyst_lean :: "string \<Rightarrow> f64 option"
  tp_iso_ts :: "string \<Rightarrow> f64 option"
  tp_exp :: "f64 \<Rightarrow> f64"

record tape_state =
  tt_seen_ids :: "string set"
  tt_seen_order :: "(string \<times> f64) list"
  tt_market_cache :: "(string, f64 \<times> msg option) pdict"
  tt_prescanned :: nat
  tt_whale_sized_offlist :: nat
  tt_markets_resolved :: nat
  tt_resolve_failures :: nat
  tt_rejections :: "tape_rejection list"

definition init_tape :: tape_state where
  "init_tape = \<lparr>tt_seen_ids = {}, tt_seen_order = [], tt_market_cache = [], tt_prescanned = 0,
     tt_whale_sized_offlist = 0, tt_markets_resolved = 0, tt_resolve_failures = 0, tt_rejections = []\<rparr>"

subsection \<open>Readers\<close>

definition text_of :: "json \<Rightarrow> string option" where
  "text_of v = (case v of JStr s \<Rightarrow> (if s = [] then None else Some s) | _ \<Rightarrow> None)"

text \<open>\<open>_price_dollars\<close>: a missing or empty field is None, never zero.\<close>

definition price_dollars :: "msg \<Rightarrow> string \<Rightarrow> f64 option" where
  "price_dollars m k = (let raw = jget m k in if raw = JNull \<or> raw = JStr [] then None else py_float raw)"

definition trade_exchange_ts :: "(string \<Rightarrow> f64 option) \<Rightarrow> msg \<Rightarrow> f64 option" where
  "trade_exchange_ts iso_ts m =
     (case (case jget m ''ts_ms'' of JNull \<Rightarrow> None | v \<Rightarrow> py_float v) of
        Some ms \<Rightarrow> Some (fdiv ms 1000)
      | None \<Rightarrow>
          (case (case jget m ''ts'' of JNull \<Rightarrow> None | v \<Rightarrow> py_float v) of
             Some s \<Rightarrow> Some s
           | None \<Rightarrow> (case text_of (jget m ''created_time'') of None \<Rightarrow> None | Some t \<Rightarrow> iso_ts t)))"

definition min_contracts_for :: "title_cache \<Rightarrow> string \<Rightarrow> settings \<Rightarrow> f64" where
  "min_contracts_for tc ticker wwk =
     (let default = cfg_num_or wwk ''min_contracts'' 5000 in
      case jget wwk ''min_contracts_by_series'' of
        JObj d \<Rightarrow> cfg_num_or d (series_of tc ticker) default
      | _ \<Rightarrow> default)"

definition prescan_count :: "msg \<Rightarrow> (outcome_side \<times> f64) option" where
  "prescan_count trade =
     (case resolve_taker_outcome_side trade of
        None \<Rightarrow> None
      | Some side \<Rightarrow> map_option (Pair side) (price_dollars trade ''count_fp''))"

definition trend_factor :: "tape_env \<Rightarrow> string \<Rightarrow> outcome_side \<Rightarrow> f64 \<Rightarrow> f64 option" where
  "trend_factor en ticker side now =
     (case momentum ticker TREND_LOOKBACK_SEC now (tp_history en) of
        None \<Rightarrow> None
      | Some mom \<Rightarrow>
          (let d = (if side = Yes then mo_delta mom else - mo_delta mom)
           in Some (fadd (1/2) (fmul (1/2) (min (max (fdiv d TREND_FULL_SCALE) (- 1)) 1)))))"

definition analyst_factor :: "tape_env \<Rightarrow> string \<Rightarrow> outcome_side \<Rightarrow> f64" where
  "analyst_factor en ticker side =
     (case tp_analyst_lean en ticker of None \<Rightarrow> 1/2 | Some lean \<Rightarrow> unit_cost side lean)"

definition agreement_factor :: "tape_env \<Rightarrow> string \<Rightarrow> outcome_side \<Rightarrow> f64 \<Rightarrow> f64 option" where
  "agreement_factor en ticker side now =
     (let sides = recent_sides_for_ticker ticker (fsub now AGREEMENT_LOOKBACK_SEC) (tp_log en) in
      if sides = [] then None
      else Some (fl (of_nat (length (filter (\<lambda>s. s = side_str side) sides)) / of_nat (length sides))))"

subsection \<open>The seen trades\<close>

fun evict_seen :: "(string \<times> f64) list \<Rightarrow> string set \<Rightarrow> (string \<times> f64) list \<times> string set" where
  "evict_seen [] ids = ([], ids)"
| "evict_seen ((oldest, t) # order) ids =
     (if length ((oldest, t) # order) > MAX_SEEN_TRADE_IDS then evict_seen order (ids - {oldest})
      else ((oldest, t) # order, ids))"

definition mark_seen_locked :: "string \<Rightarrow> f64 \<Rightarrow> tape_state \<Rightarrow> tape_state" where
  "mark_seen_locked trade_id ts st =
     (if trade_id \<in> tt_seen_ids st then st
      else let (order, ids) = evict_seen (tt_seen_order st @ [(trade_id, ts)]) (insert trade_id (tt_seen_ids st))
           in st\<lparr> tt_seen_ids := ids, tt_seen_order := order \<rparr>)"

definition seen_exchange_ts_by_id :: "tape_state \<Rightarrow> (string, f64) pdict" where
  "seen_exchange_ts_by_id st = fold (\<lambda>(i, t). dput i t) (tt_seen_order st) []"

definition seen_horizon_ts :: "tape_state \<Rightarrow> f64 option" where
  "seen_horizon_ts st = (case tt_seen_order st of [] \<Rightarrow> None | (i, t) # _ \<Rightarrow> Some t)"

subsection \<open>Resolving unknown markets\<close>

type_synonym counters = "(string, nat) pdict"

definition bump_by :: "nat \<Rightarrow> string \<Rightarrow> counters \<Rightarrow> counters" where
  "bump_by n c counts = dput c (dget_or counts c 0 + n) counts"

definition bump :: "string \<Rightarrow> counters \<Rightarrow> counters" where
  "bump = bump_by 1"

record resolve_scan =
  rs_markets :: "(string, msg) pdict"
  rs_wanted :: "(string, msg list) pdict"
  rs_prescanned :: nat
  rs_offlist :: nat

definition fresh_cached :: "f64 \<Rightarrow> tape_state \<Rightarrow> string \<Rightarrow> msg option option" where
  "fresh_cached now st ticker =
     (case dget (tt_market_cache st) ticker of
        None \<Rightarrow> None
      | Some (t, m) \<Rightarrow> if fsub now t < MARKET_CACHE_TTL_SEC then Some m else None)"

definition scan_trade :: "title_cache \<Rightarrow> settings \<Rightarrow> f64 \<Rightarrow> tape_state \<Rightarrow> msg \<Rightarrow> resolve_scan \<Rightarrow> resolve_scan" where
  "scan_trade tc wwk now st trade sc =
     (case (text_of (jget trade ''ticker''), text_of (jget trade ''trade_id'')) of
        (Some ticker, Some trade_id) \<Rightarrow>
          if trade_id \<in> tt_seen_ids st then sc
          else (let sc1 = sc\<lparr> rs_prescanned := rs_prescanned sc + 1 \<rparr> in
            if ticker \<in> set (dkeys (rs_markets sc)) then sc1
            else case fresh_cached now st ticker of
                Some (Some m) \<Rightarrow> sc1\<lparr> rs_markets := dput ticker m (rs_markets sc) \<rparr>
              | Some None \<Rightarrow> sc1
              | None \<Rightarrow>
                  (case prescan_count trade of
                     None \<Rightarrow> sc1
                   | Some (side, cnt) \<Rightarrow>
                       if cnt < min_contracts_for tc ticker wwk then sc1
                       else sc1\<lparr> rs_offlist := rs_offlist sc + 1,
                              rs_wanted := dput ticker (dget_or (rs_wanted sc) ticker [] @ [trade]) (rs_wanted sc) \<rparr>))
      | _ \<Rightarrow> sc)"

definition enqueue_trades :: "(string, msg list) pdict \<Rightarrow> string \<Rightarrow> f64 \<Rightarrow> string list \<Rightarrow> retry_state \<Rightarrow> retry_state" where
  "enqueue_trades wanted failure clk tickers rq =
     fold (\<lambda>trade. enqueue trade failure clk) (concat (map (\<lambda>t. dget_or wanted t []) tickers)) rq"

definition trim_market_cache :: "(string, f64 \<times> msg option) pdict \<Rightarrow> (string, f64 \<times> msg option) pdict" where
  "trim_market_cache cache =
     (if length cache > MAX_MARKET_CACHE
      then fold ddel (map fst (take (length cache div 2) (sort_key (\<lambda>(k, t, m). t) cache))) cache
      else cache)"

record resolved =
  rv_markets :: "(string, msg) pdict"
  rv_failed :: "string list"
  rv_counts :: counters
  rv_state :: tape_state
  rv_retry :: retry_state

text \<open>
  \<open>client\<close> is None when the context has none, else the batch look-up: the markets found or the
  text of the exception. The set of tickers over the batch capacity is walked in sorted order.
\<close>

definition resolve_unknown_markets ::
  "title_cache \<Rightarrow> settings \<Rightarrow> (string list \<Rightarrow> string + (string, msg) pdict) option \<Rightarrow> f64 \<Rightarrow> f64 \<Rightarrow> msg list
     \<Rightarrow> (string, msg) pdict \<Rightarrow> tape_state \<Rightarrow> retry_state \<Rightarrow> resolved" where
  "resolve_unknown_markets tc wwk client now clk trade_tape markets st rq =
     (let sc = fold (scan_trade tc wwk now st) trade_tape
                 \<lparr>rs_markets = markets, rs_wanted = [], rs_prescanned = 0, rs_offlist = 0\<rparr>;
          st1 = st\<lparr> tt_prescanned := tt_prescanned st + rs_prescanned sc,
                    tt_whale_sized_offlist := tt_whale_sized_offlist st + rs_offlist sc \<rparr>;
          counts0 = (if rs_offlist sc = 0 then [] else bump_by (rs_offlist sc) ''offlist_candidates'' []);
          wanted = sort (dkeys (rs_wanted sc));
          batch = take MAX_ONDEMAND_MARKET_FETCH wanted;
          truncated = drop MAX_ONDEMAND_MARKET_FETCH wanted;
          rq1 = enqueue_trades (rs_wanted sc) ''market fetch batch capacity exceeded'' clk truncated rq;
          counts1 = bump ''resolve_calls''
            (if truncated = [] then counts0 else bump_by (length truncated) ''batch_capacity_truncated'' counts0)
      in case client of
           None \<Rightarrow> \<lparr>rv_markets = rs_markets sc, rv_failed = [], rv_counts = counts0, rv_state = st1, rv_retry = rq\<rparr>
         | Some fetch \<Rightarrow>
             if wanted = []
             then \<lparr>rv_markets = rs_markets sc, rv_failed = [], rv_counts = counts0, rv_state = st1, rv_retry = rq\<rparr>
             else (case fetch batch of
                 Inl failure \<Rightarrow>
                   \<lparr>rv_markets = rs_markets sc, rv_failed = truncated @ batch,
                    rv_counts = bump ''resolve_failures'' counts1,
                    rv_state = st1\<lparr> tt_resolve_failures := tt_resolve_failures st1 + 1 \<rparr>,
                    rv_retry = enqueue_trades (rs_wanted sc) failure clk batch rq1\<rparr>
               | Inr fetched \<Rightarrow>
                   (let found = filter (\<lambda>t. dget fetched t \<noteq> None) batch in
                    \<lparr>rv_markets = fold (\<lambda>t d. case dget fetched t of None \<Rightarrow> d | Some m \<Rightarrow> dput t m d) batch (rs_markets sc),
                     rv_failed = truncated, rv_counts = counts1,
                     rv_state = st1\<lparr> tt_markets_resolved := tt_markets_resolved st1 + length found,
                        tt_market_cache := trim_market_cache
                          (fold (\<lambda>t. dput t (now, dget fetched t)) batch (tt_market_cache st1)) \<rparr>,
                     rv_retry = rq1\<rparr>)))"

subsection \<open>Judging a trade\<close>

definition tape_rejection_of ::
  "string \<Rightarrow> string \<Rightarrow> f64 \<Rightarrow> f64 \<Rightarrow> outcome_side \<Rightarrow> f64 option \<Rightarrow> tape_rejection" where
  "tape_rejection_of ticker gate observed threshold side uc =
     \<lparr>tj_ticker = ticker, tj_gate = gate, tj_observed = observed, tj_threshold = threshold,
      tj_side = side, tj_unit_cost = uc\<rparr>"

text \<open>What one trade adds: counter bumps, rejections, signals.\<close>

record tape_verdict =
  tv_bumps :: "string list"
  tv_rejections :: "tape_rejection list"
  tv_signals :: "whale_signal list"

definition silent :: "string list \<Rightarrow> tape_verdict" where
  "silent bumps = \<lparr>tv_bumps = bumps, tv_rejections = [], tv_signals = []\<rparr>"

definition rejected :: "string list \<Rightarrow> tape_rejection \<Rightarrow> tape_verdict" where
  "rejected bumps r = \<lparr>tv_bumps = bumps @ [''rejection_writes''], tv_rejections = [r], tv_signals = []\<rparr>"

text \<open>A trade whose market could not be resolved.\<close>

definition judge_unresolved :: "tape_env \<Rightarrow> settings \<Rightarrow> msg \<Rightarrow> tape_verdict" where
  "judge_unresolved en wwk trade =
     (case (prescan_count trade, text_of (jget trade ''ticker'')) of
        (Some (side, cnt), Some ticker) \<Rightarrow>
          (let bar = min_contracts_for (tp_titles en) ticker wwk in
           if cnt < bar then silent [''offlist_skipped'']
           else rejected [''unresolved_market'']
             (tape_rejection_of ticker ''market_unresolved'' cnt bar side
                (map_option (unit_cost side) (price_dollars trade ''yes_price_dollars''))))
      | _ \<Rightarrow> silent [''offlist_skipped''])"

definition breakdown_json :: "confidence_breakdown \<Rightarrow> json" where
  "breakdown_json b =
     (let opt = (\<lambda>v. case v of None \<Rightarrow> JNull | Some x \<Rightarrow> JFloat x) in
      JObj [(''depth_factor'', opt (cb_depth_factor b)), (''unusualness_factor'', JFloat (cb_unusualness_factor b)),
            (''proximity_factor'', JFloat (cb_proximity_factor b)), (''context_factor'', JFloat (cb_context_factor b)),
            (''agreement_factor'', opt (cb_agreement_factor b)), (''cluster_factor'', JFloat (cb_cluster_factor b)),
            (''trend_factor'', opt (cb_trend_factor b)), (''analyst_factor'', JFloat (cb_analyst_factor b)),
            (''block_trade_factor'', JFloat (cb_block_trade_factor b)), (''score'', JFloat (cb_score b))])"

definition tape_context_json :: "msg \<Rightarrow> f64 \<Rightarrow> f64 option \<Rightarrow> f64 \<Rightarrow> json" where
  "tape_context_json market price notional volume =
     (let opt = (\<lambda>v. case v of None \<Rightarrow> JNull | Some x \<Rightarrow> JFloat x);
          spread = map_option (\<lambda>ask. py_round 4 (max (fsub ask price) 0)) (price_dollars market ''yes_ask_dollars'')
      in JObj [(''notional_usd'', opt (map_option (py_round 2) notional)), (''spread'', opt spread),
               (''volume_24h'', JFloat volume)])"

definition given_of :: "tape_env \<Rightarrow> msg \<Rightarrow> string \<Rightarrow> outcome_side \<Rightarrow> int \<Rightarrow> f64 \<Rightarrow> given_factors" where
  "given_of en trade ticker side n now =
     \<lparr>gv_agreement = agreement_factor en ticker side now,
      gv_cluster = cluster_factor ticker (side_str side) (of_int n) (fsub now CLUSTER_LOOKBACK_SEC) 4 (tp_log en),
      gv_trend = trend_factor en ticker side now, gv_analyst = analyst_factor en ticker side,
      gv_block_trade = (if truthy (jget trade ''is_block_trade'') then 1 else 0)\<rparr>"

text \<open>The signal of a candidate; None when a volume does not parse and \<open>float\<close> raises.\<close>

definition score_candidate ::
  "tape_env \<Rightarrow> (string, f64) pdict \<Rightarrow> msg list \<Rightarrow> f64 \<Rightarrow> msg \<Rightarrow> string \<Rightarrow> string \<Rightarrow> msg \<Rightarrow> outcome_side \<Rightarrow> int \<Rightarrow> f64
     \<Rightarrow> whale_signal option" where
  "score_candidate en weights markets now trade trade_id ticker market side n price =
     (case composite_confidence_breakdown (tp_exp en) (tp_iso_ts en) market markets (fint n) price now
             (given_of en trade ticker side n now) weights side of
        None \<Rightarrow> None
      | Some b \<Rightarrow>
          (case market_volume market of
             None \<Rightarrow> None
           | Some volume \<Rightarrow> Some
              \<lparr>ws_id = trade_id, ws_ticker = ticker, ws_side = side, ws_size = n, ws_price = py_round 2 price,
               ws_confidence = py_round 2 (cb_score b),
               ws_timestamp = (case trade_exchange_ts (tp_iso_ts en) trade of
                                 None \<Rightarrow> now | Some t \<Rightarrow> if t = 0 then now else t),
               ws_factors = breakdown_json b,
               ws_raw_context = tape_context_json market price (taker_notional_usd trade (side_str side)) volume,
               ws_close_time = jget market ''close_time''\<rparr>))"

definition judge_trade ::
  "tape_env \<Rightarrow> settings \<Rightarrow> (string, f64) pdict \<Rightarrow> msg list \<Rightarrow> f64 \<Rightarrow> msg \<Rightarrow> string \<Rightarrow> string \<Rightarrow> msg
     \<Rightarrow> value_error + tape_verdict" where
  "judge_trade en wwk weights markets now trade trade_id ticker market =
     (case resolve_taker_outcome_side trade of
        None \<Rightarrow> Inr (silent [])
      | Some side \<Rightarrow>
          (case price_dollars trade ''count_fp'' of
             None \<Rightarrow> Inr (rejected [] (tape_rejection_of ticker ''unparseable_count'' 0 0 side None))
           | Some cnt \<Rightarrow>
               (case price_dollars trade ''yes_price_dollars'' of
                  None \<Rightarrow> Inr (rejected [] (tape_rejection_of ticker ''unparseable_price'' 0 0 side None))
                | Some price \<Rightarrow>
                    (let uc = unit_cost side price; bar = min_contracts_for (tp_titles en) ticker wwk in
                     if cnt < bar
                     then Inr (rejected [''below_threshold'']
                            (tape_rejection_of ticker ''min_contracts'' cnt bar side (Some uc)))
                     else if rhe cnt \<le> 0 then Inr (silent [''candidates''])
                     else if \<not> is_tradeable_unit_cost (Some uc)
                     then Inr (rejected [''candidates'']
                            (tape_rejection_of ticker ''tradeable_price_range'' uc MIN_TRADEABLE_UNIT_COST side (Some uc)))
                     else (case score_candidate en weights markets now trade trade_id ticker market side (rhe cnt) price of
                             None \<Rightarrow> Inl (ValueError ''volume_24h_fp'')
                           | Some sig \<Rightarrow> Inr \<lparr>tv_bumps = [''candidates''], tv_rejections = [], tv_signals = [sig]\<rparr>)))))"

subsection \<open>The tape\<close>

record tape_out =
  to_signals :: "whale_signal list"
  to_counts :: counters

definition seen_ts :: "tape_env \<Rightarrow> f64 \<Rightarrow> msg \<Rightarrow> f64" where
  "seen_ts en now trade =
     (case trade_exchange_ts (tp_iso_ts en) trade of None \<Rightarrow> now | Some t \<Rightarrow> if t = 0 then now else t)"

definition add_verdict :: "tape_verdict \<Rightarrow> tape_state \<times> tape_out \<Rightarrow> tape_state \<times> tape_out" where
  "add_verdict v so =
     ((fst so)\<lparr> tt_rejections := tt_rejections (fst so) @ tv_rejections v \<rparr>,
      (snd so)\<lparr> to_signals := to_signals (snd so) @ tv_signals v,
                to_counts := fold bump (tv_bumps v) (to_counts (snd so)) \<rparr>)"

definition trade_step ::
  "tape_env \<Rightarrow> settings \<Rightarrow> (string, f64) pdict \<Rightarrow> msg list \<Rightarrow> (string, msg) pdict \<Rightarrow> string list \<Rightarrow> f64 \<Rightarrow> msg
     \<Rightarrow> tape_state \<times> tape_out \<Rightarrow> value_error option \<times> tape_state \<times> tape_out" where
  "trade_step en wwk weights markets by_ticker failed now trade so =
     (case text_of (jget trade ''trade_id'') of
        None \<Rightarrow> (None, so)
      | Some trade_id \<Rightarrow>
          if trade_id \<in> tt_seen_ids (fst so) then (None, so)
          else (let market = (case text_of (jget trade ''ticker'') of None \<Rightarrow> None | Some t \<Rightarrow> dget by_ticker t);
                    kept = (case text_of (jget trade ''ticker'') of None \<Rightarrow> True | Some t \<Rightarrow> t \<notin> set failed);
                    st = (if market \<noteq> None \<or> kept then mark_seen_locked trade_id (seen_ts en now trade) (fst so) else fst so);
                    so1 = (st, (snd so)\<lparr> to_counts := bump ''trades'' (to_counts (snd so)) \<rparr>)
            in case (text_of (jget trade ''ticker''), market) of
                 (Some ticker, Some m) \<Rightarrow>
                   if m = [] then (None, add_verdict (judge_unresolved en wwk trade) so1)
                   else (case judge_trade en wwk weights markets now trade trade_id ticker m of
                           Inl e \<Rightarrow> (Some e, so1)
                         | Inr v \<Rightarrow> (None, add_verdict v so1))
               | _ \<Rightarrow> (None, add_verdict (judge_unresolved en wwk trade) so1)))"

fun process_loop ::
  "tape_env \<Rightarrow> settings \<Rightarrow> (string, f64) pdict \<Rightarrow> msg list \<Rightarrow> (string, msg) pdict \<Rightarrow> string list \<Rightarrow> f64 \<Rightarrow> msg list
     \<Rightarrow> tape_state \<times> tape_out \<Rightarrow> value_error option \<times> tape_state \<times> tape_out" where
  "process_loop en wwk weights markets by_ticker failed now [] so = (None, so)"
| "process_loop en wwk weights markets by_ticker failed now (trade # trades) so =
     (case trade_step en wwk weights markets by_ticker failed now trade so of
        (Some e, so') \<Rightarrow> (Some e, so')
      | (None, so') \<Rightarrow> process_loop en wwk weights markets by_ticker failed now trades so')"

text \<open>An exception leaves the seen marks and the rejections behind and loses the signals.\<close>

definition process_trades ::
  "tape_env \<Rightarrow> settings \<Rightarrow> (string, f64) pdict \<Rightarrow> msg list \<Rightarrow> (string, msg) pdict \<Rightarrow> string list \<Rightarrow> f64 \<Rightarrow> counters
     \<Rightarrow> msg list \<Rightarrow> tape_state \<Rightarrow> (value_error + tape_out) \<times> tape_state" where
  "process_trades en wwk weights markets by_ticker failed now counts trade_tape st =
     (case process_loop en wwk weights markets by_ticker failed now trade_tape (st, \<lparr>to_signals = [], to_counts = counts\<rparr>) of
        (Some e, st', out) \<Rightarrow> (Inl e, st')
      | (None, st', out) \<Rightarrow> (Inr out, st'))"

definition score_recovered_trade ::
  "tape_env \<Rightarrow> settings \<Rightarrow> (string, f64) pdict \<Rightarrow> msg \<Rightarrow> msg \<Rightarrow> f64 \<Rightarrow> tape_state
     \<Rightarrow> (value_error + tape_out) \<times> tape_state" where
  "score_recovered_trade en wwk weights trade market now st =
     (case text_of (jget trade ''ticker'') of
        None \<Rightarrow> (Inr \<lparr>to_signals = [], to_counts = []\<rparr>, st)
      | Some ticker \<Rightarrow> process_trades en wwk weights [market] [(ticker, market)] [] now [] [trade] st)"

definition markets_index :: "msg list \<Rightarrow> (string, msg) pdict" where
  "markets_index ms = fold (\<lambda>m d. case text_of (jget m ''ticker'') of None \<Rightarrow> d | Some t \<Rightarrow> dput t m d) ms []"

definition fetch_signals ::
  "tape_env \<Rightarrow> settings \<Rightarrow> (string, f64) pdict \<Rightarrow> (string list \<Rightarrow> string + (string, msg) pdict) option
     \<Rightarrow> msg list \<Rightarrow> msg list \<Rightarrow> f64 \<Rightarrow> f64 \<Rightarrow> tape_state \<Rightarrow> retry_state
     \<Rightarrow> (value_error + tape_out) \<times> tape_state \<times> retry_state" where
  "fetch_signals en wwk weights client markets trade_tape now clk st rq =
     (let r = resolve_unknown_markets (tp_titles en) wwk client now clk trade_tape (markets_index markets) st rq;
          (out, st') = process_trades en wwk weights markets (rv_markets r) (rv_failed r) now (rv_counts r) trade_tape (rv_state r)
      in (out, st', rv_retry r))"

end
