(* ===== verification/TapeFacts.thy ===== *)
theory TapeFacts
  imports TradeTape
begin

text \<open>
  What the trade tape promises: the two halves of the seen set agree and stay bounded, a trade
  signals at most once, every signal is a whale-sized print at a tradeable price, every
  whale-sized print is answered by a signal or a logged rejection, and a failed market look-up
  sends its prints to the retry queue without marking them seen.
\<close>

subsection \<open>The seen set\<close>

definition seen_ok :: "tape_state \<Rightarrow> bool" where
  "seen_ok st \<longleftrightarrow> set (map fst (tt_seen_order st)) = tt_seen_ids st \<and> distinct (map fst (tt_seen_order st))
     \<and> length (tt_seen_order st) \<le> MAX_SEEN_TRADE_IDS"

lemma evict_seen_eq:
  "distinct (map fst order) \<Longrightarrow> evict_seen order ids =
     (drop (length order - MAX_SEEN_TRADE_IDS) order,
      ids - set (map fst (take (length order - MAX_SEEN_TRADE_IDS) order)))"
proof (induction order arbitrary: ids)
  case (Cons x order)
  obtain i t where x: "x = (i, t)" by (cases x)
  let ?k = "length order - MAX_SEEN_TRADE_IDS"
  show ?case
  proof (cases "length (x # order) > MAX_SEEN_TRADE_IDS")
    case True
    then have k: "length (x # order) - MAX_SEEN_TRADE_IDS = Suc ?k" by (simp only: list.size)
    have "evict_seen (x # order) ids = evict_seen order (ids - {i})"
      using True unfolding x evict_seen.simps by (simp only: if_True)
    also have "\<dots> = (drop ?k order, ids - {i} - set (map fst (take ?k order)))"
      using Cons.prems by (intro Cons.IH) (simp only: list.map distinct.simps)
    finally show ?thesis
      unfolding k take_Suc_Cons drop_Suc_Cons by (auto simp: x)
  next
    case False
    then have k: "length (x # order) - MAX_SEEN_TRADE_IDS = 0" by (simp only: diff_is_0_eq not_less)
    have "evict_seen (x # order) ids = (x # order, ids)"
      using False unfolding x evict_seen.simps by (simp only: if_False)
    then show ?thesis unfolding k by (simp only: drop_0 take_0 list.map list.set Diff_empty)
  qed
qed (simp only: evict_seen.simps list.size take_Nil drop_Nil list.map list.set Diff_empty)

lemma mark_seen_new:
  fixes ts :: f64
  assumes "i \<notin> tt_seen_ids st" "seen_ok st"
  defines "order \<equiv> tt_seen_order st @ [(i, ts)]"
  shows "mark_seen_locked i ts st = st\<lparr> tt_seen_ids := set (map fst (drop (length order - MAX_SEEN_TRADE_IDS) order)),
      tt_seen_order := drop (length order - MAX_SEEN_TRADE_IDS) order \<rparr>"
proof -
  let ?k = "length order - MAX_SEEN_TRADE_IDS"
  have d: "distinct (map fst order)" using assms by (auto simp: seen_ok_def)
  have ids: "insert i (tt_seen_ids st) = set (map fst order)" using assms(2) by (auto simp: order_def seen_ok_def)
  have "set (map fst order) = set (map fst (take ?k order)) \<union> set (map fst (drop ?k order))"
    by (metis append_take_drop_id map_append set_append)
  moreover have "set (map fst (take ?k order)) \<inter> set (map fst (drop ?k order)) = {}"
    using d by (metis append_take_drop_id distinct_append map_append)
  ultimately have "set (map fst order) - set (map fst (take ?k order)) = set (map fst (drop ?k order))" by blast
  then show ?thesis
    using assms(1) evict_seen_eq [OF d, of "insert i (tt_seen_ids st)"]
    by (simp add: mark_seen_locked_def order_def [symmetric] ids)
qed

lemma mark_seen_ok:
  assumes "seen_ok st"
  shows "seen_ok (mark_seen_locked i ts st)"
proof (cases "i \<in> tt_seen_ids st")
  case True
  then show ?thesis using assms by (simp add: mark_seen_locked_def)
next
  case False
  have "distinct (map fst (tt_seen_order st @ [(i, ts)]))" using assms False by (auto simp: seen_ok_def)
  then have d: "distinct (map fst (drop k (tt_seen_order st @ [(i, ts)])))" for k
    by (metis distinct_drop drop_map)
  have "length (tt_seen_order st @ [(i, ts)]) - (length (tt_seen_order st @ [(i, ts)]) - MAX_SEEN_TRADE_IDS)
      \<le> MAX_SEEN_TRADE_IDS" by arith
  moreover have "seen_ok (st\<lparr> tt_seen_ids := set (map fst o'), tt_seen_order := o' \<rparr>)"
    if "distinct (map fst o')" "length o' \<le> MAX_SEEN_TRADE_IDS" for o' :: "(string \<times> f64) list"
    using that by (simp add: seen_ok_def)
  ultimately show ?thesis using d unfolding mark_seen_new [OF False assms] by (simp only: length_drop)
qed

lemma mark_seen_mem: "seen_ok st \<Longrightarrow> i \<in> tt_seen_ids (mark_seen_locked i ts st)"
proof (cases "i \<in> tt_seen_ids st")
  case False
  assume ok: "seen_ok st"
  have "Suc (length (tt_seen_order st)) - MAX_SEEN_TRADE_IDS \<le> length (tt_seen_order st)"
    by (simp add: MAX_SEEN_TRADE_IDS_def)
  then show ?thesis by (simp add: mark_seen_new [OF False ok])
qed (simp add: mark_seen_locked_def)

lemma mark_seen_room:
  assumes "seen_ok st" "length (tt_seen_order st) < MAX_SEEN_TRADE_IDS"
  shows "tt_seen_ids (mark_seen_locked i ts st) = insert i (tt_seen_ids st)"
    and "length (tt_seen_order (mark_seen_locked i ts st)) \<le> Suc (length (tt_seen_order st))"
proof -
  show "tt_seen_ids (mark_seen_locked i ts st) = insert i (tt_seen_ids st)"
  proof (cases "i \<in> tt_seen_ids st")
    case False
    then show ?thesis using assms mark_seen_new [OF False assms(1), of ts] by (auto simp: seen_ok_def)
  qed (auto simp: mark_seen_locked_def)
  show "length (tt_seen_order (mark_seen_locked i ts st)) \<le> Suc (length (tt_seen_order st))"
  proof (cases "i \<in> tt_seen_ids st")
    case False
    then show ?thesis using assms by (simp add: mark_seen_new [OF False assms(1)])
  qed (simp add: mark_seen_locked_def)
qed

lemma mark_seen_other [simp]: "tt_rejections (mark_seen_locked i ts st) = tt_rejections st"
  by (simp add: mark_seen_locked_def case_prod_beta)

subsection \<open>One trade\<close>

lemma add_verdict_simps [simp]:
  "tt_seen_ids (fst (add_verdict v so)) = tt_seen_ids (fst so)"
  "tt_seen_order (fst (add_verdict v so)) = tt_seen_order (fst so)"
  "tt_rejections (fst (add_verdict v so)) = tt_rejections (fst so) @ tv_rejections v"
  "to_signals (snd (add_verdict v so)) = to_signals (snd so) @ tv_signals v"
  by (simp_all add: add_verdict_def)

lemma seen_ok_add [simp]: "seen_ok (fst (add_verdict v so)) = seen_ok (fst so)"
  by (simp add: seen_ok_def)

lemma judge_unresolved_signals [simp]: "tv_signals (judge_unresolved en wwk trade) = []"
  by (simp add: judge_unresolved_def silent_def rejected_def Let_def split: option.split prod.split)

text \<open>What a signal of \<open>judge_trade\<close> stands for.\<close>

definition tape_print ::
  "tape_env \<Rightarrow> settings \<Rightarrow> msg \<Rightarrow> string \<Rightarrow> string \<Rightarrow> whale_signal \<Rightarrow> bool" where
  "tape_print en wwk trade trade_id ticker sig \<longleftrightarrow>
     ws_id sig = trade_id \<and> ws_ticker sig = ticker \<and> resolve_taker_outcome_side trade = Some (ws_side sig)
     \<and> (\<exists>cnt. price_dollars trade ''count_fp'' = Some cnt \<and> min_contracts_for (tp_titles en) ticker wwk \<le> cnt
           \<and> ws_size sig = rhe cnt \<and> 0 < ws_size sig)
     \<and> (\<exists>p. price_dollars trade ''yes_price_dollars'' = Some p \<and> ws_price sig = py_round 2 p
           \<and> MIN_TRADEABLE_UNIT_COST \<le> unit_cost (ws_side sig) p \<and> unit_cost (ws_side sig) p \<le> MAX_TRADEABLE_UNIT_COST)
     \<and> 0 \<le> ws_confidence sig \<and> ws_confidence sig \<le> 1"

lemma py_round_unit: "0 \<le> x \<Longrightarrow> x \<le> 1 \<Longrightarrow> 0 \<le> py_round 2 x \<and> py_round 2 x \<le> 1"
  using py_round_nonneg [of x 2] py_round_mono [of x 1 2] rhe_of_int [of 100] by (simp add: py_round_def [of 2 1])

lemma score_unit:
  assumes "score_candidate en weights markets now trade trade_id ticker market side n price = Some sig"
  shows "0 \<le> ws_confidence sig \<and> ws_confidence sig \<le> 1"
proof -
  obtain b where b: "composite_confidence_breakdown (tp_exp en) (tp_iso_ts en) market markets (fint n) price now
             (given_of en trade ticker side n now) weights side = Some b"
      "ws_confidence sig = py_round 2 (cb_score b)"
    using assms by (auto simp: score_candidate_def split: option.splits)
  obtain s where "cb_score b = min (max s 0) 1"
    using b(1) by (auto simp: composite_confidence_breakdown_def Let_def split: option.splits)
  then show ?thesis unfolding b(2) by (intro py_round_unit) simp_all
qed

lemma score_fields:
  assumes "score_candidate en weights markets now trade trade_id ticker market side n price = Some sig"
  shows "ws_id sig = trade_id" "ws_ticker sig = ticker" "ws_side sig = side" "ws_size sig = n" "ws_price sig = py_round 2 price"
  using assms by (auto simp: score_candidate_def split: option.splits)

lemma judge_trade_signals:
  assumes "judge_trade en wwk weights markets now trade trade_id ticker market = Inr v"
  shows "tv_signals v = [] \<or> (\<exists>sig. tv_signals v = [sig] \<and> tape_print en wwk trade trade_id ticker sig)"
  using assms score_unit [of en weights markets now trade trade_id ticker market]
    score_fields [of en weights markets now trade trade_id ticker market]
  by (auto simp: judge_trade_def silent_def rejected_def Let_def tape_print_def is_tradeable_unit_cost_def
      split: option.splits if_splits)


definition marks :: "(string, msg) pdict \<Rightarrow> string list \<Rightarrow> msg \<Rightarrow> bool" where
  "marks by_ticker failed trade \<longleftrightarrow>
     (case text_of (jget trade ''ticker'') of None \<Rightarrow> True
      | Some t \<Rightarrow> dget by_ticker t \<noteq> None \<or> t \<notin> set failed)"

definition marked ::
  "tape_env \<Rightarrow> (string, msg) pdict \<Rightarrow> string list \<Rightarrow> f64 \<Rightarrow> msg \<Rightarrow> string \<Rightarrow> tape_state \<Rightarrow> tape_state" where
  "marked en by_ticker failed now trade i st =
     (if marks by_ticker failed trade then mark_seen_locked i (seen_ts en now trade) st else st)"

definition judgement ::
  "tape_env \<Rightarrow> settings \<Rightarrow> (string, f64) pdict \<Rightarrow> msg list \<Rightarrow> (string, msg) pdict \<Rightarrow> f64 \<Rightarrow> msg \<Rightarrow> string
     \<Rightarrow> value_error + tape_verdict" where
  "judgement en wwk weights markets by_ticker now trade i =
     (case text_of (jget trade ''ticker'') of
        None \<Rightarrow> Inr (judge_unresolved en wwk trade)
      | Some t \<Rightarrow>
          (case dget by_ticker t of
             None \<Rightarrow> Inr (judge_unresolved en wwk trade)
           | Some m \<Rightarrow> if m = [] then Inr (judge_unresolved en wwk trade)
               else judge_trade en wwk weights markets now trade i t m))"

lemma trade_step_eq:
  "trade_step en wwk weights markets by_ticker failed now trade so =
     (case text_of (jget trade ''trade_id'') of
        None \<Rightarrow> (None, so)
      | Some i \<Rightarrow>
          if i \<in> tt_seen_ids (fst so) then (None, so)
          else (let so1 = (marked en by_ticker failed now trade i (fst so),
                           (snd so)\<lparr> to_counts := bump ''trades'' (to_counts (snd so)) \<rparr>)
            in case judgement en wwk weights markets by_ticker now trade i of
                 Inl e \<Rightarrow> (Some e, so1) | Inr v \<Rightarrow> (None, add_verdict v so1)))"
  by (auto simp: trade_step_def marked_def marks_def judgement_def Let_def split: option.splits sum.splits)

lemma marked_ok: "seen_ok st \<Longrightarrow> seen_ok (marked en by_ticker failed now trade i st)"
  by (simp add: marked_def mark_seen_ok)

lemma marked_rejections [simp]: "tt_rejections (marked en by_ticker failed now trade i st) = tt_rejections st"
  by (simp add: marked_def)

lemma judgement_signals:
  assumes "judgement en wwk weights markets by_ticker now trade i = Inr v" "sig \<in> set (tv_signals v)"
  shows "tv_signals v = [sig] \<and> marks by_ticker failed trade
    \<and> (\<exists>t m. text_of (jget trade ''ticker'') = Some t \<and> dget by_ticker t = Some m \<and> tape_print en wwk trade i t sig)"
proof -
  obtain t m where tm: "text_of (jget trade ''ticker'') = Some t" "dget by_ticker t = Some m"
      "judge_trade en wwk weights markets now trade i t m = Inr v"
    using assms by (auto simp: judgement_def split: option.splits if_splits)
  then show ?thesis using judge_trade_signals [OF tm(3)] assms(2) by (auto simp: marks_def)
qed

text \<open>One step from a state with room for it.\<close>

lemma trade_step_signals:
  assumes step: "trade_step en wwk weights markets by_ticker failed now trade so = (None, so')"
    and ok: "seen_ok (fst so)" "length (tt_seen_order (fst so)) < MAX_SEEN_TRADE_IDS"
  shows "seen_ok (fst so') \<and> length (tt_seen_order (fst so')) \<le> Suc (length (tt_seen_order (fst so)))
    \<and> tt_seen_ids (fst so) \<subseteq> tt_seen_ids (fst so')
    \<and> (\<exists>new. to_signals (snd so') = to_signals (snd so) @ new \<and>
        (new = [] \<or> (\<exists>sig t m. new = [sig] \<and> text_of (jget trade ''trade_id'') = Some (ws_id sig)
           \<and> ws_id sig \<notin> tt_seen_ids (fst so) \<and> ws_id sig \<in> tt_seen_ids (fst so')
           \<and> dget by_ticker t = Some m \<and> text_of (jget trade ''ticker'') = Some t
           \<and> tape_print en wwk trade (ws_id sig) t sig)))"
proof (cases "text_of (jget trade ''trade_id'')")
  case None
  then show ?thesis using step ok by (simp add: trade_step_eq)
next
  case (Some i)
  show ?thesis
  proof (cases "i \<in> tt_seen_ids (fst so)")
    case True
    then show ?thesis using step ok Some by (simp add: trade_step_eq)
  next
    case False
    let ?st = "marked en by_ticker failed now trade i (fst so)"
    obtain v where v: "judgement en wwk weights markets by_ticker now trade i = Inr v"
      and so': "so' = add_verdict v (?st, (snd so)\<lparr> to_counts := bump ''trades'' (to_counts (snd so)) \<rparr>)"
      using step Some False by (auto simp: trade_step_eq Let_def split: sum.splits)
    have st: "seen_ok ?st" "length (tt_seen_order ?st) \<le> Suc (length (tt_seen_order (fst so)))"
      "tt_seen_ids (fst so) \<subseteq> tt_seen_ids ?st"
      using mark_seen_room [OF ok] marked_ok [OF ok(1)] by (auto simp: marked_def)
    have mem: "i \<in> tt_seen_ids ?st" if "marks by_ticker failed trade"
      using that mark_seen_mem [OF ok(1)] by (simp add: marked_def)
    have "tv_signals v = [] \<or> (\<exists>sig. sig \<in> set (tv_signals v))"
      by (cases "tv_signals v") auto
    then show ?thesis
    proof
      assume "tv_signals v = []"
      then show ?thesis using st by (simp add: so')
    next
      assume "\<exists>sig. sig \<in> set (tv_signals v)"
      then obtain sig where "sig \<in> set (tv_signals v)" ..
      from judgement_signals [OF v this, of failed] obtain t m where
        g: "tv_signals v = [sig]" "marks by_ticker failed trade" "text_of (jget trade ''ticker'') = Some t"
           "dget by_ticker t = Some m" "tape_print en wwk trade i t sig" by blast
      have "ws_id sig = i" using g(5) by (simp add: tape_print_def)
      then show ?thesis using st g mem [OF g(2)] False Some by (auto simp: so')
    qed
  qed
qed

lemma process_loop_signals:
  assumes "process_loop en wwk weights markets by_ticker failed now tape so = (None, so')"
    and "seen_ok (fst so)" "length (tt_seen_order (fst so)) + length tape \<le> MAX_SEEN_TRADE_IDS"
  shows "seen_ok (fst so') \<and> tt_seen_ids (fst so) \<subseteq> tt_seen_ids (fst so')
    \<and> (\<exists>new. to_signals (snd so') = to_signals (snd so) @ new \<and> distinct (map ws_id new)
        \<and> set (map ws_id new) \<inter> tt_seen_ids (fst so) = {} \<and> set (map ws_id new) \<subseteq> tt_seen_ids (fst so')
        \<and> list_all (\<lambda>sig. \<exists>trade \<in> set tape. \<exists>t m. text_of (jget trade ''trade_id'') = Some (ws_id sig)
             \<and> dget by_ticker t = Some m \<and> text_of (jget trade ''ticker'') = Some t
             \<and> tape_print en wwk trade (ws_id sig) t sig) new)"
  using assms
proof (induction tape arbitrary: so)
  case (Cons trade tape)
  obtain so1 where step: "trade_step en wwk weights markets by_ticker failed now trade so = (None, so1)"
    and rest: "process_loop en wwk weights markets by_ticker failed now tape so1 = (None, so')"
    using Cons.prems(1) by (auto split: prod.splits option.splits)
  have room: "length (tt_seen_order (fst so)) < MAX_SEEN_TRADE_IDS" using Cons.prems(3) by simp
  note s1 = trade_step_signals [OF step Cons.prems(2) room]
  have "length (tt_seen_order (fst so1)) + length tape \<le> MAX_SEEN_TRADE_IDS"
    using s1 Cons.prems(3) by simp
  with Cons.IH [OF rest] s1 obtain new where
    ih: "seen_ok (fst so')" "tt_seen_ids (fst so1) \<subseteq> tt_seen_ids (fst so')"
      "to_signals (snd so') = to_signals (snd so1) @ new" "distinct (map ws_id new)"
      "set (map ws_id new) \<inter> tt_seen_ids (fst so1) = {}" "set (map ws_id new) \<subseteq> tt_seen_ids (fst so')"
      "list_all (\<lambda>sig. \<exists>trade \<in> set tape. \<exists>t m. text_of (jget trade ''trade_id'') = Some (ws_id sig)
             \<and> dget by_ticker t = Some m \<and> text_of (jget trade ''ticker'') = Some t
             \<and> tape_print en wwk trade (ws_id sig) t sig) new"
    by blast
  obtain new1 where n1: "to_signals (snd so1) = to_signals (snd so) @ new1"
    "new1 = [] \<or> (\<exists>sig t m. new1 = [sig] \<and> text_of (jget trade ''trade_id'') = Some (ws_id sig)
           \<and> ws_id sig \<notin> tt_seen_ids (fst so) \<and> ws_id sig \<in> tt_seen_ids (fst so1)
           \<and> dget by_ticker t = Some m \<and> text_of (jget trade ''ticker'') = Some t
           \<and> tape_print en wwk trade (ws_id sig) t sig)"
    and mono: "tt_seen_ids (fst so) \<subseteq> tt_seen_ids (fst so1)"
    using s1 by blast
  have "distinct (map ws_id (new1 @ new))" "set (map ws_id (new1 @ new)) \<inter> tt_seen_ids (fst so) = {}"
       "set (map ws_id (new1 @ new)) \<subseteq> tt_seen_ids (fst so')"
    using ih(2,4,5,6) n1(2) mono by auto
  moreover have "list_all (\<lambda>sig. \<exists>trade \<in> set (trade # tape). \<exists>t m. text_of (jget trade ''trade_id'') = Some (ws_id sig)
             \<and> dget by_ticker t = Some m \<and> text_of (jget trade ''ticker'') = Some t
             \<and> tape_print en wwk trade (ws_id sig) t sig) (new1 @ new)"
    using ih(7) n1(2) unfolding list_all_iff by fastforce
  ultimately show ?case using ih(1-3) n1(1) mono by (intro conjI exI [of _ "new1 @ new"]) auto
qed simp




subsection \<open>No whale print is dropped in silence\<close>

lemma evict_seen_sub: "snd (evict_seen order ids) \<subseteq> ids"
  by (induction order ids rule: evict_seen.induct) auto

lemma mark_seen_sub: "tt_seen_ids (mark_seen_locked i ts st) \<subseteq> insert i (tt_seen_ids st)"
  using evict_seen_sub [of "tt_seen_order st @ [(i, ts)]" "insert i (tt_seen_ids st)"]
  by (auto simp: mark_seen_locked_def case_prod_beta)

lemma trade_step_sub:
  assumes "trade_step en wwk weights markets by_ticker failed now trade so = (e, so')"
    and "marks by_ticker failed trade \<Longrightarrow> text_of (jget trade ''trade_id'') \<noteq> Some i" "i \<notin> tt_seen_ids (fst so)"
  shows "i \<notin> tt_seen_ids (fst so')"
proof -
  have m: "i \<notin> tt_seen_ids (mark_seen_locked j ts st)" if "i \<noteq> j" "i \<notin> tt_seen_ids st" for j ts st
    using mark_seen_sub that by blast
  show ?thesis
    using assms by (auto simp: trade_step_eq marked_def Let_def m split: option.splits if_splits sum.splits)
qed

lemma process_loop_sub:
  assumes "process_loop en wwk weights markets by_ticker failed now tape so = (e, so')"
    and "\<forall>trade \<in> set tape. marks by_ticker failed trade \<longrightarrow> text_of (jget trade ''trade_id'') \<noteq> Some i"
    and "i \<notin> tt_seen_ids (fst so)"
  shows "i \<notin> tt_seen_ids (fst so')"
  using assms
proof (induction tape arbitrary: so)
  case (Cons trade tape)
  obtain e1 so1 where step: "trade_step en wwk weights markets by_ticker failed now trade so = (e1, so1)"
    by (cases "trade_step en wwk weights markets by_ticker failed now trade so") blast
  have "i \<notin> tt_seen_ids (fst so1)"
    using trade_step_sub [OF step] Cons.prems by auto
  then show ?case using Cons step by (cases e1) auto
qed simp

lemma trade_step_grows:
  assumes "trade_step en wwk weights markets by_ticker failed now trade so = (e, so')"
  shows "\<exists>new rejs. to_signals (snd so') = to_signals (snd so) @ new \<and> tt_rejections (fst so') = tt_rejections (fst so) @ rejs"
  using assms by (auto simp: trade_step_eq Let_def split: option.splits if_splits sum.splits)

lemma process_loop_grows:
  "process_loop en wwk weights markets by_ticker failed now tape so = (e, so') \<Longrightarrow>
   \<exists>new rejs. to_signals (snd so') = to_signals (snd so) @ new \<and> tt_rejections (fst so') = tt_rejections (fst so) @ rejs"
proof (induction tape arbitrary: so)
  case (Cons trade tape)
  obtain e1 so1 where step: "trade_step en wwk weights markets by_ticker failed now trade so = (e1, so1)"
    by (cases "trade_step en wwk weights markets by_ticker failed now trade so") blast
  from trade_step_grows [OF step] Cons.IH [of so1] Cons.prems step show ?case by (cases e1) auto
qed simp

lemma process_loop_append:
  "process_loop en wwk weights markets by_ticker failed now (xs @ ys) so = (None, so') \<Longrightarrow>
   \<exists>so1. process_loop en wwk weights markets by_ticker failed now xs so = (None, so1)
     \<and> process_loop en wwk weights markets by_ticker failed now ys so1 = (None, so')"
  by (induction xs arbitrary: so) (auto split: prod.splits option.splits)

lemma judgement_answers:
  assumes "judgement en wwk weights markets by_ticker now trade i = Inr v"
    and "text_of (jget trade ''ticker'') = Some t" "prescan_count trade = Some (side, cnt)"
    and "min_contracts_for (tp_titles en) t wwk \<le> cnt" "0 < rhe cnt"
  shows "(\<exists>sig \<in> set (tv_signals v). ws_id sig = i) \<or> (\<exists>r \<in> set (tv_rejections v). tj_ticker r = t)"
proof -
  have p: "resolve_taker_outcome_side trade = Some side" "price_dollars trade ''count_fp'' = Some cnt"
    using assms(3) by (auto simp: prescan_count_def split: option.splits)
  have u: "\<exists>r \<in> set (tv_rejections (judge_unresolved en wwk trade)). tj_ticker r = t"
    using assms(2-4) by (simp add: judge_unresolved_def rejected_def tape_rejection_of_def Let_def)
  have j: "(\<exists>sig \<in> set (tv_signals v). ws_id sig = i) \<or> (\<exists>r \<in> set (tv_rejections v). tj_ticker r = t)"
    if "judge_trade en wwk weights markets now trade i t m = Inr v" for m
    using that assms(4,5) p score_fields(1)
    by (fastforce simp: judge_trade_def rejected_def tape_rejection_of_def Let_def split: option.splits if_splits)
  show ?thesis
    using assms(1,2) u j by (auto simp: judgement_def split: option.splits if_splits)
qed

text \<open>
  No whale-sized print is dropped in silence. When a tape is processed without an
  exception, the first trade of an id not seen before whose count reaches the series' bar and
  rounds to at least one contract is answered: by a signal with its id, or by a rejection of its
  ticker in the candidate log, an unresolved market included.
\<close>

theorem whale_prints_are_answered:
  assumes "process_trades en wwk weights markets by_ticker failed now counts (before @ trade # after) st = (Inr out, st')"
    and "text_of (jget trade ''trade_id'') = Some i" "text_of (jget trade ''ticker'') = Some t"
    and "i \<notin> tt_seen_ids st" "\<forall>x \<in> set before. text_of (jget x ''trade_id'') \<noteq> Some i"
    and "prescan_count trade = Some (side, cnt)" "min_contracts_for (tp_titles en) t wwk \<le> cnt" "0 < rhe cnt"
  shows "(\<exists>sig \<in> set (to_signals out). ws_id sig = i)
    \<or> (\<exists>r \<in> set (drop (length (tt_rejections st)) (tt_rejections st')). tj_ticker r = t)"
proof -
  let ?loop = "process_loop en wwk weights markets by_ticker failed now"
  have l: "?loop (before @ trade # after) (st, \<lparr>to_signals = [], to_counts = counts\<rparr>) = (None, st', out)"
    using assms(1) by (auto simp: process_trades_def split: prod.splits option.splits)
  from process_loop_append [OF l] obtain so1 where
    b: "?loop before (st, \<lparr>to_signals = [], to_counts = counts\<rparr>) = (None, so1)"
    and r: "?loop (trade # after) so1 = (None, st', out)" by blast
  obtain so2 where step: "trade_step en wwk weights markets by_ticker failed now trade so1 = (None, so2)"
    and a: "?loop after so2 = (None, st', out)" using r by (auto split: prod.splits option.splits)
  have "i \<notin> tt_seen_ids (fst so1)" using process_loop_sub [OF b] assms(4,5) by simp
  then obtain v where v: "judgement en wwk weights markets by_ticker now trade i = Inr v"
    and so2: "to_signals (snd so2) = to_signals (snd so1) @ tv_signals v"
      "tt_rejections (fst so2) = tt_rejections (fst so1) @ tv_rejections v"
    using step assms(2) by (auto simp: trade_step_eq Let_def split: sum.splits)
  obtain rb where rb: "tt_rejections (fst so1) = tt_rejections st @ rb"
    using process_loop_grows [OF b] by auto
  obtain na ra where "to_signals out = to_signals (snd so2) @ na" "tt_rejections st' = tt_rejections (fst so2) @ ra"
    using process_loop_grows [OF a] by auto
  then show ?thesis
    using judgement_answers [OF v assms(3,6-8)] so2 rb by auto
qed

subsection \<open>A failed look-up\<close>

lemma scan_trade_markets:
  assumes "dget (rs_markets sc) t = None" "fresh_cached now st t = None"
  shows "dget (rs_markets (scan_trade tc wwk now st trade sc)) t = None"
  using assms by (auto simp: scan_trade_def Let_def split: option.splits prod.splits)

lemma scan_trade_wanted:
  "set (dget_or (rs_wanted sc) t []) \<subseteq> set (dget_or (rs_wanted (scan_trade tc wwk now st trade sc)) t [])"
  by (auto simp: scan_trade_def Let_def dget_or_def split: option.splits prod.splits)

lemma scan_markets:
  "dget (rs_markets sc) t = None \<Longrightarrow> fresh_cached now st t = None \<Longrightarrow>
   dget (rs_markets (fold (scan_trade tc wwk now st) tape sc)) t = None"
  by (induction tape arbitrary: sc) (auto simp: scan_trade_markets)

lemma scan_wanted_mono:
  "set (dget_or (rs_wanted sc) t []) \<subseteq> set (dget_or (rs_wanted (fold (scan_trade tc wwk now st) tape sc)) t [])"
  by (induction tape arbitrary: sc) (use scan_trade_wanted in fastforce)+

definition whale_offlist :: "title_cache \<Rightarrow> settings \<Rightarrow> f64 \<Rightarrow> tape_state \<Rightarrow> msg \<Rightarrow> string \<Rightarrow> string \<Rightarrow> bool" where
  "whale_offlist tc wwk now st trade i t \<longleftrightarrow>
     text_of (jget trade ''trade_id'') = Some i \<and> text_of (jget trade ''ticker'') = Some t
     \<and> i \<notin> tt_seen_ids st \<and> fresh_cached now st t = None
     \<and> (\<exists>side cnt. prescan_count trade = Some (side, cnt) \<and> min_contracts_for tc t wwk \<le> cnt)"

lemma scan_wants:
  assumes "whale_offlist tc wwk now st trade i t" "trade \<in> set tape" "dget (rs_markets sc) t = None"
  shows "trade \<in> set (dget_or (rs_wanted (fold (scan_trade tc wwk now st) tape sc)) t [])"
  using assms(2,3)
proof (induction tape arbitrary: sc)
  case (Cons x tape)
  show ?case
  proof (cases "trade = x")
    case True
    have "trade \<in> set (dget_or (rs_wanted (scan_trade tc wwk now st x sc)) t [])"
      using assms(1) Cons.prems(2) True
      by (auto simp: scan_trade_def whale_offlist_def Let_def dget_or_def dget_eq_None_iff)
    then show ?thesis using scan_wanted_mono by fastforce
  next
    case False
    have "dget (rs_markets (scan_trade tc wwk now st x sc)) t = None"
      using assms(1) Cons.prems(2) by (simp add: scan_trade_markets whale_offlist_def)
    then show ?thesis using Cons False by simp
  qed
qed simp

lemma enqueue_keys: "set (dkeys (rq_pending rq)) \<subseteq> set (dkeys (rq_pending (enqueue trade f c rq)))"
  by (auto simp: enqueue_def split: json.splits)

lemma enqueue_has: "jget trade ''trade_id'' = JStr i \<Longrightarrow> i \<noteq> [] \<Longrightarrow> i \<in> set (dkeys (rq_pending (enqueue trade f c rq)))"
  by (auto simp: enqueue_def)

lemma fold_enqueue_keys:
  "set (dkeys (rq_pending rq)) \<subseteq> set (dkeys (rq_pending (fold (\<lambda>x. enqueue x f c) xs rq)))"
  by (induction xs arbitrary: rq) (use enqueue_keys in fastforce)+

lemma fold_enqueue_has:
  "trade \<in> set xs \<Longrightarrow> jget trade ''trade_id'' = JStr i \<Longrightarrow> i \<noteq> []
    \<Longrightarrow> i \<in> set (dkeys (rq_pending (fold (\<lambda>x. enqueue x f c) xs rq)))"
proof (induction xs arbitrary: rq)
  case (Cons x xs)
  then show ?case using fold_enqueue_keys [of "enqueue x f c rq" f c xs] enqueue_has [of x i f c rq] by auto
qed simp

lemma text_of_Some: "text_of v = Some s \<Longrightarrow> v = JStr s \<and> s \<noteq> []"
  by (auto simp: text_of_def split: json.splits if_splits)

text \<open>
  A failed market look-up loses no whale print. When the batch request of \<open>fetch_signals\<close>
  raises, every whale-sized trade on a market that is neither watched nor freshly cached is in
  the retry queue afterwards, and is not marked seen (unless its id also came with another
  ticker), so the next poll may find it again.
\<close>

theorem failed_lookup_keeps_prints:
  assumes "whale_offlist (tp_titles en) wwk now st trade i t" "trade \<in> set tape"
    and "dget (markets_index markets) t = None"
    and "\<forall>batch. \<exists>e. fetch batch = Inl e"
    and "\<forall>x \<in> set tape. text_of (jget x ''trade_id'') = Some i \<longrightarrow> text_of (jget x ''ticker'') = Some t"
    and "fetch_signals en wwk weights (Some fetch) markets tape now clk st rq = (out, st', rq')"
  shows "i \<in> set (dkeys (rq_pending rq')) \<and> i \<notin> tt_seen_ids st'"
proof -
  let ?sc = "fold (scan_trade (tp_titles en) wwk now st) tape
      \<lparr>rs_markets = markets_index markets, rs_wanted = [], rs_prescanned = 0, rs_offlist = 0\<rparr>"
  let ?r = "resolve_unknown_markets (tp_titles en) wwk (Some fetch) now clk tape (markets_index markets) st rq"
  let ?wanted = "sort (dkeys (rs_wanted ?sc))"
  let ?batch = "take MAX_ONDEMAND_MARKET_FETCH ?wanted"
  let ?truncated = "drop MAX_ONDEMAND_MARKET_FETCH ?wanted"
  have want: "trade \<in> set (dget_or (rs_wanted ?sc) t [])"
    using scan_wants [OF assms(1,2)] assms(3) by simp
  then have "dget (rs_wanted ?sc) t \<noteq> None"
    by (cases "dget (rs_wanted ?sc) t") (simp_all add: dget_or_def)
  then have t: "t \<in> set ?wanted" by (simp add: dget_eq_None_iff)
  then have ne: "?wanted \<noteq> []" by (metis empty_iff empty_set)
  from t have tb: "t \<in> set ?batch \<or> t \<in> set ?truncated" by (metis UnE append_take_drop_id set_append)
  obtain e where e: "fetch ?batch = Inl e" using assms(4) by blast
  have none: "dget (rs_markets ?sc) t = None"
    using assms(1,3) by (intro scan_markets) (simp_all add: whale_offlist_def)
  have r: "rv_markets ?r = rs_markets ?sc" "rv_failed ?r = ?truncated @ ?batch"
      "tt_seen_ids (rv_state ?r) = tt_seen_ids st"
      "rv_retry ?r = enqueue_trades (rs_wanted ?sc) e clk ?batch
         (enqueue_trades (rs_wanted ?sc) ''market fetch batch capacity exceeded'' clk ?truncated rq)"
    using e ne by (simp_all add: resolve_unknown_markets_def Let_def)
  have id: "jget trade ''trade_id'' = JStr i" "i \<noteq> []"
    using assms(1) text_of_Some by (auto simp: whale_offlist_def)
  have "i \<in> set (dkeys (rq_pending (rv_retry ?r)))"
    using tb
  proof
    assume "t \<in> set ?batch"
    then show ?thesis unfolding r(4) enqueue_trades_def [of _ e]
      using want by (intro fold_enqueue_has [OF _ id]) auto
  next
    assume tr: "t \<in> set ?truncated"
    have "i \<in> set (dkeys (rq_pending (enqueue_trades (rs_wanted ?sc) ''market fetch batch capacity exceeded'' clk ?truncated rq)))"
      unfolding enqueue_trades_def using want tr by (intro fold_enqueue_has [OF _ id]) auto
    then show ?thesis unfolding r(4) enqueue_trades_def [of _ e] using fold_enqueue_keys by blast
  qed
  moreover have "i \<notin> tt_seen_ids st'"
  proof -
    have no: "\<forall>x \<in> set tape. marks (rv_markets ?r) (rv_failed ?r) x \<longrightarrow> text_of (jget x ''trade_id'') \<noteq> Some i"
    proof (intro ballI impI notI)
      fix x assume x: "x \<in> set tape" "marks (rv_markets ?r) (rv_failed ?r) x" "text_of (jget x ''trade_id'') = Some i"
      then have "text_of (jget x ''ticker'') = Some t" using assms(5) by blast
      then show False using x(2) none tb by (auto simp: marks_def r(1,2))
    qed
    have "\<exists>e o'. process_loop en wwk weights markets (rv_markets ?r) (rv_failed ?r) now tape
        (rv_state ?r, \<lparr>to_signals = [], to_counts = rv_counts ?r\<rparr>) = (e, st', o')"
      using assms(6) by (auto simp: fetch_signals_def process_trades_def Let_def split: prod.splits option.splits)
    then obtain e o' where l: "process_loop en wwk weights markets (rv_markets ?r) (rv_failed ?r) now tape
        (rv_state ?r, \<lparr>to_signals = [], to_counts = rv_counts ?r\<rparr>) = (e, st', o')" by blast
    show ?thesis
      using process_loop_sub [OF l no] assms(1) by (simp add: r(3) whale_offlist_def)
  qed
  moreover have "rq' = rv_retry ?r"
    using assms(6) by (simp add: fetch_signals_def Let_def case_prod_beta)
  ultimately show ?thesis by simp
qed


subsection \<open>A small tape\<close>

definition ex_env :: tape_env where
  "ex_env = \<lparr>tp_titles = empty_title_cache, tp_log = empty_signal_log, tp_history = init_market_history,
     tp_analyst_lean = (\<lambda>_. None), tp_iso_ts = (\<lambda>_. None), tp_exp = id\<rparr>"

definition ex_market :: msg where
  "ex_market = [(''ticker'', JStr ''KX-A''), (''volume_24h_fp'', JInt 0)]"

definition ex_bad_market :: msg where
  "ex_bad_market = [(''ticker'', JStr ''KX-B''), (''volume_24h_fp'', JStr ''n/a'')]"

definition ex_trade :: "string \<Rightarrow> string \<Rightarrow> msg" where
  "ex_trade i t = [(''trade_id'', JStr i), (''ticker'', JStr t), (''taker_side'', JStr ''yes''),
     (''count_fp'', JInt 6000), (''yes_price_dollars'', JFloat (1/2))]"

lemma ex_half: "fl (1/2) = 1/2" using fl_eighths [of 4] by simp

lemma ex_tradeable: "MIN_TRADEABLE_UNIT_COST \<le> 1/2" "1/2 \<le> MAX_TRADEABLE_UNIT_COST"
  using fl_mono [of "2/100" "1/2"] fl_mono [of "1/2" "98/100"] ex_half
  by (simp_all add: MIN_TRADEABLE_UNIT_COST_def MAX_TRADEABLE_UNIT_COST_def)

lemma ex_tradeable_yes: "is_tradeable_unit_cost (Some (unit_cost Yes (1/2)))"
  using ex_tradeable by (simp add: is_tradeable_unit_cost_def unit_cost_def)

lemma ex_side: "resolve_taker_outcome_side (ex_trade i t) = Some Yes"
  unfolding ex_trade_def by (simp add: resolve_taker_outcome_side_def resolve_side_def jget_def) code_simp

lemma ex_fields:
  "i \<noteq> [] \<Longrightarrow> text_of (jget (ex_trade i t) ''trade_id'') = Some i"
  "t \<noteq> [] \<Longrightarrow> text_of (jget (ex_trade i t) ''ticker'') = Some t"
  "price_dollars (ex_trade i t) ''count_fp'' = Some 6000"
  "price_dollars (ex_trade i t) ''yes_price_dollars'' = Some (1/2)"
  by (simp_all add: ex_trade_def text_of_def jget_def price_dollars_def fint_def Let_def)

lemma ex_prescan: "prescan_count (ex_trade i t) = Some (Yes, 6000)"
  by (simp add: prescan_count_def ex_side ex_fields)

lemma ex_bar: "min_contracts_for tc t [] = 5000"
  by (simp add: min_contracts_for_def cfg_num_or_def cfg_num_def jget_def json_num_def)

lemma ex_size: "rhe 6000 = 6000" using rhe_of_int [of 6000] by simp

lemma ex_volume: "market_volume ex_market = Some 0"
  by (simp add: market_volume_def ex_market_def jget_def jor_def fint_def)

lemma ex_bad_volume: "market_volume ex_bad_market = None"
  unfolding market_volume_def ex_bad_market_def by code_simp

lemma ex_score:
  "\<exists>sig. score_candidate en w [ex_market] now trade i t ex_market side n price = Some sig \<and> ws_id sig = i"
  by (simp add: score_candidate_def composite_confidence_breakdown_def ex_volume Let_def)

lemma ex_score_bad: "score_candidate en w ms now trade i t ex_bad_market side n price = None"
  by (simp add: score_candidate_def composite_confidence_breakdown_def ex_bad_volume)

lemmas ex_judge = judge_trade_def ex_side ex_fields ex_bar ex_size ex_tradeable_yes Let_def

lemma ex_judged:
  "\<exists>sig. judge_trade en [] w [ex_market] now (ex_trade i t) i t ex_market
      = Inr \<lparr>tv_bumps = [''candidates''], tv_rejections = [], tv_signals = [sig]\<rparr> \<and> ws_id sig = i"
  using ex_score [of en w now "ex_trade i t" i t Yes 6000 "1/2"] by (auto simp: ex_judge)

lemma ex_judged_bad:
  "judge_trade en [] w ms now (ex_trade i t) i t ex_bad_market = Inl (ValueError ''volume_24h_fp'')"
  by (simp add: ex_judge ex_score_bad)

lemma ex_mark:
  "mark_seen_locked i ts init_tape = init_tape\<lparr> tt_seen_ids := {i}, tt_seen_order := [(i, ts)] \<rparr>"
  by (simp add: mark_seen_locked_def init_tape_def MAX_SEEN_TRADE_IDS_def)

lemma ex_mark2:
  "tt_seen_ids s = {i} \<Longrightarrow> tt_seen_order s = [(i, t)] \<Longrightarrow> tt_seen_ids (mark_seen_locked j ts s) = insert j {i}"
  by (simp add: mark_seen_locked_def MAX_SEEN_TRADE_IDS_def insert_absorb)

lemma ex_tape:
  "\<exists>out st'. process_trades en [] w [ex_market] [(''KX-A'', ex_market)] [] now [] [ex_trade ''1'' ''KX-A''] init_tape = (Inr out, st')
     \<and> map ws_id (to_signals out) = [''1''] \<and> tt_seen_ids st' = {''1''} \<and> length (tt_seen_order st') = 1"
proof -
  obtain sig where "judge_trade en [] w [ex_market] now (ex_trade ''1'' ''KX-A'') ''1'' ''KX-A'' ex_market
      = Inr \<lparr>tv_bumps = [''candidates''], tv_rejections = [], tv_signals = [sig]\<rparr>" "ws_id sig = ''1''"
    using ex_judged by blast
  then show ?thesis
    by (simp add: process_trades_def trade_step_eq ex_fields judgement_def marked_def marks_def ex_mark add_verdict_def
        Let_def) (simp add: init_tape_def ex_market_def)
qed

text \<open>
  An exception loses the signals of the whole tape. A market whose volume text is not a
  number raises while its trade is scored: the signals found before it are discarded, but their
  trades stay marked seen, so processing them again, now without the bad market, finds nothing,
  although on a fresh tape the first trade is a signal.
\<close>

theorem exception_loses_signals:
  "\<exists>st'. process_trades ex_env [] [] [ex_market] [(''KX-A'', ex_market), (''KX-B'', ex_bad_market)] [] 0 []
        [ex_trade ''1'' ''KX-A'', ex_trade ''2'' ''KX-B''] init_tape = (Inl (ValueError ''volume_24h_fp''), st')
     \<and> (\<exists>out. fst (process_trades ex_env [] [] [ex_market] [(''KX-A'', ex_market)] [] 0 [] [ex_trade ''1'' ''KX-A''] st') = Inr out
          \<and> to_signals out = [])
     \<and> (\<exists>out. fst (process_trades ex_env [] [] [ex_market] [(''KX-A'', ex_market)] [] 0 [] [ex_trade ''1'' ''KX-A''] init_tape) = Inr out
          \<and> map ws_id (to_signals out) = [''1''])"
proof -
  obtain sig where g: "judge_trade ex_env [] [] [ex_market] 0 (ex_trade ''1'' ''KX-A'') ''1'' ''KX-A'' ex_market
      = Inr \<lparr>tv_bumps = [''candidates''], tv_rejections = [], tv_signals = [sig]\<rparr>"
    using ex_judged by blast
  have ne: "ex_market \<noteq> []" "ex_bad_market \<noteq> []" by (simp_all add: ex_market_def ex_bad_market_def)
  let ?p = "process_trades ex_env [] [] [ex_market] [(''KX-A'', ex_market), (''KX-B'', ex_bad_market)] [] 0 []
        [ex_trade ''1'' ''KX-A'', ex_trade ''2'' ''KX-B''] init_tape"
  let ?step = "trade_step ex_env [] [] [ex_market] [(''KX-A'', ex_market), (''KX-B'', ex_bad_market)] [] 0"
  let ?M = "[(''KX-A'', ex_market), (''KX-B'', ex_bad_market)]"
  have m: "marked ex_env ?M [] 0 (ex_trade ''1'' ''KX-A'') ''1'' init_tape
      = init_tape\<lparr> tt_seen_ids := {''1''}, tt_seen_order := [(''1'', seen_ts ex_env 0 (ex_trade ''1'' ''KX-A''))] \<rparr>"
    by (simp add: marked_def marks_def ex_fields ex_mark)
  have j: "judgement ex_env [] [] [ex_market] ?M 0 (ex_trade ''1'' ''KX-A'') ''1''
      = Inr \<lparr>tv_bumps = [''candidates''], tv_rejections = [], tv_signals = [sig]\<rparr>"
    by (simp add: judgement_def ex_fields g ne)
  have n: "tt_seen_ids init_tape = {}" by (simp add: init_tape_def)
  define s1 where "s1 = add_verdict \<lparr>tv_bumps = [''candidates''], tv_rejections = [], tv_signals = [sig]\<rparr>
      (init_tape\<lparr> tt_seen_ids := {''1''}, tt_seen_order := [(''1'', seen_ts ex_env 0 (ex_trade ''1'' ''KX-A''))] \<rparr>,
       \<lparr>to_signals = [], to_counts = bump ''trades'' []\<rparr>)"
  have s1: "?step (ex_trade ''1'' ''KX-A'') (init_tape, \<lparr>to_signals = [], to_counts = []\<rparr>) = (None, s1)"
      "tt_seen_ids (fst s1) = {''1''}" "\<exists>t. tt_seen_order (fst s1) = [(''1'', t)]"
    by (simp_all add: trade_step_eq ex_fields(1) n m j Let_def s1_def)
  obtain t1 where t1: "tt_seen_order (fst s1) = [(''1'', t1)]" using s1(3) by blast
  have m2: "marked ex_env ?M [] 0 (ex_trade ''2'' ''KX-B'') ''2'' (fst s1)
      = mark_seen_locked ''2'' (seen_ts ex_env 0 (ex_trade ''2'' ''KX-B'')) (fst s1)"
    by (simp add: marked_def marks_def ex_fields)
  have j2: "judgement ex_env [] [] [ex_market] ?M 0 (ex_trade ''2'' ''KX-B'') ''2'' = Inl (ValueError ''volume_24h_fp'')"
    by (simp add: judgement_def ex_fields ne ex_judged_bad)
  obtain s2 where s2: "?step (ex_trade ''2'' ''KX-B'') s1 = (Some (ValueError ''volume_24h_fp''), s2)"
      "fst s2 = mark_seen_locked ''2'' (seen_ts ex_env 0 (ex_trade ''2'' ''KX-B'')) (fst s1)"
    by (simp add: trade_step_eq ex_fields(1) s1(2) m2 j2 Let_def)
  have p: "fst ?p = Inl (ValueError ''volume_24h_fp'') \<and> ''1'' \<in> tt_seen_ids (snd ?p)"
    by (simp add: process_trades_def s1(1) s2 case_prod_beta ex_mark2 [OF s1(2) t1])
  have again: "fst (process_trades ex_env [] [] [ex_market] [(''KX-A'', ex_market)] [] 0 [] [ex_trade ''1'' ''KX-A''] (snd ?p))
      = Inr \<lparr>to_signals = [], to_counts = []\<rparr>"
    using p by (simp add: process_trades_def trade_step_eq ex_fields(1))
  have fresh: "\<exists>out. fst (process_trades ex_env [] [] [ex_market] [(''KX-A'', ex_market)] [] 0 [] [ex_trade ''1'' ''KX-A''] init_tape) = Inr out
      \<and> map ws_id (to_signals out) = [''1'']"
    using ex_tape [of ex_env "[]" 0] by force
  have "?p = (Inl (ValueError ''volume_24h_fp''), snd ?p)" using p by (metis prod.collapse)
  then show ?thesis using again fresh by (intro exI [of _ "snd ?p"] conjI) (simp_all only: sum.inject tape_out.simps simp_thms ex_simps)
qed


subsection \<open>Witnesses\<close>

lemma seen_ok_init: "seen_ok init_tape" and init_order: "tt_seen_order init_tape = []"
  by (simp_all add: seen_ok_def init_tape_def)

lemma one_fits: "length [x] \<le> MAX_SEEN_TRADE_IDS" "(1::nat) + length [x] \<le> MAX_SEEN_TRADE_IDS"
  by (simp_all add: MAX_SEEN_TRADE_IDS_def)



theorem whale_prints_are_answered_witness:
  "\<exists>out st'. process_trades ex_env [] [] [] [] [] 0 [] [ex_trade ''1'' ''KX-A''] init_tape = (Inr out, st')
     \<and> to_signals out = [] \<and> (\<exists>r \<in> set (tt_rejections st'). tj_ticker r = ''KX-A'')"
proof -
  have "\<exists>out st'. process_trades ex_env [] [] [] [] [] 0 [] [ex_trade ''1'' ''KX-A''] init_tape = (Inr out, st')
      \<and> to_signals out = []"
    by (simp add: process_trades_def trade_step_eq ex_fields judgement_def init_tape_def Let_def case_prod_beta)
  then obtain out st' where 1: "process_trades ex_env [] [] [] [] [] 0 [] [ex_trade ''1'' ''KX-A''] init_tape = (Inr out, st')"
      "to_signals out = []" by blast
  have "\<exists>r \<in> set (tt_rejections st'). tj_ticker r = ''KX-A''"
    using whale_prints_are_answered [of ex_env "[]" "[]" "[]" "[]" "[]" 0 "[]" "[]" "ex_trade ''1'' ''KX-A''" "[]" init_tape
        out st' "''1''" "''KX-A''" Yes 6000] 1
    by (simp add: ex_fields ex_prescan ex_size ex_bar) (simp add: init_tape_def)
  then show ?thesis using 1 by blast
qed

theorem failed_lookup_keeps_prints_witness:
  "\<exists>out st' rq'. fetch_signals ex_env [] [] (Some (\<lambda>_. Inl ''timeout'')) [] [ex_trade ''1'' ''KX-A''] 0 1 init_tape init_retry_state
       = (out, st', rq') \<and> ''1'' \<in> set (dkeys (rq_pending rq')) \<and> ''1'' \<notin> tt_seen_ids st'"
proof -
  have w: "whale_offlist (tp_titles ex_env) [] 0 init_tape (ex_trade ''1'' ''KX-A'') ''1'' ''KX-A''"
    by (simp add: whale_offlist_def ex_fields ex_prescan ex_bar) (simp add: init_tape_def fresh_cached_def)
  obtain out st' rq' where f: "fetch_signals ex_env [] [] (Some (\<lambda>_. Inl ''timeout'')) [] [ex_trade ''1'' ''KX-A''] 0 1 init_tape init_retry_state
       = (out, st', rq')" by (cases "fetch_signals ex_env [] [] (Some (\<lambda>_. Inl ''timeout'')) [] [ex_trade ''1'' ''KX-A''] 0 1 init_tape init_retry_state") blast
  show ?thesis
    using failed_lookup_keeps_prints [OF w _ _ _ _ f] f by (simp add: markets_index_def ex_fields)
qed

subsection \<open>The seen set is a bounded queue\<close>

text \<open>
  Over any calls of \<open>fetch_signals\<close> and \<open>score_recovered_trade\<close> the seen ids are exactly the ids
  of the queue, without repetition, and never more than the bound.
\<close>

lemma trade_step_ok: "seen_ok (fst so) \<Longrightarrow> trade_step en wwk weights markets by_ticker failed now trade so = (e, so')
    \<Longrightarrow> seen_ok (fst so')"
  using marked_ok [of "fst so"]
  by (auto simp: trade_step_eq Let_def split: option.splits if_splits sum.splits)

lemma process_loop_ok: "seen_ok (fst so) \<Longrightarrow> process_loop en wwk weights markets by_ticker failed now tape so = (e, so')
    \<Longrightarrow> seen_ok (fst so')"
proof (induction tape arbitrary: so)
  case (Cons trade tape)
  obtain e1 so1 where step: "trade_step en wwk weights markets by_ticker failed now trade so = (e1, so1)"
    by (cases "trade_step en wwk weights markets by_ticker failed now trade so") blast
  have "seen_ok (fst so1)" by (rule trade_step_ok [OF Cons.prems(1) step])
  then show ?case using Cons.IH [of so1] Cons.prems(2) step by (cases e1) simp_all
qed simp

lemma process_trades_ok: "seen_ok st \<Longrightarrow> seen_ok (snd (process_trades en wwk weights markets by_ticker failed now counts tape st))"
  using process_loop_ok [of "(st, \<lparr>to_signals = [], to_counts = counts\<rparr>)"]
  by (auto simp: process_trades_def split: prod.splits option.splits)

theorem seen_set_bounded:
  assumes "seen_ok st"
  shows "seen_ok (fst (snd (fetch_signals en wwk weights client markets tape now clk st rq)))
    \<and> seen_ok (snd (score_recovered_trade en wwk weights trade market now st))"
proof -
  have "seen_ok (rv_state (resolve_unknown_markets tc wwk client now clk tape ms st rq))" for tc ms
    using assms by (auto simp: resolve_unknown_markets_def Let_def seen_ok_def split: option.split sum.split)
  then show ?thesis
    using assms process_trades_ok
    by (auto simp: fetch_signals_def score_recovered_trade_def Let_def case_prod_beta split: option.split)
qed

end
