(* ===== verification/IndexFeed.thy ===== *)
theory IndexFeed
  imports Contracts
begin

text \<open>
  \<open>services/index_feed\<close>: the ticks of the CF Benchmarks and Pyth index streams
  (\<open>ingestion.py\<close>: the latest value per index, the write buffer, the table), the exact
  arithmetic of a settlement window (\<open>settlement_algebra.py\<close>) and the filling of reconnect
  gaps from the history endpoint (\<open>backfill.py\<close>). The parser of the embedded JSON text and
  libm's \<open>pow\<close> are parameters; index ids and rule texts are text, window sizes and window ends
  integers, as the exchange documents them. Whether a database transaction goes through is
  an argument of the operation that runs it.
\<close>

subsection \<open>Ingestion\<close>

definition DEFAULT_INDEX_IDS :: "string list" where "DEFAULT_INDEX_IDS = [''BRTI'', ''ETHUSD_RTI'']"
definition BACKFILL_SOURCE :: string where "BACKFILL_SOURCE = ''cfbenchmarks_backfill''"
definition TICK_FLUSH_BATCH :: nat where "TICK_FLUSH_BATCH = 200"

record index_entry =
  ix_source :: string
  ix_observed_at :: f64
  ix_received_at :: json
  ix_source_ts :: json
  ix_value :: "f64 option"
  ix_avg60_value :: "f64 option"
  ix_avg60_size :: "int option"
  ix_q15_value :: "f64 option"
  ix_q15_size :: "int option"
  ix_q15_end_ms :: "int option"

record tick_row =
  tk_index_id :: string
  tk_source :: string
  tk_observed_at :: f64
  tk_received_at :: json
  tk_source_ts :: json
  tk_value :: "f64 option"
  tk_avg60_value :: "f64 option"
  tk_avg60_size :: "int option"
  tk_q15_value :: "f64 option"
  tk_q15_size :: "int option"
  tk_raw :: msg

record index_feed =
  if_latest :: "(string, index_entry) pdict"
  if_buffer :: "tick_row list"
  if_dropped :: nat
  if_table :: "tick_row list"
  if_faults :: "string list"

definition empty_index_feed :: index_feed where
  "empty_index_feed = \<lparr>if_latest = [], if_buffer = [], if_dropped = 0, if_table = [], if_faults = []\<rparr>"

text \<open>\<open>_float\<close>: a missing, empty or unreadable number is None.\<close>

definition opt_float :: "json \<Rightarrow> f64 option" where
  "opt_float v = (if v = JNull \<or> v = JStr [] then None else py_float v)"

definition parse_cf_data :: "(string \<Rightarrow> json option) \<Rightarrow> json \<Rightarrow> f64 option" where
  "parse_cf_data loads raw =
     (case raw of
        JStr s \<Rightarrow> (if s = [] then None
           else case loads s of
               None \<Rightarrow> None
             | Some v \<Rightarrow> (case jor v (JObj []) of JObj d \<Rightarrow> opt_float (jget d ''value'') | _ \<Rightarrow> None))
      | _ \<Rightarrow> None)"

text \<open>\<open>msg.get(k) or {}\<close>; None when \<open>.get\<close> on the value raises.\<close>

definition sub_object :: "msg \<Rightarrow> string \<Rightarrow> msg option" where
  "sub_object m k = (case jor (jget m k) (JObj []) of JObj d \<Rightarrow> Some d | _ \<Rightarrow> None)"

definition buffer_row :: "tick_row \<Rightarrow> index_feed \<Rightarrow> index_feed" where
  "buffer_row r s = s\<lparr> if_buffer := if_buffer s @ [r] \<rparr>"

definition buffer_full :: "index_feed \<Rightarrow> bool" where
  "buffer_full s \<longleftrightarrow> length (if_buffer s) \<ge> TICK_FLUSH_BATCH"

definition store_entry :: "string \<Rightarrow> index_entry \<Rightarrow> msg \<Rightarrow> index_feed \<Rightarrow> index_feed" where
  "store_entry index_id e msg s =
     buffer_row \<lparr>tk_index_id = index_id, tk_source = ix_source e, tk_observed_at = ix_observed_at e,
         tk_received_at = ix_received_at e, tk_source_ts = ix_source_ts e, tk_value = ix_value e,
         tk_avg60_value = ix_avg60_value e, tk_avg60_size = ix_avg60_size e, tk_q15_value = ix_q15_value e,
         tk_q15_size = ix_q15_size e, tk_raw = msg\<rparr>
       (s\<lparr> if_latest := dput index_id e (if_latest s) \<rparr>)"

definition feed_fault :: "string \<Rightarrow> index_feed \<Rightarrow> index_feed" where
  "feed_fault operation s = s\<lparr> if_faults := if_faults s @ [operation] \<rparr>"

text \<open>The answers are (accepted, should flush).\<close>

definition record_cfbenchmarks ::
  "(string \<Rightarrow> json option) \<Rightarrow> msg \<Rightarrow> f64 \<Rightarrow> index_feed \<Rightarrow> (bool \<times> bool) \<times> index_feed" where
  "record_cfbenchmarks loads msg now s =
     (case jget msg ''index_id'' of
        JStr index_id \<Rightarrow>
          if index_id = [] then ((False, False), s)
          else (case (sub_object msg ''avg_60s_data'', sub_object msg ''last_60s_windowed_average_15min'') of
              (Some avg60, Some q15) \<Rightarrow>
                (let s' = store_entry index_id
                      \<lparr>ix_source = ''cfbenchmarks'', ix_observed_at = now, ix_received_at = jget msg ''received_at'',
                       ix_source_ts = JNull, ix_value = parse_cf_data loads (jget msg ''data''),
                       ix_avg60_value = opt_float (jget avg60 ''value''),
                       ix_avg60_size = as_int_instance (jget avg60 ''window_size''),
                       ix_q15_value = opt_float (jget q15 ''value''),
                       ix_q15_size = as_int_instance (jget q15 ''window_size''),
                       ix_q15_end_ms = as_int_instance (jget q15 ''window_end_ts_exclusive'')\<rparr> msg s
                 in ((True, buffer_full s'), s'))
            | _ \<Rightarrow> ((False, False), feed_fault ''record'' s))
      | _ \<Rightarrow> ((False, False), s))"

definition record_pyth :: "msg \<Rightarrow> f64 \<Rightarrow> index_feed \<Rightarrow> (bool \<times> bool) \<times> index_feed" where
  "record_pyth msg now s =
     (case jget msg ''underlying_ticker'' of
        JStr ticker \<Rightarrow>
          if ticker = [] then ((False, False), s)
          else (let s' = store_entry ticker
                      \<lparr>ix_source = ''pyth'', ix_observed_at = now, ix_received_at = jget msg ''received_at'',
                       ix_source_ts = jget msg ''source_ts_ms'', ix_value = opt_float (jget msg ''value_usd''),
                       ix_avg60_value = None, ix_avg60_size = None, ix_q15_value = None, ix_q15_size = None,
                       ix_q15_end_ms = None\<rparr> msg s
                in ((True, buffer_full s'), s'))
      | _ \<Rightarrow> ((False, False), s))"

text \<open>\<open>flush\<close>, with whether the insert goes through; the rows are off the buffer either way.\<close>

definition flush_ticks :: "bool \<Rightarrow> index_feed \<Rightarrow> nat \<times> index_feed" where
  "flush_ticks stored s =
     (let rows = if_buffer s; s1 = s\<lparr> if_buffer := [] \<rparr> in
      if rows = [] then (0, s1)
      else if stored then (length rows, s1\<lparr> if_table := if_table s1 @ rows \<rparr>)
      else (0, feed_fault ''flush'' (s1\<lparr> if_dropped := if_dropped s1 + length rows \<rparr>)))"

definition last_tick_before :: "bool \<Rightarrow> string \<Rightarrow> f64 \<Rightarrow> index_feed \<Rightarrow> f64 option \<times> index_feed" where
  "last_tick_before stored index_id before_ts s =
     (let s1 = snd (flush_ticks stored s);
          ts = map tk_observed_at (filter (\<lambda>r. tk_index_id r = index_id \<and> tk_observed_at r < before_ts) (if_table s1))
      in (if ts = [] then None else Some (Max (set ts)), s1))"

definition dget_json :: "msg \<Rightarrow> string \<Rightarrow> json \<Rightarrow> json" where
  "dget_json m k v = (case dget m k of None \<Rightarrow> v | Some w \<Rightarrow> w)"

definition point_time :: "msg \<Rightarrow> json" where
  "point_time p = (if jget p ''time'' \<noteq> JNull then jget p ''time''
     else dget_json p ''timestamp'' (jget p ''ts''))"

definition number_of :: "json \<Rightarrow> f64 option" where
  "number_of v = (case v of JInt n \<Rightarrow> Some (fint n) | JFloat x \<Rightarrow> Some x | _ \<Rightarrow> None)"

definition backfill_point :: "string \<Rightarrow> f64 \<Rightarrow> msg \<Rightarrow> index_feed \<Rightarrow> index_feed" where
  "backfill_point index_id now p s =
     (let ts = point_time p;
          value = opt_float (if ''value'' \<in> set (dkeys p) then jget p ''value'' else jget p ''price'');
          (observed_at, s1) = (case number_of ts of
              Some t \<Rightarrow> (fdiv t 1000, s) | None \<Rightarrow> (now, feed_fault ''record_cfbenchmarks_backfill'' s))
      in buffer_row \<lparr>tk_index_id = index_id, tk_source = BACKFILL_SOURCE, tk_observed_at = observed_at,
           tk_received_at = JNull, tk_source_ts = ts, tk_value = value, tk_avg60_value = None, tk_avg60_size = None,
           tk_q15_value = None, tk_q15_size = None, tk_raw = p\<rparr> s1)"

definition objects_of :: "json list \<Rightarrow> msg list" where
  "objects_of vs = concat (map (\<lambda>v. case v of JObj d \<Rightarrow> [d] | _ \<Rightarrow> []) vs)"

definition record_cfbenchmarks_backfill ::
  "string \<Rightarrow> json list \<Rightarrow> f64 \<Rightarrow> index_feed \<Rightarrow> (nat \<times> bool) \<times> index_feed" where
  "record_cfbenchmarks_backfill index_id points now s =
     (let ps = objects_of points in
      ((length ps, ps \<noteq> []), fold (backfill_point index_id now) ps s))"

text \<open>Rows of a settlement window are never pruned.\<close>

definition prune_due :: "f64 \<Rightarrow> f64 \<Rightarrow> tick_row \<Rightarrow> bool" where
  "prune_due retention_hours now r \<longleftrightarrow> tk_observed_at r < fsub now (fmul retention_hours 3600) \<and> tk_q15_size r = None"

definition prune_ticks :: "f64 \<Rightarrow> f64 \<Rightarrow> index_feed \<Rightarrow> nat \<times> index_feed" where
  "prune_ticks retention_hours now s =
     (length (filter (prune_due retention_hours now) (if_table s)),
      s\<lparr> if_table := filter (\<lambda>r. \<not> prune_due retention_hours now r) (if_table s) \<rparr>)"

definition latest :: "string \<Rightarrow> index_feed \<Rightarrow> index_entry option" where
  "latest index_id s = dget (if_latest s) index_id"

record tick_summary =
  ts_ticks :: nat
  ts_first_at :: "f64 option"
  ts_last_at :: "f64 option"
  ts_window_ticks :: nat
  ts_buffered :: nat
  ts_dropped :: nat

definition tick_stats :: "string option \<Rightarrow> index_feed \<Rightarrow> tick_summary" where
  "tick_stats index_id s =
     (let mine = (\<lambda>r. case index_id of None \<Rightarrow> True | Some i \<Rightarrow> i = [] \<or> tk_index_id r = i);
          rows = filter mine (if_table s); ts = map tk_observed_at rows
      in \<lparr>ts_ticks = length rows, ts_first_at = (if ts = [] then None else Some (Min (set ts))),
          ts_last_at = (if ts = [] then None else Some (Max (set ts))),
          ts_window_ticks = length (filter (\<lambda>r. tk_q15_size r \<noteq> None) rows),
          ts_buffered = length (if_buffer s), ts_dropped = if_dropped s\<rparr>)"

subsection \<open>Settlement algebra\<close>

definition SETTLEMENT_WINDOW_TICKS :: int where "SETTLEMENT_WINDOW_TICKS = 60"

definition required_remaining_average :: "f64 \<Rightarrow> int \<Rightarrow> f64 \<Rightarrow> int \<Rightarrow> f64 option" where
  "required_remaining_average partial_average k strike n =
     (if k \<le> 0 \<or> n \<le> 0 \<or> k \<ge> n then None
      else Some (fdiv (fsub (fmul (fint n) strike) (fmul (fint k) partial_average)) (fint (n - k))))"

record accumulating =
  pj_index_id :: string
  pj_strike :: f64
  pj_known :: int
  pj_total :: int
  pj_fraction :: f64
  pj_partial :: f64
  pj_spot :: "f64 option"
  pj_required :: "f64 option"
  pj_gap :: "f64 option"
  pj_seconds :: int

datatype projection =
    UnknownIndex
  | OutsideWindow "f64 option"
  | Determined f64 "f64 option" bool bool
  | Accumulating accumulating

definition settlement_projection :: "string \<Rightarrow> f64 \<Rightarrow> outcome_side \<Rightarrow> index_feed \<Rightarrow> projection" where
  "settlement_projection index_id strike side s =
     (case latest index_id s of
        None \<Rightarrow> UnknownIndex
      | Some e \<Rightarrow>
          (case (ix_q15_size e, ix_q15_value e) of
             (Some k, Some p) \<Rightarrow>
               if k = 0 then OutsideWindow (ix_value e)
               else if k \<ge> SETTLEMENT_WINDOW_TICKS
               then (let settles_yes = (p \<ge> strike)
                     in Determined p (ix_value e) settles_yes (if side = Yes then settles_yes else \<not> settles_yes))
               else (let n = SETTLEMENT_WINDOW_TICKS; required = required_remaining_average p k strike n
                 in Accumulating
                   \<lparr>pj_index_id = index_id, pj_strike = strike, pj_known = k, pj_total = n,
                    pj_fraction = py_round 4 (fdiv (fint k) (fint n)), pj_partial = p, pj_spot = ix_value e,
                    pj_required = map_option (py_round 4) required,
                    pj_gap = (case (required, ix_value e) of
                        (Some r, Some spot) \<Rightarrow> Some (py_round 4 (fsub r spot)) | _ \<Rightarrow> None),
                    pj_seconds = n - k\<rparr>)
           | _ \<Rightarrow> OutsideWindow (ix_value e)))"

definition INDEX_ALIASES :: "(string, string) pdict" where
  "INDEX_ALIASES = [(''BRTI'', ''BRTI''), (''BITCOINREALTIMEINDEX'', ''BRTI''), (''ETHUSDRTI'', ''ETHUSD_RTI''),
     (''ERTI'', ''ETHUSD_RTI''), (''ETHEREUMREALTIMEINDEX'', ''ETHUSD_RTI''), (''SOLUSDRTI'', ''SOLUSD_RTI''),
     (''XRPUSDRTI'', ''XRPUSD_RTI''), (''DOGEUSDRTI'', ''DOGEUSD_RTI'')]"

definition SIXTY_SECOND_PATTERNS :: "string list" where
  "SIXTY_SECOND_PATTERNS = [''sixty seconds'', ''60 second'', ''60-second'']"

definition ascii_alnum :: "char \<Rightarrow> bool" where
  "ascii_alnum c \<longleftrightarrow> (let n = of_char c :: nat in 48 \<le> n \<and> n \<le> 57 \<or> 65 \<le> n \<and> n \<le> 90 \<or> 97 \<le> n \<and> n \<le> 122)"

definition normalise_index_token :: "string \<Rightarrow> string" where
  "normalise_index_token token = filter ascii_alnum (str_upper token)"

text \<open>\<open>sorted(aliases, key=len, reverse=True)\<close> is stable, also in reverse.\<close>

definition aliases_by_length :: "(string, string) pdict" where
  "aliases_by_length = sort_key (\<lambda>a. - int (length (fst a))) INDEX_ALIASES"

definition resolve_index_id :: "string \<Rightarrow> string option" where
  "resolve_index_id rules =
     map_option snd (find (\<lambda>(alias, i). contains_str alias (normalise_index_token rules)) aliases_by_length)"

record index_spec =
  sp_index_id :: string
  sp_strike :: f64
  sp_comparison :: string
  sp_timer :: json
  sp_close_time :: json

datatype unsupported = NoStrike | NotAThreshold | NoAveragingWindow | UnknownSettlementIndex

text \<open>None is the exception \<open>float\<close> raises on a strike that is no number.\<close>

definition settlement_spec :: "msg \<Rightarrow> (unsupported + index_spec) option" where
  "settlement_spec market =
     (let rules = (case jget market ''rules_primary'' of JStr r \<Rightarrow> r | _ \<Rightarrow> []);
          strike = jget market ''floor_strike''; kind = jget market ''strike_type'' in
      if strike = JNull then Some (Inl NoStrike)
      else if kind \<noteq> JStr ''greater'' \<and> kind \<noteq> JStr ''greater_or_equal'' then Some (Inl NotAThreshold)
      else if \<not> list_ex (\<lambda>p. contains_str p (str_lower rules)) SIXTY_SECOND_PATTERNS then Some (Inl NoAveragingWindow)
      else case resolve_index_id rules of
        None \<Rightarrow> Some (Inl UnknownSettlementIndex)
      | Some i \<Rightarrow> map_option (\<lambda>x. Inr \<lparr>sp_index_id = i, sp_strike = x,
            sp_comparison = (if kind = JStr ''greater_or_equal'' then ''>='' else ''>''),
            sp_timer = jget market ''settlement_timer_seconds'', sp_close_time = jget market ''close_time''\<rparr>)
          (py_float strike))"

definition window_matches_close :: "index_entry option \<Rightarrow> f64 option \<Rightarrow> f64 \<Rightarrow> bool" where
  "window_matches_close entry close_ts tolerance_sec =
     (case (entry, close_ts) of
        (Some e, Some c) \<Rightarrow>
          (case ix_q15_end_ms e of
             None \<Rightarrow> False
           | Some end_ms \<Rightarrow> end_ms \<noteq> 0 \<and> \<bar>fsub (fdiv (fint end_ms) 1000) c\<bar> \<le> tolerance_sec)
      | _ \<Rightarrow> False)"

fun differences :: "f64 list \<Rightarrow> f64 list" where
  "differences (a # b # xs) = fsub b a # differences (b # xs)"
| "differences xs = []"

definition recent_volatility :: "(f64 \<Rightarrow> f64 \<Rightarrow> f64) \<Rightarrow> string \<Rightarrow> f64 \<Rightarrow> f64 \<Rightarrow> index_feed \<Rightarrow> f64 option" where
  "recent_volatility pow index_id lookback_sec now s =
     (let rows = map (\<lambda>r. case tk_value r of None \<Rightarrow> 0 | Some v \<Rightarrow> v)
            (sort_key tk_observed_at (filter (\<lambda>r. tk_index_id r = index_id
               \<and> tk_observed_at r \<ge> fsub now lookback_sec \<and> tk_value r \<noteq> None) (if_table s)))
      in if length rows < 30 then None
         else let diffs = differences rows; n = fint (int (length diffs));
                  mean = fdiv (py_sum diffs) n;
                  var = fdiv (py_sum (map (\<lambda>d. pow (fsub d mean) 2) diffs)) n
              in Some (pow var (1/2)))"

subsection \<open>Reconnect gaps\<close>

record disconnect_metrics =
  dm_reconnects :: nat
  dm_last_disconnect_at :: "f64 option"
  dm_last_gap_sec :: "f64 option"

record gap =
  gp_reconnect_at :: f64
  gp_gap_sec :: f64
  gp_reconnects :: nat

record backfill_result =
  br_result_index :: string
  br_result_start :: f64
  br_result_end :: f64
  br_result_rows :: nat
  br_result_error :: "string option"

record backfill_state =
  bf_last_seen_reconnects :: nat
  bf_checks :: nat
  bf_gaps_detected :: nat
  bf_attempts :: nat
  bf_successes :: nat
  bf_failures :: nat
  bf_rows :: nat
  bf_last_gap :: "gap option"
  bf_last_result :: "backfill_result option"
  bf_feed :: index_feed

definition detect_gap :: "disconnect_metrics \<Rightarrow> backfill_state \<Rightarrow> gap option \<times> backfill_state" where
  "detect_gap m s0 =
     (let s = s0\<lparr> bf_checks := bf_checks s0 + 1 \<rparr> in
      if dm_reconnects m \<le> bf_last_seen_reconnects s then (None, s)
      else let s1 = s\<lparr> bf_last_seen_reconnects := dm_reconnects m \<rparr> in
        case (dm_last_disconnect_at m, dm_last_gap_sec m) of
          (Some lost_at, Some gap_sec) \<Rightarrow>
            (let g = \<lparr>gp_reconnect_at = fadd lost_at gap_sec, gp_gap_sec = gap_sec, gp_reconnects = dm_reconnects m\<rparr>
             in (Some g, s1\<lparr> bf_gaps_detected := bf_gaps_detected s1 + 1, bf_last_gap := Some g \<rparr>))
        | _ \<Rightarrow> (None, s1))"

text \<open>The history request answers points, or raises with a text; one clock reading serves a call.\<close>

definition backfill_index ::
  "bool \<Rightarrow> (string \<Rightarrow> f64 \<Rightarrow> f64 \<Rightarrow> string + json list) \<Rightarrow> f64 \<Rightarrow> gap \<Rightarrow> string \<Rightarrow> backfill_state
     \<Rightarrow> backfill_result \<times> backfill_state" where
  "backfill_index stored fetch_history now g index_id s0 =
     (let stop = gp_reconnect_at g;
          (before, feed) = last_tick_before stored index_id stop (bf_feed s0);
          s = s0\<lparr> bf_feed := feed \<rparr>;
          start = (case before of Some t \<Rightarrow> t | None \<Rightarrow> fsub stop (gp_gap_sec g));
          result = \<lparr>br_result_index = index_id, br_result_start = start, br_result_end = stop,
                    br_result_rows = 0, br_result_error = None\<rparr>
      in if start \<ge> stop then (result, s)
         else let s1 = s\<lparr> bf_attempts := bf_attempts s + 1 \<rparr> in
           case fetch_history index_id start stop of
             Inl err \<Rightarrow> (let r = result\<lparr> br_result_error := Some err \<rparr>
                in (r, s1\<lparr> bf_failures := bf_failures s1 + 1, bf_feed := feed_fault ''backfill'' (bf_feed s1),
                           bf_last_result := Some r \<rparr>))
           | Inr points \<Rightarrow>
               (let ((n, due), feed') = record_cfbenchmarks_backfill index_id points now (bf_feed s1);
                    r = result\<lparr> br_result_rows := n \<rparr>
                in (r, s1\<lparr> bf_successes := bf_successes s1 + 1, bf_rows := bf_rows s1 + n, bf_feed := feed',
                           bf_last_result := Some r \<rparr>)))"

fun backfill_all ::
  "bool \<Rightarrow> (string \<Rightarrow> f64 \<Rightarrow> f64 \<Rightarrow> string + json list) \<Rightarrow> f64 \<Rightarrow> gap \<Rightarrow> string list \<Rightarrow> backfill_state
     \<Rightarrow> backfill_result list \<times> backfill_state" where
  "backfill_all stored fetch now g [] s = ([], s)"
| "backfill_all stored fetch now g (i # ids) s =
     (let (r, s1) = backfill_index stored fetch now g i s; (rs, s2) = backfill_all stored fetch now g ids s1
      in (r # rs, s2))"

definition check_and_backfill ::
  "bool \<Rightarrow> (string \<Rightarrow> f64 \<Rightarrow> f64 \<Rightarrow> string + json list) \<Rightarrow> f64 \<Rightarrow> string list \<Rightarrow> disconnect_metrics \<Rightarrow> backfill_state
     \<Rightarrow> backfill_result list \<times> backfill_state" where
  "check_and_backfill stored fetch now ids m s =
     (case detect_gap m s of
        (None, s1) \<Rightarrow> ([], s1)
      | (Some g, s1) \<Rightarrow> backfill_all stored fetch now g ids s1)"

text \<open>
  The hour buckets a window touches: a loop over a float counter, with the counter itself as the
  argument; None is a loop that does not end.
\<close>

partial_function (option) bucket_loop :: "f64 \<Rightarrow> f64 \<Rightarrow> f64 list \<Rightarrow> f64 list option" where
  "bucket_loop bucket last_bucket acc =
     (if bucket \<le> last_bucket then bucket_loop (fadd bucket 3600) last_bucket (acc @ [bucket]) else Some acc)"

definition hour_floor :: "f64 \<Rightarrow> int" where
  "hour_floor ts = (py_trunc ts div 3600) * 3600"

definition hour_bucket_starts :: "f64 \<Rightarrow> f64 \<Rightarrow> f64 list option" where
  "hour_bucket_starts start_ts end_ts =
     (if end_ts \<le> start_ts then Some []
      else bucket_loop (fint (hour_floor start_ts)) (of_int (hour_floor (fsub end_ts (fl (1/10^6))))) [])"

definition point_ts_sec :: "msg \<Rightarrow> f64 option" where
  "point_ts_sec p =
     map_option (\<lambda>x. if x > fl (10^12) then fdiv x 1000 else x) (number_of (point_time p))"

definition extract_points :: "json \<Rightarrow> msg list option" where
  "extract_points payload =
     (case payload of
        JArr vs \<Rightarrow> Some (objects_of vs)
      | JObj d \<Rightarrow> map_option (\<lambda>k. case jget d k of JArr vs \<Rightarrow> objects_of vs | _ \<Rightarrow> [])
          (find (\<lambda>k. case jget d k of JArr vs \<Rightarrow> True | _ \<Rightarrow> False) [''values'', ''history'', ''data'', ''points'', ''ticks''])
      | _ \<Rightarrow> None)"

end
