(* ===== verification/ShadowMode.thy ===== *)
theory ShadowMode
  imports SignalLog Strategy
begin

text \<open>
  \<open>services/shadow_mode.py\<close>: the shadow trader, which logs what a real account's bankroll would
  have allowed and never trades. Its daily-loss guard is its own copy of the risk manager's, its
  cooldown lives in memory only. \<open>services/trade_category.py\<close>, the category table written when a
  trade is placed, is at the end.
\<close>

record shadow_trade =
  sh_id :: string
  sh_ticker :: string
  sh_side :: outcome_side
  sh_size :: int
  sh_price :: f64
  sh_reason :: string
  sh_reference_bankroll :: f64
  sh_bankroll_source :: string
  sh_timestamp :: f64
  sh_config_fingerprint :: "string option"

record shadow =
  sd_last_trade_time :: "(string, f64) pdict"
  sd_day_start_bankroll :: f64
  sd_halted :: bool
  sd_halt_reason :: "string option"
  sd_day_start_date :: int
  sd_row :: "risk_row option"
  sd_trades :: "(string, shadow_trade) pdict"

definition init_shadow :: "f64 \<Rightarrow> risk_row option \<Rightarrow> (string, shadow_trade) pdict \<Rightarrow> f64 \<Rightarrow> shadow" where
  "init_shadow default_bankroll db trades now =
     (case db of
        None \<Rightarrow> \<lparr>sd_last_trade_time = [], sd_day_start_bankroll = default_bankroll, sd_halted = False,
            sd_halt_reason = None, sd_day_start_date = today now,
            sd_row = Some \<lparr>rr_day_start_bankroll = default_bankroll, rr_halted = 0, rr_halt_reason = None,
                           rr_day_start_date = Some (today now)\<rparr>, sd_trades = trades\<rparr>
      | Some row \<Rightarrow> \<lparr>sd_last_trade_time = [], sd_day_start_bankroll = rr_day_start_bankroll row,
            sd_halted = (rr_halted row \<noteq> 0), sd_halt_reason = rr_halt_reason row,
            sd_day_start_date = (case rr_day_start_date row of None \<Rightarrow> today now | Some d \<Rightarrow> d),
            sd_row = Some row, sd_trades = trades\<rparr>)"

definition shadow_persist_risk :: "shadow \<Rightarrow> shadow" where
  "shadow_persist_risk s = s\<lparr> sd_row := map_option (\<lambda>_.
     \<lparr>rr_day_start_bankroll = sd_day_start_bankroll s, rr_halted = (if sd_halted s then 1 else 0),
      rr_halt_reason = sd_halt_reason s, rr_day_start_date = Some (sd_day_start_date s)\<rparr>) (sd_row s) \<rparr>"

definition shadow_can_trade :: "f64 \<Rightarrow> string \<Rightarrow> f64 \<Rightarrow> shadow \<Rightarrow> bool" where
  "shadow_can_trade now ticker cooldown_sec s =
     (case dget (sd_last_trade_time s) ticker of None \<Rightarrow> True | Some prev \<Rightarrow> fsub now prev \<ge> cooldown_sec)"

definition shadow_reset_day :: "f64 \<Rightarrow> f64 \<Rightarrow> shadow \<Rightarrow> shadow" where
  "shadow_reset_day current_bankroll now s = shadow_persist_risk
     (s\<lparr> sd_day_start_bankroll := current_bankroll, sd_halted := False, sd_halt_reason := None,
         sd_day_start_date := today now \<rparr>)"

definition shadow_maybe_rollover_day :: "f64 \<Rightarrow> f64 \<Rightarrow> shadow \<Rightarrow> bool \<times> shadow" where
  "shadow_maybe_rollover_day current_bankroll now s =
     (if today now \<noteq> sd_day_start_date s then (True, shadow_reset_day current_bankroll now s) else (False, s))"

definition shadow_check_daily_loss :: "f64 \<Rightarrow> f64 \<Rightarrow> bool \<Rightarrow> f64 \<Rightarrow> shadow \<Rightarrow> bool \<times> shadow" where
  "shadow_check_daily_loss current_bankroll max_daily_loss_pct kill_switch now s0 =
     (let s = snd (shadow_maybe_rollover_day current_bankroll now s0) in
      if \<not> kill_switch \<or> sd_halted s then (\<not> sd_halted s, s)
      else if sd_day_start_bankroll s = 0 then (True, s)
      else let loss_pct = fdiv (fsub (sd_day_start_bankroll s) current_bankroll) (sd_day_start_bankroll s) in
        if loss_pct \<ge> max_daily_loss_pct
        then (False, shadow_persist_risk (s\<lparr> sd_halted := True,
               sd_halt_reason := Some (''Daily loss limit hit: -'' @ fmt_percent 1 loss_pct) \<rparr>))
        else (True, s))"

definition shadow_resume :: "shadow \<Rightarrow> shadow" where
  "shadow_resume s = shadow_persist_risk (s\<lparr> sd_halted := False, sd_halt_reason := None \<rparr>)"

definition shadow_clear :: "f64 \<Rightarrow> f64 \<Rightarrow> shadow \<Rightarrow> shadow" where
  "shadow_clear current_bankroll now s =
     shadow_reset_day current_bankroll now (s\<lparr> sd_trades := [], sd_last_trade_time := [] \<rparr>)"

text \<open>The gates of \<open>evaluate\<close> up to the cooldown: whether the signal still stands, or a missing setting.\<close>

definition shadow_gates ::
  "entry_env \<Rightarrow> settings \<Rightarrow> bool \<Rightarrow> (string, string) pdict \<Rightarrow> whale_signal \<Rightarrow> shadow \<Rightarrow> strategy_error + bool" where
  "shadow_gates en cfg is_live results sig s =
     (if settled_side (dget_or results (ws_ticker sig) []) \<noteq> None then Inr False
      else if cfg_flag cfg ''live_markets_only'' \<and> \<not> is_live then Inr False
      else if truthy (jget cfg ''excluded_series'')
          \<and> listed (jget cfg ''excluded_series'') (series_of (en_titles en) (ws_ticker sig)) then Inr False
      else case cfg_num cfg ''entry_threshold'' of
        None \<Rightarrow> Inl (KeyError ''entry_threshold'')
      | Some thr \<Rightarrow>
          if ws_confidence sig < thr then Inr False
          else if (let (resolved, win_rate) = en_series_stats en (ws_ticker sig) in
                   case win_rate of None \<Rightarrow> False
                   | Some w \<Rightarrow> fint resolved \<ge> cfg_num_or cfg ''min_resolved_for_whale_filter'' 5
                       \<and> w < cfg_num_or cfg ''min_whale_winrate_pct'' 40) then Inr False
          else case cfg_num cfg ''cooldown_sec'' of
            None \<Rightarrow> Inl (KeyError ''cooldown_sec'')
          | Some cooldown \<Rightarrow> Inr (shadow_can_trade (en_now en) (ws_ticker sig) cooldown s))"

definition shadow_row ::
  "entry_env \<Rightarrow> whale_signal \<Rightarrow> int \<Rightarrow> f64 \<Rightarrow> string \<Rightarrow> string option \<Rightarrow> shadow_trade" where
  "shadow_row en sig n bankroll source fp =
     \<lparr>sh_id = st_uuid (en_stamp en), sh_ticker = ws_ticker sig, sh_side = ws_side sig, sh_size = n,
      sh_price = ws_price sig, sh_reason = entry_reason sig, sh_reference_bankroll = py_round 2 bankroll,
      sh_bankroll_source = source, sh_timestamp = en_now en, sh_config_fingerprint = fp\<rparr>"

definition shadow_log ::
  "entry_env \<Rightarrow> settings \<Rightarrow> f64 \<Rightarrow> string \<Rightarrow> string option \<Rightarrow> whale_signal \<Rightarrow> shadow
     \<Rightarrow> (strategy_error + shadow_trade option) \<times> shadow" where
  "shadow_log en cfg bankroll source fp sig s =
     (case cfg_num cfg ''max_position_pct'' of
        None \<Rightarrow> (Inl (KeyError ''max_position_pct''), s)
      | Some pct \<Rightarrow>
          (let n = actual_size (fmul bankroll pct) (unit_cost (ws_side sig) (ws_price sig));
               row = shadow_row en sig n bankroll source fp
           in if n \<le> 0 then (Inr None, s)
              else if sh_id row \<in> set (dkeys (sd_trades s)) then (Inl (StoreError IntegrityError), s)
              else (Inr (Some row), s\<lparr> sd_trades := sd_trades s @ [(sh_id row, row)],
                      sd_last_trade_time := dput (ws_ticker sig) (sh_timestamp row) (sd_last_trade_time s) \<rparr>)))"

definition shadow_evaluate ::
  "entry_env \<Rightarrow> settings \<Rightarrow> settings \<Rightarrow> f64 \<Rightarrow> string \<Rightarrow> bool \<Rightarrow> (string, string) pdict \<Rightarrow> string option
     \<Rightarrow> whale_signal \<Rightarrow> shadow \<Rightarrow> (strategy_error + shadow_trade option) \<times> shadow" where
  "shadow_evaluate en cfg risk_cfg bankroll source is_live results fp sig s =
     (case cfg_num risk_cfg ''max_daily_loss_pct'' of
        None \<Rightarrow> (Inl (KeyError ''max_daily_loss_pct''), s)
      | Some max_loss \<Rightarrow>
          if ''kill_switch_enabled'' \<notin> set (dkeys risk_cfg) then (Inl (KeyError ''kill_switch_enabled''), s)
          else (let (ok, s') = shadow_check_daily_loss bankroll max_loss (cfg_flag risk_cfg ''kill_switch_enabled'') (en_now en) s
            in if \<not> ok then (Inr None, s')
               else case shadow_gates en cfg is_live results sig s' of
                   Inl e \<Rightarrow> (Inl e, s')
                 | Inr False \<Rightarrow> (Inr None, s')
                 | Inr True \<Rightarrow> shadow_log en cfg bankroll source fp sig s'))"

definition shadow_recent :: "nat \<Rightarrow> shadow \<Rightarrow> shadow_trade list" where
  "shadow_recent limit s = take limit (sort_key (\<lambda>t. - sh_timestamp t) (map snd (sd_trades s)))"

definition shadow_stats :: "shadow \<Rightarrow> nat \<times> bool \<times> string option" where
  "shadow_stats s = (length (sd_trades s), sd_halted s, sd_halt_reason s)"

subsection \<open>The guard is the risk manager's\<close>

text \<open>The shadow trader seen as a risk manager with the settings it is handed.\<close>

definition as_risk :: "f64 \<Rightarrow> bool \<Rightarrow> shadow \<Rightarrow> risk" where
  "as_risk max_loss kill s =
     \<lparr>rk_starting_bankroll = 0, rk_max_daily_loss_pct = max_loss, rk_kill_switch_enabled = kill,
      rk_max_total_exposure_pct = None, rk_day_start_bankroll = sd_day_start_bankroll s, rk_halted = sd_halted s,
      rk_halt_reason = sd_halt_reason s, rk_day_start_date = sd_day_start_date s, rk_db = sd_row s\<rparr>"

lemma as_risk_persist: "as_risk m k (shadow_persist_risk s) = persist_risk (as_risk m k s)"
  by (simp add: as_risk_def shadow_persist_risk_def persist_risk_def)

lemma as_risk_reset: "as_risk m k (shadow_reset_day b now s) = reset_day b now (as_risk m k s)"
  unfolding shadow_reset_day_def reset_day_def as_risk_persist by (simp add: as_risk_def)

lemma as_risk_rollover:
  "fst (shadow_maybe_rollover_day b now s) = fst (maybe_rollover_day b now (as_risk m k s))"
  "as_risk m k (snd (shadow_maybe_rollover_day b now s)) = snd (maybe_rollover_day b now (as_risk m k s))"
  using as_risk_reset [of m k b now s]
  by (simp_all add: shadow_maybe_rollover_day_def maybe_rollover_day_def) (simp_all add: as_risk_def)

text \<open>
  C16: The shadow trader's guard is the risk manager's. Read as a risk manager with the limits it
  is called with, it decides the daily check, rolls the day over, halts, resumes and persists
  exactly as \<open>risk_manager.py\<close> does, so the second copy of the code has not drifted.
\<close>

theorem shadow_guard_refines_risk:
  "fst (shadow_check_daily_loss b m k now s) = fst (check_daily_loss b now (as_risk m k s))
   \<and> as_risk m k (snd (shadow_check_daily_loss b m k now s)) = snd (check_daily_loss b now (as_risk m k s))
   \<and> as_risk m k (shadow_resume s) = resume (as_risk m k s)
   \<and> as_risk m k (shadow_reset_day b now s) = reset_day b now (as_risk m k s)"
proof -
  let ?s = "snd (shadow_maybe_rollover_day b now s)" and ?r = "snd (maybe_rollover_day b now (as_risk m k s))"
  have r: "?r = as_risk m k ?s" by (simp add: as_risk_rollover)
  have halt: "as_risk m k' (shadow_persist_risk (t\<lparr> sd_halted := True, sd_halt_reason := w \<rparr>))
      = persist_risk ((as_risk m k' t)\<lparr> rk_halted := True, rk_halt_reason := w \<rparr>)" for t w k'
    unfolding as_risk_persist by (simp add: as_risk_def)
  have f: "rk_kill_switch_enabled (as_risk m k t) = k" "rk_halted (as_risk m k t) = sd_halted t"
    "rk_day_start_bankroll (as_risk m k t) = sd_day_start_bankroll t" "rk_max_daily_loss_pct (as_risk m k t) = m" for t
    by (simp_all add: as_risk_def)
  have "fst (shadow_check_daily_loss b m k now s) = fst (check_daily_loss b now (as_risk m k s))
     \<and> as_risk m k (snd (shadow_check_daily_loss b m k now s)) = snd (check_daily_loss b now (as_risk m k s))"
    unfolding shadow_check_daily_loss_def check_daily_loss_def Let_def r daily_loss_pct_def f
    by (simp add: halt)
  moreover have "as_risk m k (shadow_resume s) = resume (as_risk m k s)"
    unfolding shadow_resume_def resume_def as_risk_persist by (simp add: as_risk_def)
  ultimately show ?thesis by (simp add: as_risk_reset)
qed

text \<open>
  A trade the shadow log keeps had passed the shadow gates at the guard's verdict, is sized
  within the reference bankroll's cap, and starts the ticker's cooldown.
\<close>

lemma shadow_evaluate_logged:
  assumes "shadow_evaluate en cfg risk_cfg bankroll source is_live results fp sig s = (Inr (Some t), s')"
  shows "\<exists>pct. cfg_num cfg ''max_position_pct'' = Some pct \<and> 0 < sh_size t
     \<and> sh_size t = actual_size (fmul bankroll pct) (unit_cost (ws_side sig) (ws_price sig))
     \<and> dget (sd_last_trade_time s') (ws_ticker sig) = Some (en_now en)
     \<and> sd_trades s' = sd_trades s @ [(sh_id t, t)] \<and> \<not> sd_halted s'"
proof -
  obtain m ok s1 where c: "shadow_check_daily_loss bankroll m (cfg_flag risk_cfg ''kill_switch_enabled'') (en_now en) s = (ok, s1)"
     "ok" "shadow_log en cfg bankroll source fp sig s1 = (Inr (Some t), s')"
    using assms by (auto simp: shadow_evaluate_def split: option.splits if_splits prod.splits sum.splits bool.splits)
  have s1: "sd_trades s1 = sd_trades s" "\<not> sd_halted s1"
    using c(1,2) by (auto simp: shadow_check_daily_loss_def shadow_maybe_rollover_day_def shadow_reset_day_def
        shadow_persist_risk_def Let_def split: if_splits)
  show ?thesis
    using c(3) s1 by (auto simp: shadow_log_def shadow_row_def Let_def split: option.splits if_splits)
qed

subsection \<open>Trade categories\<close>

record category_row =
  tg_category :: string
  tg_recorded_at :: f64
  tg_subcategory :: "string option"

type_synonym category_table = "(string, category_row) pdict"

text \<open>An upsert; without a subcategory the stored one stays.\<close>

definition record_category :: "string \<Rightarrow> string option \<Rightarrow> f64 \<Rightarrow> string option \<Rightarrow> category_table \<Rightarrow> category_table" where
  "record_category ticker category now subcategory d =
     (case (nonempty (Some ticker), nonempty category) of
        (Some t, Some c) \<Rightarrow>
          dput t \<lparr>tg_category = c, tg_recorded_at = now,
            tg_subcategory = (case nonempty subcategory of Some sc \<Rightarrow> Some sc
              | None \<Rightarrow> (case dget d t of None \<Rightarrow> None | Some r \<Rightarrow> tg_subcategory r))\<rparr> d
      | _ \<Rightarrow> d)"

definition categories_for_tickers :: "string list \<Rightarrow> category_table \<Rightarrow> (string, string) pdict" where
  "categories_for_tickers tickers d =
     map (\<lambda>(t, r). (t, tg_category r)) (filter (\<lambda>(t, r). t \<in> set tickers \<and> t \<noteq> []) d)"

definition subcategories_for_tickers :: "string list \<Rightarrow> category_table \<Rightarrow> (string, string) pdict" where
  "subcategories_for_tickers tickers d =
     concat (map (\<lambda>(t, r). case tg_subcategory r of None \<Rightarrow> [] | Some c \<Rightarrow> [(t, c)])
       (filter (\<lambda>(t, r). t \<in> set tickers \<and> t \<noteq> []) d))"

definition category_in_range :: "f64 option \<Rightarrow> f64 option \<Rightarrow> category_row \<Rightarrow> bool" where
  "category_in_range before after r \<longleftrightarrow>
     (case after of None \<Rightarrow> True | Some a \<Rightarrow> tg_recorded_at r > a) \<and>
     (case before of None \<Rightarrow> True | Some b \<Rightarrow> tg_recorded_at r \<le> b)"

definition count_category_range :: "f64 option \<Rightarrow> f64 option \<Rightarrow> category_table \<Rightarrow> nat" where
  "count_category_range before after d = length (filter (\<lambda>(t, r). category_in_range before after r) d)"

definition clear_category_range :: "f64 option \<Rightarrow> f64 option \<Rightarrow> category_table \<Rightarrow> nat \<times> category_table" where
  "clear_category_range before after d =
     (count_category_range before after d, filter (\<lambda>(t, r). \<not> category_in_range before after r) d)"

definition clear_all_categories :: "category_table \<Rightarrow> category_table" where
  "clear_all_categories d = []"

end
