(* ===== verification/MutualExcl.thy ===== *)
theory MutualExcl
  imports TitleCache PyValues
begin

text \<open>
  \<open>services/mutual_exclusivity.py\<close>: the two-outcome pairs among the markets of one fetch, and
  the open position that is the confirmed other half of a candidate. The module's counter is
  threaded as a number; a price text that is no number is the ValueError \<open>float\<close> raises (None).
\<close>

definition PRICE_SUM_TOLERANCE :: f64 where "PRICE_SUM_TOLERANCE = fl (2/100)"

text \<open>\<open>math.isclose\<close>\<close>

definition isclose :: "f64 \<Rightarrow> f64 \<Rightarrow> f64 \<Rightarrow> f64 \<Rightarrow> bool" where
  "isclose a b rel_tol abs_tol \<longleftrightarrow>
     a = b \<or> (let diff = \<bar>fsub b a\<bar> in diff \<le> \<bar>fmul rel_tol b\<bar> \<or> diff \<le> \<bar>fmul rel_tol a\<bar> \<or> diff \<le> abs_tol)"

definition key_text :: "json \<Rightarrow> string option" where
  "key_text v = (case v of JStr s \<Rightarrow> (if s = [] then None else Some s) | _ \<Rightarrow> None)"

text \<open>Markets by event, in the order the events appear; markets without an event or a ticker are left out.\<close>

definition markets_by_event :: "msg list \<Rightarrow> (string, (string \<times> msg) list) pdict" where
  "markets_by_event markets =
     fold (\<lambda>m d. case (key_text (jget m ''event_ticker''), key_text (jget m ''ticker'')) of
         (Some e, Some t) \<Rightarrow> dput e (dget_or d e [] @ [(t, m)]) d | _ \<Rightarrow> d) markets []"

definition bid_of :: "msg \<Rightarrow> f64 option" where
  "bid_of m = py_float (jor (jget m ''yes_bid_dollars'') (JInt 0))"

definition me_flag :: "(string, event_row) pdict \<Rightarrow> string \<Rightarrow> bool option" where
  "me_flag events e = (case dget events e of None \<Rightarrow> None | Some r \<Rightarrow> er_mutually_exclusive r)"

text \<open>Whether two siblings are a pair; None when a price does not parse.\<close>

definition confirmed_pair :: "bool option \<Rightarrow> msg \<Rightarrow> msg \<Rightarrow> bool option" where
  "confirmed_pair flag m n =
     (case flag of
        Some b \<Rightarrow> Some b
      | None \<Rightarrow>
          (case (bid_of m, bid_of n) of
             (Some p, Some q) \<Rightarrow> Some (isclose (py_sum [p, q]) 1 PRICE_SUM_TOLERANCE PRICE_SUM_TOLERANCE)
           | _ \<Rightarrow> None))"

fun pair_up :: "(string, event_row) pdict \<Rightarrow> (string, (string \<times> msg) list) pdict \<Rightarrow> (string, string) pdict
    \<Rightarrow> (string, string) pdict option" where
  "pair_up events [] pairs = Some pairs"
| "pair_up events ((e, siblings) # groups) pairs =
     (case siblings of
        [(a, m), (b, n)] \<Rightarrow>
          (case confirmed_pair (me_flag events e) m n of
             None \<Rightarrow> None
           | Some False \<Rightarrow> pair_up events groups pairs
           | Some True \<Rightarrow> pair_up events groups (dput b a (dput a b pairs)))
      | _ \<Rightarrow> pair_up events groups pairs)"

definition find_me_pairs :: "msg list \<Rightarrow> (string, event_row) pdict \<Rightarrow> (string, string) pdict option" where
  "find_me_pairs markets events = pair_up events (markets_by_event markets) []"

definition market_event_of :: "(string, market_row) pdict \<Rightarrow> string \<Rightarrow> string option" where
  "market_event_of titles t = (case dget titles t of None \<Rightarrow> None | Some r \<Rightarrow> mr_event_ticker r)"

text \<open>The answer, and the counter of undetermined look-ups.\<close>

definition find_open_confirmed_conflict ::
  "string \<Rightarrow> (string, market_row) pdict \<Rightarrow> (string, event_row) pdict \<Rightarrow> string list \<Rightarrow> nat \<Rightarrow> string option \<times> nat" where
  "find_open_confirmed_conflict ticker titles events open_tickers unknown =
     (case nonempty (market_event_of titles ticker) of
        None \<Rightarrow> (None, unknown + 1)
      | Some e \<Rightarrow>
          (case me_flag events e of
             None \<Rightarrow> (None, unknown + 1)
           | Some False \<Rightarrow> (None, unknown)
           | Some True \<Rightarrow>
               (case filter (\<lambda>t. t \<noteq> ticker \<and> market_event_of titles t = Some e) open_tickers of
                  [c] \<Rightarrow> (Some c, unknown)
                | _ \<Rightarrow> (None, unknown))))"

subsection \<open>Pairs\<close>

definition siblings :: "msg list \<Rightarrow> string \<Rightarrow> (string \<times> msg) list" where
  "siblings markets e = concat (map (\<lambda>m. case (key_text (jget m ''event_ticker''), key_text (jget m ''ticker'')) of
     (Some e', Some t) \<Rightarrow> (if e' = e then [(t, m)] else []) | _ \<Rightarrow> []) markets)"

lemma by_event_snoc:
  "markets_by_event (ms @ [m]) = (case (key_text (jget m ''event_ticker''), key_text (jget m ''ticker'')) of
     (Some e, Some t) \<Rightarrow> dput e (dget_or (markets_by_event ms) e [] @ [(t, m)]) (markets_by_event ms) | _ \<Rightarrow> markets_by_event ms)"
  by (simp only: markets_by_event_def fold_append fold.simps comp_apply id_apply)

lemma dict_ok_by_event: "dict_ok (markets_by_event ms)"
  by (induction ms rule: rev_induct) (auto simp: markets_by_event_def split: option.split)

lemma by_event_get: "dget_or (markets_by_event ms) e [] = siblings ms e"
proof (induction ms rule: rev_induct)
  case (snoc m ms)
  have "siblings (ms @ [m]) e = siblings ms e @ siblings [m] e" by (simp add: siblings_def)
  with snoc show ?case
    by (auto simp: by_event_snoc siblings_def [of "[m]"] dget_or_def split: option.splits)
qed (simp add: markets_by_event_def siblings_def dget_or_def)

lemma by_event_member: "(e, sib) \<in> set (markets_by_event ms) \<Longrightarrow> sib = siblings ms e"
  using by_event_get [of ms e] dget_iff_in_set [OF dict_ok_by_event, of ms e sib] by (simp add: dget_or_def)

lemma siblings_member:
  "(t, m) \<in> set (siblings ms e) \<longleftrightarrow> m \<in> set ms \<and> key_text (jget m ''ticker'') = Some t
     \<and> key_text (jget m ''event_ticker'') = Some e"
  by (force simp: siblings_def split: option.splits if_splits)

lemma key_text_inj: "key_text v = Some t \<Longrightarrow> key_text w = Some t \<Longrightarrow> v = w"
  by (auto simp: key_text_def split: json.splits if_splits)

lemma siblings_distinct: "distinct (map (\<lambda>m. jget m ''ticker'') ms) \<Longrightarrow> distinct (map fst (siblings ms e))"
proof (induction ms)
  case (Cons m ms)
  have "t \<notin> fst ` set (siblings ms e)" if "key_text (jget m ''ticker'') = Some t" for t
    using that Cons.prems key_text_inj by (fastforce simp: siblings_member)
  moreover have "siblings (m # ms) e = siblings [m] e @ siblings ms e" by (simp add: siblings_def)
  ultimately show ?case
    using Cons by (auto simp: siblings_def [of "[m]"] split: option.splits)
qed (simp add: siblings_def)

text \<open>The pairs found so far, each over a group of exactly two markets.\<close>

lemma sorted_wrt_fst_neq: "distinct (map fst d) \<Longrightarrow> sorted_wrt (\<lambda>g h. fst g \<noteq> fst h) d"
  by (induction d) auto

definition pairs_ok :: "msg list \<Rightarrow> (string, event_row) pdict \<Rightarrow> (string, string) pdict \<Rightarrow> bool" where
  "pairs_ok ms events pairs \<longleftrightarrow> (\<forall>a b. dget pairs a = Some b \<longrightarrow> dget pairs b = Some a \<and> a \<noteq> b
     \<and> (\<exists>e m n. set (siblings ms e) = {(a, m), (b, n)} \<and> length (siblings ms e) = 2 \<and> me_flag events e \<noteq> Some False))"

lemma pairs_okD:
  "pairs_ok ms events pairs \<Longrightarrow> dget pairs a = Some b \<Longrightarrow> dget pairs b = Some a \<and> a \<noteq> b
     \<and> (\<exists>e m n. set (siblings ms e) = {(a, m), (b, n)} \<and> length (siblings ms e) = 2 \<and> me_flag events e \<noteq> Some False)"
  unfolding pairs_ok_def by blast

definition group_tickers :: "string \<times> (string \<times> msg) list \<Rightarrow> string set" where
  "group_tickers g = fst ` set (snd g)"

lemma pair_up_ok:
  assumes "pair_up events groups pairs = Some out"
    and "\<forall>(e, sib) \<in> set groups. sib = siblings ms e \<and> distinct (map fst sib)"
    and "sorted_wrt (\<lambda>g h. group_tickers g \<inter> group_tickers h = {}) groups"
    and "\<forall>g \<in> set groups. group_tickers g \<inter> set (dkeys pairs) = {}"
    and "pairs_ok ms events pairs"
  shows "pairs_ok ms events out"
  using assms
proof (induction groups arbitrary: pairs)
  case (Cons g groups)
  obtain e sib where g: "g = (e, sib)" by (cases g)
  have sib: "sib = siblings ms e" "distinct (map fst sib)" using Cons.prems(2) g by auto
  have skip: ?case if "pair_up events groups pairs = Some out"
    by (rule Cons.IH [OF that]) (use Cons.prems in simp_all)
  show ?case
  proof (cases "\<exists>a m b n. sib = [(a, m), (b, n)]")
    case False
    then have "pair_up events (g # groups) pairs = pair_up events groups pairs"
      by (auto simp: g split: list.split)
    then show ?thesis using skip Cons.prems(1) by simp
  next
    case True
    then obtain a m b n where ab: "sib = [(a, m), (b, n)]" by blast
    show ?thesis
    proof (cases "confirmed_pair (me_flag events e) m n = Some True")
      case False
      then have "pair_up events groups pairs = Some out"
        using Cons.prems(1) by (cases "confirmed_pair (me_flag events e) m n") (simp_all add: g ab split: bool.splits)
      then show ?thesis by (rule skip)
    next
      case True
      let ?p = "dput b a (dput a b pairs)"
      have rest: "pair_up events groups ?p = Some out" using Cons.prems(1) True by (simp add: g ab)
      have gt: "group_tickers g = {a, b}" by (simp add: g ab group_tickers_def)
      then have "{a, b} \<inter> set (dkeys pairs) = {}" using Cons.prems(4) by simp
      then have new: "a \<noteq> b" "a \<notin> set (dkeys pairs)" "b \<notin> set (dkeys pairs)"
        using sib(2) by (simp_all add: ab)
      have flag: "me_flag events e \<noteq> Some False" using True by (auto simp: confirmed_pair_def)
      have not_ab: "x \<noteq> a \<and> x \<noteq> b \<and> y \<noteq> a \<and> y \<noteq> b" if "dget pairs x = Some y" for x y
      proof -
        have "dget pairs y = Some x" by (rule pairs_okD [OF Cons.prems(5) that, THEN conjunct1])
        then show ?thesis using that new(2,3) dget_eq_None_iff by (metis option.distinct(1))
      qed
      have s: "set (siblings ms e) = {(a, m), (b, n)}" "set (siblings ms e) = {(b, n), (a, m)}" "length (siblings ms e) = 2"
        using ab unfolding sib(1) by auto
      have "pairs_ok ms events ?p"
        unfolding pairs_ok_def
      proof (intro allI impI)
        fix x y assume xy: "dget ?p x = Some y"
        consider "x = a" | "x = b" | "x \<noteq> a" "x \<noteq> b" by blast
        then show "dget ?p y = Some x \<and> x \<noteq> y
     \<and> (\<exists>e m n. set (siblings ms e) = {(x, m), (y, n)} \<and> length (siblings ms e) = 2 \<and> me_flag events e \<noteq> Some False)"
        proof cases
          case 1
          then have "y = b" using xy new(1) by simp
          then show ?thesis using 1 new(1) s(1,3) flag by (intro conjI exI [of _ e] exI [of _ m] exI [of _ n]) simp_all
        next
          case 2
          then have "y = a" using xy new(1) by simp
          then show ?thesis using 2 new(1) s(2,3) flag by (intro conjI exI [of _ e] exI [of _ n] exI [of _ m]) simp_all
        next
          case 3
          then have "dget pairs x = Some y" using xy by simp
          then show ?thesis using not_ab [of x y] pairs_okD [OF Cons.prems(5), of x y] by simp
        qed
      qed
      moreover have "\<forall>h \<in> set groups. group_tickers h \<inter> set (dkeys ?p) = {}"
      proof
        fix h assume h: "h \<in> set groups"
        then have "{a, b} \<inter> group_tickers h = {}" using Cons.prems(3) gt by simp
        moreover have "group_tickers h \<inter> set (dkeys pairs) = {}" using Cons.prems(4) h by simp
        ultimately show "group_tickers h \<inter> set (dkeys ?p) = {}" by auto
      qed
      ultimately show ?thesis using Cons.IH [OF rest] Cons.prems(2,3) by simp
    qed
  qed
qed simp

text \<open>
  Pairs are two-outcome events. Over markets with distinct tickers, the complement of the
  complement of a ticker is the ticker itself and never the ticker alone; a pair is exactly the
  two markets the fetch has for one event, whose flag does not deny mutual exclusion.
\<close>

theorem pairs_are_two_outcome_events:
  assumes "distinct (map (\<lambda>m. jget m ''ticker'') markets)"
    and "find_me_pairs markets events = Some pairs" "dget pairs a = Some b"
  shows "dget pairs b = Some a \<and> a \<noteq> b
    \<and> (\<exists>e m n. set (siblings markets e) = {(a, m), (b, n)} \<and> length (siblings markets e) = 2 \<and> me_flag events e \<noteq> Some False)"
proof -
  have groups: "\<forall>(e, sib) \<in> set (markets_by_event markets). sib = siblings markets e \<and> distinct (map fst sib)"
    using by_event_member siblings_distinct [OF assms(1)] by blast
  have dis: "group_tickers (e, siblings markets e) \<inter> group_tickers (e', siblings markets e') = {}" if "e \<noteq> e'" for e e'
  proof -
    have same: "m = n" if "m \<in> set markets" "n \<in> set markets" "key_text (jget m ''ticker'') = Some t"
        "key_text (jget n ''ticker'') = Some t" for m n t
      using assms(1) key_text_inj [OF that(3,4)] that(1,2) by (simp add: distinct_map inj_on_def)
    have "t \<notin> group_tickers (e', siblings markets e')" if g: "t \<in> group_tickers (e, siblings markets e)" for t
    proof
      assume "t \<in> group_tickers (e', siblings markets e')"
      then obtain m n where "(t, m) \<in> set (siblings markets e)" "(t, n) \<in> set (siblings markets e')"
        using g by (auto simp: group_tickers_def)
      then show False using same [of m n t] \<open>e \<noteq> e'\<close> by (simp add: siblings_member)
    qed
    then show ?thesis by blast
  qed
  have "sorted_wrt (\<lambda>g h. fst g \<noteq> fst h) (markets_by_event markets)"
    using dict_ok_by_event [of markets] by (simp add: dict_ok_def dkeys_def sorted_wrt_fst_neq)
  then have "sorted_wrt (\<lambda>g h. group_tickers g \<inter> group_tickers h = {}) (markets_by_event markets)"
  proof (rule sorted_wrt_mono_rel [rotated])
    fix g h assume gh: "g \<in> set (markets_by_event markets)" "h \<in> set (markets_by_event markets)" "fst g \<noteq> fst h"
    then have "g = (fst g, siblings markets (fst g))" "h = (fst h, siblings markets (fst h))"
      using by_event_member by (metis prod.collapse)+
    then show "group_tickers g \<inter> group_tickers h = {}" using dis [OF gh(3)] by simp
  qed
  then have "pairs_ok markets events pairs"
    by (rule pair_up_ok [OF assms(2) [unfolded find_me_pairs_def] groups]) (simp_all add: pairs_ok_def)
  then show ?thesis using assms(3) by (rule pairs_okD)
qed

definition two_markets :: "msg list" where
  "two_markets = [[(''ticker'', JStr ''E-A''), (''event_ticker'', JStr ''E'')],
                  [(''ticker'', JStr ''E-B''), (''event_ticker'', JStr ''E'')]]"

definition exclusive_event :: event_row where
  "exclusive_event = \<lparr>er_title = None, er_sub_title = None, er_category = None, er_mutually_exclusive = Some True,
     er_competition = None, er_competition_scope = None, er_series_ticker = None, er_available_on_brokers = None,
     er_collateral_return_type = None, er_strike_date = None, er_strike_period = None,
     er_fee_type_override = None, er_fee_multiplier_override = None, er_last_updated_ts = None,
     er_product_metadata = None, er_settlement_sources = None\<rparr>"

theorem pairs_are_two_outcome_events_witness:
  "find_me_pairs two_markets [(''E'', exclusive_event)] = Some [(''E-A'', ''E-B''), (''E-B'', ''E-A'')]
   \<and> dget [(''E-A'', ''E-B''), (''E-B'', ''E-A'')] ''E-B'' = Some ''E-A''"
proof -
  have p: "find_me_pairs two_markets [(''E'', exclusive_event)] = Some [(''E-A'', ''E-B''), (''E-B'', ''E-A'')]"
    by (simp add: find_me_pairs_def markets_by_event_def two_markets_def key_text_def jget_def dget_or_def confirmed_pair_def
        me_flag_def exclusive_event_def)
  have d: "distinct (map (\<lambda>m. jget m ''ticker'') two_markets)" by (simp add: two_markets_def jget_def)
  show ?thesis
    using pairs_are_two_outcome_events [OF d p, of "''E-A''" "''E-B''"] p by simp
qed

subsection \<open>The open half\<close>

text \<open>
  The conflict reported is real: it is an open position on another market of the candidate's
  event, which the exchange flags as mutually exclusive, and it is the only one there. When the
  event is unknown or not flagged either way nothing is reported and the look-up is counted.
\<close>

theorem conflict_is_the_open_half:
  "case find_open_confirmed_conflict ticker titles events open_tickers unknown of
     (Some c, n) \<Rightarrow> n = unknown \<and> c \<in> set open_tickers \<and> c \<noteq> ticker \<and> market_event_of titles c = market_event_of titles ticker
        \<and> (\<exists>e. market_event_of titles ticker = Some e \<and> me_flag events e = Some True
             \<and> filter (\<lambda>t. t \<noteq> ticker \<and> market_event_of titles t = Some e) open_tickers = [c])
   | (None, n) \<Rightarrow> n = unknown + (if (case nonempty (market_event_of titles ticker) of None \<Rightarrow> True
        | Some e \<Rightarrow> me_flag events e = None) then 1 else 0)"
proof (cases "nonempty (market_event_of titles ticker)")
  case None
  then show ?thesis by (simp add: find_open_confirmed_conflict_def)
next
  case (Some e)
  then have ev: "market_event_of titles ticker = Some e"
    by (cases "market_event_of titles ticker") (simp_all add: nonempty_def split: if_splits)
  let ?others = "filter (\<lambda>t. t \<noteq> ticker \<and> market_event_of titles t = Some e) open_tickers"
  consider "me_flag events e = None" | "me_flag events e = Some False"
    | c where "me_flag events e = Some True" "?others = [c]"
    | "me_flag events e = Some True" "\<nexists>c. ?others = [c]"
    by (cases "me_flag events e") auto
  then show ?thesis
  proof cases
    case (3 c)
    have "c \<in> set ?others" unfolding 3(2) by simp
    then have "c \<in> set open_tickers \<and> c \<noteq> ticker \<and> market_event_of titles c = Some e"
      by (simp only: set_filter mem_Collect_eq simp_thms)
    then show ?thesis using 3 Some ev by (simp add: find_open_confirmed_conflict_def)
  next
    case 4
    then have "find_open_confirmed_conflict ticker titles events open_tickers unknown = (None, unknown)"
      using Some by (auto simp: find_open_confirmed_conflict_def split: list.split)
    then show ?thesis using Some 4(1) by simp
  qed (use Some in \<open>simp_all add: find_open_confirmed_conflict_def\<close>)
qed

end
