(* ===== verification/DecisionBridge.thy ===== *)
theory DecisionBridge
  imports ShadowMode MutualExcl CandidateRetry StrategyFacts
begin

text \<open>
  \<open>services/whale_stream/decision_bridge.py\<close>: the way of a whale signal from the candidate
  ledger's claim through the feeds, the signal log, the entry decision, the counters, the category
  table and the shadow trader. What it reads of \<open>app_state.state\<close> is the record \<open>bridge_env\<close>,
  what it writes, in any module, the record \<open>bridge\<close>. One clock reading serves a call beside
  the \<open>tick_now\<close> it is given. Broadcasts are kept as the list of their payloads.
\<close>

subsection \<open>State\<close>

datatype feed_entry =
    SignalDecision whale_signal decision
  | ExitDecision close_decision
  | FillDecision fill_decision
  | EdgeEntry trade

record bridge_cfg =
  bc_mode :: string
  bc_strategy :: settings
  bc_overrides :: overrides
  bc_kalshi :: "settings option"
  bc_risk :: settings

record bridge_env =
  be_entry :: entry_env
  be_lookup :: lookup_state
  be_live_status :: "(string, string) pdict"
  be_event_phase :: "(string, string) pdict"
  be_me_pairs :: "(string, string) pdict"
  be_latest_prices :: "(string, f64) pdict"
  be_whale_source :: string
  be_experiment_active :: bool
  be_account :: msg
  be_shadow_stamp :: stamp

record bridge =
  bd_ledger :: ledger
  bd_signal_feed :: "whale_signal list"
  bd_decision_feed :: "feed_entry list"
  bd_signals_seen :: nat
  bd_trades_placed :: nat
  bd_limit_orders_placed :: nat
  bd_skipped :: nat
  bd_signal_log :: signal_log
  bd_world :: strategy_world
  bd_me_unknown :: nat
  bd_categories :: category_table
  bd_shadow :: shadow
  bd_broadcasts :: "(whale_signal option \<times> feed_entry) list"

definition positions_of :: "bridge \<Rightarrow> (string, position) pdict" where
  "positions_of s = br_positions (fst (bd_world s))"

definition push_decision :: "whale_signal option \<Rightarrow> feed_entry \<Rightarrow> bridge \<Rightarrow> bridge" where
  "push_decision sig d s = s\<lparr> bd_decision_feed := take 50 (d # bd_decision_feed s),
     bd_broadcasts := bd_broadcasts s @ [(sig, d)] \<rparr>"

subsection \<open>What a signal is judged with\<close>

definition MID_SERIES :: string where "MID_SERIES = ''mid_series''"

definition event_is_live :: "bridge_env \<Rightarrow> string option \<Rightarrow> bool" where
  "event_is_live en event_ticker =
     (case nonempty event_ticker of
        None \<Rightarrow> False
      | Some e \<Rightarrow> dget (be_live_status en) e = Some ''live'' \<or> dget (be_event_phase en) e = Some MID_SERIES)"

text \<open>The complement, from the fetch's pairs or from the open positions, and the counter of the latter.\<close>

definition me_complement :: "bridge_env \<Rightarrow> string \<Rightarrow> (string, position) pdict \<Rightarrow> nat \<Rightarrow> string option \<times> nat" where
  "me_complement en ticker positions unknown =
     (case nonempty (dget (be_me_pairs en) ticker) of
        Some c \<Rightarrow> (Some c, unknown)
      | None \<Rightarrow> find_open_confirmed_conflict ticker (ls_market_titles (be_lookup en))
          (ls_event_titles (be_lookup en)) (dkeys positions) unknown)"

definition signal_event :: "bridge_env \<Rightarrow> whale_signal \<Rightarrow> string option" where
  "signal_event en sig = market_event_of (ls_market_titles (be_lookup en)) (ws_ticker sig)"

definition signal_event_row :: "bridge_env \<Rightarrow> whale_signal \<Rightarrow> event_row option" where
  "signal_event_row en sig =
     (case signal_event en sig of None \<Rightarrow> None | Some e \<Rightarrow> dget (ls_event_titles (be_lookup en)) e)"

definition signal_category :: "bridge_env \<Rightarrow> whale_signal \<Rightarrow> string option" where
  "signal_category en sig = (case signal_event_row en sig of None \<Rightarrow> None | Some r \<Rightarrow> er_category r)"

definition signal_subcategory :: "bridge_env \<Rightarrow> whale_signal \<Rightarrow> string option" where
  "signal_subcategory en sig = sport_for_event (ls_sport_by_competition (be_lookup en))
     (case signal_event_row en sig of None \<Rightarrow> None | Some r \<Rightarrow> er_competition r)"

definition signal_context ::
  "bridge_env \<Rightarrow> (string, string) pdict \<Rightarrow> string \<Rightarrow> whale_signal \<Rightarrow> string option \<Rightarrow> market_context" where
  "signal_context en results fp sig complement =
     \<lparr>mx_is_live = event_is_live en (signal_event en sig), mx_market_results = results,
      mx_config_fingerprint = Some fp, mx_latest_prices = be_latest_prices en,
      mx_category = signal_category en sig, mx_me_complement = complement,
      mx_market_titles = ls_market_titles (be_lookup en), mx_event_titles = ls_event_titles (be_lookup en),
      mx_markets = Some (ls_markets (be_lookup en))\<rparr>"

text \<open>The readings of the entry decision, with the series' record taken from the signal log as it is now.\<close>

definition with_series_stats :: "entry_env \<Rightarrow> signal_log \<Rightarrow> entry_env" where
  "with_series_stats en l = en\<lparr> en_series_stats := (\<lambda>ticker.
     let r = series_stats (en_titles en) ticker 30 (en_now en) l in (int (se_resolved r), se_win_rate r)) \<rparr>"

definition shadow_reference_bankroll :: "msg \<Rightarrow> settings \<Rightarrow> strategy_error + f64 \<times> string" where
  "shadow_reference_bankroll account risk_cfg =
     (let cents = (if truthy (jget account ''connected'')
                   then (case jor (jget account ''balance'') (JObj []) of
                           JObj bal \<Rightarrow> py_float (jget bal ''balance'') | _ \<Rightarrow> None)
                   else None)
      in case cents of
           Some x \<Rightarrow> Inr (fdiv x 100, ''real_account'')
         | None \<Rightarrow> (case cfg_num risk_cfg ''starting_bankroll'' of
               None \<Rightarrow> Inl (KeyError ''starting_bankroll'')
             | Some x \<Rightarrow> Inr (x, ''configured_starting_bankroll (no real account connected)'')))"

subsection \<open>The steps\<close>

definition raw_of :: "json \<Rightarrow> raw_context" where
  "raw_of v = (case v of
       JObj d \<Rightarrow> \<lparr>rx_notional_usd = json_number (jget d ''notional_usd''), rx_spread = json_number (jget d ''spread''),
                  rx_volume_24h = json_number (jget d ''volume_24h'')\<rparr>
     | _ \<Rightarrow> \<lparr>rx_notional_usd = None, rx_spread = None, rx_volume_24h = None\<rparr>)"

definition note_signal :: "bridge_env \<Rightarrow> whale_signal \<Rightarrow> bridge \<Rightarrow> bridge" where
  "note_signal en sig s = s\<lparr>
     bd_signal_feed := take 50 (sig # bd_signal_feed s),
     bd_signals_seen := bd_signals_seen s + 1,
     bd_signal_log := log_signal (en_titles (be_entry en)) (ws_ticker sig) (side_str (ws_side sig)) (ws_size sig)
       (ws_confidence sig) (be_whale_source en) (Some (ws_timestamp sig)) (en_now (be_entry en))
       (if ws_factors sig = JNull then None else Some (ws_factors sig)) (raw_of (ws_raw_context sig))
       (Some (ws_price sig)) (be_experiment_active en) (bd_signal_log s) \<rparr>"

definition action_text :: "decision \<Rightarrow> string" where
  "action_text d = (case d of Skip why \<Rightarrow> ''skip'' | LimitPlaced q ed \<Rightarrow> ''limit_order_placed''
     | Traded t ed \<Rightarrow> ''trade'')"

definition count_decision :: "decision \<Rightarrow> bridge \<Rightarrow> bridge" where
  "count_decision d s = (case d of
       Traded t ed \<Rightarrow> s\<lparr> bd_trades_placed := bd_trades_placed s + 1 \<rparr>
     | LimitPlaced q ed \<Rightarrow> s\<lparr> bd_limit_orders_placed := bd_limit_orders_placed s + 1 \<rparr>
     | Skip why \<Rightarrow> s\<lparr> bd_skipped := bd_skipped s + 1 \<rparr>)"

definition book_decision :: "bridge_env \<Rightarrow> f64 \<Rightarrow> whale_signal \<Rightarrow> decision \<Rightarrow> bridge \<Rightarrow> bridge" where
  "book_decision en tick_now sig d s =
     (let s1 = s\<lparr> bd_ledger := record_decision (ws_id sig) (action_text d) (en_now (be_entry en)) (bd_ledger s) \<rparr>;
          s2 = count_decision d (push_decision (Some sig) (SignalDecision sig d) s1)
      in case d of
           Traded t ed \<Rightarrow> s2\<lparr> bd_categories := record_category (ws_ticker sig) (signal_category en sig) tick_now
              (signal_subcategory en sig) (bd_categories s2) \<rparr>
         | _ \<Rightarrow> s2)"

definition run_shadow ::
  "bridge_env \<Rightarrow> bridge_cfg \<Rightarrow> (string, string) pdict \<Rightarrow> string \<Rightarrow> whale_signal \<Rightarrow> bridge
     \<Rightarrow> (strategy_error + unit) \<times> bridge" where
  "run_shadow en cfg results fp sig s =
     (if bc_mode cfg \<noteq> ''shadow'' \<and> bc_mode cfg \<noteq> ''live'' then (Inr (), s)
      else case shadow_reference_bankroll (be_account en) (bc_risk cfg) of
        Inl e \<Rightarrow> (Inl e, s)
      | Inr (bankroll, source) \<Rightarrow>
          (let (r, sd) = shadow_evaluate
               ((with_series_stats (be_entry en) (bd_signal_log s))\<lparr> en_stamp := be_shadow_stamp en \<rparr>)
               (bc_strategy cfg) (bc_risk cfg) bankroll source (event_is_live en (signal_event en sig)) results
               (Some fp) sig (bd_shadow s)
           in (map_sum id (\<lambda>_. ()) r, s\<lparr> bd_shadow := sd \<rparr>)))"

text \<open>What follows the claim: None never comes out of it, an exception leaves the state where it struck.\<close>

definition decide_signal ::
  "bridge_env \<Rightarrow> bridge_cfg \<Rightarrow> (string, string) pdict \<Rightarrow> string \<Rightarrow> f64 \<Rightarrow> whale_signal \<Rightarrow> bridge
     \<Rightarrow> (strategy_error + decision option) \<times> bridge" where
  "decide_signal en cfg results fp tick_now sig s =
     (let (complement, unknown) = me_complement en (ws_ticker sig) (positions_of s) (bd_me_unknown s);
          (r, w) = evaluate (with_series_stats (be_entry en) (bd_signal_log s)) (bc_strategy cfg) (bc_overrides cfg)
                     (bc_kalshi cfg) (signal_context en results fp sig complement) sig (bd_world s);
          s1 = s\<lparr> bd_me_unknown := unknown, bd_world := w \<rparr>
      in case r of
           Inl e \<Rightarrow> (Inl e, s1)
         | Inr d \<Rightarrow>
             (case run_shadow en cfg results fp sig (book_decision en tick_now sig d s1) of
                (Inl e, s2) \<Rightarrow> (Inl e, s2)
              | (Inr u, s2) \<Rightarrow> (Inr (Some d), s2)))"

text \<open>\<open>_handle_signal\<close>; None is the answer to a duplicate.\<close>

definition handle_signal ::
  "bridge_env \<Rightarrow> bridge_cfg \<Rightarrow> (string, string) pdict \<Rightarrow> string \<Rightarrow> f64 \<Rightarrow> whale_signal \<Rightarrow> bridge
     \<Rightarrow> (strategy_error + decision option) \<times> bridge" where
  "handle_signal en cfg results fp tick_now sig s =
     (case claim (ws_id sig) (Some (ws_ticker sig)) (en_now (be_entry en)) (bd_ledger s) of
        (False, l) \<Rightarrow> (Inr None, s\<lparr> bd_ledger := l \<rparr>)
      | (True, l) \<Rightarrow> decide_signal en cfg results fp tick_now sig (note_signal en sig (s\<lparr> bd_ledger := l \<rparr>)))"

subsection \<open>The other decisions\<close>

definition handle_close_decision :: "close_decision \<Rightarrow> bridge \<Rightarrow> bridge" where
  "handle_close_decision d s =
     (push_decision None (ExitDecision d) s)\<lparr> bd_trades_placed := bd_trades_placed s + 1 \<rparr>"

definition record_trade_category :: "lookup_state \<Rightarrow> string \<Rightarrow> f64 \<Rightarrow> bridge \<Rightarrow> bridge" where
  "record_trade_category ls ticker tick_now s = s\<lparr> bd_categories :=
     record_category ticker (dget_or (category_by_ticker ls) ticker None) tick_now
       (dget_or (subcategory_by_ticker ls) ticker None) (bd_categories s) \<rparr>"

definition handle_settlement_edge_entry :: "lookup_state \<Rightarrow> trade \<Rightarrow> f64 \<Rightarrow> bridge \<Rightarrow> bridge" where
  "handle_settlement_edge_entry ls t tick_now s =
     record_trade_category ls (tr_ticker t) tick_now
       ((push_decision None (EdgeEntry t) s)\<lparr> bd_trades_placed := bd_trades_placed s + 1 \<rparr>)"

definition handle_fill_decision :: "lookup_state \<Rightarrow> fill_decision \<Rightarrow> f64 \<Rightarrow> bridge \<Rightarrow> bridge" where
  "handle_fill_decision ls d tick_now s =
     (let s1 = push_decision None (FillDecision d) s in
      case d of
        FillRejected ticker side price why \<Rightarrow> s1\<lparr> bd_skipped := bd_skipped s1 + 1 \<rparr>
      | FillTrade t why \<Rightarrow>
          record_trade_category ls (tr_ticker t) tick_now (s1\<lparr> bd_trades_placed := bd_trades_placed s1 + 1 \<rparr>))"

end
