(* ===== verification/SettlementEdge.thy ===== *)
theory SettlementEdge
  imports IndexFeed DecisionBridge
begin

text \<open>
  \<open>services/settlement_edge.py\<close>: the paired forecasts recorded while a settlement window is
  open, their resolution, the projected probability and the report that compares it with the
  market's price; \<open>services/settlement_edge_entry.py\<close>: the entry rule on that probability;
  and the per-tick handler of \<open>whale_stream/index_stream_handlers.py\<close> that drives both.
  libm's \<open>sqrt\<close>, \<open>erf\<close> and \<open>pow\<close> and the ISO time parser are parameters.
\<close>

record libm =
  lm_sqrt :: "f64 \<Rightarrow> f64"
  lm_erf :: "f64 \<Rightarrow> f64"
  lm_pow :: "f64 \<Rightarrow> f64 \<Rightarrow> f64"

definition MIN_SAMPLES_FOR_VERDICT :: nat where "MIN_SAMPLES_FOR_VERDICT = 200"
definition OBSERVATION_FLUSH_BATCH :: nat where "OBSERVATION_FLUSH_BATCH = 120"

subsection \<open>The store\<close>

record observation =
  ob_ticker :: string
  ob_index_id :: string
  ob_window_end_ts :: f64
  ob_observed_at :: f64
  ob_seconds_to_close :: "f64 option"
  ob_known :: int
  ob_partial :: f64
  ob_strike :: f64
  ob_comparison :: string
  ob_spot :: "f64 option"
  ob_required :: "f64 option"
  ob_gap :: "f64 option"
  ob_market_yes_price :: "f64 option"
  ob_settled_yes :: "int option"
  ob_final_average :: "f64 option"
  ob_resolved_at :: "f64 option"

record edge_store =
  es_buffer :: "observation list"
  es_table :: "observation list"
  es_faults :: "string list"

definition empty_edge_store :: edge_store where
  "empty_edge_store = \<lparr>es_buffer = [], es_table = [], es_faults = []\<rparr>"

text \<open>\<open>close_ts\<close>: the parser is given the text with its zone; an unreadable time is None.\<close>

definition close_ts :: "(string \<Rightarrow> f64 option) \<Rightarrow> index_spec \<Rightarrow> f64 option" where
  "close_ts iso_ts sp = (case sp_close_time sp of JStr s \<Rightarrow> (if s = [] then None else iso_ts s) | _ \<Rightarrow> None)"

definition observation_of ::
  "(string \<Rightarrow> f64 option) \<Rightarrow> string \<Rightarrow> index_spec \<Rightarrow> accumulating \<Rightarrow> f64 option \<Rightarrow> f64 \<Rightarrow> observation" where
  "observation_of iso_ts ticker sp p market_yes_price now =
     (let window_end = (case close_ts iso_ts sp of None \<Rightarrow> None | Some t \<Rightarrow> if t = 0 then None else Some t) in
      \<lparr>ob_ticker = ticker, ob_index_id = sp_index_id sp,
       ob_window_end_ts = (case window_end of None \<Rightarrow> 0 | Some t \<Rightarrow> t), ob_observed_at = now,
       ob_seconds_to_close = map_option (\<lambda>t. fsub t now) window_end, ob_known = pj_known p, ob_partial = pj_partial p,
       ob_strike = sp_strike sp, ob_comparison = sp_comparison sp, ob_spot = pj_spot p, ob_required = pj_required p,
       ob_gap = pj_gap p, ob_market_yes_price = market_yes_price, ob_settled_yes = None, ob_final_average = None,
       ob_resolved_at = None\<rparr>)"

definition record_observation ::
  "(string \<Rightarrow> f64 option) \<Rightarrow> string \<Rightarrow> index_spec \<Rightarrow> projection \<Rightarrow> f64 option \<Rightarrow> f64 \<Rightarrow> edge_store
     \<Rightarrow> (bool \<times> bool) \<times> edge_store" where
  "record_observation iso_ts ticker sp pj market_yes_price now s =
     (case pj of
        Accumulating p \<Rightarrow>
          (let s' = s\<lparr> es_buffer := es_buffer s @ [observation_of iso_ts ticker sp p market_yes_price now] \<rparr>
           in ((True, length (es_buffer s') \<ge> OBSERVATION_FLUSH_BATCH), s'))
      | _ \<Rightarrow> ((False, False), s))"

definition flush_observations :: "bool \<Rightarrow> edge_store \<Rightarrow> nat \<times> edge_store" where
  "flush_observations stored s =
     (let rows = es_buffer s; s1 = s\<lparr> es_buffer := [] \<rparr> in
      if rows = [] then (0, s1)
      else if stored then (length rows, s1\<lparr> es_table := es_table s1 @ rows \<rparr>)
      else (0, s1\<lparr> es_faults := es_faults s1 @ [''flush''] \<rparr>))"

definition resolve_window :: "string \<Rightarrow> bool \<Rightarrow> f64 option \<Rightarrow> f64 \<Rightarrow> edge_store \<Rightarrow> nat \<times> edge_store" where
  "resolve_window ticker settled_yes final_average now s =
     (let due = (\<lambda>r. ob_ticker r = ticker \<and> ob_settled_yes r = None) in
      (length (filter due (es_table s)),
       s\<lparr> es_table := map (\<lambda>r. if due r then r\<lparr> ob_settled_yes := Some (if settled_yes then 1 else 0),
           ob_final_average := final_average, ob_resolved_at := Some now \<rparr> else r) (es_table s) \<rparr>))"

definition unresolved_tickers :: "f64 \<Rightarrow> nat \<Rightarrow> f64 \<Rightarrow> edge_store \<Rightarrow> string list" where
  "unresolved_tickers older_than_sec limit now s =
     take limit (remdups (map ob_ticker (sort_key ob_window_end_ts
       (filter (\<lambda>r. ob_settled_yes r = None \<and> ob_window_end_ts r < fsub now older_than_sec) (es_table s)))))"

definition drop_mismatched_observations :: "edge_store \<Rightarrow> nat \<times> edge_store" where
  "drop_mismatched_observations s =
     (let bad = (\<lambda>r. ob_settled_yes r = None \<and> \<bar>fsub (ob_window_end_ts r) (ob_observed_at r)\<bar> > 900) in
      (length (filter bad (es_table s)), s\<lparr> es_table := filter (\<lambda>r. \<not> bad r) (es_table s) \<rparr>))"

subsection \<open>The projection as a probability\<close>

definition projected_probability :: "libm \<Rightarrow> f64 option \<Rightarrow> f64 option \<Rightarrow> int \<Rightarrow> f64 option \<Rightarrow> f64 option" where
  "projected_probability lm required spot k sigma =
     (case (required, spot, sigma) of
        (Some r, Some x, Some v) \<Rightarrow>
          (let m = SETTLEMENT_WINDOW_TICKS - k in
           if k = 0 \<or> v = 0 \<or> m \<le> 0 then None
           else let se = max (fmul v (lm_sqrt lm (fl (of_int ((m + 1) * (2 * m + 1)) / of_int (6 * m))))) (fl (1 / 10^9));
                    z = fdiv (fsub x r) se
                in Some (fmul (1/2) (fadd 1 (lm_erf lm (fdiv z (lm_sqrt lm 2))))))
      | _ \<Rightarrow> None)"

subsection \<open>The report\<close>

record bucket_score =
  bu_n :: nat
  bu_market_se :: f64
  bu_proj_se :: f64

record bucket_report =
  bk_n :: nat
  bk_market_brier :: f64
  bk_projection_brier :: f64
  bk_better_by :: f64

record edge_scores =
  eg_vol_cache :: "(string, f64 option) pdict"
  eg_buckets :: "(string, bucket_score) pdict"
  eg_market_se :: f64
  eg_proj_se :: f64
  eg_scored :: nat

datatype verdict = ProjectionBeatsMarket | MarketBeatsProjection | TooFewSamples

record edge_summary =
  er_verdict :: verdict
  er_scored :: nat
  er_windows :: nat
  er_market_brier :: f64
  er_proj_brier :: f64
  er_better_by :: f64
  er_buckets :: "(string, bucket_report) pdict"

datatype report_result = NothingResolved | NothingScored nat | Report edge_summary

definition known_bucket :: "int \<Rightarrow> string" where
  "known_bucket k = (if k \<le> 15 then ''0-15'' else if k \<le> 30 then ''16-30'' else if k \<le> 45 then ''31-45'' else ''46-59'')"

definition score_row :: "libm \<Rightarrow> index_feed \<Rightarrow> f64 \<Rightarrow> observation \<times> f64 \<Rightarrow> edge_scores \<Rightarrow> edge_scores" where
  "score_row lm feed now rp s =
     (let (r, p_mkt) = rp; idx = ob_index_id r;
          outcome = (if ob_settled_yes r = Some 0 then 0 else 1);
          cache = (if idx \<in> set (dkeys (eg_vol_cache s)) then eg_vol_cache s
                   else dput idx (recent_volatility (lm_pow lm) idx 3600 now feed) (eg_vol_cache s));
          s1 = s\<lparr> eg_vol_cache := cache \<rparr>
      in case projected_probability lm (ob_required r) (ob_spot r) (ob_known r) (dget_or cache idx None) of
           None \<Rightarrow> s1
         | Some p_proj \<Rightarrow>
             (let m = lm_pow lm (fsub p_mkt outcome) 2; q = lm_pow lm (fsub p_proj outcome) 2;
                  key = known_bucket (ob_known r);
                  b = dget_or (eg_buckets s1) key \<lparr>bu_n = 0, bu_market_se = 0, bu_proj_se = 0\<rparr>
              in s1\<lparr> eg_scored := eg_scored s1 + 1, eg_market_se := fadd (eg_market_se s1) m,
                     eg_proj_se := fadd (eg_proj_se s1) q,
                     eg_buckets := dput key \<lparr>bu_n = bu_n b + 1, bu_market_se = fadd (bu_market_se b) m,
                        bu_proj_se = fadd (bu_proj_se b) q\<rparr> (eg_buckets s1) \<rparr>))"

definition bucket_line :: "bucket_score \<Rightarrow> bucket_report" where
  "bucket_line b = (let n = fint (int (bu_n b)); m = py_round 4 (fdiv (bu_market_se b) n);
      p = py_round 4 (fdiv (bu_proj_se b) n)
    in \<lparr>bk_n = bu_n b, bk_market_brier = m, bk_projection_brier = p, bk_better_by = py_round 4 (fsub m p)\<rparr>)"

definition edge_report :: "libm \<Rightarrow> index_feed \<Rightarrow> f64 \<Rightarrow> nat \<Rightarrow> edge_store \<Rightarrow> report_result" where
  "edge_report lm feed now min_samples s =
     (let rows = concat (map (\<lambda>r. case ob_market_yes_price r of None \<Rightarrow> [] | Some p \<Rightarrow> [(r, p)])
            (filter (\<lambda>r. ob_settled_yes r \<noteq> None) (es_table s)));
          t = fold (score_row lm feed now) rows
                \<lparr>eg_vol_cache = [], eg_buckets = [], eg_market_se = 0, eg_proj_se = 0, eg_scored = 0\<rparr>;
          n = fint (int (eg_scored t)); mb = fdiv (eg_market_se t) n; pb = fdiv (eg_proj_se t) n
      in if rows = [] then NothingResolved
         else if eg_scored t = 0 then NothingScored (length rows)
         else Report \<lparr>er_verdict = (if eg_scored t < min_samples then TooFewSamples
                   else if pb < mb then ProjectionBeatsMarket else MarketBeatsProjection),
                er_scored = eg_scored t,
                er_windows = length (remdups (map (\<lambda>(r, p). (ob_ticker r, ob_window_end_ts r)) rows)),
                er_market_brier = py_round 4 mb, er_proj_brier = py_round 4 pb, er_better_by = py_round 4 (fsub mb pb),
                er_buckets = sort_key fst (map (\<lambda>(k, b). (k, bucket_line b)) (eg_buckets t))\<rparr>)"

subsection \<open>The entry rule\<close>

definition edge_side :: "f64 \<Rightarrow> f64 \<Rightarrow> (outcome_side \<times> f64) option" where
  "edge_side p_yes min_probability =
     (if p_yes \<ge> min_probability then Some (Yes, p_yes)
      else if fsub 1 p_yes \<ge> min_probability then Some (No, fsub 1 p_yes) else None)"

definition entry_reason :: "outcome_side \<Rightarrow> f64 \<Rightarrow> f64 \<Rightarrow> accumulating \<Rightarrow> string" where
  "entry_reason side p_side cost p =
     ''settlement-edge: p('' @ side_str side @ '')='' @ fmt_fixed 3 p_side @ '' vs market '' @ fmt_fixed 3 cost
       @ '' (edge '' @ fmt_fixed 3 (fsub p_side cost) @ '', '' @ str_int (pj_known p) @ ''/'' @ str_int (pj_total p)
       @ '' observations known)''"

text \<open>The gates before the size: the side to take and what it costs.\<close>

definition edge_gates ::
  "libm \<Rightarrow> index_feed \<Rightarrow> f64 \<Rightarrow> settings \<Rightarrow> string \<Rightarrow> projection \<Rightarrow> f64 option \<Rightarrow> broker
     \<Rightarrow> (accumulating \<times> outcome_side \<times> f64 \<times> f64) option" where
  "edge_gates lm feed now cfg ticker pj market_yes_price b =
     (case (pj, market_yes_price) of
        (Accumulating p, Some price) \<Rightarrow>
          if \<not> cfg_flag cfg ''enabled'' then None
          else if ticker \<in> set (dkeys (br_positions b)) \<or> ticker \<in> set (dkeys (br_pending_orders b)) then None
          else if pj_known p = 0 \<or> fint (pj_known p) < cfg_num_or cfg ''min_observations_known'' 45 then None
          else (case projected_probability lm (pj_required p) (pj_spot p) (pj_known p)
                   (recent_volatility (lm_pow lm) (pj_index_id p) (cfg_num_or cfg ''volatility_lookback_sec'' 3600) now feed) of
              None \<Rightarrow> None
            | Some p_yes \<Rightarrow>
                (case edge_side p_yes (cfg_num_or cfg ''min_probability'' (fl (95/100))) of
                   None \<Rightarrow> None
                 | Some (side, p_side) \<Rightarrow>
                     (let cost = unit_cost side price in
                      if fsub p_side cost < cfg_num_or cfg ''min_edge'' (fl (5/100)) then None
                      else if \<not> is_tradeable_unit_cost (Some cost) then None
                      else Some (p, side, p_side, price))))
      | _ \<Rightarrow> None)"

definition evaluate_entry ::
  "libm \<Rightarrow> index_feed \<Rightarrow> title_cache \<Rightarrow> stamp \<Rightarrow> f64 \<Rightarrow> settings \<Rightarrow> string \<Rightarrow> projection \<Rightarrow> f64 option
     \<Rightarrow> risk \<Rightarrow> broker \<Rightarrow> (db_error + (trade \<times> string) option) \<times> broker" where
  "evaluate_entry lm feed tc st now cfg ticker pj market_yes_price r b =
     (case edge_gates lm feed now cfg ticker pj market_yes_price b of
        None \<Rightarrow> (Inr None, b)
      | Some (p, side, p_side, price) \<Rightarrow>
          (let cost = unit_cost side price;
               n = actual_size (max_trade_size (br_bankroll b) (cfg_num_or cfg ''max_position_pct'' (fl (2/100)))) cost;
               reason = entry_reason side p_side cost p
           in if n \<le> 0 then (Inr None, b)
              else (case open_position (taker_fee tc) (Some r) st ticker side n price reason None None True b of
                  (Inl e, b') \<Rightarrow> (Inl e, b')
                | (Inr None, b') \<Rightarrow> (Inr None, b')
                | (Inr (Some t), b') \<Rightarrow> (Inr (Some (t, reason)), b'))))"

subsection \<open>One index tick\<close>

record edge_env =
  ee_libm :: libm
  ee_iso_ts :: "string \<Rightarrow> f64 option"
  ee_titles :: title_cache
  ee_lookup :: lookup_state
  ee_latest_prices :: "(string, f64) pdict"
  ee_cfg :: settings
  ee_now :: f64
  ee_stamps :: "string \<Rightarrow> stamp"

record edge_world =
  ew_specs :: "(string, unsupported + index_spec) pdict"
  ew_feed :: index_feed
  ew_store :: edge_store
  ew_bridge :: bridge

definition with_broker :: "broker \<Rightarrow> bridge \<Rightarrow> bridge" where
  "with_broker b s = s\<lparr> bd_world := (b, snd (bd_world s)) \<rparr>"

text \<open>\<open>_spec_for\<close>: the cached specification, or one from a fetch that may fail (None), not cached then.\<close>

definition spec_for ::
  "(string \<Rightarrow> msg option) \<Rightarrow> string \<Rightarrow> (string, unsupported + index_spec) pdict
     \<Rightarrow> index_spec option \<times> (string, unsupported + index_spec) pdict" where
  "spec_for fetch ticker specs =
     (let supported = (\<lambda>x. case x of Inr sp \<Rightarrow> Some sp | Inl why \<Rightarrow> None) in
      case dget specs ticker of
        Some x \<Rightarrow> (supported x, specs)
      | None \<Rightarrow>
          (case fetch ticker of
             None \<Rightarrow> (None, specs)
           | Some market \<Rightarrow>
               (case settlement_spec market of
                  None \<Rightarrow> (None, specs)
                | Some x \<Rightarrow> (let specs' = dput ticker x specs in
                    (supported x, if length specs' > 500 then [] else specs')))))"

definition observe_market ::
  "edge_env \<Rightarrow> string \<Rightarrow> index_entry \<Rightarrow> string \<Rightarrow> index_spec \<Rightarrow> edge_world
     \<Rightarrow> (db_error + unit) \<times> edge_world" where
  "observe_market en index_id e ticker sp w =
     (if sp_index_id sp \<noteq> index_id \<or> \<not> window_matches_close (Some e) (close_ts (ee_iso_ts en) sp) 90 then (Inr (), w)
      else let pj = settlement_projection index_id (sp_strike sp) Yes (ew_feed w);
               price = dget (ee_latest_prices en) ticker;
               store = snd (record_observation (ee_iso_ts en) ticker sp pj price (ee_now en) (ew_store w));
               (r, b) = evaluate_entry (ee_libm en) (ew_feed w) (ee_titles en) (ee_stamps en ticker) (ee_now en)
                          (ee_cfg en) ticker pj price (fst (snd (bd_world (ew_bridge w)))) (fst (bd_world (ew_bridge w)));
               w1 = w\<lparr> ew_store := store, ew_bridge := with_broker b (ew_bridge w) \<rparr>
           in case r of
                Inl x \<Rightarrow> (Inl x, w1)
              | Inr None \<Rightarrow> (Inr (), w1)
              | Inr (Some (t, why)) \<Rightarrow>
                  (Inr (), w1\<lparr> ew_bridge := handle_settlement_edge_entry (ee_lookup en) t (ee_now en) (ew_bridge w1) \<rparr>))"

fun observe_markets ::
  "edge_env \<Rightarrow> (string \<Rightarrow> msg option) \<Rightarrow> string \<Rightarrow> index_entry \<Rightarrow> msg list \<Rightarrow> edge_world
     \<Rightarrow> (db_error + unit) \<times> edge_world" where
  "observe_markets en fetch index_id e [] w = (Inr (), w)"
| "observe_markets en fetch index_id e (m # ms) w =
     (case key_text (jget m ''ticker'') of
        None \<Rightarrow> observe_markets en fetch index_id e ms w
      | Some ticker \<Rightarrow>
          (let (sp, specs) = spec_for fetch ticker (ew_specs w); w1 = w\<lparr> ew_specs := specs \<rparr> in
           case sp of
             None \<Rightarrow> observe_markets en fetch index_id e ms w1
           | Some x \<Rightarrow>
               (case observe_market en index_id e ticker x w1 of
                  (Inl err, w2) \<Rightarrow> (Inl err, w2)
                | (Inr u, w2) \<Rightarrow> observe_markets en fetch index_id e ms w2)))"

definition record_settlement_observations ::
  "edge_env \<Rightarrow> (string \<Rightarrow> msg option) \<Rightarrow> string \<Rightarrow> edge_world \<Rightarrow> (db_error + unit) \<times> edge_world" where
  "record_settlement_observations en fetch index_id w =
     (case latest index_id (ew_feed w) of
        None \<Rightarrow> (Inr (), w)
      | Some e \<Rightarrow>
          (case ix_q15_size e of
             None \<Rightarrow> (Inr (), w)
           | Some k \<Rightarrow> if k = 0 then (Inr (), w)
               else observe_markets en fetch index_id e (ls_markets (ee_lookup en)) w))"

text \<open>The markets whose results are in, from one fetch of the unresolved tickers.\<close>

definition settled_of :: "(string, msg) pdict \<Rightarrow> (string \<times> bool) list" where
  "settled_of markets = concat (map (\<lambda>(t, m).
     (let result = str_lower (str_strip (case jget m ''result'' of JStr r \<Rightarrow> r | _ \<Rightarrow> [])) in
      if result = ''yes'' \<or> result = ''no'' then [(t, result = ''yes'')] else [])) markets)"

definition resolve_settlement_windows ::
  "(string list \<Rightarrow> (string, msg) pdict option) \<Rightarrow> f64 \<Rightarrow> edge_store \<Rightarrow> edge_store" where
  "resolve_settlement_windows fetch now s =
     (let tickers = unresolved_tickers 120 40 now s in
      if tickers = [] then s
      else case fetch tickers of
        None \<Rightarrow> s
      | Some markets \<Rightarrow> fold (\<lambda>(t, y) s. snd (resolve_window t y None now s)) (settled_of markets) s)"

end
