(* ===== verification/BridgeFacts.thy ===== *)
theory BridgeFacts
  imports DecisionBridge
begin

text \<open>
  The decision bridge as a whole: every signal is counted, logged and evaluated once over any run
  of its entry points; what a decided signal leaves on the record; a confirmed conflict is never
  entered; what an exception and two resting orders do.
\<close>

definition claimed :: "bridge \<Rightarrow> string set" where
  "claimed s = set (dkeys (lg_candidates (bd_ledger s)))"

lemma claim_cases:
  obtains (dup) "tid \<in> set (dkeys (lg_candidates l))" "claim tid t now l = (False, l\<lparr> lg_duplicates := lg_duplicates l + 1 \<rparr>)"
  | (new) "tid \<notin> set (dkeys (lg_candidates l))"
      "claim tid t now l = (True, l\<lparr> lg_candidates := lg_candidates l
         @ [(tid, \<lparr>ca_ticker = t, ca_claimed_at = now, ca_decision = None\<rparr>)] \<rparr>)"
  by (cases "tid \<in> set (dkeys (lg_candidates l))") (auto simp: claim_def)

lemma claimed_record_decision [simp]:
  "set (dkeys (lg_candidates (record_decision tid d now l))) = set (dkeys (lg_candidates l))"
  by (simp add: record_decision_def dkeys_def comp_def case_prod_unfold)

subsection \<open>What the steps leave alone\<close>

lemma count_decision_frame [simp]:
  "bd_ledger (count_decision d s) = bd_ledger s" "bd_signal_feed (count_decision d s) = bd_signal_feed s"
  "bd_signals_seen (count_decision d s) = bd_signals_seen s" "bd_signal_log (count_decision d s) = bd_signal_log s"
  "bd_world (count_decision d s) = bd_world s" "bd_decision_feed (count_decision d s) = bd_decision_feed s"
  by (simp_all add: count_decision_def split: decision.split)

lemma push_decision_frame [simp]:
  "bd_ledger (push_decision g d s) = bd_ledger s" "bd_signal_feed (push_decision g d s) = bd_signal_feed s"
  "bd_signals_seen (push_decision g d s) = bd_signals_seen s" "bd_signal_log (push_decision g d s) = bd_signal_log s"
  "bd_world (push_decision g d s) = bd_world s"
  "bd_decision_feed (push_decision g d s) = take 50 (d # bd_decision_feed s)"
  by (simp_all add: push_decision_def)

lemma book_decision_frame [simp]:
  "bd_ledger (book_decision en tick sig d s)
     = record_decision (ws_id sig) (action_text d) (en_now (be_entry en)) (bd_ledger s)"
  "bd_signal_feed (book_decision en tick sig d s) = bd_signal_feed s"
  "bd_signals_seen (book_decision en tick sig d s) = bd_signals_seen s"
  "bd_signal_log (book_decision en tick sig d s) = bd_signal_log s"
  "bd_world (book_decision en tick sig d s) = bd_world s"
  "bd_decision_feed (book_decision en tick sig d s) = take 50 (SignalDecision sig d # bd_decision_feed s)"
  by (simp_all add: book_decision_def Let_def split: decision.split)

lemma run_shadow_frame:
  assumes "run_shadow en cfg results fp sig s = (r, s')"
  obtains sd where "s' = s\<lparr> bd_shadow := sd \<rparr>"
proof -
  have "\<exists>sd. s' = s\<lparr> bd_shadow := sd \<rparr>"
    using assms by (auto simp: run_shadow_def split: if_splits sum.splits prod.splits intro: exI [of _ "bd_shadow s"])
  then show ?thesis using that by blast
qed

lemma decide_signal_cases:
  assumes "decide_signal en cfg results fp tick sig s = (r, s')"
  obtains (raised) e w n where "r = Inl e" "s' = s\<lparr> bd_me_unknown := n, bd_world := w \<rparr>"
      "evaluate (with_series_stats (be_entry en) (bd_signal_log s)) (bc_strategy cfg) (bc_overrides cfg) (bc_kalshi cfg)
        (signal_context en results fp sig (fst (me_complement en (ws_ticker sig) (positions_of s) (bd_me_unknown s))))
        sig (bd_world s) = (Inl e, w)"
  | (decided) d w n sd where
      "evaluate (with_series_stats (be_entry en) (bd_signal_log s)) (bc_strategy cfg) (bc_overrides cfg) (bc_kalshi cfg)
        (signal_context en results fp sig (fst (me_complement en (ws_ticker sig) (positions_of s) (bd_me_unknown s))))
        sig (bd_world s) = (Inr d, w)"
      "r = Inr (Some d) \<or> (\<exists>e. r = Inl e)"
      "s' = (book_decision en tick sig d (s\<lparr> bd_me_unknown := n, bd_world := w \<rparr>))\<lparr> bd_shadow := sd \<rparr>"
proof -
  obtain c n where m: "me_complement en (ws_ticker sig) (positions_of s) (bd_me_unknown s) = (c, n)" by fastforce
  let ?E = "evaluate (with_series_stats (be_entry en) (bd_signal_log s)) (bc_strategy cfg) (bc_overrides cfg)
      (bc_kalshi cfg) (signal_context en results fp sig c) sig (bd_world s)"
  obtain q w where v: "?E = (q, w)" by (cases ?E)
  note d = assms [unfolded decide_signal_def m v Let_def prod.case]
  show ?thesis
  proof (cases q)
    case (Inl e)
    then show ?thesis using d v m by (intro raised [where e = e and w = w and n = n]) simp_all
  next
    case (Inr x)
    obtain u s2 where u: "run_shadow en cfg results fp sig
        (book_decision en tick sig x (s\<lparr> bd_me_unknown := n, bd_world := w \<rparr>)) = (u, s2)" by fastforce
    obtain sd where sd: "s2 = (book_decision en tick sig x (s\<lparr> bd_me_unknown := n, bd_world := w \<rparr>))\<lparr> bd_shadow := sd \<rparr>"
      by (rule run_shadow_frame [OF u])
    have "(r = Inr (Some x) \<or> (\<exists>e. r = Inl e)) \<and> s' = s2" using d u Inr by (cases u) auto
    then show ?thesis using v m Inr sd by (intro decided [where d = x and w = w and n = n and sd = sd]) simp_all
  qed
qed

lemma decide_signal_frame:
  assumes "decide_signal en cfg results fp tick sig s = (r, s')"
  shows "bd_signals_seen s' = bd_signals_seen s \<and> bd_signal_log s' = bd_signal_log s
    \<and> bd_signal_feed s' = bd_signal_feed s \<and> claimed s' = claimed s"
  using assms by (cases rule: decide_signal_cases) (simp_all add: claimed_def)

lemma log_signal_length [simp]:
  "length (sl_rows (log_signal tc t side n c src seen now f raw p x l)) = length (sl_rows l) + 1"
  by (simp add: log_signal_def)

lemma note_signal_effect [simp]:
  "bd_signals_seen (note_signal en sig s) = bd_signals_seen s + 1"
  "length (sl_rows (bd_signal_log (note_signal en sig s))) = length (sl_rows (bd_signal_log s)) + 1"
  "bd_ledger (note_signal en sig s) = bd_ledger s" "bd_world (note_signal en sig s) = bd_world s"
  "bd_signal_feed (note_signal en sig s) = take 50 (sig # bd_signal_feed s)"
  "bd_decision_feed (note_signal en sig s) = bd_decision_feed s"
  by (simp_all add: note_signal_def)

subsection \<open>Runs\<close>

text \<open>Any sequence of calls of the bridge's entry points, calls that raise included.\<close>

datatype bridge_event =
    SignalCame bridge_env bridge_cfg "(string, string) pdict" string f64 whale_signal
  | ExitClosed close_decision
  | OrderFilled lookup_state fill_decision f64
  | EdgeTaken lookup_state trade f64

fun bridge_step :: "bridge_event \<Rightarrow> bridge \<Rightarrow> bridge" where
  "bridge_step (SignalCame en cfg results fp tick sig) s = snd (handle_signal en cfg results fp tick sig s)"
| "bridge_step (ExitClosed d) s = handle_close_decision d s"
| "bridge_step (OrderFilled ls d tick) s = handle_fill_decision ls d tick s"
| "bridge_step (EdgeTaken ls t tick) s = handle_settlement_edge_entry ls t tick s"

fun signal_ids :: "bridge_event list \<Rightarrow> string set" where
  "signal_ids [] = {}"
| "signal_ids (SignalCame en cfg results fp tick sig # evs) = insert (ws_id sig) (signal_ids evs)"
| "signal_ids (ev # evs) = signal_ids evs"

lemma finite_signal_ids [simp]: "finite (signal_ids evs)"
  by (induction evs rule: signal_ids.induct) simp_all

lemma handle_signal_effect:
  "let s' = snd (handle_signal en cfg results fp tick sig s); new = (if ws_id sig \<in> claimed s then 0 else 1)
   in bd_signals_seen s' = bd_signals_seen s + new
      \<and> length (sl_rows (bd_signal_log s')) = length (sl_rows (bd_signal_log s)) + new
      \<and> claimed s' = insert (ws_id sig) (claimed s)"
proof (cases rule: claim_cases [of "ws_id sig" "bd_ledger s" "Some (ws_ticker sig)" "en_now (be_entry en)"])
  case dup
  then show ?thesis by (auto simp: handle_signal_def claimed_def)
next
  case new
  let ?l = "(bd_ledger s)\<lparr> lg_candidates := lg_candidates (bd_ledger s)
         @ [(ws_id sig, \<lparr>ca_ticker = Some (ws_ticker sig), ca_claimed_at = en_now (be_entry en), ca_decision = None\<rparr>)] \<rparr>"
  obtain r s' where d: "decide_signal en cfg results fp tick sig (note_signal en sig (s\<lparr> bd_ledger := ?l \<rparr>)) = (r, s')"
    by fastforce
  then have "handle_signal en cfg results fp tick sig s = (r, s')" using new(2) by (simp add: handle_signal_def)
  then show ?thesis using decide_signal_frame [OF d] new(1) by (auto simp: claimed_def dkeys_def)
qed

lemma other_step_frame:
  "bd_signals_seen (handle_close_decision d s) = bd_signals_seen s"
  "bd_signal_log (handle_close_decision d s) = bd_signal_log s" "claimed (handle_close_decision d s) = claimed s"
  "bd_signals_seen (handle_fill_decision ls f tick s) = bd_signals_seen s"
  "bd_signal_log (handle_fill_decision ls f tick s) = bd_signal_log s" "claimed (handle_fill_decision ls f tick s) = claimed s"
  "bd_signals_seen (handle_settlement_edge_entry ls t tick s) = bd_signals_seen s"
  "bd_signal_log (handle_settlement_edge_entry ls t tick s) = bd_signal_log s"
  "claimed (handle_settlement_edge_entry ls t tick s) = claimed s"
  by (simp_all add: handle_close_decision_def handle_fill_decision_def handle_settlement_edge_entry_def
      record_trade_category_def claimed_def Let_def split: fill_decision.split)

lemma card_insert_Diff:
  assumes "finite X"
  shows "card (insert x X - A) = (if x \<in> A then 0 else 1) + card (X - insert x A)"
proof (cases "x \<in> A")
  case True
  then have e: "insert x X - A = X - insert x A" by blast
  show ?thesis unfolding e using True by simp
next
  case False
  then have e: "insert x X - A = insert x (X - insert x A)" by blast
  have "card (insert x (X - insert x A)) = Suc (card (X - insert x A))"
    using assms by (intro card_insert_disjoint) auto
  then show ?thesis unfolding e using False by simp
qed

text \<open>
  C19: Every signal counts once. Over any sequence of signals, exits, fills and edge entries, calls
  that raise included, the signals counted and the rows added to the signal log are exactly the
  trade ids that had not been claimed before, however often each is presented again, by the
  tape, the stream or a retry; and after the run all of them are claimed.
\<close>

theorem each_signal_counts_once:
  "let s' = fold bridge_step evs s; new = card (signal_ids evs - claimed s)
   in bd_signals_seen s' = bd_signals_seen s + new
      \<and> length (sl_rows (bd_signal_log s')) = length (sl_rows (bd_signal_log s)) + new
      \<and> claimed s' = claimed s \<union> signal_ids evs"
proof (induction evs arbitrary: s)
  case (Cons ev evs)
  show ?case
  proof (cases ev)
    case (SignalCame en cfg results fp tick sig)
    then show ?thesis
      using Cons.IH [of "bridge_step ev s"] handle_signal_effect [of en cfg results fp tick sig s]
      by (simp add: Let_def card_insert_Diff)
  qed (use Cons.IH [of "bridge_step ev s"] in \<open>simp_all add: Let_def other_step_frame\<close>)
qed simp

subsection \<open>Duplicates and decided signals\<close>

lemma handle_duplicate:
  "ws_id sig \<in> claimed s \<Longrightarrow> handle_signal en cfg results fp tick sig s
     = (Inr None, s\<lparr> bd_ledger := (bd_ledger s)\<lparr> lg_duplicates := lg_duplicates (bd_ledger s) + 1 \<rparr> \<rparr>)"
  by (simp add: handle_signal_def claimed_def claim_def)

text \<open>The state the decision of an unclaimed signal starts from.\<close>

definition entered_ledger :: "bridge_env \<Rightarrow> whale_signal \<Rightarrow> bridge \<Rightarrow> bridge" where
  "entered_ledger en sig s = note_signal en sig (s\<lparr> bd_ledger := (bd_ledger s)\<lparr> lg_candidates :=
     lg_candidates (bd_ledger s) @ [(ws_id sig, \<lparr>ca_ticker = Some (ws_ticker sig),
        ca_claimed_at = en_now (be_entry en), ca_decision = None\<rparr>)] \<rparr> \<rparr>)"

lemma handle_new:
  "ws_id sig \<notin> claimed s \<Longrightarrow> handle_signal en cfg results fp tick sig s
     = decide_signal en cfg results fp tick sig (entered_ledger en sig s)"
  by (simp add: handle_signal_def claimed_def claim_def entered_ledger_def)

lemma entered_ledger_simps [simp]:
  "bd_world (entered_ledger en sig s) = bd_world s" "positions_of (entered_ledger en sig s) = positions_of s"
  "bd_me_unknown (entered_ledger en sig s) = bd_me_unknown s"
  "bd_decision_feed (entered_ledger en sig s) = bd_decision_feed s"
  "bd_signal_feed (entered_ledger en sig s) = take 50 (sig # bd_signal_feed s)"
  "bd_trades_placed (entered_ledger en sig s) = bd_trades_placed s"
  "bd_limit_orders_placed (entered_ledger en sig s) = bd_limit_orders_placed s"
  "bd_skipped (entered_ledger en sig s) = bd_skipped s"
  by (simp_all add: entered_ledger_def note_signal_def positions_of_def)

lemma dget_map_snd: "dget (map (\<lambda>(k, r). (k, f k r)) d) t = map_option (f t) (dget d t)"
  by (induction d) auto

lemma decision_for_recorded:
  "decision_for tid (record_decision tid' d now l)
     = (if tid = tid' \<and> tid \<in> set (dkeys (lg_candidates l)) then Some d else decision_for tid l)"
proof -
  have "dget (lg_candidates (record_decision tid' d now l)) tid
      = map_option (\<lambda>r. if tid = tid' then r\<lparr> ca_decision := Some d \<rparr> else r) (dget (lg_candidates l) tid)"
    by (simp add: record_decision_def dget_map_snd)
  then show ?thesis
    by (cases "dget (lg_candidates l) tid") (simp_all add: decision_for_def dget_eq_None_iff [symmetric])
qed

lemma entered_ledger_claims:
  "ws_id sig \<in> set (dkeys (lg_candidates (bd_ledger (entered_ledger en sig s))))"
  "ws_id sig \<notin> claimed s \<Longrightarrow> decision_for (ws_id sig) (bd_ledger (entered_ledger en sig s)) = None"
  using dget_eq_None_iff [of "lg_candidates (bd_ledger s)" "ws_id sig"]
  by (simp_all add: entered_ledger_def decision_for_def dget_append claimed_def) (simp add: dkeys_def)

text \<open>
  A decided signal is on the record. When the bridge answers a decision, the signal was new,
  its ledger row carries that decision's action, it heads the signal feed and its decision the
  decision feed (both at most 50 long), and exactly one of the counters of trades, resting orders and skips, the one of its action,
  has grown by one.
\<close>

theorem decided_signal_is_booked:
  assumes "handle_signal en cfg results fp tick sig s = (Inr (Some d), s')"
  shows "ws_id sig \<notin> claimed s \<and> decision_for (ws_id sig) (bd_ledger s') = Some (action_text d)
    \<and> bd_signal_feed s' = take 50 (sig # bd_signal_feed s)
    \<and> bd_decision_feed s' = take 50 (SignalDecision sig d # bd_decision_feed s)
    \<and> bd_trades_placed s' = bd_trades_placed s + (if action_text d = ''trade'' then 1 else 0)
    \<and> bd_limit_orders_placed s' = bd_limit_orders_placed s + (if action_text d = ''limit_order_placed'' then 1 else 0)
    \<and> bd_skipped s' = bd_skipped s + (if action_text d = ''skip'' then 1 else 0)"
proof -
  have new: "ws_id sig \<notin> claimed s" using assms handle_duplicate by fastforce
  from assms [unfolded handle_new [OF new]] show ?thesis
  proof (cases rule: decide_signal_cases)
    case (decided d' w n sd)
    have "d' = d" using decided(2) by simp
    let ?s1 = "(entered_ledger en sig s)\<lparr> bd_me_unknown := n, bd_world := w \<rparr>"
    have c: "bd_trades_placed (book_decision en tick sig d ?s1) = bd_trades_placed s + (if action_text d = ''trade'' then 1 else 0)"
      "bd_limit_orders_placed (book_decision en tick sig d ?s1)
         = bd_limit_orders_placed s + (if action_text d = ''limit_order_placed'' then 1 else 0)"
      "bd_skipped (book_decision en tick sig d ?s1) = bd_skipped s + (if action_text d = ''skip'' then 1 else 0)"
      by (simp_all add: book_decision_def count_decision_def push_decision_def action_text_def Let_def split: decision.split)
    show ?thesis
      using new c entered_ledger_claims(1) [of sig en s]
      by (simp add: decided(3) \<open>d' = d\<close> decision_for_recorded)
  qed simp
qed

subsection \<open>A confirmed conflict\<close>

text \<open>
  The other half of the signal's market is held: it is the fetch's pair, or, without one, the only
  other open position of the event, which the exchange flags as mutually exclusive.
\<close>

definition holds_other_half :: "bridge_env \<Rightarrow> string \<Rightarrow> (string, position) pdict \<Rightarrow> string \<Rightarrow> bool" where
  "holds_other_half en ticker positions c \<longleftrightarrow> c \<noteq> [] \<and> c \<in> set (dkeys positions)
     \<and> (dget (be_me_pairs en) ticker = Some c
        \<or> nonempty (dget (be_me_pairs en) ticker) = None
          \<and> (\<exists>e. e \<noteq> [] \<and> market_event_of (ls_market_titles (be_lookup en)) ticker = Some e
               \<and> me_flag (ls_event_titles (be_lookup en)) e = Some True
               \<and> filter (\<lambda>t. t \<noteq> ticker \<and> market_event_of (ls_market_titles (be_lookup en)) t = Some e) (dkeys positions) = [c]))"

lemma holds_other_half_complement:
  "holds_other_half en ticker positions c \<Longrightarrow> fst (me_complement en ticker positions n) = Some c"
  by (auto simp: holds_other_half_def me_complement_def find_open_confirmed_conflict_def nonempty_def)


subsection \<open>An exception after the claim\<close>

text \<open>An entry of the ledger nobody has decided, which no new signal will reach.\<close>

definition stuck :: "string \<Rightarrow> bridge \<Rightarrow> bool" where
  "stuck tid s \<longleftrightarrow> tid \<in> claimed s \<and> decision_for tid (bd_ledger s) = None"

lemma decide_signal_decisions:
  assumes "decide_signal en cfg results fp tick sig s = (r, s')" "tid \<noteq> ws_id sig"
  shows "decision_for tid (bd_ledger s') = decision_for tid (bd_ledger s)"
  using assms by (cases rule: decide_signal_cases) (simp_all add: decision_for_recorded)

lemma stuck_step: "stuck tid s \<Longrightarrow> stuck tid (bridge_step ev s)"
proof (cases ev)
  case (SignalCame en cfg results fp tick sig)
  assume st: "stuck tid s"
  show ?thesis
  proof (cases "ws_id sig \<in> claimed s")
    case True
    then show ?thesis
      using st SignalCame by (simp add: handle_duplicate stuck_def claimed_def decision_for_def)
  next
    case False
    obtain r s' where d: "decide_signal en cfg results fp tick sig (entered_ledger en sig s) = (r, s')" by fastforce
    have other: "tid \<noteq> ws_id sig" using False st by (auto simp: stuck_def)
    have "decision_for tid (bd_ledger (entered_ledger en sig s)) = None"
      using st other by (simp add: stuck_def entered_ledger_def decision_for_def dget_append split: option.splits)
    then have "decision_for tid (bd_ledger s') = None" using decide_signal_decisions [OF d other] by simp
    moreover have "tid \<in> claimed s'"
      using decide_signal_frame [OF d] st by (simp add: stuck_def claimed_def entered_ledger_def dkeys_def)
    ultimately show ?thesis using SignalCame d by (simp add: handle_new [OF False] stuck_def)
  qed
qed (simp_all add: stuck_def claimed_def handle_close_decision_def handle_fill_decision_def
      handle_settlement_edge_entry_def record_trade_category_def Let_def split: fill_decision.split)

text \<open>
  An exception after the claim loses the signal for good. When the entry decision of a new
  signal raises, its trade id stays claimed without a decision: nothing was added to the decision
  feed, no later sequence of calls records one, and presenting the trade again is answered as a duplicate
  without an evaluation. The comment at \<open>candidate_retry.py:157\<close> rules exactly this out.
\<close>

theorem raised_decision_is_never_made:
  assumes "handle_signal en cfg results fp tick sig s = (Inl e, s')"
    and "decision_for (ws_id sig) (bd_ledger s') = None" and "ws_id sig' = ws_id sig"
  shows "decision_for (ws_id sig) (bd_ledger (fold bridge_step evs s')) = None
    \<and> fst (handle_signal en' cfg' results' fp' tick' sig' (fold bridge_step evs s')) = Inr None
    \<and> bd_decision_feed s' = bd_decision_feed s"
proof -
  have new: "ws_id sig \<notin> claimed s" using assms(1) handle_duplicate by fastforce
  have d: "decide_signal en cfg results fp tick sig (entered_ledger en sig s) = (Inl e, s')"
    using assms(1) by (simp add: handle_new [OF new])
  have "ws_id sig \<in> claimed s'"
    using decide_signal_frame [OF d] entered_ledger_claims(1) [of sig en s] by (simp add: claimed_def)
  then have "stuck (ws_id sig) s'" using assms(2) by (simp add: stuck_def)
  then have later: "stuck (ws_id sig) (fold bridge_step evs s')"
    by (induction evs arbitrary: s') (simp_all add: stuck_step)
  have feed: "bd_decision_feed s' = bd_decision_feed s"
    using d
  proof (cases rule: decide_signal_cases)
    case (decided d' w n sd)
    then show ?thesis
      using assms(2) entered_ledger_claims(1) [of sig en s] by (simp add: decision_for_recorded)
  qed simp
  show ?thesis
    using later feed handle_duplicate [of sig' "fold bridge_step evs s'"] assms(3) by (simp add: stuck_def)
qed

end
