(* ===== verification/BridgeExamples.thy ===== *)
theory BridgeExamples
  imports BridgeFacts
begin

text \<open>
  The decision bridge on concrete signals: the witnesses of its properties, and the run in which
  the two halves of a mutually exclusive pair both rest as limit orders and both fill.
\<close>

subsection \<open>A bridge with two complementary markets\<close>

definition pair_settings :: settings where
  "pair_settings = [(''entry_threshold'', JInt 1), (''longshot_price_threshold'', JInt 0),
     (''cooldown_sec'', JInt 0), (''max_position_pct'', JFloat (1/4)), (''use_limit_orders'', JBool True)]"

definition pair_cfg :: bridge_cfg where
  "pair_cfg = \<lparr>bc_mode = ''paper'', bc_strategy = pair_settings, bc_overrides = no_overrides, bc_kalshi = None, bc_risk = []\<rparr>"

definition broken_cfg :: bridge_cfg where
  "broken_cfg = pair_cfg\<lparr> bc_strategy := [(''cooldown_sec'', JInt 0)] \<rparr>"

definition pair_env :: bridge_env where
  "pair_env = \<lparr>be_entry = example_env,
     be_lookup = \<lparr>ls_markets = [], ls_event_schedules = [], ls_event_titles = [], ls_market_titles = [],
                  ls_sport_by_competition = []\<rparr>,
     be_live_status = [], be_event_phase = [], be_me_pairs = [(''A'', ''B''), (''B'', ''A'')], be_latest_prices = [],
     be_whale_source = ''tape'', be_experiment_active = False, be_account = [], be_shadow_stamp = example_stamp ''S'' 1000\<rparr>"

definition pair_signal :: "string \<Rightarrow> whale_signal" where
  "pair_signal t = (example_signal 1)\<lparr> ws_id := t, ws_ticker := t \<rparr>"

definition pair_bridge :: "broker \<Rightarrow> bridge" where
  "pair_bridge b = \<lparr>bd_ledger = \<lparr>lg_candidates = [], lg_duplicates = 0, lg_history = init_history_push\<rparr>,
     bd_signal_feed = [], bd_decision_feed = [], bd_signals_seen = 0, bd_trades_placed = 0, bd_limit_orders_placed = 0,
     bd_skipped = 0, bd_signal_log = empty_signal_log, bd_world = (b, idle_risk, init_strategy_state), bd_me_unknown = 0,
     bd_categories = [], bd_shadow = init_shadow 100 None [] 0, bd_broadcasts = []\<rparr>"

text \<open>The settings, the environment and the clock of one call, in that order.\<close>

definition pair_call :: "bridge_cfg \<Rightarrow> string \<Rightarrow> bridge \<Rightarrow> (strategy_error + decision option) \<times> bridge" where
  "pair_call cfg t s = handle_signal pair_env cfg [] ''fp'' 1000 (pair_signal t) s"

lemma pair_sized: "sized_contracts pair_settings 100 (1/4) (pair_signal t) 1 = 50"
  by (simp add: sized_contracts_def pair_settings_def cfg_num_or_def cfg_num_def jget_def json_num_def
      kelly_scaled_max_size_def max_trade_size_def py_round_def actual_size_def example_signal_def pair_signal_def
      unit_cost_def fdiv_def fmul_def py_trunc_def rhe_of_int [of 2500, simplified] fl_of_int [of 25, simplified]
      fl_of_int [of 50, simplified])

lemma no_record:
  assumes "\<forall>r \<in> set (sl_rows l). sr_resolved r = 0"
  shows "se_win_rate (series_stats tc t days now l) = None"
proof -
  have "filter (\<lambda>r. sr_series r = s \<and> counted since r) (sl_rows l) = []" for s since
    using assms by (auto simp: filter_empty_conv counted_def)
  then show ?thesis by (simp add: series_stats_def stats_of_series_def Let_def win_rate_def)
qed

lemma nothing_held: "br_positions b = [] \<Longrightarrow> holding_gate mx b sig st = (None, st)"
  by (simp add: holding_gate_def split: option.split)

lemmas pair_defs = evaluate_def entry_settings_def resolve_def
  tier_layer_def no_overrides_def dict_update_def nonempty_def timing_gate_def special_market_gate_def
  me_lookup_unknown_def is_special_market_def watchlist_gate_def record_and_enter_def winrate_gate_def
  price_and_enter_def validate_entry_price_def band_refusal_def band_refusal_above_def
  edge_gate_applied_def series_cap_gate_def size_and_enter_def enter_position_def
  example_env_def signal_seconds_to_close_def this_market_def
  effective_close_time_def jor_def seconds_to_close_def effective_entry_threshold_def cfg_num_or_def cfg_num_def
  json_num_def cfg_flag_def jget_def passed_def refused_def can_trade_def
  signal_context_def signal_category_def signal_event_row_def signal_event_def event_is_live_def market_event_of_def pair_env_def

definition pair_order :: "string \<Rightarrow> pending_order" where
  "pair_order t = resting_order example_env (signal_context pair_env [] ''fp'' (pair_signal t) None) pair_settings (pair_signal t) 50"

lemma pair_evaluate:
  assumes "br_positions b = []" "br_bankroll b = 100" "br_last_trade_time b = []" "t \<notin> set (dkeys (br_pending_orders b))"
    and "\<forall>r \<in> set (sl_rows l). sr_resolved r = 0"
  shows "\<exists>st'. evaluate (with_series_stats example_env l) pair_settings no_overrides None
      (signal_context pair_env [] ''fp'' (pair_signal t) c) (pair_signal t) (b, idle_risk, st)
    = (Inr (LimitPlaced (pair_order t) None), snd (place_limit_order (pair_order t) b), idle_risk, st')"
  using pair_sized [of t] assms no_record [OF assms(5)]
  by (simp add: Let_def pair_defs nothing_held pair_settings_def example_risk_ok example_settled dget_or_def example_tradeable with_series_stats_def
      place_limit_order_def pair_order_def resting_order_def open_position_count_in_series_def pair_signal_def
      example_signal_def unit_cost_def fsub_def fadd_def)

text \<open>One call on an unclaimed, unheld market of the pair rests its order.\<close>

definition fresh :: "string \<Rightarrow> broker \<Rightarrow> bridge \<Rightarrow> bool" where
  "fresh t b s \<longleftrightarrow> t \<notin> claimed s \<and> fst (bd_world s) = b \<and> fst (snd (bd_world s)) = idle_risk
     \<and> br_positions b = [] \<and> br_bankroll b = 100 \<and> br_last_trade_time b = [] \<and> t \<notin> set (dkeys (br_pending_orders b))
     \<and> (\<forall>r \<in> set (sl_rows (bd_signal_log s)). sr_resolved r = 0)"

lemma note_unresolved:
  "\<forall>r \<in> set (sl_rows (bd_signal_log s)). sr_resolved r = 0 \<Longrightarrow>
     \<forall>r \<in> set (sl_rows (bd_signal_log (entered_ledger en sig s))). sr_resolved r = 0"
  by (auto simp: entered_ledger_def note_signal_def log_signal_def)

lemma pair_signal_simps [simp]: "ws_id (pair_signal t) = t" "ws_ticker (pair_signal t) = t"
  by (simp_all add: pair_signal_def)

lemma pair_env_simps [simp]: "be_entry pair_env = example_env"
  by (simp add: pair_env_def)

lemma pair_call_places:
  assumes "fresh t b s"
  shows "\<exists>s'. pair_call pair_cfg t s = (Inr (Some (LimitPlaced (pair_order t) None)), s')
     \<and> fst (bd_world s') = snd (place_limit_order (pair_order t) b) \<and> fst (snd (bd_world s')) = idle_risk
     \<and> claimed s' = insert t (claimed s) \<and> (\<forall>r \<in> set (sl_rows (bd_signal_log s')). sr_resolved r = 0)"
proof -
  obtain st where w: "bd_world s = (b, idle_risk, st)" using assms by (cases "bd_world s") (auto simp: fresh_def)
  have new: "ws_id (pair_signal t) \<notin> claimed s" using assms by (simp add: fresh_def)
  let ?s = "entered_ledger pair_env (pair_signal t) s"
  let ?c = "fst (me_complement pair_env t (positions_of s) (bd_me_unknown s))"
  have rows: "\<forall>r \<in> set (sl_rows (bd_signal_log ?s)). sr_resolved r = 0"
    using assms by (intro note_unresolved) (simp add: fresh_def)
  obtain st' where ev: "evaluate (with_series_stats example_env (bd_signal_log ?s)) pair_settings no_overrides None
      (signal_context pair_env [] ''fp'' (pair_signal t) ?c) (pair_signal t) (b, idle_risk, st)
    = (Inr (LimitPlaced (pair_order t) None), snd (place_limit_order (pair_order t) b), idle_risk, st')"
    using pair_evaluate [of b t "bd_signal_log ?s" ?c st] assms rows by (auto simp: fresh_def)
  obtain r s' where d: "decide_signal pair_env pair_cfg [] ''fp'' 1000 (pair_signal t) ?s = (r, s')"
    by (cases "decide_signal pair_env pair_cfg [] ''fp'' 1000 (pair_signal t) ?s")
  have res: "r = Inr (Some (LimitPlaced (pair_order t) None)) \<and> bd_world s' = (snd (place_limit_order (pair_order t) b), idle_risk, st')"
    using d ev w unfolding decide_signal_def
    by (cases "me_complement pair_env t (positions_of s) (bd_me_unknown s)")
      (auto simp: pair_cfg_def run_shadow_def Let_def)
  show ?thesis
    using res d decide_signal_frame [OF d] rows
    by (intro exI [of _ s']) (auto simp: pair_call_def handle_new [OF new] claimed_def entered_ledger_def dkeys_def)
qed

lemma place_pair_order:
  "t \<notin> set (dkeys (br_pending_orders b)) \<Longrightarrow> snd (place_limit_order (pair_order t) b)
     = b\<lparr> br_pending_orders := dput t (pair_order t) (br_pending_orders b),
          br_db := (br_db b)\<lparr> bd_pending := dreplace t (pair_order t) (bd_pending (br_db b)) \<rparr> \<rparr>"
  by (simp add: place_limit_order_def pair_order_def resting_order_def)

definition both_resting :: broker where
  "both_resting = snd (place_limit_order (pair_order ''B'') (snd (place_limit_order (pair_order ''A'') idle_broker)))"

definition both_fills :: "(db_error + fill_decision list) \<times> broker" where
  "both_fills = check_pending_fills empty_title_cache (Some idle_risk) (\<lambda>t. example_stamp t 1010) []
     [(''A'', 1/2), (''B'', 1/2)] 1010 None both_resting"

lemma both_resting_eq: "both_resting = idle_broker\<lparr> br_pending_orders := [(''A'', pair_order ''A''), (''B'', pair_order ''B'')],
    br_db := (br_db idle_broker)\<lparr> bd_pending := [(''A'', pair_order ''A''), (''B'', pair_order ''B'')] \<rparr> \<rparr>"
  by (simp add: both_resting_def place_pair_order example_broker_idle idle_broker_def init_broker_def empty_broker_db_def
      dreplace_def ddel_def)

lemma pair_order_simps [simp]:
  "pn_ticker (pair_order t) = t" "pn_side (pair_order t) = Yes" "pn_size (pair_order t) = 50"
  "pn_limit_price (pair_order t) = 1/2" "pn_expires_at (pair_order t) = 1060"
  by (simp_all add: pair_order_def resting_order_def pair_signal_def example_signal_def example_env_def cfg_num_or_def
      cfg_num_def pair_settings_def jget_def json_num_def fadd_def)

lemma first_fee: "fsub 100 (fadd 25 (maker_fee empty_title_cache 50 (1/2) (Some ''A''))) \<ge> 25"
  by code_simp

lemma fifty:
  "fint 50 = 50" "unit_cost Yes (1/2) = 1/2" "25 \<le> x \<Longrightarrow> open_cost x Yes 50 (1/2) = 25" "actual_size 25 (1/2) = 50"
  by (simp_all add: fint_def open_cost_def actual_size_def unit_cost_def fmul_def fdiv_def py_trunc_def Let_def
      fl_of_int [of 50, simplified] fl_of_int [of 25, simplified])

lemma idle_tables: "br_trade_log idle_broker = []" "bd_trades (br_db idle_broker) = []"
  by (simp_all add: idle_broker_def init_broker_def empty_broker_db_def save_bankroll_def)

lemma both_filled: "dkeys (br_positions (snd both_fills)) = [''A'', ''B'']
    \<and> map tr_size (br_trade_log (snd both_fills)) = [50, 50]"
  using first_fee
  by (simp add: both_fills_def both_resting_eq check_pending_fills_def try_fill_def fill_price_def order_reached_def
      open_position_def risk_halts_def exposure_ok_def check_total_exposure_def idle_risk_def record_trade_def
      commit_trade_def cancel_pending_def entry_trade_def example_stamp_def Let_def example_broker_idle
      fifty idle_tables save_bankroll_def)

text \<open>
  Both halves of a pair can be bought. The fetch pairs markets A and B; a signal on A and
  then one on B, on an account that holds neither, both rest as limit orders, because the gate
  against the other half reads the open positions and not the resting orders, and when both
  markets reach their limits the next fill check buys both: 50 contracts of each of two
  outcomes of which one must lose.
\<close>

theorem both_halves_are_bought:
  "\<exists>s1 s2. pair_call pair_cfg ''A'' (pair_bridge idle_broker) = (Inr (Some (LimitPlaced (pair_order ''A'') None)), s1)
     \<and> pair_call pair_cfg ''B'' s1 = (Inr (Some (LimitPlaced (pair_order ''B'') None)), s2)
     \<and> fst (bd_world s2) = both_resting
     \<and> dkeys (br_positions (snd both_fills)) = [''A'', ''B'']
     \<and> map tr_size (br_trade_log (snd both_fills)) = [50, 50]"
proof -
  let ?b1 = "snd (place_limit_order (pair_order ''A'') idle_broker)"
  have "fresh ''A'' idle_broker (pair_bridge idle_broker)"
    by (simp add: fresh_def claimed_def pair_bridge_def example_broker_idle empty_signal_log_def)
  then obtain s1 where s1: "pair_call pair_cfg ''A'' (pair_bridge idle_broker)
      = (Inr (Some (LimitPlaced (pair_order ''A'') None)), s1)"
    "fst (bd_world s1) = ?b1" "fst (snd (bd_world s1)) = idle_risk" "claimed s1 = insert ''A'' (claimed (pair_bridge idle_broker))"
    "\<forall>r \<in> set (sl_rows (bd_signal_log s1)). sr_resolved r = 0"
    using pair_call_places by blast
  have "fresh ''B'' ?b1 s1"
    using s1 by (simp add: fresh_def claimed_def pair_bridge_def place_pair_order example_broker_idle)
  then obtain s2 where "pair_call pair_cfg ''B'' s1 = (Inr (Some (LimitPlaced (pair_order ''B'') None)), s2)"
    "fst (bd_world s2) = both_resting"
    unfolding both_resting_def using pair_call_places by blast
  then show ?thesis using s1(1) both_filled
    by (intro exI [of _ s1] exI [of _ s2] conjI) simp_all
qed

subsection \<open>Witnesses\<close>

lemma first_call: "\<exists>s1. pair_call pair_cfg ''A'' (pair_bridge idle_broker)
    = (Inr (Some (LimitPlaced (pair_order ''A'') None)), s1)"
proof -
  have "fresh ''A'' idle_broker (pair_bridge idle_broker)"
    by (simp add: fresh_def claimed_def pair_bridge_def example_broker_idle empty_signal_log_def)
  then show ?thesis using pair_call_places by blast
qed

theorem decided_signal_is_booked_witness:
  "\<exists>s1. pair_call pair_cfg ''A'' (pair_bridge idle_broker) = (Inr (Some (LimitPlaced (pair_order ''A'') None)), s1)
     \<and> decision_for ''A'' (bd_ledger s1) = Some ''limit_order_placed'' \<and> bd_limit_orders_placed s1 = 1
     \<and> bd_skipped s1 = 0"
proof -
  obtain s1 where s1: "pair_call pair_cfg ''A'' (pair_bridge idle_broker)
      = (Inr (Some (LimitPlaced (pair_order ''A'') None)), s1)"
    using first_call by blast
  from decided_signal_is_booked [OF this [unfolded pair_call_def]] s1 show ?thesis
    by (intro exI [of _ s1]) (simp add: action_text_def pair_bridge_def)
qed

text \<open>An account that holds B, and a strategy without an entry threshold.\<close>

definition held_broker :: broker where
  "held_broker = idle_broker\<lparr> br_positions := [(''B'', \<lparr>po_ticker = ''B'', po_side = Yes, po_size = 50, po_entry_price = 1/2,
     po_opened_at = 900, po_config_fingerprint = None, po_entry_fee = 0, po_hold_to_settlement = False\<rparr>)] \<rparr>"

lemma held_evaluate:
  assumes "\<forall>r \<in> set (sl_rows l). sr_resolved r = 0"
  shows "\<exists>st'. evaluate (with_series_stats example_env l) pair_settings no_overrides None
      (signal_context pair_env [] ''fp'' (pair_signal ''A'') (Some ''B'')) (pair_signal ''A'') (held_broker, idle_risk, st)
    = (Inr (Skip (ComplementHeld ''B'')), held_broker, idle_risk, st')"
  using no_record [OF assms]
  by (simp add: Let_def pair_defs holding_gate_def held_broker_def pair_settings_def example_risk_ok example_settled dget_or_def
      with_series_stats_def pair_signal_def example_signal_def)

lemma broken_evaluate:
  "\<exists>st'. evaluate (with_series_stats example_env l) [(''cooldown_sec'', JInt 0)] no_overrides None
      (signal_context pair_env [] ''fp'' (pair_signal ''A'') c) (pair_signal ''A'') (b, idle_risk, st)
    = (Inl (KeyError ''entry_threshold''), b, idle_risk, st')"
  by (simp add: Let_def pair_defs example_risk_ok example_settled dget_or_def
      with_series_stats_def pair_signal_def example_signal_def)

lemma entered_rows: "\<forall>r \<in> set (sl_rows (bd_signal_log (entered_ledger en sig (pair_bridge b)))). sr_resolved r = 0"
  by (rule note_unresolved) (simp add: pair_bridge_def empty_signal_log_def)

lemma pair_new: "ws_id (pair_signal t) \<notin> claimed (pair_bridge b)"
  by (simp add: claimed_def pair_bridge_def)

text \<open>An evaluation that raises is all there is to the call; one that skips in paper mode books and returns.\<close>

lemma pair_call_raised:
  assumes "evaluate (with_series_stats example_env (bd_signal_log (entered_ledger pair_env (pair_signal t) s))) (bc_strategy cfg)
      (bc_overrides cfg) (bc_kalshi cfg) (signal_context pair_env [] ''fp'' (pair_signal t)
        (fst (me_complement pair_env t (positions_of s) (bd_me_unknown s)))) (pair_signal t) (bd_world s) = (Inl e, w)"
    and "ws_id (pair_signal t) \<notin> claimed s"
  shows "\<exists>s'. pair_call cfg t s = (Inl e, s') \<and> decision_for t (bd_ledger s') = None"
  using assms entered_ledger_claims(2) [OF assms(2), of pair_env]
  by (cases "me_complement pair_env t (positions_of s) (bd_me_unknown s)")
    (simp add: pair_call_def handle_new decide_signal_def)

lemma pair_call_decided:
  assumes "evaluate (with_series_stats example_env (bd_signal_log (entered_ledger pair_env (pair_signal t) s))) (bc_strategy cfg)
      (bc_overrides cfg) (bc_kalshi cfg) (signal_context pair_env [] ''fp'' (pair_signal t)
        (fst (me_complement pair_env t (positions_of s) (bd_me_unknown s)))) (pair_signal t) (bd_world s) = (Inr d, w)"
    and "ws_id (pair_signal t) \<notin> claimed s" "bc_mode cfg = ''paper''"
  shows "\<exists>s'. pair_call cfg t s = (Inr (Some d), s')"
  using assms
  by (cases "me_complement pair_env t (positions_of s) (bd_me_unknown s)")
    (simp add: pair_call_def handle_new decide_signal_def run_shadow_def Let_def)


theorem raised_decision_is_never_made_witness:
  "\<exists>s'. pair_call broken_cfg ''A'' (pair_bridge idle_broker) = (Inl (KeyError ''entry_threshold''), s')
     \<and> fst (pair_call pair_cfg ''A'' s') = Inr None"
proof -
  obtain st' where "evaluate (with_series_stats example_env (bd_signal_log (entered_ledger pair_env (pair_signal ''A'')
        (pair_bridge idle_broker)))) [(''cooldown_sec'', JInt 0)] no_overrides None
      (signal_context pair_env [] ''fp'' (pair_signal ''A'')
        (fst (me_complement pair_env ''A'' (positions_of (pair_bridge idle_broker)) 0))) (pair_signal ''A'')
      (idle_broker, idle_risk, init_strategy_state)
    = (Inl (KeyError ''entry_threshold''), idle_broker, idle_risk, st')"
    using broken_evaluate by blast
  then obtain s' where s': "pair_call broken_cfg ''A'' (pair_bridge idle_broker) = (Inl (KeyError ''entry_threshold''), s')"
    "decision_for ''A'' (bd_ledger s') = None"
    using pair_call_raised [of "''A''" "pair_bridge idle_broker" broken_cfg] pair_new
    by (fastforce simp: broken_cfg_def pair_cfg_def pair_bridge_def)
  have "decision_for (ws_id (pair_signal ''A'')) (bd_ledger s') = None" using s'(2) by simp
  from raised_decision_is_never_made [OF s'(1) [unfolded pair_call_def] this refl,
      where evs = "[]" and en' = pair_env and cfg' = pair_cfg and results' = "[]" and fp' = "''fp''" and tick' = 1000]
  show ?thesis using s'(1) by (intro exI [of _ s']) (simp add: pair_call_def)
qed

subsection \<open>The shadow trader's gates\<close>

definition late_env :: entry_env where
  "late_env = example_env\<lparr> en_iso_ts := (\<lambda>s. Some 1000000) \<rparr>"

definition late_signal :: whale_signal where
  "late_signal = (example_signal 1)\<lparr> ws_close_time := JStr ''T'' \<rparr>"

definition shadow_limits :: settings where
  "shadow_limits = [(''max_daily_loss_pct'', JInt 1), (''kill_switch_enabled'', JBool True)]"

text \<open>
  The shadow trader takes what the strategy refuses. On the same signal, settings and clock, a market
  that closes in eleven days is outside the strategy's trading window and skipped, while
  the shadow trader, which has no such gate, logs a trade of 50 contracts; its log is not what the
  strategy would have done with the real bankroll, as its module and its method say.
\<close>

theorem shadow_takes_what_evaluate_refuses:
  "(\<exists>st. evaluate late_env pair_settings no_overrides None example_context late_signal example_world
      = (Inr (Skip OutsideCloseWindow), idle_broker, idle_risk, st))
   \<and> (\<exists>t s'. shadow_evaluate late_env pair_settings shadow_limits 100 ''real_account'' False [] None late_signal
         (init_shadow 100 None [] 1000) = (Inr (Some t), s') \<and> sh_size t = 50)"
proof
  show "\<exists>st. evaluate late_env pair_settings no_overrides None example_context late_signal example_world
      = (Inr (Skip OutsideCloseWindow), idle_broker, idle_risk, st)"
    by (simp add: Let_def pair_defs late_env_def late_signal_def pair_settings_def example_world_def example_context_def
        example_risk_ok example_settled dget_or_def example_signal_def fsub_def)
  show "\<exists>t s'. shadow_evaluate late_env pair_settings shadow_limits 100 ''real_account'' False [] None late_signal
         (init_shadow 100 None [] 1000) = (Inr (Some t), s') \<and> sh_size t = 50"
    by (simp add: Let_def shadow_evaluate_def shadow_limits_def shadow_gates_def shadow_log_def shadow_row_def shadow_can_trade_def
        shadow_check_daily_loss_def shadow_maybe_rollover_day_def init_shadow_def today_def
        late_env_def late_signal_def pair_settings_def cfg_num_def cfg_num_or_def json_num_def cfg_flag_def jget_def
        example_settled dget_or_def example_signal_def example_env_def fsub_def fmul_def fdiv_def actual_size_def py_trunc_def
        unit_cost_def fl_of_int [of 25, simplified] fl_of_int [of 50, simplified])
qed

end
