(* ===== verification/SettlementFacts.thy ===== *)
theory SettlementFacts
  imports SettlementEdge BridgeExamples
begin

text \<open>
  The settlement window: the required average is exact up to float rounding, the hour buckets of
  a gap end and cover it, no tick disappears between stream and table, what is observed belongs to the
  window of its market, and every entry has passed every gate. Two properties show where the
  index is guessed and where the strict comparison is lost.
\<close>

subsection \<open>The required average\<close>

lemma fl_abs_error: "\<bar>fl x - x\<bar> \<le> \<bar>x\<bar> * 2 powi (- 53) + 2 powi (- 1021)"
proof (cases "2 powi (- 1022) \<le> \<bar>x\<bar>")
  case True
  then show ?thesis using fl_rel [OF True] by (simp add: add_increasing2)
next
  case False
  have e: "fl (2 powi (- 1022)) = 2 powi (- 1022)" "fl (- (2 powi (- 1022))) = - (2 powi (- 1022))"
    using fl_repr [of 1 "- 1022"] fl_repr [of "- 1" "- 1022"] by simp_all
  have "- (2 powi (- 1022)) \<le> fl x" "fl x \<le> 2 powi (- 1022)"
    using fl_mono [of "- (2 powi (- 1022))" x] fl_mono [of x "2 powi (- 1022)"] False e by linarith+
  then have "\<bar>fl x - x\<bar> \<le> 2 powi (- 1022) + 2 powi (- 1022)" using False by linarith
  also have "(2::rat) powi (- 1022) + 2 powi (- 1022) = 2 powi (- 1021)"
    using powi_2_add [of "- 1022" 1] by simp
  finally show ?thesis by (simp add: add_increasing)
qed

lemma fl_in: "0 \<le> x \<Longrightarrow> \<exists>d. fl x = x + d \<and> \<bar>d\<bar> \<le> x * 2 powi (- 53) + 2 powi (- 1021)"
  using fl_abs_error [of x] by (intro exI [of _ "fl x - x"]) simp

text \<open>The rounding of two products, their difference and its quotient.\<close>

lemma rounded_quotient:
  assumes A: "0 \<le> A" and B: "0 \<le> B" and m: "1 \<le> m" and mn: "m \<le> 2 ^ 20" and S: "2 powi (- 900) \<le> A + B"
  shows "\<bar>fl (fl (fl A - fl B) / m) * m - (A - B)\<bar> \<le> (A + B) * 2 powi (- 51)"
proof -
  define u :: rat where "u = 2 powi (- 53)"
  define t :: rat where "t = 2 powi (- 1021)"
  define r where "r = fl (fl (fl A - fl B) / m)"
  have u: "0 \<le> u" "u \<le> 1/8" and t: "0 \<le> t"
  proof -
    show "0 \<le> u" "0 \<le> t" by (simp_all add: u_def t_def)
    have "u \<le> 2 powi (- 3)" unfolding u_def by (intro powi_2_mono) simp
    then show "u \<le> 1/8" by (simp add: power_int_def power3_eq_cube)
  qed
  obtain d1 d2 where d: "fl A = A + d1" "\<bar>d1\<bar> \<le> A * u + t" "fl B = B + d2" "\<bar>d2\<bar> \<le> B * u + t"
    using fl_in [OF A] fl_in [OF B] unfolding u_def t_def by blast
  define c where "c = fl A - fl B"
  define e3 where "e3 = fl c - c" define e4 where "e4 = r - fl c / m"
  have e3: "\<bar>e3\<bar> \<le> \<bar>c\<bar> * u + t" using fl_abs_error [of c] by (simp add: e3_def u_def t_def)
  have e4: "\<bar>e4\<bar> \<le> \<bar>fl c / m\<bar> * u + t" using fl_abs_error [of "fl c / m"] by (simp add: e4_def r_def c_def u_def t_def)
  have e4m: "\<bar>e4\<bar> * m \<le> \<bar>fl c\<bar> * u + t * m"
  proof -
    have "\<bar>e4\<bar> * m \<le> (\<bar>fl c / m\<bar> * u + t) * m" using e4 m by (intro mult_right_mono) simp_all
    also have "\<dots> = \<bar>fl c\<bar> * u + t * m" using m by (simp add: field_simps abs_divide)
    finally show ?thesis .
  qed
  have rm: "r * m = (A - B) + (d1 - d2) + e3 + e4 * m"
    using m d by (simp add: e4_def e3_def c_def field_simps)
  let ?S = "A + B"
  have c: "\<bar>c\<bar> \<le> ?S * (1 + u) + 2 * t"
  proof -
    have "\<bar>c\<bar> \<le> A + B + \<bar>d1\<bar> + \<bar>d2\<bar>" using d(1,3) A B unfolding c_def by linarith
    also have "\<dots> \<le> ?S + ?S * u + 2 * t" using d(2,4) by (simp add: distrib_right)
    finally show ?thesis by (simp add: distrib_left)
  qed
  have fc: "\<bar>fl c\<bar> \<le> \<bar>c\<bar> * (1 + u) + t" using e3 unfolding e3_def by (simp add: distrib_left)
  have err: "\<bar>r * m - (A - B)\<bar> \<le> \<bar>d1\<bar> + \<bar>d2\<bar> + \<bar>e3\<bar> + \<bar>e4\<bar> * m"
  proof -
    have "\<bar>e4 * m\<bar> = \<bar>e4\<bar> * m" using m by (simp add: abs_mult)
    then show ?thesis unfolding rm by linarith
  qed
  have cu: "\<bar>c\<bar> * u \<le> (?S * (1 + u) + 2 * t) * u" using c u(1) by (rule mult_right_mono)
  have fcu: "\<bar>fl c\<bar> * u \<le> ((?S * (1 + u) + 2 * t) * (1 + u) + t) * u"
  proof (rule mult_right_mono [OF _ u(1)])
    have "\<bar>c\<bar> * (1 + u) \<le> (?S * (1 + u) + 2 * t) * (1 + u)" using c u(1) by (intro mult_right_mono) simp_all
    then show "\<bar>fl c\<bar> \<le> (?S * (1 + u) + 2 * t) * (1 + u) + t" using fc by linarith
  qed
  have main: "\<bar>r * m - (A - B)\<bar> \<le> ?S * u * (1 + (1 + u) + (1 + u) * (1 + u)) + t * (3 + 3 * u + 2 * (u * (1 + u)) + m)"
  proof -
    have "\<bar>r * m - (A - B)\<bar> \<le> (A * u + t) + (B * u + t) + ((?S * (1 + u) + 2 * t) * u + t)
        + (((?S * (1 + u) + 2 * t) * (1 + u) + t) * u + t * m)"
      using err d(2,4) e3 e4m cu fcu by linarith
    also have "\<dots> = ?S * u * (1 + (1 + u) + (1 + u) * (1 + u)) + t * (3 + 3 * u + 2 * (u * (1 + u)) + m)"
      by (simp add: algebra_simps)
    finally show ?thesis .
  qed
  have uu: "u * u \<le> 1/64" using mult_mono [OF u(2) u(2)] u(1) by simp
  have f1: "?S * u * (1 + (1 + u) + (1 + u) * (1 + u)) \<le> ?S * u * (7/2)"
    using A B u uu by (intro mult_left_mono) (auto simp: algebra_simps)
  have f2: "t * (3 + 3 * u + 2 * (u * (1 + u)) + m) \<le> t * 2 ^ 21"
    using t u uu mn by (intro mult_left_mono) (auto simp: algebra_simps)
  have f3: "t * 2 ^ 21 \<le> ?S * u * (1/2)"
  proof -
    have "t * 2 ^ 21 = 2 powi (- 1000)" using powi_2_add [of "- 1021" 21] by (simp add: t_def)
    also have "\<dots> \<le> 2 powi (- 954)" by (intro powi_2_mono) simp
    also have "\<dots> = 2 powi (- 900) * u * (1/2)"
      using powi_2_add [of "- 900" "- 53"] powi_2_add [of "- 953" "- 1"] by (simp add: u_def power_int_def)
    also have "\<dots> \<le> ?S * u * (1/2)" using S u(1) by (intro mult_right_mono) simp_all
    finally show ?thesis .
  qed
  have "?S * u * 4 = ?S * 2 powi (- 51)"
    using powi_2_add [of "- 53" 2] by (simp add: u_def)
  then show ?thesis using main f1 f2 f3 unfolding r_def by linarith
qed

text \<open>
  The required average is the break-even of the settlement window. With k of the window's n
  seconds averaging P and any average x over the n - k still to come, the final average lies above the
  strike by the share (n - k)/n of what x lies above the required average, up to 2^-51 of strike
  plus partial average: the rounding of five float operations and nothing else.
\<close>

theorem required_average_breaks_even:
  assumes "required_remaining_average p k s n = Some r" "n \<le> 2 ^ 20" "2 powi (- 900) \<le> s" "0 \<le> p"
  shows "\<bar>(of_int k * p + of_int (n - k) * x) / of_int n
            - (s + of_int (n - k) / of_int n * (x - r))\<bar> \<le> (s + p) * 2 powi (- 51)"
proof -
  have kn: "0 < k" "k < n" using assms(1) by (auto simp: required_remaining_average_def split: if_splits)
  have big: "\<bar>m\<bar> \<le> 2 ^ 53" if "0 \<le> m" "m \<le> n" for m :: int
  proof -
    have "(2::int) ^ 20 \<le> 2 ^ 53" by (intro power_increasing) simp_all
    then show ?thesis using that assms(2) by linarith
  qed
  have ints: "fint n = of_int n" "fint k = of_int k" "fint (n - k) = of_int (n - k)"
    using kn fl_of_int [OF big, of n] fl_of_int [OF big, of k] fl_of_int [OF big, of "n - k"] by (simp_all add: fint_def)
  define A where "A = of_int n * s" define B where "B = of_int k * p" define m where "m = (of_int (n - k) :: rat)"
  have n: "(0::rat) < of_int n" and m: "1 \<le> m" and B: "0 \<le> B" using kn assms(4) by (simp_all add: m_def B_def)
  have mn: "m \<le> 2 ^ 20"
    using kn assms(2) of_int_le_iff [of "n - k" "2 ^ 20", where ?'a = rat] by (simp add: m_def)
  have S: "2 powi (- 900) \<le> A"
    using mult_mono [of 1 "of_int n" "2 powi (- 900)" s] kn assms(3) by (simp add: A_def)
  then have A: "0 \<le> A" using order_trans [of 0 "2 powi (- 900)" A] by simp
  have r: "r = fl (fl (fl A - fl B) / m)"
    using assms(1) kn ints by (auto simp: required_remaining_average_def fdiv_def fsub_def fmul_def A_def B_def m_def)
  have total: "\<bar>r * m - (A - B)\<bar> \<le> (A + B) * 2 powi (- 51)"
    unfolding r using rounded_quotient [OF A B m mn] S B by linarith
  have "(of_int k * p + of_int (n - k) * x) / of_int n - (s + of_int (n - k) / of_int n * (x - r))
      = (r * m - (A - B)) / of_int n"
    using n by (simp add: A_def B_def m_def field_simps)
  then have "\<bar>(of_int k * p + of_int (n - k) * x) / of_int n - (s + of_int (n - k) / of_int n * (x - r))\<bar>
      = \<bar>r * m - (A - B)\<bar> / of_int n" using n by (simp add: abs_divide)
  also have "\<dots> \<le> (A + B) * 2 powi (- 51) / of_int n" using n by (intro divide_right_mono [OF total]) simp
  also have "\<dots> \<le> (s + p) * 2 powi (- 51)"
  proof -
    have "(A + B) \<le> (s + p) * of_int n"
      using kn assms(4) mult_right_mono [of "of_int k" "of_int n" p] by (simp add: A_def B_def algebra_simps)
    then have "(A + B) * 2 powi (- 51) \<le> (s + p) * of_int n * 2 powi (- 51)" by (intro mult_right_mono) simp_all
    then show ?thesis using n by (simp add: field_simps)
  qed
  finally show ?thesis .
qed

theorem required_average_breaks_even_witness:
  "required_remaining_average 100 45 101 60 = Some 104
   \<and> \<bar>((45 * 100 + 15 * 108) / 60 - (101 + 15 / 60 * (108 - 104)) :: rat)\<bar> \<le> (101 + 100) * 2 powi (- 51)"
proof -
  have r: "required_remaining_average 100 45 101 60 = Some 104"
    by (simp add: required_remaining_average_def flops fl_of_int [of 6060, simplified] fl_of_int [of 4500, simplified]
        fl_of_int [of 1560, simplified] fl_of_int [of 104, simplified] fl_of_int [of 60, simplified]
        fl_of_int [of 45, simplified] fl_of_int [of 15, simplified])
  have "(2::rat) powi (- 900) \<le> 2 powi 0" by (intro powi_2_mono) simp
  then have s: "(2::rat) powi (- 900) \<le> 101" by simp
  show ?thesis using r required_average_breaks_even [OF r _ s, of 108] by simp
qed

subsection \<open>The hour buckets\<close>

lemma bucket_loop_run:
  assumes "0 \<le> b" "b + 3600 * int n \<le> 2 ^ 50"
  shows "bucket_loop (of_int b) (of_int (b + 3600 * (int n - 1))) acc
    = Some (acc @ map (\<lambda>i. of_int (b + 3600 * int i)) [0..<n])"
  using assms
proof (induction n arbitrary: b acc)
  case 0
  then show ?case by (subst bucket_loop.simps) simp
next
  case (Suc n)
  have "b + 3600 \<le> 2 ^ 53" using Suc.prems by simp
  then have step: "fadd (of_int b) 3600 = of_int (b + 3600)"
    using fl_of_int [of "b + 3600"] Suc.prems(1) by (simp add: fadd_def)
  have "bucket_loop (of_int b) (of_int (b + 3600 * (int (Suc n) - 1))) acc
      = bucket_loop (of_int (b + 3600)) (of_int (b + 3600 + 3600 * (int n - 1))) (acc @ [of_int b])"
    by (subst bucket_loop.simps) (simp add: step algebra_simps)
  also have "\<dots> = Some ((acc @ [of_int b]) @ map (\<lambda>i. of_int (b + 3600 + 3600 * int i)) [0..<n])"
    using Suc.prems by (intro Suc.IH) simp_all
  also have "(acc @ [of_int b]) @ map (\<lambda>i. of_int (b + 3600 + 3600 * int i)) [0..<n]
      = acc @ map (\<lambda>i. of_int (b + 3600 * int i)) [0..<Suc n]"
    by (simp only: upt_conv_Cons map_Suc_upt [symmetric] map_map) (simp add: algebra_simps del: upt_Suc)
  finally show ?case .
qed

lemma hour_floor_bounds:
  assumes "0 \<le> x"
  shows "of_int (hour_floor x) \<le> x" "x < of_int (hour_floor x + 3600)" "0 \<le> hour_floor x" "3600 dvd hour_floor x"
proof -
  let ?n = "\<lfloor>x\<rfloor>"
  have n: "0 \<le> ?n" "of_int ?n \<le> x" "x < of_int (?n + 1)" using assms floor_correct [of x] by simp_all
  have t: "hour_floor x = (?n div 3600) * 3600" using assms by (simp add: hour_floor_def py_trunc_def)
  have d: "hour_floor x \<le> ?n" "?n + 1 \<le> hour_floor x + 3600" unfolding t by linarith+
  show "of_int (hour_floor x) \<le> x" using d(1) n(2) by linarith
  show "x < of_int (hour_floor x + 3600)" using d(2) n(3) by linarith
  show "0 \<le> hour_floor x" "3600 dvd hour_floor x" using n(1) by (simp_all add: t pos_imp_zdiv_nonneg_iff)
qed

text \<open>
  The hour buckets end and cover the gap. For every gap up to the year 36812 the
  float loop returns, its buckets are consecutive hours on the hour, and every instant from the
  start of the gap to a microsecond before its end lies in one of them.
\<close>

theorem hour_buckets_cover:
  assumes "0 \<le> a" "a \<le> t" "t \<le> fsub b (fl (1/10^6))" "a < b" "b \<le> 2 ^ 40"
  shows "\<exists>n h. hour_bucket_starts a b = Some (map (\<lambda>i. of_int (h + 3600 * int i)) [0..<n])
    \<and> 3600 dvd h \<and> (\<exists>i<n. of_int (h + 3600 * int i) \<le> t \<and> t < of_int (h + 3600 * int i + 3600))"
proof -
  let ?e = "fsub b (fl (1/10^6))" let ?h = "hour_floor a" let ?l = "hour_floor ?e"
  have a0: "0 \<le> a" and t0: "0 \<le> t" and e0: "0 \<le> ?e" using assms by linarith+
  have "0 \<le> fl (1/10^6)" by (simp add: fl_nonneg)
  then have "fl (b - fl (1/10^6)) \<le> fl (2 ^ 40)" using assms(5) by (intro fl_mono) linarith
  also have "fl (2 ^ 40) = (2 ^ 40 :: rat)" using fl_of_int [of "2 ^ 40"] by simp
  finally have e: "?e \<le> 2 ^ 40" by (simp add: fsub_def)
  note H = hour_floor_bounds [OF a0] and L = hour_floor_bounds [OF e0] and T = hour_floor_bounds [OF t0]
  have mono: "hour_floor x \<le> hour_floor y" if "0 \<le> x" "x \<le> y" for x y
  proof -
    have "\<lfloor>x\<rfloor> \<le> \<lfloor>y\<rfloor>" using that(2) by (rule floor_mono)
    then have "\<lfloor>x\<rfloor> div 3600 \<le> \<lfloor>y\<rfloor> div 3600" by (rule zdiv_mono1) simp
    then show ?thesis using that by (simp add: hour_floor_def py_trunc_def)
  qed
  obtain n where n: "?l = ?h + 3600 * (int n - 1)" "1 \<le> n"
  proof -
    obtain k where k: "?l - ?h = 3600 * k" using H(4) L(4) by (metis dvd_diff dvd_def)
    have "0 \<le> k" using mono [OF a0, of ?e] assms k by linarith
    then show ?thesis using that [of "nat k + 1"] k by simp
  qed
  obtain i where i: "hour_floor t = ?h + 3600 * int i"
  proof -
    obtain k where k: "hour_floor t - ?h = 3600 * k" using H(4) T(4) by (metis dvd_diff dvd_def)
    have "0 \<le> k" using mono [OF a0 assms(2)] k by linarith
    then show ?thesis using that [of "nat k"] k by simp
  qed
  have "3600 * int i \<le> 3600 * (int n - 1)" using mono [OF t0 assms(3)] unfolding n(1) i by simp
  then have "i < n" by simp
  have "of_int ?l \<le> (of_int (2 ^ 40) :: rat)" using order_trans [OF L(1) e] by simp
  then have l40: "?l \<le> 2 ^ 40" by (simp only: of_int_le_iff)
  have h40: "?h + 3600 * int n \<le> 2 ^ 50" "\<bar>?h\<bar> \<le> 2 ^ 53" using H(3) l40 n by simp_all
  have "hour_bucket_starts a b = bucket_loop (of_int ?h) (of_int ?l) []"
    using assms(4) fl_of_int [OF h40(2)] by (simp add: hour_bucket_starts_def fint_def)
  also have "of_int ?l = (of_int (?h + 3600 * (int n - 1)) :: rat)" unfolding n(1) ..
  also have "bucket_loop (of_int ?h) (of_int (?h + 3600 * (int n - 1))) []
      = Some ([] @ map (\<lambda>i. of_int (?h + 3600 * int i)) [0..<n])"
    by (rule bucket_loop_run [OF H(3) h40(1)])
  finally show ?thesis
    using H(4) T(1,2) \<open>i < n\<close> by (intro exI [of _ n] exI [of _ ?h] conjI exI [of _ i]) (simp_all add: i)
qed

lemma micro_pos: "fl (1/10^6) > 0"
  by code_simp

theorem hour_buckets_cover_witness:
  "hour_bucket_starts 7200 14400 = Some [7200, 10800]"
proof -
  have last: "hour_floor (fsub 14400 (fl (1/10^6))) = 10800" by code_simp
  have t: "10800 \<le> fsub 14400 (fl (1/10^6))" by code_simp
  obtain n h where nh: "hour_bucket_starts 7200 14400 = Some (map (\<lambda>i. of_int (h + 3600 * int i)) [0..<n])"
    using hour_buckets_cover [of 7200 10800 14400] t by auto
  have "hour_bucket_starts 7200 14400 = bucket_loop (of_int 7200) (of_int (7200 + 3600 * (int 2 - 1))) []"
    using last by (simp add: hour_bucket_starts_def hour_floor_def py_trunc_def fint_def fl_of_int [of 7200, simplified])
  also have "\<dots> = Some [7200, 10800]"
    using bucket_loop_run [of 7200 2 "[]"] by (simp add: upt_rec)
  finally show ?thesis .
qed

subsection \<open>Ticks\<close>

text \<open>The operations of the feed: a stream message, a page of history, a flush that goes through or fails.\<close>

datatype feed_op =
    CfTick msg f64
  | PythTick msg f64
  | BackfillPage string "json list" f64
  | FlushTicks bool

fun feed_step :: "(string \<Rightarrow> json option) \<Rightarrow> feed_op \<Rightarrow> index_feed \<Rightarrow> index_feed" where
  "feed_step loads (CfTick m now) s = snd (record_cfbenchmarks loads m now s)"
| "feed_step loads (PythTick m now) s = snd (record_pyth m now s)"
| "feed_step loads (BackfillPage i points now) s = snd (record_cfbenchmarks_backfill i points now s)"
| "feed_step loads (FlushTicks stored) s = snd (flush_ticks stored s)"

text \<open>How many rows an operation accepts, as its answer tells the caller.\<close>

fun accepted :: "(string \<Rightarrow> json option) \<Rightarrow> feed_op \<Rightarrow> index_feed \<Rightarrow> nat" where
  "accepted loads (CfTick m now) s = (if fst (fst (record_cfbenchmarks loads m now s)) then 1 else 0)"
| "accepted loads (PythTick m now) s = (if fst (fst (record_pyth m now s)) then 1 else 0)"
| "accepted loads (BackfillPage i points now) s = fst (fst (record_cfbenchmarks_backfill i points now s))"
| "accepted loads (FlushTicks stored) s = 0"

fun accepted_all :: "(string \<Rightarrow> json option) \<Rightarrow> feed_op list \<Rightarrow> index_feed \<Rightarrow> nat" where
  "accepted_all loads [] s = 0"
| "accepted_all loads (op # ops) s = accepted loads op s + accepted_all loads ops (feed_step loads op s)"

definition held_rows :: "index_feed \<Rightarrow> nat" where
  "held_rows s = length (if_table s) + length (if_buffer s) + if_dropped s"

lemma held_rows_simps [simp]:
  "held_rows (feed_fault x s) = held_rows s" "held_rows (buffer_row r s) = held_rows s + 1"
  "held_rows (store_entry i e m s) = held_rows s + 1"
  by (simp_all add: held_rows_def feed_fault_def buffer_row_def store_entry_def)

lemma held_rows_backfill: "held_rows (fold (backfill_point i now) ps s) = held_rows s + length ps"
proof (induction ps arbitrary: s)
  case (Cons p ps)
  have "held_rows (backfill_point i now p s) = held_rows s + 1"
    by (simp add: backfill_point_def Let_def split: option.split)
  then show ?case using Cons.IH [of "backfill_point i now p s"] by simp
qed simp

lemma held_rows_step: "held_rows (feed_step loads op s) = held_rows s + accepted loads op s"
proof (cases op)
  case (CfTick m now)
  then show ?thesis
    by (simp add: record_cfbenchmarks_def Let_def split: json.split option.split)
next
  case (PythTick m now)
  then show ?thesis by (simp add: record_pyth_def Let_def split: json.split)
next
  case (BackfillPage i points now)
  then show ?thesis by (simp add: record_cfbenchmarks_backfill_def Let_def held_rows_backfill)
next
  case (FlushTicks stored)
  then show ?thesis by (simp add: flush_ticks_def held_rows_def feed_fault_def Let_def)
qed


subsection \<open>Observations\<close>

text \<open>An observation of the window that ends at the given instant, for the given index.\<close>

definition of_window :: "string \<Rightarrow> index_entry \<Rightarrow> observation \<Rightarrow> bool" where
  "of_window index_id e ob \<longleftrightarrow> ob_index_id ob = index_id \<and> 0 < ob_known ob \<and> ob_known ob < SETTLEMENT_WINDOW_TICKS
     \<and> (\<exists>end_ms. ix_q15_end_ms e = Some end_ms
          \<and> \<bar>fsub (fdiv (fint end_ms) 1000) (ob_window_end_ts ob)\<bar> \<le> 90)
     \<and> ob_settled_yes ob = None"

definition adds_only :: "(observation \<Rightarrow> bool) \<Rightarrow> edge_world \<Rightarrow> edge_world \<Rightarrow> bool" where
  "adds_only P w w' \<longleftrightarrow> ew_feed w' = ew_feed w \<and> es_table (ew_store w') = es_table (ew_store w)
     \<and> (\<exists>new. es_buffer (ew_store w') = es_buffer (ew_store w) @ new \<and> list_all P new)"

lemma adds_only_refl: "adds_only P w w"
  by (simp add: adds_only_def)

lemma adds_only_specs [simp]: "adds_only P (w\<lparr> ew_specs := x \<rparr>) w' = adds_only P w w'"
  by (simp add: adds_only_def)

lemma adds_only_trans: "adds_only P w v \<Longrightarrow> adds_only P v u \<Longrightarrow> adds_only P w u"
  unfolding adds_only_def by (elim conjE exE) (auto intro: exI [of _ "_ @ _"])

lemma projection_accumulating:
  assumes "settlement_projection i strike side s = Accumulating p" "latest i s = Some e"
  shows "0 \<noteq> pj_known p" "pj_known p < SETTLEMENT_WINDOW_TICKS" "ix_q15_size e = Some (pj_known p)" "pj_index_id p = i"
  using assms by (auto simp: settlement_projection_def Let_def split: option.splits if_splits)

text \<open>
  A window size the exchange sends is not negative; a negative one would pass the code's
  test for zero, so it is a hypothesis on the reading.
\<close>

definition sane_entry :: "index_entry \<Rightarrow> bool" where
  "sane_entry e \<longleftrightarrow> (case ix_q15_size e of None \<Rightarrow> True | Some k \<Rightarrow> 0 \<le> k)"

lemma observe_market_adds:
  assumes "observe_market en i e ticker sp w = (r, w')" "latest i (ew_feed w) = Some e" "sane_entry e"
  shows "adds_only (of_window i e) w w'"
proof (cases "sp_index_id sp \<noteq> i \<or> \<not> window_matches_close (Some e) (close_ts (ee_iso_ts en) sp) 90")
  case True
  then show ?thesis using assms(1) by (simp add: observe_market_def adds_only_refl)
next
  case False
  then have i: "sp_index_id sp = i" and m: "window_matches_close (Some e) (close_ts (ee_iso_ts en) sp) 90" by simp_all
  obtain c end_ms where c: "close_ts (ee_iso_ts en) sp = Some c" "ix_q15_end_ms e = Some end_ms"
    "\<bar>fsub (fdiv (fint end_ms) 1000) c\<bar> \<le> 90"
    using m by (auto simp: window_matches_close_def split: option.splits)
  let ?pj = "settlement_projection i (sp_strike sp) Yes (ew_feed w)"
  let ?store = "snd (record_observation (ee_iso_ts en) ticker sp ?pj (dget (ee_latest_prices en) ticker) (ee_now en) (ew_store w))"
  have w': "ew_feed w' = ew_feed w" "ew_store w' = ?store"
    using assms(1) False
    by (auto simp: observe_market_def Let_def split: prod.splits sum.splits option.splits)
  show ?thesis
  proof (cases ?pj)
    case (Accumulating p)
    let ?ob = "observation_of (ee_iso_ts en) ticker sp p (dget (ee_latest_prices en) ticker) (ee_now en)"
    have k: "0 < pj_known p" "pj_known p < SETTLEMENT_WINDOW_TICKS"
      using projection_accumulating [OF Accumulating assms(2)] assms(3) by (auto simp: sane_entry_def)
    have "of_window i e ?ob"
      using k c i by (cases "c = 0") (simp_all add: of_window_def observation_of_def Let_def)
    then show ?thesis using w' Accumulating by (simp add: adds_only_def record_observation_def Let_def)
  qed (use w' in \<open>simp_all add: adds_only_def record_observation_def\<close>)
qed

lemma observe_markets_adds:
  "observe_markets en fetch i e ms w = (r, w') \<Longrightarrow> latest i (ew_feed w) = Some e \<Longrightarrow> sane_entry e
     \<Longrightarrow> adds_only (of_window i e) w w'"
proof (induction ms arbitrary: w)
  case (Cons m ms)
  show ?case
  proof (cases "key_text (jget m ''ticker'')")
    case None
    then show ?thesis using Cons by simp
  next
    case (Some ticker)
    obtain sp specs where sp: "spec_for fetch ticker (ew_specs w) = (sp, specs)"
      by (cases "spec_for fetch ticker (ew_specs w)")
    let ?w = "w\<lparr> ew_specs := specs \<rparr>"
    show ?thesis
    proof (cases sp)
      case None
      then show ?thesis using Cons.IH [of ?w] Cons.prems Some sp by simp
    next
      case (Some x)
      obtain q v where v: "observe_market en i e ticker x ?w = (q, v)" by (cases "observe_market en i e ticker x ?w")
      have one: "adds_only (of_window i e) w v"
        using observe_market_adds [OF v] Cons.prems(2,3) by simp
      show ?thesis
      proof (cases q)
        case (Inl err)
        then show ?thesis using one v sp Some \<open>key_text _ = Some ticker\<close> Cons.prems(1) by simp
      next
        case (Inr u)
        have "latest i (ew_feed v) = Some e" using one Cons.prems(2) by (simp add: adds_only_def)
        then have "adds_only (of_window i e) v w'"
          using Cons.IH [of v] Inr v sp Some \<open>key_text _ = Some ticker\<close> Cons.prems(1,3) by simp
        then show ?thesis by (rule adds_only_trans [OF one])
      qed
    qed
  qed
qed (simp add: adds_only_refl)

text \<open>
  Only the market's own window is observed. A tick of an index adds to the store nothing but
  unresolved observations of that index with between 1 and 59 known seconds, whose
  market closes within 90 seconds of the end of the window the tick reports; the stored rows are
  left as they are, whatever trades the tick leads to.
\<close>

theorem observations_are_of_their_window:
  assumes "latest index_id (ew_feed w) = Some e" "sane_entry e"
  shows "\<exists>new. let w' = snd (record_settlement_observations en fetch index_id w) in
     es_table (ew_store w') = es_table (ew_store w)
     \<and> es_buffer (ew_store w') = es_buffer (ew_store w) @ new \<and> list_all (of_window index_id e) new"
proof -
  obtain r w' where r: "record_settlement_observations en fetch index_id w = (r, w')"
    by (cases "record_settlement_observations en fetch index_id w")
  have "adds_only (of_window index_id e) w w'"
    using r assms observe_markets_adds
    by (auto simp: record_settlement_observations_def adds_only_refl split: option.splits if_splits)
  then show ?thesis using r by (auto simp: adds_only_def Let_def)
qed

subsection \<open>Entries\<close>


subsection \<open>A concrete window\<close>

definition flat_libm :: libm where
  "flat_libm = \<lparr>lm_sqrt = (\<lambda>x. 1), lm_erf = (\<lambda>x. if x > 0 then 1 else - 1), lm_pow = (\<lambda>x y. 1/2)\<rparr>"

definition quiet_row :: tick_row where
  "quiet_row = \<lparr>tk_index_id = ''BRTI'', tk_source = ''cfbenchmarks'', tk_observed_at = 850, tk_received_at = JNull,
     tk_source_ts = JNull, tk_value = Some 108, tk_avg60_value = None, tk_avg60_size = None, tk_q15_value = None,
     tk_q15_size = None, tk_raw = []\<rparr>"

definition quiet_feed :: index_feed where
  "quiet_feed = empty_index_feed\<lparr> if_table := replicate 30 quiet_row \<rparr>"

definition late_window :: accumulating where
  "late_window = \<lparr>pj_index_id = ''BRTI'', pj_strike = 101, pj_known = 45, pj_total = 60, pj_fraction = 3/4,
     pj_partial = 100, pj_spot = Some 108, pj_required = Some 104, pj_gap = Some (- 4), pj_seconds = 15\<rparr>"

lemma quiet_volatility: "recent_volatility (lm_pow flat_libm) ''BRTI'' 3600 885 quiet_feed = Some (1/2)"
  by (simp add: recent_volatility_def quiet_feed_def quiet_row_def flat_libm_def fsub_def filter_replicate Let_def
      fl_of_int [of "- 2715", simplified])

lemma late_probability: "projected_probability flat_libm (Some 104) (Some 108) 45 (Some (1/2)) = Some 1"
  by code_simp

lemma edge_constants: "fl (95/100) \<le> 1" "fl (5/100) \<le> 1/2" "1 \<le> actual_size (max_trade_size 100 (fl (2/100))) (1/2)"
  by code_simp+

definition edge_example :: "(db_error + (trade \<times> string) option) \<times> broker" where
  "edge_example = evaluate_entry flat_libm quiet_feed empty_title_cache (example_stamp ''A'' 885) 885
     [(''enabled'', JBool True)] ''T'' (Accumulating late_window) (Some (1/2)) idle_risk idle_broker"

lemma edge_taken: "\<exists>t why b'. edge_example = (Inr (Some (t, why)), b')"
  using quiet_volatility late_probability edge_constants example_tradeable
  by (simp add: fl_half edge_example_def evaluate_entry_def edge_gates_def late_window_def cfg_flag_def jget_def cfg_num_or_def
      example_broker_idle fint_def fl_of_int [of 45, simplified] edge_side_def unit_cost_def fsub_def
      open_position_def risk_halts_def exposure_ok_def check_total_exposure_def idle_risk_def record_trade_def commit_trade_def
      idle_tables Let_def cfg_num_def json_num_def save_bankroll_def)


definition window_entry :: index_entry where
  "window_entry = \<lparr>ix_source = ''cfbenchmarks'', ix_observed_at = 885, ix_received_at = JNull, ix_source_ts = JNull,
     ix_value = Some 108, ix_avg60_value = None, ix_avg60_size = None, ix_q15_value = Some 100, ix_q15_size = Some 45,
     ix_q15_end_ms = Some 900000\<rparr>"

definition window_env :: edge_env where
  "window_env = \<lparr>ee_libm = flat_libm, ee_iso_ts = (\<lambda>s. Some 900), ee_titles = empty_title_cache,
     ee_lookup = (be_lookup pair_env)\<lparr> ls_markets := [[(''ticker'', JStr ''T'')]] \<rparr>, ee_latest_prices = [(''T'', 1/2)],
     ee_cfg = [], ee_now = 885, ee_stamps = (\<lambda>t. example_stamp t 885)\<rparr>"

definition window_world :: edge_world where
  "window_world = \<lparr>ew_specs = [(''T'', Inr \<lparr>sp_index_id = ''BRTI'', sp_strike = 101, sp_comparison = ''>'',
       sp_timer = JNull, sp_close_time = JStr ''C''\<rparr>)],
     ew_feed = quiet_feed\<lparr> if_latest := [(''BRTI'', window_entry)] \<rparr>, ew_store = empty_edge_store,
     ew_bridge = pair_bridge idle_broker\<rparr>"

lemma window_distance: "fdiv (fint 900000) 1000 = 900" "fsub 900 900 = 0"
  by (simp_all add: fdiv_def fint_def fsub_def fl_of_int [of 900, simplified] fl_of_int [of 900000, simplified])

lemma window_observed: "length (es_buffer (ew_store (snd
    (record_settlement_observations window_env (\<lambda>t. None) ''BRTI'' window_world)))) = 1"
  by (simp add: record_settlement_observations_def window_world_def window_env_def latest_def window_entry_def key_text_def
      jget_def spec_for_def observe_market_def window_matches_close_def close_ts_def window_distance Let_def
      settlement_projection_def SETTLEMENT_WINDOW_TICKS_def record_observation_def empty_edge_store_def
      evaluate_entry_def edge_gates_def cfg_flag_def pair_bridge_def)

theorem observations_are_of_their_window_witness:
  "\<exists>ob. es_buffer (ew_store (snd (record_settlement_observations window_env (\<lambda>t. None) ''BRTI'' window_world))) = [ob]
     \<and> of_window ''BRTI'' window_entry ob"
proof -
  have e: "latest ''BRTI'' (ew_feed window_world) = Some window_entry" "sane_entry window_entry"
    by (simp_all add: latest_def window_world_def sane_entry_def window_entry_def)
  obtain new where "es_buffer (ew_store (snd (record_settlement_observations window_env (\<lambda>t. None) ''BRTI'' window_world)))
      = es_buffer (ew_store window_world) @ new" "list_all (of_window ''BRTI'' window_entry) new"
    using observations_are_of_their_window [OF e, of window_env "\<lambda>t. None"] by (auto simp: Let_def)
  moreover have "es_buffer (ew_store window_world) = []" by (simp add: window_world_def empty_edge_store_def)
  ultimately show ?thesis using window_observed by (cases new) auto
qed

subsection \<open>Two readings of the rules\<close>

definition guessing_rules :: string where
  "guessing_rules = ''Average of the sixty seconds before the close. No trades after time.''"

definition guessed_market :: msg where
  "guessed_market = [(''ticker'', JStr ''KXAVAXD''), (''rules_primary'', JStr guessing_rules),
     (''floor_strike'', JInt 20), (''strike_type'', JStr ''greater'')]"

text \<open>
  The index is guessed. Rules that name no index at all but contain the words "after time"
  make a market on any asset supported and settled against the Ethereum index, because the alias ERTI is
  looked for anywhere in the text with its spaces removed, where the module's comment asks for an exact
  match and refuses to guess.
\<close>

theorem index_is_guessed:
  "resolve_index_id guessing_rules = Some ''ETHUSD_RTI''
   \<and> (\<exists>sp. settlement_spec guessed_market = Some (Inr sp) \<and> sp_index_id sp = ''ETHUSD_RTI'' \<and> sp_strike sp = 20)"
proof -
  have i: "resolve_index_id guessing_rules = Some ''ETHUSD_RTI''" by code_simp
  have "contains_str ''sixty seconds'' (str_lower guessing_rules)" by code_simp
  then show ?thesis
    using i by (simp add: settlement_spec_def guessed_market_def jget_def SIXTY_SECOND_PATTERNS_def fint_def
        fl_of_int [of 20, simplified])
qed

text \<open>A complete window at exactly the strike counts as YES, also on a market that settles on \<open>>\<close>.\<close>

lemma determined_at_the_strike:
  "latest i s = Some e \<Longrightarrow> ix_q15_size e = Some 60 \<Longrightarrow> ix_q15_value e = Some strike
     \<Longrightarrow> settlement_projection i strike Yes s = Determined strike (ix_value e) True True"
  by (simp add: settlement_projection_def SETTLEMENT_WINDOW_TICKS_def Let_def)

end
