(* ===== verification/StreamIngest.thy ===== *)
theory StreamIngest
  imports TradeTape LatencyAgg
begin

text \<open>
  \<open>services/kalshi/websocket.py\<close>, the ingest side of the stream gateway, with
  \<open>services/whale_gate.py\<close>: frames are classified, counted, gated, coalesced or queued by the
  reader, and taken off the queues by consumers that process most messages inline and dispatch
  trades to at most four tasks, one at a time per market. Frames arrive parsed (None is a
  frame that is no JSON); the body of a message is an object. asyncio is the
  interleaving of the steps below: a step runs from one await to the next.
\<close>

subsection \<open>Classes\<close>

definition CLASS_BY_MESSAGE_TYPE :: "(string, string) pdict" where
  "CLASS_BY_MESSAGE_TYPE = [(''trade'', ''trade''), (''ticker'', ''ticker''), (''fill'', ''fill''),
     (''market_position'', ''position''), (''market_lifecycle_v2'', ''lifecycle''), (''cfbenchmarks_value'', ''index''),
     (''pyth_value'', ''index''), (''subscribed'', ''control''), (''unsubscribed'', ''control''), (''ok'', ''control''),
     (''error'', ''control''), (''cfbenchmarks_value_indexlist'', ''control''), (''pyth_value_underlying_list'', ''control'')]"

definition OTHER_CLASS :: string where "OTHER_CLASS = ''other''"
definition CRITICAL_CLASSES :: "string list" where
  "CRITICAL_CLASSES = [''fill'', ''position'', ''lifecycle'', ''control'']"
definition TICKER_WAKE :: string where "TICKER_WAKE = ''_ticker_wake''"
definition TRADE_DISPATCH_CONCURRENCY :: nat where "TRADE_DISPATCH_CONCURRENCY = 4"
definition TICKER_FLUSH_BATCH_MAX :: nat where "TICKER_FLUSH_BATCH_MAX = 25"
definition LIVENESS_STUCK_SAMPLES_THRESHOLD :: nat where "LIVENESS_STUCK_SAMPLES_THRESHOLD = 3"

definition message_class :: "json \<Rightarrow> string" where
  "message_class data =
     (case data of
        JObj d \<Rightarrow> (case jget d ''type'' of JStr t \<Rightarrow> dget_or CLASS_BY_MESSAGE_TYPE t OTHER_CLASS | _ \<Rightarrow> OTHER_CLASS)
      | _ \<Rightarrow> OTHER_CLASS)"

definition body_of :: "json \<Rightarrow> msg" where
  "body_of data = (case data of JObj d \<Rightarrow> (case jget d ''msg'' of JObj m \<Rightarrow> m | _ \<Rightarrow> []) | _ \<Rightarrow> [])"

text \<open>The market of a trade or ticker: \<open>msg.get("market_ticker") or msg.get("ticker")\<close>.\<close>

definition market_key :: "json \<Rightarrow> string option" where
  "market_key data = text_of (jor (jget (body_of data) ''market_ticker'') (jget (body_of data) ''ticker''))"

definition num_instance :: "json \<Rightarrow> f64 option" where
  "num_instance v = (case v of JInt n \<Rightarrow> Some (fint n) | JFloat x \<Rightarrow> Some x | JBool b \<Rightarrow> Some (if b then 1 else 0) | _ \<Rightarrow> None)"

definition update_ts_ms :: "msg \<Rightarrow> f64 option" where
  "update_ts_ms m =
     (case num_instance (jget m ''ts_ms'') of
        Some x \<Rightarrow> Some x
      | None \<Rightarrow> map_option (\<lambda>x. fmul x 1000) (num_instance (jget m ''ts'')))"

subsection \<open>State\<close>

record queued =
  qi_at :: f64
  qi_class :: string
  qi_data :: json

record trade_task =
  tk_item :: queued
  tk_running :: bool

record stream =
  kw_messages_received :: nat
  kw_malformed :: nat
  kw_dropped :: nat
  kw_dropped_window :: nat
  kw_received_by :: counters
  kw_processed_by :: counters
  kw_dropped_by :: counters
  kw_discarded_by :: counters
  kw_prefiltered_by :: counters
  kw_gate_would_reject :: nat
  kw_rejections :: "tape_rejection list"
  kw_captured :: "msg list"
  kw_queue :: "queued list"
  kw_critical :: "queued list"
  kw_market :: "queued list"
  kw_pending :: "(string, f64 \<times> json) pdict"
  kw_coalesced :: nat
  kw_high_water :: nat
  kw_flush_runs :: nat
  kw_flush_total :: nat
  kw_held :: "queued option"
  kw_held_market :: "queued option"
  kw_parked :: bool
  kw_tasks :: "trade_task list"
  kw_timeouts_by :: counters
  kw_exceptions_by :: counters
  kw_logged_timeouts :: "string list"
  kw_logged_exceptions :: "string list"
  kw_faults :: "string list"
  kw_wait_last :: "f64 option"
  kw_wait_lifetime :: latency_agg
  kw_wait_window :: latency_agg
  kw_wait_buckets :: counters
  kw_handler_lifetime :: "(string, latency_agg) pdict"
  kw_handler_window :: "(string, latency_agg) pdict"
  kw_connects :: nat
  kw_reconnects :: nat
  kw_last_disconnect_at :: "f64 option"
  kw_last_gap_sec :: "f64 option"
  kw_gap_sec_window :: "f64 option"
  kw_liveness_last :: "(nat \<times> nat) option"
  kw_liveness_received :: nat
  kw_liveness_stuck :: nat

definition init_stream :: stream where
  "init_stream = \<lparr>kw_messages_received = 0, kw_malformed = 0, kw_dropped = 0, kw_dropped_window = 0,
     kw_received_by = [], kw_processed_by = [], kw_dropped_by = [], kw_discarded_by = [], kw_prefiltered_by = [],
     kw_gate_would_reject = 0, kw_rejections = [], kw_captured = [],
     kw_queue = [], kw_critical = [], kw_market = [], kw_pending = [], kw_coalesced = 0, kw_high_water = 0,
     kw_flush_runs = 0, kw_flush_total = 0, kw_held = None, kw_held_market = None, kw_parked = False, kw_tasks = [],
     kw_timeouts_by = [], kw_exceptions_by = [], kw_logged_timeouts = [], kw_logged_exceptions = [], kw_faults = [],
     kw_wait_last = None, kw_wait_lifetime = new_latency_agg, kw_wait_window = new_latency_agg,
     kw_wait_buckets = empty_buckets, kw_handler_lifetime = [], kw_handler_window = [],
     kw_connects = 0, kw_reconnects = 0, kw_last_disconnect_at = None, kw_last_gap_sec = None, kw_gap_sec_window = None,
     kw_liveness_last = None, kw_liveness_received = 0, kw_liveness_stuck = 0\<rparr>"

text \<open>What the gateway reads of the configuration.\<close>

record stream_cfg =
  sc_queue_max :: nat
  sc_two_consumer_mode :: bool
  sc_reader_gate :: bool
  sc_whale_watcher :: settings
  sc_titles :: title_cache

subsection \<open>The reader\<close>

definition whale_gate_passes :: "msg \<Rightarrow> f64 \<Rightarrow> bool" where
  "whale_gate_passes trade min_contracts =
     (case trade_contract_count trade of None \<Rightarrow> False | Some n \<Rightarrow> n \<ge> min_contracts)"

text \<open>
  The gate: whether the reader skips the trade. A rejection is always counted; the capture and the
  log entry belong to the skip.
\<close>

definition gate_rejection :: "string \<Rightarrow> f64 \<Rightarrow> msg \<Rightarrow> outcome_side \<Rightarrow> tape_rejection" where
  "gate_rejection ticker min_contracts trade side =
     (case trade_contract_count trade of
        None \<Rightarrow> \<lparr>tj_ticker = ticker, tj_gate = ''unparseable_count'', tj_observed = 0, tj_threshold = 0,
                 tj_side = side, tj_unit_cost = None\<rparr>
      | Some n \<Rightarrow> \<lparr>tj_ticker = ticker, tj_gate = ''min_contracts'', tj_observed = n, tj_threshold = min_contracts,
                 tj_side = side,
                 tj_unit_cost = map_option (unit_cost side) (parse_fixed_point_dollars (jget trade ''yes_price_dollars''))\<rparr>)"

definition gate_check :: "stream_cfg \<Rightarrow> msg \<Rightarrow> stream \<Rightarrow> bool \<times> stream" where
  "gate_check cfg trade s =
     (let ticker = (case jget trade ''market_ticker'' of JStr t \<Rightarrow> t | _ \<Rightarrow> []);
          min_contracts = min_contracts_for (sc_titles cfg) ticker (sc_whale_watcher cfg)
      in if whale_gate_passes trade min_contracts then (False, s)
         else let s1 = s\<lparr> kw_gate_would_reject := kw_gate_would_reject s + 1,
                          kw_prefiltered_by := bump ''trade'' (kw_prefiltered_by s) \<rparr>
           in if \<not> sc_reader_gate cfg then (False, s1)
              else case resolve_taker_outcome_side trade of
                None \<Rightarrow> (True, s1)
              | Some side \<Rightarrow> (True, s1\<lparr> kw_captured := kw_captured s1 @ [trade],
                    kw_rejections := kw_rejections s1 @ [gate_rejection ticker min_contracts trade side] \<rparr>))"

definition drop_message :: "string \<Rightarrow> stream \<Rightarrow> stream" where
  "drop_message c s = s\<lparr> kw_dropped := kw_dropped s + 1, kw_dropped_window := kw_dropped_window s + 1,
     kw_dropped_by := bump c (kw_dropped_by s) \<rparr>"

definition coalesce_ticker :: "stream_cfg \<Rightarrow> f64 \<Rightarrow> json \<Rightarrow> stream \<Rightarrow> bool \<times> stream" where
  "coalesce_ticker cfg now data s =
     (let full = (length (kw_market s) \<ge> sc_queue_max cfg) in
      case market_key data of
        None \<Rightarrow>
          if full then (False, drop_message ''ticker'' s)
          else (True, s\<lparr> kw_market := kw_market s @ [\<lparr>qi_at = now, qi_class = ''ticker'', qi_data = data\<rparr>] \<rparr>)
      | Some ticker \<Rightarrow>
          (case dget (kw_pending s) ticker of
             Some (at0, old) \<Rightarrow>
               (let s1 = s\<lparr> kw_coalesced := kw_coalesced s + 1 \<rparr> in
                case (update_ts_ms (body_of data), update_ts_ms (body_of old)) of
                  (Some new_ts, Some old_ts) \<Rightarrow>
                    if new_ts < old_ts then (True, s1)
                    else (True, s1\<lparr> kw_pending := dput ticker (now, data) (kw_pending s1) \<rparr>)
                | _ \<Rightarrow> (True, s1\<lparr> kw_pending := dput ticker (now, data) (kw_pending s1) \<rparr>))
           | None \<Rightarrow>
               (let s1 = s\<lparr> kw_pending := dput ticker (now, data) (kw_pending s) \<rparr> in
                if kw_pending s = [] \<and> \<not> full
                then (True, s1\<lparr> kw_market := kw_market s1 @ [\<lparr>qi_at = now, qi_class = TICKER_WAKE, qi_data = JNull\<rparr>] \<rparr>)
                else (True, s1))))"

definition enqueue_message :: "stream_cfg \<Rightarrow> queued \<Rightarrow> stream \<Rightarrow> bool \<times> stream" where
  "enqueue_message cfg item s =
     (let c = qi_class item;
          q = (if \<not> sc_two_consumer_mode cfg then kw_queue s
               else if c \<in> set CRITICAL_CLASSES then kw_critical s else kw_market s)
      in if length q \<ge> sc_queue_max cfg then (False, drop_message c s)
         else let q' = q @ [item];
                  s1 = (if \<not> sc_two_consumer_mode cfg then s\<lparr> kw_queue := q' \<rparr>
                        else if c \<in> set CRITICAL_CLASSES then s\<lparr> kw_critical := q' \<rparr> else s\<lparr> kw_market := q' \<rparr>)
           in (True, s1\<lparr> kw_high_water := max (kw_high_water s1) (length q') \<rparr>))"

definition ingest_raw :: "stream_cfg \<Rightarrow> f64 \<Rightarrow> json option \<Rightarrow> stream \<Rightarrow> bool \<times> stream" where
  "ingest_raw cfg now parsed s0 =
     (let s = s0\<lparr> kw_messages_received := kw_messages_received s0 + 1 \<rparr> in
      case parsed of
        None \<Rightarrow> (False, s\<lparr> kw_malformed := kw_malformed s + 1 \<rparr>)
      | Some data \<Rightarrow>
          (let c = message_class data; s1 = s\<lparr> kw_received_by := bump c (kw_received_by s) \<rparr>;
               (skip, s2) = (if c = ''trade'' then gate_check cfg (body_of data) s1 else (False, s1))
           in if skip then (False, s2)
              else if sc_two_consumer_mode cfg \<and> c = ''ticker'' then coalesce_ticker cfg now data s2
              else enqueue_message cfg \<lparr>qi_at = now, qi_class = c, qi_data = data\<rparr> s2))"

subsection \<open>Processing\<close>

text \<open>How a handler ends: in time, by the timeout, by an exception, or by cancellation.\<close>

datatype handler_end = Finished | TimedOut | Raised | Cancelled

definition note_failure :: "handler_end \<Rightarrow> string \<Rightarrow> stream \<Rightarrow> stream" where
  "note_failure e c s = (case e of
       TimedOut \<Rightarrow> (let s1 = s\<lparr> kw_timeouts_by := bump c (kw_timeouts_by s) \<rparr> in
         if c \<in> set (kw_logged_timeouts s) then s1
         else s1\<lparr> kw_logged_timeouts := c # kw_logged_timeouts s,
                  kw_faults := kw_faults s @ [''handle_message_timeout:'' @ c] \<rparr>)
     | Raised \<Rightarrow> (let s1 = s\<lparr> kw_exceptions_by := bump c (kw_exceptions_by s) \<rparr> in
         if c \<in> set (kw_logged_exceptions s) then s1
         else s1\<lparr> kw_logged_exceptions := c # kw_logged_exceptions s, kw_faults := kw_faults s @ [''handle_message:'' @ c] \<rparr>)
     | _ \<Rightarrow> s)"

definition add_agg :: "string \<Rightarrow> f64 \<Rightarrow> (string, latency_agg) pdict \<Rightarrow> (string, latency_agg) pdict" where
  "add_agg c v d = dput c (agg_add v (dget_or d c new_latency_agg)) d"

text \<open>\<open>_process_item\<close>, with the clock at its start and its end.\<close>

definition process_item :: "handler_end \<Rightarrow> f64 \<Rightarrow> f64 \<Rightarrow> queued \<Rightarrow> stream \<Rightarrow> stream" where
  "process_item e started ended item s =
     (let c = qi_class item; wait = max (fsub started (qi_at item)) 0; elapsed = fsub ended started;
          s1 = note_failure e c (s\<lparr> kw_wait_last := Some wait, kw_wait_lifetime := agg_add wait (kw_wait_lifetime s),
                 kw_wait_window := agg_add wait (kw_wait_window s), kw_wait_buckets := count_bucket wait (kw_wait_buckets s) \<rparr>)
      in s1\<lparr> kw_processed_by := bump c (kw_processed_by s1),
             kw_handler_lifetime := add_agg c elapsed (kw_handler_lifetime s1),
             kw_handler_window := add_agg c elapsed (kw_handler_window s1) \<rparr>)"

text \<open>\<open>flush_pending_tickers\<close>: at most one batch, oldest insertion first; the handlers' ends and times are given.\<close>

fun flush_loop :: "nat \<Rightarrow> (string \<Rightarrow> handler_end \<times> f64 \<times> f64) \<Rightarrow> stream \<Rightarrow> nat \<times> stream" where
  "flush_loop 0 run s = (0, s)"
| "flush_loop (Suc n) run s =
     (case kw_pending s of
        [] \<Rightarrow> (0, s)
      | (ticker, (at0, data)) # rest \<Rightarrow>
          (let (e, started, ended) = run ticker;
               (k, s1) = flush_loop n run (process_item e started ended \<lparr>qi_at = at0, qi_class = ''ticker'', qi_data = data\<rparr>
                           (s\<lparr> kw_pending := rest \<rparr>))
           in (k + 1, s1)))"

definition flush_pending_tickers :: "(string \<Rightarrow> handler_end \<times> f64 \<times> f64) \<Rightarrow> stream \<Rightarrow> stream" where
  "flush_pending_tickers run s =
     (let s1 = s\<lparr> kw_flush_runs := kw_flush_runs s + 1 \<rparr>; (n, s2) = flush_loop TICKER_FLUSH_BATCH_MAX run s1
      in s2\<lparr> kw_flush_total := kw_flush_total s2 + n \<rparr>)"

subsection \<open>Connections\<close>

definition record_disconnect :: "f64 \<Rightarrow> stream \<Rightarrow> stream" where
  "record_disconnect now s = s\<lparr> kw_reconnects := kw_reconnects s + 1, kw_last_disconnect_at := Some now \<rparr>"

definition count_discards :: "queued list \<Rightarrow> counters \<Rightarrow> counters" where
  "count_discards q d = fold (\<lambda>i. bump (qi_class i)) (filter (\<lambda>i. qi_class i \<noteq> TICKER_WAKE) q) d"

definition count_reconnect_discards :: "stream \<Rightarrow> stream" where
  "count_reconnect_discards s =
     (let d = count_discards (kw_queue s @ kw_critical s @ kw_market s) (kw_discarded_by s)
      in s\<lparr> kw_discarded_by := (if kw_pending s = [] then d else bump_by (length (kw_pending s)) ''ticker'' d) \<rparr>)"

definition begin_connection :: "f64 \<Rightarrow> stream \<Rightarrow> stream" where
  "begin_connection now s0 =
     (let s = (count_reconnect_discards s0)\<lparr> kw_queue := [], kw_critical := [], kw_market := [], kw_pending := [],
                kw_connects := kw_connects s0 + 1, kw_parked := False \<rparr>
      in case kw_last_disconnect_at s of
           None \<Rightarrow> s
         | Some lost_at \<Rightarrow>
             (let gap = fsub now lost_at in
              if gap \<ge> 0 then s\<lparr> kw_last_gap_sec := Some (py_round 3 gap), kw_gap_sec_window := Some (py_round 3 gap) \<rparr>
              else s))"

text \<open>
  The end of a connection: the consumers and the trade tasks are cancelled, the running ones count as
  processed from their own \<open>finally\<close>, and the disconnect is recorded.
\<close>

definition cancel_running :: "(queued \<Rightarrow> f64 \<times> f64) \<Rightarrow> trade_task list \<Rightarrow> stream \<Rightarrow> stream" where
  "cancel_running clocks ts s =
     fold (\<lambda>t. process_item Cancelled (fst (clocks (tk_item t))) (snd (clocks (tk_item t))) (tk_item t)) (filter tk_running ts) s"

definition drop_connection :: "(queued \<Rightarrow> f64 \<times> f64) \<Rightarrow> f64 \<Rightarrow> stream \<Rightarrow> stream" where
  "drop_connection clocks wall s =
     record_disconnect wall ((cancel_running clocks (kw_tasks s) s)\<lparr> kw_tasks := [], kw_held := None, kw_held_market := None,
       kw_parked := False \<rparr>)"

definition reset_ingest_window :: "stream \<Rightarrow> stream" where
  "reset_ingest_window s = s\<lparr> kw_dropped_window := 0, kw_wait_window := new_latency_agg, kw_wait_buckets := empty_buckets,
     kw_handler_window := map (\<lambda>(c, a). (c, new_latency_agg)) (kw_handler_lifetime s),
     kw_logged_exceptions := [], kw_logged_timeouts := [], kw_gap_sec_window := None \<rparr>"

definition total_queue_depth :: "stream \<Rightarrow> nat" where
  "total_queue_depth s = length (kw_queue s) + length (kw_critical s) + length (kw_market s)"

definition count_sum :: "counters \<Rightarrow> nat" where
  "count_sum d = sum_list (map snd d)"

definition critical_sum :: "counters \<Rightarrow> nat" where
  "critical_sum d = sum_list (map snd (filter (\<lambda>(c, n). c \<in> set CRITICAL_CLASSES) d))"

definition frozen_with_backlog :: "nat \<times> nat \<Rightarrow> stream \<Rightarrow> bool" where
  "frozen_with_backlog past s =
     (let total = count_sum (kw_processed_by s); critical = critical_sum (kw_processed_by s) in
      total = fst past \<and> kw_queue s \<noteq> []
      \<or> critical = snd past \<and> kw_critical s \<noteq> []
      \<or> int total - int critical = int (fst past) - int (snd past) \<and> (kw_market s \<noteq> [] \<or> kw_pending s \<noteq> []))"

text \<open>\<open>ensure_consumer_progressing\<close>; True when it forces a reconnect.\<close>

definition ensure_consumer_progressing :: "stream \<Rightarrow> bool \<times> stream" where
  "ensure_consumer_progressing s0 =
     (if kw_connects s0 = 0 then (False, s0) else let stuck = ((case kw_liveness_last s0 of None \<Rightarrow> False | Some past \<Rightarrow> frozen_with_backlog past s0)
                   \<and> kw_messages_received s0 > kw_liveness_received s0);
          s = s0\<lparr> kw_liveness_last := Some (count_sum (kw_processed_by s0), critical_sum (kw_processed_by s0)),
                  kw_liveness_received := kw_messages_received s0 \<rparr>
      in if \<not> stuck then (False, s\<lparr> kw_liveness_stuck := 0 \<rparr>)
         else let n = kw_liveness_stuck s + 1 in
           if n < LIVENESS_STUCK_SAMPLES_THRESHOLD then (False, s\<lparr> kw_liveness_stuck := n \<rparr>)
           else (True, s\<lparr> kw_liveness_stuck := 0, kw_faults := kw_faults s @ [''consumer_stalled_forced_reconnect''] \<rparr>))"

subsection \<open>The steps\<close>

text \<open>
  One step of the gateway under a queue bound and a reader-gate setting, with the classes of the
  trades it cancels before their processing began. The configuration may flip the consumer mode at
  any frame. A consumer that holds a trade waits for one of the dispatch slots; a task waits until no
  earlier task of its market is left, as the lock of \<open>_TickerDispatchGate\<close> hands over in order.
\<close>

definition classes_of :: "queued option \<Rightarrow> string list" where
  "classes_of h = (case h of None \<Rightarrow> [] | Some i \<Rightarrow> [qi_class i])"

definition cancelled_unstarted :: "stream \<Rightarrow> string list" where
  "cancelled_unstarted s = map (\<lambda>t. qi_class (tk_item t)) (filter (\<lambda>t. \<not> tk_running t) (kw_tasks s))
     @ classes_of (kw_held s) @ classes_of (kw_held_market s)"

definition task_key :: "trade_task \<Rightarrow> string option" where
  "task_key t = market_key (qi_data (tk_item t))"

inductive stream_step :: "nat \<Rightarrow> bool \<Rightarrow> stream \<Rightarrow> string list \<Rightarrow> stream \<Rightarrow> bool" for Q gate where
  ingest: "sc_queue_max cfg = Q \<Longrightarrow> sc_reader_gate cfg = gate \<Longrightarrow>
    stream_step Q gate s [] (snd (ingest_raw cfg now parsed s))"
| take_single: "kw_queue s = i # q \<Longrightarrow> kw_held s = None \<Longrightarrow>
    stream_step Q gate s [] (if qi_class i = ''trade'' then s\<lparr> kw_queue := q, kw_held := Some i \<rparr>
      else process_item e started ended i (s\<lparr> kw_queue := q \<rparr>))"
| take_critical: "kw_critical s = i # q \<Longrightarrow>
    stream_step Q gate s [] (process_item e started ended i (s\<lparr> kw_critical := q \<rparr>))"
| take_market: "kw_market s = i # q \<Longrightarrow> kw_held_market s = None \<Longrightarrow>
    stream_step Q gate s []
      (if qi_class i = TICKER_WAKE then s\<lparr> kw_market := q, kw_parked := False \<rparr>
       else if qi_class i = ''trade'' then s\<lparr> kw_market := q, kw_parked := False, kw_held_market := Some i \<rparr>
       else process_item e started ended i (s\<lparr> kw_market := q, kw_parked := False \<rparr>))"
| take_pending: "kw_market s = [] \<Longrightarrow> \<not> kw_parked s \<Longrightarrow> kw_held_market s = None \<Longrightarrow> kw_pending s = (t, (at0, data)) # rest \<Longrightarrow>
    stream_step Q gate s [] (process_item e started ended \<lparr>qi_at = at0, qi_class = ''ticker'', qi_data = data\<rparr>
      (s\<lparr> kw_pending := rest \<rparr>))"
| park: "kw_market s = [] \<Longrightarrow> kw_pending s = [] \<Longrightarrow> kw_held_market s = None \<Longrightarrow>
    stream_step Q gate s [] (s\<lparr> kw_parked := True \<rparr>)"
| dispatch_single: "kw_held s = Some i \<Longrightarrow> length (kw_tasks s) < TRADE_DISPATCH_CONCURRENCY \<Longrightarrow>
    stream_step Q gate s [] (s\<lparr> kw_held := None, kw_tasks := kw_tasks s @ [\<lparr>tk_item = i, tk_running = False\<rparr>] \<rparr>)"
| dispatch_market: "kw_held_market s = Some i \<Longrightarrow> length (kw_tasks s) < TRADE_DISPATCH_CONCURRENCY \<Longrightarrow>
    stream_step Q gate s [] (s\<lparr> kw_held_market := None, kw_tasks := kw_tasks s @ [\<lparr>tk_item = i, tk_running = False\<rparr>] \<rparr>)"
| start_task: "kw_tasks s = xs @ t # ys \<Longrightarrow> \<not> tk_running t \<Longrightarrow> list_all (\<lambda>x. task_key x \<noteq> task_key t) xs \<Longrightarrow>
    stream_step Q gate s [] (s\<lparr> kw_tasks := xs @ t\<lparr> tk_running := True \<rparr> # ys \<rparr>)"
| finish_task: "kw_tasks s = xs @ t # ys \<Longrightarrow> tk_running t \<Longrightarrow>
    stream_step Q gate s [] (process_item e started ended (tk_item t) (s\<lparr> kw_tasks := xs @ ys \<rparr>))"
| flush: "stream_step Q gate s [] (flush_pending_tickers run s)"
| disconnect: "stream_step Q gate s (cancelled_unstarted s) (drop_connection clocks wall s)"
| connect: "kw_tasks s = [] \<Longrightarrow> kw_held s = None \<Longrightarrow> kw_held_market s = None \<Longrightarrow>
    stream_step Q gate s [] (begin_connection now s)"
| reset: "stream_step Q gate s [] (reset_ingest_window s)"
| liveness: "stream_step Q gate s [] (snd (ensure_consumer_progressing s))"

inductive stream_run :: "nat \<Rightarrow> bool \<Rightarrow> stream \<Rightarrow> string list \<Rightarrow> stream \<Rightarrow> bool" for Q gate where
  run_none: "stream_run Q gate s [] s"
| run_more: "stream_run Q gate s lost v \<Longrightarrow> stream_step Q gate v now w \<Longrightarrow> stream_run Q gate s (lost @ now) w"

end
