(* ===== verification/StreamFacts.thy ===== *)
theory StreamFacts
  imports StreamIngest IndexFeed
begin

text \<open>
  The stream gateway over any interleaving of its reader, its consumers, its trade tasks, flushes,
  disconnects and reconnects: every frame is accounted for by class, queues and tasks are
  bounded, a market's trades are handled one at a time, no ticker is left behind a
  sleeping consumer, and the newest ticker wins. Two properties show what a cancelled trade and a
  clock that steps back do to the figures.
\<close>

subsection \<open>Counters\<close>

definition cnt :: "counters \<Rightarrow> string \<Rightarrow> nat" where
  "cnt d c = dget_or d c 0"

lemma cnt_simps [simp]:
  "cnt [] c = 0" "cnt (bump_by n x d) c = cnt d c + (if c = x then n else 0)"
  "cnt (bump x d) c = cnt d c + (if c = x then 1 else 0)"
  by (simp_all add: cnt_def bump_def bump_by_def dget_or_def)

definition in_class :: "string \<Rightarrow> queued list \<Rightarrow> nat" where
  "in_class c q = length (filter (\<lambda>i. qi_class i = c) q)"

lemma in_class_simps [simp]:
  "in_class c [] = 0" "in_class c (i # q) = (if qi_class i = c then 1 else 0) + in_class c q"
  "in_class c (q @ r) = in_class c q + in_class c r"
  by (simp_all add: in_class_def)

lemma cnt_count_discards: "c \<noteq> TICKER_WAKE \<Longrightarrow> cnt (count_discards q d) c = cnt d c + in_class c q"
  unfolding count_discards_def by (induction q arbitrary: d) auto

definition held_in :: "string \<Rightarrow> queued option \<Rightarrow> nat" where
  "held_in c h = in_class c (case h of None \<Rightarrow> [] | Some i \<Rightarrow> [i])"

lemma held_in_simps [simp]: "held_in c None = 0" "held_in c (Some i) = (if qi_class i = c then 1 else 0)"
  by (simp_all add: held_in_def)

text \<open>Where the frames of a class are: the terms of the identity the code's comment states.\<close>

definition accounted :: "bool \<Rightarrow> string \<Rightarrow> stream \<Rightarrow> nat" where
  "accounted gate c s =
     cnt (kw_processed_by s) c + cnt (kw_dropped_by s) c + cnt (kw_discarded_by s) c
     + in_class c (kw_queue s) + in_class c (kw_critical s) + in_class c (kw_market s)
     + in_class c (map tk_item (kw_tasks s)) + held_in c (kw_held s) + held_in c (kw_held_market s)
     + (if gate then cnt (kw_prefiltered_by s) c else 0)
     + (if c = ''ticker'' then kw_coalesced s + length (kw_pending s) else 0)"

lemma note_failure_frame [simp]:
  "kw_processed_by (note_failure e x s) = kw_processed_by s" "kw_dropped_by (note_failure e x s) = kw_dropped_by s"
  "kw_discarded_by (note_failure e x s) = kw_discarded_by s" "kw_queue (note_failure e x s) = kw_queue s"
  "kw_critical (note_failure e x s) = kw_critical s" "kw_market (note_failure e x s) = kw_market s"
  "kw_tasks (note_failure e x s) = kw_tasks s" "kw_held (note_failure e x s) = kw_held s"
  "kw_held_market (note_failure e x s) = kw_held_market s" "kw_prefiltered_by (note_failure e x s) = kw_prefiltered_by s"
  "kw_coalesced (note_failure e x s) = kw_coalesced s" "kw_pending (note_failure e x s) = kw_pending s"
  "kw_received_by (note_failure e x s) = kw_received_by s" "kw_parked (note_failure e x s) = kw_parked s"
  "kw_high_water (note_failure e x s) = kw_high_water s"
  by (simp_all add: note_failure_def Let_def split: handler_end.split)

lemma process_item_frame [simp]:
  "kw_processed_by (process_item e t u i s) = bump (qi_class i) (kw_processed_by s)"
  "kw_dropped_by (process_item e t u i s) = kw_dropped_by s"
  "kw_discarded_by (process_item e t u i s) = kw_discarded_by s" "kw_queue (process_item e t u i s) = kw_queue s"
  "kw_critical (process_item e t u i s) = kw_critical s" "kw_market (process_item e t u i s) = kw_market s"
  "kw_tasks (process_item e t u i s) = kw_tasks s" "kw_held (process_item e t u i s) = kw_held s"
  "kw_held_market (process_item e t u i s) = kw_held_market s"
  "kw_prefiltered_by (process_item e t u i s) = kw_prefiltered_by s"
  "kw_coalesced (process_item e t u i s) = kw_coalesced s" "kw_pending (process_item e t u i s) = kw_pending s"
  "kw_received_by (process_item e t u i s) = kw_received_by s" "kw_parked (process_item e t u i s) = kw_parked s"
  "kw_high_water (process_item e t u i s) = kw_high_water s"
  by (simp_all add: process_item_def Let_def)

lemma accounted_process [simp]:
  "accounted g c (process_item e t u i s) = accounted g c s + (if c = qi_class i then 1 else 0)"
  by (simp add: accounted_def)

subsection \<open>Every frame\<close>

lemma message_class_not_wake: "message_class d \<noteq> TICKER_WAKE"
  by (simp add: message_class_def CLASS_BY_MESSAGE_TYPE_def OTHER_CLASS_def TICKER_WAKE_def dget_or_def
      split: json.split)

lemma gate_check_accounts:
  assumes "gate_check cfg trade s = (skip, s')"
  shows "accounted (sc_reader_gate cfg) c s' = accounted (sc_reader_gate cfg) c s + (if skip \<and> c = ''trade'' then 1 else 0)"
    "kw_received_by s' = kw_received_by s"
  using assms by (auto simp: gate_check_def accounted_def Let_def split: if_splits option.splits)

lemma drop_message_accounts [simp]:
  "accounted g c (drop_message x s) = accounted g c s + (if c = x then 1 else 0)"
  "kw_received_by (drop_message x s) = kw_received_by s"
  by (simp_all add: drop_message_def accounted_def)

lemma accounted_updates [simp]:
  "accounted g c (s\<lparr> kw_flush_runs := n \<rparr>) = accounted g c s"
  "accounted g c (s\<lparr> kw_flush_total := n \<rparr>) = accounted g c s"
  "accounted g c (s\<lparr> kw_messages_received := n \<rparr>) = accounted g c s"
  "accounted g c (s\<lparr> kw_received_by := d \<rparr>) = accounted g c s"
  "accounted g c (s\<lparr> kw_malformed := n \<rparr>) = accounted g c s"
  "accounted g c (s\<lparr> kw_high_water := n \<rparr>) = accounted g c s"
  "accounted g c (s\<lparr> kw_parked := b \<rparr>) = accounted g c s"
  by (simp_all add: accounted_def)

text \<open>Moving frames from one place to another.\<close>

lemma accounted_moves:
  "accounted g c (s\<lparr> kw_queue := q \<rparr>) + in_class c (kw_queue s) = accounted g c s + in_class c q"
  "accounted g c (s\<lparr> kw_critical := q \<rparr>) + in_class c (kw_critical s) = accounted g c s + in_class c q"
  "accounted g c (s\<lparr> kw_market := q \<rparr>) + in_class c (kw_market s) = accounted g c s + in_class c q"
  "accounted g c (s\<lparr> kw_tasks := ts \<rparr>) + in_class c (map tk_item (kw_tasks s)) = accounted g c s + in_class c (map tk_item ts)"
  "accounted g c (s\<lparr> kw_held := h \<rparr>) + held_in c (kw_held s) = accounted g c s + held_in c h"
  "accounted g c (s\<lparr> kw_held_market := h \<rparr>) + held_in c (kw_held_market s) = accounted g c s + held_in c h"
  "accounted g c (s\<lparr> kw_pending := p \<rparr>) + (if c = ''ticker'' then length (kw_pending s) else 0)
     = accounted g c s + (if c = ''ticker'' then length p else 0)"
  "accounted g c (s\<lparr> kw_coalesced := n \<rparr>) + (if c = ''ticker'' then kw_coalesced s else 0)
     = accounted g c s + (if c = ''ticker'' then n else 0)"
  by (simp_all add: accounted_def)

lemma enqueue_cases:
  assumes "s' = snd (enqueue_message cfg i s)"
  obtains (dropped) "s' = drop_message (qi_class i) s"
  | (single) n where "length (kw_queue s) < sc_queue_max cfg" "n = max (kw_high_water s) (length (kw_queue s) + 1)"
      "s' = s\<lparr> kw_queue := kw_queue s @ [i] \<rparr>\<lparr> kw_high_water := n \<rparr>"
  | (critical) n where "length (kw_critical s) < sc_queue_max cfg" "n = max (kw_high_water s) (length (kw_critical s) + 1)"
      "s' = s\<lparr> kw_critical := kw_critical s @ [i] \<rparr>\<lparr> kw_high_water := n \<rparr>"
  | (market) n where "length (kw_market s) < sc_queue_max cfg" "n = max (kw_high_water s) (length (kw_market s) + 1)"
      "s' = s\<lparr> kw_market := kw_market s @ [i] \<rparr>\<lparr> kw_high_water := n \<rparr>"
proof (cases "sc_two_consumer_mode cfg")
  case False
  then show ?thesis using assms dropped single
    by (cases "length (kw_queue s) \<ge> sc_queue_max cfg") (simp_all add: enqueue_message_def Let_def)
next
  case two: True
  show ?thesis
  proof (cases "qi_class i \<in> set CRITICAL_CLASSES")
    case True
    then show ?thesis using assms two dropped critical
      by (cases "length (kw_critical s) \<ge> sc_queue_max cfg") (simp_all add: enqueue_message_def Let_def)
  next
    case False
    then show ?thesis using assms two dropped market
      by (cases "length (kw_market s) \<ge> sc_queue_max cfg") (simp_all add: enqueue_message_def Let_def)
  qed
qed

lemma enqueue_accounts:
  "accounted g c (snd (enqueue_message cfg i s)) = accounted g c s + (if c = qi_class i then 1 else 0)"
    "kw_received_by (snd (enqueue_message cfg i s)) = kw_received_by s"
proof -
  have "accounted g c s' = accounted g c s + (if c = qi_class i then 1 else 0) \<and> kw_received_by s' = kw_received_by s"
    if "s' = snd (enqueue_message cfg i s)" for s'
    using that
  proof (cases rule: enqueue_cases)
    case (single n)
    then show ?thesis using accounted_moves(1) [of g c "kw_queue s @ [i]" s] by simp
  next
    case (critical n)
    then show ?thesis using accounted_moves(2) [of g c "kw_critical s @ [i]" s] by simp
  next
    case (market n)
    then show ?thesis using accounted_moves(3) [of g c "kw_market s @ [i]" s] by simp
  qed simp
  then show "accounted g c (snd (enqueue_message cfg i s)) = accounted g c s + (if c = qi_class i then 1 else 0)"
    "kw_received_by (snd (enqueue_message cfg i s)) = kw_received_by s" by simp_all
qed

text \<open>The four ways \<open>_coalesce_ticker\<close> ends.\<close>

lemma coalesce_cases:
  assumes "s' = snd (coalesce_ticker cfg now d s)"
  obtains (dropped) "length (kw_market s) \<ge> sc_queue_max cfg" "s' = drop_message ''ticker'' s"
  | (queued) "length (kw_market s) < sc_queue_max cfg"
      "s' = s\<lparr> kw_market := kw_market s @ [\<lparr>qi_at = now, qi_class = ''ticker'', qi_data = d\<rparr>] \<rparr>"
  | (older) t at0 old where "market_key d = Some t" "dget (kw_pending s) t = Some (at0, old)"
      "s' = s\<lparr> kw_coalesced := kw_coalesced s + 1 \<rparr>"
  | (newer) t at0 old where "market_key d = Some t" "dget (kw_pending s) t = Some (at0, old)"
      "s' = s\<lparr> kw_coalesced := kw_coalesced s + 1, kw_pending := dput t (now, d) (kw_pending s) \<rparr>"
  | (first) t where "market_key d = Some t" "dget (kw_pending s) t = None"
      "s' = s\<lparr> kw_pending := dput t (now, d) (kw_pending s), kw_market := kw_market s
        @ (if kw_pending s = [] \<and> length (kw_market s) < sc_queue_max cfg
           then [\<lparr>qi_at = now, qi_class = TICKER_WAKE, qi_data = JNull\<rparr>] else []) \<rparr>"
proof (cases "market_key d")
  case None
  then show ?thesis using assms dropped queued
    by (cases "length (kw_market s) \<ge> sc_queue_max cfg") (simp_all add: coalesce_ticker_def)
next
  case (Some t)
  show ?thesis
  proof (cases "dget (kw_pending s) t")
    case None
    show ?thesis
    proof (rule first [OF Some None])
      let ?wake = "kw_pending s = [] \<and> length (kw_market s) < sc_queue_max cfg"
      have e: "(kw_pending s = [] \<and> \<not> sc_queue_max cfg \<le> length (kw_market s)) = ?wake" by (simp add: not_le)
      show "s' = s\<lparr> kw_pending := dput t (now, d) (kw_pending s), kw_market := kw_market s
        @ (if ?wake then [\<lparr>qi_at = now, qi_class = TICKER_WAKE, qi_data = JNull\<rparr>] else []) \<rparr>"
        unfolding assms coalesce_ticker_def Some None option.case Let_def e by (cases ?wake) simp_all
    qed
  next
    case present: (Some entry)
    obtain at0 old where e: "entry = (at0, old)" by (cases entry)
    define replace where "replace \<longleftrightarrow> (case (update_ts_ms (body_of d), update_ts_ms (body_of old)) of
      (Some new_ts, Some old_ts) \<Rightarrow> \<not> new_ts < old_ts | _ \<Rightarrow> True)"
    have "s' = (if replace then s\<lparr> kw_coalesced := kw_coalesced s + 1, kw_pending := dput t (now, d) (kw_pending s) \<rparr>
      else s\<lparr> kw_coalesced := kw_coalesced s + 1 \<rparr>)"
      unfolding assms coalesce_ticker_def Some present e option.case prod.case Let_def replace_def
      by (cases "update_ts_ms (body_of d)"; cases "update_ts_ms (body_of old)") simp_all
    then have "replace \<Longrightarrow> s' = s\<lparr> kw_coalesced := kw_coalesced s + 1, kw_pending := dput t (now, d) (kw_pending s) \<rparr>"
      "\<not> replace \<Longrightarrow> s' = s\<lparr> kw_coalesced := kw_coalesced s + 1 \<rparr>" by (simp_all only: if_True if_False)
    then show ?thesis by (cases replace) (rule newer [OF Some present [unfolded e]], assumption,
        rule older [OF Some present [unfolded e]], assumption)
  qed
qed

lemma coalesce_accounts:
  assumes "c \<noteq> TICKER_WAKE"
  shows "accounted g c (snd (coalesce_ticker cfg now d s)) = accounted g c s + (if c = ''ticker'' then 1 else 0)"
    "kw_received_by (snd (coalesce_ticker cfg now d s)) = kw_received_by s"
proof -
  have present: "length (dput t v (kw_pending s)) = length (kw_pending s)" if "dget (kw_pending s) t = Some w" for t v w
    using that dget_eq_None_iff [of "kw_pending s" t] by (intro length_dput_present) auto
  have absent: "length (dput t v (kw_pending s)) = length (kw_pending s) + 1" if "dget (kw_pending s) t = None" for t v
    using that dget_eq_None_iff [of "kw_pending s" t] by (simp add: length_dput_absent)
  have "accounted g c s' = accounted g c s + (if c = ''ticker'' then 1 else 0) \<and> kw_received_by s' = kw_received_by s"
    if "s' = snd (coalesce_ticker cfg now d s)" for s'
    using that
  proof (cases rule: coalesce_cases)
    case queued
    then show ?thesis using accounted_moves(3) [of g c "kw_market s @ [\<lparr>qi_at = now, qi_class = ''ticker'', qi_data = d\<rparr>]" s]
      by simp
  next
    case (older t at0 old)
    then show ?thesis using accounted_moves(8) [of g c "kw_coalesced s + 1" s] by (simp split: if_splits)
  next
    case (newer t at0 old)
    then show ?thesis
      using accounted_moves(8) [of g c "kw_coalesced s + 1" s]
        accounted_moves(7) [of g c "dput t (now, d) (kw_pending s)" "s\<lparr> kw_coalesced := kw_coalesced s + 1 \<rparr>"] present
      by (simp split: if_splits)
  next
    case (first t)
    define w where "w = (if kw_pending s = [] \<and> length (kw_market s) < sc_queue_max cfg
      then [\<lparr>qi_at = now, qi_class = TICKER_WAKE, qi_data = JNull\<rparr>] else [])"
    have "in_class c w = 0" using assms by (simp add: w_def)
    then show ?thesis
      using accounted_moves(7) [of g c "dput t (now, d) (kw_pending s)" s]
        accounted_moves(3) [of g c "kw_market s @ w" "s\<lparr> kw_pending := dput t (now, d) (kw_pending s) \<rparr>"] absent first
      unfolding w_def [symmetric] by (simp split: if_splits)
  qed simp
  then show "accounted g c (snd (coalesce_ticker cfg now d s)) = accounted g c s + (if c = ''ticker'' then 1 else 0)"
    "kw_received_by (snd (coalesce_ticker cfg now d s)) = kw_received_by s" by simp_all
qed

lemma ingest_accounts:
  fixes c :: string
  assumes "c \<noteq> TICKER_WAKE"
  shows "\<exists>n. cnt (kw_received_by (snd (ingest_raw cfg now parsed s))) c = cnt (kw_received_by s) c + n
    \<and> accounted (sc_reader_gate cfg) c (snd (ingest_raw cfg now parsed s)) = accounted (sc_reader_gate cfg) c s + n"
proof (cases parsed)
  case None
  then show ?thesis by (intro exI [of _ 0]) (simp add: ingest_raw_def accounted_def)
next
  case (Some data)
  let ?c = "message_class data"
  let ?s0 = "s\<lparr> kw_messages_received := kw_messages_received s + 1 \<rparr>"
  let ?s1 = "?s0\<lparr> kw_received_by := bump ?c (kw_received_by ?s0) \<rparr>"
  obtain skip s2 where g: "(if ?c = ''trade'' then gate_check cfg (body_of data) ?s1 else (False, ?s1)) = (skip, s2)"
    by (cases "if ?c = ''trade'' then gate_check cfg (body_of data) ?s1 else (False, ?s1)")
  have s1: "accounted (sc_reader_gate cfg) c ?s1 = accounted (sc_reader_gate cfg) c s" by (simp add: accounted_def)
  have s2: "accounted (sc_reader_gate cfg) c s2 = accounted (sc_reader_gate cfg) c s + (if skip \<and> c = ''trade'' then 1 else 0)
    \<and> kw_received_by s2 = bump ?c (kw_received_by s) \<and> (skip \<longrightarrow> ?c = ''trade'')"
  proof (cases "?c = ''trade''")
    case True
    then have "gate_check cfg (body_of data) ?s1 = (skip, s2)" using g by simp
    from gate_check_accounts(1) [OF this, of c] gate_check_accounts(2) [OF this] True s1 show ?thesis by simp
  next
    case False
    then have "skip = False" "s2 = ?s1" using g by simp_all
    then show ?thesis using s1 by simp
  qed
  have eq: "snd (ingest_raw cfg now parsed s) = (if skip then s2
      else if sc_two_consumer_mode cfg \<and> ?c = ''ticker'' then snd (coalesce_ticker cfg now data s2)
      else snd (enqueue_message cfg \<lparr>qi_at = now, qi_class = ?c, qi_data = data\<rparr> s2))"
    unfolding ingest_raw_def Some option.case Let_def g prod.case by simp
  have r2: "cnt (kw_received_by s2) c = cnt (kw_received_by s) c + (if c = ?c then 1 else 0)" using s2 by simp
  show ?thesis
  proof (cases skip)
    case True
    then show ?thesis unfolding eq using s2 r2 by (intro exI [of _ "if c = ?c then 1 else 0"]) simp
  next
    case False
    let ?s' = "snd (ingest_raw cfg now parsed s)"
    have "accounted (sc_reader_gate cfg) c ?s' = accounted (sc_reader_gate cfg) c s2 + (if c = ?c then 1 else 0)
      \<and> kw_received_by ?s' = kw_received_by s2"
      using False coalesce_accounts(1) [OF assms, of "sc_reader_gate cfg" cfg now data s2]
        coalesce_accounts(2) [OF assms, of cfg now data s2]
      by (cases "sc_two_consumer_mode cfg \<and> ?c = ''ticker''") (simp_all add: eq enqueue_accounts)
    then show ?thesis using s2 r2 False by (intro exI [of _ "if c = ?c then 1 else 0"]) simp
  qed
qed

lemma flush_loop_accounts:
  "flush_loop n run s = (k, s') \<Longrightarrow> accounted g c s' = accounted g c s \<and> kw_received_by s' = kw_received_by s"
proof (induction n arbitrary: s k)
  case (Suc n)
  show ?case
  proof (cases "kw_pending s")
    case (Cons p rest)
    obtain ticker at0 data where p: "p = (ticker, at0, data)" by (cases p) auto
    obtain e t u where r: "run ticker = (e, t, u)" by (cases "run ticker") auto
    let ?s1 = "process_item e t u \<lparr>qi_at = at0, qi_class = ''ticker'', qi_data = data\<rparr> (s\<lparr> kw_pending := rest \<rparr>)"
    obtain k1 where "flush_loop n run ?s1 = (k1, s')"
      using Suc.prems by (auto simp: Cons p r split: prod.splits)
    then have "accounted g c s' = accounted g c ?s1 \<and> kw_received_by s' = kw_received_by ?s1" by (rule Suc.IH)
    then show ?thesis by (simp add: accounted_def Cons)
  qed (use Suc.prems in simp)
qed simp

lemma flush_accounts:
  "accounted g c (flush_pending_tickers run s) = accounted g c s"
  "kw_received_by (flush_pending_tickers run s) = kw_received_by s"
proof -
  obtain k s' where f: "flush_loop TICKER_FLUSH_BATCH_MAX run (s\<lparr> kw_flush_runs := kw_flush_runs s + 1 \<rparr>) = (k, s')"
    by (cases "flush_loop TICKER_FLUSH_BATCH_MAX run (s\<lparr> kw_flush_runs := kw_flush_runs s + 1 \<rparr>)")
  show "accounted g c (flush_pending_tickers run s) = accounted g c s"
    "kw_received_by (flush_pending_tickers run s) = kw_received_by s"
    using flush_loop_accounts [OF f, of g c] f by (simp_all add: flush_pending_tickers_def)
qed

lemma cancel_running_frame:
  "accounted g c (cancel_running clocks ts s) = accounted g c s + in_class c (map tk_item (filter tk_running ts))"
  "kw_received_by (cancel_running clocks ts s) = kw_received_by s"
  "kw_tasks (cancel_running clocks ts s) = kw_tasks s" "kw_held (cancel_running clocks ts s) = kw_held s"
  "kw_held_market (cancel_running clocks ts s) = kw_held_market s"
  unfolding cancel_running_def by (induction ts arbitrary: s) auto

lemma cancel_running_queues:
  "kw_queue (cancel_running clocks ts s) = kw_queue s" "kw_critical (cancel_running clocks ts s) = kw_critical s"
  "kw_market (cancel_running clocks ts s) = kw_market s" "kw_high_water (cancel_running clocks ts s) = kw_high_water s"
  "kw_pending (cancel_running clocks ts s) = kw_pending s"
  unfolding cancel_running_def by (induction ts arbitrary: s) auto

lemma in_class_split:
  "in_class c (map tk_item ts) = in_class c (map tk_item (filter tk_running ts))
     + in_class c (map tk_item (filter (\<lambda>t. \<not> tk_running t) ts))"
  by (induction ts) auto

lemma count_list_classes: "count_list (map (\<lambda>t. qi_class (tk_item t)) ts) c = in_class c (map tk_item ts)"
  by (induction ts) auto

lemma count_list_held: "count_list (classes_of h) c = held_in c h"
  by (simp add: classes_of_def split: option.split)

lemma drop_connection_accounts:
  "accounted g c s = accounted g c (drop_connection clocks wall s) + count_list (cancelled_unstarted s) c"
  "kw_received_by (drop_connection clocks wall s) = kw_received_by s"
proof -
  have "accounted g c (drop_connection clocks wall s) + in_class c (map tk_item (kw_tasks s)) + held_in c (kw_held s)
      + held_in c (kw_held_market s) = accounted g c (cancel_running clocks (kw_tasks s) s)"
    by (simp add: drop_connection_def record_disconnect_def accounted_def cancel_running_frame)
  then show "accounted g c s = accounted g c (drop_connection clocks wall s) + count_list (cancelled_unstarted s) c"
    using in_class_split [of c "kw_tasks s"]
    by (simp add: cancel_running_frame cancelled_unstarted_def count_list_classes count_list_held)
  show "kw_received_by (drop_connection clocks wall s) = kw_received_by s"
    by (simp add: drop_connection_def record_disconnect_def cancel_running_frame)
qed

lemma count_reconnect_accounts:
  assumes "c \<noteq> TICKER_WAKE"
  shows "cnt (kw_discarded_by (count_reconnect_discards s)) c = cnt (kw_discarded_by s) c + in_class c (kw_queue s)
    + in_class c (kw_critical s) + in_class c (kw_market s) + (if c = ''ticker'' then length (kw_pending s) else 0)"
  using assms by (simp add: count_reconnect_discards_def Let_def cnt_count_discards)

lemma count_reconnect_frame: "count_reconnect_discards s = s\<lparr> kw_discarded_by := kw_discarded_by (count_reconnect_discards s) \<rparr>"
  by (simp add: count_reconnect_discards_def Let_def)

lemma begin_connection_shape:
  "\<exists>n last window. begin_connection now s = (count_reconnect_discards s)\<lparr> kw_queue := [], kw_critical := [], kw_market := [],
     kw_pending := [], kw_connects := n, kw_parked := False, kw_last_gap_sec := last, kw_gap_sec_window := window \<rparr>"
proof (cases "kw_last_disconnect_at (count_reconnect_discards s)")
  case None
  then show ?thesis
    by (intro exI [of _ "kw_connects s + 1"] exI [of _ "kw_last_gap_sec (count_reconnect_discards s)"]
        exI [of _ "kw_gap_sec_window (count_reconnect_discards s)"]) (simp add: begin_connection_def Let_def)
next
  case (Some lost_at)
  let ?gap = "fsub now lost_at"
  let ?g = "\<lambda>old. if ?gap \<ge> 0 then Some (py_round 3 ?gap) else old"
  show ?thesis using Some
    by (intro exI [of _ "kw_connects s + 1"] exI [of _ "?g (kw_last_gap_sec (count_reconnect_discards s))"]
        exI [of _ "?g (kw_gap_sec_window (count_reconnect_discards s))"]) (simp add: begin_connection_def Let_def)
qed

lemma begin_connection_accounts:
  assumes "c \<noteq> TICKER_WAKE"
  shows "accounted g c (begin_connection now s) = accounted g c s"
    "kw_received_by (begin_connection now s) = kw_received_by s"
proof -
  obtain n last window where b: "begin_connection now s = (count_reconnect_discards s)\<lparr> kw_queue := [], kw_critical := [],
     kw_market := [], kw_pending := [], kw_connects := n, kw_parked := False, kw_last_gap_sec := last, kw_gap_sec_window := window \<rparr>"
    using begin_connection_shape by blast
  show "accounted g c (begin_connection now s) = accounted g c s"
    unfolding b using count_reconnect_accounts [OF assms, of s]
    by (subst count_reconnect_frame) (simp add: accounted_def)
  show "kw_received_by (begin_connection now s) = kw_received_by s"
    unfolding b by (subst count_reconnect_frame) simp
qed

lemma step_accounts:
  assumes "stream_step Q gate s lost s'" "c \<noteq> TICKER_WAKE"
  shows "cnt (kw_received_by s) c + accounted gate c s' + count_list lost c = cnt (kw_received_by s') c + accounted gate c s"
  using assms(1)
proof (cases rule: stream_step.cases)
  case (ingest cfg now parsed)
  then show ?thesis using ingest_accounts [OF assms(2), of cfg now parsed s] by auto
next
  case (take_single i q e started ended)
  then show ?thesis
    using accounted_moves(1) [of gate c q s] accounted_moves(5) [of gate c "Some i" "s\<lparr> kw_queue := q \<rparr>"]
    by (cases "qi_class i = c"; cases "qi_class i = ''trade''") auto
next
  case (take_critical i q e started ended)
  then show ?thesis using accounted_moves(2) [of gate c q s] by (cases "qi_class i = c") auto
next
  case (take_market i q e started ended)
  then show ?thesis
    using accounted_moves(3) [of gate c q s] assms(2)
      accounted_moves(6) [of gate c "Some i" "s\<lparr> kw_market := q, kw_parked := False \<rparr>"]
    by (cases "qi_class i = c"; cases "qi_class i = ''trade''"; cases "qi_class i = TICKER_WAKE") auto
next
  case (take_pending t at0 data rest e started ended)
  then show ?thesis using accounted_moves(7) [of gate c rest s] by (cases "c = ''ticker''") auto
next
  case (dispatch_single i)
  then show ?thesis
    using accounted_moves(5) [of gate c None s]
      accounted_moves(4) [of gate c "kw_tasks s @ [\<lparr>tk_item = i, tk_running = False\<rparr>]" "s\<lparr> kw_held := None \<rparr>"] by simp
next
  case (dispatch_market i)
  then show ?thesis
    using accounted_moves(6) [of gate c None s]
      accounted_moves(4) [of gate c "kw_tasks s @ [\<lparr>tk_item = i, tk_running = False\<rparr>]" "s\<lparr> kw_held_market := None \<rparr>"] by simp
next
  case (start_task xs t ys)
  then show ?thesis using accounted_moves(4) [of gate c "xs @ t\<lparr> tk_running := True \<rparr> # ys" s] by simp
next
  case (finish_task xs t ys e started ended)
  then show ?thesis using accounted_moves(4) [of gate c "xs @ ys" s]
    by (cases "qi_class (tk_item t) = c") auto
next
  case (flush run)
  then show ?thesis by (simp add: flush_accounts)
next
  case (disconnect clocks wall)
  then show ?thesis using drop_connection_accounts(1) [of gate c s clocks wall]
      drop_connection_accounts(2) [of clocks wall s] by simp
next
  case (connect now)
  then show ?thesis by (simp add: begin_connection_accounts(1) [OF assms(2)] begin_connection_accounts(2) [OF assms(2)])
next
  case reset
  then show ?thesis by (simp add: reset_ingest_window_def accounted_def)
next
  case liveness
  have "accounted gate c (snd (ensure_consumer_progressing s)) = accounted gate c s
    \<and> kw_received_by (snd (ensure_consumer_progressing s)) = kw_received_by s"
    unfolding ensure_consumer_progressing_def Let_def by (simp add: accounted_def)
  then show ?thesis using liveness by simp
qed simp_all

text \<open>Only trades are ever held back for a task, so only trades can be cancelled unstarted.\<close>

definition held_trades :: "queued option \<Rightarrow> bool" where
  "held_trades h = (case h of None \<Rightarrow> True | Some i \<Rightarrow> qi_class i = ''trade'')"

definition trades_held :: "stream \<Rightarrow> bool" where
  "trades_held s \<longleftrightarrow> list_all (\<lambda>t. qi_class (tk_item t) = ''trade'') (kw_tasks s)
     \<and> held_trades (kw_held s) \<and> held_trades (kw_held_market s)"

text \<open>What the reader, a flush and a reconnect leave alone: everything the dispatch of trades keeps.\<close>

definition same_dispatch :: "stream \<Rightarrow> stream \<Rightarrow> bool" where
  "same_dispatch s s' \<longleftrightarrow> kw_tasks s' = kw_tasks s \<and> kw_held s' = kw_held s \<and> kw_held_market s' = kw_held_market s"

lemma same_dispatch_ingest: "same_dispatch s (snd (ingest_raw cfg now parsed s))"
proof (cases parsed)
  case None
  then show ?thesis by (simp add: ingest_raw_def same_dispatch_def)
next
  case (Some data)
  let ?c = "message_class data"
  let ?s0 = "s\<lparr> kw_messages_received := kw_messages_received s + 1 \<rparr>"
  let ?s1 = "?s0\<lparr> kw_received_by := bump ?c (kw_received_by ?s0) \<rparr>"
  obtain skip s2 where g: "(if ?c = ''trade'' then gate_check cfg (body_of data) ?s1 else (False, ?s1)) = (skip, s2)"
    by (cases "if ?c = ''trade'' then gate_check cfg (body_of data) ?s1 else (False, ?s1)")
  have s2: "same_dispatch s s2"
  proof (cases "?c = ''trade''")
    case True
    then have "gate_check cfg (body_of data) ?s1 = (skip, s2)" using g by simp
    then show ?thesis by (auto simp: same_dispatch_def gate_check_def Let_def split: if_splits option.splits)
  next
    case False
    then show ?thesis using g by (auto simp: same_dispatch_def)
  qed
  have e: "same_dispatch s2 (snd (enqueue_message cfg i s2))" for i
    by (rule enqueue_cases [OF refl, where s = s2 and cfg = cfg and i = i]) (simp_all add: same_dispatch_def drop_message_def)
  have t: "same_dispatch s2 (snd (coalesce_ticker cfg now data s2))"
    by (rule coalesce_cases [OF refl, where s = s2 and cfg = cfg and now = now and d = data])
      (simp_all add: same_dispatch_def drop_message_def)
  have "snd (ingest_raw cfg now parsed s) = (if skip then s2
      else if sc_two_consumer_mode cfg \<and> ?c = ''ticker'' then snd (coalesce_ticker cfg now data s2)
      else snd (enqueue_message cfg \<lparr>qi_at = now, qi_class = ?c, qi_data = data\<rparr> s2))"
    unfolding ingest_raw_def Some option.case Let_def g prod.case by simp
  then show ?thesis using s2 e t by (simp add: same_dispatch_def split: if_splits)
qed

lemma flush_loop_frame:
  "flush_loop n run s = (k, s') \<Longrightarrow> same_dispatch s s' \<and> kw_queue s' = kw_queue s \<and> kw_critical s' = kw_critical s
     \<and> kw_market s' = kw_market s \<and> kw_high_water s' = kw_high_water s \<and> kw_parked s' = kw_parked s
     \<and> (\<exists>m. kw_pending s' = drop m (kw_pending s))"
proof (induction n arbitrary: s k)
  case 0
  then show ?case by (auto simp: same_dispatch_def intro: exI [of _ 0])
next
  case (Suc n)
  show ?case
  proof (cases "kw_pending s")
    case Nil
    then show ?thesis using Suc.prems by (auto simp: same_dispatch_def)
  next
    case (Cons p rest)
    obtain ticker at0 data where p: "p = (ticker, at0, data)" by (cases p) auto
    obtain e t u where r: "run ticker = (e, t, u)" by (cases "run ticker") auto
    let ?s1 = "process_item e t u \<lparr>qi_at = at0, qi_class = ''ticker'', qi_data = data\<rparr> (s\<lparr> kw_pending := rest \<rparr>)"
    obtain k1 where "flush_loop n run ?s1 = (k1, s')"
      using Suc.prems by (auto simp: Cons p r split: prod.splits)
    from Suc.IH [OF this] obtain m where "kw_pending s' = drop m rest" and
      rest: "same_dispatch ?s1 s'" "kw_queue s' = kw_queue s" "kw_critical s' = kw_critical s" "kw_market s' = kw_market s"
        "kw_high_water s' = kw_high_water s" "kw_parked s' = kw_parked s" by auto
    then have "kw_pending s' = drop (Suc m) (kw_pending s)" by (simp add: Cons)
    then show ?thesis using rest by (auto simp: same_dispatch_def)
  qed
qed

lemma flush_frame:
  "same_dispatch s (flush_pending_tickers run s) \<and> kw_queue (flush_pending_tickers run s) = kw_queue s
   \<and> kw_critical (flush_pending_tickers run s) = kw_critical s \<and> kw_market (flush_pending_tickers run s) = kw_market s
   \<and> kw_high_water (flush_pending_tickers run s) = kw_high_water s \<and> kw_parked (flush_pending_tickers run s) = kw_parked s
   \<and> (\<exists>m. kw_pending (flush_pending_tickers run s) = drop m (kw_pending s))"
proof -
  obtain k s' where f: "flush_loop TICKER_FLUSH_BATCH_MAX run (s\<lparr> kw_flush_runs := kw_flush_runs s + 1 \<rparr>) = (k, s')"
    by (cases "flush_loop TICKER_FLUSH_BATCH_MAX run (s\<lparr> kw_flush_runs := kw_flush_runs s + 1 \<rparr>)")
  show ?thesis using flush_loop_frame [OF f] f by (simp add: flush_pending_tickers_def same_dispatch_def)
qed

lemma begin_connection_frame:
  "same_dispatch s (begin_connection now s)" "kw_queue (begin_connection now s) = []"
  "kw_critical (begin_connection now s) = []" "kw_market (begin_connection now s) = []"
  "kw_pending (begin_connection now s) = []" "kw_high_water (begin_connection now s) = kw_high_water s"
  "\<not> kw_parked (begin_connection now s)"
proof -
  obtain n last window where b: "begin_connection now s = (count_reconnect_discards s)\<lparr> kw_queue := [], kw_critical := [],
     kw_market := [], kw_pending := [], kw_connects := n, kw_parked := False, kw_last_gap_sec := last, kw_gap_sec_window := window \<rparr>"
    using begin_connection_shape by blast
  show "same_dispatch s (begin_connection now s)" "kw_queue (begin_connection now s) = []"
    "kw_critical (begin_connection now s) = []" "kw_market (begin_connection now s) = []"
    "kw_pending (begin_connection now s) = []" "kw_high_water (begin_connection now s) = kw_high_water s"
    "\<not> kw_parked (begin_connection now s)"
    unfolding b same_dispatch_def by (subst count_reconnect_frame, simp)+
qed

lemma liveness_frame:
  "same_dispatch s (snd (ensure_consumer_progressing s))"
  "kw_queue (snd (ensure_consumer_progressing s)) = kw_queue s" "kw_critical (snd (ensure_consumer_progressing s)) = kw_critical s"
  "kw_market (snd (ensure_consumer_progressing s)) = kw_market s" "kw_pending (snd (ensure_consumer_progressing s)) = kw_pending s"
  "kw_high_water (snd (ensure_consumer_progressing s)) = kw_high_water s"
  "kw_parked (snd (ensure_consumer_progressing s)) = kw_parked s"
  unfolding ensure_consumer_progressing_def Let_def by (simp_all add: same_dispatch_def)

lemma step_trades_held:
  assumes "stream_step Q gate s lost s'" "trades_held s"
  shows "trades_held s' \<and> list_all (\<lambda>c. c = ''trade'') lost"
  using assms
proof (cases rule: stream_step.cases)
  case (ingest cfg now parsed)
  then show ?thesis using assms(2) same_dispatch_ingest [of s cfg now parsed] by (simp add: trades_held_def same_dispatch_def)
next
  case (disconnect clocks wall)
  have "list_all (\<lambda>c. c = ''trade'') (cancelled_unstarted s)"
    using assms(2) by (auto simp: trades_held_def cancelled_unstarted_def classes_of_def held_trades_def list_all_iff
        split: option.splits)
  then show ?thesis using disconnect by (simp add: trades_held_def held_trades_def drop_connection_def record_disconnect_def)
next
  case (connect now)
  then show ?thesis using assms(2) begin_connection_frame(1) [of s now] by (simp add: trades_held_def same_dispatch_def)
next
  case (flush run)
  then show ?thesis using assms(2) flush_frame [of s run] by (simp add: trades_held_def same_dispatch_def)
next
  case liveness
  then show ?thesis using assms(2) liveness_frame(1) [of s] by (simp add: trades_held_def same_dispatch_def)
qed (auto simp: trades_held_def held_trades_def reset_ingest_window_def)

subsection \<open>Bounds, order and wakefulness\<close>

text \<open>What the reader may change of the queues.\<close>

definition reader_change :: "nat \<Rightarrow> stream \<Rightarrow> stream \<Rightarrow> bool" where
  "reader_change Q s s' \<longleftrightarrow>
     (kw_queue s' = kw_queue s \<or> length (kw_queue s') = length (kw_queue s) + 1 \<and> length (kw_queue s) < Q)
     \<and> (kw_critical s' = kw_critical s \<or> length (kw_critical s') = length (kw_critical s) + 1 \<and> length (kw_critical s) < Q)
     \<and> (kw_market s' = kw_market s \<or> length (kw_market s') = length (kw_market s) + 1 \<and> length (kw_market s) < Q)
     \<and> kw_high_water s' \<le> max (kw_high_water s) Q
     \<and> kw_parked s' = kw_parked s
     \<and> (kw_pending s' \<noteq> [] \<longrightarrow> kw_pending s \<noteq> [] \<or> kw_market s' \<noteq> [] \<or> Q = 0)"

lemma reader_change_ingest: "reader_change (sc_queue_max cfg) s (snd (ingest_raw cfg now parsed s))"
proof (cases parsed)
  case None
  then show ?thesis by (simp add: ingest_raw_def reader_change_def)
next
  case (Some data)
  let ?Q = "sc_queue_max cfg"
  let ?c = "message_class data"
  let ?s0 = "s\<lparr> kw_messages_received := kw_messages_received s + 1 \<rparr>"
  let ?s1 = "?s0\<lparr> kw_received_by := bump ?c (kw_received_by ?s0) \<rparr>"
  obtain skip s2 where g: "(if ?c = ''trade'' then gate_check cfg (body_of data) ?s1 else (False, ?s1)) = (skip, s2)"
    by (cases "if ?c = ''trade'' then gate_check cfg (body_of data) ?s1 else (False, ?s1)")
  have s2: "kw_queue s2 = kw_queue s \<and> kw_critical s2 = kw_critical s \<and> kw_market s2 = kw_market s
    \<and> kw_high_water s2 = kw_high_water s \<and> kw_parked s2 = kw_parked s \<and> kw_pending s2 = kw_pending s"
  proof (cases "?c = ''trade''")
    case True
    then have "gate_check cfg (body_of data) ?s1 = (skip, s2)" using g by simp
    then show ?thesis by (auto simp: gate_check_def Let_def split: if_splits option.splits)
  next
    case False
    then show ?thesis using g by auto
  qed
  have none: "reader_change ?Q s2 s2" by (simp add: reader_change_def)
  have e: "reader_change ?Q s2 (snd (enqueue_message cfg i s2))" for i
    by (rule enqueue_cases [OF refl, where s = s2 and cfg = cfg and i = i])
      (simp_all add: reader_change_def drop_message_def)
  have t: "reader_change ?Q s2 (snd (coalesce_ticker cfg now data s2))"
  proof (rule coalesce_cases [OF refl, where s = s2 and cfg = cfg and now = now and d = data], goal_cases)
    case (5 t)
    then show ?case
      by (cases "kw_pending s2 = []"; cases "length (kw_market s2) < ?Q"; cases "kw_market s2")
        (simp_all add: reader_change_def)
  next
    case (3 t at0 old)
    then show ?case by (simp add: reader_change_def)
  next
    case (4 t at0 old)
    then have "kw_pending s2 \<noteq> []" by auto
    then show ?case using 4 by (simp add: reader_change_def)
  qed (simp_all add: reader_change_def drop_message_def)
  have "snd (ingest_raw cfg now parsed s) = (if skip then s2
      else if sc_two_consumer_mode cfg \<and> ?c = ''ticker'' then snd (coalesce_ticker cfg now data s2)
      else snd (enqueue_message cfg \<lparr>qi_at = now, qi_class = ?c, qi_data = data\<rparr> s2))"
    unfolding ingest_raw_def Some option.case Let_def g prod.case by simp
  then have "reader_change ?Q s2 (snd (ingest_raw cfg now parsed s))"
    using none e t by simp
  then show ?thesis using s2 by (simp add: reader_change_def)
qed

definition within_bounds :: "nat \<Rightarrow> stream \<Rightarrow> bool" where
  "within_bounds Q s \<longleftrightarrow> length (kw_queue s) \<le> Q \<and> length (kw_critical s) \<le> Q \<and> length (kw_market s) \<le> Q
     \<and> kw_high_water s \<le> Q \<and> length (kw_tasks s) \<le> TRADE_DISPATCH_CONCURRENCY"

fun serial :: "trade_task list \<Rightarrow> bool" where
  "serial [] = True"
| "serial (t # ts) \<longleftrightarrow> list_all (\<lambda>u. tk_running u \<longrightarrow> task_key u \<noteq> task_key t) ts \<and> serial ts"

lemma serial_append:
  "serial (xs @ ys) \<longleftrightarrow> serial xs \<and> serial ys \<and> (\<forall>t\<in>set xs. \<forall>u\<in>set ys. tk_running u \<longrightarrow> task_key u \<noteq> task_key t)"
  by (induction xs) (auto simp: list_all_iff)

lemma task_key_running [simp]: "task_key (t\<lparr> tk_running := b \<rparr>) = task_key t"
  by (simp add: task_key_def)

lemma serial_start:
  assumes "serial (xs @ t # ys)" "list_all (\<lambda>x. task_key x \<noteq> task_key t) xs"
  shows "serial (xs @ t\<lparr> tk_running := True \<rparr> # ys)"
  using assms by (auto simp: serial_append list_all_iff)

lemma serial_finish: "serial (xs @ t # ys) \<Longrightarrow> serial (xs @ ys)"
  by (auto simp: serial_append)

lemma serial_front:
  assumes "serial (xs @ t # ys)" "tk_running t"
  shows "task_key t \<notin> set (map task_key xs)"
  using assms by (auto simp: serial_append)

text \<open>A parked consumer has something in its queue whenever a ticker is pending.\<close>

definition wakeful :: "stream \<Rightarrow> bool" where
  "wakeful s \<longleftrightarrow> (kw_parked s \<and> kw_pending s \<noteq> [] \<longrightarrow> kw_market s \<noteq> [])"

definition stream_ok :: "nat \<Rightarrow> stream \<Rightarrow> bool" where
  "stream_ok Q s \<longleftrightarrow> within_bounds Q s \<and> serial (kw_tasks s) \<and> wakeful s"

lemma reader_change_ok:
  assumes "reader_change Q s s'" "kw_tasks s' = kw_tasks s" "stream_ok Q s" "Q > 0"
  shows "stream_ok Q s'"
proof -
  have "kw_market s' = [] \<Longrightarrow> kw_market s = []" using assms(1) by (auto simp: reader_change_def)
  then have "wakeful s'" using assms(1,3,4) unfolding wakeful_def reader_change_def stream_ok_def by blast
  moreover have "within_bounds Q s'"
    using assms(1-3) by (auto simp: within_bounds_def reader_change_def stream_ok_def)
  ultimately show ?thesis using assms(2,3) by (simp add: stream_ok_def)
qed

lemma step_ok:
  assumes "stream_step Q gate s lost s'" "stream_ok Q s" "Q > 0"
  shows "stream_ok Q s'"
  using assms(1)
proof (cases rule: stream_step.cases)
  case (ingest cfg now parsed)
  have "reader_change Q s s'" using reader_change_ingest [of cfg s now parsed] ingest by simp
  moreover have "kw_tasks s' = kw_tasks s" using same_dispatch_ingest [of s cfg now parsed] ingest
    by (simp add: same_dispatch_def)
  ultimately show ?thesis using assms(2,3) by (rule reader_change_ok)
next
  case (start_task xs t ys)
  then have "serial (xs @ t\<lparr> tk_running := True \<rparr> # ys)"
    using assms(2) by (intro serial_start) (simp_all add: stream_ok_def)
  then show ?thesis using start_task assms(2) by (simp add: stream_ok_def within_bounds_def wakeful_def)
next
  case (finish_task xs t ys e started ended)
  then have "serial (xs @ t # ys)" using assms(2) by (simp add: stream_ok_def)
  then have "serial (xs @ ys)" by (rule serial_finish)
  then show ?thesis using finish_task assms(2) by (simp add: stream_ok_def within_bounds_def wakeful_def)
next
  case (flush run)
  obtain m where "kw_pending s' = drop m (kw_pending s)" using flush flush_frame [of s run] by auto
  then have "kw_pending s' \<noteq> [] \<Longrightarrow> kw_pending s \<noteq> []" by auto
  then show ?thesis using flush flush_frame [of s run] assms(2)
    by (simp add: stream_ok_def within_bounds_def wakeful_def same_dispatch_def)
next
  case (connect now)
  then show ?thesis using begin_connection_frame(1) [of s now] assms(2)
    by (simp add: stream_ok_def within_bounds_def wakeful_def same_dispatch_def begin_connection_frame)
next
  case (disconnect clocks wall)
  have "kw_queue s' = kw_queue s" "kw_critical s' = kw_critical s" "kw_market s' = kw_market s"
    "kw_high_water s' = kw_high_water s" "kw_tasks s' = []" "\<not> kw_parked s'"
    using disconnect cancel_running_queues [of clocks "kw_tasks s" s]
    by (simp_all add: drop_connection_def record_disconnect_def)
  then show ?thesis using assms(2) by (simp add: stream_ok_def within_bounds_def wakeful_def)
next
  case liveness
  then show ?thesis using liveness_frame [of s] assms(2)
    by (simp add: stream_ok_def within_bounds_def wakeful_def same_dispatch_def)
next
  case (dispatch_single i)
  then show ?thesis using assms(2)
    by (simp add: stream_ok_def within_bounds_def wakeful_def serial_append)
next
  case (dispatch_market i)
  then show ?thesis using assms(2)
    by (simp add: stream_ok_def within_bounds_def wakeful_def serial_append)
next
  case (take_single i q e started ended)
  then show ?thesis using assms(2)
    by (cases "qi_class i = ''trade''") (simp_all add: stream_ok_def within_bounds_def wakeful_def)
next
  case (take_critical i q e started ended)
  then show ?thesis using assms(2) by (simp add: stream_ok_def within_bounds_def wakeful_def)
next
  case (take_market i q e started ended)
  then show ?thesis using assms(2)
    by (cases "qi_class i = TICKER_WAKE"; cases "qi_class i = ''trade''")
      (simp_all add: stream_ok_def within_bounds_def wakeful_def)
next
  case (take_pending t at0 data rest e started ended)
  then show ?thesis using assms(2) by (simp add: stream_ok_def within_bounds_def wakeful_def)
next
  case park
  then show ?thesis using assms(2) by (simp add: stream_ok_def within_bounds_def wakeful_def)
next
  case reset
  then show ?thesis using assms(2) by (simp add: stream_ok_def within_bounds_def wakeful_def reset_ingest_window_def)
qed

subsection \<open>Runs\<close>

lemma run_accounts:
  assumes "stream_run Q gate s lost s'" "c \<noteq> TICKER_WAKE"
  shows "cnt (kw_received_by s) c + accounted gate c s' + count_list lost c = cnt (kw_received_by s') c + accounted gate c s"
  using assms(1)
proof induction
  case (run_more s lost v now w)
  then show ?case using step_accounts [OF run_more.hyps(2) assms(2)] by simp
qed simp

lemma run_trades_held:
  assumes "stream_run Q gate s lost s'" "trades_held s"
  shows "trades_held s' \<and> list_all (\<lambda>c. c = ''trade'') lost"
  using assms
proof induction
  case (run_more s lost v now w)
  then show ?case using step_trades_held [OF run_more.hyps(2)] by simp
qed simp

lemma run_ok:
  assumes "stream_run Q gate s lost s'" "Q > 0" "stream_ok Q s"
  shows "stream_ok Q s'"
  using assms
proof induction
  case (run_more s lost v now w)
  then show ?case using step_ok by blast
qed simp

lemma init_stream_facts:
  "stream_ok Q init_stream" "trades_held init_stream" "accounted gate c init_stream = 0" "kw_received_by init_stream = []"
  by (simp_all add: init_stream_def stream_ok_def within_bounds_def wakeful_def trades_held_def held_trades_def accounted_def)



subsection \<open>A cancelled trade\<close>

definition demo_cfg :: stream_cfg where
  "demo_cfg = \<lparr>sc_queue_max = 10, sc_two_consumer_mode = False, sc_reader_gate = False, sc_whale_watcher = [],
     sc_titles = empty_title_cache\<rparr>"

definition demo_trade :: json where
  "demo_trade = JObj [(''type'', JStr ''trade''), (''msg'', JObj [(''market_ticker'', JStr ''KXBTC-1'')])]"

definition demo_item :: queued where
  "demo_item = \<lparr>qi_at = 100, qi_class = ''trade'', qi_data = demo_trade\<rparr>"

definition demo_in :: stream where
  "demo_in = snd (ingest_raw demo_cfg 100 (Some demo_trade) init_stream)"

definition demo_out :: stream where
  "demo_out = drop_connection (\<lambda>i. (101, 101)) 102
     (demo_in\<lparr> kw_queue := [], kw_held := None, kw_tasks := [\<lparr>tk_item = demo_item, tk_running = False\<rparr>] \<rparr>)"

lemma demo_in_fields:
  "kw_queue demo_in = [demo_item]" "kw_held demo_in = None" "kw_held_market demo_in = None" "kw_tasks demo_in = []"
  by code_simp+

lemma demo_run: "stream_run 10 False init_stream [''trade''] demo_out"
proof -
  have t: "qi_class demo_item = ''trade''" by (simp add: demo_item_def)
  let ?a = "demo_in\<lparr> kw_queue := [], kw_held := Some demo_item \<rparr>"
  let ?b = "demo_in\<lparr> kw_queue := [], kw_held := None, kw_tasks := [\<lparr>tk_item = demo_item, tk_running = False\<rparr>] \<rparr>"
  have "stream_step 10 False init_stream [] demo_in"
    unfolding demo_in_def by (rule stream_step.ingest) (simp_all add: demo_cfg_def)
  moreover have "stream_step 10 False demo_in [] ?a"
    using stream_step.take_single [of demo_in demo_item "[]" 10 False] demo_in_fields t by simp
  moreover have "stream_step 10 False ?a [] ?b"
    using stream_step.dispatch_single [of ?a demo_item 10 False] demo_in_fields by (simp add: TRADE_DISPATCH_CONCURRENCY_def)
  moreover have "cancelled_unstarted ?b = [''trade'']"
    using demo_in_fields t by (simp add: cancelled_unstarted_def classes_of_def)
  then have "stream_step 10 False ?b [''trade''] demo_out"
    unfolding demo_out_def using stream_step.disconnect [of 10 False ?b] by metis
  ultimately have "stream_run 10 False init_stream ((([] @ []) @ [] @ []) @ [''trade'']) demo_out"
    by (metis append.right_neutral run_more run_none)
  then show ?thesis by simp
qed



text \<open>
  A trade that was dispatched but still waits for an earlier trade of its market when the
  connection drops is cancelled before its processing begins: it was received, and is then neither
  processed nor dropped, discarded, queued or held. The comment of \<open>_count_reconnect_discards\<close>
  holds that whatever a consumer has dequeued is counted as processed even under cancellation.
\<close>
theorem cancelled_trade_is_uncounted:
  "stream_run 10 False init_stream [''trade''] demo_out
   \<and> kw_received_by demo_out = [(''trade'', 1)] \<and> kw_processed_by demo_out = [] \<and> kw_dropped_by demo_out = []
   \<and> kw_discarded_by demo_out = [] \<and> kw_queue demo_out = [] \<and> kw_tasks demo_out = [] \<and> kw_held demo_out = None"
proof -
  have "kw_received_by demo_out = [(''trade'', 1)] \<and> kw_processed_by demo_out = [] \<and> kw_dropped_by demo_out = []
   \<and> kw_discarded_by demo_out = [] \<and> kw_queue demo_out = [] \<and> kw_tasks demo_out = [] \<and> kw_held demo_out = None"
    by code_simp
  then show ?thesis using demo_run by blast
qed

subsection \<open>Tickers and gaps\<close>

text \<open>
  A ticker update that meets a pending one of its market leaves one pending entry: the later of
  the two by their own timestamps when both have one, the arriving one otherwise; the other
  markets' entries and the queues stay as they were, and the superseded one is counted.
\<close>
theorem newest_ticker_wins:
  assumes "market_key d = Some t" "dget (kw_pending s) t = Some (at0, old)"
  shows "let s' = snd (coalesce_ticker cfg now d s) in
    (\<exists>stamp kept. dget (kw_pending s') t = Some (stamp, kept) \<and> kept \<in> {d, old}
       \<and> (case (update_ts_ms (body_of d), update_ts_ms (body_of old)) of
            (Some a, Some b) \<Rightarrow> update_ts_ms (body_of kept) = Some (max a b)
          | _ \<Rightarrow> kept = d))
    \<and> kw_coalesced s' = kw_coalesced s + 1 \<and> kw_market s' = kw_market s \<and> length (kw_pending s') = length (kw_pending s)
    \<and> (u \<noteq> t \<longrightarrow> dget (kw_pending s') u = dget (kw_pending s) u)"
proof -
  have len: "length (dput t v (kw_pending s)) = length (kw_pending s)" for v
    using assms(2) dget_eq_None_iff [of "kw_pending s" t] by (intro length_dput_present) auto
  show ?thesis
    unfolding Let_def coalesce_ticker_def assms option.case prod.case using assms(2) len
    by (cases "update_ts_ms (body_of d)"; cases "update_ts_ms (body_of old)") (auto simp: max_def)
qed

definition connection_metrics :: "stream \<Rightarrow> disconnect_metrics" where
  "connection_metrics s = \<lparr>dm_reconnects = kw_reconnects s, dm_last_disconnect_at = kw_last_disconnect_at s,
     dm_last_gap_sec = kw_last_gap_sec s\<rparr>"

text \<open>
  When the wall clock steps back across a reconnect, the gateway records no gap of its own but
  keeps the one of the previous outage, and the gap detector then reports the new outage with that
  stale length; its documentation says such a reconnect reports nothing.
\<close>
theorem skewed_reconnect_reports_the_old_gap:
  assumes "kw_last_disconnect_at s = Some lost_at" "fsub now lost_at < 0" "kw_last_gap_sec s = Some old_gap"
    "kw_reconnects s > bf_last_seen_reconnects b"
  shows "fst (detect_gap (connection_metrics (begin_connection now s)) b)
    = Some \<lparr>gp_reconnect_at = fadd lost_at old_gap, gp_gap_sec = old_gap, gp_reconnects = kw_reconnects s\<rparr>"
  using assms by (simp add: begin_connection_def count_reconnect_discards_def connection_metrics_def detect_gap_def Let_def)

theorem skewed_reconnect_reports_the_old_gap_witness:
  "\<exists>b. fst (detect_gap (connection_metrics (begin_connection 90 (init_stream\<lparr> kw_last_disconnect_at := Some 100,
      kw_last_gap_sec := Some 30, kw_reconnects := 2 \<rparr>))) b)
    = Some \<lparr>gp_reconnect_at = fadd 100 30, gp_gap_sec = 30, gp_reconnects = 2\<rparr>"
proof -
  obtain b :: backfill_state where b: "bf_last_seen_reconnects b = 0" by (rule that [of "undefined\<lparr> bf_last_seen_reconnects := 0 \<rparr>"]) simp
  have "fsub 90 100 < 0" by code_simp
  then show ?thesis
    using b skewed_reconnect_reports_the_old_gap [of "init_stream\<lparr> kw_last_disconnect_at := Some 100,
      kw_last_gap_sec := Some 30, kw_reconnects := 2 \<rparr>" 100 90 30 b] by (intro exI [of _ b]) simp
qed

theorem newest_ticker_wins_witness:
  "let d = JObj [(''msg'', JObj [(''market_ticker'', JStr ''A''), (''ts_ms'', JInt 1)])];
       old = JObj [(''msg'', JObj [(''market_ticker'', JStr ''A''), (''ts_ms'', JInt 2)])] in
   kw_coalesced (snd (coalesce_ticker demo_cfg 7 d (init_stream\<lparr> kw_pending := [(''A'', (6, old))] \<rparr>))) = 1"
proof -
  define d where "d = JObj [(''msg'', JObj [(''market_ticker'', JStr ''A''), (''ts_ms'', JInt 1)])]"
  define old where "old = JObj [(''msg'', JObj [(''market_ticker'', JStr ''A''), (''ts_ms'', JInt 2)])]"
  have k: "market_key d = Some ''A''" unfolding d_def by code_simp
  have g: "dget (kw_pending (init_stream\<lparr> kw_pending := [(''A'', (6, old))] \<rparr>)) ''A'' = Some (6, old)" by simp
  have "kw_coalesced init_stream = 0" by (simp add: init_stream_def)
  then show ?thesis
    using newest_ticker_wins [OF k g, where u = "''A''" and cfg = demo_cfg and now = 7] unfolding Let_def d_def old_def by simp
qed

end
