(* ===== verification/StreamSubs.thy ===== *)
theory StreamSubs
  imports StreamIngest PyRepr "HOL-Library.List_Lexorder" "HOL-Library.Char_ord"
begin

text \<open>
  \<open>services/kalshi/websocket.py\<close>, the control side of the stream gateway: the desired tickers,
  the subscribe and update commands of \<open>_sync_subscriptions\<close>, what a new connection resets,
  acknowledgements, server errors, and the dispatch of a parsed message. A Python set of tickers
  is a list read as its \<open>set\<close>; \<open>sorted\<close> is \<open>sort\<close>. One synchronisation is one step: nothing
  else of the gateway runs between its sends.
\<close>

subsection \<open>Commands and state\<close>

datatype sub_command =
    Subscribe "string list" "string list option" bool
  | SubscribeIndexes "string list"
  | SubscribeUnderlyings "string list"
  | AddMarkets int "string list" bool
  | DeleteMarkets int "string list"
  | AskList int string

record subs =
  gs_exchange_wide :: bool
  gs_lifecycle :: bool
  gs_index_ids :: "string list"
  gs_underlyings :: "string list"
  gs_connected :: bool
  gs_desired :: "string list"
  gs_update_event :: bool
  gs_subscribed :: "string list"
  gs_sids :: "(string, int) pdict"
  gs_trade_subscribed :: bool
  gs_ticker_subscribed :: bool
  gs_index_subscribed :: bool
  gs_lifecycle_subscribed :: bool
  gs_message_id :: nat
  gs_sent :: "(nat \<times> sub_command) list"
  gs_syncs :: nat
  gs_syncs_window :: nat
  gs_added :: nat
  gs_added_window :: nat
  gs_removed :: nat
  gs_removed_window :: nat
  gs_errors_total :: nat
  gs_errors_by_code :: counters
  gs_error_last :: "(json \<times> json \<times> f64) option"
  gs_error_25 :: nat
  gs_error_25_window :: nat

definition init_subs :: "bool \<Rightarrow> string list \<Rightarrow> string list \<Rightarrow> bool \<Rightarrow> subs" where
  "init_subs exchange_wide index_ids underlyings lifecycle =
     \<lparr>gs_exchange_wide = exchange_wide, gs_lifecycle = lifecycle, gs_index_ids = index_ids, gs_underlyings = underlyings,
      gs_connected = False, gs_desired = [], gs_update_event = False, gs_subscribed = [], gs_sids = [],
      gs_trade_subscribed = False, gs_ticker_subscribed = False, gs_index_subscribed = False,
      gs_lifecycle_subscribed = False, gs_message_id = 1, gs_sent = [],
      gs_syncs = 0, gs_syncs_window = 0, gs_added = 0, gs_added_window = 0, gs_removed = 0, gs_removed_window = 0,
      gs_errors_total = 0, gs_errors_by_code = [], gs_error_last = None, gs_error_25 = 0, gs_error_25_window = 0\<rparr>"

subsection \<open>Watchlist and commands\<close>

definition set_market_tickers :: "string list \<Rightarrow> subs \<Rightarrow> subs" where
  "set_market_tickers tickers s =
     (let normalized = remdups (filter (\<lambda>t. t \<noteq> []) tickers) in
      if set normalized = set (gs_desired s) then s
      else s\<lparr> gs_desired := normalized, gs_update_event := True \<rparr>)"

text \<open>\<open>_send\<close> with its \<open>_next_message_id\<close>: the id is spent even when there is no socket.\<close>

definition send :: "sub_command \<Rightarrow> subs \<Rightarrow> subs" where
  "send c s =
     (let s1 = s\<lparr> gs_message_id := gs_message_id s + 1 \<rparr> in
      if \<not> gs_connected s then s1 else s1\<lparr> gs_sent := gs_sent s1 @ [(gs_message_id s, c)] \<rparr>)"

definition request_index_list :: "subs \<Rightarrow> subs" where
  "request_index_list s =
     (case dget (gs_sids s) ''cfbenchmarks_value'' of None \<Rightarrow> s | Some sid \<Rightarrow> send (AskList sid ''indexlist'') s)"

definition request_underlying_list :: "subs \<Rightarrow> subs" where
  "request_underlying_list s =
     (case dget (gs_sids s) ''pyth_value'' of None \<Rightarrow> s | Some sid \<Rightarrow> send (AskList sid ''underlying_list'') s)"

subsection \<open>Synchronisation\<close>

text \<open>The channels without a market filter that are due, and the scoped trade subscription.\<close>

definition sync_trade :: "string list \<Rightarrow> subs \<Rightarrow> string list \<times> subs" where
  "sync_trade desired s =
     (if gs_trade_subscribed s then ([], s)
      else if gs_exchange_wide s then ([''trade''], s)
      else if desired = [] then ([], s)
      else ([], (send (Subscribe [''trade''] (Some (sort desired)) False) s)
                  \<lparr> gs_trade_subscribed := True, gs_subscribed := desired \<rparr>))"

definition sync_combined :: "string list \<Rightarrow> subs \<Rightarrow> subs" where
  "sync_combined combined s =
     (if combined = [] then s
      else let s1 = send (Subscribe combined None False) s;
               s2 = (if ''trade'' \<in> set combined then s1\<lparr> gs_trade_subscribed := True \<rparr> else s1)
           in if ''market_lifecycle_v2'' \<in> set combined then s2\<lparr> gs_lifecycle_subscribed := True \<rparr> else s2)"

definition sync_index :: "subs \<Rightarrow> subs" where
  "sync_index s =
     (if gs_index_subscribed s \<or> gs_index_ids s = [] \<and> gs_underlyings s = [] then s
      else let s1 = (if gs_index_ids s = [] then s else send (SubscribeIndexes (gs_index_ids s)) s);
               s2 = (if gs_underlyings s = [] then s1 else send (SubscribeUnderlyings (gs_underlyings s)) s1)
           in s2\<lparr> gs_index_subscribed := True \<rparr>)"

definition market_channel_sids :: "subs \<Rightarrow> int list" where
  "market_channel_sids s =
     concat (map (\<lambda>c. case dget (gs_sids s) c of None \<Rightarrow> [] | Some sid \<Rightarrow> [sid])
       (if gs_exchange_wide s then [''ticker''] else [''trade'', ''ticker'']))"

definition count_churn :: "nat \<Rightarrow> nat \<Rightarrow> subs \<Rightarrow> subs" where
  "count_churn added removed s =
     s\<lparr> gs_syncs := gs_syncs s + 1, gs_syncs_window := gs_syncs_window s + 1, gs_added := gs_added s + added,
        gs_added_window := gs_added_window s + added, gs_removed := gs_removed s + removed,
        gs_removed_window := gs_removed_window s + removed \<rparr>"

definition sync_markets :: "string list \<Rightarrow> subs \<Rightarrow> subs" where
  "sync_markets desired s =
     (let to_add = sort (filter (\<lambda>t. t \<notin> set (gs_subscribed s)) desired);
          to_remove = sort (filter (\<lambda>t. t \<notin> set desired) (gs_subscribed s));
          sids = market_channel_sids s; ticker_sid = dget (gs_sids s) ''ticker'';
          s1 = (if to_add = [] \<and> to_remove = [] then s else count_churn (length to_add) (length to_remove) s);
          s2 = (if to_add = [] then s1
                else fold (\<lambda>sid. send (AddMarkets sid to_add (Some sid = ticker_sid))) sids s1);
          s3 = (if to_remove = [] then s2 else fold (\<lambda>sid. send (DeleteMarkets sid to_remove)) sids s2)
      in s3\<lparr> gs_subscribed := desired \<rparr>)"

definition sync_subscriptions :: "subs \<Rightarrow> subs" where
  "sync_subscriptions s =
     (if \<not> gs_connected s then s
      else let desired = gs_desired s;
               (combined, s1) = sync_trade desired s;
               combined2 = combined @ (if gs_lifecycle s1 \<and> \<not> gs_lifecycle_subscribed s1 then [''market_lifecycle_v2''] else []);
               s3 = sync_index (sync_combined combined2 s1)
           in if \<not> gs_ticker_subscribed s3
              then if desired = [] then s3
                   else (send (Subscribe [''ticker''] (Some (sort desired)) True) s3)
                          \<lparr> gs_ticker_subscribed := True, gs_subscribed := desired \<rparr>
              else sync_markets desired s3)"

subsection \<open>Connections and messages\<close>

text \<open>What \<open>run\<close> does once a socket is up; the flag says whether an account handler is given.\<close>

definition connect_stream :: "bool \<Rightarrow> subs \<Rightarrow> subs" where
  "connect_stream account s =
     (let s1 = sync_subscriptions (s\<lparr> gs_connected := True, gs_sids := [], gs_subscribed := [], gs_trade_subscribed := False,
                 gs_ticker_subscribed := False, gs_lifecycle_subscribed := False, gs_message_id := 1, gs_sent := [] \<rparr>)
      in if account then send (Subscribe [''fill'', ''market_positions''] None False) s1 else s1)"

definition drop_stream :: "subs \<Rightarrow> subs" where
  "drop_stream s = s\<lparr> gs_connected := False, gs_sids := [], gs_subscribed := [], gs_trade_subscribed := False,
     gs_ticker_subscribed := False, gs_lifecycle_subscribed := False \<rparr>"

text \<open>The reader's turn when the watchlist has changed.\<close>

definition wake_sync :: "subs \<Rightarrow> subs" where
  "wake_sync s = sync_subscriptions (s\<lparr> gs_update_event := False \<rparr>)"

definition KALSHI_SUBSCRIPTION_OVERFLOW_CODE :: int where "KALSHI_SUBSCRIPTION_OVERFLOW_CODE = 25"
definition MAX_SERVER_ERROR_CODES_TRACKED :: nat where "MAX_SERVER_ERROR_CODES_TRACKED = 64"

text \<open>\<open>str(code)\<close> of the codes the exchange documents: integers, or text.\<close>

definition error_key :: "json \<Rightarrow> string" where
  "error_key code =
     (case code of JNull \<Rightarrow> ''unknown'' | JInt n \<Rightarrow> str_int n | JStr t \<Rightarrow> t
      | JBool b \<Rightarrow> if b then ''True'' else ''False'' | JFloat x \<Rightarrow> py_repr x | _ \<Rightarrow> ''container'')"

definition record_server_error :: "f64 \<Rightarrow> msg \<Rightarrow> subs \<Rightarrow> subs" where
  "record_server_error now err s =
     (let code = jget err ''code''; key = error_key code;
          s1 = s\<lparr> gs_errors_total := gs_errors_total s + 1,
                  gs_errors_by_code := (if key \<in> set (dkeys (gs_errors_by_code s))
                      \<or> length (gs_errors_by_code s) < MAX_SERVER_ERROR_CODES_TRACKED
                    then bump key (gs_errors_by_code s) else gs_errors_by_code s),
                  gs_error_last := Some (code, jget err ''msg'', now) \<rparr>
      in if code = JInt KALSHI_SUBSCRIPTION_OVERFLOW_CODE \<or> code = JFloat 25
         then s1\<lparr> gs_error_25 := gs_error_25 s1 + 1, gs_error_25_window := gs_error_25_window s1 + 1 \<rparr> else s1)"

definition note_ack :: "string \<Rightarrow> int \<Rightarrow> subs \<Rightarrow> subs" where
  "note_ack channel sid s = (if channel = [] \<or> sid = 0 then s else s\<lparr> gs_sids := dput channel sid (gs_sids s) \<rparr>)"

text \<open>
  \<open>_handle_message\<close>: which callback gets which payload. An acknowledgement carries a text channel
  and an integer sid; other values leave the table alone here.
\<close>

datatype handled =
    Silent
  | StatusError json json
  | IndexTick string msg
  | ListReply json
  | TradeMsg msg
  | LifecycleMsg msg
  | TickerMsg msg
  | FillMsg msg
  | PositionMsg msg
  | NotADict

definition handle_message :: "f64 \<Rightarrow> json \<Rightarrow> subs \<Rightarrow> handled \<times> subs" where
  "handle_message now data s =
     (case data of
        JObj d \<Rightarrow>
          (let msg_type = jget d ''type''; m = body_of data in
           if msg_type = JStr ''subscribed'' then
             (Silent, case (jget m ''channel'', jget m ''sid'') of (JStr c, JInt n) \<Rightarrow> note_ack c n s | _ \<Rightarrow> s)
           else if msg_type = JStr ''ok'' then (Silent, s)
           else if msg_type = JStr ''error'' then
             (StatusError (jget m ''code'') (jget m ''msg''), record_server_error now m s)
           else if msg_type = JStr ''cfbenchmarks_value'' then (IndexTick ''cfbenchmarks_value'' m, s)
           else if msg_type = JStr ''pyth_value'' then (IndexTick ''pyth_value'' m, s)
           else if msg_type = JStr ''cfbenchmarks_value_indexlist'' \<or> msg_type = JStr ''pyth_value_underlying_list''
             then (ListReply (jget d ''msg''), s)
           else if msg_type = JStr ''trade'' then (TradeMsg (normalize_ticker_key m), s)
           else if msg_type = JStr ''market_lifecycle_v2'' then (LifecycleMsg (normalize_ticker_key m), s)
           else if msg_type = JStr ''ticker'' then (TickerMsg (normalize_ticker_key m), s)
           else if msg_type = JStr ''fill'' then (FillMsg (normalize_ticker_key m), s)
           else if msg_type = JStr ''market_position'' then (PositionMsg (normalize_ticker_key m), s)
           else (Silent, s))
      | _ \<Rightarrow> (NotADict, s))"

definition reset_subs_window :: "subs \<Rightarrow> subs" where
  "reset_subs_window s = s\<lparr> gs_error_25_window := 0, gs_syncs_window := 0, gs_added_window := 0, gs_removed_window := 0 \<rparr>"

subsection \<open>Steps\<close>

text \<open>
  A run of the control side. The exchange gives channel \<open>c\<close> of a connection the sid \<open>sid c\<close>. With
  \<open>prompt\<close> the reader synchronises only after the market channels it has subscribed are acknowledged;
  the code has no such wait.
\<close>

definition acked :: "(string \<Rightarrow> int) \<Rightarrow> subs \<Rightarrow> bool" where
  "acked sid s \<longleftrightarrow> (gs_ticker_subscribed s \<longrightarrow> dget (gs_sids s) ''ticker'' = Some (sid ''ticker''))
     \<and> (gs_trade_subscribed s \<and> \<not> gs_exchange_wide s \<longrightarrow> dget (gs_sids s) ''trade'' = Some (sid ''trade''))"

inductive subs_step :: "(string \<Rightarrow> int) \<Rightarrow> bool \<Rightarrow> subs \<Rightarrow> subs \<Rightarrow> bool" for sid prompt where
  watch: "subs_step sid prompt s (set_market_tickers ts s)"
| wake: "gs_connected s \<Longrightarrow> gs_update_event s \<Longrightarrow> prompt \<longrightarrow> acked sid s \<Longrightarrow> subs_step sid prompt s (wake_sync s)"
| ack: "gs_connected s \<Longrightarrow> subs_step sid prompt s (note_ack c (sid c) s)"
| up: "\<not> gs_connected s \<Longrightarrow> subs_step sid prompt s (connect_stream account s)"
| down: "gs_connected s \<Longrightarrow> subs_step sid prompt s (drop_stream s)"
| ask_index: "subs_step sid prompt s (request_index_list s)"
| ask_underlying: "subs_step sid prompt s (request_underlying_list s)"
| server_error: "subs_step sid prompt s (record_server_error now err s)"
| new_window: "subs_step sid prompt s (reset_subs_window s)"

inductive subs_run :: "(string \<Rightarrow> int) \<Rightarrow> bool \<Rightarrow> subs \<Rightarrow> subs \<Rightarrow> bool" for sid prompt where
  stay: "subs_run sid prompt s s"
| more: "subs_run sid prompt s t \<Longrightarrow> subs_step sid prompt t u \<Longrightarrow> subs_run sid prompt s u"

end
