(* ===== verification/SubsFacts.thy ===== *)
theory SubsFacts
  imports StreamSubs
begin

text \<open>
  What the exchange streams for the commands a connection has sent, read by the protocol the
  repository documents (docs/kalshi/websocket-connection.md): a subscription with a market list
  starts the channel on that list, updates of its sid add to it and delete from it. When
  acknowledgements are prompt the market channels follow the watchlist; two properties show what
  happens to a change that overtakes an acknowledgement, and to the index feeds after a reconnect.
\<close>

subsection \<open>The exchange's view\<close>

definition serve :: "int \<Rightarrow> string \<Rightarrow> sub_command \<Rightarrow> string set \<Rightarrow> string set" where
  "serve sid c cmd A =
     (case cmd of
        Subscribe chs (Some ts) snap \<Rightarrow> if c \<in> set chs then set ts else A
      | AddMarkets i ts snap \<Rightarrow> if i = sid then A \<union> set ts else A
      | DeleteMarkets i ts \<Rightarrow> if i = sid then A - set ts else A
      | _ \<Rightarrow> A)"

definition served :: "int \<Rightarrow> string \<Rightarrow> subs \<Rightarrow> string set" where
  "served sid c s = fold (\<lambda>(n, cmd). serve sid c cmd) (gs_sent s) {}"

definition about_index :: "sub_command \<Rightarrow> bool" where
  "about_index cmd = (case cmd of SubscribeIndexes ids \<Rightarrow> True | SubscribeUnderlyings us \<Rightarrow> True | _ \<Rightarrow> False)"

lemma serve_simps [simp]:
  "serve sid c (Subscribe chs (Some ts) snap) A = (if c \<in> set chs then set ts else A)"
  "serve sid c (Subscribe chs None snap) A = A" "serve sid c (SubscribeIndexes is) A = A"
  "serve sid c (SubscribeUnderlyings us) A = A" "serve sid c (AskList i x) A = A"
  "serve sid c (AddMarkets i ts snap) A = (if i = sid then A \<union> set ts else A)"
  "serve sid c (DeleteMarkets i ts) A = (if i = sid then A - set ts else A)"
  by (simp_all add: serve_def)

lemma send_fields [simp]:
  "gs_exchange_wide (send c s) = gs_exchange_wide s" "gs_lifecycle (send c s) = gs_lifecycle s"
  "gs_index_ids (send c s) = gs_index_ids s" "gs_underlyings (send c s) = gs_underlyings s"
  "gs_connected (send c s) = gs_connected s" "gs_desired (send c s) = gs_desired s"
  "gs_update_event (send c s) = gs_update_event s" "gs_subscribed (send c s) = gs_subscribed s"
  "gs_sids (send c s) = gs_sids s" "gs_trade_subscribed (send c s) = gs_trade_subscribed s"
  "gs_ticker_subscribed (send c s) = gs_ticker_subscribed s" "gs_index_subscribed (send c s) = gs_index_subscribed s"
  "gs_lifecycle_subscribed (send c s) = gs_lifecycle_subscribed s"
  "gs_sent (send c s) = (if gs_connected s then gs_sent s @ [(gs_message_id s, c)] else gs_sent s)"
  "gs_errors_by_code (send c s) = gs_errors_by_code s"
  by (simp_all add: send_def Let_def)

lemma served_send [simp]:
  "served sid ch (send c s) = (if gs_connected s then serve sid ch c (served sid ch s) else served sid ch s)"
  by (simp add: served_def)

lemma served_cong: "gs_sent s = gs_sent t \<Longrightarrow> served sid c s = served sid c t"
  by (simp add: served_def)

lemma served_updates [simp]:
  "served sid c (s\<lparr> gs_trade_subscribed := b \<rparr>) = served sid c s" "served sid c (s\<lparr> gs_subscribed := l \<rparr>) = served sid c s"
  "served sid c (s\<lparr> gs_ticker_subscribed := b \<rparr>) = served sid c s" "served sid c (s\<lparr> gs_index_subscribed := b \<rparr>) = served sid c s"
  "served sid c (s\<lparr> gs_lifecycle_subscribed := b \<rparr>) = served sid c s" "served sid c (s\<lparr> gs_update_event := b \<rparr>) = served sid c s"
  "served sid c (s\<lparr> gs_sids := d \<rparr>) = served sid c s" "served sid c (s\<lparr> gs_desired := l \<rparr>) = served sid c s"
  by (simp_all add: served_def)

subsection \<open>One synchronisation\<close>

text \<open>The fields a run of sends over the sids keeps, and what it makes the exchange stream.\<close>

lemma fold_send_frame:
  "gs_connected s \<Longrightarrow> gs_subscribed (fold (\<lambda>i. send (f i)) sids s) = gs_subscribed s
     \<and> gs_connected (fold (\<lambda>i. send (f i)) sids s) \<and> gs_desired (fold (\<lambda>i. send (f i)) sids s) = gs_desired s
     \<and> gs_update_event (fold (\<lambda>i. send (f i)) sids s) = gs_update_event s
     \<and> gs_trade_subscribed (fold (\<lambda>i. send (f i)) sids s) = gs_trade_subscribed s
     \<and> gs_ticker_subscribed (fold (\<lambda>i. send (f i)) sids s) = gs_ticker_subscribed s
     \<and> gs_index_subscribed (fold (\<lambda>i. send (f i)) sids s) = gs_index_subscribed s
     \<and> gs_exchange_wide (fold (\<lambda>i. send (f i)) sids s) = gs_exchange_wide s
     \<and> gs_sids (fold (\<lambda>i. send (f i)) sids s) = gs_sids s"
  by (induction sids arbitrary: s) auto

lemma served_add:
  "gs_connected s \<Longrightarrow> served sid c (fold (\<lambda>i. send (AddMarkets i ts (g i))) sids s)
     = served sid c s \<union> (if sid \<in> set sids then set ts else {})"
  by (induction sids arbitrary: s) auto

lemma served_delete:
  "gs_connected s \<Longrightarrow> served sid c (fold (\<lambda>i. send (DeleteMarkets i ts)) sids s)
     = served sid c s - (if sid \<in> set sids then set ts else {})"
  by (induction sids arbitrary: s) auto

lemma count_churn_fields [simp]:
  "gs_subscribed (count_churn a r s) = gs_subscribed s" "gs_connected (count_churn a r s) = gs_connected s"
  "gs_desired (count_churn a r s) = gs_desired s" "gs_update_event (count_churn a r s) = gs_update_event s"
  "gs_trade_subscribed (count_churn a r s) = gs_trade_subscribed s" "gs_ticker_subscribed (count_churn a r s) = gs_ticker_subscribed s"
  "gs_index_subscribed (count_churn a r s) = gs_index_subscribed s" "gs_exchange_wide (count_churn a r s) = gs_exchange_wide s"
  "gs_sids (count_churn a r s) = gs_sids s" "gs_sent (count_churn a r s) = gs_sent s"
  "served sid c (count_churn a r s) = served sid c s"
  by (simp_all add: count_churn_def served_def)

lemma sync_markets_fields:
  assumes "gs_connected s"
  shows "gs_subscribed (sync_markets D s) = D" "gs_connected (sync_markets D s)" "gs_desired (sync_markets D s) = gs_desired s"
    "gs_update_event (sync_markets D s) = gs_update_event s" "gs_trade_subscribed (sync_markets D s) = gs_trade_subscribed s"
    "gs_ticker_subscribed (sync_markets D s) = gs_ticker_subscribed s"
    "gs_index_subscribed (sync_markets D s) = gs_index_subscribed s"
    "gs_exchange_wide (sync_markets D s) = gs_exchange_wide s" "gs_sids (sync_markets D s) = gs_sids s"
  using assms by (simp_all add: sync_markets_def Let_def fold_send_frame)

lemma sync_markets_served:
  assumes "gs_connected s" "served sid c s = set (gs_subscribed s)"
    "sid \<in> set (market_channel_sids s) \<or> set D = set (gs_subscribed s)"
  shows "served sid c (sync_markets D s) = set D"
proof -
  define add where "add = sort (filter (\<lambda>t. t \<notin> set (gs_subscribed s)) D)"
  define del where "del = sort (filter (\<lambda>t. t \<notin> set D) (gs_subscribed s))"
  define sids where "sids = market_channel_sids s"
  define g where "g = (\<lambda>i. Some i = dget (gs_sids s) ''ticker'')"
  define s1 where "s1 = (if add = [] \<and> del = [] then s else count_churn (length add) (length del) s)"
  define s2 where "s2 = (if add = [] then s1 else fold (\<lambda>i. send (AddMarkets i add (g i))) sids s1)"
  have c1: "gs_connected s1" "served sid c s1 = set (gs_subscribed s)" using assms by (simp_all add: s1_def)
  have c2: "gs_connected s2" using c1(1) fold_send_frame [OF c1(1), of "\<lambda>i. AddMarkets i add (g i)" sids]
    by (simp add: s2_def)
  have v2: "served sid c s2 = set (gs_subscribed s) \<union> (if sid \<in> set sids then set add else {})"
    using c1(2) served_add [OF c1(1), of sid c add g sids] by (simp add: s2_def)
  have "sync_markets D s = (if del = [] then s2 else fold (\<lambda>i. send (DeleteMarkets i del)) sids s2)\<lparr> gs_subscribed := D \<rparr>"
    unfolding sync_markets_def Let_def add_def del_def sids_def g_def s1_def s2_def ..
  then have "served sid c (sync_markets D s) = served sid c s2 - (if sid \<in> set sids then set del else {})"
    using served_delete [OF c2, of sid c del sids] by simp
  then show ?thesis using v2 assms(3) by (auto simp: add_def del_def sids_def)
qed

text \<open>
  The invariant of a connection: the market channels stream what the gateway thinks it has
  subscribed, and that is the watchlist unless a change is waiting.
\<close>

definition scoped :: "subs \<Rightarrow> bool" where "scoped s \<longleftrightarrow> \<not> gs_exchange_wide s"

definition tracks :: "(string \<Rightarrow> int) \<Rightarrow> subs \<Rightarrow> bool" where
  "tracks sid s \<longleftrightarrow> (gs_connected s \<longrightarrow>
     served (sid ''ticker'') ''ticker'' s = (if gs_ticker_subscribed s then set (gs_subscribed s) else {})
     \<and> (scoped s \<longrightarrow> served (sid ''trade'') ''trade'' s = (if gs_ticker_subscribed s then set (gs_subscribed s) else {})
          \<and> gs_trade_subscribed s = gs_ticker_subscribed s))"

definition in_step :: "(string \<Rightarrow> int) \<Rightarrow> subs \<Rightarrow> bool" where
  "in_step sid s \<longleftrightarrow> tracks sid s \<and> (gs_connected s \<longrightarrow> (\<not> gs_update_event s \<longrightarrow> (if gs_ticker_subscribed s then set (gs_subscribed s) = set (gs_desired s) else gs_desired s = [])))"

lemma sync_trade_frame:
  assumes "gs_connected s" "sync_trade D s = (combined, s1)"
  shows "gs_connected s1" "gs_desired s1 = gs_desired s" "gs_update_event s1 = gs_update_event s" "gs_sids s1 = gs_sids s"
    "gs_ticker_subscribed s1 = gs_ticker_subscribed s" "gs_exchange_wide s1 = gs_exchange_wide s"
    "gs_index_subscribed s1 = gs_index_subscribed s"
    "set combined \<subseteq> {''trade''}"
  using assms by (auto simp: sync_trade_def split: if_splits)

lemma sync_combined_frame:
  assumes "gs_connected s"
  shows "gs_connected (sync_combined cs s)" "gs_desired (sync_combined cs s) = gs_desired s"
    "gs_update_event (sync_combined cs s) = gs_update_event s" "gs_sids (sync_combined cs s) = gs_sids s"
    "gs_ticker_subscribed (sync_combined cs s) = gs_ticker_subscribed s"
    "gs_exchange_wide (sync_combined cs s) = gs_exchange_wide s" "gs_subscribed (sync_combined cs s) = gs_subscribed s"
    "gs_index_subscribed (sync_combined cs s) = gs_index_subscribed s"
    "gs_trade_subscribed (sync_combined cs s) = (gs_trade_subscribed s \<or> ''trade'' \<in> set cs)"
    "served i c (sync_combined cs s) = served i c s"
  using assms by (auto simp: sync_combined_def Let_def)

lemma sync_index_frame:
  assumes "gs_connected s"
  shows "gs_connected (sync_index s)" "gs_desired (sync_index s) = gs_desired s"
    "gs_update_event (sync_index s) = gs_update_event s" "gs_sids (sync_index s) = gs_sids s"
    "gs_ticker_subscribed (sync_index s) = gs_ticker_subscribed s" "gs_exchange_wide (sync_index s) = gs_exchange_wide s"
    "gs_subscribed (sync_index s) = gs_subscribed s" "gs_trade_subscribed (sync_index s) = gs_trade_subscribed s"
    "served i c (sync_index s) = served i c s"
  using assms by (auto simp: sync_index_def Let_def)

lemma sync_trade_served:
  assumes "gs_connected s" "sync_trade D s = (combined, s1)"
  shows "served i ''ticker'' s1 = served i ''ticker'' s"
    "gs_exchange_wide s \<or> gs_trade_subscribed s \<or> D = [] \<Longrightarrow> s1 = s"
    "\<not> gs_exchange_wide s \<Longrightarrow> combined = []"
    "\<not> gs_exchange_wide s \<Longrightarrow> \<not> gs_trade_subscribed s \<Longrightarrow> D \<noteq> []
       \<Longrightarrow> served i ''trade'' s1 = set D \<and> gs_trade_subscribed s1 \<and> gs_subscribed s1 = D"
  using assms by (auto simp: sync_trade_def split: if_splits)

text \<open>The state in which the market channels are decided, and what becomes of it.\<close>

lemma sync_stages:
  assumes "gs_connected s"
  obtains s1 s3 combined cs where "sync_trade (gs_desired s) s = (combined, s1)" "gs_connected s1" "gs_connected s3"
    "gs_desired s3 = gs_desired s" "gs_update_event s3 = gs_update_event s" "gs_sids s3 = gs_sids s"
    "gs_ticker_subscribed s3 = gs_ticker_subscribed s" "gs_exchange_wide s3 = gs_exchange_wide s"
    "gs_subscribed s3 = gs_subscribed s1" "\<And>i c. served i c s3 = served i c s1"
    "gs_trade_subscribed s3 = (gs_trade_subscribed s1 \<or> ''trade'' \<in> set combined)"
    "sync_subscriptions s = (if \<not> gs_ticker_subscribed s
       then if gs_desired s = [] then s3
            else (send (Subscribe [''ticker''] (Some (sort (gs_desired s))) True) s3)
                   \<lparr> gs_ticker_subscribed := True, gs_subscribed := gs_desired s \<rparr>
       else sync_markets (gs_desired s) s3)"
    "s3 = sync_index (sync_combined cs s1)"
proof -
  obtain combined s1 where t: "sync_trade (gs_desired s) s = (combined, s1)" by (cases "sync_trade (gs_desired s) s")
  note f1 = sync_trade_frame [OF assms t]
  define cs where "cs = combined @ (if gs_lifecycle s1 \<and> \<not> gs_lifecycle_subscribed s1 then [''market_lifecycle_v2''] else [])"
  have cs: "''trade'' \<in> set cs \<longleftrightarrow> ''trade'' \<in> set combined" by (simp add: cs_def)
  note f2 = sync_combined_frame [OF f1(1), where cs = cs]
  note f3 = sync_index_frame [OF f2(1)]
  show thesis
    by (rule that [OF t, of "sync_index (sync_combined cs s1)" cs])
      (use f1 f2 f3 cs assms in \<open>simp_all add: sync_subscriptions_def t cs_def [symmetric] Let_def\<close>)
qed

lemma sync_fresh:
  assumes "gs_connected s" "\<not> gs_ticker_subscribed s" "scoped s \<Longrightarrow> \<not> gs_trade_subscribed s"
    "served (sid ''ticker'') ''ticker'' s = {}" "scoped s \<Longrightarrow> served (sid ''trade'') ''trade'' s = {}"
  shows "in_step sid (sync_subscriptions s) \<and> gs_connected (sync_subscriptions s)"
proof -
  obtain s1 s3 combined cs where st: "sync_trade (gs_desired s) s = (combined, s1)" "gs_connected s1" "gs_connected s3"
    "gs_desired s3 = gs_desired s" "gs_update_event s3 = gs_update_event s" "gs_sids s3 = gs_sids s"
    "gs_ticker_subscribed s3 = gs_ticker_subscribed s" "gs_exchange_wide s3 = gs_exchange_wide s"
    "gs_subscribed s3 = gs_subscribed s1" "\<And>i c. served i c s3 = served i c s1"
    "gs_trade_subscribed s3 = (gs_trade_subscribed s1 \<or> ''trade'' \<in> set combined)"
    "sync_subscriptions s = (if \<not> gs_ticker_subscribed s
       then if gs_desired s = [] then s3
            else (send (Subscribe [''ticker''] (Some (sort (gs_desired s))) True) s3)
                   \<lparr> gs_ticker_subscribed := True, gs_subscribed := gs_desired s \<rparr>
       else sync_markets (gs_desired s) s3)"
    by (rule sync_stages [OF assms(1)]) blast
  note v = sync_trade_served [OF assms(1) st(1)]
  show ?thesis
  proof (cases "gs_desired s = []")
    case True
    then have "s1 = s" using v(2) by simp
    then show ?thesis using st assms True v(3) by (auto simp: in_step_def tracks_def scoped_def)
  next
    case False
    then have "scoped s \<Longrightarrow> served (sid ''trade'') ''trade'' s1 = set (gs_desired s) \<and> gs_trade_subscribed s1"
      using v(4) [of "sid ''trade''"] assms(3) by (simp add: scoped_def)
    then show ?thesis using st assms False v(3) by (auto simp: in_step_def tracks_def scoped_def)
  qed
qed

lemma sync_again:
  assumes "gs_connected s" "tracks sid s" "acked sid s"
  shows "in_step sid (sync_subscriptions s)"
proof (cases "gs_ticker_subscribed s")
  case False
  then show ?thesis using sync_fresh [of s sid] assms by (simp add: in_step_def tracks_def)
next
  case True
  obtain s1 s3 combined cs where st: "sync_trade (gs_desired s) s = (combined, s1)" "gs_connected s1" "gs_connected s3"
    "gs_desired s3 = gs_desired s" "gs_update_event s3 = gs_update_event s" "gs_sids s3 = gs_sids s"
    "gs_ticker_subscribed s3 = gs_ticker_subscribed s" "gs_exchange_wide s3 = gs_exchange_wide s"
    "gs_subscribed s3 = gs_subscribed s1" "\<And>i c. served i c s3 = served i c s1"
    "gs_trade_subscribed s3 = (gs_trade_subscribed s1 \<or> ''trade'' \<in> set combined)"
    "sync_subscriptions s = (if \<not> gs_ticker_subscribed s
       then if gs_desired s = [] then s3
            else (send (Subscribe [''ticker''] (Some (sort (gs_desired s))) True) s3)
                   \<lparr> gs_ticker_subscribed := True, gs_subscribed := gs_desired s \<rparr>
       else sync_markets (gs_desired s) s3)"
    by (rule sync_stages [OF assms(1)]) blast
  have s1: "s1 = s" using sync_trade_served(2) [OF assms(1) st(1)] assms(1,2) True by (auto simp: in_step_def tracks_def scoped_def)
  have inv: "served (sid ''ticker'') ''ticker'' s3 = set (gs_subscribed s3)"
    "scoped s \<Longrightarrow> served (sid ''trade'') ''trade'' s3 = set (gs_subscribed s3)"
    using assms(1,2) True st s1 by (auto simp: in_step_def tracks_def)
  have sids: "sid ''ticker'' \<in> set (market_channel_sids s3)" "scoped s \<Longrightarrow> sid ''trade'' \<in> set (market_channel_sids s3)"
    using assms True st s1 by (auto simp: market_channel_sids_def acked_def scoped_def in_step_def tracks_def)
  have "served (sid ''ticker'') ''ticker'' (sync_markets (gs_desired s) s3) = set (gs_desired s)"
    by (rule sync_markets_served [OF st(3) inv(1)]) (use sids in blast)
  moreover have "scoped s \<Longrightarrow> served (sid ''trade'') ''trade'' (sync_markets (gs_desired s) s3) = set (gs_desired s)"
    by (rule sync_markets_served [OF st(3) inv(2)]) (use sids in blast)+
  ultimately show ?thesis
    using True st s1 assms(1,2) sync_markets_fields [OF st(3), of "gs_desired s"] by (auto simp: in_step_def tracks_def scoped_def)
qed

subsection \<open>Runs\<close>

lemma in_step_same:
  assumes "gs_sent t = gs_sent s" "gs_connected t = gs_connected s" "gs_ticker_subscribed t = gs_ticker_subscribed s"
    "gs_subscribed t = gs_subscribed s" "gs_exchange_wide t = gs_exchange_wide s"
    "gs_trade_subscribed t = gs_trade_subscribed s" "gs_update_event t = gs_update_event s" "gs_desired t = gs_desired s"
  shows "in_step sid t = in_step sid s"
  using assms by (simp add: in_step_def tracks_def scoped_def served_def)

lemma in_step_send:
  "serve (sid ''ticker'') ''ticker'' c = id \<Longrightarrow> serve (sid ''trade'') ''trade'' c = id
     \<Longrightarrow> in_step sid (send c s) = in_step sid s"
  by (simp add: in_step_def tracks_def scoped_def)

lemma serve_ask: "serve i c (AskList j x) = id" by (rule ext) simp

lemma serve_account: "c \<noteq> ''fill'' \<Longrightarrow> c \<noteq> ''market_positions'' \<Longrightarrow> serve i c (Subscribe [''fill'', ''market_positions''] None False) = id"
  by (rule ext) simp

lemma step_in_step:
  assumes "subs_step sid True s t" "in_step sid s"
  shows "in_step sid t"
  using assms
proof (cases rule: subs_step.cases)
  case (watch ts)
  then show ?thesis using assms(2) by (auto simp: set_market_tickers_def Let_def in_step_def tracks_def scoped_def)
next
  case wake
  have "in_step sid (sync_subscriptions (s\<lparr> gs_update_event := False \<rparr>))"
    by (rule sync_again) (use wake assms(2) in \<open>simp_all add: in_step_def tracks_def scoped_def acked_def\<close>)
  then show ?thesis using wake by (simp add: wake_sync_def)
next
  case (ack c)
  then show ?thesis using assms(2) in_step_same [of t s sid] by (simp add: note_ack_def split: if_splits)
next
  case (up account)
  let ?r = "s\<lparr> gs_connected := True, gs_sids := [], gs_subscribed := [], gs_trade_subscribed := False,
                 gs_ticker_subscribed := False, gs_lifecycle_subscribed := False, gs_message_id := 1, gs_sent := [] \<rparr>"
  have "in_step sid (sync_subscriptions ?r)" using sync_fresh [of ?r sid] by (simp add: served_def)
  then show ?thesis using up by (simp add: connect_stream_def Let_def in_step_send serve_account)
next
  case down
  then show ?thesis by (simp add: drop_stream_def in_step_def tracks_def)
next
  case ask_index
  then show ?thesis using assms(2) by (simp add: request_index_list_def in_step_send serve_ask split: option.split)
next
  case ask_underlying
  then show ?thesis using assms(2) by (simp add: request_underlying_list_def in_step_send serve_ask split: option.split)
next
  case (server_error now err)
  then show ?thesis using assms(2) in_step_same [of t s sid] by (simp add: record_server_error_def Let_def)
next
  case new_window
  then show ?thesis using assms(2) in_step_same [of t s sid] by (simp add: reset_subs_window_def)
qed

lemma run_in_step: "subs_run sid True s t \<Longrightarrow> in_step sid s \<Longrightarrow> in_step sid t"
  by (induction rule: subs_run.induct) (auto intro: step_in_step)


subsection \<open>A change that overtakes the acknowledgement\<close>

definition sid_demo :: "string \<Rightarrow> int" where
  "sid_demo c = (if c = ''trade'' then 1 else if c = ''ticker'' then 2 else 3)"

text \<open>Connect on A, add B before the acknowledgements, then both arrive.\<close>

definition subs_demo :: subs where
  "subs_demo = note_ack ''ticker'' 2 (note_ack ''trade'' 1
     (wake_sync (set_market_tickers [''A'', ''B''] (connect_stream False (set_market_tickers [''A''] (init_subs False [] [] False))))))"

definition subs_prompt :: subs where
  "subs_prompt = wake_sync (set_market_tickers [''A'', ''B''] (note_ack ''ticker'' 2 (note_ack ''trade'' 1
     (connect_stream False (set_market_tickers [''A''] (init_subs False [] [] False))))))"

lemma sid_demo_simps [simp]: "sid_demo ''trade'' = 1" "sid_demo ''ticker'' = 2"
  by (simp_all add: sid_demo_def)

lemma subs_demo_run: "subs_run sid_demo False (init_subs False [] [] False) subs_demo"
proof -
  let ?a = "set_market_tickers [''A''] (init_subs False [] [] False)"
  let ?b = "connect_stream False ?a"
  let ?c = "set_market_tickers [''A'', ''B''] ?b"
  let ?d = "wake_sync ?c"
  have f: "\<not> gs_connected ?a" "gs_connected ?c" "gs_update_event ?c" "gs_connected ?d"
    "gs_connected (note_ack ''trade'' 1 ?d)" by code_simp+
  have s1: "subs_step sid_demo False (init_subs False [] [] False) ?a" by (rule subs_step.watch)
  have s2: "subs_step sid_demo False ?a ?b" by (rule subs_step.up [OF f(1)])
  have s3: "subs_step sid_demo False ?b ?c" by (rule subs_step.watch)
  have s4: "subs_step sid_demo False ?c ?d" by (rule subs_step.wake [OF f(2,3)]) simp
  have s5: "subs_step sid_demo False ?d (note_ack ''trade'' 1 ?d)"
    using subs_step.ack [OF f(4), of sid_demo False "''trade''"] by simp
  have s6: "subs_step sid_demo False (note_ack ''trade'' 1 ?d) subs_demo"
    unfolding subs_demo_def using subs_step.ack [OF f(5), of sid_demo False "''ticker''"] by simp
  show ?thesis by (rule more [OF more [OF more [OF more [OF more [OF more [OF stay s1] s2] s3] s4] s5] s6])
qed

lemma subs_prompt_run: "subs_run sid_demo True (init_subs False [] [] False) subs_prompt"
proof -
  let ?a = "set_market_tickers [''A''] (init_subs False [] [] False)"
  let ?b = "connect_stream False ?a"
  let ?c = "note_ack ''trade'' 1 ?b"
  let ?d = "note_ack ''ticker'' 2 ?c"
  let ?e = "set_market_tickers [''A'', ''B''] ?d"
  have f: "\<not> gs_connected ?a" "gs_connected ?b" "gs_connected ?c" "gs_connected ?e" "gs_update_event ?e"
    "dget (gs_sids ?e) ''ticker'' = Some 2" "dget (gs_sids ?e) ''trade'' = Some 1" by code_simp+
  have s1: "subs_step sid_demo True (init_subs False [] [] False) ?a" by (rule subs_step.watch)
  have s2: "subs_step sid_demo True ?a ?b" by (rule subs_step.up [OF f(1)])
  have s3: "subs_step sid_demo True ?b ?c" using subs_step.ack [OF f(2), of sid_demo True "''trade''"] by simp
  have s4: "subs_step sid_demo True ?c ?d" using subs_step.ack [OF f(3), of sid_demo True "''ticker''"] by simp
  have s5: "subs_step sid_demo True ?d ?e" by (rule subs_step.watch)
  have s6: "subs_step sid_demo True ?e subs_prompt"
    unfolding subs_prompt_def by (rule subs_step.wake [OF f(4,5)]) (simp add: acked_def f(6,7))
  show ?thesis by (rule more [OF more [OF more [OF more [OF more [OF more [OF stay s1] s2] s3] s4] s5] s6])
qed


text \<open>
  A change of the watchlist that is synchronised before the market channels are acknowledged is
  lost: no command is sent for it, the gateway notes it as subscribed, and once both
  acknowledgements are in and no change is waiting the exchange still streams the old list; a
  further synchronisation sends nothing.
\<close>
theorem overtaking_change_is_lost:
  "subs_run sid_demo False (init_subs False [] [] False) subs_demo
   \<and> acked sid_demo subs_demo \<and> gs_connected subs_demo \<and> \<not> gs_update_event subs_demo
   \<and> gs_desired subs_demo = [''A'', ''B''] \<and> gs_subscribed subs_demo = [''A'', ''B'']
   \<and> served 2 ''ticker'' subs_demo = {''A''} \<and> served 1 ''trade'' subs_demo = {''A''}
   \<and> gs_sent (wake_sync subs_demo) = gs_sent subs_demo"
proof -
  have f: "gs_connected subs_demo" "\<not> gs_update_event subs_demo"
    "gs_desired subs_demo = [''A'', ''B'']" "gs_subscribed subs_demo = [''A'', ''B'']"
    "dget (gs_sids subs_demo) ''ticker'' = Some 2" "dget (gs_sids subs_demo) ''trade'' = Some 1"
    "gs_sent subs_demo = [(1, Subscribe [''trade''] (Some [''A'']) False), (2, Subscribe [''ticker''] (Some [''A'']) True)]"
    "gs_sent (wake_sync subs_demo) = gs_sent subs_demo" by code_simp+
  have "acked sid_demo subs_demo" using f(5,6) by (simp add: acked_def)
  moreover have "served 2 ''ticker'' subs_demo = {''A''}" "served 1 ''trade'' subs_demo = {''A''}"
    by (simp_all add: served_def f(7))
  ultimately show ?thesis using f subs_demo_run by simp
qed

subsection \<open>Index feeds after a reconnect\<close>

definition index_dead :: "subs \<Rightarrow> bool" where
  "index_dead s \<longleftrightarrow> gs_index_subscribed s \<and> list_all (\<lambda>(n, c). \<not> about_index c) (gs_sent s)"

lemma index_dead_same:
  "gs_sent t = gs_sent s \<Longrightarrow> gs_index_subscribed t = gs_index_subscribed s \<Longrightarrow> index_dead t = index_dead s"
  by (simp add: index_dead_def)

lemma index_dead_send: "\<not> about_index c \<Longrightarrow> index_dead s \<Longrightarrow> index_dead (send c s)"
  by (simp add: index_dead_def)

lemma index_dead_fold: "(\<And>i. \<not> about_index (f i)) \<Longrightarrow> index_dead s \<Longrightarrow> index_dead (fold (\<lambda>i. send (f i)) sids s)"
  by (induction sids arbitrary: s) (auto intro: index_dead_send)

lemma index_dead_sync_markets: "index_dead s \<Longrightarrow> index_dead (sync_markets D s)"
  unfolding sync_markets_def Let_def
  by (rule index_dead_same [THEN iffD2, rotated 2])
    (auto intro!: index_dead_fold simp: about_index_def index_dead_same [of "count_churn a r s" s for a r])

lemma index_dead_sync:
  assumes "index_dead s"
  shows "index_dead (sync_subscriptions s)"
proof (cases "gs_connected s")
  case False
  then show ?thesis using assms by (simp add: sync_subscriptions_def)
next
  case True
  obtain s1 s3 combined cs where st: "sync_trade (gs_desired s) s = (combined, s1)" "gs_connected s1"
    "sync_subscriptions s = (if \<not> gs_ticker_subscribed s
       then if gs_desired s = [] then s3
            else (send (Subscribe [''ticker''] (Some (sort (gs_desired s))) True) s3)
                   \<lparr> gs_ticker_subscribed := True, gs_subscribed := gs_desired s \<rparr>
       else sync_markets (gs_desired s) s3)"
    "s3 = sync_index (sync_combined cs s1)"
    by (rule sync_stages [OF True]) blast
  have "index_dead s1" using st(1) assms True
    by (auto simp: sync_trade_def index_dead_def about_index_def split: if_splits)
  then have d2: "index_dead (sync_combined cs s1)"
    using st(2) by (auto simp: sync_combined_def index_dead_def about_index_def Let_def)
  then have d3: "index_dead s3" unfolding st(4) by (simp add: sync_index_def index_dead_def)
  show ?thesis
  proof (cases "gs_ticker_subscribed s")
    case True
    then show ?thesis using index_dead_sync_markets [OF d3] by (simp add: st(3))
  next
    case False
    then show ?thesis using d3 by (auto simp: st(3) index_dead_def about_index_def)
  qed
qed

lemma step_index_dead:
  assumes "subs_step sid prompt s t" "index_dead s"
  shows "index_dead t"
  using assms(1)
proof (cases rule: subs_step.cases)
  case (watch ts)
  then show ?thesis using assms(2) by (simp add: set_market_tickers_def Let_def index_dead_def)
next
  case wake
  have "index_dead (s\<lparr> gs_update_event := False \<rparr>)" using assms(2) by (simp add: index_dead_def)
  then show ?thesis using wake index_dead_sync by (simp add: wake_sync_def)
next
  case (ack c)
  then show ?thesis using assms(2) by (simp add: note_ack_def index_dead_def)
next
  case (up account)
  let ?r = "s\<lparr> gs_connected := True, gs_sids := [], gs_subscribed := [], gs_trade_subscribed := False,
                 gs_ticker_subscribed := False, gs_lifecycle_subscribed := False, gs_message_id := 1, gs_sent := [] \<rparr>"
  have "index_dead ?r" using assms(2) by (simp add: index_dead_def)
  then have "index_dead (sync_subscriptions ?r)" by (rule index_dead_sync)
  then show ?thesis using up by (simp add: connect_stream_def Let_def index_dead_send about_index_def)
next
  case down
  then show ?thesis using assms(2) by (simp add: drop_stream_def index_dead_def)
next
  case ask_index
  then show ?thesis using assms(2)
    by (simp add: request_index_list_def index_dead_send about_index_def split: option.split)
next
  case ask_underlying
  then show ?thesis using assms(2)
    by (simp add: request_underlying_list_def index_dead_send about_index_def split: option.split)
next
  case (server_error now err)
  then show ?thesis using assms(2) by (simp add: record_server_error_def Let_def index_dead_def)
next
  case new_window
  then show ?thesis using assms(2) by (simp add: reset_subs_window_def index_dead_def)
qed

text \<open>
  Once the index feeds have been subscribed, no later connection ever subscribes them: after a
  reconnect, and any run from there, no command the new connection has sent names an index or an
  underlying.
\<close>
theorem index_feeds_stay_down:
  assumes "gs_index_subscribed s" "\<not> gs_connected s" "subs_run sid prompt (connect_stream account s) t" "gs_connected t"
  shows "list_all (\<lambda>(n, c). \<not> about_index c) (gs_sent t)"
proof -
  have "index_dead (connect_stream account s)"
  proof -
    let ?r = "s\<lparr> gs_connected := True, gs_sids := [], gs_subscribed := [], gs_trade_subscribed := False,
                   gs_ticker_subscribed := False, gs_lifecycle_subscribed := False, gs_message_id := 1, gs_sent := [] \<rparr>"
    have "index_dead ?r" using assms(1) by (simp add: index_dead_def)
    then have "index_dead (sync_subscriptions ?r)" by (rule index_dead_sync)
    then show ?thesis by (simp add: connect_stream_def Let_def index_dead_send about_index_def)
  qed
  with assms(3) have "index_dead t" by (induction rule: subs_run.induct) (auto intro: step_index_dead)
  then show ?thesis by (simp add: index_dead_def)
qed

definition index_stream :: subs where
  "index_stream = connect_stream False (init_subs True [''BRTI''] [] False)"

theorem index_feeds_stay_down_witness:
  "(2, SubscribeIndexes [''BRTI'']) \<in> set (gs_sent index_stream) \<and> gs_index_ids (connect_stream False (drop_stream index_stream)) = [''BRTI'']
   \<and> list_all (\<lambda>(n, c). \<not> about_index c) (gs_sent (connect_stream False (drop_stream index_stream)))"
proof -
  have f: "gs_index_subscribed (drop_stream index_stream)" "\<not> gs_connected (drop_stream index_stream)"
    "gs_connected (connect_stream False (drop_stream index_stream))"
    "gs_index_ids (connect_stream False (drop_stream index_stream)) = [''BRTI'']"
    "gs_sent index_stream = [(1, Subscribe [''trade''] None False), (2, SubscribeIndexes [''BRTI''])]" by code_simp+
  show ?thesis using index_feeds_stay_down [OF f(1,2) stay [of sid_demo False] f(3)] f(4,5) by simp
qed

text \<open>The table of server error codes stays within its cap.\<close>

lemma error_codes_bounded:
  assumes "length (gs_errors_by_code s) \<le> MAX_SERVER_ERROR_CODES_TRACKED"
  shows "length (gs_errors_by_code (record_server_error now err s)) \<le> MAX_SERVER_ERROR_CODES_TRACKED"
proof -
  define code where "code = jget err ''code''"
  define k where "k = error_key code"
  define d where "d = (if k \<in> set (dkeys (gs_errors_by_code s)) \<or> length (gs_errors_by_code s) < MAX_SERVER_ERROR_CODES_TRACKED
    then bump k (gs_errors_by_code s) else gs_errors_by_code s)"
  have "length d \<le> MAX_SERVER_ERROR_CODES_TRACKED"
    using assms by (cases "k \<in> set (dkeys (gs_errors_by_code s))")
      (simp_all add: d_def bump_def bump_by_def length_dput_present length_dput_absent)
  moreover have "gs_errors_by_code (record_server_error now err s) = d"
    unfolding record_server_error_def Let_def code_def [symmetric] k_def [symmetric] d_def [symmetric] by simp
  ultimately show ?thesis by simp
qed

end
