(* ===== verification/RealOrders.thy ===== *)
theory RealOrders
  imports Risk Contracts
begin

text \<open>
  \<open>services/kalshi/orders.py\<close> and \<open>services/execution.py\<close>: the gates every real order passes, and
  the emergency flatten of the real account. The exchange's answer to a submission is a parameter
  \<open>answer\<close>, a function of the submitted keywords that gives an error text or a response.
\<close>

subsection \<open>The order gateway\<close>

datatype order_fault =
    TradingDisabled
  | HaltedByKillSwitch "string option"
  | BadSide string
  | ApiError string

record order_gateway =
  og_trading_enabled :: bool
  og_risk :: "risk option"
  og_sent :: "msg list"
  og_cancelled :: "string list"

definition require_trading_enabled :: "order_gateway \<Rightarrow> order_fault option" where
  "require_trading_enabled g = (if og_trading_enabled g then None else Some TradingDisabled)"

definition require_risk_ok :: "order_gateway \<Rightarrow> order_fault option" where
  "require_risk_ok g =
     (case og_risk g of None \<Rightarrow> None | Some r \<Rightarrow> if rk_halted r then Some (HaltedByKillSwitch (rk_halt_reason r)) else None)"

text \<open>\<open>create_order\<close> with its request built from the arguments and the millisecond clock.\<close>

definition create_order ::
  "(msg \<Rightarrow> string + json) \<Rightarrow> create_order_request \<Rightarrow> string \<Rightarrow> bool \<Rightarrow> order_gateway \<Rightarrow> (order_fault + json) \<times> order_gateway" where
  "create_order answer args stamp_id is_closing_order g =
     (case require_trading_enabled g of
        Some e \<Rightarrow> (Inl e, g)
      | None \<Rightarrow>
          (case (if is_closing_order then None else require_risk_ok g) of
             Some e \<Rightarrow> (Inl e, g)
           | None \<Rightarrow>
               (case check_order_request (args\<lparr> co_client_order_id := Some (case co_client_order_id args of
                        Some i \<Rightarrow> if i = [] then stamp_id else i | None \<Rightarrow> stamp_id) \<rparr>) of
                  Inl e \<Rightarrow> (Inl (BadSide (co_side args)), g)
                | Inr request \<Rightarrow>
                    (let kwargs = create_order_kwargs request; g1 = g\<lparr> og_sent := og_sent g @ [kwargs] \<rparr> in
                     case answer kwargs of Inl e \<Rightarrow> (Inl (ApiError e), g1) | Inr r \<Rightarrow> (Inr r, g1)))))"

definition cancel_order :: "(string \<Rightarrow> string + json) \<Rightarrow> string \<Rightarrow> order_gateway \<Rightarrow> (order_fault + json) \<times> order_gateway" where
  "cancel_order answer order_id g =
     (case require_trading_enabled g of
        Some e \<Rightarrow> (Inl e, g)
      | None \<Rightarrow> (let g1 = g\<lparr> og_cancelled := og_cancelled g @ [order_id] \<rparr> in
                 case answer order_id of Inl e \<Rightarrow> (Inl (ApiError e), g1) | Inr r \<Rightarrow> (Inr r, g1)))"

subsection \<open>Emergency flatten\<close>

record flatten_row =
  fr_ticker :: string
  fr_position :: f64
  fr_outcome :: "order_fault + json"

definition flatten_request :: "string \<Rightarrow> f64 \<Rightarrow> create_order_request" where
  "flatten_request ticker position_fp =
     (let side = (if position_fp > 0 then ''ask'' else ''bid'') in
      \<lparr>co_ticker = ticker, co_side = side, co_count = fmt_fixed 2 \<bar>position_fp\<bar>,
       co_price = (if side = ''ask'' then ''0.0100'' else ''0.9900''),
       co_time_in_force = ''immediate_or_cancel'', co_self_trade_prevention_type = ''taker_at_cross'',
       co_client_order_id = None, co_expiration_time = None, co_post_only = None,
       co_cancel_order_on_pause = None, co_reduce_only = None\<rparr>)"

text \<open>
  The loop over the positions, with the clock's id for each order. A ticker that is no text is
  treated as absent; a \<open>position_fp\<close> that is no number raises out of the loop (\<open>None\<close>), with the
  orders before it already sent.
\<close>

fun flatten_loop ::
  "(msg \<Rightarrow> string + json) \<Rightarrow> (nat \<Rightarrow> string) \<Rightarrow> msg list \<Rightarrow> nat \<Rightarrow> order_gateway \<Rightarrow> flatten_row list option \<times> order_gateway" where
  "flatten_loop answer stamp [] n g = (Some [], g)"
| "flatten_loop answer stamp (pos # rest) n g =
     (case py_float (jor (jget pos ''position_fp'') (JInt 0)) of
        None \<Rightarrow> (None, g)
      | Some position_fp \<Rightarrow>
          (case jget pos ''ticker'' of
             JStr ticker \<Rightarrow>
               if ticker = [] \<or> position_fp = 0 then flatten_loop answer stamp rest (n + 1) g
               else (let (r, g1) = create_order answer (flatten_request ticker position_fp) (stamp n) True g;
                         (rows, g2) = flatten_loop answer stamp rest (n + 1) g1
                     in (map_option (\<lambda>rs. \<lparr>fr_ticker = ticker, fr_position = position_fp, fr_outcome = r\<rparr> # rs) rows, g2))
           | _ \<Rightarrow> flatten_loop answer stamp rest (n + 1) g))"

definition flatten_all_real_positions ::
  "(msg \<Rightarrow> string + json) \<Rightarrow> (nat \<Rightarrow> string) \<Rightarrow> msg list \<Rightarrow> order_gateway \<Rightarrow> flatten_row list option \<times> order_gateway" where
  "flatten_all_real_positions answer stamp positions g = flatten_loop answer stamp positions 0 g"

subsection \<open>What a flatten sends\<close>

text \<open>The positions with a ticker and contracts, and the order each one calls for.\<close>

definition held_of :: "msg \<Rightarrow> (string \<times> f64) list" where
  "held_of pos =
     (case (jget pos ''ticker'', py_float (jor (jget pos ''position_fp'') (JInt 0))) of
        (JStr t, Some p) \<Rightarrow> if t = [] \<or> p = 0 then [] else [(t, p)]
      | _ \<Rightarrow> [])"

definition held_positions :: "msg list \<Rightarrow> (string \<times> f64) list" where
  "held_positions positions = concat (map held_of positions)"

definition readable :: "msg \<Rightarrow> bool" where
  "readable pos \<longleftrightarrow> py_float (jor (jget pos ''position_fp'') (JInt 0)) \<noteq> None"

definition closes :: "string \<times> f64 \<Rightarrow> msg \<Rightarrow> bool" where
  "closes = (\<lambda>(t, p) kw. jget kw ''ticker'' = JStr t \<and> jget kw ''count'' = JStr (fmt_fixed 2 \<bar>p\<bar>)
     \<and> jget kw ''side'' = JStr (if p > 0 then ''ask'' else ''bid'')
     \<and> jget kw ''price'' = JStr (if p > 0 then ''0.0100'' else ''0.9900'')
     \<and> jget kw ''time_in_force'' = JStr ''immediate_or_cancel'')"

definition exchange_answer :: "string + json \<Rightarrow> order_fault + json" where
  "exchange_answer a = (case a of Inl e \<Rightarrow> Inl (ApiError e) | Inr r \<Rightarrow> Inr r)"

lemma create_order_flatten:
  assumes "og_trading_enabled g"
  shows "\<exists>kw. snd (create_order answer (flatten_request t p) i True g) = g\<lparr> og_sent := og_sent g @ [kw] \<rparr> \<and> closes (t, p) kw
    \<and> fst (create_order answer (flatten_request t p) i True g) = exchange_answer (answer kw)"
proof -
  define kw where "kw = create_order_kwargs ((flatten_request t p)\<lparr> co_client_order_id := Some i \<rparr>)"
  have "check_order_request ((flatten_request t p)\<lparr> co_client_order_id := Some i \<rparr>)
      = Inr ((flatten_request t p)\<lparr> co_client_order_id := Some i \<rparr>)"
    by (simp add: check_order_request_def flatten_request_def Let_def)
  then have "create_order answer (flatten_request t p) i True g
      = (exchange_answer (answer kw), g\<lparr> og_sent := og_sent g @ [kw] \<rparr>)"
    using assms by (cases "answer kw")
      (simp_all add: create_order_def require_trading_enabled_def flatten_request_def Let_def kw_def exchange_answer_def)
  moreover have "closes (t, p) kw"
    by (simp add: closes_def kw_def create_order_kwargs_def flatten_request_def Let_def jget_def)
  ultimately show ?thesis by auto
qed

lemma flatten_loop_sends:
  assumes "list_all readable positions" "og_trading_enabled g"
  shows "\<exists>kws rows. flatten_loop answer stamp positions n g = (Some rows, g\<lparr> og_sent := og_sent g @ kws \<rparr>)
    \<and> list_all2 closes (held_positions positions) kws
    \<and> list_all2 (\<lambda>(t, p) r. fr_ticker r = t \<and> fr_position r = p) (held_positions positions) rows
    \<and> map fr_outcome rows = map (\<lambda>kw. exchange_answer (answer kw)) kws"
  using assms
proof (induction positions arbitrary: n g)
  case Nil
  then show ?case by (auto simp: held_positions_def)
next
  case (Cons pos rest)
  obtain p where p: "py_float (jor (jget pos ''position_fp'') (JInt 0)) = Some p"
    using Cons.prems(1) by (auto simp: readable_def)
  have rest: "list_all readable rest" using Cons.prems(1) by simp
  show ?case
  proof (cases "held_of pos")
    case Nil
    then have "flatten_loop answer stamp (pos # rest) n g = flatten_loop answer stamp rest (n + 1) g"
      by (auto simp: p held_of_def split: json.splits if_splits)
    then show ?thesis using Cons.IH [OF rest Cons.prems(2), of "n + 1"] Nil by (simp add: held_positions_def)
  next
    case (Cons h hs)
    then obtain t where t: "jget pos ''ticker'' = JStr t" "t \<noteq> []" "p \<noteq> 0" "held_of pos = [(t, p)]"
      by (auto simp: p held_of_def split: json.splits if_splits)
    obtain kw where kw: "snd (create_order answer (flatten_request t p) (stamp n) True g) = g\<lparr> og_sent := og_sent g @ [kw] \<rparr>"
      "closes (t, p) kw" "fst (create_order answer (flatten_request t p) (stamp n) True g) = exchange_answer (answer kw)"
      using create_order_flatten [OF Cons.prems(2)] by blast
    have c: "create_order answer (flatten_request t p) (stamp n) True g
        = (exchange_answer (answer kw), g\<lparr> og_sent := og_sent g @ [kw] \<rparr>)"
      using kw(1,3) by (metis prod.collapse)
    have en: "og_trading_enabled (g\<lparr> og_sent := og_sent g @ [kw] \<rparr>)" using Cons.prems(2) by simp
    have "\<exists>kws rows. flatten_loop answer stamp rest (n + 1) (g\<lparr> og_sent := og_sent g @ [kw] \<rparr>)
        = (Some rows, g\<lparr> og_sent := og_sent g @ kw # kws \<rparr>)
      \<and> list_all2 closes (held_positions rest) kws
      \<and> list_all2 (\<lambda>(t, p) r. fr_ticker r = t \<and> fr_position r = p) (held_positions rest) rows
      \<and> map fr_outcome rows = map (\<lambda>kw. exchange_answer (answer kw)) kws"
      using Cons.IH [OF rest en, of "n + 1"] by simp
    then obtain kws rows where ih: "flatten_loop answer stamp rest (n + 1) (g\<lparr> og_sent := og_sent g @ [kw] \<rparr>)
        = (Some rows, g\<lparr> og_sent := og_sent g @ kw # kws \<rparr>)"
      "list_all2 closes (held_positions rest) kws"
      "list_all2 (\<lambda>(t, p) r. fr_ticker r = t \<and> fr_position r = p) (held_positions rest) rows"
      "map fr_outcome rows = map (\<lambda>kw. exchange_answer (answer kw)) kws"
      by blast
    let ?row = "\<lparr>fr_ticker = t, fr_position = p, fr_outcome = exchange_answer (answer kw)\<rparr>"
    have "flatten_loop answer stamp (pos # rest) n g = (Some (?row # rows), g\<lparr> og_sent := og_sent g @ kw # kws \<rparr>)"
      using t(2,3) ih(1) by (simp add: p t(1) c)
    then show ?thesis using ih(2-4) kw(2) t(4)
      by (intro exI [of _ "kw # kws"] exI [of _ "?row # rows"]) (simp add: held_positions_def)
  qed
qed

lemma flatten_loop_append:
  assumes "list_all readable xs" "flatten_loop answer stamp xs n g = (Some rows, g1)"
  shows "flatten_loop answer stamp (xs @ ys) n g
    = (map_option ((@) rows) (fst (flatten_loop answer stamp ys (n + length xs) g1)),
       snd (flatten_loop answer stamp ys (n + length xs) g1))"
  using assms
proof (induction xs arbitrary: n g rows)
  case Nil
  then show ?case
    by (cases "flatten_loop answer stamp ys n g") (auto simp: map_option_case split: option.split)
next
  case (Cons pos rest)
  obtain p where p: "py_float (jor (jget pos ''position_fp'') (JInt 0)) = Some p"
    using Cons.prems(1) by (auto simp: readable_def)
  show ?case
  proof (cases "held_of pos")
    case Nil
    then have skip: "flatten_loop answer stamp (pos # qs) n g = flatten_loop answer stamp qs (n + 1) g" for qs
      by (auto simp: p held_of_def split: json.splits if_splits)
    then show ?thesis using Cons.IH [of "n + 1" g rows] Cons.prems by simp
  next
    case (Cons h hs)
    then obtain t where t: "jget pos ''ticker'' = JStr t" "t \<noteq> []" "p \<noteq> 0"
      by (auto simp: p held_of_def split: json.splits if_splits)
    obtain r g' where c: "create_order answer (flatten_request t p) (stamp n) True g = (r, g')"
      by (cases "create_order answer (flatten_request t p) (stamp n) True g")
    have one: "flatten_loop answer stamp (pos # qs) n g
        = (map_option (\<lambda>rs. \<lparr>fr_ticker = t, fr_position = p, fr_outcome = r\<rparr> # rs) (fst (flatten_loop answer stamp qs (n + 1) g')),
           snd (flatten_loop answer stamp qs (n + 1) g'))" for qs
      using t(2,3) by (simp add: p t(1) c split: prod.split)
    obtain rows' where r': "flatten_loop answer stamp rest (n + 1) g' = (Some rows', g1)"
      "rows = \<lparr>fr_ticker = t, fr_position = p, fr_outcome = r\<rparr> # rows'"
      using Cons.prems(2) unfolding one by (cases "flatten_loop answer stamp rest (n + 1) g'") auto
    show ?thesis
      unfolding append_Cons one
      using Cons.IH [OF _ r'(1)] Cons.prems(1) r'(2) by (simp add: option.map_comp comp_def)
  qed
qed


text \<open>
  One position whose count does not read as a number ends the flatten: the orders before it are
  sent, none of the positions behind it is touched, and the caller gets the exception instead of
  the rows.
\<close>
theorem unreadable_position_stops_the_flatten:
  assumes "list_all readable xs" "\<not> readable pos" "og_trading_enabled g"
  shows "\<exists>kws. flatten_all_real_positions answer stamp (xs @ pos # ys) g = (None, g\<lparr> og_sent := og_sent g @ kws \<rparr>)
    \<and> list_all2 closes (held_positions xs) kws"
proof -
  obtain kws rows where x: "flatten_loop answer stamp xs 0 g = (Some rows, g\<lparr> og_sent := og_sent g @ kws \<rparr>)"
    "list_all2 closes (held_positions xs) kws"
    using flatten_loop_sends [OF assms(1,3)] by blast
  have "flatten_loop answer stamp (pos # ys) n g' = (None, g')" for n g'
    using assms(2) by (simp add: readable_def)
  then show ?thesis
    using flatten_loop_append [OF assms(1) x(1), of "pos # ys"] x(2) by (auto simp: flatten_all_real_positions_def)
qed

definition demo_positions :: "msg list" where
  "demo_positions = [[(''ticker'', JStr ''A''), (''position_fp'', JInt 3)], [(''ticker'', JStr ''B''), (''position_fp'', JInt (-2))]]"

definition demo_gateway :: order_gateway where
  "demo_gateway = \<lparr>og_trading_enabled = True, og_risk = None, og_sent = [], og_cancelled = []\<rparr>"

lemma demo_readable: "list_all readable demo_positions"
  by (simp add: demo_positions_def readable_def jget_def jor_def)

lemma demo_held: "held_positions demo_positions = [(''A'', 3), (''B'', -2)]"
  by (simp add: demo_positions_def held_positions_def held_of_def jget_def jor_def fint_def fl_of_int [of 3, simplified]
      fl_of_int [of "-2", simplified])


theorem unreadable_position_stops_the_flatten_witness:
  "fst (flatten_all_real_positions (\<lambda>kw. Inl ''rejected'') (\<lambda>n. ''id'')
      ([] @ [(''ticker'', JStr ''A''), (''position_fp'', JStr ''n/a'')] # demo_positions) demo_gateway) = None"
proof -
  have "\<not> readable [(''ticker'', JStr ''A''), (''position_fp'', JStr ''n/a'')]" unfolding readable_def by code_simp
  then show ?thesis
    using unreadable_position_stops_the_flatten [of "[]" "[(''ticker'', JStr ''A''), (''position_fp'', JStr ''n/a'')]" demo_gateway
        "\<lambda>kw. Inl ''rejected''" "\<lambda>n. ''id''" demo_positions]
    by (auto simp: demo_gateway_def)
qed

text \<open>No opening order leaves the gateway while it is disabled or the kill switch is on.\<close>

lemma opening_orders_are_gated:
  assumes "\<not> og_trading_enabled g \<or> (\<exists>r. og_risk g = Some r \<and> rk_halted r)"
  shows "snd (create_order answer args i False g) = g \<and> (\<exists>e. fst (create_order answer args i False g) = Inl e)"
  using assms by (auto simp: create_order_def require_trading_enabled_def require_risk_ok_def split: option.splits)

end
