(* ===== verification/SettlementResolver.thy ===== *)
theory SettlementResolver
  imports SettlementEdge SignalLog MarketHistory PyRepr TradeTape
begin

text \<open>
  \<open>services/settlement_resolver.py\<close>: settled tickers wait for a delay, are read in one batch, and
  a final yes or no is written to the outcome, edge, analyst, candidate and signal stores; what
  cannot be resolved is retried with a pause and dropped after a number of attempts. The batch read
  is a parameter (\<open>None\<close> when it raises), so are the two stores not modelled here: each gives the
  number of rows it resolved or \<open>None\<close> when it raises. A settlement enqueued while a pass awaits
  commutes with it, since a pass only touches the tickers it took at its start.
\<close>

definition TERMINAL_REST_STATUS :: string where "TERMINAL_REST_STATUS = ''finalized''"
definition MAX_RESULT_KEYS :: nat where "MAX_RESULT_KEYS = 12"
definition MAX_RESULT_KEY_CHARS :: nat where "MAX_RESULT_KEY_CHARS = 32"
definition MAX_RECENT_SKIPS :: nat where "MAX_RECENT_SKIPS = 20"

record settle_entry =
  sn_settled_ts :: f64
  sn_enqueued_at :: f64
  sn_attempts :: nat
  sn_not_before :: f64

record resolver =
  rv_pending :: "(string, settle_entry) pdict"
  rv_enqueued_total :: nat
  rv_resolved_total :: nat
  rv_dropped_total :: nat
  rv_gave_up :: nat
  rv_skipped :: nat
  rv_last_run_at :: f64
  rv_by_result :: counters
  rv_recent :: "(string \<times> string \<times> f64) list"
  rv_faults :: "string list"

record outcome_stores =
  os_history :: market_history
  os_edge :: edge_store
  os_signals :: signal_log

definition init_resolver :: resolver where
  "init_resolver = \<lparr>rv_pending = [], rv_enqueued_total = 0, rv_resolved_total = 0, rv_dropped_total = 0, rv_gave_up = 0,
     rv_skipped = 0, rv_last_run_at = 0, rv_by_result = [], rv_recent = [], rv_faults = []\<rparr>"

definition enqueue_settlement :: "string \<Rightarrow> f64 option \<Rightarrow> f64 \<Rightarrow> resolver \<Rightarrow> resolver" where
  "enqueue_settlement ticker settled_ts now r =
     (if ticker = [] then r
      else case dget (rv_pending r) ticker of
        Some e \<Rightarrow> r
      | None \<Rightarrow> r\<lparr> rv_pending := dput ticker
            \<lparr>sn_settled_ts = (case settled_ts of None \<Rightarrow> now | Some t \<Rightarrow> t), sn_enqueued_at = now, sn_attempts = 0,
             sn_not_before = 0\<rparr> (rv_pending r),
          rv_enqueued_total := rv_enqueued_total r + 1 \<rparr>)"

definition pending_settlements :: "resolver \<Rightarrow> (string \<times> f64) list" where
  "pending_settlements r = map (\<lambda>(t, e). (t, sn_settled_ts e)) (rv_pending r)"

text \<open>\<open>str(raw_result)\<close> of a value that is text or falsy.\<close>

definition result_text :: "json \<Rightarrow> string" where
  "result_text raw =
     (case raw of JStr s \<Rightarrow> s | JBool b \<Rightarrow> if b then ''True'' else ''False'' | JInt n \<Rightarrow> str_int n | JFloat x \<Rightarrow> py_repr x
      | JArr xs \<Rightarrow> ''[]'' | JObj d \<Rightarrow> ''{}'' | JNull \<Rightarrow> ''None'')"

definition result_key :: "json \<Rightarrow> string" where
  "result_key raw =
     (if raw = JNull then ''<absent>''
      else let k = take MAX_RESULT_KEY_CHARS (str_lower (str_strip (result_text raw))) in if k = [] then ''<empty>'' else k)"

text \<open>The ring of recent skips keeps the latest ones.\<close>

definition note_non_binary :: "string \<Rightarrow> json \<Rightarrow> f64 \<Rightarrow> resolver \<Rightarrow> resolver" where
  "note_non_binary ticker raw now r =
     (let k0 = result_key raw;
          k = (if k0 \<notin> set (dkeys (rv_by_result r)) \<and> length (rv_by_result r) \<ge> MAX_RESULT_KEYS then ''__other__'' else k0);
          recent = rv_recent r @ [(ticker, k, now)]
      in r\<lparr> rv_by_result := bump k (rv_by_result r),
            rv_recent := drop (length recent - MAX_RECENT_SKIPS) recent \<rparr>)"

text \<open>\<open>_resolve_one_sync\<close>: a store that raises leaves the writes of the earlier ones in place.\<close>

definition resolve_one ::
  "title_cache \<Rightarrow> (string \<Rightarrow> string \<Rightarrow> nat option) \<Rightarrow> (string \<Rightarrow> string \<Rightarrow> nat option) \<Rightarrow> string \<Rightarrow> string \<Rightarrow> f64
     \<Rightarrow> outcome_stores \<Rightarrow> nat option \<times> outcome_stores" where
  "resolve_one tc analyst candidates ticker result now s =
     (let s1 = s\<lparr> os_history := record_outcome tc ticker result now (os_history s) \<rparr>;
          (n1, edge) = resolve_window ticker (result = ''yes'') None now (os_edge s1);
          s2 = s1\<lparr> os_edge := edge \<rparr>
      in case analyst ticker result of None \<Rightarrow> (None, s2)
       | Some n2 \<Rightarrow> (case candidates ticker result of None \<Rightarrow> (None, s2)
           | Some n3 \<Rightarrow> (let (n4, signals) = resolve_from_market_results ticker result now (os_signals s2)
               in (Some (n1 + n2 + n3 + n4), s2\<lparr> os_signals := signals \<rparr>))))"

definition retry_or_drop :: "string \<Rightarrow> settle_entry \<Rightarrow> f64 \<Rightarrow> f64 \<Rightarrow> nat \<Rightarrow> resolver \<Rightarrow> resolver" where
  "retry_or_drop ticker e now delay_sec max_attempts r =
     (let e1 = e\<lparr> sn_attempts := sn_attempts e + 1, sn_not_before := fadd now delay_sec \<rparr> in
      if sn_attempts e1 \<ge> max_attempts
      then r\<lparr> rv_pending := ddel ticker (rv_pending r), rv_gave_up := rv_gave_up r + 1,
              rv_dropped_total := rv_dropped_total r + 1, rv_faults := rv_faults r @ [''dropped_after_max_attempts:'' @ ticker] \<rparr>
      else r\<lparr> rv_pending := dput ticker e1 (rv_pending r) \<rparr>)"

definition due_settlements :: "f64 \<Rightarrow> f64 \<Rightarrow> nat \<Rightarrow> resolver \<Rightarrow> string list" where
  "due_settlements now delay_sec batch_size r =
     take batch_size (map fst (sort_key (\<lambda>(t, e). sn_enqueued_at e)
       (filter (\<lambda>(t, e). fsub now (sn_enqueued_at e) \<ge> delay_sec \<and> now \<ge> sn_not_before e) (rv_pending r))))"

record resolver_env =
  vn_titles :: title_cache
  vn_analyst :: "string \<Rightarrow> string \<Rightarrow> nat option"
  vn_candidates :: "string \<Rightarrow> string \<Rightarrow> nat option"
  vn_now :: f64
  vn_delay_sec :: f64
  vn_batch_size :: nat
  vn_max_attempts :: nat

text \<open>
  One ticker of the batch. \<open>None\<close> in the first place is the exception of \<open>.strip()\<close> on a result that
  is neither text nor falsy, which leaves the pass; otherwise the rows resolved, if any.
\<close>

definition settle_one ::
  "resolver_env \<Rightarrow> (string, msg) pdict \<Rightarrow> string \<Rightarrow> resolver \<times> outcome_stores
     \<Rightarrow> nat option option \<times> resolver \<times> outcome_stores" where
  "settle_one en markets ticker rs =
     (case rs of (r, s) \<Rightarrow>
      (case dget (rv_pending r) ticker of
         None \<Rightarrow> (Some None, r, s)
       | Some e \<Rightarrow>
           (let later = (\<lambda>s'. (Some None, retry_or_drop ticker e (vn_now en) (vn_delay_sec en) (vn_max_attempts en) r, s')) in
            case dget markets ticker of
              None \<Rightarrow> later s
            | Some m \<Rightarrow>
                if jget m ''status'' \<noteq> JStr TERMINAL_REST_STATUS then later s
                else let raw = jget m ''result'' in
                  case (if truthy raw then raw else JStr []) of
                    JStr text \<Rightarrow>
                      (let result = str_lower (str_strip text) in
                       if result \<noteq> ''yes'' \<and> result \<noteq> ''no''
                       then (Some None, note_non_binary ticker raw (vn_now en)
                               (r\<lparr> rv_pending := ddel ticker (rv_pending r), rv_skipped := rv_skipped r + 1,
                                   rv_dropped_total := rv_dropped_total r + 1 \<rparr>), s)
                       else case resolve_one (vn_titles en) (vn_analyst en) (vn_candidates en) ticker result (vn_now en) s of
                              (None, s1) \<Rightarrow>
                                (Some None, retry_or_drop ticker e (vn_now en) (vn_delay_sec en) (vn_max_attempts en)
                                   (r\<lparr> rv_faults := rv_faults r @ [''resolve:'' @ ticker] \<rparr>), s1)
                            | (Some n, s1) \<Rightarrow>
                                (Some (Some n), r\<lparr> rv_pending := ddel ticker (rv_pending r),
                                   rv_resolved_total := rv_resolved_total r + 1 \<rparr>, s1))
                  | _ \<Rightarrow> (None, r, s))))"

fun settle_loop ::
  "resolver_env \<Rightarrow> (string, msg) pdict \<Rightarrow> string list \<Rightarrow> resolver \<times> outcome_stores
     \<Rightarrow> nat list option \<times> resolver \<times> outcome_stores" where
  "settle_loop en markets [] rs = (Some [], rs)"
| "settle_loop en markets (t # ts) rs =
     (case settle_one en markets t rs of
        (None, rs1) \<Rightarrow> (None, rs1)
      | (Some n, rs1) \<Rightarrow>
          (case settle_loop en markets ts rs1 of
             (None, rs2) \<Rightarrow> (None, rs2)
           | (Some ns, rs2) \<Rightarrow> (Some (case n of None \<Rightarrow> ns | Some k \<Rightarrow> k # ns), rs2)))"

text \<open>The pass: tickers resolved, tickers still pending and rows, or the exception.\<close>

definition run_settlements ::
  "resolver_env \<Rightarrow> (string list \<Rightarrow> (string, msg) pdict option) \<Rightarrow> resolver \<times> outcome_stores
     \<Rightarrow> (nat \<times> nat \<times> nat) option \<times> resolver \<times> outcome_stores" where
  "run_settlements en fetch rs =
     (let due = due_settlements (vn_now en) (vn_delay_sec en) (vn_batch_size en) (fst rs);
          finish = (\<lambda>ns (r, s). (Some (length ns, length (rv_pending r), sum_list ns), r\<lparr> rv_last_run_at := vn_now en \<rparr>, s))
      in if due = [] then finish [] rs
         else case fetch due of
           None \<Rightarrow> finish [] rs
         | Some markets \<Rightarrow>
             (case settle_loop en markets due rs of
                (None, rs1) \<Rightarrow> (None, rs1)
              | (Some ns, rs1) \<Rightarrow> finish ns rs1))"

subsection \<open>Accounting\<close>

datatype settle_op =
    Enqueue string "f64 option" f64
  | Pass resolver_env "string list \<Rightarrow> (string, msg) pdict option"

definition settle_step :: "settle_op \<Rightarrow> resolver \<times> outcome_stores \<Rightarrow> resolver \<times> outcome_stores" where
  "settle_step op rs = (case op of
       Enqueue t ts now \<Rightarrow> (enqueue_settlement t ts now (fst rs), snd rs)
     | Pass en fetch \<Rightarrow> snd (run_settlements en fetch rs))"

definition settlements_ok :: "resolver \<Rightarrow> bool" where
  "settlements_ok r \<longleftrightarrow> dict_ok (rv_pending r)
     \<and> rv_enqueued_total r = rv_resolved_total r + length (rv_pending r) + rv_dropped_total r
     \<and> rv_dropped_total r = rv_gave_up r + rv_skipped r
     \<and> length (rv_by_result r) \<le> MAX_RESULT_KEYS + 1 \<and> length (rv_recent r) \<le> MAX_RECENT_SKIPS
     \<and> (length (rv_by_result r) = MAX_RESULT_KEYS + 1 \<longrightarrow> ''__other__'' \<in> set (dkeys (rv_by_result r)))"

lemma length_ddel_present:
  assumes "dict_ok d" "dget d k = Some v"
  shows "length (ddel k d) + 1 = length d"
  using assms
proof (induction d)
  case (Cons a d)
  then show ?case
  proof (cases "fst a = k")
    case True
    then have "k \<notin> set (dkeys d)" using Cons.prems(1) by (auto simp: dict_ok_def)
    then have "ddel k d = d" by (rule length_ddel_absent)
    then show ?thesis using True by (simp add: ddel_def)
  next
    case False
    then show ?thesis using Cons by (cases a) (auto simp: ddel_def dict_ok_def)
  qed
qed simp

lemma settlements_ok_leave:
  assumes "settlements_ok r" "dget (rv_pending r) t = Some e"
  shows "settlements_ok (r\<lparr> rv_pending := ddel t (rv_pending r), rv_resolved_total := rv_resolved_total r + 1 \<rparr>)"
    "settlements_ok (r\<lparr> rv_pending := ddel t (rv_pending r), rv_skipped := rv_skipped r + 1,
       rv_dropped_total := rv_dropped_total r + 1 \<rparr>)"
    "settlements_ok (r\<lparr> rv_pending := ddel t (rv_pending r), rv_gave_up := rv_gave_up r + 1,
       rv_dropped_total := rv_dropped_total r + 1, rv_faults := fs \<rparr>)"
  using assms length_ddel_present [of "rv_pending r" t e] by (auto simp: settlements_ok_def dict_ok_ddel)

lemma settlements_ok_enqueue:
  assumes "settlements_ok r"
  shows "settlements_ok (enqueue_settlement t ts now r)"
proof (cases "t = [] \<or> dget (rv_pending r) t \<noteq> None")
  case True
  then show ?thesis using assms by (auto simp: enqueue_settlement_def)
next
  case False
  then have "t \<notin> set (dkeys (rv_pending r))" by (simp add: dget_eq_None_iff)
  then show ?thesis using False assms dict_ok_dput [of "rv_pending r" t]
    by (simp add: enqueue_settlement_def settlements_ok_def length_dput_absent)
qed

lemma settlements_ok_retry:
  assumes "settlements_ok r" "dget (rv_pending r) t = Some e"
  shows "settlements_ok (retry_or_drop t e now d m r)"
proof (cases "sn_attempts e + 1 \<ge> m")
  case True
  then show ?thesis using settlements_ok_leave(3) [OF assms] by (simp add: retry_or_drop_def Let_def)
next
  case False
  have "t \<in> set (dkeys (rv_pending r))" using assms(2) dget_eq_None_iff [of "rv_pending r" t] by auto
  then show ?thesis using False assms(1)
    by (simp add: retry_or_drop_def Let_def settlements_ok_def length_dput_present)
qed

lemma settlements_ok_note:
  assumes "settlements_ok r"
  shows "settlements_ok (note_non_binary t raw now r)"
proof -
  define k where "k = (if result_key raw \<notin> set (dkeys (rv_by_result r)) \<and> length (rv_by_result r) \<ge> MAX_RESULT_KEYS
    then ''__other__'' else result_key raw)"
  define d where "d = bump k (rv_by_result r)"
  have len: "length d = (if k \<in> set (dkeys (rv_by_result r)) then length (rv_by_result r) else length (rv_by_result r) + 1)"
    by (simp add: d_def bump_def bump_by_def length_dput_present length_dput_absent)
  have keys: "set (dkeys d) = insert k (set (dkeys (rv_by_result r)))"
    by (simp add: d_def bump_def bump_by_def set_dkeys_dput)
  have b: "length (rv_by_result r) \<le> MAX_RESULT_KEYS + 1"
    "length (rv_by_result r) = MAX_RESULT_KEYS + 1 \<longrightarrow> ''__other__'' \<in> set (dkeys (rv_by_result r))"
    using assms by (simp_all add: settlements_ok_def)
  have "length d \<le> MAX_RESULT_KEYS + 1 \<and> (length d = MAX_RESULT_KEYS + 1 \<longrightarrow> ''__other__'' \<in> set (dkeys d))"
  proof (cases "k \<in> set (dkeys (rv_by_result r))")
    case True
    then show ?thesis using b by (simp add: len keys insert_absorb)
  next
    case False
    then have "length (rv_by_result r) \<le> MAX_RESULT_KEYS"
      using b by (cases "length (rv_by_result r) = MAX_RESULT_KEYS + 1") (auto simp: k_def split: if_splits)
    then show ?thesis using False by (auto simp: len keys k_def split: if_splits)
  qed
  moreover have "note_non_binary t raw now r = r\<lparr> rv_by_result := d,
      rv_recent := drop (length (rv_recent r @ [(t, k, now)]) - MAX_RECENT_SKIPS) (rv_recent r @ [(t, k, now)]) \<rparr>"
    by (simp add: note_non_binary_def Let_def d_def k_def)
  ultimately show ?thesis using assms by (simp add: settlements_ok_def)
qed

lemma settlements_ok_one:
  assumes "settlements_ok r" "settle_one en markets t (r, s) = (n, r', s')"
  shows "settlements_ok r'"
proof (cases "dget (rv_pending r) t")
  case None
  then show ?thesis using assms by (simp add: settle_one_def)
next
  case (Some e)
  have r: "settlements_ok (retry_or_drop t e now d m r)" for now d m
    using settlements_ok_retry [OF assms(1) Some] .
  have f: "settlements_ok (retry_or_drop t e now d m (r\<lparr> rv_faults := fs \<rparr>))" for now d m fs
    by (rule settlements_ok_retry) (use assms(1) Some in \<open>simp_all add: settlements_ok_def\<close>)
  note leave = settlements_ok_leave [OF assms(1) Some]
  show ?thesis
    using assms(2) r f leave(1) settlements_ok_note [OF leave(2)] assms(1)
    by (auto simp: settle_one_def Some Let_def split: option.splits if_splits json.splits prod.splits)
qed

lemma settlements_ok_loop:
  "settle_loop en markets ts (r, s) = (n, r', s') \<Longrightarrow> settlements_ok r \<Longrightarrow> settlements_ok r'"
proof (induction ts arbitrary: r s n)
  case (Cons t ts)
  obtain k r1 s1 where one: "settle_one en markets t (r, s) = (k, r1, s1)" by (cases "settle_one en markets t (r, s)") auto
  have ok: "settlements_ok r1" using settlements_ok_one [OF Cons.prems(2) one] .
  show ?case
  proof (cases k)
    case None
    then show ?thesis using Cons.prems(1) one ok by simp
  next
    case (Some j)
    obtain m r2 s2 where rest: "settle_loop en markets ts (r1, s1) = (m, r2, s2)" by (cases "settle_loop en markets ts (r1, s1)") auto
    then have "r2 = r'" "s2 = s'" using Cons.prems(1) one Some by (cases m; auto)+
    then show ?thesis using Cons.IH [of r1 s1 m] rest ok by simp
  qed
qed simp

lemma settlements_ok_step:
  assumes "settlements_ok (fst rs)"
  shows "settlements_ok (fst (settle_step op rs))"
proof (cases op)
  case (Enqueue t ts now)
  then show ?thesis using settlements_ok_enqueue [OF assms] by (simp add: settle_step_def)
next
  case (Pass en fetch)
  obtain r s where rs: "rs = (r, s)" by (cases rs)
  define due where "due = due_settlements (vn_now en) (vn_delay_sec en) (vn_batch_size en) r"
  have last: "settlements_ok (x\<lparr> rv_last_run_at := v \<rparr>) = settlements_ok x" for x v by (simp add: settlements_ok_def)
  show ?thesis
  proof (cases "due = [] \<or> fetch due = None")
    case True
    then show ?thesis using assms
      by (auto simp: Pass settle_step_def run_settlements_def due_def [symmetric] Let_def rs last)
  next
    case False
    then obtain markets where m: "due \<noteq> []" "fetch due = Some markets" by auto
    obtain n r1 s1 where l: "settle_loop en markets due (r, s) = (n, r1, s1)" by (cases "settle_loop en markets due (r, s)") auto
    then have "settlements_ok r1" using settlements_ok_loop assms by (simp add: rs)
    then show ?thesis using m l
      by (cases n) (simp_all add: Pass settle_step_def run_settlements_def due_def [symmetric] Let_def rs last)
  qed
qed

text \<open>
  C34: Over every sequence of settlements enqueued and passes, whatever the exchange and the stores
  answer or raise, a ticker that was enqueued has been resolved, is still pending, or was dropped,
  exactly once; drops are those given up after the attempts plus those whose result is not binary,
  and the tallies of odd results stay within their bounds.
\<close>
theorem settlements_add_up:
  "let r = fst (fold settle_step ops (init_resolver, stores)) in
     rv_enqueued_total r = rv_resolved_total r + length (rv_pending r) + rv_dropped_total r
     \<and> rv_dropped_total r = rv_gave_up r + rv_skipped r
     \<and> distinct (dkeys (rv_pending r)) \<and> length (rv_by_result r) \<le> 13 \<and> length (rv_recent r) \<le> 20"
proof -
  have "settlements_ok (fst (fold settle_step ops rs))" if "settlements_ok (fst rs)" for rs
    using that by (induction ops arbitrary: rs) (simp_all add: settlements_ok_step)
  then have "settlements_ok (fst (fold settle_step ops (init_resolver, stores)))"
    by (simp add: init_resolver_def settlements_ok_def dict_ok_def)
  then show ?thesis by (simp add: Let_def settlements_ok_def dict_ok_def MAX_RESULT_KEYS_def MAX_RECENT_SKIPS_def)
qed

text \<open>A final yes or no reaches the outcome, edge and signal stores in one step.\<close>

lemma settled_ticker_is_resolved:
  assumes "dget (rv_pending r) t = Some e" "dget markets t = Some m" "jget m ''status'' = JStr ''finalized''"
    "jget m ''result'' = JStr result" "result = ''yes'' \<or> result = ''no''"
    "vn_analyst en t result = Some a" "vn_candidates en t result = Some c"
  shows "\<exists>n. settle_one en markets t (r, s) = (Some (Some n), r\<lparr> rv_pending := ddel t (rv_pending r),
      rv_resolved_total := rv_resolved_total r + 1 \<rparr>,
      \<lparr>os_history = record_outcome (vn_titles en) t result (vn_now en) (os_history s),
       os_edge = snd (resolve_window t (result = ''yes'') None (vn_now en) (os_edge s)),
       os_signals = snd (resolve_from_market_results t result (vn_now en) (os_signals s))\<rparr>)"
proof -
  have "str_lower (str_strip result) = result" using assms(5) by (elim disjE; simp only:; code_simp)
  moreover have "result \<noteq> []" using assms(5) by auto
  ultimately show ?thesis using assms
    by (cases s) (auto simp: settle_one_def resolve_one_def TERMINAL_REST_STATUS_def Let_def split: prod.splits)
qed

end
