(* ===== verification/ConfigStore.thy ===== *)
theory ConfigStore
  imports PyValues
begin

text \<open>
  \<open>services/config/config_store.py\<close>: settings.yaml in memory, re-read when its modification time
  changes, merged in place and written back through a temporary file that is renamed over it. A
  file is what parsing it gives (\<open>None\<close> when reading or parsing raises) with its modification
  time (\<open>None\<close> when \<open>stat\<close> raises); what was dumped parses back to itself. Comments,
  which ruamel keeps on the side, have no counterpart, and keys are text.
\<close>

record config_file =
  cf_content :: "json option"
  cf_mtime :: "f64 option"

record config_store =
  cs_data :: json
  cs_mtime :: "f64 option"

subsection \<open>Merging\<close>

definition FULL_REPLACE_PATHS :: "string list" where
  "FULL_REPLACE_PATHS = [''whale_watcher_kalshi.min_contracts_by_series'']"

definition key_path :: "string \<Rightarrow> string \<Rightarrow> string" where
  "key_path path key = (if path = [] then key else path @ ''.'' @ key)"

definition drop_stale :: "string \<Rightarrow> msg \<Rightarrow> msg \<Rightarrow> msg" where
  "drop_stale path patch existing =
     (if path \<in> set FULL_REPLACE_PATHS then filter (\<lambda>(k, v). k \<in> set (dkeys patch)) existing else existing)"

fun merge_in_place :: "string \<Rightarrow> msg \<Rightarrow> msg \<Rightarrow> msg" where
  "merge_in_place path [] dst = dst"
| "merge_in_place path ((key, JObj patch) # rest) dst =
     merge_in_place path rest
       (case dget dst key of
          Some (JObj existing) \<Rightarrow>
            dput key (JObj (merge_in_place (key_path path key) patch (drop_stale (key_path path key) patch existing))) dst
        | _ \<Rightarrow> dput key (JObj patch) dst)"
| "merge_in_place path ((key, v) # rest) dst = merge_in_place path rest (dput key v dst)"

subsection \<open>The store\<close>

datatype config_fault = Unreadable | WriteFailed

text \<open>The constructor, and \<open>reload\<close>.\<close>

definition reload_config :: "config_file \<Rightarrow> config_fault + config_store" where
  "reload_config f =
     (case cf_content f of None \<Rightarrow> Inl Unreadable | Some j \<Rightarrow> Inr \<lparr>cs_data = j, cs_mtime = cf_mtime f\<rparr>)"

text \<open>\<open>get\<close>: the store afterwards; its data is what the caller reads.\<close>

definition get_config :: "config_file \<Rightarrow> config_store \<Rightarrow> config_store" where
  "get_config f s =
     (case cf_mtime f of
        None \<Rightarrow> s
      | Some m \<Rightarrow>
          if cs_mtime s = Some m then s
          else case cf_content f of
            Some (JObj d) \<Rightarrow> if d = [] then s else s\<lparr> cs_data := JObj d, cs_mtime := Some m \<rparr>
          | _ \<Rightarrow> s)"

text \<open>
  \<open>update\<close>: the merge happens in memory first. \<open>written\<close> says whether opening, dumping and renaming
  went through, \<open>stamp\<close> is the modification time that results. Data that is no dictionary makes
  the merge raise; it then reads as a failed write that changes nothing.
\<close>

definition update_config ::
  "bool \<Rightarrow> f64 option \<Rightarrow> msg \<Rightarrow> config_file \<times> config_store \<Rightarrow> (config_fault + json) \<times> config_file \<times> config_store" where
  "update_config written stamp patch fs =
     (case fs of (f, s) \<Rightarrow>
      (case cs_data s of
         JObj d \<Rightarrow>
           (let data = JObj (merge_in_place [] patch d); s1 = s\<lparr> cs_data := data \<rparr> in
            if \<not> written then (Inl WriteFailed, f, s1)
            else (Inr data, \<lparr>cf_content = Some data, cf_mtime = stamp\<rparr>, s1\<lparr> cs_mtime := stamp \<rparr>))
       | _ \<Rightarrow> (Inl WriteFailed, f, s)))"

subsection \<open>Reading after a merge\<close>

text \<open>Documents whose dictionaries have each key once, at every depth.\<close>

fun doc_ok :: "json \<Rightarrow> bool" where
  "doc_ok (JObj d) \<longleftrightarrow> distinct (map fst d) \<and> (\<forall>(k, v)\<in>set d. doc_ok v)"
| "doc_ok v \<longleftrightarrow> True"

fun read_at :: "string list \<Rightarrow> json \<Rightarrow> json option" where
  "read_at [] j = Some j"
| "read_at (k # ks) (JObj d) = (case dget d k of None \<Rightarrow> None | Some v \<Rightarrow> read_at ks v)"
| "read_at (k # ks) j = None"

text \<open>The patch sets the value at a path; a path leaves the patch before meeting a value.\<close>

fun leaves_patch :: "string \<Rightarrow> string list \<Rightarrow> msg \<Rightarrow> bool" where
  "leaves_patch path [] patch = False"
| "leaves_patch path (k # ks) patch =
     (case dget patch k of
        None \<Rightarrow> True
      | Some (JObj d) \<Rightarrow> key_path path k \<notin> set FULL_REPLACE_PATHS \<and> leaves_patch (key_path path k) ks d
      | Some _ \<Rightarrow> False)"

definition is_dict :: "json \<Rightarrow> bool" where
  "is_dict j = (case j of JObj d \<Rightarrow> True | _ \<Rightarrow> False)"

lemma is_dict_simps [simp]: "is_dict (JObj d)" "\<not> is_dict JNull" "\<not> is_dict (JBool b)" "\<not> is_dict (JInt n)"
  "\<not> is_dict (JFloat x)" "\<not> is_dict (JStr s)" "\<not> is_dict (JArr xs)"
  by (simp_all add: is_dict_def)

definition merge_value :: "string \<Rightarrow> json \<Rightarrow> json option \<Rightarrow> json" where
  "merge_value path v old =
     (case (v, old) of
        (JObj patch, Some (JObj existing)) \<Rightarrow> JObj (merge_in_place path patch (drop_stale path patch existing))
      | _ \<Rightarrow> v)"

lemma merge_Cons: "merge_in_place path ((k, v) # rest) dst = merge_in_place path rest (dput k (merge_value (key_path path k) v (dget dst k)) dst)"
  by (cases v) (auto simp: merge_value_def split: option.split json.split)

lemma merge_other: "k \<notin> set (dkeys patch) \<Longrightarrow> dget (merge_in_place path patch dst) k = dget dst k"
proof (induction patch arbitrary: dst)
  case (Cons kv patch)
  then show ?case by (cases kv) (simp add: merge_Cons)
qed simp

lemma dget_merge:
  "distinct (dkeys patch) \<Longrightarrow> dget (merge_in_place path patch dst) k
     = (case dget patch k of None \<Rightarrow> dget dst k | Some v \<Rightarrow> Some (merge_value (key_path path k) v (dget dst k)))"
proof (induction patch arbitrary: dst)
  case (Cons kv patch)
  obtain k' v where kv: "kv = (k', v)" by (cases kv)
  show ?case
  proof (cases "k = k'")
    case True
    then show ?thesis using Cons.prems by (simp add: kv merge_Cons merge_other)
  next
    case False
    then show ?thesis using Cons by (simp add: kv merge_Cons split: option.split)
  qed
qed simp

lemma doc_ok_dget: "doc_ok (JObj d) \<Longrightarrow> dget d k = Some v \<Longrightarrow> doc_ok v"
  using dget_in_set [of d k v] by auto

lemma doc_ok_dkeys: "doc_ok (JObj d) \<Longrightarrow> distinct (dkeys d)"
  by (simp add: dkeys_def)

lemma read_at_not_dict: "\<forall>d. j \<noteq> JObj d \<Longrightarrow> read_at (k # ks) j = None"
  by (cases j) auto



subsection \<open>Well-formed documents stay well-formed\<close>

lemma doc_ok_iff: "doc_ok (JObj d) \<longleftrightarrow> distinct (dkeys d) \<and> (\<forall>k v. dget d k = Some v \<longrightarrow> doc_ok v)"
proof -
  have "(\<forall>(k, v)\<in>set d. doc_ok v) \<longleftrightarrow> (\<forall>k v. dget d k = Some v \<longrightarrow> doc_ok v)" if "distinct (dkeys d)"
    using dget_iff_in_set [of d] that by (auto simp: dict_ok_def)
  then show ?thesis by (auto simp: dkeys_def)
qed

lemma doc_ok_dput: "doc_ok (JObj d) \<Longrightarrow> doc_ok v \<Longrightarrow> doc_ok (JObj (dput k v d))"
  using dict_ok_dput [of d k v] unfolding doc_ok_iff dict_ok_def by auto

lemma doc_ok_drop_stale:
  assumes "doc_ok (JObj d)"
  shows "doc_ok (JObj (drop_stale path patch d))"
proof -
  have "distinct (map fst (filter P d))" for P using assms by (auto simp: distinct_map_filter)
  then show ?thesis using assms by (auto simp: drop_stale_def)
qed

lemma doc_ok_ConsD: "doc_ok (JObj ((k, v) # d)) \<Longrightarrow> doc_ok v" "doc_ok (JObj ((k, v) # d)) \<Longrightarrow> doc_ok (JObj d)"
  by simp_all

text \<open>
  Merging a well-formed patch into a well-formed document gives a well-formed document: every
  dictionary in it, at every depth, still has each key once, the ones below the full-replacement path
  included.
\<close>
theorem merge_keeps_documents_well_formed:
  "doc_ok (JObj patch) \<and> doc_ok (JObj dst) \<longrightarrow> doc_ok (JObj (merge_in_place path patch dst))"
proof (induction path patch dst rule: merge_in_place.induct)
  case (2 path key patch rest dst)
  show ?case
  proof
    assume a: "doc_ok (JObj ((key, JObj patch) # rest)) \<and> doc_ok (JObj dst)"
    have p: "doc_ok (JObj patch)" "doc_ok (JObj rest)" using doc_ok_ConsD [OF conjunct1 [OF a]] .
    show "doc_ok (JObj (merge_in_place path ((key, JObj patch) # rest) dst))"
    proof (cases "\<exists>ev. dget dst key = Some (JObj ev)")
      case True
      then obtain ev where ev: "dget dst key = Some (JObj ev)" by blast
      have "doc_ok (JObj (drop_stale (key_path path key) patch ev))"
        using doc_ok_drop_stale doc_ok_dget [OF conjunct2 [OF a] ev] .
      then have "doc_ok (JObj (merge_in_place (key_path path key) patch (drop_stale (key_path path key) patch ev)))"
        using 2(1) [OF ev refl] p(1) by blast
      then have "doc_ok (JObj (dput key (JObj (merge_in_place (key_path path key) patch
          (drop_stale (key_path path key) patch ev))) dst))"
        using a doc_ok_dput by blast
      then show ?thesis using 2(2) p(2) by (simp add: ev del: doc_ok.simps)
    next
      case False
      then have "(case dget dst key of Some (JObj existing) \<Rightarrow>
            dput key (JObj (merge_in_place (key_path path key) patch (drop_stale (key_path path key) patch existing))) dst
        | _ \<Rightarrow> dput key (JObj patch) dst) = dput key (JObj patch) dst"
        by (auto split: option.split json.split)
      then show ?thesis using 2(2) p conjunct2 [OF a] doc_ok_dput by (simp del: doc_ok.simps)
    qed
  qed
qed (simp_all del: doc_ok.simps, (blast intro: doc_ok_dput dest: doc_ok_ConsD)+)

theorem merge_keeps_documents_well_formed_witness:
  "doc_ok (JObj (merge_in_place [] [(''a'', JInt 1), (''b'', JObj [(''c'', JNull)])] [(''b'', JObj [(''c'', JInt 2)]), (''d'', JNull)]))"
  using merge_keeps_documents_well_formed
    [of "[(''a'', JInt 1), (''b'', JObj [(''c'', JNull)])]" "[(''b'', JObj [(''c'', JInt 2)]), (''d'', JNull)]" "[]"]
  by simp

subsection \<open>Memory and file\<close>

datatype config_op = Read | Save msg "f64 option" | Restart

definition config_step :: "config_op \<Rightarrow> config_file \<times> config_store \<Rightarrow> config_file \<times> config_store" where
  "config_step op fs = (case op of
       Read \<Rightarrow> (fst fs, get_config (fst fs) (snd fs))
     | Save patch stamp \<Rightarrow> snd (update_config True stamp patch fs)
     | Restart \<Rightarrow> (case reload_config (fst fs) of Inl e \<Rightarrow> fs | Inr s \<Rightarrow> (fst fs, s)))"

definition backed :: "config_file \<times> config_store \<Rightarrow> bool" where
  "backed fs \<longleftrightarrow> cf_content (fst fs) = Some (cs_data (snd fs)) \<and> is_dict (cs_data (snd fs))"

lemma backed_step: "backed fs \<Longrightarrow> backed (config_step op fs)"
proof (cases op)
  case Read
  assume "backed fs"
  then obtain d where "cf_content (fst fs) = Some (JObj d)" "cs_data (snd fs) = JObj d"
    by (auto simp: backed_def is_dict_def split: json.splits)
  then show ?thesis by (auto simp: Read config_step_def get_config_def backed_def split: option.split)
next
  case (Save patch stamp)
  assume "backed fs"
  then obtain f s d where "fs = (f, s)" "cs_data s = JObj d"
    by (cases fs) (auto simp: backed_def is_dict_def split: json.splits)
  then show ?thesis by (simp add: Save config_step_def update_config_def backed_def Let_def)
next
  case Restart
  assume "backed fs"
  then show ?thesis by (auto simp: Restart config_step_def reload_config_def backed_def)
qed

text \<open>
  C37: While nobody else writes the file and every save goes through, the file holds what the store
  serves after any sequence of reads, saves and restarts, so a restart at any point serves the same
  configuration and a failed modification-time lookup changes nothing.
\<close>
theorem config_restart_is_invisible:
  assumes "reload_config f = Inr s" "is_dict (cs_data s)"
  shows "let fs = fold config_step ops (f, s) in
    cs_data (snd (config_step Restart fs)) = cs_data (snd fs) \<and> cs_data (get_config (fst fs) (snd fs)) = cs_data (snd fs)"
proof -
  have "backed (fold config_step ops fs)" if "backed fs" for fs
    using that by (induction ops arbitrary: fs) (simp_all add: backed_step)
  moreover have "backed (f, s)" using assms by (auto simp: reload_config_def backed_def split: option.splits)
  ultimately have b: "backed (fold config_step ops (f, s))" by blast
  define fs where "fs = fold config_step ops (f, s)"
  obtain d where "cf_content (fst fs) = Some (JObj d)" "cs_data (snd fs) = JObj d"
    using b by (auto simp: fs_def [symmetric] backed_def is_dict_def split: json.splits)
  then show ?thesis unfolding Let_def fs_def [symmetric]
    by (auto simp: config_step_def reload_config_def get_config_def split: option.split)
qed

theorem config_restart_is_invisible_witness:
  "let f = \<lparr>cf_content = Some (JObj [(''a'', JInt 1)]), cf_mtime = Some 5\<rparr>; s = \<lparr>cs_data = JObj [(''a'', JInt 1)], cs_mtime = Some 5\<rparr>;
       fs = fold config_step [Save [(''a'', JInt 2)] (Some 6), Read] (f, s)
   in cs_data (snd (config_step Restart fs)) = cs_data (snd fs) \<and> cs_data (get_config (fst fs) (snd fs)) = cs_data (snd fs)"
  unfolding Let_def
  by (rule config_restart_is_invisible [unfolded Let_def]) (simp_all add: reload_config_def)

text \<open>
  An edit of settings.yaml that has not been read yet is overwritten by the next save: the save
  merges into the copy in memory, whatever the file holds, so afterwards neither the store nor the
  file reads the edited value.
\<close>
theorem unread_edit_is_overwritten:
  assumes "cs_data s = JObj d" "cf_content f = Some (JObj e)" "doc_ok (JObj patch)" "dget patch k = None"
    "dget e k \<noteq> dget d k"
  shows "case update_config True stamp patch (f, s) of (r, f', s') \<Rightarrow>
    read_at [k] (cs_data s') = dget d k \<and> (\<exists>j. cf_content f' = Some j \<and> read_at [k] j = dget d k \<and> read_at [k] j \<noteq> dget e k)"
proof -
  have "dget (merge_in_place [] patch d) k = dget d k"
    using dget_merge [OF doc_ok_dkeys [OF assms(3)], of "[]" d k] assms(4) by simp
  then show ?thesis using assms(1,5) by (auto simp: update_config_def Let_def split: option.split)
qed

theorem unread_edit_is_overwritten_witness:
  "case update_config True (Some 9) [(''b'', JInt 1)]
      (\<lparr>cf_content = Some (JObj [(''min'', JInt 500)]), cf_mtime = Some 8\<rparr>, \<lparr>cs_data = JObj [(''min'', JInt 2500)], cs_mtime = Some 7\<rparr>)
    of (r, f', s') \<Rightarrow> read_at [''min''] (cs_data s') = Some (JInt 2500)"
  using unread_edit_is_overwritten
    [of "\<lparr>cs_data = JObj [(''min'', JInt 2500)], cs_mtime = Some 7\<rparr>" "[(''min'', JInt 2500)]"
      "\<lparr>cf_content = Some (JObj [(''min'', JInt 500)]), cf_mtime = Some 8\<rparr>" "[(''min'', JInt 500)]" "[(''b'', JInt 1)]" "''min''" "Some 9"]
  by auto

text \<open>A save whose write raises is served all the same: memory keeps the merge, the file does not.\<close>

lemma failed_save_is_served:
  assumes "cs_data s = JObj d" "cs_mtime s = cf_mtime f"
  shows "case update_config False stamp patch (f, s) of (r, f', s') \<Rightarrow>
    r = Inl WriteFailed \<and> f' = f \<and> cs_data (get_config f' s') = JObj (merge_in_place [] patch d)"
  using assms by (auto simp: update_config_def get_config_def Let_def split: option.split)

text \<open>A torn read is refused, and tried again at the next read.\<close>

lemma torn_read_is_refused:
  assumes "cf_mtime f = Some m" "cs_mtime s \<noteq> Some m"
    "cf_content f = None \<or> (\<exists>j. cf_content f = Some j \<and> (\<not> is_dict j \<or> j = JObj []))"
  shows "get_config f s = s"
proof (cases "cf_content f")
  case None
  then show ?thesis using assms(1,2) by (simp add: get_config_def)
next
  case (Some j)
  then show ?thesis using assms by (cases j) (auto simp: get_config_def)
qed

end
