(* ===== verification/Ranking.thy ===== *)
theory Ranking
  imports Binary64 "HOL-Library.Multiset"
begin

text \<open>
  Lists sorted by a key, highest first, as \<open>sorted(..., reverse=True)\<close> and \<open>ORDER BY ... DESC\<close> give
  them, and sums of groups that partition a list.
\<close>

text \<open>\<open>sorted(..., reverse=True)\<close> keeps the order of equal keys, as a stable sort by the negated key does.\<close>

definition sorted_desc :: "('a \<Rightarrow> f64) \<Rightarrow> 'a list \<Rightarrow> 'a list" where
  "sorted_desc key xs = sort_key (\<lambda>x. - key x) xs"

lemma sorted_desc_sorted: "sorted_wrt (\<lambda>a b. key a \<ge> key b) (sorted_desc key xs)"
proof -
  have "sorted (map (\<lambda>x. - key x) (sorted_desc key xs))" by (simp add: sorted_desc_def)
  then show ?thesis by (simp add: sorted_map)
qed

lemma set_sorted_desc [simp]: "set (sorted_desc key xs) = set xs" by (simp add: sorted_desc_def)

lemma length_sorted_desc [simp]: "length (sorted_desc key xs) = length xs" by (simp add: sorted_desc_def)

lemma sorted_desc_mset: "mset (sorted_desc key xs) = mset xs" by (simp add: sorted_desc_def)

lemma sum_sorted_desc: "sum_list (map f (sorted_desc key xs)) = (sum_list (map f xs) :: nat)"
  by (metis mset_map sorted_desc_mset sum_mset_sum_list)

lemma partition_sum:
  assumes "distinct ks" "f ` set xs \<subseteq> set ks"
  shows "(\<Sum>k\<leftarrow>ks. \<Sum>x\<leftarrow>filter (\<lambda>x. f x = k) xs. (g x :: nat)) = (\<Sum>x\<leftarrow>xs. g x)"
  using assms(2)
proof (induction xs)
  case (Cons x xs)
  have "(\<Sum>k\<leftarrow>ks. \<Sum>y\<leftarrow>filter (\<lambda>y. f y = k) (x # xs). g y)
      = (\<Sum>k\<leftarrow>ks. (if f x = k then g x else 0) + (\<Sum>y\<leftarrow>filter (\<lambda>y. f y = k) xs. g y))"
    by (rule arg_cong [where f = sum_list]) (auto intro: map_cong)
  also have "\<dots> = (\<Sum>k\<leftarrow>ks. if f x = k then g x else 0) + (\<Sum>y\<leftarrow>xs. g y)"
    using Cons by (simp add: sum_list_addf)
  also have "(\<Sum>k\<leftarrow>ks. if f x = k then g x else 0) = g x"
    using Cons.prems assms(1) by (simp add: sum_list_distinct_conv_sum_set)
  finally show ?case by simp
qed simp

end
