(* ===== verification/EventPhase.thy ===== *)
theory EventPhase
  imports TitleCache PyValues Ranking
begin

text \<open>
  \<open>services/market_events/event_lifecycle.py\<close> (which phase of its event a market is in, and the
  ranking that follows from it) and \<open>services/market_watch/selection.py\<close> (the watchlist: candidates
  by volume, grouped by series). The ISO parser is a parameter that is \<open>None\<close> where it raises; a
  volume that is no number raises out of the ranking (\<open>None\<close>).
\<close>

subsection \<open>Phases\<close>

datatype phase = PreTail | MidSeries | PostTail | NoOccurrence

definition SINGLE_LOOKAHEAD_SEC :: f64 where "SINGLE_LOOKAHEAD_SEC = 3600"
definition LOOKBACK_SEC :: f64 where "LOOKBACK_SEC = 6 * 3600"

definition parse_ts :: "(string \<Rightarrow> f64 option) \<Rightarrow> json \<Rightarrow> f64 option" where
  "parse_ts iso_ts v = (case v of JStr s \<Rightarrow> if s = [] then None else iso_ts s | _ \<Rightarrow> None)"

definition is_tournament_style :: "nat \<Rightarrow> bool \<Rightarrow> nat \<Rightarrow> bool" where
  "is_tournament_style sibling_count mutually_exclusive min_siblings \<longleftrightarrow> mutually_exclusive \<and> sibling_count \<ge> min_siblings"

record phase_cfg =
  pc_min_siblings :: nat
  pc_pretail_days :: f64
  pc_pre_weight :: f64
  pc_post_weight :: f64

definition default_phase_cfg :: phase_cfg where
  "default_phase_cfg = \<lparr>pc_min_siblings = 4, pc_pretail_days = 5, pc_pre_weight = fl (4/10), pc_post_weight = fl (2/10)\<rparr>"

definition lookahead_sec :: "phase_cfg \<Rightarrow> nat \<Rightarrow> bool \<Rightarrow> f64" where
  "lookahead_sec c siblings me =
     (if is_tournament_style siblings me (pc_min_siblings c) then fmul (pc_pretail_days c) 86400 else SINGLE_LOOKAHEAD_SEC)"

definition classify_phase :: "(string \<Rightarrow> f64 option) \<Rightarrow> phase_cfg \<Rightarrow> json \<Rightarrow> f64 \<Rightarrow> nat \<Rightarrow> bool \<Rightarrow> json \<Rightarrow> phase" where
  "classify_phase iso_ts c occurrence now siblings me close_time =
     (if (case parse_ts iso_ts close_time of None \<Rightarrow> False | Some close_ts \<Rightarrow> now > close_ts) then PostTail
      else case parse_ts iso_ts occurrence of
        None \<Rightarrow> NoOccurrence
      | Some occ_ts \<Rightarrow>
          (let delta = fsub now occ_ts in
           if delta < - lookahead_sec c siblings me then PreTail
           else if delta \<le> LOOKBACK_SEC then MidSeries else PostTail))"

definition event_key :: "msg \<Rightarrow> string option" where
  "event_key m = (case jget m ''event_ticker'' of JStr s \<Rightarrow> if s = [] then None else Some s | _ \<Rightarrow> None)"

definition sibling_counts :: "msg list \<Rightarrow> (string, nat) pdict" where
  "sibling_counts ms = fold (\<lambda>m d. case event_key m of None \<Rightarrow> d | Some e \<Rightarrow> dput e (dget_or d e 0 + 1) d) ms []"

definition phase_weight :: "phase_cfg \<Rightarrow> phase \<Rightarrow> f64" where
  "phase_weight c p = (case p of MidSeries \<Rightarrow> 1 | NoOccurrence \<Rightarrow> 1 | PreTail \<Rightarrow> pc_pre_weight c | PostTail \<Rightarrow> pc_post_weight c)"

text \<open>The \<open>mutually_exclusive\<close> flag of an event in the title table: absent or unset reads as no.\<close>

definition market_phase ::
  "(string \<Rightarrow> f64 option) \<Rightarrow> phase_cfg \<Rightarrow> (string \<Rightarrow> bool) \<Rightarrow> (string, nat) pdict \<Rightarrow> f64 \<Rightarrow> msg \<Rightarrow> phase" where
  "market_phase iso_ts c exclusive counts now m =
     classify_phase iso_ts c (jget m ''occurrence_datetime'') now
       (case event_key m of None \<Rightarrow> 1 | Some e \<Rightarrow> dget_or counts e 1)
       (case event_key m of None \<Rightarrow> False | Some e \<Rightarrow> exclusive e) (jget m ''close_time'')"

definition volume_of :: "msg \<Rightarrow> f64 option" where
  "volume_of m = py_float (jor (jget m ''volume_24h_fp'') (JInt 0))"

definition rank_score ::
  "(string \<Rightarrow> f64 option) \<Rightarrow> phase_cfg \<Rightarrow> (string \<Rightarrow> bool) \<Rightarrow> (string, nat) pdict \<Rightarrow> f64 \<Rightarrow> msg \<Rightarrow> f64 option" where
  "rank_score iso_ts c exclusive counts now m =
     map_option (\<lambda>v. fmul v (phase_weight c (market_phase iso_ts c exclusive counts now m))) (volume_of m)"

definition phase_ranked ::
  "(string \<Rightarrow> f64 option) \<Rightarrow> phase_cfg \<Rightarrow> (string \<Rightarrow> bool) \<Rightarrow> f64 \<Rightarrow> msg list \<Rightarrow> msg list option" where
  "phase_ranked iso_ts c exclusive now ms =
     (let score = rank_score iso_ts c exclusive (sibling_counts ms) now in
      if list_all (\<lambda>m. score m \<noteq> None) ms then Some (sorted_desc (\<lambda>m. the (score m)) ms) else None)"

subsection \<open>Selection\<close>

text \<open>The fetches answer a list or raise (\<open>None\<close>), one per series.\<close>

definition candidate_markets :: "f64 \<Rightarrow> msg list option list \<Rightarrow> msg list option" where
  "candidate_markets min_volume results =
     (let ms = concat (map (\<lambda>r. case r of None \<Rightarrow> [] | Some xs \<Rightarrow> xs) results) in
      if list_all (\<lambda>m. volume_of m \<noteq> None) ms
      then Some (sorted_desc (\<lambda>m. the (volume_of m)) (filter (\<lambda>m. the (volume_of m) \<ge> min_volume) ms)) else None)"

definition group_key :: "title_cache \<Rightarrow> msg \<Rightarrow> string" where
  "group_key tc m =
     (case jor (jget m ''ticker'') (JStr []) of
        JStr t \<Rightarrow> if t \<noteq> [] then series_of tc t else (case jget m ''event_ticker'' of JStr e \<Rightarrow> e | _ \<Rightarrow> [])
      | _ \<Rightarrow> [])"

definition group_markets :: "('m \<Rightarrow> string) \<Rightarrow> 'm list \<Rightarrow> (string, 'm list) pdict" where
  "group_markets key ms = fold (\<lambda>m d. dput (key m) (dget_or d (key m) [] @ [m]) d) ms []"

definition round_robin_select :: "('m \<Rightarrow> string) \<Rightarrow> nat \<Rightarrow> nat option \<Rightarrow> 'm list \<Rightarrow> 'm list" where
  "round_robin_select key n cap ms =
     concat (map (\<lambda>(k, children). case cap of None \<Rightarrow> children | Some c \<Rightarrow> take c children) (take n (group_markets key ms)))"

definition top_volume_markets :: "title_cache \<Rightarrow> nat \<Rightarrow> f64 \<Rightarrow> nat option \<Rightarrow> msg list option list \<Rightarrow> msg list option" where
  "top_volume_markets tc n min_volume cap results =
     map_option (round_robin_select (group_key tc) n cap) (candidate_markets min_volume results)"

subsection \<open>What the ranking promises\<close>

lemma phase_weight_range:
  "pc_pre_weight c \<le> 1 \<Longrightarrow> pc_post_weight c \<le> 1 \<Longrightarrow> phase_weight c p \<le> 1"
  by (cases p) (simp_all add: phase_weight_def)

text \<open>
  The ranking is a rearrangement of the markets by weighted volume, highest first, ties in input
  order; a market whose event is running, or has no occurrence, ranks no lower than one before or
  after its event with the same volume or less, for weights up to one.
\<close>
theorem phase_ranking:
  assumes "phase_ranked iso_ts c exclusive now ms = Some ranked" "pc_pre_weight c \<le> 1" "pc_post_weight c \<le> 1"
  shows "mset ranked = mset ms
    \<and> (\<forall>v. filter (\<lambda>m. rank_score iso_ts c exclusive (sibling_counts ms) now m = Some v) ranked
          = filter (\<lambda>m. rank_score iso_ts c exclusive (sibling_counts ms) now m = Some v) ms)
    \<and> sorted_wrt (\<lambda>a b. rank_score iso_ts c exclusive (sibling_counts ms) now a \<noteq> None
        \<and> the (rank_score iso_ts c exclusive (sibling_counts ms) now a) \<ge> the (rank_score iso_ts c exclusive (sibling_counts ms) now b)) ranked
    \<and> (\<forall>a v w b. market_phase iso_ts c exclusive (sibling_counts ms) now a \<in> {MidSeries, NoOccurrence}
        \<and> volume_of a = Some v \<and> volume_of b = Some w \<and> 0 \<le> w \<and> w \<le> v
        \<longrightarrow> the (rank_score iso_ts c exclusive (sibling_counts ms) now b) \<le> the (rank_score iso_ts c exclusive (sibling_counts ms) now a))"
proof -
  define score where "score = rank_score iso_ts c exclusive (sibling_counts ms) now"
  have ok: "list_all (\<lambda>m. score m \<noteq> None) ms" and r: "ranked = sorted_desc (\<lambda>m. the (score m)) ms"
    using assms(1) by (auto simp: phase_ranked_def score_def Let_def split: if_splits)
  have perm: "mset ranked = mset ms" by (simp add: r sorted_desc_def)
  then have sets: "set ranked = set ms" by (metis set_mset_mset)
  have stable: "filter (\<lambda>m. score m = Some v) ranked = filter (\<lambda>m. score m = Some v) ms" for v
  proof -
    have "filter (\<lambda>m. score m = Some v) xs = filter (\<lambda>m. - the (score m) = - v) xs" if "set xs = set ms" for xs
      using ok that by (intro filter_cong) (auto simp: list_all_iff)
    then show ?thesis using sets sort_key_stable [of "\<lambda>m. - the (score m)" "- v" ms] by (simp add: r sorted_desc_def)
  qed
  from sets have "sorted_wrt (\<lambda>a b. score a \<noteq> None \<and> the (score a) \<ge> the (score b)) ranked"
    using sorted_desc_sorted [of "\<lambda>m. the (score m)" ms] ok unfolding r [symmetric]
    by (auto simp: list_all_iff intro: sorted_wrt_mono_rel [rotated])
  moreover have "the (score b) \<le> the (score a)"
    if "market_phase iso_ts c exclusive (sibling_counts ms) now a \<in> {MidSeries, NoOccurrence}"
      "volume_of a = Some v" "volume_of b = Some w" "0 \<le> w" "w \<le> v" for a b v w
  proof -
    have "phase_weight c (market_phase iso_ts c exclusive (sibling_counts ms) now a) = 1" using that(1) by (auto simp: phase_weight_def)
    then have "the (score a) = fmul v 1" using that(2) by (simp add: score_def rank_score_def)
    moreover have "w * phase_weight c (market_phase iso_ts c exclusive (sibling_counts ms) now b) \<le> v * 1"
      by (rule order_trans [OF mult_left_mono [OF phase_weight_range [OF assms(2,3)] that(4)]]) (simp add: that(5))
    then have "fmul w (phase_weight c (market_phase iso_ts c exclusive (sibling_counts ms) now b)) \<le> fmul v 1"
      by (simp add: fmul_def fl_mono)
    ultimately show ?thesis using that(3) by (simp add: score_def rank_score_def)
  qed
  ultimately show ?thesis using perm stable by (simp add: score_def)
qed

subsection \<open>What the selection promises\<close>

lemma group_markets_snoc:
  "group_markets key (ms @ [m]) = dput (key m) (dget_or (group_markets key ms) (key m) [] @ [m]) (group_markets key ms)"
  by (simp add: group_markets_def)

lemma group_markets_get: "dget_or (group_markets key ms) k [] = filter (\<lambda>m. key m = k) ms"
proof (induction ms rule: rev_induct)
  case Nil
  then show ?case by (simp add: group_markets_def dget_or_def)
next
  case (snoc m ms)
  then show ?case by (auto simp: group_markets_snoc dget_or_def)
qed

lemma group_markets_keys: "dict_ok (group_markets key ms) \<and> set (dkeys (group_markets key ms)) = key ` set ms"
proof (induction ms rule: rev_induct)
  case Nil
  then show ?case by (simp add: group_markets_def)
next
  case (snoc m ms)
  then show ?case by (auto simp: group_markets_snoc dict_ok_dput set_dkeys_dput)
qed

text \<open>The series in the order of their first market.\<close>

definition first_series :: "('m \<Rightarrow> string) \<Rightarrow> 'm list \<Rightarrow> string list" where
  "first_series key ms = rev (remdups (rev (map key ms)))"

lemma group_markets_first: "dkeys (group_markets key ms) = first_series key ms"
proof (induction ms rule: rev_induct)
  case Nil
  then show ?case by (simp add: group_markets_def first_series_def)
next
  case (snoc m ms)
  have "set (dkeys (group_markets key ms)) = key ` set ms" using group_markets_keys by blast
  then show ?case using snoc by (auto simp: group_markets_snoc dkeys_dput first_series_def)
qed

text \<open>
  C38: The watchlist is the first \<open>n\<close> series, in the order of their best market, each with all of its
  markets in order, or its first ones up to the cap: nothing is taken from another series, and no
  series counts twice however many events it has.
\<close>
theorem watchlist_takes_whole_series:
  "round_robin_select key n cap ms
     = concat (map (\<lambda>k. (case cap of None \<Rightarrow> \<lambda>xs. xs | Some c \<Rightarrow> take c) (filter (\<lambda>m. key m = k) ms)) (take n (first_series key ms)))
   \<and> distinct (first_series key ms) \<and> set (first_series key ms) = key ` set ms"
proof -
  let ?g = "group_markets key ms"
  have ok: "dict_ok ?g" using group_markets_keys by blast
  have child: "children = filter (\<lambda>m. key m = k) ms" if "(k, children) \<in> set ?g" for k children
    using that dget_iff_in_set [OF ok, of k children] group_markets_get [of key ms k] by (simp add: dget_or_def)
  have "map (\<lambda>(k, children). case cap of None \<Rightarrow> children | Some c \<Rightarrow> take c children) (take n ?g)
      = map (\<lambda>k. (case cap of None \<Rightarrow> \<lambda>xs. xs | Some c \<Rightarrow> take c) (filter (\<lambda>m. key m = k) ms)) (map fst (take n ?g))"
    unfolding map_map
  proof (rule map_cong [OF refl])
    fix p assume "p \<in> set (take n ?g)"
    then have "(fst p, snd p) \<in> set ?g" by (auto dest: in_set_takeD)
    then have "snd p = filter (\<lambda>m. key m = fst p) ms" by (rule child)
    then show "(case p of (k, children) \<Rightarrow> case cap of None \<Rightarrow> children | Some c \<Rightarrow> take c children)
      = ((\<lambda>k. (case cap of None \<Rightarrow> \<lambda>xs. xs | Some c \<Rightarrow> take c) (filter (\<lambda>m. key m = k) ms)) \<circ> fst) p"
      by (cases p) (simp split: option.split)
  qed
  moreover have "map fst (take n ?g) = take n (first_series key ms)"
    using group_markets_first [of key ms] by (simp add: dkeys_def take_map [symmetric])
  ultimately show ?thesis by (simp add: round_robin_select_def first_series_def)
qed

definition busy :: "string \<Rightarrow> int \<Rightarrow> string \<Rightarrow> msg" where
  "busy t v close = [(''ticker'', JStr t), (''volume_24h_fp'', JInt v), (''close_time'', JStr close)]"

theorem phase_ranking_witness:
  "mset (the (phase_ranked (\<lambda>s. Some 5) default_phase_cfg (\<lambda>e. False) 9 [busy ''A'' 8 ''x'', busy ''B'' 4 '''']))
     = mset [busy ''A'' 8 ''x'', busy ''B'' 4 '''']"
proof -
  have w: "pc_pre_weight default_phase_cfg \<le> 1" "pc_post_weight default_phase_cfg \<le> 1" by code_simp+
  have "volume_of (busy ''A'' 8 ''x'') \<noteq> None" "volume_of (busy ''B'' 4 '''') \<noteq> None" by code_simp+
  then obtain ranked where r: "phase_ranked (\<lambda>s. Some 5) default_phase_cfg (\<lambda>e. False) 9 [busy ''A'' 8 ''x'', busy ''B'' 4 ''''] = Some ranked"
    by (auto simp: phase_ranked_def rank_score_def Let_def)
  show ?thesis using phase_ranking [OF r w] r by simp
qed

end
