(* ===== verification/FaultLog.thy ===== *)
theory FaultLog
  imports PyValues Ranking
begin

text \<open>
  \<open>services/fault_log.py\<close>: the table of swallowed exceptions, one row per component, operation,
  exception type and message, with a count, the first and last time, and the first and last
  traceback. A call whose database raises changes nothing and returns the failure value; each
  operation says in its first argument whether the database answers. \<open>str(exc)\<close> and the formatted
  traceback are arguments. Rows with equal sort keys are listed in table order.
\<close>

definition MAX_TRACEBACK_CHARS :: nat where "MAX_TRACEBACK_CHARS = 4000"
definition MAX_MESSAGE_CHARS :: nat where "MAX_MESSAGE_CHARS = 500"

record fault_row =
  fw_id :: nat
  fw_component :: string
  fw_operation :: string
  fw_severity :: string
  fw_exc_type :: "string option"
  fw_message :: "string option"
  fw_first_traceback :: "string option"
  fw_last_traceback :: "string option"
  fw_context :: "string option"
  fw_count :: nat
  fw_first_seen :: f64
  fw_last_seen :: f64

text \<open>The table, the highest id given, and whether the partial unique index exists.\<close>

record fault_db =
  fl_rows :: "fault_row list"
  fl_seq :: nat
  fl_index :: bool

type_synonym fault_key = "string \<times> string \<times> string option \<times> string option"

definition fault_key :: "fault_row \<Rightarrow> fault_key" where
  "fault_key r = (fw_component r, fw_operation r, fw_exc_type r, fw_message r)"

definition init_faults :: fault_db where
  "init_faults = \<lparr>fl_rows = [], fl_seq = 0, fl_index = False\<rparr>"

subsection \<open>Opening the database\<close>

definition null_group :: "fault_row list \<Rightarrow> fault_row \<Rightarrow> fault_row list" where
  "null_group rows r = filter (\<lambda>s. fw_exc_type s = None \<and> fault_key s = fault_key r) rows"

definition merge_duplicate_null_exc_type_rows :: "fault_row list \<Rightarrow> fault_row list" where
  "merge_duplicate_null_exc_type_rows rows =
     (let dup = (\<lambda>r. fw_exc_type r = None \<and> length (null_group rows r) > 1);
          keeper = (\<lambda>r. fw_id r = Min (set (map fw_id (null_group rows r))))
      in map (\<lambda>r. if dup r
                  then r\<lparr> fw_count := sum_list (map fw_count (null_group rows r)),
                          fw_last_seen := Max (set (map fw_last_seen (null_group rows r))) \<rparr>
                  else r)
           (filter (\<lambda>r. \<not> dup r \<or> keeper r) rows))"

text \<open>A unique index treats every null message as different from any other.\<close>

definition index_conflict :: "fault_row list \<Rightarrow> bool" where
  "index_conflict rows = list_ex (\<lambda>r. fw_exc_type r = None \<and> fw_message r \<noteq> None \<and> length (null_group rows r) > 1) rows"

definition connect_faults :: "fault_db \<Rightarrow> fault_db" where
  "connect_faults db =
     (if fl_index db then db
      else if index_conflict (fl_rows db)
      then db\<lparr> fl_rows := merge_duplicate_null_exc_type_rows (fl_rows db), fl_index := True \<rparr>
      else db\<lparr> fl_index := True \<rparr>)"

subsection \<open>Writing\<close>

record occurrence =
  oc_component :: string
  oc_operation :: string
  oc_severity :: string
  oc_exc_type :: "string option"
  oc_message :: string
  oc_traceback :: "string option"
  oc_context :: "string option"
  oc_ts :: f64

text \<open>The two conflict targets of the insert: the table's constraint and the partial index.\<close>

definition same_exception :: "occurrence \<Rightarrow> fault_row \<Rightarrow> bool" where
  "same_exception x r \<longleftrightarrow> oc_exc_type x \<noteq> None
     \<and> fault_key r = (oc_component x, oc_operation x, oc_exc_type x, Some (oc_message x))"

definition same_null_fault :: "occurrence \<Rightarrow> fault_row \<Rightarrow> bool" where
  "same_null_fault x r \<longleftrightarrow> oc_exc_type x = None \<and> fw_exc_type r = None
     \<and> fw_component r = oc_component x \<and> fw_operation r = oc_operation x \<and> fw_message r = Some (oc_message x)"

definition coalesce :: "'a option \<Rightarrow> 'a option \<Rightarrow> 'a option" where
  "coalesce a b = (case a of None \<Rightarrow> b | Some x \<Rightarrow> Some x)"

definition repeat_fault :: "occurrence \<Rightarrow> fault_row \<Rightarrow> fault_row" where
  "repeat_fault x r = r\<lparr> fw_count := fw_count r + 1, fw_last_seen := oc_ts x,
     fw_last_traceback := coalesce (oc_traceback x) (fw_last_traceback r) \<rparr>"

definition new_fault :: "nat \<Rightarrow> occurrence \<Rightarrow> fault_row" where
  "new_fault i x =
     \<lparr>fw_id = i, fw_component = oc_component x, fw_operation = oc_operation x, fw_severity = oc_severity x,
      fw_exc_type = oc_exc_type x, fw_message = Some (oc_message x), fw_first_traceback = oc_traceback x,
      fw_last_traceback = oc_traceback x, fw_context = oc_context x, fw_count = 1,
      fw_first_seen = oc_ts x, fw_last_seen = oc_ts x\<rparr>"

definition write_fault :: "occurrence \<Rightarrow> fault_db \<Rightarrow> fault_db" where
  "write_fault x db0 =
     (let db = connect_faults db0; hit = (\<lambda>r. same_exception x r \<or> same_null_fault x r) in
      if list_ex hit (fl_rows db) then db\<lparr> fl_rows := map (\<lambda>r. if hit r then repeat_fault x r else r) (fl_rows db) \<rparr>
      else db\<lparr> fl_rows := fl_rows db @ [new_fault (fl_seq db + 1) x], fl_seq := fl_seq db + 1 \<rparr>)"

definition exception_occurrence ::
  "string \<Rightarrow> string \<Rightarrow> string \<Rightarrow> string \<Rightarrow> string \<Rightarrow> string option \<Rightarrow> string \<Rightarrow> f64 \<Rightarrow> occurrence" where
  "exception_occurrence component operation exc_type text trace context severity now =
     \<lparr>oc_component = component, oc_operation = operation, oc_severity = severity, oc_exc_type = Some exc_type,
      oc_message = take MAX_MESSAGE_CHARS text,
      oc_traceback = Some (drop (length trace - MAX_TRACEBACK_CHARS) trace), oc_context = context, oc_ts = now\<rparr>"

definition fault_occurrence ::
  "string \<Rightarrow> string \<Rightarrow> string \<Rightarrow> string option \<Rightarrow> string \<Rightarrow> f64 \<Rightarrow> string option \<Rightarrow> occurrence" where
  "fault_occurrence component operation message context severity now tb =
     \<lparr>oc_component = component, oc_operation = operation, oc_severity = severity, oc_exc_type = None,
      oc_message = take MAX_MESSAGE_CHARS message,
      oc_traceback = (case tb of None \<Rightarrow> None | Some t \<Rightarrow> if t = [] then None else Some (take MAX_TRACEBACK_CHARS t)),
      oc_context = context, oc_ts = now\<rparr>"

definition record_exception ::
  "bool \<Rightarrow> string \<Rightarrow> string \<Rightarrow> string \<Rightarrow> string \<Rightarrow> string \<Rightarrow> string option \<Rightarrow> string \<Rightarrow> f64 \<Rightarrow> fault_db \<Rightarrow> bool \<times> fault_db" where
  "record_exception up component operation exc_type text trace context severity now db =
     (if up then (True, write_fault (exception_occurrence component operation exc_type text trace context severity now) db)
      else (False, db))"

definition record_fault ::
  "bool \<Rightarrow> string \<Rightarrow> string \<Rightarrow> string \<Rightarrow> string option \<Rightarrow> string \<Rightarrow> f64 \<Rightarrow> string option \<Rightarrow> fault_db \<Rightarrow> bool \<times> fault_db" where
  "record_fault up component operation message context severity now tb db =
     (if up then (True, write_fault (fault_occurrence component operation message context severity now tb) db) else (False, db))"

text \<open>A prune that fails is itself recorded; \<open>recorded\<close> is the outcome of that second call.\<close>

definition prune_faults :: "bool \<Rightarrow> (fault_db \<Rightarrow> fault_db) \<Rightarrow> f64 \<Rightarrow> f64 \<Rightarrow> fault_db \<Rightarrow> nat \<times> fault_db" where
  "prune_faults up recorded retention_hours now db0 =
     (let cutoff = fsub now (fmul retention_hours 3600); db = connect_faults db0;
          kept = filter (\<lambda>r. \<not> fw_last_seen r < cutoff) (fl_rows db)
      in if up then (length (fl_rows db) - length kept, db\<lparr> fl_rows := kept \<rparr>) else (0, recorded db0))"

subsection \<open>Reading\<close>

definition recent_faults :: "bool \<Rightarrow> nat \<Rightarrow> string option \<Rightarrow> f64 option \<Rightarrow> fault_db \<Rightarrow> fault_row list" where
  "recent_faults up limit component since_ts db =
     (if up then take limit (sorted_desc fw_last_seen (filter (\<lambda>r.
          (case component of None \<Rightarrow> True | Some c \<Rightarrow> c = [] \<or> fw_component r = c)
          \<and> (case since_ts of None \<Rightarrow> True | Some t \<Rightarrow> fw_last_seen r \<ge> t)) (fl_rows (connect_faults db))))
      else [])"

record fault_summary =
  su_distinct_faults :: nat
  su_total_occurrences :: nat
  su_by_component :: "(string, nat) pdict"
  su_by_severity :: "(string, nat) pdict"
  su_most_frequent :: "fault_row list"
  su_ongoing_faults :: "fault_row list"

definition count_by :: "(fault_row \<Rightarrow> string) \<Rightarrow> fault_row list \<Rightarrow> (string, nat) pdict" where
  "count_by f rows = map (\<lambda>k. (k, sum_list (map fw_count (filter (\<lambda>r. f r = k) rows)))) (remdups (map f rows))"

definition summary_faults :: "f64 option \<Rightarrow> fault_db \<Rightarrow> fault_summary" where
  "summary_faults since_ts db =
     (let rows = fl_rows (connect_faults db);
          active = (case since_ts of None \<Rightarrow> rows | Some t \<Rightarrow> filter (\<lambda>r. fw_last_seen r \<ge> t) rows);
          exact = (case since_ts of None \<Rightarrow> rows | Some t \<Rightarrow> filter (\<lambda>r. fw_first_seen r \<ge> t) rows);
          ongoing = (case since_ts of None \<Rightarrow> [] | Some t \<Rightarrow> filter (\<lambda>r. fw_first_seen r < t \<and> fw_last_seen r \<ge> t) rows)
      in \<lparr>su_distinct_faults = length active, su_total_occurrences = sum_list (map fw_count exact),
          su_by_component = sorted_desc (\<lambda>(c, n). rat_of_nat n) (count_by fw_component exact),
          su_by_severity = count_by fw_severity exact,
          su_most_frequent = take 5 (sorted_desc (\<lambda>r. rat_of_nat (fw_count r)) exact),
          su_ongoing_faults = take 10 (sorted_desc (\<lambda>r. rat_of_nat (fw_count r)) ongoing)\<rparr>)"


subsection \<open>The table as a function of what was recorded\<close>

text \<open>
  The history is the list of occurrences since their key was last pruned; a row is what the
  history says of its key, ids aside.
\<close>

definition occ_key :: "occurrence \<Rightarrow> fault_key" where
  "occ_key x = (oc_component x, oc_operation x, oc_exc_type x, Some (oc_message x))"

definition occs :: "occurrence list \<Rightarrow> fault_key \<Rightarrow> occurrence list" where
  "occs h k = filter (\<lambda>x. occ_key x = k) h"

definition last_traceback :: "occurrence list \<Rightarrow> string option" where
  "last_traceback xs = fold (\<lambda>x t. coalesce (oc_traceback x) t) xs None"

definition row_of :: "occurrence list \<Rightarrow> fault_row" where
  "row_of xs = (let x = hd xs in
     \<lparr>fw_id = 0, fw_component = oc_component x, fw_operation = oc_operation x, fw_severity = oc_severity x,
      fw_exc_type = oc_exc_type x, fw_message = Some (oc_message x), fw_first_traceback = oc_traceback x,
      fw_last_traceback = last_traceback xs, fw_context = oc_context x, fw_count = length xs,
      fw_first_seen = oc_ts x, fw_last_seen = oc_ts (List.last xs)\<rparr>)"

definition fault_keys :: "occurrence list \<Rightarrow> fault_key list" where
  "fault_keys h = rev (remdups (rev (map occ_key h)))"

definition table_of :: "occurrence list \<Rightarrow> fault_row list" where
  "table_of h = map (\<lambda>k. row_of (occs h k)) (fault_keys h)"

definition without_id :: "fault_row \<Rightarrow> fault_row" where
  "without_id r = r\<lparr> fw_id := 0 \<rparr>"

lemma set_fault_keys [simp]: "set (fault_keys h) = occ_key ` set h" by (simp add: fault_keys_def)
lemma distinct_fault_keys [simp]: "distinct (fault_keys h)" by (simp add: fault_keys_def)

lemma fault_keys_snoc:
  "fault_keys (h @ [x]) = (if occ_key x \<in> occ_key ` set h then fault_keys h else fault_keys h @ [occ_key x])"
  by (simp add: fault_keys_def)

lemma occs_snoc: "occs (h @ [x]) k = (if occ_key x = k then occs h k @ [x] else occs h k)" by (simp add: occs_def)

lemma occs_nonempty: "k \<in> occ_key ` set h \<Longrightarrow> occs h k \<noteq> []" by (auto simp: occs_def filter_empty_conv)

lemma row_of_key: "k \<in> occ_key ` set h \<Longrightarrow> fault_key (row_of (occs h k)) = k"
proof -
  assume "k \<in> occ_key ` set h"
  then have "hd (occs h k) \<in> set (occs h k)" using occs_nonempty by simp
  then have "occ_key (hd (occs h k)) = k" by (simp add: occs_def)
  then show ?thesis by (simp add: fault_key_def row_of_def Let_def occ_key_def)
qed

lemma row_of_snoc: "xs \<noteq> [] \<Longrightarrow> row_of (xs @ [x]) = repeat_fault x (row_of xs)"
  by (simp add: row_of_def repeat_fault_def last_traceback_def Let_def)

lemma row_of_single: "row_of [x] = without_id (new_fault i x)"
  by (simp add: row_of_def last_traceback_def new_fault_def without_id_def coalesce_def split: option.split)

lemma hit_is_key: "same_exception x r \<or> same_null_fault x r \<longleftrightarrow> fault_key r = occ_key x"
  by (cases "oc_exc_type x") (auto simp: same_exception_def same_null_fault_def fault_key_def occ_key_def)

lemma without_id_simps [simp]: "fault_key (without_id r) = fault_key r" "fw_count (without_id r) = fw_count r"
  "fw_first_seen (without_id r) = fw_first_seen r" "fw_last_seen (without_id r) = fw_last_seen r"
  "fw_component (without_id r) = fw_component r" "fw_severity (without_id r) = fw_severity r"
  "fw_exc_type (without_id r) = fw_exc_type r"
  by (simp_all add: without_id_def fault_key_def)

lemma repeat_without_id: "without_id (repeat_fault x r) = repeat_fault x (without_id r)"
  by (simp add: repeat_fault_def without_id_def)

text \<open>What the database keeps: distinct keys, distinct ids, in the order they were given.\<close>

definition faults_match :: "occurrence list \<Rightarrow> fault_db \<Rightarrow> bool" where
  "faults_match h db \<longleftrightarrow> map without_id (fl_rows db) = table_of h
     \<and> sorted_wrt (\<lambda>r s. fw_id r < fw_id s) (fl_rows db) \<and> (\<forall>r\<in>set (fl_rows db). fw_id r \<le> fl_seq db)"

lemma table_keys: "map fault_key (table_of h) = fault_keys h"
  unfolding table_of_def map_map by (rule map_idI) (simp add: row_of_key)

lemma faults_match_keys:
  assumes "faults_match h db"
  shows "map fault_key (fl_rows db) = fault_keys h"
proof -
  have "map fault_key (fl_rows db) = map fault_key (map without_id (fl_rows db))" by simp
  also have "map without_id (fl_rows db) = table_of h" using assms by (simp add: faults_match_def)
  finally show ?thesis by (simp only: table_keys)
qed

lemma unique_keys_no_conflict:
  assumes "distinct (map fault_key rows)"
  shows "\<not> index_conflict rows"
proof -
  have "length (null_group rows r) \<le> 1" for r
  proof -
    have "distinct (map fault_key (null_group rows r))" by (simp add: null_group_def distinct_map_filter assms)
    moreover have "set (map fault_key (null_group rows r)) \<subseteq> {fault_key r}" by (auto simp: null_group_def)
    ultimately show ?thesis by (metis card_mono distinct_card finite.emptyI finite.insertI is_singletonI is_singleton_altdef length_map)
  qed
  then show ?thesis by (auto simp: index_conflict_def list_ex_iff not_less)
qed

lemma connect_matching:
  assumes "faults_match h db"
  shows "fl_rows (connect_faults db) = fl_rows db \<and> fl_seq (connect_faults db) = fl_seq db \<and> faults_match h (connect_faults db)"
  using unique_keys_no_conflict [of "fl_rows db"] faults_match_keys [OF assms] assms
  by (simp add: connect_faults_def faults_match_def)

lemma write_matches:
  assumes "faults_match h db0"
  shows "faults_match (h @ [x]) (write_fault x db0)"
proof -
  define db where "db = connect_faults db0"
  have m: "faults_match h db" using connect_matching [OF assms] by (simp add: db_def)
  note k = faults_match_keys [OF m]
  have rows: "map without_id (fl_rows db) = table_of h" using m by (simp add: faults_match_def)
  have some: "list_ex (\<lambda>r. fault_key r = occ_key x) (fl_rows db) \<longleftrightarrow> occ_key x \<in> occ_key ` set h"
  proof -
    have "fault_key ` set (fl_rows db) = occ_key ` set h" using arg_cong [OF k, of set] by simp
    moreover have "list_ex (\<lambda>r. fault_key r = occ_key x) (fl_rows db) \<longleftrightarrow> occ_key x \<in> fault_key ` set (fl_rows db)"
      by (auto simp: list_ex_iff intro: rev_image_eqI)
    ultimately show ?thesis by simp
  qed
  show ?thesis
  proof (cases "occ_key x \<in> occ_key ` set h")
    case True
    have w: "write_fault x db0 = db\<lparr> fl_rows := map (\<lambda>r. if fault_key r = occ_key x then repeat_fault x r else r) (fl_rows db) \<rparr>"
      using True some by (simp add: write_fault_def db_def [symmetric] hit_is_key Let_def)
    have "map without_id (fl_rows (write_fault x db0))
        = map (\<lambda>r. if fault_key r = occ_key x then repeat_fault x r else r) (table_of h)"
      unfolding w rows [symmetric] by (auto simp: repeat_without_id)
    also have "\<dots> = table_of (h @ [x])"
      using True by (auto simp: table_of_def fault_keys_snoc occs_snoc row_of_key row_of_snoc occs_nonempty)
    finally show ?thesis using m by (auto simp: w faults_match_def sorted_wrt_map repeat_fault_def elim!: sorted_wrt_mono_rel [rotated])
  next
    case False
    have w: "write_fault x db0 = db\<lparr> fl_rows := fl_rows db @ [new_fault (fl_seq db + 1) x], fl_seq := fl_seq db + 1 \<rparr>"
      using False some by (simp add: write_fault_def db_def [symmetric] hit_is_key Let_def)
    have e: "occs h (occ_key x) = []" using False by (auto simp: occs_def filter_empty_conv dest: sym intro: rev_image_eqI)
    have "table_of (h @ [x]) = table_of h @ [row_of [x]]"
      using False e by (auto simp: table_of_def fault_keys_snoc occs_snoc)
    then have "map without_id (fl_rows (write_fault x db0)) = table_of (h @ [x])"
      by (simp add: w rows row_of_single [symmetric])
    then show ?thesis using m by (auto simp: w faults_match_def sorted_wrt_append new_fault_def less_Suc_eq_le)
  qed
qed


text \<open>Pruning forgets the occurrences of the keys last seen before the cutoff.\<close>

definition forget_before :: "f64 \<Rightarrow> occurrence list \<Rightarrow> occurrence list" where
  "forget_before cutoff h = filter (\<lambda>x. \<not> oc_ts (List.last (occs h (occ_key x))) < cutoff) h"

lemma rev_remdups_filter: "rev (remdups (rev (filter P xs))) = filter P (rev (remdups (rev xs)))"
  by (simp add: remdups_filter rev_filter)

lemma table_forget: "table_of (forget_before cutoff h) = filter (\<lambda>r. \<not> fw_last_seen r < cutoff) (table_of h)"
proof -
  define keep where "keep = (\<lambda>k. \<not> oc_ts (List.last (occs h k)) < cutoff)"
  have f: "forget_before cutoff h = filter (\<lambda>x. keep (occ_key x)) h" by (simp add: forget_before_def keep_def)
  have "map occ_key (filter (\<lambda>x. keep (occ_key x)) h) = filter keep (map occ_key h)" by (simp add: filter_map comp_def)
  then have "fault_keys (forget_before cutoff h) = filter keep (fault_keys h)"
    by (simp add: f fault_keys_def rev_remdups_filter)
  moreover have "map (\<lambda>k. row_of (occs (forget_before cutoff h) k)) (filter keep (fault_keys h))
      = map (\<lambda>k. row_of (occs h k)) (filter keep (fault_keys h))"
  proof (rule map_cong [OF refl])
    fix k assume "k \<in> set (filter keep (fault_keys h))"
    then have "occs (forget_before cutoff h) k = occs h k" unfolding f occs_def filter_filter by (intro filter_cong) auto
    then show "row_of (occs (forget_before cutoff h) k) = row_of (occs h k)" by simp
  qed
  moreover have "keep = (\<lambda>k. \<not> fw_last_seen (row_of (occs h k)) < cutoff)"
    by (rule ext) (simp add: keep_def row_of_def Let_def)
  ultimately show ?thesis by (simp only: table_of_def filter_map comp_def)
qed

lemma prune_matches:
  assumes "faults_match h db"
  shows "faults_match (forget_before (fsub now (fmul hours 3600)) h) (snd (prune_faults True recorded hours now db))"
proof -
  let ?P = "\<lambda>r. \<not> fw_last_seen r < fsub now (fmul hours 3600)"
  note c = connect_matching [OF assms]
  have "map without_id (filter ?P (fl_rows db)) = filter ?P (map without_id (fl_rows db))" by (simp add: filter_map comp_def)
  then show ?thesis using assms c
    by (auto simp: prune_faults_def Let_def table_forget faults_match_def intro: sorted_wrt_filter)
qed

datatype fault_op =
    RecordException bool string string string string string "string option" string f64
  | RecordFault bool string string string "string option" string f64 "string option"
  | PruneFaults bool f64 f64 bool string string

text \<open>The last three arguments of a prune: whether its own failure is recorded, with which text and trace.\<close>

definition prune_failure :: "bool \<Rightarrow> string \<Rightarrow> string \<Rightarrow> f64 \<Rightarrow> fault_db \<Rightarrow> fault_db" where
  "prune_failure up text trace now db =
     snd (record_exception up ''fault_log'' ''prune'' ''OperationalError'' text trace None ''error'' now db)"

definition fault_step :: "fault_op \<Rightarrow> fault_db \<Rightarrow> fault_db" where
  "fault_step op db = (case op of
       RecordException up c opn t text trace ctx sev now \<Rightarrow> snd (record_exception up c opn t text trace ctx sev now db)
     | RecordFault up c opn m ctx sev now tb \<Rightarrow> snd (record_fault up c opn m ctx sev now tb db)
     | PruneFaults up hours now again text trace \<Rightarrow>
         snd (prune_faults up (prune_failure again text trace now) hours now db))"

definition history_step :: "fault_op \<Rightarrow> occurrence list \<Rightarrow> occurrence list" where
  "history_step op h = (case op of
       RecordException up c opn t text trace ctx sev now \<Rightarrow>
         (if up then h @ [exception_occurrence c opn t text trace ctx sev now] else h)
     | RecordFault up c opn m ctx sev now tb \<Rightarrow> (if up then h @ [fault_occurrence c opn m ctx sev now tb] else h)
     | PruneFaults up hours now again text trace \<Rightarrow>
         (if up then forget_before (fsub now (fmul hours 3600)) h
          else if again then h @ [exception_occurrence ''fault_log'' ''prune'' ''OperationalError'' text trace None ''error'' now]
          else h))"

lemma step_matches: "faults_match h db \<Longrightarrow> faults_match (history_step op h) (fault_step op db)"
  using write_matches prune_matches
  by (cases op) (simp_all add: fault_step_def history_step_def record_exception_def record_fault_def prune_failure_def prune_faults_def [of False] Let_def)

lemma run_matches: "faults_match (fold history_step ops h) (fold fault_step ops db)" if "faults_match h db"
  using that by (induction ops arbitrary: h db) (simp_all add: step_matches)

lemma init_matches: "faults_match [] init_faults"
  by (simp add: faults_match_def init_faults_def table_of_def fault_keys_def)

text \<open>
  C8: After any sequence of recordings, prunes and database failures the table is what the history
  says: one row per component, operation, type and message in order of first occurrence, counting
  its occurrences exactly, with the severity, context, time and traceback of the first, the time of
  the last and the last traceback there was; ids grow.
\<close>
theorem fault_table_is_its_history:
  "map without_id (fl_rows (fold fault_step ops init_faults)) = table_of (fold history_step ops [])
   \<and> sorted_wrt (\<lambda>r s. fw_id r < fw_id s) (fl_rows (fold fault_step ops init_faults))"
  using run_matches [OF init_matches, of ops] by (simp add: faults_match_def)

subsection \<open>The summary\<close>

lemma count_by_total: "sum_list (map snd (count_by f rows)) = sum_list (map fw_count rows)"
  using partition_sum [of "remdups (map f rows)" f rows fw_count] by (simp add: count_by_def comp_def)

text \<open>The occurrences whose key was first seen in the window, over a history.\<close>

definition new_in_window :: "f64 \<Rightarrow> occurrence list \<Rightarrow> occurrence list" where
  "new_in_window t h = filter (\<lambda>x. oc_ts (hd (occs h (occ_key x))) \<ge> t) h"

lemma table_counts:
  "sum_list (map fw_count (filter (\<lambda>r. fw_first_seen r \<ge> t) (table_of h))) = length (new_in_window t h)"
proof -
  define new where "new = (\<lambda>k. oc_ts (hd (occs h k)) \<ge> t)"
  let ?xs = "filter (\<lambda>x. new (occ_key x)) h"
  have "sum_list (map fw_count (filter (\<lambda>r. fw_first_seen r \<ge> t) (table_of h)))
      = (\<Sum>k\<leftarrow>filter new (fault_keys h). length (occs h k))"
    by (simp add: table_of_def filter_map comp_def new_def row_of_def Let_def)
  also have "\<dots> = (\<Sum>k\<leftarrow>filter new (fault_keys h). \<Sum>x\<leftarrow>filter (\<lambda>x. occ_key x = k) ?xs. 1)"
  proof (rule arg_cong [where f = sum_list], rule map_cong [OF refl])
    fix k assume "k \<in> set (filter new (fault_keys h))"
    then have "filter (\<lambda>x. occ_key x = k) ?xs = occs h k" unfolding occs_def filter_filter by (intro filter_cong) auto
    then show "length (occs h k) = (\<Sum>x\<leftarrow>filter (\<lambda>x. occ_key x = k) ?xs. 1)" by (simp add: sum_list_triv)
  qed
  also have "\<dots> = length ?xs"
    by (subst partition_sum) (auto simp: sum_list_triv)
  finally show ?thesis by (simp add: new_in_window_def new_def)
qed

lemma filter_without_id: "map fw_count (filter (\<lambda>r. fw_first_seen r \<ge> t) rows)
    = map fw_count (filter (\<lambda>r. fw_first_seen r \<ge> t) (map without_id rows))"
  by (simp add: filter_map comp_def)

text \<open>
  A summary of a window counts exactly the occurrences, since the last prune of their key, of the
  faults first seen in the window; its counts by component and by severity each add up to the same
  total, and what is listed as ongoing was first seen before the window and last seen in it.
\<close>
theorem summary_counts_new_faults:
  "su_total_occurrences (summary_faults (Some t) (fold fault_step ops init_faults))
     = length (new_in_window t (fold history_step ops []))
   \<and> sum_list (map snd (su_by_component (summary_faults (Some t) (fold fault_step ops init_faults))))
     = su_total_occurrences (summary_faults (Some t) (fold fault_step ops init_faults))
   \<and> sum_list (map snd (su_by_severity (summary_faults (Some t) (fold fault_step ops init_faults))))
     = su_total_occurrences (summary_faults (Some t) (fold fault_step ops init_faults))
   \<and> list_all (\<lambda>r. fw_first_seen r < t \<and> t \<le> fw_last_seen r)
       (su_ongoing_faults (summary_faults (Some t) (fold fault_step ops init_faults)))"
proof -
  define h where "h = fold history_step ops []"
  define db where "db = fold fault_step ops init_faults"
  have m: "faults_match h db" unfolding h_def db_def by (rule run_matches [OF init_matches])
  have rows: "fl_rows (connect_faults db) = fl_rows db" "map without_id (fl_rows db) = table_of h"
    using connect_matching [OF m] m by (auto simp: faults_match_def)
  define ex where "ex = filter (\<lambda>r. fw_first_seen r \<ge> t) (fl_rows db)"
  have n: "sum_list (map fw_count ex) = length (new_in_window t h)"
    unfolding ex_def by (subst filter_without_id) (simp only: rows(2) table_counts)
  have s: "su_total_occurrences (summary_faults (Some t) db) = sum_list (map fw_count ex)"
    "su_by_component (summary_faults (Some t) db) = sorted_desc (\<lambda>(c, n). rat_of_nat n) (count_by fw_component ex)"
    "su_by_severity (summary_faults (Some t) db) = count_by fw_severity ex"
    by (simp_all add: summary_faults_def rows(1) ex_def Let_def)
  have "list_all (\<lambda>r. fw_first_seen r < t \<and> t \<le> fw_last_seen r) (su_ongoing_faults (summary_faults (Some t) db))"
    by (auto simp: summary_faults_def rows(1) Let_def list_all_iff dest!: in_set_takeD)
  then show ?thesis
    unfolding h_def [symmetric] db_def [symmetric] s by (simp add: n count_by_total sum_sorted_desc)
qed

subsection \<open>Merging what an older version left\<close>

definition fault_group :: "fault_row list \<Rightarrow> fault_key \<Rightarrow> fault_row list" where
  "fault_group rows k = filter (\<lambda>r. fault_key r = k) rows"

definition merged_row :: "fault_row list \<Rightarrow> fault_row \<Rightarrow> fault_row" where
  "merged_row g r = r\<lparr> fw_count := sum_list (map fw_count g), fw_last_seen := Max (set (map fw_last_seen g)) \<rparr>"

lemma merged_row_simps [simp]: "fault_key (merged_row g r) = fault_key r" "fw_exc_type (merged_row g r) = fw_exc_type r"
  "fw_count (merged_row g r) = sum_list (map fw_count g)"
  by (simp_all add: merged_row_def fault_key_def)

lemma null_group_eq: "null_group rows r = (if fw_exc_type r = None then fault_group rows (fault_key r) else [])"
  by (auto simp: null_group_def fault_group_def fault_key_def intro: filter_cong)

lemma merge_eq:
  "merge_duplicate_null_exc_type_rows rows =
     map (\<lambda>r. if fw_exc_type r = None \<and> length (fault_group rows (fault_key r)) > 1
             then merged_row (fault_group rows (fault_key r)) r else r)
       (filter (\<lambda>r. fw_exc_type r = None \<and> length (fault_group rows (fault_key r)) > 1
          \<longrightarrow> fw_id r = Min (set (map fw_id (fault_group rows (fault_key r))))) rows)"
  by (auto simp: merge_duplicate_null_exc_type_rows_def null_group_eq merged_row_def Let_def intro!: map_cong filter_cong)

lemma merge_group:
  "fault_group (merge_duplicate_null_exc_type_rows rows) k =
     (let g = fault_group rows k in
      if fst (snd (snd k)) = None \<and> length g > 1
      then map (merged_row g) (filter (\<lambda>r. fw_id r = Min (set (map fw_id g))) g) else g)"
proof -
  let ?g = "fault_group rows k"
  let ?d = "fst (snd (snd k)) = None \<and> length ?g > 1"
  have k: "fw_exc_type r = fst (snd (snd k))" if "fault_key r = k" for r using that by (auto simp: fault_key_def)
  have "fault_group (merge_duplicate_null_exc_type_rows rows) k
      = map (\<lambda>r. if ?d then merged_row ?g r else r) (filter (\<lambda>r. ?d \<longrightarrow> fw_id r = Min (set (map fw_id ?g))) ?g)"
    unfolding merge_eq fault_group_def [of "map _ _"] filter_map
    by (auto simp: fault_group_def comp_def k intro!: map_cong filter_cong cong: if_cong)
  then show ?thesis by (auto simp: Let_def)
qed

lemma one_keeper:
  assumes "distinct (map fw_id g)" "g \<noteq> []"
  shows "length (filter (\<lambda>r. fw_id r = Min (set (map fw_id g))) g) = 1"
proof -
  have "Min (set (map fw_id g)) \<in> set (map fw_id g)" using assms(2) by (intro Min_in) auto
  moreover have "length (filter (\<lambda>r. fw_id r = i) g) = (if i \<in> set (map fw_id g) then 1 else 0)" for i
    using assms(1) by (induction g) (auto simp: filter_empty_conv)
  ultimately show ?thesis by simp
qed

lemma merge_group_size:
  assumes "distinct (map fw_id rows)"
  shows "fst (snd (snd k)) = None \<Longrightarrow> length (fault_group (merge_duplicate_null_exc_type_rows rows) k) \<le> 1"
    "sum_list (map fw_count (fault_group (merge_duplicate_null_exc_type_rows rows) k)) = sum_list (map fw_count (fault_group rows k))"
proof -
  let ?g = "fault_group rows k"
  let ?m = "filter (\<lambda>r. fw_id r = Min (set (map fw_id ?g))) ?g"
  have d: "distinct (map fw_id ?g)" by (simp add: fault_group_def distinct_map_filter assms)
  have one: "length ?m = 1" if "length ?g > 1"   proof -
    have "?g \<noteq> []" using that by auto
    then show ?thesis by (rule one_keeper [OF d])
  qed
  show "fst (snd (snd k)) = None \<Longrightarrow> length (fault_group (merge_duplicate_null_exc_type_rows rows) k) \<le> 1"
    using one by (auto simp: merge_group Let_def not_less)
  have "sum_list (map fw_count (map (merged_row ?g) ?m)) = sum_list (map fw_count ?g)" if "length ?g > 1"
    using one [OF that] by (simp add: comp_def sum_list_triv)
  then show "sum_list (map fw_count (fault_group (merge_duplicate_null_exc_type_rows rows) k)) = sum_list (map fw_count ?g)"
    by (auto simp: merge_group Let_def)
qed

text \<open>
  Merging the duplicate rows an older version left loses no occurrence: every key keeps its total
  count, at most one row of it remains for a plain fault, exception rows are as before, and the
  partial unique index can be created afterwards.
\<close>
theorem merge_loses_nothing:
  assumes "distinct (map fw_id rows)"
  shows "sum_list (map fw_count (filter (\<lambda>r. fault_key r = k) (merge_duplicate_null_exc_type_rows rows)))
      = sum_list (map fw_count (filter (\<lambda>r. fault_key r = k) rows))
    \<and> filter (\<lambda>r. fw_exc_type r \<noteq> None) (merge_duplicate_null_exc_type_rows rows) = filter (\<lambda>r. fw_exc_type r \<noteq> None) rows
    \<and> \<not> index_conflict (merge_duplicate_null_exc_type_rows rows)"
proof -
  define dup where "dup = (\<lambda>r. fw_exc_type r = None \<and> length (fault_group rows (fault_key r)) > 1)"
  define U where "U = (\<lambda>r. if dup r then merged_row (fault_group rows (fault_key r)) r else r)"
  define Q where "Q = (\<lambda>r. dup r \<longrightarrow> fw_id r = Min (set (map fw_id (fault_group rows (fault_key r)))))"
  have m: "merge_duplicate_null_exc_type_rows rows = map U (filter Q rows)" unfolding U_def Q_def dup_def by (rule merge_eq)
  have "filter (\<lambda>r. fw_exc_type r \<noteq> None) (map U (filter Q rows)) = map U (filter (\<lambda>r. Q r \<and> fw_exc_type r \<noteq> None) rows)"
    unfolding filter_map filter_filter by (rule arg_cong [where f = "map U"], rule filter_cong) (auto simp: U_def)
  also have "\<dots> = map U (filter (\<lambda>r. fw_exc_type r \<noteq> None) rows)"
    by (rule arg_cong [where f = "map U"], rule filter_cong) (auto simp: Q_def dup_def)
  also have "\<dots> = filter (\<lambda>r. fw_exc_type r \<noteq> None) rows" by (rule map_idI) (auto simp: U_def dup_def)
  finally have "filter (\<lambda>r. fw_exc_type r \<noteq> None) (merge_duplicate_null_exc_type_rows rows) = filter (\<lambda>r. fw_exc_type r \<noteq> None) rows"
    by (simp only: m)
  moreover have "length (null_group (merge_duplicate_null_exc_type_rows rows) r) \<le> 1" for r
    using merge_group_size(1) [OF assms, of "fault_key r"] by (auto simp: null_group_eq fault_key_def)
  ultimately show ?thesis
    using merge_group_size(2) [OF assms, of k] by (auto simp: fault_group_def index_conflict_def list_ex_iff not_less)
qed

definition stall :: "nat \<Rightarrow> nat \<Rightarrow> fault_row" where
  "stall i n = \<lparr>fw_id = i, fw_component = ''loop_watchdog'', fw_operation = ''stall'', fw_severity = ''warn'', fw_exc_type = None,
     fw_message = Some ''blocked'', fw_first_traceback = None, fw_last_traceback = None, fw_context = None,
     fw_count = n, fw_first_seen = 5, fw_last_seen = 9\<rparr>"

theorem merge_loses_nothing_witness:
  "sum_list (map fw_count (filter (\<lambda>r. fault_key r = fault_key (stall 1 2))
      (merge_duplicate_null_exc_type_rows [stall 1 2, stall 2 3, stall 4 1]))) = 6"
proof -
  have d: "distinct (map fw_id [stall 1 2, stall 2 3, stall 4 1])" by code_simp
  have s: "sum_list (map fw_count (filter (\<lambda>r. fault_key r = fault_key (stall 1 2)) [stall 1 2, stall 2 3, stall 4 1])) = 6" by code_simp
  show ?thesis using merge_loses_nothing [OF d, of "fault_key (stall 1 2)"] s by simp
qed

end
