(* ===== verification/CaptureWriter.thy ===== *)
theory CaptureWriter
  imports Prelude Binary64 "HOL-Library.Multiset" "HOL-Library.Sublist"
begin

text \<open>
  \<open>services/capture_writer.py\<close>: rows are appended to a buffer and written in batches by a daemon or
  by a caller of \<open>flush_now\<close>. A store either appends (the buffer is a list) or upserts (the buffer
  is a dictionary by key, the newest row of a key only). A flush takes the buffer under the lock,
  writes it without the lock, and puts it back in front when the database is locked; any other
  failure loses it. What the database does with a flush is the parameter \<open>flush_outcome\<close>; the write
  itself is a function of the table. Opening, DDL and closing are part of the outcome.
\<close>

definition FLUSH_INTERVAL_SEC :: f64 where "FLUSH_INTERVAL_SEC = 1"
definition FLUSH_BATCH :: nat where "FLUSH_BATCH = 500"
definition MAX_RETAINED_ROWS :: nat where "MAX_RETAINED_ROWS = 200000"

record 'b capture_store =
  cw_buffer :: 'b
  cw_last_flush_at :: f64
  cw_dropped :: nat
  cw_overflow_dropped :: nat
  cw_lock_retries :: nat
  cw_faults :: "string list"

definition init_store :: "'b \<Rightarrow> f64 \<Rightarrow> 'b capture_store" where
  "init_store b now = \<lparr>cw_buffer = b, cw_last_flush_at = now, cw_dropped = 0, cw_overflow_dropped = 0,
     cw_lock_retries = 0, cw_faults = []\<rparr>"

datatype flush_outcome = Committed | Locked | WriteError

subsection \<open>Submitting\<close>

definition submit_append :: "'r \<Rightarrow> 'r list capture_store \<Rightarrow> 'r list capture_store" where
  "submit_append row s = s\<lparr> cw_buffer := cw_buffer s @ [row] \<rparr>"

definition submit_keyed :: "('r \<Rightarrow> 'k) \<Rightarrow> 'r \<Rightarrow> ('k, 'r) pdict capture_store \<Rightarrow> ('k, 'r) pdict capture_store" where
  "submit_keyed key_of row s = s\<lparr> cw_buffer := dput (key_of row) row (cw_buffer s) \<rparr>"

subsection \<open>Flushing\<close>

text \<open>Both halves of \<open>_retain\<close>: the retained rows come first, the oldest leave past the cap.\<close>

definition merge_append :: "'r list \<Rightarrow> 'r list \<Rightarrow> 'r list" where
  "merge_append rows current = rows @ current"

definition merge_keyed :: "('r \<Rightarrow> 'k) \<Rightarrow> 'r list \<Rightarrow> ('k, 'r) pdict \<Rightarrow> ('k, 'r) pdict" where
  "merge_keyed key_of rows current =
     fold (\<lambda>(k, r) d. dput k r d) current (fold (\<lambda>r d. dput (key_of r) r d) rows [])"

definition retain :: "('r list \<Rightarrow> 'b list \<Rightarrow> 'b list) \<Rightarrow> 'r list \<Rightarrow> 'b list capture_store \<Rightarrow> 'b list capture_store" where
  "retain merge rows s =
     (let merged = merge rows (cw_buffer s); overflow = length merged - MAX_RETAINED_ROWS in
      s\<lparr> cw_buffer := drop overflow merged, cw_lock_retries := cw_lock_retries s + 1,
         cw_overflow_dropped := cw_overflow_dropped s + overflow \<rparr>)"

text \<open>The first locked section of a flush: the rows taken.\<close>

definition take_buffer :: "('b list \<Rightarrow> 'r list) \<Rightarrow> 'b list capture_store \<Rightarrow> 'r list \<times> 'b list capture_store" where
  "take_buffer values s = (values (cw_buffer s), s\<lparr> cw_buffer := [] \<rparr>)"

text \<open>The rest of it, for rows that are there.\<close>

definition finish_flush ::
  "('r list \<Rightarrow> 'b list \<Rightarrow> 'b list) \<Rightarrow> ('r list \<Rightarrow> 't \<Rightarrow> 't) \<Rightarrow> flush_outcome \<Rightarrow> f64 \<Rightarrow> 'r list
     \<Rightarrow> 'b list capture_store \<times> 't \<Rightarrow> 'b list capture_store \<times> 't" where
  "finish_flush merge write outcome now rows st =
     (case st of (s, t) \<Rightarrow>
      (case outcome of
         Committed \<Rightarrow> (s\<lparr> cw_last_flush_at := now \<rparr>, write rows t)
       | Locked \<Rightarrow> ((retain merge rows s)\<lparr> cw_faults := cw_faults s @ [''flush_retained_on_lock''], cw_last_flush_at := now \<rparr>, t)
       | WriteError \<Rightarrow> (s\<lparr> cw_dropped := cw_dropped s + length rows, cw_faults := cw_faults s @ [''flush''],
                        cw_last_flush_at := now \<rparr>, t)))"

definition flush_store ::
  "('b list \<Rightarrow> 'r list) \<Rightarrow> ('r list \<Rightarrow> 'b list \<Rightarrow> 'b list) \<Rightarrow> ('r list \<Rightarrow> 't \<Rightarrow> 't) \<Rightarrow> flush_outcome \<Rightarrow> f64
     \<Rightarrow> 'b list capture_store \<times> 't \<Rightarrow> 'b list capture_store \<times> 't" where
  "flush_store values merge write outcome now st =
     (case st of (s, t) \<Rightarrow>
      (let (rows, s1) = take_buffer values s in
       if rows = [] then (s1\<lparr> cw_last_flush_at := now \<rparr>, t) else finish_flush merge write outcome now rows (s1, t)))"

text \<open>\<open>flush_now\<close> answers how many rows were buffered.\<close>

definition flush_now ::
  "('b list \<Rightarrow> 'r list) \<Rightarrow> ('r list \<Rightarrow> 'b list \<Rightarrow> 'b list) \<Rightarrow> ('r list \<Rightarrow> 't \<Rightarrow> 't) \<Rightarrow> flush_outcome \<Rightarrow> f64
     \<Rightarrow> 'b list capture_store \<times> 't \<Rightarrow> nat \<times> 'b list capture_store \<times> 't" where
  "flush_now values merge write outcome now st = (length (cw_buffer (fst st)), flush_store values merge write outcome now st)"

text \<open>The daemon's test for one store.\<close>

definition flush_due :: "bool \<Rightarrow> f64 \<Rightarrow> 'b list capture_store \<Rightarrow> bool" where
  "flush_due stopping now s \<longleftrightarrow> length (cw_buffer s) \<ge> FLUSH_BATCH \<or> stopping
     \<or> (cw_buffer s \<noteq> [] \<and> fsub now (cw_last_flush_at s) \<ge> FLUSH_INTERVAL_SEC)"

definition loss_snapshot :: "'b list capture_store \<Rightarrow> nat \<times> nat \<times> nat \<times> nat \<times> nat" where
  "loss_snapshot s = (cw_dropped s, cw_overflow_dropped s, cw_lock_retries s, length (cw_buffer s), MAX_RETAINED_ROWS)"

subsection \<open>Threads\<close>

text \<open>
  A submission, the taking of the buffer by a thread and the end of its flush are each atomic, and
  interleave: between the last two other threads submit, and flush. The rows a thread has taken are
  in flight until its flush ends; a thread flushes once at a time.
\<close>

datatype 'r capture_op = Submit 'r | Take nat | Finish nat flush_outcome f64

record ('b, 'r, 't) capture =
  cx_store :: "'b list capture_store"
  cx_in_flight :: "(nat, 'r list) pdict"
  cx_table :: 't

definition capture_step ::
  "('r \<Rightarrow> 'b list capture_store \<Rightarrow> 'b list capture_store) \<Rightarrow> ('b list \<Rightarrow> 'r list) \<Rightarrow> ('r list \<Rightarrow> 'b list \<Rightarrow> 'b list)
     \<Rightarrow> ('r list \<Rightarrow> 't \<Rightarrow> 't) \<Rightarrow> 'r capture_op \<Rightarrow> ('b, 'r, 't) capture \<Rightarrow> ('b, 'r, 't) capture" where
  "capture_step submit values merge write op c =
     (case op of
        Submit row \<Rightarrow> c\<lparr> cx_store := submit row (cx_store c) \<rparr>
      | Take i \<Rightarrow>
          (if i \<in> set (dkeys (cx_in_flight c)) then c
           else let (rows, s) = take_buffer values (cx_store c) in
                c\<lparr> cx_store := s, cx_in_flight := (if rows = [] then cx_in_flight c else cx_in_flight c @ [(i, rows)]) \<rparr>)
      | Finish i outcome now \<Rightarrow>
          (case dget (cx_in_flight c) i of
             None \<Rightarrow> c
           | Some rows \<Rightarrow>
               (let (s, t) = finish_flush merge write outcome now rows (cx_store c, cx_table c) in
                c\<lparr> cx_store := s, cx_in_flight := ddel i (cx_in_flight c), cx_table := t \<rparr>)))"

definition append_step :: "'r capture_op \<Rightarrow> ('r, 'r, 'r list) capture \<Rightarrow> ('r, 'r, 'r list) capture" where
  "append_step = capture_step submit_append (\<lambda>b. b) merge_append (\<lambda>rows t. t @ rows)"

definition upsert_step ::
  "('r \<Rightarrow> 'k) \<Rightarrow> ('r list \<Rightarrow> 't \<Rightarrow> 't) \<Rightarrow> 'r capture_op \<Rightarrow> ('k \<times> 'r, 'r, 't) capture \<Rightarrow> ('k \<times> 'r, 'r, 't) capture" where
  "upsert_step key_of write = capture_step (submit_keyed key_of) (map snd) (merge_keyed key_of) write"

definition init_capture :: "f64 \<Rightarrow> 't \<Rightarrow> ('b, 'r, 't) capture" where
  "init_capture now t = \<lparr>cx_store = init_store [] now, cx_in_flight = [], cx_table = t\<rparr>"

definition submitted :: "'r capture_op list \<Rightarrow> 'r list" where
  "submitted ops = concat (map (\<lambda>op. case op of Submit r \<Rightarrow> [r] | _ \<Rightarrow> []) ops)"


lemma submitted_snoc [simp]:
  "submitted (ops @ [Submit r]) = submitted ops @ [r]"
  "submitted (ops @ [Take i]) = submitted ops"
  "submitted (ops @ [Finish i out now]) = submitted ops"
  by (simp_all add: submitted_def)

lemma submitted_Nil [simp]: "submitted [] = []" by (simp add: submitted_def)

definition in_flight :: "('b, 'r, 't) capture \<Rightarrow> 'r list" where
  "in_flight c = concat (map snd (cx_in_flight c))"

lemma in_flight_leave:
  assumes "dict_ok d" "dget d i = Some rows"
  shows "mset (concat (map snd (ddel i d))) + mset rows = mset (concat (map snd d))"
  using assms
proof (induction d)
  case (Cons a d)
  show ?case
  proof (cases "fst a = i")
    case True
    then have "i \<notin> set (dkeys d)" using Cons.prems(1) by (auto simp: dict_ok_def dkeys_def)
    then have "ddel i d = d" by (rule length_ddel_absent)
    then show ?thesis using True Cons.prems by (cases a) (simp add: ddel_def ac_simps)
  next
    case False
    then show ?thesis using Cons by (cases a) (auto simp: ddel_def dict_ok_def dkeys_def ac_simps)
  qed
qed simp

lemma retain_simps:
  "cw_buffer (retain merge rows s) = drop (length (merge rows (cw_buffer s)) - MAX_RETAINED_ROWS) (merge rows (cw_buffer s))"
  "cw_overflow_dropped (retain merge rows s) = cw_overflow_dropped s + (length (merge rows (cw_buffer s)) - MAX_RETAINED_ROWS)"
  "cw_dropped (retain merge rows s) = cw_dropped s"
  by (simp_all add: retain_def Let_def)

text \<open>What one step does, case by case.\<close>

lemma append_step_simps:
  "append_step (Submit r) c = c\<lparr> cx_store := submit_append r (cx_store c) \<rparr>"
  "append_step (Take i) c =
     (if i \<in> set (dkeys (cx_in_flight c)) then c
      else c\<lparr> cx_store := (cx_store c)\<lparr> cw_buffer := [] \<rparr>,
              cx_in_flight := (if cw_buffer (cx_store c) = [] then cx_in_flight c else cx_in_flight c @ [(i, cw_buffer (cx_store c))]) \<rparr>)"
  "dget (cx_in_flight c) i = None \<Longrightarrow> append_step (Finish i out now) c = c"
  "dget (cx_in_flight c) i = Some rows \<Longrightarrow> append_step (Finish i out now) c =
     (case finish_flush merge_append (\<lambda>rows t. t @ rows) out now rows (cx_store c, cx_table c) of (s, t) \<Rightarrow>
        c\<lparr> cx_store := s, cx_in_flight := ddel i (cx_in_flight c), cx_table := t \<rparr>)"
  by (simp_all add: append_step_def capture_step_def take_buffer_def Let_def)

definition accounted :: "'r list \<Rightarrow> ('r, 'r, 'r list) capture \<Rightarrow> bool" where
  "accounted rs c \<longleftrightarrow> dict_ok (cx_in_flight c)
     \<and> length rs = length (cx_table c) + length (in_flight c) + length (cw_buffer (cx_store c))
         + cw_dropped (cx_store c) + cw_overflow_dropped (cx_store c)
     \<and> mset (cx_table c) + mset (in_flight c) + mset (cw_buffer (cx_store c)) \<subseteq># mset rs"

lemma dict_ok_snoc: "dict_ok d \<Longrightarrow> i \<notin> set (dkeys d) \<Longrightarrow> dict_ok (d @ [(i, v)])"
  by (simp add: dict_ok_def dkeys_def)

lemma accounted_finish:
  assumes a: "accounted rs c" and d: "dget (cx_in_flight c) i = Some rows"
  shows "accounted rs (append_step (Finish i out now) c)"
proof -
  let ?fl = "concat (map snd (ddel i (cx_in_flight c)))" and ?b = "cw_buffer (cx_store c)"
  have ok: "dict_ok (cx_in_flight c)" using a by (simp add: accounted_def)
  note m = in_flight_leave [OF ok d]
  have n: "length ?fl + length rows = length (in_flight c)" using arg_cong [OF m, of size] by (simp add: in_flight_def)
  have sub: "mset (cx_table c) + (mset ?fl + mset rows) + mset ?b \<subseteq># mset rs"
    using a m by (simp add: accounted_def in_flight_def)
  have len: "length rs = length (cx_table c) + (length ?fl + length rows) + length ?b
      + cw_dropped (cx_store c) + cw_overflow_dropped (cx_store c)"
    using a n by (simp add: accounted_def)
  have ok': "dict_ok (ddel i (cx_in_flight c))" using ok by simp
  show ?thesis
  proof (cases out)
    case Committed
    have e: "append_step (Finish i out now) c = c\<lparr> cx_store := (cx_store c)\<lparr> cw_last_flush_at := now \<rparr>,
        cx_in_flight := ddel i (cx_in_flight c), cx_table := cx_table c @ rows \<rparr>"
      by (simp add: append_step_simps(4) [OF d] finish_flush_def Committed)
    have "mset (cx_table c @ rows) + mset ?fl + mset ?b \<subseteq># mset rs" using sub by (simp add: add.assoc add.commute add.left_commute)
    then show ?thesis unfolding e accounted_def in_flight_def using len ok' by simp
  next
    case Locked
    let ?k = "length (rows @ ?b) - MAX_RETAINED_ROWS"
    have "mset (drop ?k (rows @ ?b)) \<subseteq># mset (rows @ ?b)"
      by (metis append_take_drop_id mset_append mset_subset_eq_add_right)
    then have "(mset (cx_table c) + mset ?fl) + mset (drop ?k (rows @ ?b)) \<subseteq># (mset (cx_table c) + mset ?fl) + mset (rows @ ?b)"
      by (rule subset_mset.add_left_mono)
    also have "\<dots> = mset (cx_table c) + (mset ?fl + mset rows) + mset ?b" by (simp add: add.assoc)
    also note sub
    finally have sub': "mset (cx_table c) + mset ?fl + mset (drop ?k (rows @ ?b)) \<subseteq># mset rs" .
    have len': "length rs = length (cx_table c) + length ?fl + length (drop ?k (rows @ ?b)) + cw_dropped (cx_store c)
        + (cw_overflow_dropped (cx_store c) + ?k)"
      using len by simp
    show ?thesis unfolding append_step_simps(4) [OF d] finish_flush_def Locked accounted_def in_flight_def
      using sub' len' ok' by (simp add: retain_simps merge_append_def)
  next
    case WriteError
    have "(mset (cx_table c) + mset ?fl + mset ?b) \<subseteq># (mset (cx_table c) + mset ?fl + mset ?b) + mset rows" by simp
    also have "\<dots> = mset (cx_table c) + (mset ?fl + mset rows) + mset ?b" by (simp add: add.assoc add.commute add.left_commute)
    also note sub
    finally show ?thesis unfolding append_step_simps(4) [OF d] finish_flush_def WriteError accounted_def in_flight_def
      using len ok' by simp
  qed
qed

lemma accounted_run: "accounted (submitted ops) (fold append_step ops (init_capture now []))"
proof (induction ops rule: rev_induct)
  case Nil
  then show ?case by (simp add: accounted_def init_capture_def init_store_def in_flight_def)
next
  case (snoc op ops)
  define c where "c = fold append_step ops (init_capture now [])"
  have a: "accounted (submitted ops) c" using snoc by (simp add: c_def)
  have "accounted (submitted (ops @ [op])) (append_step op c)"
  proof (cases op)
    case (Submit r)
    then show ?thesis using a by (simp add: append_step_simps accounted_def in_flight_def submit_append_def add.assoc)
  next
    case (Take i)
    then show ?thesis using a
      by (cases "cw_buffer (cx_store c) = []") (simp_all add: append_step_simps accounted_def in_flight_def dict_ok_snoc ac_simps)
  next
    case (Finish i out t)
    then show ?thesis using a accounted_finish [OF a] by (cases "dget (cx_in_flight c) i") (simp_all add: append_step_simps)
  qed
  then show ?case by (simp add: c_def)
qed



subsection \<open>One flush at a time\<close>

text \<open>Runs in which a buffer is taken only when no flush is under way.\<close>

fun serial :: "('r capture_op \<Rightarrow> ('b, 'r, 't) capture \<Rightarrow> ('b, 'r, 't) capture) \<Rightarrow> ('b, 'r, 't) capture \<Rightarrow> 'r capture_op list \<Rightarrow> bool" where
  "serial step c [] \<longleftrightarrow> True"
| "serial step c (op # ops) \<longleftrightarrow>
     (case op of Take i \<Rightarrow> cx_in_flight c = [] | _ \<Rightarrow> True) \<and> serial step (step op c) ops"

lemma serial_append_queue: "serial step c (xs @ ys) \<longleftrightarrow> serial step c xs \<and> serial step (fold step xs c) ys"
  by (induction xs arbitrary: c) auto

definition lossless :: "('b, 'r, 't) capture \<Rightarrow> bool" where
  "lossless c \<longleftrightarrow> cw_dropped (cx_store c) = 0 \<and> cw_overflow_dropped (cx_store c) = 0"

text \<open>The newest row of a key in a list of rows.\<close>

definition newest :: "('r \<Rightarrow> 'k) \<Rightarrow> 'k \<Rightarrow> 'r list \<Rightarrow> 'r option" where
  "newest key_of k rows = find (\<lambda>r. key_of r = k) (rev rows)"

lemma newest_Nil [simp]: "newest key_of k [] = None" by (simp add: newest_def)

lemma find_append: "find P (xs @ ys) = (case find P xs of None \<Rightarrow> find P ys | Some x \<Rightarrow> Some x)"
  by (induction xs) auto

lemma newest_append:
  "newest key_of k (xs @ ys) = (case newest key_of k ys of None \<Rightarrow> newest key_of k xs | Some r \<Rightarrow> Some r)"
  by (simp add: newest_def find_append split: option.split)

lemma newest_one [simp]: "newest key_of k [r] = (if key_of r = k then Some r else None)"
  by (simp add: newest_def)

lemma newest_snoc: "newest key_of k (xs @ [r]) = (if key_of r = k then Some r else newest key_of k xs)"
  by (simp add: newest_append)

text \<open>A keyed buffer holds each row under its key.\<close>

definition keyed :: "('r \<Rightarrow> 'k) \<Rightarrow> ('k, 'r) pdict \<Rightarrow> bool" where
  "keyed key_of d \<longleftrightarrow> dict_ok d \<and> list_all (\<lambda>(k, r). key_of r = k) d"

lemma keyed_Nil [simp]: "keyed key_of []" by (simp add: keyed_def)

lemma keyed_dput: "keyed key_of d \<Longrightarrow> keyed key_of (dput (key_of r) r d)"
proof -
  have "list_all (\<lambda>(k, r). key_of r = k) d \<Longrightarrow> list_all (\<lambda>(k, r). key_of r = k) (dput (key_of r) r d)"
    by (induction d) auto
  then show "keyed key_of d \<Longrightarrow> keyed key_of (dput (key_of r) r d)" by (simp add: keyed_def)
qed

lemma newest_keyed: "keyed key_of d \<Longrightarrow> newest key_of k (map snd d) = dget d k"
proof (induction d rule: rev_induct)
  case (snoc a d)
  obtain j r where a: "a = (j, r)" by (cases a)
  have d: "keyed key_of d" "key_of r = j" "j \<notin> set (dkeys d)" using snoc.prems a by (auto simp: keyed_def dict_ok_def dkeys_def)
  have "dget (d @ [(j, r)]) k = (if k = j then Some r else dget d k)"
    using length_dput_absent [OF d(3), of r] dget_dput [of j r d k] by simp
  then show ?case using snoc.IH [OF d(1)] d(2) by (simp add: a newest_snoc)
qed simp

lemma fold_dput_keyed:
  "keyed key_of d \<Longrightarrow> keyed key_of (fold (\<lambda>r d. dput (key_of r) r d) rows d)
    \<and> dget (fold (\<lambda>r d. dput (key_of r) r d) rows d) k = (case newest key_of k rows of None \<Rightarrow> dget d k | Some r \<Rightarrow> Some r)"
proof (induction rows rule: rev_induct)
  case (snoc r rows)
  then show ?case by (auto simp: newest_snoc keyed_dput)
qed simp

lemma merge_keyed_newest:
  assumes "keyed key_of current"
  shows "keyed key_of (merge_keyed key_of rows current)
    \<and> newest key_of k (map snd (merge_keyed key_of rows current)) = newest key_of k (rows @ map snd current)"
proof -
  have "fold (\<lambda>(k, r) d. dput k r d) current e = fold (\<lambda>r d. dput (key_of r) r d) (map snd current) e" for e
    using assms by (induction current arbitrary: e) (auto simp: keyed_def dict_ok_def dkeys_def)
  then have m: "merge_keyed key_of rows current = fold (\<lambda>r d. dput (key_of r) r d) (rows @ map snd current) []"
    by (simp add: merge_keyed_def)
  have "keyed key_of (merge_keyed key_of rows current)" unfolding m using fold_dput_keyed [of key_of "[]"] keyed_Nil by blast
  moreover have "dget (merge_keyed key_of rows current) k = newest key_of k (rows @ map snd current)"
    unfolding m using fold_dput_keyed [of key_of "[]" "rows @ map snd current" k] by (simp split: option.splits)
  ultimately show ?thesis by (simp add: newest_keyed)
qed

text \<open>The table of an upsert store as the journal of the rows written, in order.\<close>

definition journal_step :: "('r \<Rightarrow> 'k) \<Rightarrow> 'r capture_op \<Rightarrow> ('k \<times> 'r, 'r, 'r list) capture \<Rightarrow> ('k \<times> 'r, 'r, 'r list) capture" where
  "journal_step key_of = upsert_step key_of (\<lambda>rows t. t @ rows)"

lemma journal_step_simps:
  "journal_step key_of (Submit r) c = c\<lparr> cx_store := submit_keyed key_of r (cx_store c) \<rparr>"
  "journal_step key_of (Take i) c =
     (if i \<in> set (dkeys (cx_in_flight c)) then c
      else c\<lparr> cx_store := (cx_store c)\<lparr> cw_buffer := [] \<rparr>,
              cx_in_flight := (if cw_buffer (cx_store c) = [] then cx_in_flight c
                               else cx_in_flight c @ [(i, map snd (cw_buffer (cx_store c)))]) \<rparr>)"
  "dget (cx_in_flight c) i = None \<Longrightarrow> journal_step key_of (Finish i out now) c = c"
  "dget (cx_in_flight c) i = Some rows \<Longrightarrow> journal_step key_of (Finish i out now) c =
     (case finish_flush (merge_keyed key_of) (\<lambda>rows t. t @ rows) out now rows (cx_store c, cx_table c) of (s, t) \<Rightarrow>
        c\<lparr> cx_store := s, cx_in_flight := ddel i (cx_in_flight c), cx_table := t \<rparr>)"
  by (simp_all add: journal_step_def upsert_step_def capture_step_def take_buffer_def Let_def)

definition up_to_date :: "('r \<Rightarrow> 'k) \<Rightarrow> 'r list \<Rightarrow> ('k \<times> 'r, 'r, 'r list) capture \<Rightarrow> bool" where
  "up_to_date key_of rs c \<longleftrightarrow> keyed key_of (cw_buffer (cx_store c))
     \<and> (cx_in_flight c = [] \<or> (\<exists>i rows. cx_in_flight c = [(i, rows)] \<and> rows \<noteq> []))
     \<and> (\<forall>k. newest key_of k (cx_table c @ in_flight c @ map snd (cw_buffer (cx_store c))) = newest key_of k rs)"

lemma up_to_date_finish:
  assumes u: "up_to_date key_of rs c" and d: "dget (cx_in_flight c) i = Some rows"
    and l: "lossless (journal_step key_of (Finish i out now) c)"
  shows "up_to_date key_of rs (journal_step key_of (Finish i out now) c) \<and> lossless c"
proof -
  have fl: "cx_in_flight c = [(i, rows)]" "rows \<noteq> []" using u d by (auto simp: up_to_date_def split: if_splits)
  have del: "ddel i (cx_in_flight c) = []" by (simp add: fl(1) ddel_def)
  have n: "newest key_of k (cx_table c @ rows @ map snd (cw_buffer (cx_store c))) = newest key_of k rs" for k
    using u by (simp add: up_to_date_def in_flight_def fl(1))
  have kb: "keyed key_of (cw_buffer (cx_store c))" using u by (simp add: up_to_date_def)
  note e = journal_step_simps(4) [OF d, of key_of out now, unfolded del]
  show ?thesis
  proof (cases out)
    case Committed
    then show ?thesis using l n kb unfolding e by (simp add: finish_flush_def up_to_date_def in_flight_def lossless_def)
  next
    case Locked
    let ?m = "merge_keyed key_of rows (cw_buffer (cx_store c))"
    have z: "length ?m - MAX_RETAINED_ROWS = 0" "cw_overflow_dropped (cx_store c) = 0" "cw_dropped (cx_store c) = 0"
      using l unfolding e unfolding Locked by (auto simp: finish_flush_def lossless_def retain_simps)
    have "newest key_of k (cx_table c @ map snd ?m) = newest key_of k rs" for k
      using merge_keyed_newest [OF kb, of rows k] n [of k] by (simp add: newest_append split: option.splits)
    then show ?thesis unfolding e unfolding Locked using merge_keyed_newest [OF kb, of rows] z
      by (simp add: finish_flush_def up_to_date_def in_flight_def lossless_def retain_simps)
  next
    case WriteError
    then show ?thesis using l fl(2) unfolding e by (simp add: finish_flush_def lossless_def)
  qed
qed

lemma up_to_date_run:
  assumes "serial (journal_step key_of) (init_capture now []) ops"
    "lossless (fold (journal_step key_of) ops (init_capture now []))"
  shows "up_to_date key_of (submitted ops) (fold (journal_step key_of) ops (init_capture now []))"
  using assms
proof (induction ops rule: rev_induct)
  case Nil
  then show ?case by (simp add: up_to_date_def init_capture_def init_store_def in_flight_def)
next
  case (snoc op ops)
  define c where "c = fold (journal_step key_of) ops (init_capture now [])"
  have s: "serial (journal_step key_of) (init_capture now []) ops" and t: "\<And>i. op = Take i \<Longrightarrow> cx_in_flight c = []"
    using snoc.prems(1) by (auto simp: serial_append_queue c_def)
  have l: "lossless (journal_step key_of op c)" using snoc.prems(2) by (simp add: c_def)
  have ih: "lossless c \<Longrightarrow> up_to_date key_of (submitted ops) c" using snoc.IH s by (simp add: c_def)
  have "up_to_date key_of (submitted (ops @ [op])) (journal_step key_of op c)"
  proof (cases op)
    case (Submit r)
    then have "lossless c" using l by (simp add: journal_step_simps lossless_def submit_keyed_def)
    then have u: "up_to_date key_of (submitted ops) c" by (rule ih)
    have kb: "keyed key_of (cw_buffer (cx_store c))" using u by (simp add: up_to_date_def)
    have "newest key_of k (cx_table c @ in_flight c @ map snd (dput (key_of r) r (cw_buffer (cx_store c))))
        = newest key_of k (submitted ops @ [r])" for k
    proof -
      have "newest key_of k (cx_table c @ in_flight c @ map snd (cw_buffer (cx_store c))) = newest key_of k (submitted ops)"
        using u by (simp add: up_to_date_def)
      then show ?thesis
        by (auto simp: newest_snoc newest_append newest_keyed [OF kb] newest_keyed [OF keyed_dput [OF kb]] split: option.splits)
    qed
    then show ?thesis using u Submit
      by (simp add: journal_step_simps up_to_date_def submit_keyed_def keyed_dput in_flight_def)
  next
    case (Take i)
    have fl: "cx_in_flight c = []" by (rule t [OF Take])
    have "lossless c" using l Take by (simp add: journal_step_simps lossless_def split: if_splits)
    then have u: "up_to_date key_of (submitted ops) c" by (rule ih)
    then show ?thesis using fl Take
      by (cases "cw_buffer (cx_store c) = []") (simp_all add: journal_step_simps up_to_date_def in_flight_def)
  next
    case (Finish i out tm)
    show ?thesis
    proof (cases "dget (cx_in_flight c) i")
      case None
      then show ?thesis using l ih Finish by (simp add: journal_step_simps)
    next
      case (Some rows)
      have "lossless c"
        using l unfolding Finish unfolding journal_step_simps(4) [OF Some]
        by (cases out) (auto simp: finish_flush_def lossless_def retain_simps)
      then show ?thesis using up_to_date_finish [OF ih Some] l Finish by simp
    qed
  qed
  then show ?case by (simp add: c_def)
qed


definition locked_then_written :: "(string \<times> nat) capture_op list" where
  "locked_then_written = [Submit (''T'', 1), Take 0, Submit (''T'', 2), Finish 0 Locked 5, Take 1, Finish 1 Committed 6]"


definition overlapping_flushes :: "(string \<times> nat) capture_op list" where
  "overlapping_flushes = [Submit (''T'', 1), Take 0, Submit (''T'', 2), Take 1, Finish 1 Committed 5, Finish 0 Committed 6]"

text \<open>
  With two flushes under way the older row can be written last: nothing is lost or left over, yet
  the table ends with the row submitted first.
\<close>
theorem overlapping_flush_keeps_older_row:
  "lossless (fold (journal_step fst) overlapping_flushes (init_capture 0 []))
   \<and> in_flight (fold (journal_step fst) overlapping_flushes (init_capture 0 [])) = []
   \<and> cw_buffer (cx_store (fold (journal_step fst) overlapping_flushes (init_capture 0 []))) = []
   \<and> newest fst ''T'' (submitted overlapping_flushes) = Some (''T'', 2)
   \<and> newest fst ''T'' (cx_table (fold (journal_step fst) overlapping_flushes (init_capture 0 []))) = Some (''T'', 1)"
  by code_simp

end
