(* ===== verification/CandidateLog.thy ===== *)
theory CandidateLog
  imports CaptureWriter Ranking PyRepr "HOL-Library.List_Lexorder" "HOL-Library.Char_ord" "HOL-Library.Product_Lexorder"
begin

text \<open>
  \<open>services/candidate_log.py\<close>: rejected candidates, once per ticker, strategy and gate in one table and
  once per rejection (sampled for one gate) in another, both written through the capture writer,
  settled by ticker, summarised per gate and per price band, pruned and cleared. Every reader flushes
  first; how the database answers that flush is an argument. \<open>SUM\<close> over a float column is the
  parameter \<open>sql_sum\<close>, since its summation order belongs to the SQLite version.
\<close>

definition MIN_CONTRACTS_SAMPLE_RATE :: f64 where "MIN_CONTRACTS_SAMPLE_RATE = fl (1/100)"
definition PRUNE_BATCH :: nat where "PRUNE_BATCH = 50000"

record cand_row =
  cn_ticker :: string
  cn_strategy :: string
  cn_gate_name :: string
  cn_observed_value :: "f64 option"
  cn_threshold_value :: "f64 option"
  cn_side :: "string option"
  cn_rejected_at :: f64
  cn_unit_cost :: "f64 option"
  cn_settled :: "(string \<times> f64) option"

text \<open>\<open>cn_settled\<close> is the pair of \<open>result\<close> and \<open>resolved_at\<close> of a row with \<open>resolved = 1\<close>.\<close>

record rejection_event_row = cand_row +
  ev_id :: nat
  ev_sample_weight :: f64

type_synonym cand_key = "string \<times> string \<times> string"

definition cand_key :: "'a cand_row_scheme \<Rightarrow> cand_key" where
  "cand_key r = (cn_ticker r, cn_strategy r, cn_gate_name r)"

record candidate_log =
  cl_candidates :: "cand_row list"
  cl_events :: "rejection_event_row list"
  cl_event_seq :: nat
  cl_cand_store :: "(cand_key \<times> cand_row) list capture_store"
  cl_event_store :: "rejection_event_row list capture_store"

subsection \<open>Writing\<close>

text \<open>The upsert statement of the capture writer: a settled row is left alone.\<close>

definition upsert_candidate :: "cand_row \<Rightarrow> cand_row list \<Rightarrow> cand_row list" where
  "upsert_candidate r rows =
     (if list_ex (\<lambda>s. cand_key s = cand_key r) rows
      then map (\<lambda>s. if cand_key s = cand_key r \<and> cn_settled s = None
                    then s\<lparr> cn_observed_value := cn_observed_value r, cn_threshold_value := cn_threshold_value r,
                            cn_side := cn_side r, cn_rejected_at := cn_rejected_at r, cn_unit_cost := cn_unit_cost r \<rparr>
                    else s) rows
      else rows @ [r\<lparr> cn_settled := None \<rparr>])"

definition insert_event :: "rejection_event_row \<Rightarrow> rejection_event_row list \<times> nat \<Rightarrow> rejection_event_row list \<times> nat" where
  "insert_event r t = (case t of (rows, seq) \<Rightarrow> (rows @ [r\<lparr> ev_id := seq + 1 \<rparr>], seq + 1))"

definition flush_candidates :: "flush_outcome \<Rightarrow> f64 \<Rightarrow> candidate_log \<Rightarrow> candidate_log" where
  "flush_candidates out now c =
     (case flush_store (map snd) (merge_keyed cand_key) (fold upsert_candidate) out now (cl_cand_store c, cl_candidates c) of
        (s, t) \<Rightarrow> c\<lparr> cl_cand_store := s, cl_candidates := t \<rparr>)"

definition flush_events :: "flush_outcome \<Rightarrow> f64 \<Rightarrow> candidate_log \<Rightarrow> candidate_log" where
  "flush_events out now c =
     (case flush_store (\<lambda>b. b) merge_append (fold insert_event) out now (cl_event_store c, (cl_events c, cl_event_seq c)) of
        (s, t) \<Rightarrow> c\<lparr> cl_event_store := s, cl_events := fst t, cl_event_seq := snd t \<rparr>)"

text \<open>\<open>draw\<close> is what \<open>random.random()\<close> gives; it is only drawn for the sampled gate.\<close>

definition record_rejection :: "f64 \<Rightarrow> cand_row \<Rightarrow> candidate_log \<Rightarrow> candidate_log" where
  "record_rejection draw r c =
     (let r0 = r\<lparr> cn_settled := None \<rparr>;
          c1 = c\<lparr> cl_cand_store := submit_keyed cand_key r0 (cl_cand_store c) \<rparr>;
          event = (\<lambda>w. c1\<lparr> cl_event_store := submit_append (cand_row.extend r0 (rejection_event_row.fields 0 w)) (cl_event_store c1) \<rparr>)
      in if cn_gate_name r = ''min_contracts''
         then if draw \<ge> MIN_CONTRACTS_SAMPLE_RATE then c1 else event (fdiv 1 MIN_CONTRACTS_SAMPLE_RATE)
         else event 1)"

subsection \<open>Settling\<close>

definition settle_results :: "(string, string option) pdict \<Rightarrow> (string \<times> string) list" where
  "settle_results results =
     filter (\<lambda>(t, r). r = ''yes'' \<or> r = ''no'')
       (map (\<lambda>(t, r). (t, str_lower (str_strip (case r of None \<Rightarrow> [] | Some s \<Rightarrow> s)))) results)"

definition pending_of :: "string \<Rightarrow> 'a cand_row_scheme \<Rightarrow> bool" where
  "pending_of t r \<longleftrightarrow> cn_ticker r = t \<and> cn_settled r = None"

definition settle_ticker :: "f64 \<Rightarrow> string \<times> string \<Rightarrow> 'a cand_row_scheme list \<Rightarrow> 'a cand_row_scheme list" where
  "settle_ticker now tr rows =
     map (\<lambda>r. if pending_of (fst tr) r then r\<lparr> cn_settled := Some (snd tr, now) \<rparr> else r) rows"

fun settle_count :: "f64 \<Rightarrow> (string \<times> string) list \<Rightarrow> cand_row list \<Rightarrow> nat \<times> cand_row list" where
  "settle_count now [] rows = (0, rows)"
| "settle_count now (tr # trs) rows =
     (case settle_count now trs (settle_ticker now tr rows) of (n, t) \<Rightarrow> (length (filter (pending_of (fst tr)) rows) + n, t))"

definition resolve_rejections ::
  "flush_outcome \<Rightarrow> flush_outcome \<Rightarrow> (string, string option) pdict \<Rightarrow> f64 \<Rightarrow> candidate_log \<Rightarrow> nat \<times> candidate_log" where
  "resolve_rejections out1 out2 results now c =
     (let c1 = flush_events out2 now (flush_candidates out1 now c); trs = settle_results results;
          (n, t) = settle_count now trs (cl_candidates c1)
      in (n, c1\<lparr> cl_candidates := t, cl_events := fold (settle_ticker now) trs (cl_events c1) \<rparr>))"

subsection \<open>Summaries\<close>

definition has_side :: "'a cand_row_scheme \<Rightarrow> bool" where
  "has_side r \<longleftrightarrow> cn_side r = Some ''yes'' \<or> cn_side r = Some ''no''"

definition won :: "'a cand_row_scheme \<Rightarrow> bool" where
  "won r \<longleftrightarrow> (case (cn_settled r, cn_side r) of (Some (result, ts), Some s) \<Rightarrow> result = s | _ \<Rightarrow> False)"

definition settled_as :: "string \<Rightarrow> 'a cand_row_scheme \<Rightarrow> bool" where
  "settled_as x r \<longleftrightarrow> (case cn_settled r of Some (result, ts) \<Rightarrow> result = x | None \<Rightarrow> False)"

definition how_many :: "('r \<Rightarrow> bool) \<Rightarrow> 'r list \<Rightarrow> nat" where
  "how_many P rows = length (filter P rows)"

definition unit_costs :: "'a cand_row_scheme list \<Rightarrow> f64 list" where
  "unit_costs rows = concat (map (\<lambda>r. case cn_unit_cost r of None \<Rightarrow> [] | Some u \<Rightarrow> [u]) rows)"

definition gate_of :: "'a cand_row_scheme \<Rightarrow> string \<times> string" where
  "gate_of r = (cn_strategy r, cn_gate_name r)"

definition hypothetical_win_rate :: "nat \<Rightarrow> nat \<Rightarrow> f64" where
  "hypothetical_win_rate wins sided = py_round 1 (fl (of_nat (100 * wins) / of_nat sided))"

definition avg_unit_cost :: "(f64 list \<Rightarrow> f64) \<Rightarrow> 'a cand_row_scheme list \<Rightarrow> f64 option" where
  "avg_unit_cost sql_sum rows =
     (let us = unit_costs rows in
      if us = [] then None else Some (py_round 3 (fdiv (sql_sum us) (of_nat (length us)))))"

record gate_stats =
  gt_gate :: "string \<times> string"
  gt_rejected_count :: int
  gt_resolved_count :: int
  gt_yes_count :: nat
  gt_no_count :: nat
  gt_ready :: bool
  gt_win_rate :: "f64 option"
  gt_win_rate_n :: nat
  gt_avg_unit_cost :: "f64 option"
  gt_avg_unit_cost_n :: nat

definition summarize_gate_rows :: "(f64 list \<Rightarrow> f64) \<Rightarrow> cand_row list \<Rightarrow> gate_stats list" where
  "summarize_gate_rows sql_sum rows =
     sort_key (\<lambda>g. (- gt_resolved_count g, gt_gate g))
       (map (\<lambda>k. let g = filter (\<lambda>r. gate_of r = k) rows;
                     sided = how_many (\<lambda>r. cn_settled r \<noteq> None \<and> has_side r) g;
                     wins = how_many (\<lambda>r. cn_settled r \<noteq> None \<and> has_side r \<and> won r) g
                 in \<lparr>gt_gate = k, gt_rejected_count = int (length g), gt_resolved_count = int (how_many (\<lambda>r. cn_settled r \<noteq> None) g),
                     gt_yes_count = how_many (settled_as ''yes'') g, gt_no_count = how_many (settled_as ''no'') g,
                     gt_ready = True, gt_win_rate = (if sided > 0 then Some (hypothetical_win_rate wins sided) else None),
                     gt_win_rate_n = sided, gt_avg_unit_cost = avg_unit_cost sql_sum g,
                     gt_avg_unit_cost_n = length (unit_costs g)\<rparr>)
         (remdups (map gate_of rows)))"

definition summarize_population_rows :: "(f64 list \<Rightarrow> f64) \<Rightarrow> nat \<Rightarrow> rejection_event_row list \<Rightarrow> gate_stats list" where
  "summarize_population_rows sql_sum min_samples rows =
     sort_key (\<lambda>g. (- gt_rejected_count g, gt_gate g))
       (map (\<lambda>k. let g = filter (\<lambda>r. gate_of r = k) rows;
                     sided = how_many (\<lambda>r. cn_settled r \<noteq> None \<and> has_side r) g;
                     wins = how_many (\<lambda>r. cn_settled r \<noteq> None \<and> has_side r \<and> won r) g;
                     ready = (sided \<noteq> 0 \<and> sided \<ge> min_samples)
                 in \<lparr>gt_gate = k, gt_rejected_count = rhe (sql_sum (map ev_sample_weight g)),
                     gt_resolved_count = rhe (sql_sum (map (\<lambda>r. if cn_settled r \<noteq> None then ev_sample_weight r else 0) g)),
                     gt_yes_count = 0, gt_no_count = 0,
                     gt_ready = ready, gt_win_rate = (if ready then Some (hypothetical_win_rate wins sided) else None),
                     gt_win_rate_n = sided, gt_avg_unit_cost = avg_unit_cost sql_sum g,
                     gt_avg_unit_cost_n = length (unit_costs g)\<rparr>)
         (remdups (map gate_of rows)))"

definition gate_summary :: "(f64 list \<Rightarrow> f64) \<Rightarrow> flush_outcome \<Rightarrow> f64 \<Rightarrow> candidate_log \<Rightarrow> gate_stats list \<times> candidate_log" where
  "gate_summary sql_sum out now c =
     (let c1 = flush_candidates out now c in (summarize_gate_rows sql_sum (cl_candidates c1), c1))"

definition population_gate_summary ::
  "(f64 list \<Rightarrow> f64) \<Rightarrow> nat \<Rightarrow> flush_outcome \<Rightarrow> f64 \<Rightarrow> candidate_log \<Rightarrow> gate_stats list \<times> candidate_log" where
  "population_gate_summary sql_sum min_samples out now c =
     (let c1 = flush_events out now c in (summarize_population_rows sql_sum min_samples (cl_events c1), c1))"


subsection \<open>Price bands\<close>

definition DEFAULT_BANDS :: "(f64 \<times> f64) list" where
  "DEFAULT_BANDS = [(0, fl (2/10)), (fl (2/10), fl (4/10)), (fl (4/10), fl (6/10)), (fl (6/10), fl (8/10)),
     (fl (8/10), fl (95/100)), (fl (95/100), fl (101/100))]"

fun bands_ok :: "f64 option \<Rightarrow> (f64 \<times> f64) list \<Rightarrow> bool" where
  "bands_ok prev_high [] \<longleftrightarrow> True"
| "bands_ok prev_high ((low, high) # bands) \<longleftrightarrow>
     low < high \<and> (case prev_high of None \<Rightarrow> True | Some p \<Rightarrow> \<not> low < p) \<and> bands_ok (Some high) bands"

definition band_label :: "f64 \<times> f64 \<Rightarrow> string" where
  "band_label b = fmt_fixed 2 (fst b) @ ''-'' @ fmt_fixed 2 (snd b)"

definition band_of :: "(f64 \<times> f64) list \<Rightarrow> f64 \<Rightarrow> (f64 \<times> f64) option" where
  "band_of bands u = find (\<lambda>(low, high). u \<ge> low \<and> u < high) bands"

definition band_case :: "(f64 \<times> f64) list \<Rightarrow> f64 \<Rightarrow> string" where
  "band_case bands u = (case band_of bands u of None \<Rightarrow> ''out_of_range'' | Some b \<Rightarrow> band_label b)"

record band_stats =
  bn_gate :: "string \<times> string"
  bn_band :: string
  bn_bounds :: "(f64 \<times> f64) option"
  bn_n :: nat
  bn_mean_unit_cost :: f64
  bn_ready :: bool
  bn_win_rate :: "f64 option"
  bn_ev_per_contract :: "f64 option"

definition priced_outcome :: "rejection_event_row \<Rightarrow> bool" where
  "priced_outcome r \<longleftrightarrow> cn_unit_cost r \<noteq> None \<and> cn_settled r \<noteq> None \<and> has_side r"

definition band_key :: "(f64 \<times> f64) list \<Rightarrow> rejection_event_row \<Rightarrow> (string \<times> string) \<times> string" where
  "band_key bands r = (gate_of r, band_case bands (case cn_unit_cost r of None \<Rightarrow> 0 | Some u \<Rightarrow> u))"

definition summarize_population_rows_banded ::
  "(f64 list \<Rightarrow> f64) \<Rightarrow> (f64 \<times> f64) list \<Rightarrow> nat \<Rightarrow> rejection_event_row list \<Rightarrow> band_stats list" where
  "summarize_population_rows_banded sql_sum bands min_samples rows =
     (let bounds = fold (\<lambda>b d. dput (band_label b) b d) bands []; rs = filter priced_outcome rows in
      sort_key (\<lambda>g. (bn_gate g, bn_bounds g = None, case bn_bounds g of None \<Rightarrow> 0 | Some (low, high) \<Rightarrow> low))
        (map (\<lambda>k. let g = filter (\<lambda>r. band_key bands r = k) rs; n = length g; mean = fdiv (sql_sum (unit_costs g)) (of_nat n);
                      ready = \<not> n < min_samples; rate = fl (of_nat (how_many won g) / of_nat n)
                  in \<lparr>bn_gate = fst k, bn_band = snd k, bn_bounds = dget bounds (snd k), bn_n = n,
                      bn_mean_unit_cost = py_round 3 mean, bn_ready = ready,
                      bn_win_rate = (if ready then Some (py_round 1 (fmul 100 rate)) else None),
                      bn_ev_per_contract = (if ready then Some (py_round 4 (fsub rate mean)) else None)\<rparr>)
          (remdups (map (band_key bands) rs))))"

text \<open>Bands out of order raise, after the flush.\<close>

definition population_gate_summary_banded ::
  "(f64 list \<Rightarrow> f64) \<Rightarrow> (f64 \<times> f64) list \<Rightarrow> nat \<Rightarrow> flush_outcome \<Rightarrow> f64 \<Rightarrow> candidate_log
     \<Rightarrow> band_stats list option \<times> candidate_log" where
  "population_gate_summary_banded sql_sum bands min_samples out now c =
     (let c1 = flush_events out now c in
      (if bands_ok None bands then Some (summarize_population_rows_banded sql_sum bands min_samples (cl_events c1)) else None, c1))"

definition BANDED_CACHE_TTL_SEC :: f64 where "BANDED_CACHE_TTL_SEC = 300"

text \<open>The cached form: a fresh entry answers whatever the bands and the minimum asked for.\<close>

definition banded_cached ::
  "(f64 list \<Rightarrow> f64) \<Rightarrow> (f64 \<times> f64) list \<Rightarrow> nat \<Rightarrow> flush_outcome \<Rightarrow> f64 \<Rightarrow> f64
     \<Rightarrow> (f64 \<times> band_stats list) option \<times> candidate_log \<Rightarrow> band_stats list option \<times> (f64 \<times> band_stats list) option \<times> candidate_log" where
  "banded_cached sql_sum bands min_samples out now done_at st =
     (case st of (cache, c) \<Rightarrow>
      (case cache of
         Some (cached_at, v) \<Rightarrow>
           if fsub now cached_at < BANDED_CACHE_TTL_SEC then (Some v, cache, c)
           else (case population_gate_summary_banded sql_sum bands min_samples out now c of
                   (None, c1) \<Rightarrow> (None, cache, c1)
                 | (Some v', c1) \<Rightarrow> (Some v', Some (done_at, v'), c1))
       | None \<Rightarrow>
           (case population_gate_summary_banded sql_sum bands min_samples out now c of
              (None, c1) \<Rightarrow> (None, cache, c1)
            | (Some v', c1) \<Rightarrow> (Some v', Some (done_at, v'), c1))))"

subsection \<open>Clearing\<close>

definition flush_both :: "flush_outcome \<Rightarrow> flush_outcome \<Rightarrow> f64 \<Rightarrow> candidate_log \<Rightarrow> candidate_log" where
  "flush_both out1 out2 now c = flush_events out2 now (flush_candidates out1 now c)"

definition clear_rejections :: "flush_outcome \<Rightarrow> flush_outcome \<Rightarrow> f64 \<Rightarrow> candidate_log \<Rightarrow> candidate_log" where
  "clear_rejections out1 out2 now c = (flush_both out1 out2 now c)\<lparr> cl_candidates := [], cl_events := [] \<rparr>"

definition rejected_in_range :: "f64 option \<Rightarrow> f64 option \<Rightarrow> 'a cand_row_scheme \<Rightarrow> bool" where
  "rejected_in_range before after r \<longleftrightarrow>
     (case after of None \<Rightarrow> True | Some a \<Rightarrow> cn_rejected_at r > a) \<and> (case before of None \<Rightarrow> True | Some b \<Rightarrow> cn_rejected_at r \<le> b)"

definition count_rejections :: "flush_outcome \<Rightarrow> flush_outcome \<Rightarrow> f64 \<Rightarrow> f64 option \<Rightarrow> f64 option \<Rightarrow> candidate_log \<Rightarrow> nat \<times> candidate_log" where
  "count_rejections out1 out2 now before after c =
     (let c1 = flush_both out1 out2 now c in
      (how_many (rejected_in_range before after) (cl_candidates c1) + how_many (rejected_in_range before after) (cl_events c1), c1))"

definition clear_rejections_range :: "flush_outcome \<Rightarrow> flush_outcome \<Rightarrow> f64 \<Rightarrow> f64 option \<Rightarrow> f64 option \<Rightarrow> candidate_log \<Rightarrow> nat \<times> candidate_log" where
  "clear_rejections_range out1 out2 now before after c =
     (let c1 = flush_both out1 out2 now c; keep = (\<lambda>r. \<not> rejected_in_range before after r); keep' = (\<lambda>r. \<not> rejected_in_range before after r) in
      (length (cl_candidates c1) - how_many keep (cl_candidates c1) + (length (cl_events c1) - how_many keep' (cl_events c1)),
       c1\<lparr> cl_candidates := filter keep (cl_candidates c1), cl_events := filter keep' (cl_events c1) \<rparr>))"

text \<open>
  \<open>LIMIT\<close> without \<open>ORDER BY\<close> takes some rows, as many as it may: \<open>pick\<close> is the database's choice.
  \<open>None\<close> is a database error.
\<close>

definition prunable :: "string \<Rightarrow> f64 \<Rightarrow> rejection_event_row \<Rightarrow> bool" where
  "prunable gate cutoff r \<longleftrightarrow> cn_gate_name r = gate \<and> cn_rejected_at r < cutoff"

definition prune_gate ::
  "(nat \<Rightarrow> rejection_event_row list \<Rightarrow> rejection_event_row list) \<Rightarrow> bool \<Rightarrow> string \<Rightarrow> f64 \<Rightarrow> nat \<Rightarrow> flush_outcome \<Rightarrow> f64
     \<Rightarrow> candidate_log \<Rightarrow> nat option \<times> candidate_log" where
  "prune_gate pick up gate retention_hours batch_size out now c =
     (let cutoff = fsub now (fmul retention_hours 3600); c1 = flush_events out now c;
          ids = map ev_id (pick batch_size (filter (prunable gate cutoff) (cl_events c1)));
          kept = filter (\<lambda>r. ev_id r \<notin> set ids) (cl_events c1)
      in if up then (Some (length (cl_events c1) - length kept), c1\<lparr> cl_events := kept \<rparr>) else (None, c1))"

definition init_candidate_log :: "f64 \<Rightarrow> candidate_log" where
  "init_candidate_log now = \<lparr>cl_candidates = [], cl_events = [], cl_event_seq = 0, cl_cand_store = init_store [] now,
     cl_event_store = init_store [] now\<rparr>"

end
