(* ===== verification/CandidateFacts.thy ===== *)
theory CandidateFacts
  imports CandidateLog
begin

text \<open>
  What the rejection log promises: the bands partition prices exactly, an outcome once written stays,
  the gates of a summary add up to the table, a purge takes its batch and nothing else, a preview
  counts what a clear deletes; and what a locked flush before a settlement costs.
\<close>

subsection \<open>Bands\<close>

lemma bands_ok_above: "bands_ok (Some p) bands \<Longrightarrow> b \<in> set bands \<Longrightarrow> p \<le> fst b"
proof (induction bands arbitrary: p)
  case (Cons a bands)
  obtain lo hi where a: "a = (lo, hi)" by (cases a)
  have "lo < hi" "p \<le> lo" "bands_ok (Some hi) bands" using Cons.prems(1) by (auto simp: a)
  then show ?case using Cons.IH [of hi] Cons.prems(2) by (force simp: a)
qed simp

text \<open>
  When the bands pass the check, the band of a price is the band that contains it, and only one
  does; a price outside every band is reported as out of range.
\<close>
theorem bands_are_exact:
  assumes "bands_ok None bands"
  shows "band_of bands u = Some b \<longleftrightarrow> b \<in> set bands \<and> fst b \<le> u \<and> u < snd b"
proof -
  have main: "bands_ok p bs \<Longrightarrow> band_of bs u = Some b \<longleftrightarrow> b \<in> set bs \<and> fst b \<le> u \<and> u < snd b" for p bs
  proof (induction bs arbitrary: p)
    case (Cons a bs)
    obtain lo hi where a: "a = (lo, hi)" by (cases a)
    have ok: "bands_ok (Some hi) bs" using Cons.prems by (simp add: a)
    have "\<not> (b \<in> set bs \<and> fst b \<le> u)" if "u < hi" using bands_ok_above [OF ok, of b] that by force
    then show ?case using Cons.IH [OF ok] by (auto simp: a band_of_def)
  qed (simp add: band_of_def)
  show ?thesis by (rule main [OF assms])
qed

theorem bands_are_exact_witness:
  "band_of DEFAULT_BANDS (1/2) = Some (fl (4/10), fl (6/10))"
proof -
  have ok: "bands_ok None DEFAULT_BANDS" by code_simp
  have "(fl (4/10), fl (6/10)) \<in> set DEFAULT_BANDS" by (simp add: DEFAULT_BANDS_def)
  moreover have "fst (fl (4/10), fl (6/10)) \<le> 1/2 \<and> 1/2 < snd (fl (4/10), fl (6/10))" by code_simp
  ultimately show ?thesis using bands_are_exact [OF ok, of "1/2" "(fl (4/10), fl (6/10))"] by blast
qed

subsection \<open>Outcomes\<close>

lemma upsert_keeps_settled: "r \<in> set rows \<Longrightarrow> cn_settled r \<noteq> None \<Longrightarrow> r \<in> set (upsert_candidate x rows)"
  by (force simp: upsert_candidate_def)

lemma upserts_keep_settled: "r \<in> set rows \<Longrightarrow> cn_settled r \<noteq> None \<Longrightarrow> r \<in> set (fold upsert_candidate xs rows)"
  by (induction xs arbitrary: rows) (simp_all add: upsert_keeps_settled)

lemma inserts_keep: "set (fst t) \<subseteq> set (fst (fold insert_event xs t))"
proof (induction xs arbitrary: t)
  case (Cons x xs)
  have "set (fst t) \<subseteq> set (fst (insert_event x t))" by (cases t) (auto simp: insert_event_def)
  then show ?case using Cons.IH [of "insert_event x t"] by auto
qed simp

lemma settle_keeps_settled: "r \<in> set rows \<Longrightarrow> cn_settled r \<noteq> None \<Longrightarrow> r \<in> set (settle_ticker now tr rows)"
  by (force simp: settle_ticker_def pending_of_def)

lemma settle_count_rows: "snd (settle_count now trs rows) = fold (settle_ticker now) trs rows"
proof (induction trs arbitrary: rows)
  case (Cons tr trs)
  show ?case using Cons.IH [of "settle_ticker now tr rows"] by (cases "settle_count now trs (settle_ticker now tr rows)") simp
qed simp

lemma settles_keep_settled: "r \<in> set rows \<Longrightarrow> cn_settled r \<noteq> None \<Longrightarrow> r \<in> set (fold (settle_ticker now) trs rows)"
  by (induction trs arbitrary: rows) (simp_all add: settle_keeps_settled)

definition unsettled :: "'a cand_row_scheme list \<Rightarrow> nat" where "unsettled rows = how_many (\<lambda>r. cn_settled r = None) rows"

lemma settle_ticker_count: "unsettled (settle_ticker now tr rows) + length (filter (pending_of (fst tr)) rows) = unsettled rows"
  by (induction rows) (auto simp: unsettled_def how_many_def settle_ticker_def pending_of_def)

lemma settle_count_counts: "fst (settle_count now trs rows) + unsettled (snd (settle_count now trs rows)) = unsettled rows"
proof (induction trs arbitrary: rows)
  case (Cons tr trs)
  show ?case using Cons.IH [of "settle_ticker now tr rows"] settle_ticker_count [of now tr rows] by (auto split: prod.split)
qed simp

datatype rejection_op =
    Record f64 cand_row
  | FlushCandidates flush_outcome f64
  | FlushEvents flush_outcome f64
  | Resolve flush_outcome flush_outcome "(string, string option) pdict" f64

definition rejection_step :: "rejection_op \<Rightarrow> candidate_log \<Rightarrow> candidate_log" where
  "rejection_step op c = (case op of
       Record draw r \<Rightarrow> record_rejection draw r c
     | FlushCandidates out now \<Rightarrow> flush_candidates out now c
     | FlushEvents out now \<Rightarrow> flush_events out now c
     | Resolve out1 out2 results now \<Rightarrow> snd (resolve_rejections out1 out2 results now c))"

lemma flush_store_table:
  "snd (flush_store values merge write out now (s, t)) = (if values (cw_buffer s) = [] \<or> out \<noteq> Committed then t else write (values (cw_buffer s)) t)"
  by (cases out) (auto simp: flush_store_def take_buffer_def finish_flush_def)

lemma flush_candidates_table:
  "cl_candidates (flush_candidates out now c)
     = (if out = Committed then fold upsert_candidate (map snd (cw_buffer (cl_cand_store c))) (cl_candidates c) else cl_candidates c)"
  "cl_events (flush_candidates out now c) = cl_events c" "cl_event_seq (flush_candidates out now c) = cl_event_seq c"
  using flush_store_table [of "map snd" "merge_keyed cand_key" "fold upsert_candidate" out now "cl_cand_store c" "cl_candidates c"]
  by (auto simp: flush_candidates_def split: prod.splits if_splits)

lemma flush_events_table:
  "cl_events (flush_events out now c)
     = (if out = Committed then fst (fold insert_event (cw_buffer (cl_event_store c)) (cl_events c, cl_event_seq c)) else cl_events c)"
  "cl_candidates (flush_events out now c) = cl_candidates c"
  "cl_cand_store (flush_events out now c) = cl_cand_store c"
  using arg_cong [OF flush_store_table [of "\<lambda>b. b" merge_append "fold insert_event" out now "cl_event_store c" "(cl_events c, cl_event_seq c)"], of fst]
  by (cases "flush_store (\<lambda>b. b) merge_append (fold insert_event) out now (cl_event_store c, cl_events c, cl_event_seq c)",
      auto simp: flush_events_def split: if_splits)+

lemma resolve_table:
  "cl_candidates (snd (resolve_rejections out1 out2 results now c))
     = fold (settle_ticker now) (settle_results results) (cl_candidates (flush_candidates out1 now c))"
  "cl_events (snd (resolve_rejections out1 out2 results now c))
     = fold (settle_ticker now) (settle_results results) (cl_events (flush_events out2 now (flush_candidates out1 now c)))"
  by (simp_all add: resolve_rejections_def Let_def settle_count_rows flush_events_table(2) split_def)

lemma record_table: "cl_candidates (record_rejection draw r c) = cl_candidates c" "cl_events (record_rejection draw r c) = cl_events c"
  by (simp_all add: record_rejection_def Let_def)

lemma rejection_step_final:
  "r \<in> set (cl_candidates c) \<Longrightarrow> cn_settled r \<noteq> None \<Longrightarrow> r \<in> set (cl_candidates (rejection_step op c))"
  "x \<in> set (cl_events c) \<Longrightarrow> cn_settled x \<noteq> None \<Longrightarrow> x \<in> set (cl_events (rejection_step op c))"
proof -
  show "r \<in> set (cl_candidates c) \<Longrightarrow> cn_settled r \<noteq> None \<Longrightarrow> r \<in> set (cl_candidates (rejection_step op c))"
    by (cases op) (auto simp: rejection_step_def record_table flush_candidates_table flush_events_table resolve_table
        intro: upserts_keep_settled settles_keep_settled)
  have ins: "x \<in> set (cl_events c) \<Longrightarrow> x \<in> set (fst (fold insert_event xs (cl_events c, n)))" for xs n
    using inserts_keep [of "(cl_events c, n)" xs] by auto
  show "x \<in> set (cl_events c) \<Longrightarrow> cn_settled x \<noteq> None \<Longrightarrow> x \<in> set (cl_events (rejection_step op c))"
    by (cases op) (auto simp: rejection_step_def record_table flush_candidates_table flush_events_table resolve_table
        intro!: settles_keep_settled ins)
qed


text \<open>The count a settlement returns is the number of rows it settled.\<close>

lemma resolve_count:
  "fst (resolve_rejections out1 out2 results now c) + unsettled (cl_candidates (snd (resolve_rejections out1 out2 results now c)))
   = unsettled (cl_candidates (flush_candidates out1 now c))"
  using settle_count_counts [of now "settle_results results" "cl_candidates (flush_candidates out1 now c)"]
  by (simp add: resolve_rejections_def Let_def flush_events_table(2) split_def)

subsection \<open>Ranges\<close>

lemma how_many_not: "length rows - how_many (\<lambda>r. \<not> P r) rows = how_many P rows"
  using sum_length_filter_compl [of P rows] by (simp add: how_many_def)

lemma range_split:
  "how_many (rejected_in_range (Some x) None) rows + how_many (rejected_in_range None (Some x)) rows = length rows"
  "how_many (rejected_in_range None None) rows = length rows"
  by (induction rows) (auto simp: how_many_def rejected_in_range_def)

text \<open>
  A preview counts exactly what clearing the same range deletes, and a boundary splits the tables
  in two ranges that share no row and miss none.
\<close>
theorem range_preview_is_exact:
  "fst (count_rejections out1 out2 now before after c) = fst (clear_rejections_range out1 out2 now before after c)
   \<and> fst (count_rejections out1 out2 now (Some x) None c) + fst (count_rejections out1 out2 now None (Some x) c)
     = fst (count_rejections out1 out2 now None None c)"
  using range_split(1) [of x "cl_candidates (flush_both out1 out2 now c)"] range_split(1) [of x "cl_events (flush_both out1 out2 now c)"]
    range_split(2) [of "cl_candidates (flush_both out1 out2 now c)"] range_split(2) [of "cl_events (flush_both out1 out2 now c)"]
  by (simp add: count_rejections_def clear_rejections_range_def Let_def how_many_not)


subsection \<open>Purging\<close>

text \<open>What \<open>LIMIT\<close> promises: rows of the selection, none twice, as many as the limit allows.\<close>

definition picks_ok :: "(nat \<Rightarrow> rejection_event_row list \<Rightarrow> rejection_event_row list) \<Rightarrow> bool" where
  "picks_ok pick \<longleftrightarrow> (\<forall>n rows. distinct rows \<longrightarrow> set (pick n rows) \<subseteq> set rows \<and> distinct (pick n rows) \<and> length (pick n rows) = min n (length rows))"

lemma filter_out_count:
  assumes "distinct (map ev_id rows)" "set ps \<subseteq> set rows" "distinct ps"
  shows "length (filter (\<lambda>r. ev_id r \<notin> set (map ev_id ps)) rows) + length ps = length rows"
    "\<And>r. r \<in> set rows \<Longrightarrow> ev_id r \<in> set (map ev_id ps) \<longleftrightarrow> r \<in> set ps"
proof -
  have inj: "inj_on ev_id (set rows)" using assms(1) by (simp add: distinct_map)
  show mem: "ev_id r \<in> set (map ev_id ps) \<longleftrightarrow> r \<in> set ps" if "r \<in> set rows" for r
    using inj that assms(2) by (auto simp: inj_on_def)
  have d: "distinct rows" using assms(1) by (simp add: distinct_map)
  have "set (filter (\<lambda>r. r \<in> set ps) rows) = set ps" using assms(2) by auto
  then have "length (filter (\<lambda>r. r \<in> set ps) rows) = length ps"
    using distinct_card [OF distinct_filter [OF d, of "\<lambda>r. r \<in> set ps"]] distinct_card [OF assms(3)] by simp
  moreover have "filter (\<lambda>r. ev_id r \<notin> set (map ev_id ps)) rows = filter (\<lambda>r. r \<notin> set ps) rows"
    using mem by (intro filter_cong) auto
  ultimately show "length (filter (\<lambda>r. ev_id r \<notin> set (map ev_id ps)) rows) + length ps = length rows"
    using sum_length_filter_compl [of "\<lambda>r. r \<in> set ps" rows] by simp
qed

text \<open>
  A purge deletes, of the rows of its gate older than the cutoff, its batch or all that are left,
  whichever is less, and keeps every other row: repeated, it ends, and only with none of them left.
\<close>
theorem purge_takes_its_batch:
  assumes "picks_ok pick" "distinct (map ev_id (cl_events (flush_events out now c)))"
  shows "\<exists>n c'. prune_gate pick True gate hours batch out now c = (Some n, c')
    \<and> n = min batch (how_many (prunable gate (fsub now (fmul hours 3600))) (cl_events (flush_events out now c)))
    \<and> how_many (prunable gate (fsub now (fmul hours 3600))) (cl_events c') + n
        = how_many (prunable gate (fsub now (fmul hours 3600))) (cl_events (flush_events out now c))
    \<and> filter (\<lambda>r. \<not> prunable gate (fsub now (fmul hours 3600)) r) (cl_events c')
        = filter (\<lambda>r. \<not> prunable gate (fsub now (fmul hours 3600)) r) (cl_events (flush_events out now c))"
proof -
  define cutoff where "cutoff = fsub now (fmul hours 3600)"
  define rows where "rows = cl_events (flush_events out now c)"
  define old where "old = filter (prunable gate cutoff) rows"
  define ps where "ps = pick batch old"
  define kept where "kept = filter (\<lambda>r. ev_id r \<notin> set (map ev_id ps)) rows"
  have d: "distinct (map ev_id rows)" using assms(2) by (simp add: rows_def)
  have do: "distinct old" using d by (simp add: old_def distinct_map)
  have ps: "set ps \<subseteq> set old" "distinct ps" "length ps = min batch (length old)"
    using assms(1) do unfolding picks_ok_def ps_def by blast+
  have sub: "set ps \<subseteq> set rows" using ps(1) by (auto simp: old_def)
  note count = filter_out_count [OF d sub ps(2)]
  have p: "prune_gate pick True gate hours batch out now c = (Some (length rows - length kept), (flush_events out now c)\<lparr> cl_events := kept \<rparr>)"
    by (simp add: prune_gate_def Let_def rows_def kept_def ps_def old_def cutoff_def)
  have n: "length rows - length kept = min batch (how_many (prunable gate cutoff) rows)"
    using count(1) ps(3) by (simp add: kept_def old_def how_many_def)
  have others: "filter (\<lambda>r. \<not> prunable gate cutoff r) kept = filter (\<lambda>r. \<not> prunable gate cutoff r) rows"
    unfolding kept_def filter_filter using count(2) ps(1) by (intro filter_cong) (auto simp: old_def)
  have k: "length kept + length ps = length rows" using count(1) by (simp add: kept_def)
  have "length (filter (prunable gate cutoff) kept) + length ps = length (filter (prunable gate cutoff) rows)"
    using k others sum_length_filter_compl [of "prunable gate cutoff" kept] sum_length_filter_compl [of "prunable gate cutoff" rows]
    by simp
  then have left: "how_many (prunable gate cutoff) kept + min batch (how_many (prunable gate cutoff) rows) = how_many (prunable gate cutoff) rows"
    using ps(3) by (simp add: how_many_def old_def)
  show ?thesis
    unfolding cutoff_def [symmetric] rows_def [symmetric] using p n left others by simp
qed

subsection \<open>Gate summary\<close>

lemma mset_map_sort: "mset (map f (sort_key k xs)) = mset (map f xs)" by (simp only: mset_map mset_sort)

lemma sum_sort_key: "sum_list (map f (sort_key k xs)) = (sum_list (map f xs) :: int)"
  by (metis mset_map mset_sort sum_mset_sum_list)

lemma partition_how_many:
  fixes f :: "'a \<Rightarrow> 'b"
  shows "(\<Sum>k\<leftarrow>remdups (map f rows). int (how_many P (filter (\<lambda>r. f r = k) rows))) = int (how_many P rows)"
proof -
  have "(\<Sum>k\<leftarrow>remdups (map f rows). \<Sum>x\<leftarrow>filter (\<lambda>x. f x = k) rows. if P x then 1 else (0::nat)) = (\<Sum>x\<leftarrow>rows. if P x then 1 else 0)"
    by (rule partition_sum) auto
  moreover have "(\<Sum>x\<leftarrow>xs. if P x then 1 else (0::nat)) = how_many P xs" for xs by (induction xs) (auto simp: how_many_def)
  ultimately have "(\<Sum>k\<leftarrow>remdups (map f rows). how_many P (filter (\<lambda>r. f r = k) rows)) = how_many P rows" by simp
  moreover have "int (\<Sum>k\<leftarrow>ks. g k) = (\<Sum>k\<leftarrow>ks. int (g k))" for ks :: "'b list" and g by (induction ks) auto
  ultimately show ?thesis by metis
qed

text \<open>
  The gates of a summary are distinct, most settled first, and their counts of rejections and of
  settled rejections add up to the table's.
\<close>
theorem gate_summary_adds_up:
  "distinct (map gt_gate (summarize_gate_rows sql_sum rows))
   \<and> sum_list (map gt_rejected_count (summarize_gate_rows sql_sum rows)) = int (length rows)
   \<and> sum_list (map gt_resolved_count (summarize_gate_rows sql_sum rows)) + int (unsettled rows) = int (length rows)
   \<and> sorted_wrt (\<lambda>g h. gt_resolved_count g \<ge> gt_resolved_count h) (summarize_gate_rows sql_sum rows)"
proof -
  let ?s = "summarize_gate_rows sql_sum rows"
  have "mset (map gt_gate ?s) = mset (remdups (map gate_of rows))"
    unfolding summarize_gate_rows_def mset_map_sort Let_def by (simp add: comp_def del: mset_map)
  then have "distinct (map gt_gate ?s)" by (metis distinct_remdups mset_eq_imp_distinct_iff)
  moreover have "sum_list (map gt_rejected_count ?s) = int (length rows)"
    using partition_how_many [where f = gate_of and P = "\<lambda>r. True" and rows = rows]
    by (simp add: summarize_gate_rows_def sum_sort_key comp_def Let_def how_many_def)
  moreover have "sum_list (map gt_resolved_count ?s) = int (how_many (\<lambda>r. cn_settled r \<noteq> None) rows)"
    using partition_how_many [where f = gate_of and P = "\<lambda>r. cn_settled r \<noteq> None" and rows = rows]
    by (simp add: summarize_gate_rows_def sum_sort_key comp_def Let_def)
  moreover have "how_many (\<lambda>r. cn_settled r \<noteq> None) rows + unsettled rows = length rows"
    using sum_length_filter_compl [of "\<lambda>r. cn_settled r = None" rows] by (simp add: how_many_def unsettled_def)
  moreover have "sorted_wrt (\<lambda>g h. gt_resolved_count g \<ge> gt_resolved_count h) ?s"
  proof -
    have "sorted (map (\<lambda>g. (- gt_resolved_count g, gt_gate g)) ?s)" by (simp add: summarize_gate_rows_def)
    then show ?thesis by (auto simp: sorted_map less_eq_prod_def elim: sorted_wrt_mono_rel [rotated])
  qed
  ultimately show ?thesis by auto
qed


subsection \<open>A settlement behind a lock\<close>

lemma map_same_keys: "(\<And>s. cand_key (f s) = cand_key s) \<Longrightarrow> cand_key ` set (map f rows) = cand_key ` set rows"
  by (simp add: image_image)

lemma upsert_keys: "cand_key ` set (upsert_candidate y rows) = insert (cand_key y) (cand_key ` set rows)"
proof (cases "list_ex (\<lambda>s. cand_key s = cand_key y) rows")
  case True
  then have "cand_key y \<in> cand_key ` set rows" unfolding list_ex_iff by (metis image_eqI)
  moreover have "cand_key ` set (upsert_candidate y rows) = cand_key ` set rows"
    unfolding upsert_candidate_def using True by (simp only: if_True, intro map_same_keys) (simp add: cand_key_def)
  ultimately show ?thesis by auto
next
  case False
  then show ?thesis by (simp add: upsert_candidate_def cand_key_def)
qed

lemma upsert_clean:
  assumes "\<forall>s\<in>set rows. cand_key s = k \<longrightarrow> cn_settled s = None"
  shows "\<forall>s\<in>set (upsert_candidate y rows). cand_key s = k \<longrightarrow> cn_settled s = None"
  using assms by (auto simp: upsert_candidate_def cand_key_def)

lemma upserts_clean:
  "\<forall>s\<in>set rows. cand_key s = k \<longrightarrow> cn_settled s = None
    \<Longrightarrow> \<forall>s\<in>set (fold upsert_candidate xs rows). cand_key s = k \<longrightarrow> cn_settled s = None"
proof (induction xs arbitrary: rows)
  case (Cons x xs)
  show ?case using Cons.IH [OF upsert_clean [OF Cons.prems, of x]] by simp
qed simp

lemma upserts_insert:
  assumes "x \<in> set xs" "cand_key x = k" "k \<notin> cand_key ` set rows"
  shows "\<exists>s\<in>set (fold upsert_candidate xs rows). cand_key s = k \<and> cn_settled s = None"
proof -
  have "cand_key ` set (fold upsert_candidate xs rows) = cand_key ` set xs \<union> cand_key ` set rows"
    by (induction xs arbitrary: rows) (auto simp: upsert_keys)
  then have "k \<in> cand_key ` set (fold upsert_candidate xs rows)" using assms(1,2) by auto
  moreover have "\<forall>s\<in>set (fold upsert_candidate xs rows). cand_key s = k \<longrightarrow> cn_settled s = None"
    by (rule upserts_clean) (use assms(3) in auto)
  ultimately show ?thesis by auto
qed

lemma settles_keys: "cand_key ` set (fold (settle_ticker now) trs rows) = cand_key ` set (rows :: 'a cand_row_scheme list)"
proof (induction trs arbitrary: rows)
  case (Cons tr trs)
  have "cand_key ` set (settle_ticker now tr rows) = cand_key ` set rows"
    unfolding settle_ticker_def by (rule map_same_keys) (simp add: cand_key_def)
  then show ?case using Cons.IH [of "settle_ticker now tr rows"] by simp
qed simp

lemma merge_keyed_Nil: "keyed key_of d \<Longrightarrow> dget (merge_keyed key_of (map snd d) []) k = dget d k"
  using merge_keyed_newest [of key_of "[]" "map snd d" k] newest_keyed [of key_of d k]
    newest_keyed [of key_of "merge_keyed key_of (map snd d) []" k] by simp

text \<open>
  When the flush that a settlement starts with meets a lock, a rejection still in the buffer
  survives, but the settlement passes it by: written at the next flush, it is unsettled, with its
  market's result already given.
\<close>
theorem locked_flush_misses_the_settlement:
  assumes "keyed cand_key (cw_buffer (cl_cand_store c))" "length (cw_buffer (cl_cand_store c)) \<le> MAX_RETAINED_ROWS"
    "dget (cw_buffer (cl_cand_store c)) (cand_key r) = Some r" "cand_key r \<notin> cand_key ` set (cl_candidates c)"
  shows "\<exists>s\<in>set (cl_candidates (flush_candidates Committed later (snd (resolve_rejections Locked out results now c)))).
    cand_key s = cand_key r \<and> cn_settled s = None"
proof -
  define b where "b = cw_buffer (cl_cand_store c)"
  define m where "m = merge_keyed cand_key (map snd b) []"
  define c1 where "c1 = snd (resolve_rejections Locked out results now c)"
  have ne: "map snd b \<noteq> []" using assms(3) by (auto simp: b_def)
  have km: "keyed cand_key m" using merge_keyed_newest [of cand_key "[]" "map snd b"] by (simp add: m_def)
  have "dget m k = dget b k" for k using merge_keyed_Nil [of cand_key b k] assms(1) by (simp add: m_def b_def)
  have "length m = length b"
  proof -
    have "set (dkeys m) = set (dkeys b)" using \<open>\<And>k. dget m k = dget b k\<close> by (metis dget_eq_None_iff subsetI subset_antisym)
    then show ?thesis using km assms(1) by (metis b_def keyed_def dict_ok_def distinct_card length_map dkeys_def)
  qed
  then have no: "length m - MAX_RETAINED_ROWS = 0" using assms(2) by (simp add: b_def)
  have buf: "cw_buffer (cl_cand_store (flush_candidates Locked now c)) = m"
    using ne no by (simp add: flush_candidates_def flush_store_def take_buffer_def finish_flush_def retain_simps m_def b_def)
  have c1: "cw_buffer (cl_cand_store c1) = m" "cl_candidates c1 = fold (settle_ticker now) (settle_results results) (cl_candidates c)"
    using buf by (simp add: c1_def resolve_rejections_def Let_def split_def flush_events_table(3))
      (simp add: c1_def resolve_table flush_candidates_table)
  have "dget m (cand_key r) = Some r" using \<open>\<And>k. dget m k = dget b k\<close> assms(3) by (simp add: b_def)
  then have "r \<in> set (map snd m)" by (force dest: dget_in_set)
  moreover have "cand_key r \<notin> cand_key ` set (cl_candidates c1)" using assms(4) by (simp add: c1(2) settles_keys)
  ultimately have "\<exists>s\<in>set (fold upsert_candidate (map snd m) (cl_candidates c1)). cand_key s = cand_key r \<and> cn_settled s = None"
    by (intro upserts_insert) auto
  then show ?thesis by (simp add: c1_def [symmetric] flush_candidates_table(1) c1(1))
qed

definition passed :: "string \<Rightarrow> cand_row" where
  "passed t = \<lparr>cn_ticker = t, cn_strategy = ''whale_follow'', cn_gate_name = ''entry_threshold'', cn_observed_value = Some (1/2),
     cn_threshold_value = Some (3/4), cn_side = Some ''yes'', cn_rejected_at = 100, cn_unit_cost = Some (1/4), cn_settled = None\<rparr>"

definition passed_log :: candidate_log where
  "passed_log = record_rejection 0 (passed ''T'') (init_candidate_log 0)"

theorem locked_flush_misses_the_settlement_witness:
  "\<exists>s\<in>set (cl_candidates (flush_candidates Committed 120 (snd (resolve_rejections Locked Committed [(''T'', Some ''yes'')] 110 passed_log)))).
    cand_key s = cand_key (passed ''T'') \<and> cn_settled s = None"
proof -
  have b: "cw_buffer (cl_cand_store passed_log) = [(cand_key (passed ''T''), passed ''T'')]" by code_simp
  have k: "keyed cand_key (cw_buffer (cl_cand_store passed_log))" by code_simp
  have g: "dget (cw_buffer (cl_cand_store passed_log)) (cand_key (passed ''T'')) = Some (passed ''T'')" by code_simp
  have e: "cl_candidates passed_log = []" by code_simp
  have l: "length (cw_buffer (cl_cand_store passed_log)) \<le> MAX_RETAINED_ROWS" by (simp add: b MAX_RETAINED_ROWS_def)
  have n: "cand_key (passed ''T'') \<notin> cand_key ` set (cl_candidates passed_log)" by (simp add: e)
  show ?thesis by (rule locked_flush_misses_the_settlement [OF k l g n])
qed

definition settled_log :: candidate_log where
  "settled_log = snd (resolve_rejections Committed Committed [(''T'', Some ''yes'')] 110 passed_log)"


theorem purge_takes_its_batch_witness:
  "\<exists>n c'. prune_gate take True ''entry_threshold'' 1 5 Committed 99999 passed_log = (Some n, c') \<and> n = 1"
proof -
  have t: "picks_ok take" by (auto simp: picks_ok_def dest: in_set_takeD)
  have d: "distinct (map ev_id (cl_events (flush_events Committed 99999 passed_log)))" by code_simp
  have one: "how_many (prunable ''entry_threshold'' (fsub 99999 (fmul 1 3600))) (cl_events (flush_events Committed 99999 passed_log)) = 1" by code_simp
  show ?thesis using purge_takes_its_batch [OF t d, of "''entry_threshold''" 1 5] one by auto
qed

end
