(* ===== verification/TradeHistory.thy ===== *)
theory TradeHistory
  imports Broker Exits Netting
begin

text \<open>
  \<open>services/history/trade_analytics.py\<close> and \<open>services/stats_power.py\<close>: closed trades rebuilt from
  the trade log by reading the reason strings the broker writes (the close type from its prefix, the
  realised result from its last bracket), the summary of them, and the margins of error. \<open>re\<close>'s
  \<open>match\<close> and \<open>search\<close> are written out for the patterns used; texts are ASCII. libm's \<open>sqrt\<close> (\<open>sq_root\<close>) and
  \<open>pow(x, 2)\<close> (\<open>square\<close>) are parameters.
\<close>

subsection \<open>Reading reasons\<close>

datatype close_type =
    SettledWin | SettledLoss | TakeProfit | StopLoss | SentimentReversal | AutoExit | RunwayExhausted
  | PositionNetting | MomentumReversal

definition is_word :: "char \<Rightarrow> bool" where
  "is_word c = (let n = of_char c :: nat in is_digit c \<or> (65 \<le> n \<and> n \<le> 90) \<or> (97 \<le> n \<and> n \<le> 122) \<or> n = 95)"

text \<open>\<open>^closed: market settled \w+ - position won\<close> and its like.\<close>

definition match_settled :: "string \<Rightarrow> string \<Rightarrow> bool" where
  "match_settled tail reason \<longleftrightarrow>
     (let p = ''closed: market settled ''; rest = drop (length p) reason in
      starts_with p reason \<and> takeWhile is_word rest \<noteq> [] \<and> starts_with tail (dropWhile is_word rest))"

definition close_type_patterns :: "(close_type \<times> (string \<Rightarrow> bool)) list" where
  "close_type_patterns =
     [(SettledWin, match_settled '' - position won''), (SettledLoss, match_settled '' - position lost''),
      (TakeProfit, starts_with ''closed: take-profit hit''), (StopLoss, starts_with ''closed: stop-loss hit''),
      (SentimentReversal, starts_with ''closed: whale sentiment reversed''), (AutoExit, starts_with ''closed: auto-exit''),
      (RunwayExhausted, starts_with ''closed: runway exhausted''), (PositionNetting, starts_with ''closed: position netting''),
      (MomentumReversal, starts_with ''closed: momentum reversed'')]"

definition classify_close_type :: "string \<Rightarrow> close_type option" where
  "classify_close_type reason = map_option fst (find (\<lambda>(name, matches). matches reason) close_type_patterns)"

definition number_char :: "char \<Rightarrow> bool" where "number_char c \<longleftrightarrow> is_digit c \<or> c = CHR ''.''"

text \<open>\<open>[\d.]+\)\<close> here, and \<open>[+-][\d.]+\)\<close>: the text before the bracket.\<close>

definition match_number :: "string \<Rightarrow> string option" where
  "match_number s =
     (let n = takeWhile number_char s in if n \<noteq> [] \<and> starts_with '')'' (drop (length n) s) then Some n else None)"

definition match_signed :: "string \<Rightarrow> string option" where
  "match_signed s =
     (case s of [] \<Rightarrow> None
      | c # r \<Rightarrow> if c = CHR ''+'' \<or> c = CHR ''-'' then map_option ((#) c) (match_number r) else None)"

text \<open>\<open>search\<close>: the leftmost place where the literal and then the group match.\<close>

fun search_group :: "string \<Rightarrow> (string \<Rightarrow> string option) \<Rightarrow> string \<Rightarrow> string option" where
  "search_group p m [] = (if starts_with p [] then m (drop (length p) []) else None)"
| "search_group p m (c # s) =
     (case (if starts_with p (c # s) then m (drop (length p) (c # s)) else None) of
        Some g \<Rightarrow> Some g | None \<Rightarrow> search_group p m s)"

definition realized_text :: "string \<Rightarrow> string option" where
  "realized_text = search_group ''(realized '' match_signed"

definition confidence_text :: "string \<Rightarrow> string option" where
  "confidence_text = search_group ''(conf '' match_number"

text \<open>\<open>float\<close> of a group, if it matched; the outer \<open>None\<close> is its ValueError.\<close>

definition float_group :: "string option \<Rightarrow> f64 option option" where
  "float_group g = (case g of None \<Rightarrow> Some None | Some s \<Rightarrow> map_option Some (py_float_str s))"

subsection \<open>Pairing closes with entries\<close>

record history_row =
  hr_ticker :: string
  hr_side :: outcome_side
  hr_size :: int
  hr_entry_price :: "f64 option"
  hr_exit_price :: f64
  hr_entry_timestamp :: "f64 option"
  hr_exit_timestamp :: f64
  hr_hold_sec :: "f64 option"
  hr_time_to_open_sec :: "f64 option"
  hr_close_type :: "close_type option"
  hr_realized_pnl :: "f64 option"
  hr_won :: bool
  hr_entry_confidence :: "f64 option"
  hr_entry_reason :: "string option"
  hr_exit_reason :: string
  hr_left_on_table :: "f64 option"
  hr_cost_basis :: "f64 option"
  hr_cash_back :: f64
  hr_fees_paid :: f64
  hr_config_fingerprint :: "string option"

definition EARLY_PROFIT_TYPES :: "close_type list" where
  "EARLY_PROFIT_TYPES = [TakeProfit, AutoExit, SentimentReversal, MomentumReversal, RunwayExhausted]"

definition is_close :: "trade_row \<Rightarrow> bool" where
  "is_close t \<longleftrightarrow> starts_with ''closed:'' (tw_reason t)"

definition left_on_table :: "close_type option \<Rightarrow> f64 option \<Rightarrow> trade_row \<Rightarrow> f64 option" where
  "left_on_table ct pnl t =
     (if ct \<in> set (map Some EARLY_PROFIT_TYPES) \<and> (case pnl of None \<Rightarrow> 0 | Some p \<Rightarrow> p) > 0
      then Some (py_round 2 (fmul (fint (tw_size t)) (fsub 1 (unit_cost (tw_side t) (tw_price t))))) else None)"

definition history_row_of :: "trade_row option \<Rightarrow> trade_row \<Rightarrow> history_row option" where
  "history_row_of entry t =
     (case float_group (realized_text (tw_reason t)) of
        None \<Rightarrow> None
      | Some pnl \<Rightarrow>
          (case (case entry of None \<Rightarrow> Some None | Some e \<Rightarrow> float_group (confidence_text (tw_reason e))) of
             None \<Rightarrow> None
           | Some conf \<Rightarrow>
               (let ct = classify_close_type (tw_reason t);
                    cost = map_option (\<lambda>e. py_round 2 (fmul (fint (tw_size e)) (unit_cost (tw_side e) (tw_price e)))) entry;
                    back = py_round 2 (fmul (fint (tw_size t)) (unit_cost (tw_side t) (tw_price t)));
                    fee = (\<lambda>x. case x of None \<Rightarrow> 0 | Some f \<Rightarrow> f)
                in Some \<lparr>hr_ticker = tw_ticker t, hr_side = tw_side t, hr_size = tw_size t,
                     hr_entry_price = map_option tw_price entry, hr_exit_price = tw_price t,
                     hr_entry_timestamp = map_option tw_timestamp entry, hr_exit_timestamp = tw_timestamp t,
                     hr_hold_sec = map_option (\<lambda>e. fsub (tw_timestamp t) (tw_timestamp e)) entry,
                     hr_time_to_open_sec = (case entry of None \<Rightarrow> None
                        | Some e \<Rightarrow> map_option (fsub (tw_timestamp e)) (tw_signal_seen_at e)),
                     hr_close_type = ct, hr_realized_pnl = pnl, hr_won = (case pnl of None \<Rightarrow> False | Some p \<Rightarrow> p > 0),
                     hr_entry_confidence = conf, hr_entry_reason = map_option tw_reason entry, hr_exit_reason = tw_reason t,
                     hr_left_on_table = left_on_table ct pnl t, hr_cost_basis = cost, hr_cash_back = back,
                     hr_fees_paid = (case (cost, pnl) of
                         (Some c, Some p) \<Rightarrow> py_round 2 (fsub (fsub back c) p)
                       | _ \<Rightarrow> py_round 2 (fadd (case entry of None \<Rightarrow> 0 | Some e \<Rightarrow> fee (tw_fee e)) (fee (tw_fee t)))),
                     hr_config_fingerprint = (case entry of None \<Rightarrow> None | Some e \<Rightarrow> tw_config_fingerprint e)\<rparr>)))"

fun build_loop :: "(string, trade_row) pdict \<Rightarrow> trade_row list \<Rightarrow> history_row list option" where
  "build_loop last_entry [] = Some []"
| "build_loop last_entry (t # ts) =
     (if tw_excluded t \<noteq> 0 then build_loop last_entry ts
      else if \<not> is_close t then build_loop (dput (tw_ticker t) t last_entry) ts
      else case history_row_of (dget last_entry (tw_ticker t)) t of
        None \<Rightarrow> None
      | Some row \<Rightarrow> map_option ((#) row) (build_loop last_entry ts))"

definition build_trade_history :: "trade_row list \<Rightarrow> history_row list option" where
  "build_trade_history trades = build_loop [] trades"

subsection \<open>Margins of error\<close>

definition clamp_share :: "f64 \<Rightarrow> f64" where
  "clamp_share pct = max 0 (min 1 (fdiv pct 100))"

text \<open>An unknown level falls back to 95 percent; no sample at all is an infinite margin (\<open>None\<close>).\<close>

definition z_for :: "f64 \<Rightarrow> f64" where
  "z_for level = (if py_round 2 level = fl (9/10) then fl (1645/1000) else if py_round 2 level = fl (99/100) then fl (2576/1000)
     else fl (196/100))"

definition margin_of_error_pts :: "(f64 \<Rightarrow> f64) \<Rightarrow> int \<Rightarrow> f64 \<Rightarrow> f64 \<Rightarrow> f64 option" where
  "margin_of_error_pts sq_root n observed_pct level =
     (if n \<le> 0 then None
      else let p = clamp_share observed_pct in
        Some (fmul (fmul (z_for level) (sq_root (fdiv (fmul p (fsub 1 p)) (fint n)))) 100))"

definition min_n_for_margin :: "(f64 \<Rightarrow> f64) \<Rightarrow> f64 \<Rightarrow> f64 \<Rightarrow> f64 \<Rightarrow> int option" where
  "min_n_for_margin square margin_pts observed_pct level =
     (if margin_pts \<le> 0 then None
      else let p = clamp_share observed_pct; z = z_for level; m = fdiv margin_pts 100 in
        Some (py_ceil (fdiv (fmul (fmul (square z) p) (fsub 1 p)) (square m))))"

definition two_proportion_z_score :: "(f64 \<Rightarrow> f64) \<Rightarrow> int \<Rightarrow> f64 \<Rightarrow> int \<Rightarrow> f64 \<Rightarrow> f64 option" where
  "two_proportion_z_score sq_root na pa nb pb =
     (if na \<le> 0 \<or> nb \<le> 0 then None
      else let a = clamp_share pa; b = clamp_share pb;
               pool = fdiv (fadd (fmul a (fint na)) (fmul b (fint nb))) (fint (na + nb))
        in if pool \<le> 0 \<or> pool \<ge> 1 then None
           else let se = sq_root (fmul (fmul pool (fsub 1 pool)) (fadd (fdiv 1 (fint na)) (fdiv 1 (fint nb)))) in
             if se = 0 then None else Some (fdiv (fsub a b) se))"

definition one_sample_t_score :: "(f64 \<Rightarrow> f64) \<Rightarrow> (f64 \<Rightarrow> f64) \<Rightarrow> f64 list \<Rightarrow> f64 \<Rightarrow> f64 option" where
  "one_sample_t_score sq_root square values reference =
     (let n = length values in
      if n < 2 then None
      else let mean = fdiv (py_sum values) (fint (int n));
               variance = fdiv (py_sum (map (\<lambda>v. square (fsub v mean)) values)) (fint (int (n - 1)))
        in if variance = 0 then None
           else Some (fdiv (fsub mean reference) (sq_root (fdiv variance (fint (int n))))))"

subsection \<open>Summary\<close>

record type_stats =
  ct_count :: nat
  ct_wins :: nat
  ct_total_pnl :: "f64 option"
  ct_avg_pnl :: "f64 option"

record history_summary =
  hs_total_closed :: nat
  hs_wins :: nat
  hs_losses :: nat
  hs_win_rate_pct :: "f64 option"
  hs_total_realized_pnl :: f64
  hs_avg_realized_pnl :: "f64 option"
  hs_win_rate_margin_pts :: "f64 option"
  hs_confidence_label :: string
  hs_avg_hold_sec :: "f64 option"
  hs_total_left_on_table :: f64
  hs_total_capital_deployed :: f64
  hs_total_fees_paid :: f64
  hs_by_close_type :: "(close_type option, type_stats) pdict"

definition confidence_label :: "nat \<Rightarrow> string" where
  "confidence_label n = (if n < 5 then ''low'' else if n < 15 then ''moderate'' else ''higher'')"

definition values_present :: "('r \<Rightarrow> 'v option) \<Rightarrow> 'r list \<Rightarrow> 'v list" where
  "values_present f rows = concat (map (\<lambda>r. case f r of None \<Rightarrow> [] | Some v \<Rightarrow> [v]) rows)"

definition py_mean :: "f64 list \<Rightarrow> f64" where
  "py_mean xs = fdiv (py_sum xs) (fint (int (length xs)))"

definition type_stats_of :: "history_row list \<Rightarrow> type_stats" where
  "type_stats_of g =
     (let pnls = values_present hr_realized_pnl g in
      \<lparr>ct_count = length g, ct_wins = length (filter hr_won g),
       ct_total_pnl = (if pnls = [] then None else Some (py_round 2 (py_sum pnls))),
       ct_avg_pnl = (if pnls = [] then None else Some (py_round 2 (py_mean pnls)))\<rparr>)"

definition by_close_type :: "history_row list \<Rightarrow> (close_type option, history_row list) pdict" where
  "by_close_type rows = fold (\<lambda>r d. dput (hr_close_type r) (dget_or d (hr_close_type r) [] @ [r]) d) rows []"

definition compute_summary :: "(f64 \<Rightarrow> f64) \<Rightarrow> history_row list \<Rightarrow> history_summary" where
  "compute_summary sq_root rows =
     (let n = length rows; wins = length (filter hr_won rows); pnls = values_present hr_realized_pnl rows;
          holds = values_present hr_hold_sec rows;
          rate = (if n = 0 then None else Some (py_round 1 (fmul (fl (of_nat wins / of_nat n)) 100)));
          total_pnl = (if pnls = [] then 0 else py_round 2 (py_sum pnls))
      in \<lparr>hs_total_closed = n, hs_wins = wins, hs_losses = n - wins, hs_win_rate_pct = rate,
          hs_total_realized_pnl = total_pnl,
          hs_avg_realized_pnl = (if n = 0 then None else Some (py_round 2 (fdiv total_pnl (fint (int n))))),
          hs_win_rate_margin_pts = (case rate of None \<Rightarrow> None
             | Some r \<Rightarrow> map_option (py_round 1) (margin_of_error_pts sq_root (int n) r (fl (95/100)))),
          hs_confidence_label = confidence_label n,
          hs_avg_hold_sec = (if holds = [] then None else Some (py_round 0 (py_mean holds))),
          hs_total_left_on_table = py_round 2 (py_sum (filter (\<lambda>x. x \<noteq> 0) (values_present hr_left_on_table rows))),
          hs_total_capital_deployed = py_round 2 (py_sum (filter (\<lambda>x. x \<noteq> 0) (values_present hr_cost_basis rows))),
          hs_total_fees_paid = py_round 2 (py_sum (map hr_fees_paid rows)),
          hs_by_close_type = map (\<lambda>(k, g). (k, type_stats_of g)) (by_close_type rows)\<rparr>)"

text \<open>Settled closes against managed ones, with at least three of each.\<close>

definition exit_management_split :: "history_row list \<Rightarrow> (f64 \<times> f64 \<times> nat \<times> nat) option" where
  "exit_management_split rows =
     (let closed = filter (\<lambda>r. hr_close_type r \<noteq> None) rows;
          is_settled = (\<lambda>r. hr_close_type r = Some SettledWin \<or> hr_close_type r = Some SettledLoss);
          settled = filter is_settled closed; managed = filter (\<lambda>r. \<not> is_settled r) closed;
          rate = (\<lambda>g. py_round 1 (fmul (fl (of_nat (length (filter hr_won g)) / of_nat (length g))) 100))
      in if length settled < 3 \<or> length managed < 3 then None
         else Some (rate settled, rate managed, length settled, length managed))"

end
