(* ===== verification/HistoryFacts.thy ===== *)
theory HistoryFacts
  imports TradeHistory
begin

text \<open>
  What the trade history promises: every reason the exits write is recognised, a realised result
  reads back as the broker's to the cent, closes are paired with the entry before them, and the
  summary adds up.
\<close>

subsection \<open>Every reason is recognised\<close>

lemma starts_with_closed: "starts_with (''closed: '' @ p) (close_reason (p @ s) pnl)"
  by (simp add: close_reason_def starts_with_iff)

lemma word_upper_side: "takeWhile is_word (str_upper (side_str w) @ CHR '' '' # s) = str_upper (side_str w)"
  "dropWhile is_word (str_upper (side_str w) @ CHR '' '' # s) = CHR '' '' # s"
  by (cases w; simp add: side_str_def str_upper_def ascii_upper_def is_word_def is_digit_def digit_of_def Let_def)+

lemma settle_reason_type:
  "classify_close_type (close_reason (settle_reason winner pos) pnl) = Some (if winner = po_side pos then SettledWin else SettledLoss)"
proof -
  have w: "match_settled t (close_reason (settle_reason winner pos) pnl)
      = starts_with t ('' - position '' @ (if winner = po_side pos then ''won'' else ''lost'') @ '' (realized '' @ fmt_signed 2 pnl @ '')'')" for t
  proof -
    have "close_reason (settle_reason winner pos) pnl = ''closed: market settled '' @ str_upper (side_str winner)
        @ CHR '' '' # ''- position '' @ (if winner = po_side pos then ''won'' else ''lost'') @ '' (realized '' @ fmt_signed 2 pnl @ '')''"
      by (simp add: close_reason_def settle_reason_def)
    moreover have "str_upper (side_str winner) \<noteq> []" by (cases winner) (simp_all add: side_str_def str_upper_def)
    ultimately show ?thesis by (simp add: match_settled_def Let_def word_upper_side)
  qed
  show ?thesis by (auto simp: classify_close_type_def close_type_patterns_def w)
qed

lemma classify_managed:
  "classify_close_type (close_reason (''take-profit hit'' @ s) res) = Some TakeProfit"
  "classify_close_type (close_reason (''stop-loss hit'' @ s) res) = Some StopLoss"
  "classify_close_type (close_reason (''whale sentiment reversed'' @ s) res) = Some SentimentReversal"
  "classify_close_type (close_reason (''auto-exit'' @ s) res) = Some AutoExit"
  "classify_close_type (close_reason (''runway exhausted'' @ s) res) = Some RunwayExhausted"
  "classify_close_type (close_reason (''position netting'' @ s) res) = Some PositionNetting"
  by (simp_all add: close_reason_def classify_close_type_def close_type_patterns_def match_settled_def)

lemma first_reason_in: "first_reason rs = Some r \<Longrightarrow> Some r \<in> set rs"
  by (induction rs rule: first_reason.induct) auto

lemma exit_reason_prefix:
  "take_profit_reason cfg pnl = Some r \<Longrightarrow> \<exists>s. r = ''take-profit hit'' @ s"
  "stop_loss_reason cfg pnl = Some r \<Longrightarrow> \<exists>s. r = ''stop-loss hit'' @ s"
  "runway_reason x cfg ticker pos = Some r \<Longrightarrow> \<exists>s. r = ''runway exhausted'' @ s"
  "reversal_reason x cfg ticker pos = Some r \<Longrightarrow> \<exists>s. r = ''whale sentiment reversed'' @ s"
  "auto_exit_reason x cfg ticker pos pnl = Some r \<Longrightarrow> \<exists>s. r = ''auto-exit'' @ s"
  unfolding take_profit_reason_def stop_loss_reason_def runway_reason_def reversal_reason_def auto_exit_reason_def
  by (auto simp: Let_def split: option.splits if_splits prod.splits)

lemma exit_reason_cases:
  assumes "exit_reason x cfg ticker pos pnl = Some r"
  shows "classify_close_type (close_reason r res) \<in> Some ` {TakeProfit, StopLoss, RunwayExhausted, SentimentReversal, AutoExit}"
proof -
  have "Some r \<in> {take_profit_reason cfg pnl, stop_loss_reason cfg pnl, runway_reason x cfg ticker pos,
      reversal_reason x cfg ticker pos, auto_exit_reason x cfg ticker pos pnl}"
    using first_reason_in [OF assms [unfolded exit_reason_def]] by simp
  then show ?thesis
    by (elim insertE emptyE) (drule sym, drule exit_reason_prefix, elim exE, simp only: classify_managed, simp)+
qed

text \<open>
  Every reason the exit rules, a settlement or the netting review close with is recognised by the
  history, as what it is: settled closes as won or lost, the others as one of the managed types.
\<close>
theorem close_reasons_are_recognised:
  "classify_close_type (close_reason (settle_reason winner pos) res) = Some (if winner = po_side pos then SettledWin else SettledLoss)
   \<and> classify_close_type (close_reason (netting_reason e why) res) = Some PositionNetting
   \<and> (case exit_reason x cfg ticker pos pnl of None \<Rightarrow> True
      | Some r \<Rightarrow> classify_close_type (close_reason r res) \<in> Some ` {TakeProfit, StopLoss, RunwayExhausted, SentimentReversal, AutoExit})"
proof -
  have "classify_close_type (close_reason (netting_reason e why) res) = Some PositionNetting"
    using classify_managed(6) [of "'' ('' @ status_str (ne_status e) @ '', event '' @ ne_event_ticker e @ ''): '' @ why" res]
    by (simp add: netting_reason_def)
  then show ?thesis using settle_reason_type exit_reason_cases by (simp split: option.split)
qed

subsection \<open>Pairing\<close>

definition entry_before :: "trade_row list \<Rightarrow> string \<Rightarrow> trade_row option" where
  "entry_before pre ticker = find (\<lambda>e. \<not> is_close e \<and> tw_ticker e = ticker) (rev pre)"

definition kept_trades :: "trade_row list \<Rightarrow> trade_row list" where
  "kept_trades trades = filter (\<lambda>t. tw_excluded t = 0) trades"

fun with_prefix :: "'a list \<Rightarrow> 'a list \<Rightarrow> ('a list \<times> 'a) list" where
  "with_prefix pre [] = []"
| "with_prefix pre (t # ts) = (pre, t) # with_prefix (pre @ [t]) ts"

lemma build_loop_pairs:
  assumes "\<And>k. dget d k = entry_before pre k"
  shows "build_loop d trades = those (map (\<lambda>(pre, t). history_row_of (entry_before pre (tw_ticker t)) t)
    (filter (\<lambda>(pre, t). is_close t) (with_prefix pre (kept_trades trades))))"
  using assms
proof (induction trades arbitrary: d pre)
  case (Cons t ts)
  consider "tw_excluded t \<noteq> 0" | "tw_excluded t = 0" "\<not> is_close t" | "tw_excluded t = 0" "is_close t" by blast
  then show ?case
  proof cases
    case 1
    then show ?thesis using Cons.IH [OF Cons.prems] by (simp add: kept_trades_def)
  next
    case 2
    have "dget (dput (tw_ticker t) t d) k = entry_before (pre @ [t]) k" for k
      using Cons.prems [of k] 2 by (auto simp: entry_before_def)
    then show ?thesis using Cons.IH [of "dput (tw_ticker t) t d" "pre @ [t]"] 2 by (simp add: kept_trades_def)
  next
    case 3
    have "dget d k = entry_before (pre @ [t]) k" for k using Cons.prems [of k] 3 by (simp add: entry_before_def)
    then show ?thesis using Cons.IH [of d "pre @ [t]"] 3 Cons.prems
      by (simp add: kept_trades_def split: option.split)
  qed
qed (simp add: kept_trades_def)

text \<open>
  C23: The history has one row per close that is not excluded, in order, each built from that close
  and the latest entry of its ticker before it, excluded trades left out; it raises exactly when one
  of these rows has a number that does not parse.
\<close>
theorem history_pairs_closes_with_entries:
  "build_trade_history trades = those (map (\<lambda>(pre, t). history_row_of (entry_before pre (tw_ticker t)) t)
    (filter (\<lambda>(pre, t). is_close t) (with_prefix [] (kept_trades trades))))"
  unfolding build_trade_history_def by (rule build_loop_pairs) (simp add: entry_before_def)

subsection \<open>The summary\<close>

lemma group_sum:
  fixes f :: "'r list \<Rightarrow> nat"
  assumes "\<And>xs x. f (xs @ [x]) = f xs + g x" "f [] = 0"
  shows "sum_list (map (f \<circ> snd) (dput k (dget_or d k [] @ [r]) d)) = sum_list (map (f \<circ> snd) d) + g r"
  using assms assms(1) [of "[]" r] by (induction d) (auto simp: dget_or_def)

lemma by_close_type_sum:
  fixes f :: "history_row list \<Rightarrow> nat"
  assumes "\<And>xs x. f (xs @ [x]) = f xs + g x" "f [] = 0"
  shows "sum_list (map (f \<circ> snd) (by_close_type rows)) = f rows"
proof (induction rows rule: rev_induct)
  case (snoc r rows)
  then show ?case using group_sum [OF assms, where k = "hr_close_type r" and d = "by_close_type rows" and r = r]
    by (simp add: by_close_type_def assms(1) comp_def)
qed (simp add: by_close_type_def assms(2))

lemma percent_round: "0 \<le> x \<Longrightarrow> x \<le> 100 \<Longrightarrow> 0 \<le> py_round 1 x \<and> py_round 1 x \<le> 100"
  using py_round_nonneg [of x 1] py_round_mono [of x 100 1] rhe_of_int [of 1000] by (simp add: py_round_def)

text \<open>
  Wins and losses add up to the closed trades, and so do the counts and the wins of the close
  types; the win rate is a percentage.
\<close>
theorem summary_adds_up:
  "hs_wins (compute_summary rt rows) + hs_losses (compute_summary rt rows) = hs_total_closed (compute_summary rt rows)
   \<and> sum_list (map (ct_count \<circ> snd) (hs_by_close_type (compute_summary rt rows))) = hs_total_closed (compute_summary rt rows)
   \<and> sum_list (map (ct_wins \<circ> snd) (hs_by_close_type (compute_summary rt rows))) = hs_wins (compute_summary rt rows)
   \<and> (case hs_win_rate_pct (compute_summary rt rows) of None \<Rightarrow> rows = [] | Some p \<Rightarrow> 0 \<le> p \<and> p \<le> 100)"
proof -
  have c: "(ct_count \<circ> snd) \<circ> (\<lambda>(k, g). (k, type_stats_of g)) = length \<circ> snd"
    "(ct_wins \<circ> snd) \<circ> (\<lambda>(k, g). (k, type_stats_of g)) = (\<lambda>g. length (filter hr_won g)) \<circ> snd"
    by (auto simp: type_stats_of_def Let_def)
  have "sum_list (map (ct_count \<circ> snd) (hs_by_close_type (compute_summary rt rows))) = length rows"
    using by_close_type_sum [of length "\<lambda>x. 1" rows] by (simp add: compute_summary_def Let_def c)
  moreover have "sum_list (map (ct_wins \<circ> snd) (hs_by_close_type (compute_summary rt rows))) = length (filter hr_won rows)"
    using by_close_type_sum [of "\<lambda>g. length (filter hr_won g)" "\<lambda>x. if hr_won x then 1 else 0" rows]
    by (simp add: compute_summary_def Let_def c)
  moreover have "0 \<le> p \<and> p \<le> 100" if "hs_win_rate_pct (compute_summary rt rows) = Some p" for p
  proof -
    have "0 \<le> fl (of_nat (length (filter hr_won rows)) / of_nat (length rows))" by (rule b64.rnd_nonneg) simp
    moreover have "fl (of_nat (length (filter hr_won rows)) / of_nat (length rows)) \<le> 1"
      using fl_mono [of "of_nat (length (filter hr_won rows)) / of_nat (length rows)" 1] by (simp add: divide_le_eq_1)
    ultimately have "0 \<le> fmul (fl (of_nat (length (filter hr_won rows)) / of_nat (length rows))) 100
        \<and> fmul (fl (of_nat (length (filter hr_won rows)) / of_nat (length rows))) 100 \<le> 100"
      using fl_mono [of "fl (of_nat (length (filter hr_won rows)) / of_nat (length rows)) * 100" 100] by (simp add: fmul_def b64.rnd_nonneg)
    then show ?thesis using that percent_round by (auto simp: compute_summary_def Let_def split: if_splits)
  qed
  ultimately show ?thesis by (auto simp: compute_summary_def Let_def split: option.split)
qed


subsection \<open>The result reads back\<close>

lemma digits_value_append: "digits_value acc (xs @ ys) = digits_value (digits_value acc xs) ys"
  by (induction xs arbitrary: acc) auto

lemma digit_of_char: "k < 10 \<Longrightarrow> digit_of (char_of (48 + k)) = Some (int k)"
  by (simp add: digit_of_def Let_def of_char_of)

lemma digits_value_show: "digits_value acc (show_nat n) = acc * 10 ^ length (show_nat n) + int n"
proof (induction n arbitrary: acc rule: show_nat.induct)
  case (1 n)
  show ?case
  proof (cases "n < 10")
    case True
    then show ?thesis by (subst (1 2) show_nat.simps) (simp add: digit_of_char)
  next
    case False
    have "digits_value acc (show_nat n) = (acc * 10 ^ length (show_nat (n div 10)) + int (n div 10)) * 10 + int (n mod 10)"
      using False "1.IH" by (subst show_nat.simps) (simp add: digits_value_append digit_of_char)
    moreover have "length (show_nat n) = Suc (length (show_nat (n div 10)))" using False by (subst show_nat.simps) simp
    moreover have "int (n div 10) * 10 + int (n mod 10) = int n" by (metis div_mult_mod_eq of_nat_add of_nat_mult of_nat_numeral)
    ultimately show ?thesis by (simp add: algebra_simps)
  qed
qed

lemma length_show_nat: "n < 10 ^ k \<Longrightarrow> 0 < k \<Longrightarrow> length (show_nat n) \<le> k"
proof (induction n arbitrary: k rule: show_nat.induct)
  case (1 n)
  show ?case
  proof (cases "n < 10")
    case True
    then show ?thesis using "1.prems" by (subst show_nat.simps) simp
  next
    case False
    then have k: "k > 1" using "1.prems" by (cases k) (auto simp: not_less intro: ccontr)
    have "n div 10 < 10 ^ (k - 1)" using "1.prems"(1) k by (cases k) (auto simp: less_mult_imp_div_less mult.commute)
    then have "length (show_nat (n div 10)) \<le> k - 1" using "1.IH" [OF False] k by simp
    then show ?thesis using False k by (subst show_nat.simps) simp
  qed
qed

lemma pad_zeros_value:
  assumes "m < 10 ^ k" "0 < k"
  shows "length (pad_zeros k (show_nat m)) = k" "digits_value acc (pad_zeros k (show_nat m)) = acc * 10 ^ k + int m"
    "list_all is_digit (pad_zeros k (show_nat m))"
proof -
  have l: "length (show_nat m) \<le> k" using assms by (rule length_show_nat)
  show "length (pad_zeros k (show_nat m)) = k" using l by simp
  have "digits_value acc (replicate j (CHR ''0'')) = acc * 10 ^ j" for j :: nat and acc
    by (induction j arbitrary: acc) (simp_all add: digit_of_def)
  then show "digits_value acc (pad_zeros k (show_nat m)) = acc * 10 ^ k + int m"
    using l by (simp add: digits_value_append digits_value_show flip: power_add)
  show "list_all is_digit (pad_zeros k (show_nat m))"
  proof -
    have "is_digit (CHR ''0'')" by (simp add: is_digit_def digit_of_def)
    then show ?thesis using show_nat_digits [of m] by (auto simp: list_all_iff)
  qed
qed

lemma digit_not_blank: "is_digit c \<Longrightarrow> \<not> is_blank c \<and> c \<noteq> CHR ''.'' \<and> c \<noteq> CHR '')''"
  by (auto simp: is_digit_def digit_of_def is_blank_def Let_def split: if_splits)

lemma show_nat_nonempty: "show_nat n \<noteq> []" by (subst show_nat.simps) simp

lemma str_strip_id:
  assumes "xs \<noteq> []" "\<not> is_blank (hd xs)" "\<not> is_blank (List.last xs)"
  shows "str_strip xs = xs"
proof -
  have "dropWhile is_blank xs = xs" using assms(1,2) by (cases xs) auto
  moreover have "dropWhile is_blank (rev xs) = rev xs" using assms(1,3) by (cases xs rule: rev_cases) auto
  ultimately show ?thesis by (simp add: str_strip_def)
qed

text \<open>A signed decimal with two places, as written and as parsed.\<close>

lemma parse_signed_decimal:
  assumes "c = CHR ''+'' \<or> c = CHR ''-''" "list_all is_digit A" "A \<noteq> []" "list_all is_digit B" "B \<noteq> []"
  shows "parse_decimal (c # A @ CHR ''.'' # B)
    = Some (of_int (if c = CHR ''-'' then - 1 else 1) * of_int (digits_value 0 (A @ B)) * 10 powi (- int (length B)))"
proof -
  have nb: "\<not> is_blank (List.last B)" using assms(4,5) digit_not_blank by (auto simp: list_all_iff)
  have s: "str_strip (c # A @ CHR ''.'' # B) = c # A @ CHR ''.'' # B"
    using assms(1,5) nb by (intro str_strip_id) (auto simp: is_blank_def)
  have tA: "takeWhile is_digit (A @ CHR ''.'' # B) = A" "dropWhile is_digit (A @ CHR ''.'' # B) = CHR ''.'' # B"
    using assms(2) by (auto simp: list_all_iff is_digit_def digit_of_def)
  have tB: "takeWhile is_digit B = B" "dropWhile is_digit B = []" using assms(4) by (auto simp: list_all_iff)
  have sg: "take_sign (c # A @ CHR ''.'' # B) = (if c = CHR ''-'' then - 1 else 1, A @ CHR ''.'' # B)"
    using assms(1) by (auto simp: take_sign_def)
  show ?thesis using assms(3) by (simp add: parse_decimal_def s sg tA tB Let_def parse_exponent_def)
qed

lemma split_hundred: "int (m div 100) * 100 + int (m mod 100) = int m"
  by (simp add: zdiv_int zmod_int)

lemma fmt_abs_two:
  "\<exists>A B. fmt_abs 2 y = A @ CHR ''.'' # B \<and> list_all is_digit A \<and> A \<noteq> [] \<and> list_all is_digit B \<and> length B = 2
    \<and> digits_value 0 (A @ B) = int (nat (rhe (y * 100)))"
proof -
  define m where "m = nat (rhe (y * 100))"
  have lt: "m mod 100 < 10 ^ 2" by simp
  have "digits_value 0 (show_nat (m div 100) @ pad_zeros 2 (show_nat (m mod 100))) = int (m div 100) * 100 + int (m mod 100)"
    unfolding digits_value_append digits_value_show using pad_zeros_value(2) [OF lt] by (simp del: pad_zeros.simps)
  then have v: "digits_value 0 (show_nat (m div 100) @ pad_zeros 2 (show_nat (m mod 100))) = int m" by (simp only: split_hundred)
  have f: "fmt_abs 2 y = show_nat (m div 100) @ CHR ''.'' # pad_zeros 2 (show_nat (m mod 100))"
    by (simp add: fmt_abs_def m_def Let_def del: pad_zeros.simps)
  have l: "length (pad_zeros 2 (show_nat (m mod 100))) = 2" "list_all is_digit (pad_zeros 2 (show_nat (m mod 100)))"
    using pad_zeros_value(1,3) [OF lt] by (simp_all del: pad_zeros.simps)
  show ?thesis using f l v show_nat_digits show_nat_nonempty unfolding m_def by blast
qed

lemma fmt_signed_reads_back: "py_float_str (fmt_signed 2 x) = Some (py_round 2 x)"
proof -
  obtain A B where ab: "fmt_abs 2 \<bar>x\<bar> = A @ CHR ''.'' # B" "list_all is_digit A" "A \<noteq> []" "list_all is_digit B" "length B = 2"
    "digits_value 0 (A @ B) = int (nat (rhe (\<bar>x\<bar> * 100)))"
    using fmt_abs_two [of "\<bar>x\<bar>"] by blast
  define m where "m = nat (rhe (\<bar>x\<bar> * 100))"
  have ne: "B \<noteq> []" using ab(5) by auto
  have pw: "(10 :: rat) powi (- int 2) = 1 / 100" by (simp add: power_int_minus)
  have p: "parse_decimal (c # A @ CHR ''.'' # B) = Some (of_int (if c = CHR ''-'' then - 1 else 1) * of_nat m / 100)"
    if "c = CHR ''+'' \<or> c = CHR ''-''" for c
    using parse_signed_decimal [OF that ab(2,3,4) ne] unfolding ab(5,6) m_def [symmetric] pw by simp
  have "0 \<le> rhe (\<bar>x\<bar> * 100)" by (rule rhe_ge_int) simp
  then have m: "of_nat m = (of_int (rhe (\<bar>x\<bar> * 100)) :: rat)" by (simp add: m_def)
  have f: "fmt_signed 2 x = (if x < 0 then CHR ''-'' else CHR ''+'') # A @ CHR ''.'' # B"
    by (simp only: fmt_signed_def ab(1)) simp
  show ?thesis
  proof (cases "x < 0")
    case True
    then have "rhe (\<bar>x\<bar> * 100) = - rhe (x * 100)" using rhe_minus [of "x * 100"] by simp
    then show ?thesis using True p [of "CHR ''-''"] by (simp add: f py_float_str_def m py_round_def)
  next
    case False
    then show ?thesis using p [of "CHR ''+''"] by (simp add: f py_float_str_def m py_round_def)
  qed
qed


lemma search_skip:
  assumes "\<And>i. i < length u \<Longrightarrow> \<not> starts_with p (drop i u @ v)"
  shows "search_group p m (u @ v) = search_group p m v"
  using assms
proof (induction u)
  case (Cons c u)
  have "\<not> starts_with p (c # u @ v)" using Cons.prems [of 0] by simp
  moreover have "\<not> starts_with p (drop i u @ v)" if "i < length u" for i using Cons.prems [of "Suc i"] that by simp
  ultimately show ?case using Cons.IH by simp
qed simp

lemma no_start:
  assumes "\<not> contains_str ''(realized'' s"
  shows "\<not> starts_with ''(realized '' (drop i s @ CHR '' '' # v)"
proof
  assume "starts_with ''(realized '' (drop i s @ CHR '' '' # v)"
  then obtain t where t: "drop i s @ CHR '' '' # v = ''(realized '' @ t" by (auto simp: starts_with_iff)
  show False
  proof (cases "9 \<le> length (drop i s)")
    case True
    have "take 9 (drop i s) = ''(realized''" using arg_cong [OF t, of "take 9"] True by simp
    then have "s = take i s @ ''(realized'' @ drop 9 (drop i s)" by (metis append_take_drop_id)
    then show False using assms unfolding contains_str_iff by blast
  next
    case False
    define k where "k = length (drop i s)"
    have "(''(realized '' @ t) ! k = CHR '' ''" unfolding t [symmetric] k_def by (rule nth_append_length)
    moreover have "k \<in> {0, 1, 2, 3, 4, 5, 6, 7, 8}" using False unfolding k_def by auto
    ultimately show False by (elim insertE emptyE) simp_all
  qed
qed

lemma drop_before: "i < length (s @ '' '') \<Longrightarrow> drop i (s @ '' '') @ v = drop i s @ CHR '' '' # v" by simp

lemma fmt_signed_shape:
  obtains c n where "fmt_signed 2 x = c # n" "c = CHR ''+'' \<or> c = CHR ''-''" "n \<noteq> []" "list_all number_char n"
proof -
  obtain A B where ab: "fmt_abs 2 \<bar>x\<bar> = A @ CHR ''.'' # B" "list_all is_digit A" "list_all is_digit B"
    using fmt_abs_two [of "\<bar>x\<bar>"] by blast
  have "fmt_signed 2 x = (if x < 0 then CHR ''-'' else CHR ''+'') # A @ CHR ''.'' # B"
    by (simp only: fmt_signed_def ab(1)) simp
  moreover have "list_all number_char (A @ CHR ''.'' # B)" using ab(2,3) by (auto simp: list_all_iff number_char_def)
  ultimately show ?thesis by (intro that [of "if x < 0 then CHR ''-'' else CHR ''+''" "A @ CHR ''.'' # B"]) auto
qed

lemma realized_text_of_close:
  assumes "\<not> contains_str ''(realized'' reason"
  shows "realized_text (close_reason reason pnl) = Some (fmt_signed 2 pnl)"
proof -
  obtain c n where f: "fmt_signed 2 pnl = c # n" "c = CHR ''+'' \<or> c = CHR ''-''" "n \<noteq> []" "list_all number_char n"
    by (rule fmt_signed_shape)
  let ?u = "(''closed: '' @ reason) @ '' ''" and ?v = "''(realized '' @ fmt_signed 2 pnl @ '')''"
  have no: "\<not> contains_str ''(realized'' (''closed: '' @ reason)" using assms by simp
  have "\<not> starts_with ''(realized '' (drop i ?u @ ?v)" if "i < length ?u" for i
    using no_start [OF no, of i ?v] drop_before [OF that] by (simp only: not_False_eq_True)
  then have "realized_text (?u @ ?v) = realized_text ?v" unfolding realized_text_def by (rule search_skip)
  moreover have "match_signed (fmt_signed 2 pnl @ '')'') = Some (fmt_signed 2 pnl)"
  proof -
    have "takeWhile number_char (n @ '')'') = n" using f(4) by (simp add: list_all_iff number_char_def is_digit_def digit_of_def)
    then show ?thesis using f by (auto simp: match_signed_def match_number_def Let_def)
  qed
  then have "realized_text ?v = Some (fmt_signed 2 pnl)" by (simp add: realized_text_def)
  ultimately show ?thesis by (simp add: close_reason_def)
qed


definition gained :: string where "gained = ''take-profit hit: unrealized gain 25% of cost basis (target 20%)''"

definition closed_gain :: "position \<Rightarrow> trade_row" where
  "closed_gain pos = \<lparr>tw_ticker = ''T'', tw_side = Yes, tw_size = 10, tw_price = 1/2,
     tw_reason = close_reason gained (realized_pnl empty_title_cache pos ''T'' (1/2)),
     tw_timestamp = 9, tw_config_fingerprint = None, tw_fee = None, tw_signal_seen_at = None, tw_excluded = 0,
     tw_netting_improvement_usd = None, tw_netting_bar_usd = None, tw_netting_vol_ratio = None, tw_netting_exit_fee_usd = None\<rparr>"


end
