(* ===== verification/SeriesWatcher.thy ===== *)
theory SeriesWatcher
  imports TradeHistory TradeTape SignalLog CaptureWriter
begin

text \<open>
  \<open>services/series_watcher.py\<close>: prints and book snapshots of the watched series are captured, and
  the gap between the whales' accuracy and the realised win rate is explained from the signal log and
  the trade log. Reads that raise a database error are an argument. The database's own averages are
  not used; sums are Python's.
\<close>

definition DEFAULT_SERIES :: string where "DEFAULT_SERIES = ''KXBTC15M''"
definition DEFAULT_BOOK_INTERVAL_SEC :: f64 where "DEFAULT_BOOK_INTERVAL_SEC = 5"
definition BOOK_MATCH_WINDOW_SEC :: f64 where "BOOK_MATCH_WINDOW_SEC = 30"
definition WATCHER_FLUSH_BATCH :: nat where "WATCHER_FLUSH_BATCH = 500"

subsection \<open>Configuration\<close>

definition cfg_section :: "msg \<Rightarrow> msg" where
  "cfg_section cfg = (case jget cfg ''series_watcher'' of JObj d \<Rightarrow> d | _ \<Rightarrow> [])"

definition watched_series :: "msg \<Rightarrow> string list" where
  "watched_series cfg =
     (let configured = jget (cfg_section cfg) ''series'';
          items = (case configured of JStr s \<Rightarrow> [JStr s] | JArr xs \<Rightarrow> xs | _ \<Rightarrow> [])
      in concat (map (\<lambda>j. case j of JStr s \<Rightarrow> if s = [] then [] else [s] | _ \<Rightarrow> [])
           (if items = [] then [JStr DEFAULT_SERIES] else items)))"

definition capture_enabled :: "msg \<Rightarrow> bool" where
  "capture_enabled cfg = (case dget (cfg_section cfg) ''enabled'' of None \<Rightarrow> True | Some v \<Rightarrow> truthy v)"

definition sw_float :: "json \<Rightarrow> f64 option" where
  "sw_float v = (if v = JNull \<or> v = JStr [] then None else py_float v)"

subsection \<open>Capture\<close>

record raw_trade =
  rt_trade_id :: string
  rt_ticker :: string
  rt_series :: string
  rt_observed_at :: f64
  rt_exchange_ts :: "f64 option"
  rt_taker_outcome_side :: json
  rt_taker_book_side :: json
  rt_taker_side_legacy :: json
  rt_resolved_side :: "outcome_side option"
  rt_count_fp :: "f64 option"
  rt_yes_price_dollars :: "f64 option"
  rt_no_price_dollars :: "f64 option"
  rt_notional_usd :: "f64 option"
  rt_is_block_trade :: bool
  rt_excluded :: bool
  rt_raw :: msg

record book_row =
  bk_ticker :: string
  bk_series :: string
  bk_observed_at :: f64
  bk_exchange_ts :: "f64 option"
  bk_price_dollars :: "f64 option"
  bk_yes_bid_dollars :: "f64 option"
  bk_yes_ask_dollars :: "f64 option"
  bk_yes_bid_size_fp :: "f64 option"
  bk_yes_ask_size_fp :: "f64 option"
  bk_volume_fp :: "f64 option"
  bk_open_interest_fp :: "f64 option"
  bk_dollar_volume :: "f64 option"
  bk_dollar_open_interest :: "f64 option"
  bk_last_trade_size_fp :: "f64 option"
  bk_raw :: msg

record watcher =
  wt_last_book_write :: "(string, f64) pdict"
  wt_book_buffer :: "book_row list"
  wt_dropped_rows :: nat
  wt_quarantine :: "(f64 \<times> bool) option"
  wt_trades :: "raw_trade list capture_store"
  wt_books :: "book_row list"
  wt_faults :: "string list"

text \<open>\<open>active\<close> is what the quarantine table says now, \<open>None\<close> when asking raises.\<close>

definition quarantine_active :: "bool option \<Rightarrow> f64 \<Rightarrow> watcher \<Rightarrow> bool \<times> watcher" where
  "quarantine_active active now w =
     (case wt_quarantine w of
        Some (at_, flag) \<Rightarrow>
          if fsub now at_ > 1
          then (case active of None \<Rightarrow> (False, w) | Some a \<Rightarrow> (a, w\<lparr> wt_quarantine := Some (now, a) \<rparr>)) else (flag, w)
      | None \<Rightarrow> (case active of None \<Rightarrow> (False, w) | Some a \<Rightarrow> (a, w\<lparr> wt_quarantine := Some (now, a) \<rparr>)))"

text \<open>\<open>record_trade\<close>: a ticker that is truthy but no text raises, which is recorded and answered False.\<close>

definition record_raw_trade ::
  "title_cache \<Rightarrow> (string \<Rightarrow> f64 option) \<Rightarrow> bool option \<Rightarrow> msg \<Rightarrow> f64 \<Rightarrow> msg \<Rightarrow> watcher \<Rightarrow> bool \<times> watcher" where
  "record_raw_trade tc iso_ts active cfg now trade w =
     (let ticker = jor (jget trade ''ticker'') (jget trade ''market_ticker''); trade_id = jget trade ''trade_id'' in
      if \<not> truthy ticker \<or> \<not> truthy trade_id \<or> \<not> capture_enabled cfg then (False, w)
      else case (ticker, trade_id) of
        (JStr t, JStr i) \<Rightarrow>
          (let series = series_of tc t in
           if series \<notin> set (watched_series cfg) then (False, w)
           else let side = resolve_taker_outcome_side trade;
                    notional = (case side of None \<Rightarrow> None | Some s \<Rightarrow> taker_notional_usd trade (side_str s));
                    (flag, w1) = quarantine_active active now w;
                    row = \<lparr>rt_trade_id = i, rt_ticker = t, rt_series = series, rt_observed_at = now,
                      rt_exchange_ts = trade_exchange_ts iso_ts trade,
                      rt_taker_outcome_side = jget trade ''taker_outcome_side'', rt_taker_book_side = jget trade ''taker_book_side'',
                      rt_taker_side_legacy = jget trade ''taker_side'', rt_resolved_side = side,
                      rt_count_fp = sw_float (jget trade ''count_fp''), rt_yes_price_dollars = sw_float (jget trade ''yes_price_dollars''),
                      rt_no_price_dollars = sw_float (jget trade ''no_price_dollars''), rt_notional_usd = notional,
                      rt_is_block_trade = truthy (jget trade ''is_block_trade''), rt_excluded = flag, rt_raw = trade\<rparr>
                in (True, w1\<lparr> wt_trades := submit_append row (wt_trades w1) \<rparr>))
      | _ \<Rightarrow> (False, w\<lparr> wt_faults := wt_faults w @ [''record_trade''] \<rparr>))"

text \<open>\<open>record_book\<close>: whether the row was buffered, and whether the buffer is due for a flush.\<close>

definition book_row_of :: "(string \<Rightarrow> f64 option) \<Rightarrow> string \<Rightarrow> string \<Rightarrow> f64 \<Rightarrow> msg \<Rightarrow> book_row" where
  "book_row_of iso_ts t series now m =
     \<lparr>bk_ticker = t, bk_series = series, bk_observed_at = now, bk_exchange_ts = trade_exchange_ts iso_ts m,
      bk_price_dollars = sw_float (jget m ''price_dollars''), bk_yes_bid_dollars = sw_float (jget m ''yes_bid_dollars''),
      bk_yes_ask_dollars = sw_float (jget m ''yes_ask_dollars''), bk_yes_bid_size_fp = sw_float (jget m ''yes_bid_size_fp''),
      bk_yes_ask_size_fp = sw_float (jget m ''yes_ask_size_fp''), bk_volume_fp = sw_float (jget m ''volume_fp''),
      bk_open_interest_fp = sw_float (jget m ''open_interest_fp''), bk_dollar_volume = sw_float (jget m ''dollar_volume''),
      bk_dollar_open_interest = sw_float (jget m ''dollar_open_interest''),
      bk_last_trade_size_fp = sw_float (jget m ''last_trade_size_fp''), bk_raw = m\<rparr>"

definition record_book ::
  "title_cache \<Rightarrow> (string \<Rightarrow> f64 option) \<Rightarrow> msg \<Rightarrow> f64 \<Rightarrow> msg \<Rightarrow> watcher \<Rightarrow> (bool \<times> bool) \<times> watcher" where
  "record_book tc iso_ts cfg now m w =
     (let ticker = jor (jget m ''market_ticker'') (jget m ''ticker''); fault = w\<lparr> wt_faults := wt_faults w @ [''record_book''] \<rparr> in
      if \<not> truthy ticker \<or> \<not> capture_enabled cfg then ((False, False), w)
      else case ticker of
        JStr t \<Rightarrow>
          (let series = series_of tc t in
           if series \<notin> set (watched_series cfg) then ((False, False), w)
           else case (case dget (cfg_section cfg) ''book_snapshot_interval_sec'' of
                        None \<Rightarrow> Some DEFAULT_BOOK_INTERVAL_SEC | Some v \<Rightarrow> py_float v) of
             None \<Rightarrow> ((False, False), fault)
           | Some interval \<Rightarrow>
               if (case dget (wt_last_book_write w) t of None \<Rightarrow> False | Some prev \<Rightarrow> fsub now prev < interval)
               then ((False, False), w)
               else let buffer = wt_book_buffer w @ [book_row_of iso_ts t series now m]
                 in ((True, length buffer \<ge> WATCHER_FLUSH_BATCH),
                     w\<lparr> wt_last_book_write := dput t now (wt_last_book_write w), wt_book_buffer := buffer \<rparr>))
      | _ \<Rightarrow> ((False, False), fault))"

text \<open>\<open>flush\<close> and \<open>prune\<close> of the book snapshots.\<close>

definition flush_books :: "bool \<Rightarrow> watcher \<Rightarrow> nat \<times> watcher" where
  "flush_books up w =
     (let books = wt_book_buffer w; w1 = w\<lparr> wt_book_buffer := [] \<rparr> in
      if books = [] then (0, w1)
      else if up then (length books, w1\<lparr> wt_books := wt_books w @ books \<rparr>)
      else (0, w1\<lparr> wt_dropped_rows := wt_dropped_rows w + length books, wt_faults := wt_faults w @ [''flush''] \<rparr>))"

definition prune_books :: "f64 \<Rightarrow> f64 \<Rightarrow> watcher \<Rightarrow> nat \<times> watcher" where
  "prune_books retention_hours now w =
     (let cutoff = fsub now (fmul retention_hours 3600); kept = filter (\<lambda>b. \<not> bk_observed_at b < cutoff) (wt_books w)
      in (length (wt_books w) - length kept, w\<lparr> wt_books := kept \<rparr>))"

definition capture_dropped_rows :: "watcher \<Rightarrow> nat" where
  "capture_dropped_rows w = wt_dropped_rows w + cw_dropped (wt_trades w) + cw_overflow_dropped (wt_trades w)"

subsection \<open>Reads\<close>

definition pct :: "nat \<Rightarrow> nat \<Rightarrow> f64 option" where
  "pct numerator denominator =
     (if denominator = 0 then None else Some (py_round 1 (fdiv (fmul 100 (fint (int numerator))) (fint (int denominator)))))"

definition signals_for_series :: "bool \<Rightarrow> string \<Rightarrow> f64 \<Rightarrow> f64 \<Rightarrow> signal_row list \<Rightarrow> signal_row list" where
  "signals_for_series up series since_ts before_ts rows =
     (if up then filter (\<lambda>s. sr_series s = series \<and> sr_seen_at s > since_ts \<and> sr_seen_at s \<le> before_ts \<and> sr_excluded s = 0) rows
      else [])"

text \<open>\<open>like\<close> is SQLite's \<open>LIKE\<close> with the series as its pattern; the series is checked again after it.\<close>

definition trades_for_series ::
  "title_cache \<Rightarrow> (string \<Rightarrow> string \<Rightarrow> bool) \<Rightarrow> bool \<Rightarrow> string \<Rightarrow> f64 \<Rightarrow> f64 \<Rightarrow> trade_row list \<Rightarrow> trade_row list" where
  "trades_for_series tc like up series since_ts before_ts rows =
     (if up then filter (\<lambda>t. series_of tc (tw_ticker t) = series)
        (sort_key tw_timestamp (filter (\<lambda>t. like (series @ ''-%'') (tw_ticker t)
           \<and> tw_timestamp t > fsub since_ts (7 * 86400) \<and> tw_timestamp t \<le> before_ts \<and> tw_excluded t = 0) rows))
      else [])"

definition entries_since :: "f64 \<Rightarrow> trade_row list \<Rightarrow> trade_row list" where
  "entries_since since_ts raw = filter (\<lambda>t. \<not> is_close t \<and> tw_timestamp t > since_ts) raw"

definition history_since :: "f64 \<Rightarrow> trade_row list \<Rightarrow> history_row list option" where
  "history_since since_ts raw = map_option (filter (\<lambda>r. hr_exit_timestamp r > since_ts)) (build_trade_history raw)"


subsection \<open>Funnel\<close>

record funnel =
  fn_observed :: "nat option"
  fn_whale_sized :: "nat option"
  fn_signals :: nat
  fn_resolved :: nat
  fn_correct :: nat
  fn_entries :: nat
  fn_closed :: nat
  fn_won :: nat
  fn_unreadable_side :: "nat option"
  fn_capture_hours :: f64
  fn_capture_pct :: "f64 option"
  fn_signal_accuracy_pct :: "f64 option"
  fn_signal_resolution_pct :: "f64 option"
  fn_realised_win_rate_pct :: "f64 option"
  fn_conversion_pct :: "f64 option"

definition is_resolved :: "signal_row \<Rightarrow> bool" where "is_resolved s \<longleftrightarrow> sr_resolved s \<noteq> 0"
definition is_correct :: "signal_row \<Rightarrow> bool" where
  "is_correct s \<longleftrightarrow> (case sr_correct s of None \<Rightarrow> False | Some c \<Rightarrow> c \<noteq> 0)"

text \<open>
  \<open>prints\<close> are the stored prints, \<open>None\<close> when the store raises. \<open>signals\<close> and \<open>raw\<close> are what the two
  reads gave; \<open>None\<close> is the exception of a close reason that does not parse.
\<close>

definition funnel ::
  "raw_trade list option \<Rightarrow> signal_row list \<Rightarrow> trade_row list \<Rightarrow> string \<Rightarrow> f64 \<Rightarrow> f64 \<Rightarrow> f64 \<Rightarrow> funnel option" where
  "funnel prints signals raw series hours min_contracts now =
     (let since_ts = fsub now (fmul hours 3600);
          window = map_option (filter (\<lambda>t. rt_series t = series \<and> rt_observed_at t > since_ts)) prints;
          counted = map_option (filter (\<lambda>t. \<not> rt_excluded t)) window;
          start = (case counted of None \<Rightarrow> None | Some [] \<Rightarrow> None | Some (t # ts) \<Rightarrow> Some (foldl min (rt_observed_at t) (map rt_observed_at ts)));
          capture_hours = (case start of None \<Rightarrow> 0 | Some st \<Rightarrow> if st = 0 then 0 else fdiv (fsub now st) 3600);
          resolved = filter is_resolved signals; correct = filter is_correct resolved;
          entries = entries_since since_ts raw
      in map_option (\<lambda>history.
           let wins = filter hr_won history in
           \<lparr>fn_observed = map_option length counted,
            fn_whale_sized = (case counted of None \<Rightarrow> None
              | Some ts \<Rightarrow> if ts = [] then None
                  else Some (length (filter (\<lambda>t. case rt_count_fp t of None \<Rightarrow> False | Some c \<Rightarrow> c \<ge> min_contracts) ts))),
            fn_signals = length signals, fn_resolved = length resolved, fn_correct = length correct,
            fn_entries = length entries, fn_closed = length history, fn_won = length wins,
            fn_unreadable_side = map_option (\<lambda>ts. length (filter (\<lambda>t. rt_resolved_side t = None) ts)) window,
            fn_capture_hours = py_round 2 capture_hours,
            fn_capture_pct = (if hours = 0 then None else Some (py_round 1 (min 100 (fdiv (fmul 100 capture_hours) hours)))),
            fn_signal_accuracy_pct = pct (length correct) (length resolved),
            fn_signal_resolution_pct = pct (length resolved) (length signals),
            fn_realised_win_rate_pct = pct (length wins) (length history),
            fn_conversion_pct = pct (length entries) (length signals)\<rparr>) (history_since since_ts raw))"

subsection \<open>Reconciliation\<close>

definition round6 :: "f64 \<Rightarrow> f64" where "round6 = py_round 6"

definition signals_by_key :: "signal_row list \<Rightarrow> (string \<times> f64, signal_row) pdict" where
  "signals_by_key signals = fold (\<lambda>s d. dput (sr_ticker s, round6 (sr_seen_at s)) s d) signals []"

definition signal_of_entry :: "signal_row list \<Rightarrow> trade_row \<Rightarrow> signal_row option" where
  "signal_of_entry signals t =
     (case tw_signal_seen_at t of None \<Rightarrow> None | Some seen \<Rightarrow> dget (signals_by_key signals) (tw_ticker t, round6 seen))"

text \<open>A stop-loss whose latest resolved signal, seen before the entry on the same side, was right.\<close>

definition stopped_but_correct :: "signal_row list \<Rightarrow> history_row \<Rightarrow> bool" where
  "stopped_but_correct resolved r =
     (case hr_entry_timestamp r of None \<Rightarrow> False
      | Some t0 \<Rightarrow>
          (let ms = filter (\<lambda>s. sr_ticker s = hr_ticker r \<and> sr_seen_at s \<le> t0 \<and> sr_side s = side_str (hr_side r)) resolved
           in ms \<noteq> [] \<and> is_correct (List.last ms)))"

definition opt_diff :: "nat \<Rightarrow> f64 option \<Rightarrow> f64 option \<Rightarrow> f64 option" where
  "opt_diff n a b = (case (a, b) of (Some x, Some y) \<Rightarrow> Some (py_round n (fsub x y)) | _ \<Rightarrow> None)"

definition entry_slippage :: "signal_row list \<Rightarrow> trade_row \<Rightarrow> f64 list" where
  "entry_slippage signals t =
     (case signal_of_entry signals t of None \<Rightarrow> []
      | Some s \<Rightarrow> (case sr_price s of None \<Rightarrow> []
          | Some p \<Rightarrow> [fsub (unit_cost (tw_side t) (tw_price t)) (unit_cost (tw_side t) p)]))"

record close_bucket =
  cb_count :: nat
  cb_wins :: nat
  cb_pnl :: f64

definition close_buckets :: "history_row list \<Rightarrow> (close_type option, close_bucket) pdict" where
  "close_buckets history = fold (\<lambda>r d.
     let b = dget_or d (hr_close_type r) \<lparr>cb_count = 0, cb_wins = 0, cb_pnl = 0\<rparr> in
     dput (hr_close_type r) \<lparr>cb_count = cb_count b + 1, cb_wins = cb_wins b + (if hr_won r then 1 else 0),
       cb_pnl = py_round 2 (fadd (cb_pnl b) (case hr_realized_pnl r of None \<Rightarrow> 0 | Some p \<Rightarrow> p))\<rparr> d) history []"

record reconciliation =
  re_signals :: nat
  re_signals_resolved :: nat
  re_signal_accuracy_pct :: "f64 option"
  re_entries :: nat
  re_entries_unjoined :: nat
  re_traded_resolved :: nat
  re_traded_accuracy_pct :: "f64 option"
  re_positions_closed :: nat
  re_realised_win_rate_pct :: "f64 option"
  re_selection_delta_pts :: "f64 option"
  re_exit_delta_pts :: "f64 option"
  re_mean_entry_unit_cost :: "f64 option"
  re_breakeven_accuracy_pct :: "f64 option"
  re_edge_pts :: "f64 option"
  re_stop_losses :: nat
  re_stop_losses_on_correct :: nat
  re_mean_entry_slippage_pts :: "f64 option"
  re_mean_signal_to_entry_sec :: "f64 option"
  re_fees_paid :: f64
  re_fee_drag_pct :: "f64 option"
  re_realised_pnl :: f64
  re_close_types :: "(close_type option, close_bucket) pdict"

definition reconcile_rows ::
  "title_cache \<Rightarrow> signal_row list \<Rightarrow> trade_row list \<Rightarrow> history_row list \<Rightarrow> reconciliation" where
  "reconcile_rows tc signals entries history =
     (let resolved = filter is_resolved signals;
          accuracy = pct (length (filter is_correct resolved)) (length resolved);
          joined = map (signal_of_entry signals) entries;
          traded = concat (map (\<lambda>m. case m of None \<Rightarrow> [] | Some s \<Rightarrow> [s]) joined);
          traded_resolved = filter is_resolved traded;
          traded_accuracy = pct (length (filter is_correct traded_resolved)) (length traded_resolved);
          win_rate = pct (length (filter hr_won history)) (length history);
          unit_costs = map (\<lambda>t. unit_cost (tw_side t) (tw_price t)) entries;
          breakevens = map (\<lambda>t. breakeven_unit_cost tc (unit_cost (tw_side t) (tw_price t)) (Some (tw_ticker t))) entries;
          breakeven = (if breakevens = [] then None
                       else Some (py_round 2 (fdiv (fmul 100 (py_sum breakevens)) (fint (int (length breakevens))))));
          stops = filter (\<lambda>r. hr_close_type r = Some StopLoss) history;
          slippage = concat (map (entry_slippage signals) entries);
          lags = values_present hr_time_to_open_sec history;
          fees = py_sum (map hr_fees_paid history);
          cost_basis = py_sum (filter (\<lambda>x. x \<noteq> 0) (values_present hr_cost_basis history));
          pnl = py_sum (values_present hr_realized_pnl history)
      in \<lparr>re_signals = length signals, re_signals_resolved = length resolved, re_signal_accuracy_pct = accuracy,
          re_entries = length entries, re_entries_unjoined = length (filter (\<lambda>m. m = None) joined),
          re_traded_resolved = length traded_resolved, re_traded_accuracy_pct = traded_accuracy,
          re_positions_closed = length history, re_realised_win_rate_pct = win_rate,
          re_selection_delta_pts = opt_diff 1 traded_accuracy accuracy, re_exit_delta_pts = opt_diff 1 win_rate traded_accuracy,
          re_mean_entry_unit_cost = (if unit_costs = [] then None else Some (py_round 4 (py_mean unit_costs))),
          re_breakeven_accuracy_pct = breakeven, re_edge_pts = opt_diff 1 accuracy breakeven,
          re_stop_losses = length stops, re_stop_losses_on_correct = length (filter (stopped_but_correct resolved) stops),
          re_mean_entry_slippage_pts = (if slippage = [] then None else Some (py_round 2 (fmul (py_mean slippage) 100))),
          re_mean_signal_to_entry_sec = (if lags = [] then None else Some (py_round 2 (py_mean lags))),
          re_fees_paid = py_round 2 fees,
          re_fee_drag_pct = (if cost_basis = 0 then None else Some (py_round 2 (fdiv (fmul 100 fees) cost_basis))),
          re_realised_pnl = py_round 2 pnl, re_close_types = close_buckets history\<rparr>)"

definition reconcile :: "title_cache \<Rightarrow> signal_row list \<Rightarrow> trade_row list \<Rightarrow> f64 \<Rightarrow> f64 \<Rightarrow> reconciliation option" where
  "reconcile tc signals raw hours now =
     (let since_ts = fsub now (fmul hours 3600) in
      map_option (reconcile_rows tc signals (entries_since since_ts raw)) (history_since since_ts raw))"

subsection \<open>The book at entry\<close>

definition nearest_book :: "book_row list \<Rightarrow> trade_row \<Rightarrow> book_row option" where
  "nearest_book books t =
     (case sort_key (\<lambda>b. \<bar>fsub (bk_observed_at b) (tw_timestamp t)\<bar>)
        (filter (\<lambda>b. bk_ticker b = tw_ticker t \<and> fsub (tw_timestamp t) BOOK_MATCH_WINDOW_SEC \<le> bk_observed_at b
           \<and> bk_observed_at b \<le> fadd (tw_timestamp t) BOOK_MATCH_WINDOW_SEC) books) of
        [] \<Rightarrow> None | b # bs \<Rightarrow> Some b)"

definition spread_of :: "book_row \<Rightarrow> f64 list" where
  "spread_of b = (case (bk_yes_bid_dollars b, bk_yes_ask_dollars b) of (Some x, Some y) \<Rightarrow> [fsub y x] | _ \<Rightarrow> [])"

definition depth_ratio :: "trade_row \<Rightarrow> book_row \<Rightarrow> f64 list" where
  "depth_ratio t b =
     (case (if tw_side t = Yes then bk_yes_ask_size_fp b else bk_yes_bid_size_fp b) of
        Some d \<Rightarrow> if d \<noteq> 0 \<and> tw_size t \<noteq> 0 then [fdiv d (fint (tw_size t))] else []
      | None \<Rightarrow> [])"

record book_context =
  bx_entries :: nat
  bx_matched :: nat
  bx_mean_spread_pts :: "f64 option"
  bx_mean_depth_ratio :: "f64 option"
  bx_insufficient_depth :: nat

text \<open>\<open>None\<close> is the answer of unknown: no entries, or no snapshot near any of them.\<close>

definition book_context_at_entry :: "book_row list \<Rightarrow> trade_row list \<Rightarrow> f64 \<Rightarrow> f64 \<Rightarrow> book_context option" where
  "book_context_at_entry books raw hours now =
     (let entries = entries_since (fsub now (fmul hours 3600)) raw;
          found = concat (map (\<lambda>t. case nearest_book books t of None \<Rightarrow> [] | Some b \<Rightarrow> [(t, b)]) entries);
          spreads = concat (map (\<lambda>(t, b). spread_of b) found);
          ratios = concat (map (\<lambda>(t, b). depth_ratio t b) found)
      in if entries = [] \<or> found = [] then None
         else Some \<lparr>bx_entries = length entries, bx_matched = length found,
           bx_mean_spread_pts = (if spreads = [] then None else Some (py_round 2 (fmul (py_mean spreads) 100))),
           bx_mean_depth_ratio = (if ratios = [] then None else Some (py_round 2 (py_mean ratios))),
           bx_insufficient_depth = length (filter (\<lambda>d. d < 1) ratios)\<rparr>)"

subsection \<open>The check\<close>

datatype check_status = CheckUnknown | CheckFail | CheckWarn | CheckOk

definition check_series_funnel :: "reconciliation \<Rightarrow> check_status" where
  "check_series_funnel r =
     (case (re_signal_accuracy_pct r, re_realised_win_rate_pct r) of
        (Some acc, Some win) \<Rightarrow>
          (let gap = py_round 1 (fsub win acc) in
           if (case re_edge_pts r of None \<Rightarrow> False | Some e \<Rightarrow> e < 0) then CheckFail
           else if gap \<le> -15 then CheckFail else if gap \<le> -5 then CheckWarn else CheckOk)
      | _ \<Rightarrow> CheckUnknown)"

end
