(* ===== verification/WatcherFacts.thy ===== *)
theory WatcherFacts
  imports SeriesWatcher
begin

text \<open>
  What the series watcher promises: snapshots of a ticker are spaced by the interval and none is lost
  uncounted, and the reconciliation's parts add up.
\<close>

lemma sum_dput:
  "sum_list (map (f \<circ> snd) (dput k v d)) + (case dget d k of None \<Rightarrow> 0 | Some w \<Rightarrow> f w) = sum_list (map (f \<circ> snd) d) + (f v :: nat)"
  by (induction d) auto

lemma close_buckets_sum: "sum_list (map (cb_count \<circ> snd) (close_buckets history)) = length history"
proof (induction history rule: rev_induct)
  case (snoc r h)
  let ?b = "dget_or (close_buckets h) (hr_close_type r) \<lparr>cb_count = 0, cb_wins = 0, cb_pnl = 0\<rparr>"
  obtain b' where step: "close_buckets (h @ [r]) = dput (hr_close_type r) b' (close_buckets h)" and n: "cb_count b' = cb_count ?b + 1"
    by (simp add: close_buckets_def Let_def)
  have "cb_count ?b = (case dget (close_buckets h) (hr_close_type r) of None \<Rightarrow> 0 | Some w \<Rightarrow> cb_count w)"
    by (simp add: dget_or_def split: option.split)
  then show ?case using snoc sum_dput [where f = cb_count and k = "hr_close_type r" and d = "close_buckets h" and v = b'] n
    unfolding step by (simp add: comp_def)
qed (simp add: close_buckets_def)

lemma joined_split: "length (concat (map (\<lambda>m. case m of None \<Rightarrow> [] | Some s \<Rightarrow> [s]) ms)) + length (filter (\<lambda>m. m = None) ms) = length ms"
  by (induction ms) (auto split: option.split)

text \<open>
  In a reconciliation the resolved traded signals are among the entries joined to a signal, joined
  and unjoined entries are the entries, stop-losses on correct signals are among the stop-losses, and
  the close types add up to the closed positions.
\<close>
theorem reconciliation_adds_up:
  "re_traded_resolved (reconcile_rows tc signals entries history) + re_entries_unjoined (reconcile_rows tc signals entries history)
     \<le> re_entries (reconcile_rows tc signals entries history)
   \<and> re_signals_resolved (reconcile_rows tc signals entries history) \<le> re_signals (reconcile_rows tc signals entries history)
   \<and> re_stop_losses_on_correct (reconcile_rows tc signals entries history) \<le> re_stop_losses (reconcile_rows tc signals entries history)
   \<and> sum_list (map (cb_count \<circ> snd) (re_close_types (reconcile_rows tc signals entries history)))
       = re_positions_closed (reconcile_rows tc signals entries history)"
proof -
  have "length (filter P (concat (map (\<lambda>m. case m of None \<Rightarrow> [] | Some s \<Rightarrow> [s]) ms))) + length (filter (\<lambda>m. m = None) ms) \<le> length ms"
    for P :: "signal_row \<Rightarrow> bool" and ms
    using joined_split [of ms] length_filter_le [of P "concat (map (\<lambda>m. case m of None \<Rightarrow> [] | Some s \<Rightarrow> [s]) ms)"] by linarith
  note this [of is_resolved "map (signal_of_entry signals) entries"]
  moreover have "length (filter (stopped_but_correct (filter is_resolved signals)) (filter (\<lambda>r. hr_close_type r = Some StopLoss) history))
      \<le> length (filter (\<lambda>r. hr_close_type r = Some StopLoss) history)"
    by (rule length_filter_le)
  ultimately show ?thesis by (simp add: reconcile_rows_def Let_def close_buckets_sum)
qed

subsection \<open>Snapshots\<close>

text \<open>The snapshots taken by a run of updates, flushes and prunes, newest last.\<close>

datatype watch_op =
    Book f64 msg
  | FlushBooks bool
  | PruneBooks f64 f64

definition watch_step :: "title_cache \<Rightarrow> (string \<Rightarrow> f64 option) \<Rightarrow> msg \<Rightarrow> watch_op \<Rightarrow> watcher \<Rightarrow> watcher" where
  "watch_step tc iso_ts cfg op w = (case op of
       Book now m \<Rightarrow> snd (record_book tc iso_ts cfg now m w)
     | FlushBooks up \<Rightarrow> snd (flush_books up w)
     | PruneBooks hours now \<Rightarrow> snd (prune_books hours now w))"

fun snapshots :: "title_cache \<Rightarrow> (string \<Rightarrow> f64 option) \<Rightarrow> msg \<Rightarrow> watch_op list \<Rightarrow> watcher \<Rightarrow> (string \<times> f64) list" where
  "snapshots tc iso_ts cfg [] w = []"
| "snapshots tc iso_ts cfg (op # ops) w =
     (case op of Book now m \<Rightarrow>
        if fst (fst (record_book tc iso_ts cfg now m w))
        then (case jor (jget m ''market_ticker'') (jget m ''ticker'') of JStr t \<Rightarrow> [(t, now)] | _ \<Rightarrow> []) else []
      | _ \<Rightarrow> [])
     @ snapshots tc iso_ts cfg ops (watch_step tc iso_ts cfg op w)"

definition book_interval :: "msg \<Rightarrow> f64 \<Rightarrow> bool" where
  "book_interval cfg i \<longleftrightarrow> (case dget (cfg_section cfg) ''book_snapshot_interval_sec'' of
     None \<Rightarrow> Some DEFAULT_BOOK_INTERVAL_SEC | Some v \<Rightarrow> py_float v) = Some i"

text \<open>Each snapshot of a ticker comes at least the interval after the one before it.\<close>

fun spaced_by :: "f64 \<Rightarrow> f64 option \<Rightarrow> f64 list \<Rightarrow> bool" where
  "spaced_by i prev [] \<longleftrightarrow> True"
| "spaced_by i prev (x # xs) \<longleftrightarrow> (case prev of None \<Rightarrow> True | Some p \<Rightarrow> fsub x p \<ge> i) \<and> spaced_by i (Some x) xs"

lemma record_book_accepts:
  assumes "fst (fst (record_book tc iso_ts cfg now m w))" "book_interval cfg i"
  obtains t where "jor (jget m ''market_ticker'') (jget m ''ticker'') = JStr t"
    "case dget (wt_last_book_write w) t of None \<Rightarrow> True | Some p \<Rightarrow> fsub now p \<ge> i"
    "wt_last_book_write (snd (record_book tc iso_ts cfg now m w)) = dput t now (wt_last_book_write w)"
proof -
  obtain t where t: "jor (jget m ''market_ticker'') (jget m ''ticker'') = JStr t"
    using assms(1) by (auto simp: record_book_def Let_def split: json.splits if_splits)
  show ?thesis
    by (rule that [OF t])
      (use assms t in \<open>auto simp: record_book_def book_interval_def Let_def split: if_splits option.splits\<close>)
qed

lemma record_book_refuses:
  "\<not> fst (fst (record_book tc iso_ts cfg now m w))
    \<Longrightarrow> wt_last_book_write (snd (record_book tc iso_ts cfg now m w)) = wt_last_book_write w"
  by (auto simp: record_book_def Let_def split: json.splits option.splits if_splits)

lemma other_ops_keep_marks:
  "wt_last_book_write (snd (flush_books up w)) = wt_last_book_write w"
  "wt_last_book_write (snd (prune_books hours now w)) = wt_last_book_write w"
  by (simp_all add: flush_books_def prune_books_def Let_def)

text \<open>
  Whatever arrives, and however flushes and prunes fall in between, the snapshots of a ticker are
  at least the configured interval apart.
\<close>
theorem snapshots_are_spaced:
  assumes "book_interval cfg i"
  shows "spaced_by i (dget (wt_last_book_write w) t) (map snd (filter (\<lambda>(t', x). t' = t) (snapshots tc iso_ts cfg ops w)))"
proof (induction ops arbitrary: w)
  case (Cons op ops)
  note ih = Cons.IH [of "watch_step tc iso_ts cfg op w"]
  show ?case
  proof (cases op)
    case (Book now m)
    show ?thesis
    proof (cases "fst (fst (record_book tc iso_ts cfg now m w))")
      case True
      then obtain u where u: "jor (jget m ''market_ticker'') (jget m ''ticker'') = JStr u"
        "case dget (wt_last_book_write w) u of None \<Rightarrow> True | Some p \<Rightarrow> fsub now p \<ge> i"
        "wt_last_book_write (snd (record_book tc iso_ts cfg now m w)) = dput u now (wt_last_book_write w)"
        using assms by (rule record_book_accepts)
      have w': "wt_last_book_write (watch_step tc iso_ts cfg op w) = dput u now (wt_last_book_write w)"
        by (simp add: watch_step_def Book u(3))
      show ?thesis using ih u(2) unfolding w' by (cases "u = t") (simp_all add: Book True u(1))
    next
      case False
      have "wt_last_book_write (watch_step tc iso_ts cfg op w) = wt_last_book_write w"
        by (simp add: watch_step_def Book record_book_refuses [OF False])
      then show ?thesis using ih False by (simp add: Book)
    qed
  next
    case (FlushBooks up)
    then show ?thesis using ih by (simp add: watch_step_def other_ops_keep_marks)
  next
    case (PruneBooks hours now)
    then show ?thesis using ih by (simp add: watch_step_def other_ops_keep_marks)
  qed
qed simp

definition idle_watcher :: watcher where
  "idle_watcher = \<lparr>wt_last_book_write = [], wt_book_buffer = [], wt_dropped_rows = 0, wt_quarantine = None,
     wt_trades = init_store [] 0, wt_books = [], wt_faults = []\<rparr>"

theorem snapshots_are_spaced_witness:
  "spaced_by 5 None (map snd (filter (\<lambda>(t', x). t' = ''KXBTC15M-A'')
     (snapshots empty_title_cache (\<lambda>s. None) [] [Book 1 [(''ticker'', JStr ''KXBTC15M-A'')], Book 3 [(''ticker'', JStr ''KXBTC15M-A'')],
        FlushBooks False, Book 7 [(''ticker'', JStr ''KXBTC15M-A'')]] idle_watcher)))"
proof -
  have i: "book_interval [] 5" by (simp add: book_interval_def cfg_section_def jget_def DEFAULT_BOOK_INTERVAL_SEC_def)
  have n: "dget (wt_last_book_write idle_watcher) ''KXBTC15M-A'' = None" by (simp add: idle_watcher_def)
  show ?thesis using snapshots_are_spaced [OF i, of idle_watcher "''KXBTC15M-A''"] unfolding n .
qed

end
