(* ===== verification/StreamHandlers.thy ===== *)
theory StreamHandlers
  imports SettlementResolver Contracts
begin

text \<open>
  \<open>services/whale_stream/whale_stream_handlers.py\<close>, with the snapshot of
  \<open>services/position/account_positions.py\<close>: what a trade, ticker, fill, position and lifecycle message
  does to the shared state, and the trade tape read over REST. A handler returns the calls it makes
  into the other components, in order, beside the state it leaves; those components are modelled in
  their own theories. Clock readings, the provider's signals and the exchange's answers are arguments.
\<close>

definition TRADE_TAPE_UI_CAP :: nat where "TRADE_TAPE_UI_CAP = 100"
definition TRADE_TAPE_MAX_PAGES_PER_TICKER :: nat where "TRADE_TAPE_MAX_PAGES_PER_TICKER = 50"
definition ACCOUNT_SNAPSHOT_REFRESH_SEC :: f64 where "ACCOUNT_SNAPSHOT_REFRESH_SEC = 20"

datatype stream_call =
    CaptureTrade msg
  | HandleSignal msg f64
  | CheckExits f64
  | CaptureBook msg f64
  | FlushCapture
  | TickerSnapshot string "f64 option" "f64 option" f64 json f64
  | CheckPendingFills f64
  | ReviewNetting f64
  | CatalogUpdate string "f64 option" "string option"

record lifecycle_stats =
  lc_events_by_type :: "(string, nat) pdict"
  lc_last_event_at :: f64
  lc_close_time_updates :: nat
  lc_catalog_updates :: nat

record app_stream =
  as_trade_tape :: "msg list"
  as_trade_tape_at :: f64
  as_generation :: nat
  as_running :: bool
  as_latest_prices :: "(string, f64) pdict"
  as_prices_at :: "(string, f64) pdict"
  as_latest_asks :: "(string, f64) pdict"
  as_asks_at :: "(string, f64) pdict"
  as_open_tickers :: "string list"
  as_open_seen_at :: "(string, f64) pdict"
  as_markets :: "msg list"
  as_signal_feed :: "msg list"
  as_last_trade_exit_at :: f64
  as_last_ticker_exit_at :: f64
  as_connected :: bool
  as_fills :: "msg list"
  as_positions :: "msg list"
  as_lifecycle :: lifecycle_stats
  as_resolver :: resolver

definition bump_generation :: "app_stream \<Rightarrow> app_stream" where
  "bump_generation s = s\<lparr> as_generation := as_generation s + 1 \<rparr>"

definition kalshi_interval :: "msg \<Rightarrow> string \<Rightarrow> f64 option" where
  "kalshi_interval cfg key =
     (case (if truthy (jget cfg ''kalshi'') then jget cfg ''kalshi'' else JObj []) of
        JObj d \<Rightarrow> (case dget d key of None \<Rightarrow> Some 2 | Some v \<Rightarrow> py_float v) | _ \<Rightarrow> None)"

subsection \<open>Trades\<close>

text \<open>
  \<open>_process_stream_trade\<close>: \<open>signals\<close> is the provider's answer. The exit check follows the signals, at
  most once per interval; an interval that is no number raises after them (the state as it is then).
\<close>

definition process_stream_trade :: "msg \<Rightarrow> bool \<Rightarrow> msg list \<Rightarrow> f64 \<Rightarrow> f64 \<Rightarrow> msg \<Rightarrow> app_stream \<Rightarrow> stream_call list \<times> app_stream" where
  "process_stream_trade cfg streaming signals t0 now trade s =
     (if \<not> truthy (jget trade ''trade_id'') then ([], s)
      else let s1 = s\<lparr> as_trade_tape := take TRADE_TAPE_UI_CAP (trade # as_trade_tape s), as_trade_tape_at := t0 \<rparr> in
        if \<not> as_running s \<or> \<not> streaming \<or> signals = [] then ([CaptureTrade trade], bump_generation s1)
        else let calls = CaptureTrade trade # map (\<lambda>x. HandleSignal x now) signals in
          case kalshi_interval cfg ''trade_exit_check_min_interval_sec'' of
            None \<Rightarrow> (calls, s1)
          | Some i \<Rightarrow>
              if fsub now (as_last_trade_exit_at s) \<ge> i
              then (calls @ [CheckExits now], bump_generation (s1\<lparr> as_last_trade_exit_at := now \<rparr>))
              else (calls, bump_generation s1))"

subsection \<open>Tickers\<close>

definition ticker_bid :: "msg \<Rightarrow> f64 option" where
  "ticker_bid m = (case parse_fixed_point_dollars (jget m ''yes_bid_dollars'') of
      Some p \<Rightarrow> Some p | None \<Rightarrow> parse_fixed_point_dollars (jget m ''price_dollars''))"

definition note_prices :: "string \<Rightarrow> f64 \<Rightarrow> msg \<Rightarrow> app_stream \<Rightarrow> app_stream" where
  "note_prices ticker now m s =
     (let s1 = (case ticker_bid m of None \<Rightarrow> s
          | Some p \<Rightarrow> s\<lparr> as_latest_prices := dput ticker p (as_latest_prices s), as_prices_at := dput ticker now (as_prices_at s) \<rparr>);
          ask = jget m ''yes_ask_dollars''
      in if ask = JNull \<or> ask = JStr [] then s1
         else case py_float ask of None \<Rightarrow> s1
           | Some a \<Rightarrow> s1\<lparr> as_latest_asks := dput ticker a (as_latest_asks s1), as_asks_at := dput ticker now (as_asks_at s1) \<rparr>)"

fun update_market :: "string \<Rightarrow> (msg \<Rightarrow> msg) \<Rightarrow> msg list \<Rightarrow> msg option \<times> msg list" where
  "update_market ticker f [] = (None, [])"
| "update_market ticker f (m # ms) =
     (if jget m ''ticker'' = JStr ticker then (Some (f m), f m # ms)
      else case update_market ticker f ms of (r, ms') \<Rightarrow> (r, m # ms'))"

definition message_spread :: "msg \<Rightarrow> f64 option" where
  "message_spread m =
     (let bid = jget m ''yes_bid_dollars''; ask = jget m ''yes_ask_dollars'' in
      if bid = JNull \<or> ask = JNull then None
      else case (py_float ask, py_float bid) of (Some a, Some b) \<Rightarrow> Some (max (fsub a b) 0) | _ \<Rightarrow> None)"

text \<open>
  \<open>_process_stream_ticker\<close>: \<open>flush_due\<close> is what \<open>record_book\<close> answers. A stored volume that is no number
  raises at the snapshot, an interval that is no number at the exit check; the calls made by then
  stay made, and the first component of the result is then \<open>False\<close>.
\<close>

definition ticker_tail :: "msg \<Rightarrow> f64 \<Rightarrow> stream_call list \<Rightarrow> app_stream \<Rightarrow> bool \<times> stream_call list \<times> app_stream" where
  "ticker_tail cfg now calls s =
     (if \<not> as_running s then (True, calls, bump_generation s)
      else case kalshi_interval cfg ''ticker_exit_check_min_interval_sec'' of
          None \<Rightarrow> (False, calls, s)
        | Some i \<Rightarrow>
            if fsub now (as_last_ticker_exit_at s) \<ge> i
            then (True, calls @ (if as_signal_feed s \<noteq> [] then [CheckExits now] else []) @ [CheckPendingFills now, ReviewNetting now],
                  bump_generation (s\<lparr> as_last_ticker_exit_at := now \<rparr>))
            else (True, calls, bump_generation s))"

definition process_stream_ticker ::
  "msg \<Rightarrow> bool \<Rightarrow> f64 \<Rightarrow> f64 \<Rightarrow> msg \<Rightarrow> app_stream \<Rightarrow> bool \<times> stream_call list \<times> app_stream" where
  "process_stream_ticker cfg flush_due' t0 now m s =
     (case jget m ''ticker'' of
        JStr ticker \<Rightarrow>
          if ticker = [] then (True, [], s)
          else let s1 = (if ticker \<in> set (as_open_tickers s) then s\<lparr> as_open_seen_at := dput ticker t0 (as_open_seen_at s) \<rparr> else s);
                   calls = CaptureBook m now # (if flush_due' then [FlushCapture] else []);
                   s2 = note_prices ticker now m s1;
                   (matched, markets) = update_market ticker (dput ''yes_ask_dollars'' (jget m ''yes_ask_dollars'')) (as_markets s2);
                   s3 = s2\<lparr> as_markets := markets \<rparr>
            in (case matched of
                  None \<Rightarrow> ticker_tail cfg now calls s3
                | Some mk \<Rightarrow>
                    (case py_float (jor (jget mk ''volume_24h_fp'') (JFloat 0)) of
                       None \<Rightarrow> (False, calls, s3)
                     | Some v \<Rightarrow> ticker_tail cfg now (calls @ [TickerSnapshot ticker (dget (as_latest_prices s3) ticker)
                         (message_spread m) v (jget mk ''close_time'') now]) s3))
      | _ \<Rightarrow> (True, [], s))"

subsection \<open>Account\<close>

definition slim :: "string list \<Rightarrow> msg \<Rightarrow> msg" where "slim names m = map (\<lambda>k. (k, jget m k)) names"

definition POSITION_FIELDS :: "string list" where
  "POSITION_FIELDS = [''ticker'', ''position_fp'', ''market_exposure_dollars'', ''realized_pnl_dollars'', ''fees_paid_dollars'',
     ''total_traded_dollars'', ''last_updated_ts'', ''market_ticker'', ''exchange_index'']"

definition FILL_FIELDS :: "string list" where
  "FILL_FIELDS = [''ticker'', ''market_ticker'', ''side'', ''action'', ''count_fp'', ''yes_price_dollars'', ''no_price_dollars'',
     ''created_time'', ''fee_cost'', ''is_taker'', ''fill_id'', ''order_id'', ''trade_id'', ''exchange_index'']"

definition process_stream_fill :: "msg \<Rightarrow> app_stream \<Rightarrow> app_stream" where
  "process_stream_fill m s =
     (if \<not> as_connected s then s
      else let fill = slim FILL_FIELDS m in
        if \<not> truthy (jget fill ''trade_id'') then s
        else if list_ex (\<lambda>f. jget f ''trade_id'' = jget fill ''trade_id'') (as_fills s) then s
        else bump_generation (s\<lparr> as_fills := take 50 (fill # as_fills s) \<rparr>))"

fun put_position :: "msg \<Rightarrow> msg list \<Rightarrow> msg list" where
  "put_position p [] = [p]"
| "put_position p (q # ps) = (if jget q ''ticker'' = jget p ''ticker'' then p # ps else q # put_position p ps)"

definition process_stream_position :: "msg \<Rightarrow> app_stream \<Rightarrow> app_stream" where
  "process_stream_position m s =
     (if \<not> as_connected s then s
      else let p = slim POSITION_FIELDS m in
        if \<not> truthy (jget p ''ticker'') then s
        else bump_generation (s\<lparr> as_positions := put_position p (as_positions s) \<rparr>))"

subsection \<open>Lifecycle\<close>

text \<open>
  \<open>int_of\<close> is \<open>int(x)\<close>, \<open>iso\<close> the ISO text of a timestamp (\<open>None\<close> where they raise); \<open>in_catalog\<close> says
  whether the catalog has the ticker. A settlement time that is no number raises before it is queued.
\<close>

definition count_catalog :: "bool \<Rightarrow> app_stream \<Rightarrow> app_stream" where
  "count_catalog hit s = (if hit then s\<lparr> as_lifecycle := (as_lifecycle s)\<lparr> lc_catalog_updates := lc_catalog_updates (as_lifecycle s) + 1 \<rparr> \<rparr> else s)"

definition process_stream_lifecycle ::
  "(json \<Rightarrow> int option) \<Rightarrow> (int \<Rightarrow> string option) \<Rightarrow> bool \<Rightarrow> f64 \<Rightarrow> msg \<Rightarrow> app_stream \<Rightarrow> stream_call list \<times> app_stream" where
  "process_stream_lifecycle int_of iso_text in_catalog now m s =
     (case (jget m ''event_type'', jget m ''ticker'') of
        (JStr event_type, JStr ticker) \<Rightarrow>
          if event_type = [] \<or> ticker = [] then ([], s)
          else let st = as_lifecycle s;
                   s1 = s\<lparr> as_lifecycle := st\<lparr> lc_events_by_type := bump event_type (lc_events_by_type st), lc_last_event_at := now \<rparr> \<rparr>
            in if event_type = ''close_date_updated'' then
                 (case (jget m ''close_ts'', int_of (jget m ''close_ts'')) of
                    (JNull, _) \<Rightarrow> ([], s1)
                  | (_, None) \<Rightarrow> ([], s1)
                  | (v, Some n) \<Rightarrow>
                      (case iso_text n of None \<Rightarrow> ([], s1)
                       | Some close_time \<Rightarrow>
                           (let (hit, markets) = update_market ticker (dput ''close_time'' (JStr close_time)) (as_markets s1);
                                s2 = s1\<lparr> as_markets := markets \<rparr>;
                                s3 = (if hit = None then s2 else bump_generation (s2\<lparr> as_lifecycle := (as_lifecycle s2)
                                   \<lparr> lc_close_time_updates := lc_close_time_updates (as_lifecycle s2) + 1 \<rparr> \<rparr>))
                            in ([CatalogUpdate ticker (py_float v) None], count_catalog in_catalog s3))))
               else if event_type = ''determined'' then ([CatalogUpdate ticker None (Some ''determined'')], count_catalog in_catalog s1)
               else if event_type = ''settled'' then
                 (let s2 = count_catalog in_catalog s1 in
                  ([CatalogUpdate ticker None (Some ''finalized'')],
                   if jget m ''settled_ts'' \<noteq> JNull \<and> py_float (jget m ''settled_ts'') = None then s2
                   else s2\<lparr> as_resolver := enqueue_settlement ticker (py_float (jget m ''settled_ts'')) now (as_resolver s2) \<rparr>))
               else ([], s1)
      | _ \<Rightarrow> ([], s))"


subsection \<open>The account snapshot of a tick\<close>

record account_snapshot =
  sn_connected :: bool
  sn_market_positions :: "msg list"
  sn_fills :: "msg list"

text \<open>
  \<open>_fetch_account_snapshot\<close>: \<open>rest\<close> is what the three reads give, \<open>None\<close> when one raises; an error
  snapshot has neither positions nor fills. A fresh read is returned as the very object the cache
  keeps, a cached one as a copy of it: the second component says that the result is the cached object.
\<close>

definition fetch_account_snapshot ::
  "bool \<Rightarrow> (msg list \<times> msg list) option \<Rightarrow> f64 \<Rightarrow> (f64 \<times> account_snapshot) option
     \<Rightarrow> account_snapshot \<times> bool \<times> (f64 \<times> account_snapshot) option" where
  "fetch_account_snapshot enabled rest now cache =
     (let fetched = (case rest of
            None \<Rightarrow> (\<lparr>sn_connected = True, sn_market_positions = [], sn_fills = []\<rparr>, False, cache)
          | Some (ps, fs) \<Rightarrow>
              (let sn = \<lparr>sn_connected = True, sn_market_positions = map (slim POSITION_FIELDS) ps, sn_fills = map (slim FILL_FIELDS) fs\<rparr>
               in (sn, True, Some (now, sn))))
      in if \<not> enabled then (\<lparr>sn_connected = False, sn_market_positions = [], sn_fills = []\<rparr>, False, cache)
         else case cache of
             Some (at_, sn) \<Rightarrow> if fsub now at_ < ACCOUNT_SNAPSHOT_REFRESH_SEC then (sn, False, cache) else fetched
           | None \<Rightarrow> fetched)"

text \<open>
  The account the program shows: \<open>av_shared\<close> says that it is the object in the cache, so that what a
  handler writes into it is written into the cache too.
\<close>

record account_view =
  av_cache :: "(f64 \<times> account_snapshot) option"
  av_shared :: bool
  av_app :: app_stream

definition snapshot_of :: "app_stream \<Rightarrow> account_snapshot" where
  "snapshot_of s = \<lparr>sn_connected = as_connected s, sn_market_positions = as_positions s, sn_fills = as_fills s\<rparr>"

definition account_write :: "(app_stream \<Rightarrow> app_stream) \<Rightarrow> account_view \<Rightarrow> account_view" where
  "account_write f v =
     (let s = f (av_app v)
      in v\<lparr> av_app := s, av_cache := (if av_shared v then map_option (\<lambda>(t, _). (t, snapshot_of s)) (av_cache v) else av_cache v) \<rparr>)"

definition tick_account :: "bool \<Rightarrow> (msg list \<times> msg list) option \<Rightarrow> f64 \<Rightarrow> account_view \<Rightarrow> account_view" where
  "tick_account enabled rest now v =
     (case fetch_account_snapshot enabled rest now (av_cache v) of
        (sn, shared, cache) \<Rightarrow>
          \<lparr>av_cache = cache, av_shared = shared,
           av_app = (av_app v)\<lparr> as_connected := sn_connected sn, as_positions := sn_market_positions sn, as_fills := sn_fills sn \<rparr>\<rparr>)"

datatype account_event = StreamFill msg | StreamPosition msg | Tick bool "(msg list \<times> msg list) option" f64

fun account_step :: "account_event \<Rightarrow> account_view \<Rightarrow> account_view" where
  "account_step (StreamFill m) v = account_write (process_stream_fill m) v"
| "account_step (StreamPosition m) v = account_write (process_stream_position m) v"
| "account_step (Tick enabled rest now) v = tick_account enabled rest now v"

subsection \<open>The trade tape over REST\<close>

text \<open>\<open>answer k\<close> is the \<open>k\<close>th page and whether a cursor came with it, \<open>None\<close> when the read raises.\<close>

fun fetch_pages :: "(nat \<Rightarrow> (msg list \<times> bool) option) \<Rightarrow> nat \<Rightarrow> nat \<Rightarrow> msg list option" where
  "fetch_pages answer k 0 = Some []"
| "fetch_pages answer k (Suc n) =
     (case answer k of
        None \<Rightarrow> None
      | Some (page, cursor) \<Rightarrow>
          if \<not> cursor \<or> page = [] then Some page else map_option ((@) page) (fetch_pages answer (k + 1) n))"

definition fetch_trades_for_ticker :: "bool \<Rightarrow> (nat \<Rightarrow> (msg list \<times> bool) option) \<Rightarrow> msg list option" where
  "fetch_trades_for_ticker since answer =
     (if \<not> since then map_option fst (answer 0) else fetch_pages answer 0 TRADE_TAPE_MAX_PAGES_PER_TICKER)"

definition created_text :: "msg \<Rightarrow> string" where
  "created_text t = (case jor (jget t ''created_time'') (JStr []) of JStr x \<Rightarrow> x | _ \<Rightarrow> [])"

text \<open>A reversed stable sort keeps the order of equal keys.\<close>

definition fetch_trade_tape :: "bool \<Rightarrow> (string \<Rightarrow> nat \<Rightarrow> (msg list \<times> bool) option) \<Rightarrow> msg list \<Rightarrow> msg list" where
  "fetch_trade_tape since answer markets =
     (let tickers = concat (map (\<lambda>m. case jget m ''ticker'' of JStr t \<Rightarrow> if t = [] then [] else [t] | _ \<Rightarrow> []) markets);
          trades = concat (map (\<lambda>t. case fetch_trades_for_ticker since (answer t) of None \<Rightarrow> [] | Some ts \<Rightarrow> ts) tickers)
      in rev (sort_key created_text (rev trades)))"

subsection \<open>Handler timing\<close>

record trade_perf =
  tp_window_start :: f64
  tp_messages :: nat
  tp_fetch_calls :: nat
  tp_handler_total :: f64
  tp_fetch_signals :: f64
  tp_report :: "(f64 \<times> f64 \<times> f64 \<times> f64 \<times> f64) option"

definition record_trade_perf :: "f64 \<Rightarrow> f64 option \<Rightarrow> f64 \<Rightarrow> trade_perf \<Rightarrow> trade_perf" where
  "record_trade_perf handler_elapsed fetch_elapsed now p =
     (let messages = tp_messages p + 1; total_s = fadd (tp_handler_total p) handler_elapsed;
          calls = tp_fetch_calls p + (case fetch_elapsed of None \<Rightarrow> 0 | Some e \<Rightarrow> 1);
          fetch_s = (case fetch_elapsed of None \<Rightarrow> tp_fetch_signals p | Some e \<Rightarrow> fadd (tp_fetch_signals p) e);
          window = fsub now (tp_window_start p)
      in if window < 1
         then p\<lparr> tp_messages := messages, tp_handler_total := total_s, tp_fetch_calls := calls, tp_fetch_signals := fetch_s \<rparr>
         else \<lparr>tp_window_start = now, tp_messages = 0, tp_fetch_calls = 0, tp_handler_total = 0, tp_fetch_signals = 0,
           tp_report = Some (py_round 2 window, py_round 1 (fdiv (fint (int messages)) window),
             py_round 3 (fmul (fdiv total_s (fint (int messages))) 1000),
             py_round 1 (fdiv (fint (int calls)) window),
             if calls = 0 then 0 else py_round 3 (fmul (fdiv fetch_s (fint (int calls))) 1000))\<rparr>)"

end
