(* ===== verification/HandlerFacts.thy ===== *)
theory HandlerFacts
  imports StreamHandlers
begin

text \<open>
  What the stream handlers promise: exit checks are spaced, the account shown stays well formed, a
  streamed fill that is shown on a copy of the cached account is lost at the next tick, and the trade
  tape reads a ticker's pages until they end.
\<close>

subsection \<open>Exit checks\<close>

type_synonym trade_event = "msg list \<times> f64 \<times> f64 \<times> msg"

primrec run_trades :: "msg \<Rightarrow> bool \<Rightarrow> trade_event list \<Rightarrow> app_stream \<Rightarrow> stream_call list \<times> app_stream" where
  "run_trades cfg streaming [] s = ([], s)"
| "run_trades cfg streaming (e # es) s =
     (case e of (signals, t0, now, trade) \<Rightarrow>
        (case process_stream_trade cfg streaming signals t0 now trade s of
           (calls, s') \<Rightarrow> (case run_trades cfg streaming es s' of (calls', s'') \<Rightarrow> (calls @ calls', s''))))"

definition exit_times :: "stream_call list \<Rightarrow> f64 list" where
  "exit_times calls = concat (map (\<lambda>c. case c of CheckExits t \<Rightarrow> [t] | _ \<Rightarrow> []) calls)"

lemma exit_times_simps [simp]:
  "exit_times [] = []"
  "exit_times (c # cs) = (case c of CheckExits t \<Rightarrow> [t] | _ \<Rightarrow> []) @ exit_times cs"
  "exit_times (cs @ ds) = exit_times cs @ exit_times ds"
  "exit_times (map (\<lambda>x. HandleSignal x now) xs) = []"
  by (auto simp: exit_times_def comp_def)

lemma trade_exit_step:
  assumes "kalshi_interval cfg ''trade_exit_check_min_interval_sec'' = Some i"
    and "process_stream_trade cfg streaming signals t0 now trade s = (calls, s')"
  shows "exit_times calls = [] \<and> as_last_trade_exit_at s' = as_last_trade_exit_at s
    \<or> exit_times calls = [now] \<and> as_last_trade_exit_at s' = now \<and> fsub now (as_last_trade_exit_at s) \<ge> i"
  using assms by (auto simp: process_stream_trade_def bump_generation_def Let_def split: if_splits)

text \<open>
  Over any run of trades the exit checks they trigger are spaced by the configured interval, the
  first from the last one before the run.
\<close>
theorem exit_checks_are_spaced:
  assumes "kalshi_interval cfg ''trade_exit_check_min_interval_sec'' = Some i"
  shows "successively (\<lambda>a b. fsub b a \<ge> i) (as_last_trade_exit_at s # exit_times (fst (run_trades cfg streaming es s)))"
proof (induction es arbitrary: s)
  case (Cons e es)
  obtain signals t0 now trade where e: "e = (signals, t0, now, trade)" by (cases e)
  obtain calls s' where step: "process_stream_trade cfg streaming signals t0 now trade s = (calls, s')" by fastforce
  show ?case using trade_exit_step [OF assms step] Cons.IH [of s']
    by (auto simp: e step split: prod.split)
qed simp

definition trade_state0 :: app_stream where
  "trade_state0 = \<lparr>as_trade_tape = [], as_trade_tape_at = 0, as_generation = 0, as_running = True, as_latest_prices = [], as_prices_at = [],
     as_latest_asks = [], as_asks_at = [], as_open_tickers = [], as_open_seen_at = [], as_markets = [], as_signal_feed = [],
     as_last_trade_exit_at = 0, as_last_ticker_exit_at = 0, as_connected = True, as_fills = [], as_positions = [],
     as_lifecycle = \<lparr>lc_events_by_type = [], lc_last_event_at = 0, lc_close_time_updates = 0, lc_catalog_updates = 0\<rparr>,
     as_resolver = init_resolver\<rparr>"

theorem exit_checks_are_spaced_witness:
  "successively (\<lambda>a b. fsub b a \<ge> 2) (as_last_trade_exit_at trade_state0 # exit_times (fst (run_trades [] True
     [([[]], 10, 10, [(''trade_id'', JStr ''a'')]), ([[]], 11, 11, [(''trade_id'', JStr ''b'')])] trade_state0)))"
  by (rule exit_checks_are_spaced) (simp add: kalshi_interval_def jget_def)

subsection \<open>The account\<close>

lemma jget_slim [simp]: "k \<in> set names \<Longrightarrow> jget (slim names m) k = jget m k"
proof (induction names)
  case (Cons n ns)
  then show ?case by (auto simp: slim_def jget_def dget_or_def)
qed simp

definition account_ok :: "msg list \<Rightarrow> msg list \<Rightarrow> bool" where
  "account_ok positions fills =
     (length fills \<le> 50 \<and> distinct (map (\<lambda>f. jget f ''trade_id'') fills) \<and> distinct (map (\<lambda>p. jget p ''ticker'') positions))"

definition view_ok :: "account_view \<Rightarrow> bool" where
  "view_ok v = (account_ok (as_positions (av_app v)) (as_fills (av_app v))
     \<and> (case av_cache v of None \<Rightarrow> True | Some (t, sn) \<Rightarrow> account_ok (sn_market_positions sn) (sn_fills sn)))"

definition event_ok :: "account_event \<Rightarrow> bool" where
  "event_ok e = (case e of Tick enabled (Some (ps, fs)) now \<Rightarrow> account_ok ps fs | _ \<Rightarrow> True)"

lemma put_position_keys:
  "set (map (\<lambda>p. jget p k) (put_position p ps)) \<subseteq> insert (jget p k) (set (map (\<lambda>p. jget p k) ps))"
  by (induction ps) auto

lemma put_position_distinct:
  "distinct (map (\<lambda>p. jget p ''ticker'') ps) \<Longrightarrow> distinct (map (\<lambda>p. jget p ''ticker'') (put_position p ps))"
proof (induction ps)
  case (Cons q ps)
  then show ?case using put_position_keys [of "''ticker''" p ps] by (auto simp: image_iff) 
qed simp

lemma distinct_take_map: "distinct (map f xs) \<Longrightarrow> distinct (map f (take n xs))"
  by (metis distinct_take take_map)

lemma fill_keeps_account: "account_ok (as_positions s) (as_fills s)
  \<Longrightarrow> account_ok (as_positions (process_stream_fill m s)) (as_fills (process_stream_fill m s))"
  by (auto simp: account_ok_def process_stream_fill_def bump_generation_def Let_def list_ex_iff distinct_take_map dest!: in_set_takeD)

lemma position_keeps_account: "account_ok (as_positions s) (as_fills s)
  \<Longrightarrow> account_ok (as_positions (process_stream_position m s)) (as_fills (process_stream_position m s))"
  by (auto simp: account_ok_def process_stream_position_def bump_generation_def Let_def put_position_distinct)

lemma snapshot_account [simp]:
  "sn_market_positions (snapshot_of s) = as_positions s" "sn_fills (snapshot_of s) = as_fills s"
  by (simp_all add: snapshot_of_def)

lemma write_keeps_view:
  assumes "view_ok v" "\<And>s. account_ok (as_positions s) (as_fills s) \<Longrightarrow> account_ok (as_positions (f s)) (as_fills (f s))"
  shows "view_ok (account_write f v)"
  using assms by (cases "av_cache v") (auto simp: view_ok_def account_write_def Let_def)

lemma slim_account_ok: "account_ok ps fs \<Longrightarrow> account_ok (map (slim POSITION_FIELDS) ps) (map (slim FILL_FIELDS) fs)"
  by (simp add: account_ok_def comp_def POSITION_FIELDS_def FILL_FIELDS_def)

lemma account_ok_empty [simp]: "account_ok [] []" by (simp add: account_ok_def)

lemma fetch_keeps_account:
  assumes "fetch_account_snapshot enabled rest now cache = (sn, shared, cache')"
    and "case rest of None \<Rightarrow> True | Some (ps, fs) \<Rightarrow> account_ok ps fs"
    and "case cache of None \<Rightarrow> True | Some (t, c) \<Rightarrow> account_ok (sn_market_positions c) (sn_fills c)"
  shows "account_ok (sn_market_positions sn) (sn_fills sn)
    \<and> (case cache' of None \<Rightarrow> True | Some (t, c) \<Rightarrow> account_ok (sn_market_positions c) (sn_fills c))"
  using assms by (auto simp: fetch_account_snapshot_def Let_def slim_account_ok split: option.splits if_splits prod.splits)

lemma step_keeps_view: "view_ok v \<Longrightarrow> event_ok e \<Longrightarrow> view_ok (account_step e v)"
proof (cases e)
  case (Tick enabled rest now)
  assume v: "view_ok v" and e: "event_ok e"
  obtain sn shared cache where f: "fetch_account_snapshot enabled rest now (av_cache v) = (sn, shared, cache)" by (metis prod_cases3)
  have r: "case rest of None \<Rightarrow> True | Some (ps, fs) \<Rightarrow> account_ok ps fs"
    using e by (simp add: event_ok_def Tick split: option.splits)
  have c: "case av_cache v of None \<Rightarrow> True | Some (t, c) \<Rightarrow> account_ok (sn_market_positions c) (sn_fills c)"
    using v by (simp add: view_ok_def)
  show ?thesis using fetch_keeps_account [OF f r c] by (simp add: Tick tick_account_def f view_ok_def)
qed (auto intro: write_keeps_view fill_keeps_account position_keeps_account)


definition fill_msg :: msg where "fill_msg = [(''trade_id'', JStr ''t1''), (''ticker'', JStr ''A'')]"

definition view0 :: account_view where
  "view0 = \<lparr>av_cache = Some (100, \<lparr>sn_connected = True, sn_market_positions = [], sn_fills = []\<rparr>), av_shared = False, av_app = trade_state0\<rparr>"


lemma fill_shown:
  assumes "as_connected s" "truthy (jget m ''trade_id'')" "\<forall>f \<in> set (as_fills s). jget f ''trade_id'' \<noteq> jget m ''trade_id''"
  shows "as_fills (process_stream_fill m s) = take 50 (slim FILL_FIELDS m # as_fills s)"
    and "as_connected (process_stream_fill m s) = as_connected s"
  using assms by (auto simp: process_stream_fill_def Let_def bump_generation_def list_ex_iff FILL_FIELDS_def)

lemma cached_tick:
  assumes "av_cache v = Some (t0, sn)" "fsub t t0 < ACCOUNT_SNAPSHOT_REFRESH_SEC"
  shows "tick_account True rest t v = \<lparr>av_cache = av_cache v, av_shared = False,
    av_app = (av_app v)\<lparr> as_connected := sn_connected sn, as_positions := sn_market_positions sn, as_fills := sn_fills sn \<rparr>\<rparr>"
  using assms by (simp add: tick_account_def fetch_account_snapshot_def)

text \<open>
  C39: A new fill is streamed and the next tick falls while the cache is fresh. When the account shown
  is the cached object the fill is still there after the tick; when it is a copy, which is what every
  cached tick leaves, the tick takes the fill away again.
\<close>
theorem streamed_fill_is_rolled_back:
  assumes cache: "av_cache v = Some (t0, sn)" "sn = snapshot_of (av_app v)" "as_connected (av_app v)"
    and fresh: "fsub t t0 < ACCOUNT_SNAPSHOT_REFRESH_SEC"
    and fill: "truthy (jget m ''trade_id'')" "\<forall>f \<in> set (as_fills (av_app v)). jget f ''trade_id'' \<noteq> jget m ''trade_id''"
  shows "as_fills (av_app (account_step (StreamFill m) v)) = take 50 (slim FILL_FIELDS m # as_fills (av_app v))
    \<and> as_fills (av_app (fold account_step [StreamFill m, Tick True rest t] v))
        = (if av_shared v then take 50 (slim FILL_FIELDS m # as_fills (av_app v)) else as_fills (av_app v))
    \<and> \<not> av_shared (fold account_step [StreamFill m, Tick True rest t] v)"
proof -
  note shown = fill_shown [OF cache(3) fill]
  let ?v = "account_step (StreamFill m) v"
  have app: "av_app ?v = process_stream_fill m (av_app v)" by (simp add: account_write_def Let_def)
  have c: "av_cache ?v = Some (t0, if av_shared v then snapshot_of (process_stream_fill m (av_app v)) else sn)"
    by (simp add: account_write_def Let_def cache(1))
  have two: "fold account_step [StreamFill m, Tick True rest t] v = tick_account True rest t ?v" by simp
  show ?thesis unfolding two cached_tick [OF c fresh] by (simp add: app shown cache(2) del: account_step.simps)
qed

theorem streamed_fill_is_rolled_back_witness:
  "as_fills (av_app (fold account_step [StreamFill fill_msg, Tick True None 105] view0)) = []"
proof -
  have c: "av_cache view0 = Some (100, snapshot_of (av_app view0))" "as_connected (av_app view0)"
    by (simp_all add: view0_def trade_state0_def snapshot_of_def)
  have f: "fsub 105 100 < ACCOUNT_SNAPSHOT_REFRESH_SEC" by (simp add: ACCOUNT_SNAPSHOT_REFRESH_SEC_def) code_simp
  have m: "truthy (jget fill_msg ''trade_id'')" by (simp add: fill_msg_def jget_def)
  have n: "\<forall>x \<in> set (as_fills (av_app view0)). jget x ''trade_id'' \<noteq> jget fill_msg ''trade_id''"
    by (simp add: view0_def trade_state0_def)
  show ?thesis using streamed_fill_is_rolled_back [OF c(1) refl c(2) f m n, of None]
    by (simp add: view0_def trade_state0_def del: account_step.simps fold_simps)
qed

subsection \<open>The trade tape\<close>

definition page_follows :: "(nat \<Rightarrow> (msg list \<times> bool) option) \<Rightarrow> nat \<Rightarrow> bool" where
  "page_follows answer i = (case answer i of None \<Rightarrow> False | Some (p, c) \<Rightarrow> c \<and> p \<noteq> [])"

lemma pages_follow_shift: "\<forall>i < Suc n. page_follows answer (k + i) \<Longrightarrow> page_follows answer k \<and> (\<forall>i < n. page_follows answer (Suc k + i))"
  by (metis add_Suc_right add_Suc_shift add_0_right zero_less_Suc not_less_eq)

lemma pages_until_end:
  assumes "\<forall>i < j. page_follows answer (k + i)" "answer (k + j) = Some (page, c)" "\<not> c \<or> page = []" "j < n"
  shows "fetch_pages answer k n = Some (concat (map (\<lambda>i. fst (the (answer (k + i)))) [0..<Suc j]))"
  using assms
proof (induction j arbitrary: k n)
  case 0
  then show ?case by (cases n) auto
next
  case (Suc j)
  obtain n' where n: "n = Suc n'" using Suc.prems(4) by (cases n) auto
  obtain p where p: "answer k = Some (p, True)" "p \<noteq> []" using pages_follow_shift [OF Suc.prems(1)] by (auto simp: page_follows_def split: option.splits)
  have "fetch_pages answer (k + 1) n' = Some (concat (map (\<lambda>i. fst (the (answer (k + 1 + i)))) [0..<Suc j]))"
    using Suc.IH [of "k + 1" n'] pages_follow_shift [OF Suc.prems(1)] Suc.prems(2-4) n by (simp del: upt_Suc)
  moreover have "[0..<Suc (Suc j)] = 0 # map Suc [0..<Suc j]" by (simp add: map_Suc_upt upt_conv_Cons del: upt_Suc)
  ultimately show ?case using p by (simp add: n comp_def del: upt_Suc)
qed

lemma pages_cut:
  assumes "\<forall>i < n. page_follows answer (k + i)"
  shows "fetch_pages answer k n = Some (concat (map (\<lambda>i. fst (the (answer (k + i)))) [0..<n]))"
  using assms
proof (induction n arbitrary: k)
  case (Suc n)
  obtain p where p: "answer k = Some (p, True)" "p \<noteq> []" using pages_follow_shift [OF Suc.prems] by (auto simp: page_follows_def split: option.splits)
  have "fetch_pages answer (k + 1) n = Some (concat (map (\<lambda>i. fst (the (answer (k + 1 + i)))) [0..<n]))"
    using Suc.IH [of "k + 1"] pages_follow_shift [OF Suc.prems] by simp
  moreover have "[0..<Suc n] = 0 # map Suc [0..<n]" by (simp add: map_Suc_upt upt_conv_Cons del: upt_Suc)
  ultimately show ?case using p by (simp add: comp_def del: upt_Suc)
qed simp

lemma pages_raise:
  "\<forall>i < j. page_follows answer (k + i) \<Longrightarrow> answer (k + j) = None \<Longrightarrow> j < n \<Longrightarrow> fetch_pages answer k n = None"
proof (induction j arbitrary: k n)
  case 0
  then show ?case by (cases n) auto
next
  case (Suc j)
  obtain n' where n: "n = Suc n'" using Suc.prems(3) by (cases n) auto
  obtain p where p: "answer k = Some (p, True)" "p \<noteq> []" using pages_follow_shift [OF Suc.prems(1)] by (auto simp: page_follows_def split: option.splits)
  then show ?case using Suc.IH [of "k + 1" n'] pages_follow_shift [OF Suc.prems(1)] Suc.prems(2-3) n by simp
qed

text \<open>
  However many pages the exchange offers, reading a ticker's tape since the last read ends: with
  every page up to the first that is empty or has no cursor, with fifty pages when none of them is, and
  with the exception when a page before that raises.
\<close>
theorem tape_read_ends:
  assumes "\<forall>i < j. page_follows answer i" "j \<le> TRADE_TAPE_MAX_PAGES_PER_TICKER"
    and "j = TRADE_TAPE_MAX_PAGES_PER_TICKER \<or> \<not> page_follows answer j"
  shows "fetch_trades_for_ticker True answer =
    (if j = TRADE_TAPE_MAX_PAGES_PER_TICKER then Some (concat (map (\<lambda>i. fst (the (answer i))) [0..<j]))
     else if answer j = None then None else Some (concat (map (\<lambda>i. fst (the (answer i))) [0..<Suc j])))"
proof (cases "j = TRADE_TAPE_MAX_PAGES_PER_TICKER")
  case True
  then show ?thesis using pages_cut [of j answer 0] assms(1) by (simp add: fetch_trades_for_ticker_def)
next
  case False
  then have j: "j < TRADE_TAPE_MAX_PAGES_PER_TICKER" using assms(2) by simp
  show ?thesis
  proof (cases "answer j")
    case None
    then show ?thesis using pages_raise [of j answer 0 TRADE_TAPE_MAX_PAGES_PER_TICKER] assms(1) False j
      by (simp add: fetch_trades_for_ticker_def)
  next
    case (Some r)
    then obtain p c where r: "answer j = Some (p, c)" "\<not> c \<or> p = []" using assms(3) False by (cases r) (auto simp: page_follows_def Some)
    then show ?thesis using pages_until_end [of j answer 0 p c TRADE_TAPE_MAX_PAGES_PER_TICKER] assms(1) False j
      by (simp add: fetch_trades_for_ticker_def del: upt_Suc)
  qed
qed

theorem tape_read_ends_witness:
  "fetch_trades_for_ticker True (\<lambda>i. if i = 0 then Some ([[]], True) else Some ([[(''trade_id'', JStr ''z'')]], False))
    = Some [[], [(''trade_id'', JStr ''z'')]]"
proof -
  let ?answer = "\<lambda>i::nat. if i = 0 then Some ([[]], True) else Some ([[(''trade_id'', JStr ''z'')]], False) :: (msg list \<times> bool) option"
  have a: "\<forall>i < 1. page_follows ?answer i" "1 \<le> TRADE_TAPE_MAX_PAGES_PER_TICKER"
    "1 = TRADE_TAPE_MAX_PAGES_PER_TICKER \<or> \<not> page_follows ?answer 1"
    by (auto simp: TRADE_TAPE_MAX_PAGES_PER_TICKER_def page_follows_def intro: exI [of _ False])
  show ?thesis using tape_read_ends [OF a] by (simp add: TRADE_TAPE_MAX_PAGES_PER_TICKER_def)
qed

end
