(* ===== verification/SeriesEval.thy ===== *)
theory SeriesEval
  imports SignalLog ConfigOverrides
begin

text \<open>
  \<open>services/series_evaluator.py\<close>: whether a series is worth watching. A series is observed, judged by
  the share of its trades that qualified, approved for good or rejected with a growing pause. The power
  \<open>multiplier ** strikes\<close> is a parameter, \<open>None\<close> where it overflows; table and signals are the stores.
\<close>

datatype series_state = Observing | Approved | RejectedSeries

record series_row =
  ss_status :: series_state
  ss_first_seen_at :: f64
  ss_trades_observed :: nat
  ss_strike_count :: nat
  ss_last_evaluated_at :: "f64 option"
  ss_next_eligible_at :: "f64 option"

type_synonym series_table = "(string, series_row) pdict"

definition first_observation :: "nat \<Rightarrow> f64 \<Rightarrow> series_row" where
  "first_observation n now = \<lparr>ss_status = Observing, ss_first_seen_at = now, ss_trades_observed = n, ss_strike_count = 0,
     ss_last_evaluated_at = None, ss_next_eligible_at = None\<rparr>"

definition backoff_served :: "f64 \<Rightarrow> series_row \<Rightarrow> bool" where
  "backoff_served now r \<longleftrightarrow> (case ss_next_eligible_at r of None \<Rightarrow> False | Some t \<Rightarrow> now \<ge> t)"

definition record_trade_observed :: "string \<Rightarrow> f64 \<Rightarrow> series_table \<Rightarrow> series_table" where
  "record_trade_observed series now t =
     (case dget t series of
        None \<Rightarrow> dput series (first_observation 1 now) t
      | Some r \<Rightarrow>
          (case ss_status r of
             RejectedSeries \<Rightarrow>
               if backoff_served now r
               then dput series (r\<lparr> ss_status := Observing, ss_first_seen_at := now, ss_trades_observed := 1, ss_next_eligible_at := None \<rparr>) t
               else t
           | Approved \<Rightarrow> t
           | Observing \<Rightarrow> dput series (r\<lparr> ss_trades_observed := ss_trades_observed r + 1 \<rparr>) t))"

definition record_bulk_one :: "f64 \<Rightarrow> string \<times> nat \<Rightarrow> series_table \<Rightarrow> series_table" where
  "record_bulk_one now sc t =
     (case sc of (series, n) \<Rightarrow>
       (case dget t series of
          None \<Rightarrow> dput series (first_observation n now) t
        | Some r \<Rightarrow>
            (case ss_status r of
               RejectedSeries \<Rightarrow>
                 if backoff_served now r
                 then dput series (r\<lparr> ss_status := Observing, ss_first_seen_at := now, ss_trades_observed := n, ss_next_eligible_at := None \<rparr>) t
                 else t
             | Approved \<Rightarrow> t
             | Observing \<Rightarrow> dput series (r\<lparr> ss_trades_observed := ss_trades_observed r + n \<rparr>) t)))"

definition record_trades_observed_bulk :: "(string, nat) pdict \<Rightarrow> f64 \<Rightarrow> series_table \<Rightarrow> series_table" where
  "record_trades_observed_bulk counts now t = fold (record_bulk_one now) counts t"

definition ineligible_series :: "f64 \<Rightarrow> series_table \<Rightarrow> string list" where
  "ineligible_series now t =
     map fst (filter (\<lambda>(s, r). ss_status r = RejectedSeries \<and> (case ss_next_eligible_at r of None \<Rightarrow> False | Some x \<Rightarrow> x > now)) t)"

subsection \<open>Verdicts\<close>

record evaluator_cfg =
  ec_min_observation_sec :: f64
  ec_min_trades_observed :: f64
  ec_max_observation_sec :: f64
  ec_min_qualify_rate :: f64
  ec_backoff_base_sec :: f64
  ec_backoff_multiplier :: f64
  ec_backoff_max_sec :: f64

definition evaluator_cfg_of :: "msg \<Rightarrow> evaluator_cfg" where
  "evaluator_cfg_of cfg =
     (let d = (case jget cfg ''series_evaluator'' of JObj d \<Rightarrow> d | _ \<Rightarrow> [])
      in \<lparr>ec_min_observation_sec = cfg_num_or d ''min_observation_sec'' 3600,
          ec_min_trades_observed = cfg_num_or d ''min_trades_observed'' 20,
          ec_max_observation_sec = cfg_num_or d ''max_observation_sec'' 21600,
          ec_min_qualify_rate = cfg_num_or d ''min_qualify_rate'' (fl (1/100)),
          ec_backoff_base_sec = cfg_num_or d ''backoff_base_sec'' 1800,
          ec_backoff_multiplier = cfg_num_or d ''backoff_multiplier'' 2,
          ec_backoff_max_sec = cfg_num_or d ''backoff_max_sec'' 86400\<rparr>)"

record series_verdict =
  vd_series :: string
  vd_approved :: bool
  vd_rate :: f64
  vd_trades_observed :: nat

definition ready_for_verdict :: "evaluator_cfg \<Rightarrow> f64 \<Rightarrow> series_row \<Rightarrow> bool" where
  "ready_for_verdict c now r =
     (let elapsed = fsub now (ss_first_seen_at r)
      in elapsed \<ge> ec_min_observation_sec c \<and> fint (int (ss_trades_observed r)) \<ge> ec_min_trades_observed c
         \<or> elapsed \<ge> ec_max_observation_sec c)"

definition qualify_rate :: "signal_log \<Rightarrow> string \<Rightarrow> series_row \<Rightarrow> f64" where
  "qualify_rate signals series r =
     (if ss_trades_observed r = 0 then 0
      else fl (of_nat (signal_count_for_series_since series (ss_first_seen_at r) signals) / of_nat (ss_trades_observed r)))"

definition worthy :: "evaluator_cfg \<Rightarrow> signal_log \<Rightarrow> string \<Rightarrow> series_row \<Rightarrow> bool" where
  "worthy c signals series r \<longleftrightarrow> ss_trades_observed r \<noteq> 0 \<and> qualify_rate signals series r \<ge> ec_min_qualify_rate c"

definition approve_row :: "f64 \<Rightarrow> series_row \<Rightarrow> series_row" where
  "approve_row now r = r\<lparr> ss_status := Approved, ss_last_evaluated_at := Some now, ss_next_eligible_at := None \<rparr>"

definition backoff_sec :: "(f64 \<Rightarrow> nat \<Rightarrow> f64 option) \<Rightarrow> evaluator_cfg \<Rightarrow> nat \<Rightarrow> f64 option" where
  "backoff_sec pow c strikes =
     map_option (\<lambda>p. min (fmul (ec_backoff_base_sec c) p) (ec_backoff_max_sec c)) (pow (ec_backoff_multiplier c) strikes)"

definition reject_row :: "f64 \<Rightarrow> f64 \<Rightarrow> series_row \<Rightarrow> series_row" where
  "reject_row now backoff r =
     r\<lparr> ss_status := RejectedSeries, ss_strike_count := ss_strike_count r + 1, ss_last_evaluated_at := Some now,
        ss_next_eligible_at := Some (fadd now backoff) \<rparr>"

text \<open>Every verdict is committed on its own: an overflow ends the call, the verdicts before it stay.\<close>

fun evaluate_loop ::
  "(f64 \<Rightarrow> nat \<Rightarrow> f64 option) \<Rightarrow> evaluator_cfg \<Rightarrow> signal_log \<Rightarrow> f64 \<Rightarrow> (string \<times> series_row) list \<Rightarrow> series_table
     \<Rightarrow> series_verdict list option \<times> series_table" where
  "evaluate_loop pow c signals now [] t = (Some [], t)"
| "evaluate_loop pow c signals now ((series, r) # rs) t =
     (if \<not> ready_for_verdict c now r then evaluate_loop pow c signals now rs t
      else let v = \<lparr>vd_series = series, vd_approved = worthy c signals series r, vd_rate = qualify_rate signals series r,
                    vd_trades_observed = ss_trades_observed r\<rparr>
        in if worthy c signals series r
           then apfst (map_option ((#) v)) (evaluate_loop pow c signals now rs (dput series (approve_row now r) t))
           else (case backoff_sec pow c (ss_strike_count r) of
                   None \<Rightarrow> (None, t)
                 | Some b \<Rightarrow> apfst (map_option ((#) v)) (evaluate_loop pow c signals now rs (dput series (reject_row now b r) t))))"

definition evaluate_pending ::
  "(f64 \<Rightarrow> nat \<Rightarrow> f64 option) \<Rightarrow> msg \<Rightarrow> signal_log \<Rightarrow> f64 \<Rightarrow> series_table \<Rightarrow> series_verdict list option \<times> series_table" where
  "evaluate_pending pow cfg signals now t =
     evaluate_loop pow (evaluator_cfg_of cfg) signals now (filter (\<lambda>(s, r). ss_status r = Observing) t) t"

definition series_overview :: "series_table \<Rightarrow> (string \<times> series_row) list" where
  "series_overview t = sort_key fst t"

definition reset_series :: "string \<Rightarrow> f64 \<Rightarrow> series_table \<Rightarrow> bool \<times> series_table" where
  "reset_series series now t =
     (case dget t series of
        None \<Rightarrow> (False, t)
      | Some r \<Rightarrow> (True, dput series (r\<lparr> ss_status := Observing, ss_first_seen_at := now, ss_trades_observed := 0,
          ss_strike_count := 0, ss_last_evaluated_at := Some now, ss_next_eligible_at := None \<rparr>) t))"

definition clear_series :: "series_table \<Rightarrow> series_table" where "clear_series t = []"

end
