(* ===== verification/SeriesEvalFacts.thy ===== *)
theory SeriesEvalFacts
  imports SeriesEval TradeTape
begin

text \<open>
  The series evaluator as a state machine: every reachable table is consistent, a verdict stands until
  its time is served or a person resets it, and counting a batch of trades is counting them one by one.
\<close>

subsection \<open>Counting trades\<close>

definition observed :: "nat \<Rightarrow> f64 \<Rightarrow> series_row option \<Rightarrow> series_row option" where
  "observed n now ro =
     (if n = 0 then ro
      else case ro of
        None \<Rightarrow> Some (first_observation n now)
      | Some r \<Rightarrow>
          Some (case ss_status r of
             RejectedSeries \<Rightarrow> if backoff_served now r
               then r\<lparr> ss_status := Observing, ss_first_seen_at := now, ss_trades_observed := n, ss_next_eligible_at := None \<rparr> else r
           | Approved \<Rightarrow> r
           | Observing \<Rightarrow> r\<lparr> ss_trades_observed := ss_trades_observed r + n \<rparr>))"

lemma observed_one_more: "observed 1 now (observed n now ro) = observed (Suc n) now ro"
  by (cases ro) (auto simp: observed_def first_observation_def split: series_state.splits)

lemma observed_then_one: "observed n now (observed 1 now ro) = observed (Suc n) now ro"
  by (cases ro) (auto simp: observed_def first_observation_def split: series_state.splits)

lemma record_one: "dget (record_trade_observed s now t) s' = (if s' = s then observed 1 now (dget t s) else dget t s')"
  by (auto simp: record_trade_observed_def observed_def split: option.splits series_state.splits)

lemma record_many: "n > 0 \<Longrightarrow> dget (record_bulk_one now (s, n) t) s' = (if s' = s then observed n now (dget t s) else dget t s')"
  by (auto simp: record_bulk_one_def observed_def split: option.splits series_state.splits)

lemma record_each: "dget (fold (\<lambda>s. record_trade_observed s now) trades t) s = observed (count_list trades s) now (dget t s)"
  by (induction trades arbitrary: t) (auto simp: observed_def [of 0] record_one observed_then_one [unfolded One_nat_def])

lemma record_batch:
  "dict_ok counts \<Longrightarrow> \<forall>(s, n) \<in> set counts. n > 0
    \<Longrightarrow> dget (fold (record_bulk_one now) counts t) s = observed (case dget counts s of None \<Rightarrow> 0 | Some n \<Rightarrow> n) now (dget t s)"
proof (induction counts arbitrary: t)
  case (Cons c counts)
  obtain u n where c: "c = (u, n)" by (cases c)
  have u: "dget counts u = None" using Cons.prems(1) by (simp add: c dict_ok_def dget_eq_None_iff)
  have ok: "dict_ok counts" "\<forall>(s, n) \<in> set counts. n > 0" and n: "n > 0"
    using Cons.prems by (auto simp: c dict_ok_def)
  show ?case using Cons.IH [OF ok, of "record_bulk_one now c t"] u
    unfolding c by (simp only: fold_simps o_apply record_many [OF n]) (simp add: observed_def [of 0])
qed (simp add: observed_def)

lemma bump_counts: "dict_ok d \<Longrightarrow> dict_ok (fold bump trades d)
  \<and> dget (fold bump trades d) s = (if count_list trades s = 0 then dget d s else Some (dget_or d s 0 + count_list trades s))"
  by (induction trades arbitrary: d) (auto simp: bump_def bump_by_def dget_or_def split: option.splits)

lemma bump_positive: "\<forall>(s, n) \<in> set d. n > 0 \<Longrightarrow> dict_ok d \<Longrightarrow> \<forall>(s, n) \<in> set (fold bump trades d). n > 0"
proof (induction trades arbitrary: d)
  case (Cons u trades)
  have "n > 0" if m: "(s, n) \<in> set (bump u d)" for s n
  proof -
    have "dget (bump u d) s = Some n"
      using m Cons.prems(2) dget_iff_in_set [of "bump u d" s n] by (simp add: bump_def bump_by_def)
    then show ?thesis using Cons.prems by (auto simp: bump_def bump_by_def dest!: dget_in_set split: if_splits)
  qed
  then have "\<forall>(s, n) \<in> set (bump u d). n > 0" by blast
  then show ?case using Cons.IH [of "bump u d"] Cons.prems(2) by (simp add: bump_def bump_by_def)
qed simp

text \<open>
  Writing a batch of trades counted per series leaves every series as recording the trades one by
  one at the same time would, in whatever order they come and whatever the series' state.
\<close>
theorem bulk_is_one_by_one:
  "dget (record_trades_observed_bulk (fold bump trades []) now t) s = dget (fold (\<lambda>s. record_trade_observed s now) trades t) s"
proof -
  have "dict_ok (fold bump trades [])" "\<forall>(s, n) \<in> set (fold bump trades []). n > 0"
    using bump_counts [of "[]" trades] bump_positive [of "[]" trades] by simp_all
  from record_batch [OF this] show ?thesis
    using bump_counts [of "[]" trades s]
    by (auto simp: record_trades_observed_bulk_def record_each dget_or_def)
qed

subsection \<open>The state machine\<close>

datatype evaluator_op =
    SawTrade string f64
  | SawTrades "(string, nat) pdict" f64
  | Evaluate "f64 \<Rightarrow> nat \<Rightarrow> f64 option" msg signal_log f64
  | ResetSeries string f64
  | ClearSeries

fun evaluator_op_step :: "evaluator_op \<Rightarrow> series_table \<Rightarrow> series_table" where
  "evaluator_op_step (SawTrade s now) t = record_trade_observed s now t"
| "evaluator_op_step (SawTrades counts now) t = record_trades_observed_bulk counts now t"
| "evaluator_op_step (Evaluate pow cfg signals now) t = snd (evaluate_pending pow cfg signals now t)"
| "evaluator_op_step (ResetSeries s now) t = snd (reset_series s now t)"
| "evaluator_op_step ClearSeries t = clear_series t"

definition series_row_ok :: "series_row \<Rightarrow> bool" where
  "series_row_ok r = (case ss_status r of
      Observing \<Rightarrow> ss_next_eligible_at r = None
    | Approved \<Rightarrow> ss_next_eligible_at r = None \<and> ss_last_evaluated_at r \<noteq> None
    | RejectedSeries \<Rightarrow> ss_next_eligible_at r \<noteq> None \<and> ss_last_evaluated_at r \<noteq> None \<and> ss_strike_count r \<ge> 1)"

definition series_table_ok :: "series_table \<Rightarrow> bool" where
  "series_table_ok t \<longleftrightarrow> dict_ok t \<and> list_all (\<lambda>(s, r). series_row_ok r) t"

lemma table_ok_dput: "series_table_ok t \<Longrightarrow> series_row_ok r \<Longrightarrow> series_table_ok (dput s r t)"
proof -
  assume t: "series_table_ok t" and r: "series_row_ok r"
  have "list_all (\<lambda>(s, r). series_row_ok r) t \<Longrightarrow> list_all (\<lambda>(s, r). series_row_ok r) (dput s r t)"
    by (induction t) (auto simp: r)
  then show ?thesis using t by (simp add: series_table_ok_def)
qed

lemma table_ok_dget: "series_table_ok t \<Longrightarrow> dget t s = Some r \<Longrightarrow> series_row_ok r"
  by (auto simp: series_table_ok_def list_all_iff dest: dget_in_set)

lemma observed_ok: "case ro of None \<Rightarrow> True | Some r \<Rightarrow> series_row_ok r \<Longrightarrow> observed n now ro = Some r \<Longrightarrow> series_row_ok r"
  by (auto simp: observed_def first_observation_def series_row_ok_def split: option.splits if_splits series_state.splits)

lemma bulk_one_ok: "series_table_ok t \<Longrightarrow> series_table_ok (record_bulk_one now c t)"
  by (cases c) (auto simp: record_bulk_one_def first_observation_def split: option.splits series_state.splits
      intro!: table_ok_dput dest: table_ok_dget simp: series_row_ok_def)

lemma record_ok: "series_table_ok t \<Longrightarrow> series_table_ok (record_trade_observed s now t)"
  by (auto simp: record_trade_observed_def first_observation_def split: option.splits series_state.splits
      intro!: table_ok_dput dest: table_ok_dget simp: series_row_ok_def)

lemma judged_ok [simp]: "series_row_ok (approve_row now r)" "series_row_ok (reject_row now b r)"
  by (simp_all add: series_row_ok_def approve_row_def reject_row_def)

lemma evaluate_loop_ok: "series_table_ok t \<Longrightarrow> series_table_ok (snd (evaluate_loop pow c signals now rs t))"
  by (induction pow c signals now rs t rule: evaluate_loop.induct)
    (auto simp: Let_def table_ok_dput split: option.splits)

lemma evaluator_step_ok: "series_table_ok t \<Longrightarrow> series_table_ok (evaluator_op_step op t)"
proof (cases op)
  case (SawTrades counts now)
  assume "series_table_ok t"
  then have "series_table_ok (fold (record_bulk_one now) counts t)"
    by (induction counts arbitrary: t) (simp_all add: bulk_one_ok)
  then show ?thesis by (simp add: SawTrades record_trades_observed_bulk_def)
next
  case (ResetSeries s now)
  assume "series_table_ok t"
  then show ?thesis by (auto simp: ResetSeries reset_series_def series_row_ok_def intro!: table_ok_dput split: option.splits)
qed (simp_all add: record_ok evaluate_pending_def evaluate_loop_ok clear_series_def, simp add: series_table_ok_def)

text \<open>
  In every table the evaluator can reach each series has one row, only a rejected series has a time
  before which it is not eligible, and a rejected one has been judged and has at least one strike.
\<close>
theorem reachable_series_are_consistent:
  "series_table_ok (fold evaluator_op_step ops [])"
proof -
  have "series_table_ok t \<Longrightarrow> series_table_ok (fold evaluator_op_step ops t)" for t
    by (induction ops arbitrary: t) (simp_all add: evaluator_step_ok)
  then show ?thesis by (simp add: series_table_ok_def)
qed

subsection \<open>Verdicts stand\<close>

definition verdict_stands :: "f64 \<Rightarrow> series_row \<Rightarrow> bool" where
  "verdict_stands until r = (case ss_status r of
      Observing \<Rightarrow> False | Approved \<Rightarrow> True
    | RejectedSeries \<Rightarrow> (case ss_next_eligible_at r of None \<Rightarrow> True | Some x \<Rightarrow> until \<le> x))"

fun leaves_alone :: "f64 \<Rightarrow> string \<Rightarrow> evaluator_op \<Rightarrow> bool" where
  "leaves_alone until s (SawTrade u now) \<longleftrightarrow> now < until"
| "leaves_alone until s (SawTrades counts now) \<longleftrightarrow> now < until"
| "leaves_alone until s (Evaluate pow cfg signals now) \<longleftrightarrow> True"
| "leaves_alone until s (ResetSeries u now) \<longleftrightarrow> u \<noteq> s"
| "leaves_alone until s ClearSeries \<longleftrightarrow> False"

lemma standing_unobserved:
  "verdict_stands until r \<Longrightarrow> now < until \<Longrightarrow> observed n now (Some r) = Some r"
  by (auto simp: verdict_stands_def observed_def backoff_served_def split: series_state.splits option.splits)

lemma bulk_row:
  "dget t s = Some r \<Longrightarrow> verdict_stands until r \<Longrightarrow> now < until \<Longrightarrow> dget (record_bulk_one now c t) s = Some r"
  by (cases c) (auto simp: record_bulk_one_def verdict_stands_def backoff_served_def split: option.splits series_state.splits)

lemma evaluate_loop_row:
  "s \<notin> fst ` set rs \<Longrightarrow> dget (snd (evaluate_loop pow c signals now rs t)) s = dget t s"
  by (induction pow c signals now rs t rule: evaluate_loop.induct) (auto simp: Let_def split: option.splits)

lemma standing_step:
  assumes "series_table_ok t" "dget t s = Some r" "verdict_stands until r" "leaves_alone until s op"
  shows "dget (evaluator_op_step op t) s = Some r"
proof (cases op)
  case (SawTrade u now)
  then show ?thesis using assms standing_unobserved [of until r now 1] by (auto simp: record_one)
next
  case (SawTrades counts now)
  have "dget (fold (record_bulk_one now) counts t) s = Some r" using assms(2)
    by (induction counts arbitrary: t) (use assms SawTrades in \<open>simp_all add: bulk_row\<close>)
  then show ?thesis by (simp add: SawTrades record_trades_observed_bulk_def)
next
  case (Evaluate pow cfg signals now)
  have "s \<notin> fst ` set (filter (\<lambda>(s, r). ss_status r = Observing) t)"
    using assms(1-3) by (auto simp: series_table_ok_def verdict_stands_def simp flip: dget_iff_in_set)
  then show ?thesis by (simp add: Evaluate evaluate_pending_def evaluate_loop_row assms(2))
next
  case (ResetSeries u now)
  then show ?thesis using assms by (auto simp: reset_series_def split: option.splits)
qed (use assms in auto)

text \<open>
  C21: An approved series keeps its row, and a rejected one too before its time is served: no trades, no
  evaluation and no reset of another series change it, and the rejected one stays off the watchlist.
\<close>
theorem verdicts_stand:
  assumes "series_table_ok t" "dget t s = Some r" "verdict_stands until r" "\<forall>op \<in> set ops. leaves_alone until s op"
  shows "dget (fold evaluator_op_step ops t) s = Some r
    \<and> (\<forall>now < until. series_row_ok r \<longrightarrow> (s \<in> set (ineligible_series now (fold evaluator_op_step ops t)) \<longleftrightarrow> ss_status r = RejectedSeries))"
proof -
  have ok: "series_table_ok (fold evaluator_op_step ops t)" using assms(1)
    by (induction ops arbitrary: t) (simp_all add: evaluator_step_ok)
  have row: "dget (fold evaluator_op_step ops t) s = Some r" using assms(1,2,4)
    by (induction ops arbitrary: t) (simp_all add: evaluator_step_ok standing_step [OF _ _ assms(3)])
  have "(s, r') \<in> set (fold evaluator_op_step ops t) \<longleftrightarrow> r' = r" for r'
    using ok row dget_iff_in_set [of "fold evaluator_op_step ops t" s r'] by (auto simp: series_table_ok_def)
  then show ?thesis using row assms(3)
    by (auto simp: ineligible_series_def image_iff verdict_stands_def series_row_ok_def split: option.splits series_state.splits)
qed

definition rejected_row :: series_row where
  "rejected_row = \<lparr>ss_status = RejectedSeries, ss_first_seen_at = 0, ss_trades_observed = 9, ss_strike_count = 1,
     ss_last_evaluated_at = Some 100, ss_next_eligible_at = Some 200\<rparr>"

theorem verdicts_stand_witness:
  "dget (fold evaluator_op_step [SawTrade ''KXBTC'' 150, SawTrades [(''KXBTC'', 3), (''KXETH'', 1)] 160, ResetSeries ''KXETH'' 170]
     [(''KXBTC'', rejected_row)]) ''KXBTC'' = Some rejected_row
   \<and> ''KXBTC'' \<in> set (ineligible_series 199 (fold evaluator_op_step
       [SawTrade ''KXBTC'' 150, SawTrades [(''KXBTC'', 3), (''KXETH'', 1)] 160, ResetSeries ''KXETH'' 170] [(''KXBTC'', rejected_row)]))"
proof -
  have a: "series_table_ok [(''KXBTC'', rejected_row)]" "dget [(''KXBTC'', rejected_row)] ''KXBTC'' = Some rejected_row"
    "verdict_stands 200 rejected_row"
    "\<forall>op \<in> set [SawTrade ''KXBTC'' 150, SawTrades [(''KXBTC'', 3), (''KXETH'', 1)] 160, ResetSeries ''KXETH'' 170].
       leaves_alone 200 ''KXBTC'' op"
    by (simp_all add: series_table_ok_def dict_ok_def series_row_ok_def rejected_row_def verdict_stands_def)
  have b: "series_row_ok rejected_row" "ss_status rejected_row = RejectedSeries" by (simp_all add: series_row_ok_def rejected_row_def)
  show ?thesis using verdicts_stand [OF a] b by (auto simp del: fold_simps)
qed

text \<open>The pause of the next rejection never exceeds the configured largest one.\<close>

lemma backoff_bounded: "backoff_sec pow c strikes = Some b \<Longrightarrow> b \<le> ec_backoff_max_sec c"
  by (auto simp: backoff_sec_def)

end
