(* ===== verification/Quarantine.thy ===== *)
theory Quarantine
  imports SignalLog Ranking
begin

text \<open>
  \<open>services/data_quarantine.py\<close> over the signal log: windows whose signals do not count as evidence,
  opened and closed around a test or marked afterwards, and released again. The two databases are the
  two components of the state; every call commits both.
\<close>

record quarantine_range =
  qr_id :: int
  qr_label :: string
  qr_reason :: "string option"
  qr_start :: f64
  qr_end :: "f64 option"
  qr_rows_marked :: "nat option"
  qr_created_at :: f64
  qr_released_at :: "f64 option"

record quarantine_db =
  qd_ranges :: "quarantine_range list"
  qd_next_id :: int
  qd_signals :: signal_log

definition window_open :: "quarantine_range \<Rightarrow> bool" where
  "window_open r \<longleftrightarrow> qr_end r = None \<and> qr_released_at r = None"

definition open_window :: "quarantine_db \<Rightarrow> quarantine_range option" where
  "open_window d = find window_open (qd_ranges d)"

definition add_range :: "string \<Rightarrow> string option \<Rightarrow> f64 \<Rightarrow> f64 option \<Rightarrow> nat option \<Rightarrow> f64 \<Rightarrow> quarantine_db \<Rightarrow> quarantine_db" where
  "add_range label reason lo hi marked now d =
     d\<lparr> qd_ranges := qd_ranges d @ [\<lparr>qr_id = qd_next_id d, qr_label = label, qr_reason = reason, qr_start = lo, qr_end = hi,
          qr_rows_marked = marked, qr_created_at = now, qr_released_at = None\<rparr>],
        qd_next_id := qd_next_id d + 1 \<rparr>"

definition update_range :: "int \<Rightarrow> (quarantine_range \<Rightarrow> quarantine_range) \<Rightarrow> quarantine_db \<Rightarrow> quarantine_db" where
  "update_range i f d = d\<lparr> qd_ranges := map (\<lambda>r. if qr_id r = i then f r else r) (qd_ranges d) \<rparr>"

definition quarantine_start :: "string \<Rightarrow> string option \<Rightarrow> f64 \<Rightarrow> quarantine_db \<Rightarrow> (bool \<times> int \<times> string) \<times> quarantine_db" where
  "quarantine_start label reason now d =
     (case open_window d of
        Some r \<Rightarrow> ((True, qr_id r, qr_label r), d)
      | None \<Rightarrow> ((False, qd_next_id d, label), add_range label reason now None None now d))"

definition quarantine_stop :: "f64 \<Rightarrow> quarantine_db \<Rightarrow> (int \<times> f64 \<times> f64 \<times> nat) option \<times> quarantine_db" where
  "quarantine_stop now d =
     (case open_window d of
        None \<Rightarrow> (None, d)
      | Some r \<Rightarrow>
          (let (marked, signals) = mark_excluded_range (qr_start r) now True (qd_signals d)
           in (Some (qr_id r, qr_start r, now, marked),
               update_range (qr_id r) (\<lambda>r. r\<lparr> qr_end := Some now, qr_rows_marked := Some marked \<rparr>) (d\<lparr> qd_signals := signals \<rparr>))))"

definition quarantine_is_active :: "quarantine_db \<Rightarrow> bool" where
  "quarantine_is_active d \<longleftrightarrow> open_window d \<noteq> None"

definition quarantine_past :: "f64 \<Rightarrow> f64 \<Rightarrow> string \<Rightarrow> string option \<Rightarrow> f64 \<Rightarrow> quarantine_db \<Rightarrow> (int \<times> nat) \<times> quarantine_db" where
  "quarantine_past after before label reason now d =
     (let (marked, signals) = mark_excluded_range after before True (qd_signals d)
      in ((qd_next_id d, marked), add_range label reason after (Some before) (Some marked) now (d\<lparr> qd_signals := signals \<rparr>)))"

datatype release_result = NotFound | AlreadyReleased | StillActive | Restored int nat

definition quarantine_release :: "int \<Rightarrow> f64 \<Rightarrow> quarantine_db \<Rightarrow> release_result \<times> quarantine_db" where
  "quarantine_release i now d =
     (case find (\<lambda>r. qr_id r = i) (qd_ranges d) of
        None \<Rightarrow> (NotFound, d)
      | Some r \<Rightarrow>
          if qr_released_at r \<noteq> None then (AlreadyReleased, d)
          else case qr_end r of
            None \<Rightarrow> (StillActive, d)
          | Some e \<Rightarrow>
              (let (restored, signals) = mark_excluded_range (qr_start r) e False (qd_signals d)
               in (Restored i restored, update_range i (\<lambda>r. r\<lparr> qr_released_at := Some now \<rparr>) (d\<lparr> qd_signals := signals \<rparr>))))"

definition quarantine_ranges :: "bool \<Rightarrow> quarantine_db \<Rightarrow> quarantine_range list" where
  "quarantine_ranges include_released d =
     sorted_desc qr_start (filter (\<lambda>r. include_released \<or> qr_released_at r = None) (qd_ranges d))"

definition quarantine_stats :: "quarantine_db \<Rightarrow> nat \<times> nat \<times> f64 \<times> nat \<times> nat" where
  "quarantine_stats d =
     (let n = length (sl_rows (qd_signals d)); excluded = length (filter (\<lambda>r. sr_excluded r = 1) (sl_rows (qd_signals d)))
      in (n, excluded, (if n = 0 then 0 else py_round 2 (fdiv (fmul 100 (fint (int excluded))) (fint (int n)))),
          length (filter (\<lambda>r. qr_end r = None) (quarantine_ranges False d)), length (quarantine_ranges False d)))"

subsection \<open>What counts as evidence\<close>

definition range_covers :: "signal_row \<Rightarrow> quarantine_range \<Rightarrow> bool" where
  "range_covers s r \<longleftrightarrow> qr_released_at r = None
     \<and> (case qr_end r of None \<Rightarrow> False | Some e \<Rightarrow> sr_seen_at s > qr_start r \<and> sr_seen_at s \<le> e)"

text \<open>The specification: the log is excluded exactly where a range that stands covers it.\<close>

definition exclusion_is_coverage :: "quarantine_db \<Rightarrow> bool" where
  "exclusion_is_coverage d \<longleftrightarrow>
     list_all (\<lambda>s. sr_excluded s = (if list_ex (range_covers s) (qd_ranges d) then 1 else 0)) (sl_rows (qd_signals d))"

datatype quarantine_op =
    LogSignal signal_row
  | StartWindow string "string option" f64
  | StopWindow f64
  | MarkPast f64 f64 string "string option" f64
  | ReleaseRange int f64

text \<open>
  A signal is logged with \<open>excluded\<close> unset: the bridge reads \<open>state["experiment_active"]\<close>, which
  nothing in the program sets.
\<close>

fun quarantine_op_step :: "quarantine_op \<Rightarrow> quarantine_db \<Rightarrow> quarantine_db" where
  "quarantine_op_step (LogSignal s) d = d\<lparr> qd_signals := (qd_signals d)\<lparr> sl_rows := sl_rows (qd_signals d) @ [s\<lparr> sr_excluded := 0 \<rparr>] \<rparr> \<rparr>"
| "quarantine_op_step (StartWindow label reason now) d = snd (quarantine_start label reason now d)"
| "quarantine_op_step (StopWindow now) d = snd (quarantine_stop now d)"
| "quarantine_op_step (MarkPast after before label reason now) d = snd (quarantine_past after before label reason now d)"
| "quarantine_op_step (ReleaseRange i now) d = snd (quarantine_release i now d)"

text \<open>
  What the code leaves to its callers: no signal is logged into a range already closed, and a range is
  released only when no other standing one covers a signal of it.
\<close>

fun op_admissible :: "quarantine_op \<Rightarrow> quarantine_db \<Rightarrow> bool" where
  "op_admissible (LogSignal s) d \<longleftrightarrow> \<not> list_ex (range_covers s) (qd_ranges d)"
| "op_admissible (ReleaseRange i now) d \<longleftrightarrow>
     list_all (\<lambda>s. length (filter (range_covers s) (qd_ranges d)) \<le> 1) (sl_rows (qd_signals d))"
| "op_admissible _ d \<longleftrightarrow> True"

fun run_admissible :: "quarantine_op list \<Rightarrow> quarantine_db \<Rightarrow> bool" where
  "run_admissible [] d \<longleftrightarrow> True"
| "run_admissible (op # ops) d \<longleftrightarrow> op_admissible op d \<and> run_admissible ops (quarantine_op_step op d)"

definition ids_ok :: "quarantine_db \<Rightarrow> bool" where
  "ids_ok d \<longleftrightarrow> distinct (map qr_id (qd_ranges d)) \<and> list_all (\<lambda>r. qr_id r < qd_next_id d) (qd_ranges d)"

lemma update_range_ids [simp]:
  "(\<And>r. qr_id (f r) = qr_id r) \<Longrightarrow> map qr_id (qd_ranges (update_range i f d)) = map qr_id (qd_ranges d)"
  by (induction "qd_ranges d") (auto simp: update_range_def)

end
