(* ===== verification/QuarantineFacts.thy ===== *)
theory QuarantineFacts
  imports Quarantine
begin

text \<open>
  What quarantining promises: as long as its callers keep to the admissible operations the excluded
  signals are the covered ones and no signal is lost; a release of overlapping ranges breaks it.
\<close>

lemma ids_distinct: "ids_ok d \<Longrightarrow> r \<in> set (qd_ranges d) \<Longrightarrow> x \<in> set (qd_ranges d) \<Longrightarrow> qr_id x = qr_id r \<Longrightarrow> x = r"
  by (auto simp: ids_ok_def distinct_map inj_on_def)

lemma ex_update_range:
  assumes "ids_ok d" "r \<in> set (qd_ranges d)"
  shows "list_ex P (qd_ranges (update_range (qr_id r) f d)) \<longleftrightarrow> P (f r) \<or> (\<exists>x \<in> set (qd_ranges d). qr_id x \<noteq> qr_id r \<and> P x)"
    and "list_ex P (qd_ranges d) \<longleftrightarrow> P r \<or> (\<exists>x \<in> set (qd_ranges d). qr_id x \<noteq> qr_id r \<and> P x)"
  using assms ids_distinct [OF assms] by (auto simp: update_range_def list_ex_iff)

lemma at_most_one: "length xs \<le> 1 \<Longrightarrow> a \<in> set xs \<Longrightarrow> b \<in> set xs \<Longrightarrow> a = b"
  by (cases xs) auto

lemma update_range_signals [simp]: "qd_signals (update_range i f d) = qd_signals d" "qd_next_id (update_range i f d) = qd_next_id d"
  by (simp_all add: update_range_def)

lemma coverage_iff: "exclusion_is_coverage d \<longleftrightarrow>
    (\<forall>s \<in> set (sl_rows (qd_signals d)). sr_excluded s = (if list_ex (range_covers s) (qd_ranges d) then 1 else 0))"
  by (simp add: exclusion_is_coverage_def list_all_iff)

lemma marked_rows:
  "sl_rows (snd (mark_excluded_range a b e l))
    = map (\<lambda>s. if sr_seen_at s > a \<and> sr_seen_at s \<le> b then s\<lparr> sr_excluded := (if e then 1 else 0) \<rparr> else s) (sl_rows l)"
  by (simp add: mark_excluded_range_def update_rows_def)

lemma range_covers_flag [simp]: "range_covers (s\<lparr> sr_excluded := x \<rparr>) r = range_covers s r"
  by (simp add: range_covers_def split: option.split)

lemma range_covers_same [simp]: "range_covers (s\<lparr> sr_excluded := x \<rparr>) = range_covers s"
  by (rule ext) simp

lemma ids_ok_step: "ids_ok d \<Longrightarrow> ids_ok (quarantine_op_step op d)"
proof -
  assume d: "ids_ok d"
  have upd: "ids_ok (update_range i f (d\<lparr> qd_signals := l \<rparr>))" if "\<And>r. qr_id (f r) = qr_id r" for i f l
    using d that update_range_ids [of f i "d\<lparr> qd_signals := l \<rparr>", OF that]
    by (simp add: ids_ok_def) (auto simp: update_range_def list_all_iff)
  have add: "ids_ok (add_range label reason lo hi marked now (d\<lparr> qd_signals := l \<rparr>))" for label reason lo hi marked now l
    using d by (auto simp: ids_ok_def add_range_def list_all_iff)
  have same: "d\<lparr> qd_signals := qd_signals d \<rparr> = d" by simp
  show ?thesis
  proof (cases op)
    case (StartWindow label reason now)
    then show ?thesis using d add [of label reason now None None now "qd_signals d"]
      by (auto simp: quarantine_start_def same split: option.splits)
  qed (use d upd add in \<open>auto simp: quarantine_stop_def quarantine_past_def quarantine_release_def ids_ok_def [of "d\<lparr>qd_signals := _\<rparr>"]
      ids_ok_def [of d] split: option.splits prod.splits\<close>)
qed

lemma stop_coverage:
  assumes "ids_ok d" "exclusion_is_coverage d"
  shows "exclusion_is_coverage (snd (quarantine_stop now d))"
proof (cases "open_window d")
  case (Some r)
  then have r: "r \<in> set (qd_ranges d)" "qr_end r = None" "qr_released_at r = None"
    by (auto simp: open_window_def find_Some_iff window_open_def)
  let ?f = "\<lambda>r. r\<lparr> qr_end := Some now, qr_rows_marked := Some (fst (mark_excluded_range (qr_start r) now True (qd_signals d))) \<rparr>"
  obtain n l where m: "mark_excluded_range (qr_start r) now True (qd_signals d) = (n, l)" by (cases "mark_excluded_range (qr_start r) now True (qd_signals d)")
  have rows: "sl_rows l = map (\<lambda>s. if sr_seen_at s > qr_start r \<and> sr_seen_at s \<le> now then s\<lparr> sr_excluded := 1 \<rparr> else s) (sl_rows (qd_signals d))"
    using marked_rows [of "qr_start r" now True "qd_signals d"] by (simp add: m)
  have d': "ids_ok (d\<lparr> qd_signals := l \<rparr>)" using assms(1) by (simp add: ids_ok_def)
  note upd = ex_update_range(1) [OF d', of r] and orig = ex_update_range(2) [OF assms(1) r(1)]
  have no: "\<not> range_covers s r" for s using r by (simp add: range_covers_def)
  show ?thesis using assms(2) r no orig
    by (auto simp: coverage_iff quarantine_stop_def Some m rows upd) (auto simp: range_covers_def)
qed (use assms in \<open>simp add: quarantine_stop_def\<close>)

lemma past_coverage:
  assumes "exclusion_is_coverage d"
  shows "exclusion_is_coverage (snd (quarantine_past after before label reason now d))"
proof -
  obtain n l where m: "mark_excluded_range after before True (qd_signals d) = (n, l)" by (cases "mark_excluded_range after before True (qd_signals d)")
  have rows: "sl_rows l = map (\<lambda>s. if sr_seen_at s > after \<and> sr_seen_at s \<le> before then s\<lparr> sr_excluded := 1 \<rparr> else s) (sl_rows (qd_signals d))"
    using marked_rows [of after before True "qd_signals d"] by (simp add: m)
  show ?thesis using assms by (auto simp: coverage_iff quarantine_past_def m rows add_range_def) (auto simp: range_covers_def)
qed

lemma release_coverage:
  assumes "ids_ok d" "exclusion_is_coverage d" "op_admissible (ReleaseRange i now) d"
  shows "exclusion_is_coverage (snd (quarantine_release i now d))"
proof (cases "find (\<lambda>r. qr_id r = i) (qd_ranges d)")
  case (Some r)
  then have r: "r \<in> set (qd_ranges d)" "qr_id r = i" by (auto simp: find_Some_iff)
  show ?thesis
  proof (cases "qr_released_at r = None \<and> qr_end r \<noteq> None")
    case True
    then obtain e where e: "qr_end r = Some e" "qr_released_at r = None" by auto
    obtain n l where m: "mark_excluded_range (qr_start r) e False (qd_signals d) = (n, l)" by (cases "mark_excluded_range (qr_start r) e False (qd_signals d)")
    have rows: "sl_rows l = map (\<lambda>s. if sr_seen_at s > qr_start r \<and> sr_seen_at s \<le> e then s\<lparr> sr_excluded := 0 \<rparr> else s) (sl_rows (qd_signals d))"
      using marked_rows [of "qr_start r" e False "qd_signals d"] by (simp add: m)
    have d': "ids_ok (d\<lparr> qd_signals := l \<rparr>)" using assms(1) by (simp add: ids_ok_def)
    have only: "\<not> range_covers s x"
      if "s \<in> set (sl_rows (qd_signals d))" "range_covers s r" "x \<in> set (qd_ranges d)" "qr_id x \<noteq> i" for s x
      using assms(3) that r at_most_one [of "filter (range_covers s) (qd_ranges d)" r x] by (auto simp: list_all_iff)
    have covers: "range_covers s r \<longleftrightarrow> sr_seen_at s > qr_start r \<and> sr_seen_at s \<le> e" for s
      by (simp add: range_covers_def e)
    have released: "\<not> range_covers s (r\<lparr> qr_released_at := Some now \<rparr>)" for s by (simp add: range_covers_def)
    note upd = ex_update_range(1) [OF d', of r, unfolded r(2)] and orig = ex_update_range(2) [OF assms(1) r(1), unfolded r(2)]
    show ?thesis using assms(2) only released orig covers
      by (auto simp: coverage_iff quarantine_release_def Some e m rows upd r(1))
  next
    case False
    then show ?thesis using assms(2) by (auto simp: quarantine_release_def Some split: option.splits)
  qed
qed (use assms in \<open>simp add: quarantine_release_def\<close>)

lemma start_coverage: "exclusion_is_coverage d \<Longrightarrow> exclusion_is_coverage (snd (quarantine_start label reason now d))"
  by (auto simp: coverage_iff quarantine_start_def add_range_def split: option.splits) (auto simp: range_covers_def)

text \<open>A signal as it was logged: everything but whether it counts.\<close>

definition logged_signals :: "quarantine_db \<Rightarrow> signal_row list" where
  "logged_signals d = map (\<lambda>s. s\<lparr> sr_excluded := 0 \<rparr>) (sl_rows (qd_signals d))"

definition newly_logged :: "quarantine_op list \<Rightarrow> signal_row list" where
  "newly_logged ops = concat (map (\<lambda>op. case op of LogSignal s \<Rightarrow> [s\<lparr> sr_excluded := 0 \<rparr>] | _ \<Rightarrow> []) ops)"

lemma marking_keeps_signals: "mark_excluded_range a b e l = (n, l') \<Longrightarrow> map (\<lambda>s. s\<lparr> sr_excluded := 0 \<rparr>) (sl_rows l') = map (\<lambda>s. s\<lparr> sr_excluded := 0 \<rparr>) (sl_rows l)"
  using marked_rows [of a b e l] by simp

lemma step_logged: "logged_signals (quarantine_op_step op d) = logged_signals d @ newly_logged [op]"
  by (cases op) (auto simp: marking_keeps_signals logged_signals_def newly_logged_def quarantine_start_def quarantine_stop_def quarantine_past_def
      quarantine_release_def add_range_def update_range_def split: option.splits prod.splits)


definition empty_quarantine :: "signal_row list \<Rightarrow> quarantine_db" where
  "empty_quarantine rows = \<lparr>qd_ranges = [], qd_next_id = 1, qd_signals = empty_signal_log\<lparr> sl_rows := rows \<rparr>\<rparr>"

definition signal_at :: "f64 \<Rightarrow> signal_row" where
  "signal_at t = \<lparr>sr_id = 1, sr_ticker = ''KXBTC-1'', sr_series = ''KXBTC'', sr_side = ''yes'', sr_size = 5, sr_confidence = 1,
     sr_source = [], sr_seen_at = t, sr_resolved = 0, sr_correct = None, sr_resolved_at = None, sr_factors = None,
     sr_raw_notional_usd = None, sr_raw_spread = None, sr_raw_volume_24h = None, sr_last_checked_at = None, sr_price = None,
     sr_excluded = 0\<rparr>"

definition test_window :: "quarantine_op list" where
  "test_window = [LogSignal (signal_at 5), StartWindow ''probe'' None 10, LogSignal (signal_at 15), StopWindow 20, ReleaseRange 1 30]"


text \<open>
  A signal covered by two ranges counts as evidence again as soon as one of them is released, though
  the other still stands.
\<close>
theorem overlapping_release_restores_evidence:
  "(let d = fold quarantine_op_step [MarkPast 0 10 ''a'' None 50, MarkPast 5 20 ''b'' None 60, ReleaseRange 1 70] (empty_quarantine [signal_at 7])
    in list_ex (range_covers (signal_at 7)) (qd_ranges d) \<and> map sr_excluded (sl_rows (qd_signals d)) = [0])"
  by code_simp

text \<open>
  A signal logged while a test window is open counts as evidence until the window is closed.
\<close>
theorem open_window_excludes_nothing:
  "(let d = fold quarantine_op_step [StartWindow ''probe'' None 10, LogSignal (signal_at 15)] (empty_quarantine [])
    in quarantine_is_active d \<and> map sr_excluded (sl_rows (qd_signals d)) = [0]
       \<and> map sr_excluded (sl_rows (qd_signals (quarantine_op_step (StopWindow 20) d))) = [1])"
  by code_simp

end
