(* ===== verification/Regime.thy ===== *)
theory Regime
  imports TradeHistory ShadowMode Ranking
begin

text \<open>
  \<open>services/history/regime_analytics.py\<close>: the trade history in segments by hour, weekday, series,
  subcategory and category of the entry, each summarised. Lookups are the category table's.
\<close>

definition segment :: "(history_row \<Rightarrow> 'k option) \<Rightarrow> history_row list \<Rightarrow> ('k, history_row list) pdict" where
  "segment key rows =
     fold (\<lambda>r d. case key r of None \<Rightarrow> d | Some k \<Rightarrow> dput k (dget_or d k [] @ [r]) d) rows []"

definition summarize_segments :: "(f64 \<Rightarrow> f64) \<Rightarrow> ('k, history_row list) pdict \<Rightarrow> ('k \<times> history_summary) list" where
  "summarize_segments sq_root d = map (\<lambda>(k, g). (k, compute_summary sq_root g)) d"

text \<open>\<open>time.gmtime\<close>: whole seconds since the epoch, a Thursday; Monday is 0.\<close>

definition utc_hour :: "f64 \<Rightarrow> int" where "utc_hour t = (\<lfloor>t\<rfloor> div 3600) mod 24"
definition utc_weekday :: "f64 \<Rightarrow> int" where "utc_weekday t = (\<lfloor>t\<rfloor> div 86400 + 3) mod 7"

definition by_hour_of_day :: "(f64 \<Rightarrow> f64) \<Rightarrow> history_row list \<Rightarrow> (int \<times> history_summary) list" where
  "by_hour_of_day sq_root rows =
     summarize_segments sq_root (sort_key fst (segment (\<lambda>r. map_option utc_hour (hr_entry_timestamp r)) rows))"

definition by_day_of_week :: "(f64 \<Rightarrow> f64) \<Rightarrow> history_row list \<Rightarrow> (int \<times> history_summary) list" where
  "by_day_of_week sq_root rows =
     summarize_segments sq_root (sort_key fst (segment (\<lambda>r. map_option utc_weekday (hr_entry_timestamp r)) rows))"

definition largest_first :: "('k \<times> history_summary) list \<Rightarrow> ('k \<times> history_summary) list" where
  "largest_first xs = sort_key (\<lambda>(k, s). - int (hs_total_closed s)) xs"

definition by_series :: "(f64 \<Rightarrow> f64) \<Rightarrow> title_cache \<Rightarrow> history_row list \<Rightarrow> (string \<times> history_summary) list" where
  "by_series sq_root tc rows =
     largest_first (summarize_segments sq_root
       (segment (\<lambda>r. let s = series_of tc (hr_ticker r) in if s = [] then None else Some s) rows))"

definition by_subcategory :: "(f64 \<Rightarrow> f64) \<Rightarrow> category_table \<Rightarrow> history_row list \<Rightarrow> (string \<times> history_summary) list" where
  "by_subcategory sq_root ct rows =
     largest_first (summarize_segments sq_root
       (segment (\<lambda>r. dget (subcategories_for_tickers (map hr_ticker rows) ct) (hr_ticker r)) rows))"

definition by_category :: "(f64 \<Rightarrow> f64) \<Rightarrow> category_table \<Rightarrow> history_row list \<Rightarrow> (string \<times> history_summary) list" where
  "by_category sq_root ct rows =
     largest_first (summarize_segments sq_root
       (segment (\<lambda>r. dget (categories_for_tickers (map hr_ticker rows) ct) (hr_ticker r)) rows))"

subsection \<open>Segments\<close>

lemma segment_lookup:
  "dict_ok d \<Longrightarrow> dict_ok (fold (\<lambda>r d. case key r of None \<Rightarrow> d | Some k \<Rightarrow> dput k (dget_or d k [] @ [r]) d) rows d)
    \<and> dget (fold (\<lambda>r d. case key r of None \<Rightarrow> d | Some k \<Rightarrow> dput k (dget_or d k [] @ [r]) d) rows d) k
       = (let g = filter (\<lambda>r. key r = Some k) rows in if g = [] then dget d k else Some (dget_or d k [] @ g))"
  by (induction rows arbitrary: d) (auto simp: dget_or_def Let_def split: option.splits)

lemma segment_group:
  "dict_ok (segment key rows)"
  "dget (segment key rows) k = (let g = filter (\<lambda>r. key r = Some k) rows in if g = [] then None else Some g)"
  using segment_lookup [of "[]" key rows k] by (simp_all add: segment_def dget_or_def Let_def)

lemma segment_total: "(\<Sum>(k, g)\<leftarrow>segment key rows. length g) = length (filter (\<lambda>r. key r \<noteq> None) rows)"
proof (induction rows rule: rev_induct)
  case (snoc r rows)
  have put: "(\<Sum>(k, g)\<leftarrow>dput k (dget_or d k [] @ [r]) d. length g) = (\<Sum>(k, g)\<leftarrow>d. length g) + 1"
    for k and d :: "('a, history_row list) pdict"
    by (induction d) (auto simp: dget_or_def)
  show ?case using snoc by (simp add: segment_def put split: option.split)
qed (simp add: segment_def)

lemma in_segment: "(k, g) \<in> set (segment key rows) \<longleftrightarrow> g = filter (\<lambda>r. key r = Some k) rows \<and> g \<noteq> []"
proof -
  have "(k, g) \<in> set (segment key rows) \<longleftrightarrow> dget (segment key rows) k = Some g"
    using dget_iff_in_set [OF segment_group(1)] by metis
  then show ?thesis by (auto simp: segment_group(2) Let_def)
qed

lemma summary_size [simp]: "hs_total_closed (compute_summary sq_root g) = length g"
  by (simp add: compute_summary_def Let_def)

lemma segments_total: "(\<Sum>(k, s)\<leftarrow>summarize_segments sq_root d. hs_total_closed s) = (\<Sum>(k, g)\<leftarrow>d. length g)"
  by (induction d) (auto simp: summarize_segments_def)

lemma total_sort_key: "(\<Sum>x\<leftarrow>sort_key k xs. f x) = (\<Sum>x\<leftarrow>xs. f x :: nat)"
  by (metis mset_map mset_sort sum_mset_sum_list)

lemma in_summaries: "set d = set (segment key rows) \<Longrightarrow> (k, s) \<in> set (summarize_segments sq_root d)
    \<longleftrightarrow> (let g = filter (\<lambda>r. key r = Some k) rows in g \<noteq> [] \<and> s = compute_summary sq_root g)"
  by (auto simp: summarize_segments_def image_iff in_segment Let_def split: prod.split)

lemma total_of_summaries: "mset d = mset (segment key rows)
    \<Longrightarrow> (\<Sum>(k, s)\<leftarrow>summarize_segments sq_root d. hs_total_closed s) = length (filter (\<lambda>r. key r \<noteq> None) rows)"
  unfolding segments_total segment_total [symmetric] by (metis mset_map sum_mset_sum_list)

definition series_key :: "title_cache \<Rightarrow> history_row \<Rightarrow> string option" where
  "series_key tc r = (let s = series_of tc (hr_ticker r) in if s = [] then None else Some s)"

text \<open>
  Each line of a segmentation by hour, weekday, series, subcategory or category is the summary of
  exactly the trades of its segment, and the lines by time and series add up to the trades whose
  segment is known.
\<close>
theorem segments_partition_the_history:
  "(\<Sum>(k, s)\<leftarrow>by_hour_of_day sq_root rows. hs_total_closed s) = length (filter (\<lambda>r. hr_entry_timestamp r \<noteq> None) rows)
   \<and> (\<Sum>(k, s)\<leftarrow>by_day_of_week sq_root rows. hs_total_closed s) = length (filter (\<lambda>r. hr_entry_timestamp r \<noteq> None) rows)
   \<and> (\<Sum>(k, s)\<leftarrow>by_series sq_root tc rows. hs_total_closed s) = length (filter (\<lambda>r. series_key tc r \<noteq> None) rows)
   \<and> ((name, s) \<in> set (by_series sq_root tc rows)
        \<longleftrightarrow> (let g = filter (\<lambda>r. series_key tc r = Some name) rows in g \<noteq> [] \<and> s = compute_summary sq_root g))
   \<and> ((name, s) \<in> set (by_category sq_root ct rows)
        \<longleftrightarrow> (let g = filter (\<lambda>r. dget (categories_for_tickers (map hr_ticker rows) ct) (hr_ticker r) = Some name) rows
             in g \<noteq> [] \<and> s = compute_summary sq_root g))
   \<and> ((name, s) \<in> set (by_subcategory sq_root ct rows)
        \<longleftrightarrow> (let g = filter (\<lambda>r. dget (subcategories_for_tickers (map hr_ticker rows) ct) (hr_ticker r) = Some name) rows
             in g \<noteq> [] \<and> s = compute_summary sq_root g))"
proof -
  have "series_key tc = (\<lambda>r. let s = series_of tc (hr_ticker r) in if s = [] then None else Some s)"
    by (simp add: series_key_def fun_eq_iff)
  then show ?thesis
    by (simp add: by_hour_of_day_def by_day_of_week_def by_series_def by_subcategory_def by_category_def largest_first_def
        total_sort_key total_of_summaries in_summaries [OF refl])
qed

end
