(* ===== verification/ConfigPerf.thy ===== *)
theory ConfigPerf
  imports MarketLookup Ranking HistoryPush "HOL-Library.List_Lexorder" "HOL-Library.Char_ord"
begin

text \<open>
  \<open>services/config/config_performance.py\<close> and \<open>services/history/suggestion_decisions.py\<close>: the
  fingerprint of a strategy configuration, the variants seen, the log of applied changes and the declined
  suggestions. The hash and \<open>json.dumps\<close> are parameters; a stored document reads back with sorted keys.
\<close>

subsection \<open>Documents\<close>

fun canonical :: "json \<Rightarrow> json" where
  "canonical (JObj d) = JObj (sort_key fst (map (\<lambda>(k, v). (k, canonical v)) d))"
| "canonical (JArr xs) = JArr (map canonical xs)"
| "canonical v = v"

text \<open>Python's \<open>==\<close> at every depth: numbers by value, dictionaries whatever their order.\<close>

fun eq_form :: "json \<Rightarrow> json" where
  "eq_form (JObj d) = JObj (sort_key fst (map (\<lambda>(k, v). (k, eq_form v)) d))"
| "eq_form (JArr xs) = JArr (map eq_form xs)"
| "eq_form (JInt n) = JFloat (of_int n)"
| "eq_form (JBool b) = JFloat (if b then 1 else 0)"
| "eq_form v = v"

definition py_eq :: "json \<Rightarrow> json \<Rightarrow> bool" where "py_eq a b \<longleftrightarrow> eq_form a = eq_form b"

subsection \<open>Variants\<close>

definition NON_TUNABLE_FIELDS :: "string list" where "NON_TUNABLE_FIELDS = [''name'']"

definition strategy_subset :: "msg \<Rightarrow> msg option" where
  "strategy_subset cfg =
     (case dget cfg ''strategy'' of Some (JObj d) \<Rightarrow> Some (filter (\<lambda>(k, v). k \<notin> set NON_TUNABLE_FIELDS) d) | _ \<Rightarrow> None)"

definition fingerprint :: "(string \<Rightarrow> string) \<Rightarrow> (json \<Rightarrow> string) \<Rightarrow> msg \<Rightarrow> string option" where
  "fingerprint sha256 dumps cfg = map_option (\<lambda>d. take 16 (sha256 (dumps (canonical (JObj d))))) (strategy_subset cfg)"

record variant_row =
  vr_fingerprint :: string
  vr_config :: json
  vr_first_seen_at :: f64

record change_row =
  cr_id :: int
  cr_applied_at :: f64
  cr_config_path :: string
  cr_old_value :: json
  cr_new_value :: json
  cr_rationale :: string
  cr_trade_count :: nat
  cr_fingerprint_before :: string
  cr_fingerprint_after :: string
  cr_auto_applied :: bool
  cr_source :: string

record perf_db =
  pd_variants :: "variant_row list"
  pd_changes :: "change_row list"
  pd_next_id :: int
  pd_history :: history_push

definition record_variant :: "string \<Rightarrow> msg \<Rightarrow> f64 \<Rightarrow> perf_db \<Rightarrow> perf_db option" where
  "record_variant fp cfg now d =
     map_option (\<lambda>subset.
       if fp \<in> set (map vr_fingerprint (pd_variants d)) then d
       else d\<lparr> pd_variants := pd_variants d @ [\<lparr>vr_fingerprint = fp, vr_config = canonical (JObj subset), vr_first_seen_at = now\<rparr>] \<rparr>)
       (strategy_subset cfg)"

definition get_variant :: "string \<Rightarrow> perf_db \<Rightarrow> variant_row option" where
  "get_variant fp d = find (\<lambda>r. vr_fingerprint r = fp) (pd_variants d)"

definition all_variants :: "perf_db \<Rightarrow> variant_row list" where
  "all_variants d = sort_key vr_first_seen_at (pd_variants d)"

subsection \<open>Applied changes\<close>

definition log_applied_change ::
  "string \<Rightarrow> json \<Rightarrow> json \<Rightarrow> string \<Rightarrow> nat \<Rightarrow> string \<Rightarrow> string \<Rightarrow> bool \<Rightarrow> string \<Rightarrow> f64 \<Rightarrow> perf_db \<Rightarrow> perf_db" where
  "log_applied_change path old_value new_value rationale trade_count before after auto source now d =
     d\<lparr> pd_changes := pd_changes d @ [\<lparr>cr_id = pd_next_id d, cr_applied_at = now, cr_config_path = path,
          cr_old_value = canonical old_value, cr_new_value = canonical new_value, cr_rationale = rationale,
          cr_trade_count = trade_count, cr_fingerprint_before = before, cr_fingerprint_after = after,
          cr_auto_applied = auto, cr_source = source\<rparr>],
        pd_next_id := pd_next_id d + 1, pd_history := mark_history_changed now (pd_history d) \<rparr>"

definition recent_applied_changes :: "nat \<Rightarrow> nat \<Rightarrow> perf_db \<Rightarrow> change_row list" where
  "recent_applied_changes limit offset d = take limit (drop offset (sorted_desc cr_applied_at (pd_changes d)))"

definition diff_patch :: "msg \<Rightarrow> msg \<Rightarrow> (string \<times> json \<times> json) list" where
  "diff_patch old_cfg patch =
     concat (map (\<lambda>(key, v).
       case (v, jget old_cfg key) of
         (JObj news, JObj old) \<Rightarrow>
           concat (map (\<lambda>(field, new). if py_eq (jget old field) new then [] else [(key @ ''.'' @ field, jget old field, new)]) news)
       | (_, old) \<Rightarrow> if py_eq old v then [] else [(key, old, v)]) patch)"

definition applied_changes_count :: "perf_db \<Rightarrow> nat" where "applied_changes_count d = length (pd_changes d)"

definition latest_change :: "change_row list \<Rightarrow> f64 option" where
  "latest_change rs = (if rs = [] then None else Some (Max (set (map cr_applied_at rs))))"

definition last_applied_at :: "string \<Rightarrow> perf_db \<Rightarrow> f64 option" where
  "last_applied_at source d = latest_change (filter (\<lambda>r. cr_source r = source) (pd_changes d))"

definition all_last_applied_by_path :: "perf_db \<Rightarrow> (string, f64) pdict" where
  "all_last_applied_by_path d =
     concat (map (\<lambda>p. case latest_change (filter (\<lambda>r. cr_config_path r = p) (pd_changes d)) of None \<Rightarrow> [] | Some t \<Rightarrow> [(p, t)])
       (remdups (map cr_config_path (pd_changes d))))"

subsection \<open>Declined suggestions\<close>

record declined =
  dc_config_path :: string
  dc_rationale :: "string option"
  dc_declined_at :: f64

type_synonym declined_table = "(string, declined) pdict"

definition decline :: "string \<Rightarrow> string \<Rightarrow> string option \<Rightarrow> f64 \<Rightarrow> declined_table \<Rightarrow> declined_table" where
  "decline i path rationale now t =
     (case dget t i of
        Some r \<Rightarrow> dput i (r\<lparr> dc_declined_at := now \<rparr>) t
      | None \<Rightarrow> dput i \<lparr>dc_config_path = path, dc_rationale = rationale, dc_declined_at = now\<rparr> t)"

definition undecline :: "string \<Rightarrow> declined_table \<Rightarrow> bool \<times> declined_table" where
  "undecline i t = (dget t i \<noteq> None, ddel i t)"

definition declined_ids :: "declined_table \<Rightarrow> string list" where "declined_ids t = dkeys t"

definition list_declined :: "nat \<Rightarrow> declined_table \<Rightarrow> (string \<times> declined) list" where
  "list_declined limit t = take limit (sorted_desc (\<lambda>(i, r). dc_declined_at r) t)"

definition clear_declined :: "declined_table \<Rightarrow> declined_table" where "clear_declined t = []"

subsection \<open>What the change log says\<close>

lemma latest_change_ge: "r \<in> set rs \<Longrightarrow> \<exists>t. latest_change rs = Some t \<and> cr_applied_at r \<le> t"
  by (cases "rs = []") (auto simp: latest_change_def)

lemma last_applied_lookup: "dget (all_last_applied_by_path d) p = latest_change (filter (\<lambda>r. cr_config_path r = p) (pd_changes d))"
proof -
  have "dget (concat (map (\<lambda>p. case f p of None \<Rightarrow> [] | Some t \<Rightarrow> [(p, t :: f64)]) ps)) p = (if p \<in> set ps then f p else None)"
    for f and ps :: "string list"
    by (induction ps) (auto split: option.split)
  note this [of "\<lambda>p. latest_change (filter (\<lambda>r. cr_config_path r = p) (pd_changes d))"]
  moreover have "latest_change (filter (\<lambda>r. cr_config_path r = p) (pd_changes d)) = None" if "p \<notin> cr_config_path ` set (pd_changes d)"
    using that by (auto simp: latest_change_def filter_empty_conv)
  ultimately show ?thesis by (simp add: all_last_applied_by_path_def)
qed

end
