(* ===== verification/Advisory.thy ===== *)
theory Advisory
  imports Regime ConfigPerf ConfigBounds ConfigStore PyRepr CandidateLog SeriesEval "HOL-Library.Monad_Syntax"
begin

text \<open>
  \<open>services/advisory/advisory_engine.py\<close> and the apply route: suggested settings derived from the trade
  history, the rejected candidates, the series verdicts and the segments. A function that may raise gives
  \<open>None\<close>. Square root, square and hash are parameters; the prose of a rationale is not modelled.
\<close>

record advisor_env =
  ax_sqrt :: "f64 \<Rightarrow> f64"
  ax_square :: "f64 \<Rightarrow> f64"
  ax_sha256 :: "string \<Rightarrow> string"

subsection \<open>Python numbers and their text\<close>

fun num_val :: "json \<Rightarrow> f64" where
  "num_val (JInt n) = of_int n"
| "num_val (JFloat x) = x"
| "num_val (JBool b) = (if b then 1 else 0)"
| "num_val _ = 0"

fun as_num :: "json \<Rightarrow> json option" where
  "as_num (JInt n) = Some (JInt n)"
| "as_num (JFloat x) = Some (JFloat x)"
| "as_num (JBool b) = Some (JInt (if b then 1 else 0))"
| "as_num _ = None"

definition num_op :: "(int \<Rightarrow> int \<Rightarrow> int) \<Rightarrow> (f64 \<Rightarrow> f64 \<Rightarrow> f64) \<Rightarrow> json \<Rightarrow> json \<Rightarrow> json option" where
  "num_op f g a b = do { x \<leftarrow> as_num a; y \<leftarrow> as_num b;
     Some (case (x, y) of (JInt m, JInt n) \<Rightarrow> JInt (f m n) | _ \<Rightarrow> JFloat (g (fl (num_val x)) (fl (num_val y)))) }"

definition num_add :: "json \<Rightarrow> json \<Rightarrow> json option" where "num_add = num_op (+) fadd"
definition num_sub :: "json \<Rightarrow> json \<Rightarrow> json option" where "num_sub = num_op (-) fsub"

text \<open>\<open>min(a, b)\<close> and \<open>max(a, b)\<close> keep the first of equal arguments; a whole number rounds to itself.\<close>

definition num_min :: "json \<Rightarrow> json \<Rightarrow> json option" where
  "num_min a b = do { x \<leftarrow> as_num a; y \<leftarrow> as_num b; Some (if num_val b < num_val a then b else a) }"

definition num_max :: "json \<Rightarrow> json \<Rightarrow> json option" where
  "num_max a b = do { x \<leftarrow> as_num a; y \<leftarrow> as_num b; Some (if num_val b > num_val a then b else a) }"

definition num_round :: "nat \<Rightarrow> json \<Rightarrow> json option" where
  "num_round k a = do { x \<leftarrow> as_num a; Some (case x of JFloat v \<Rightarrow> JFloat (py_round k v) | _ \<Rightarrow> x) }"

fun join_with :: "string \<Rightarrow> string list \<Rightarrow> string" where
  "join_with sep [] = []"
| "join_with sep [x] = x"
| "join_with sep (x # xs) = x @ sep @ join_with sep xs"

definition hex_digit :: "nat \<Rightarrow> char" where "hex_digit n = ''0123456789abcdef'' ! n"

definition escape_char :: "char \<Rightarrow> char \<Rightarrow> string" where
  "escape_char q c =
     (let n = of_char c :: nat in
      if c = q \<or> n = 92 then [CHR 92, c] else if n = 10 then [CHR 92, CHR ''n''] else if n = 13 then [CHR 92, CHR ''r'']
      else if n = 9 then [CHR 92, CHR ''t''] else if n < 32 \<or> n = 127 then [CHR 92, CHR ''x'', hex_digit (n div 16), hex_digit (n mod 16)]
      else [c])"

definition repr_str :: "string \<Rightarrow> string" where
  "repr_str s =
     (let q = (if CHR 39 \<in> set s \<and> CHR 34 \<notin> set s then CHR 34 else CHR 39) in q # concat (map (escape_char q) s) @ [q])"

fun repr_json :: "json \<Rightarrow> string" where
  "repr_json JNull = ''None''"
| "repr_json (JBool b) = (if b then ''True'' else ''False'')"
| "repr_json (JInt n) = str_int n"
| "repr_json (JFloat x) = py_repr x"
| "repr_json (JStr s) = repr_str s"
| "repr_json (JArr xs) = ''['' @ join_with '', '' (map repr_json xs) @ '']''"
| "repr_json (JObj d) = ''{'' @ join_with '', '' (map (\<lambda>(k, v). repr_str k @ '': '' @ repr_json v) d) @ ''}''"

subsection \<open>Suggestions\<close>

record suggestion =
  sg_id :: string
  sg_config_path :: string
  sg_current :: json
  sg_suggested :: json
  sg_n :: nat
  sg_label :: string
  sg_source :: "string option"
  sg_compared :: "string option"
  sg_significance :: "f64 option"
  sg_fresh :: "nat option"

definition rec_id :: "advisor_env \<Rightarrow> string \<Rightarrow> json \<Rightarrow> nat \<Rightarrow> string" where
  "rec_id x path v n = take 12 (ax_sha256 x (path @ ''|'' @ repr_json v @ ''|'' @ show_nat n))"

definition suggest :: "advisor_env \<Rightarrow> string \<Rightarrow> json \<Rightarrow> json \<Rightarrow> nat \<Rightarrow> string option \<Rightarrow> f64 option \<Rightarrow> suggestion" where
  "suggest x path cur v n source significance =
     \<lparr>sg_id = rec_id x path v n, sg_config_path = path, sg_current = cur, sg_suggested = v, sg_n = n,
      sg_label = confidence_label n, sg_source = source, sg_compared = None, sg_significance = significance, sg_fresh = None\<rparr>"

definition margin95 :: "advisor_env \<Rightarrow> nat \<Rightarrow> f64 \<Rightarrow> f64 option" where
  "margin95 x n wr = margin_of_error_pts (ax_sqrt x) (int n) wr (fl (95/100))"

definition comparability_margin_pts :: "advisor_env \<Rightarrow> nat \<Rightarrow> f64 \<Rightarrow> nat \<Rightarrow> f64 \<Rightarrow> f64 option" where
  "comparability_margin_pts x na wa nb wb = (if na \<le> nb then margin95 x na wa else margin95 x nb wb)"

text \<open>No margin is an infinite one: everything is below it.\<close>

definition below_margin :: "f64 \<Rightarrow> f64 option \<Rightarrow> bool" where
  "below_margin gap m = (case m of None \<Rightarrow> True | Some m \<Rightarrow> gap < m)"

definition z_score :: "advisor_env \<Rightarrow> nat \<Rightarrow> f64 \<Rightarrow> nat \<Rightarrow> f64 \<Rightarrow> f64 option" where
  "z_score x na wa nb wb = two_proportion_z_score (ax_sqrt x) (int na) wa (int nb) wb"

definition t_score :: "advisor_env \<Rightarrow> f64 list \<Rightarrow> f64 option" where
  "t_score x values = one_sample_t_score (ax_sqrt x) (ax_square x) values 0"

definition share_won :: "history_row list \<Rightarrow> f64" where
  "share_won g = fmul (fl (of_nat (length (filter hr_won g)) / of_nat (length g))) 100"

definition jget_or :: "settings \<Rightarrow> string \<Rightarrow> json \<Rightarrow> json" where
  "jget_or d k v = (case dget d k of None \<Rightarrow> v | Some w \<Rightarrow> w)"

subsection \<open>Variants and effects\<close>

definition variant_summaries :: "advisor_env \<Rightarrow> history_row list \<Rightarrow> (string, history_summary) pdict" where
  "variant_summaries x rows = summarize_segments (ax_sqrt x) (segment hr_config_fingerprint rows)"

definition effect_of :: "history_summary \<Rightarrow> history_summary \<Rightarrow> (f64 option \<times> nat \<times> f64) \<times> (f64 option \<times> nat \<times> f64)" where
  "effect_of b a = ((hs_win_rate_pct b, hs_total_closed b, hs_total_realized_pnl b), (hs_win_rate_pct a, hs_total_closed a, hs_total_realized_pnl a))"

definition change_effect :: "string \<Rightarrow> string \<Rightarrow> (string, history_summary) pdict
    \<Rightarrow> ((f64 option \<times> nat \<times> f64) \<times> (f64 option \<times> nat \<times> f64)) option" where
  "change_effect fp_before fp_after summaries =
     (if fp_before = fp_after then None
      else case (dget summaries fp_before, dget summaries fp_after) of
        (Some b, Some a) \<Rightarrow> if hs_total_closed b = 0 \<or> hs_total_closed a = 0 then None else Some (effect_of b a)
      | _ \<Rightarrow> None)"

definition change_effect_windowed :: "advisor_env \<Rightarrow> f64 \<Rightarrow> history_row list
    \<Rightarrow> ((f64 option \<times> nat \<times> f64) \<times> (f64 option \<times> nat \<times> f64)) option" where
  "change_effect_windowed x applied_at rows =
     (let b = filter (\<lambda>r. case hr_entry_timestamp r of None \<Rightarrow> False | Some t \<Rightarrow> t < applied_at) rows;
          a = filter (\<lambda>r. case hr_entry_timestamp r of None \<Rightarrow> False | Some t \<Rightarrow> t \<ge> applied_at) rows
      in if b = [] \<or> a = [] then None else Some (effect_of (compute_summary (ax_sqrt x) b) (compute_summary (ax_sqrt x) a)))"

subsection \<open>From the trade history\<close>

datatype conf_bucket = LowConf | MediumConf | HighConf

definition bucket_of :: "f64 \<Rightarrow> conf_bucket" where
  "bucket_of c = (if c < fl (1/2) then LowConf else if c \<le> fl (3/4) then MediumConf else HighConf)"

definition bucket_floor :: "conf_bucket \<Rightarrow> f64" where
  "bucket_floor b = (case b of LowConf \<Rightarrow> 0 | MediumConf \<Rightarrow> fl (1/2) | HighConf \<Rightarrow> fl (3/4))"

definition conf_groups :: "history_row list \<Rightarrow> (conf_bucket \<times> history_row list) list" where
  "conf_groups rows = filter (\<lambda>(b, g). g \<noteq> [])
     (map (\<lambda>b. (b, filter (\<lambda>r. case hr_entry_confidence r of None \<Rightarrow> False | Some c \<Rightarrow> bucket_of c = b) rows)) [LowConf, MediumConf, HighConf])"

text \<open>\<open>min(d, key=...)\<close> and \<open>max(d, key=...)\<close>: the first of the best.\<close>

definition first_best :: "('a \<Rightarrow> 'a \<Rightarrow> bool) \<Rightarrow> 'a list \<Rightarrow> 'a" where
  "first_best better xs = fold (\<lambda>y m. if better y m then y else m) (tl xs) (hd xs)"

definition entry_threshold_recommendation :: "advisor_env \<Rightarrow> history_row list \<Rightarrow> json \<Rightarrow> suggestion list option" where
  "entry_threshold_recommendation x rows cur =
     (let groups = conf_groups rows in
      if length groups < 2 then Some []
      else let worst = first_best (\<lambda>a b. share_won (snd a) < share_won (snd b)) groups;
               best = first_best (\<lambda>a b. share_won (snd a) > share_won (snd b)) groups;
               nb = length (snd best); nw = length (snd worst); rb = share_won (snd best); rw = share_won (snd worst)
        in if below_margin (fsub rb rw) (comparability_margin_pts x nb rb nw rw) then Some []
           else do { s \<leftarrow> num_max cur (JFloat (bucket_floor (fst best)));
                     if num_val s \<le> num_val cur then Some []
                     else do { v \<leftarrow> num_round 3 s;
                       Some [suggest x ''strategy.entry_threshold'' cur v (sum_list (map (length \<circ> snd) groups)) None (z_score x nb rb nw rw)] } })"

definition is_longshot :: "json \<Rightarrow> history_row \<Rightarrow> bool" where
  "is_longshot zone r = (case hr_entry_price r of None \<Rightarrow> False
     | Some p \<Rightarrow> p \<le> num_val zone \<or> p \<ge> fsub 1 (fl (num_val zone)))"

definition longshot_bonus_recommendation :: "advisor_env \<Rightarrow> history_row list \<Rightarrow> settings \<Rightarrow> suggestion list option" where
  "longshot_bonus_recommendation x rows strat =
     (let zone = jget_or strat ''longshot_price_threshold'' (JFloat (fl (15/100)));
          bonus = jget_or strat ''longshot_entry_threshold_bonus'' (JFloat (fl (15/100)));
          priced = filter (\<lambda>r. hr_entry_price r \<noteq> None) rows in
      if priced = [] then Some []
      else if as_num zone = None then None
      else let long = filter (is_longshot zone) priced; other = filter (\<lambda>r. \<not> is_longshot zone r) priced in
        if length long < 3 \<or> length other < 3 then Some []
        else let nl = length long; no = length other; wl = share_won long; wo = share_won other in
          if below_margin (fsub wo wl) (comparability_margin_pts x no wo nl wl) then Some []
          else do { s \<leftarrow> num_add bonus (JFloat (fl (1/10)));
                    t \<leftarrow> num_min (JFloat (fl (1/2))) s;
                    v \<leftarrow> num_round 3 t;
                    Some (if num_val v \<le> num_val bonus then []
                          else [suggest x ''strategy.longshot_entry_threshold_bonus'' bonus v (nl + no) None (z_score x no wo nl wl)]) })"

definition left_fractions :: "history_row list \<Rightarrow> f64 list" where
  "left_fractions g = concat (map (\<lambda>r. case (hr_left_on_table r, hr_cost_basis r) of
      (Some l, Some c) \<Rightarrow> if l \<noteq> 0 \<and> c \<noteq> 0 then [fdiv l c] else [] | _ \<Rightarrow> []) g)"

definition loss_fractions :: "history_row list \<Rightarrow> f64 list" where
  "loss_fractions g = concat (map (\<lambda>r. case (hr_realized_pnl r, hr_cost_basis r) of
      (Some p, Some c) \<Rightarrow> if c \<noteq> 0 then [fdiv (- p) c] else [] | _ \<Rightarrow> []) g)"

definition exit_pct_suggestion :: "advisor_env \<Rightarrow> string \<Rightarrow> json \<Rightarrow> settings \<Rightarrow> nat \<Rightarrow> f64 list \<Rightarrow> f64 \<Rightarrow> suggestion list" where
  "exit_pct_suggestion x field cur strat n values suggested =
     [suggest x (''strategy.'' @ field) cur (JFloat (fst (clamp field suggested strat))) n None (t_score x values)]"

definition take_profit_recommendation :: "advisor_env \<Rightarrow> history_row list \<Rightarrow> settings \<Rightarrow> suggestion list option" where
  "take_profit_recommendation x rows strat =
     (let cur = jget strat ''take_profit_pct''; g = filter (\<lambda>r. hr_close_type r = Some TakeProfit) rows; fr = left_fractions g in
      if cur = JNull \<or> length g < 3 \<or> fr = [] then Some []
      else do { c \<leftarrow> as_num cur;
                Some (exit_pct_suggestion x ''take_profit_pct'' cur strat (length g) fr (py_round 3 (fadd (fl (num_val c)) (py_mean fr)))) })"

definition stop_loss_recommendation :: "advisor_env \<Rightarrow> history_row list \<Rightarrow> settings \<Rightarrow> suggestion list option" where
  "stop_loss_recommendation x rows strat =
     (let cur = jget strat ''stop_loss_pct''; g = filter (\<lambda>r. hr_close_type r = Some StopLoss) rows; losses = loss_fractions g in
      if cur = JNull \<or> length g < 3 \<or> losses = [] then Some []
      else do { c \<leftarrow> as_num cur;
                (let over = filter (\<lambda>v. v > 0) (map (\<lambda>l. fsub l (fl (num_val c))) losses) in
                 Some (if over = [] then []
                       else exit_pct_suggestion x ''stop_loss_pct'' cur strat (length g) over
                         (py_round 3 (max (fl (1/100)) (fsub (fl (num_val c)) (py_mean over)))))) })"

definition mean_pnl :: "history_row list \<Rightarrow> f64" where
  "mean_pnl g = fdiv (py_sum (values_present hr_realized_pnl g)) (fint (int (length g)))"

definition auto_exit_threshold_recommendation :: "advisor_env \<Rightarrow> history_row list \<Rightarrow> settings \<Rightarrow> suggestion list option" where
  "auto_exit_threshold_recommendation x rows strat =
     (let g = filter (\<lambda>r. hr_close_type r = Some AutoExit) rows; cur = jget_or strat ''auto_exit_threshold'' (JFloat (fl (6/10))) in
      if length g < 3 then Some []
      else do { t \<leftarrow> (if mean_pnl g > 0 then do { s \<leftarrow> num_add cur (JFloat (fl (5/100))); num_min (JFloat (fl (95/100))) s }
                      else do { s \<leftarrow> num_sub cur (JFloat (fl (5/100))); num_max (JFloat (fl (5/100))) s });
                v \<leftarrow> num_round 3 t;
                Some (if py_eq v cur then []
                      else [suggest x ''strategy.auto_exit_threshold'' cur v (length g) None (t_score x (values_present hr_realized_pnl g))]) })"

definition sentiment_exit_recommendations :: "advisor_env \<Rightarrow> history_row list \<Rightarrow> settings \<Rightarrow> suggestion list option" where
  "sentiment_exit_recommendations x rows strat =
     (let g = filter (\<lambda>r. hr_close_type r = Some SentimentReversal) rows;
          lean = jget_or strat ''exit_sentiment_lean_pct'' (JInt 65); signals = jget_or strat ''exit_sentiment_min_signals'' (JInt 3);
          t = t_score x (values_present hr_realized_pnl g) in
      if length g < 3 then Some []
      else do { (l, s) \<leftarrow> (if mean_pnl g \<le> 0
                  then do { a \<leftarrow> num_add lean (JInt 5); l \<leftarrow> num_min (JInt 95) a; s \<leftarrow> num_add signals (JInt 2); Some (l, s) }
                  else do { a \<leftarrow> num_sub lean (JInt 5); l \<leftarrow> num_max (JInt 50) a; b \<leftarrow> num_sub signals (JInt 2);
                            s \<leftarrow> num_max (JInt 1) b; Some (l, s) });
                Some ((if py_eq l lean then [] else [suggest x ''strategy.exit_sentiment_lean_pct'' lean l (length g) None t])
                  @ (if py_eq s signals then [] else [suggest x ''strategy.exit_sentiment_min_signals'' signals s (length g) None t])) })"

definition within_variant_recommendations :: "advisor_env \<Rightarrow> history_row list \<Rightarrow> settings \<Rightarrow> suggestion list option" where
  "within_variant_recommendations x rows strat =
     do { cur \<leftarrow> dget strat ''entry_threshold'';
          a \<leftarrow> entry_threshold_recommendation x rows cur;
          b \<leftarrow> longshot_bonus_recommendation x rows strat;
          c \<leftarrow> take_profit_recommendation x rows strat;
          d \<leftarrow> stop_loss_recommendation x rows strat;
          e \<leftarrow> auto_exit_threshold_recommendation x rows strat;
          f \<leftarrow> sentiment_exit_recommendations x rows strat;
          Some (a @ b @ c @ d @ e @ f) }"

subsection \<open>From other variants\<close>

text \<open>\<open>variants\<close> maps a fingerprint to its stored configuration.\<close>

definition variant_diffs :: "msg \<Rightarrow> msg \<Rightarrow> msg" where
  "variant_diffs current other = filter (\<lambda>(k, v). \<not> py_eq (jget current k) v) other"

definition variant_suggestion :: "advisor_env \<Rightarrow> string \<Rightarrow> msg \<Rightarrow> nat \<Rightarrow> f64 option \<Rightarrow> string \<times> json \<Rightarrow> suggestion" where
  "variant_suggestion x fp current n z kv =
     (suggest x (''strategy.'' @ fst kv) (jget current (fst kv)) (snd kv) n None z)\<lparr> sg_compared := Some fp \<rparr>"

definition variant_suggestions ::
  "advisor_env \<Rightarrow> string \<Rightarrow> history_summary \<Rightarrow> f64 \<Rightarrow> msg \<Rightarrow> (string, msg) pdict \<Rightarrow> nat \<Rightarrow> string \<times> history_summary \<Rightarrow> suggestion list" where
  "variant_suggestions x current_fp cur cur_wr current_variant variants min_resolved fs =
     (case fs of (fp, s) \<Rightarrow>
       if fp = current_fp \<or> hs_total_closed s < min_resolved then []
       else case (hs_win_rate_pct s, dget variants fp) of
         (Some wr, Some other) \<Rightarrow>
           if below_margin (fsub wr cur_wr) (comparability_margin_pts x (hs_total_closed s) wr (hs_total_closed cur) cur_wr) then []
           else map (variant_suggestion x fp current_variant (min (hs_total_closed cur) (hs_total_closed s))
                      (z_score x (hs_total_closed s) wr (hs_total_closed cur) cur_wr)) (variant_diffs current_variant other)
       | _ \<Rightarrow> [])"

definition cross_variant_recommendations ::
  "advisor_env \<Rightarrow> string \<Rightarrow> (string, history_summary) pdict \<Rightarrow> (string, msg) pdict \<Rightarrow> nat \<Rightarrow> suggestion list" where
  "cross_variant_recommendations x current_fp summaries variants min_resolved =
     (case (dget summaries current_fp, dget variants current_fp) of
        (Some cur, Some current_variant) \<Rightarrow>
          if hs_total_closed cur < min_resolved then []
          else (case hs_win_rate_pct cur of
             None \<Rightarrow> []
           | Some wr \<Rightarrow> concat (map (variant_suggestions x current_fp cur wr current_variant variants min_resolved) summaries))
      | _ \<Rightarrow> [])"

subsection \<open>From rejected candidates\<close>

datatype gate_direction = MinGate | MaxGate

definition GATE_CONFIG_PATH_AND_DIRECTION :: "((string \<times> string) \<times> string \<times> gate_direction) list" where
  "GATE_CONFIG_PATH_AND_DIRECTION =
     [((''whale_follow'', ''entry_threshold''), ''entry_threshold'', MinGate),
      ((''whale_follow'', ''min_whale_winrate_pct''), ''min_whale_winrate_pct'', MinGate),
      ((''whale_follow'', ''close_window''), ''close_window_sec'', MaxGate),
      ((''whale_follow'', ''special_market_gate''), ''special_market_min_seconds_to_close'', MinGate)]"

definition REJECTED_CANDIDATE_MIN_N :: nat where "REJECTED_CANDIDATE_MIN_N = 5"
definition REJECTED_CANDIDATE_NUDGE_PCT :: f64 where "REJECTED_CANDIDATE_NUDGE_PCT = fl (1/10)"

definition nudge :: "gate_direction \<Rightarrow> f64 \<Rightarrow> f64" where
  "nudge dir c =
     (let step = (if c \<noteq> 0 then fmul \<bar>c\<bar> REJECTED_CANDIDATE_NUDGE_PCT else REJECTED_CANDIDATE_NUDGE_PCT)
      in py_round 4 (case dir of MinGate \<Rightarrow> fsub c step | MaxGate \<Rightarrow> fadd c step))"

definition gate_suggestion ::
  "advisor_env \<Rightarrow> gate_stats list \<Rightarrow> settings \<Rightarrow> history_summary \<Rightarrow> (string \<times> string) \<times> string \<times> gate_direction \<Rightarrow> suggestion list option" where
  "gate_suggestion x gates strat whale gd =
     (case gd of (gate, field, dir) \<Rightarrow>
       (case find (\<lambda>g. gt_gate g = gate) gates of
          None \<Rightarrow> Some []
        | Some g \<Rightarrow>
           (case (gt_win_rate g, hs_win_rate_pct whale) of
              (Some rejected_wr, Some accepted_wr) \<Rightarrow>
                let rn = gt_win_rate_n g; an = hs_total_closed whale; cur = jget strat field in
                if rn < REJECTED_CANDIDATE_MIN_N \<or> an < REJECTED_CANDIDATE_MIN_N
                   \<or> (case comparability_margin_pts x rn rejected_wr an accepted_wr of None \<Rightarrow> False | Some m \<Rightarrow> rejected_wr < fsub accepted_wr m)
                   \<or> cur = JNull \<or> (case cur of JBool b \<Rightarrow> True | _ \<Rightarrow> False) then Some []
                else do { c \<leftarrow> as_num cur;
                          (let v = JFloat (nudge dir (fl (num_val c))) in
                           Some (if py_eq v cur then []
                                 else [suggest x (''strategy.'' @ field) cur v (min rn an) (Some ''rejected-candidate-counterfactual'')
                                         (z_score x rn rejected_wr an accepted_wr)])) }
            | _ \<Rightarrow> Some [])))"

fun collect :: "suggestion list option list \<Rightarrow> suggestion list option" where
  "collect [] = Some []"
| "collect (r # rs) = do { a \<leftarrow> r; b \<leftarrow> collect rs; Some (a @ b) }"

definition rejected_candidate_recommendations ::
  "advisor_env \<Rightarrow> gate_stats list \<Rightarrow> settings \<Rightarrow> history_summary \<Rightarrow> suggestion list option" where
  "rejected_candidate_recommendations x gates strat whale = collect (map (gate_suggestion x gates strat whale) GATE_CONFIG_PATH_AND_DIRECTION)"

subsection \<open>From the series verdicts\<close>

definition SERIES_EVALUATOR_MIN_N :: nat where "SERIES_EVALUATOR_MIN_N = 5"

record series_evidence =
  sv_series :: string
  sv_rejected :: bool
  sv_below_floor :: bool
  sv_resolved :: nat

text \<open>\<open>_series_evaluator_overview_with_crosscheck\<close>, the margin left out.\<close>

definition series_crosscheck :: "settings \<Rightarrow> (string, series_summary) pdict \<Rightarrow> series_table \<Rightarrow> series_evidence list" where
  "series_crosscheck strat stats t =
     map (\<lambda>(s, r). let (n, wr) = (case dget stats s of None \<Rightarrow> (0, None) | Some y \<Rightarrow> (sy_resolved y, sy_win_rate y))
        in \<lparr>sv_series = s, sv_rejected = (ss_status r = RejectedSeries),
            sv_below_floor = (fint (int n) \<ge> cfg_num_or strat ''min_resolved_for_whale_filter'' 10
               \<and> (case wr of None \<Rightarrow> False | Some w \<Rightarrow> w < cfg_num_or strat ''min_whale_winrate_pct'' 40)), sv_resolved = n\<rparr>)
       (series_overview t)"

definition excluded_series :: "settings \<Rightarrow> string list" where
  "excluded_series strat = (case jget strat ''excluded_series'' of
     JArr xs \<Rightarrow> concat (map (\<lambda>v. case v of JStr s \<Rightarrow> [s] | _ \<Rightarrow> []) xs) | _ \<Rightarrow> [])"

definition name_list :: "string list \<Rightarrow> json" where "name_list xs = JArr (map JStr (sort (remdups xs)))"

definition series_evaluator_recommendations :: "advisor_env \<Rightarrow> series_evidence list \<Rightarrow> settings \<Rightarrow> suggestion list" where
  "series_evaluator_recommendations x rows strat =
     (let excluded = excluded_series strat in
      concat (map (\<lambda>r.
        if sv_series r = [] \<or> sv_series r \<in> set excluded \<or> \<not> (sv_rejected r \<or> sv_below_floor r) \<or> sv_resolved r < SERIES_EVALUATOR_MIN_N then []
        else [suggest x ''strategy.excluded_series'' (name_list excluded) (name_list (sv_series r # excluded)) (sv_resolved r)
                (Some ''series-evaluator-crosscheck'') None]) rows))"

subsection \<open>From the segments\<close>

definition CATEGORY_MIN_N :: nat where "CATEGORY_MIN_N = 5"

definition tier_json :: "(string, settings) pdict \<Rightarrow> json" where "tier_json t = JObj (map (\<lambda>(k, d). (k, JObj d)) t)"

text \<open>One step of the entry threshold of a segment, up when it wins less than the whole book.\<close>

definition step_threshold :: "json \<Rightarrow> f64 \<Rightarrow> json option" where
  "step_threshold current gap =
     do { t \<leftarrow> (if gap < 0 then do { s \<leftarrow> num_add current (JFloat (fl (5/100))); num_min (JFloat (fl (95/100))) s }
                else do { s \<leftarrow> num_sub current (JFloat (fl (5/100))); num_max (JFloat (fl (5/100))) s });
          num_round 3 t }"

definition segment_suggestion ::
  "advisor_env \<Rightarrow> string \<Rightarrow> string \<Rightarrow> string \<Rightarrow> settings \<Rightarrow> overrides \<Rightarrow> nat \<Rightarrow> f64 \<Rightarrow> nat \<Rightarrow> f64 \<Rightarrow> suggestion list option" where
  "segment_suggestion x scope source key strat ov n wr overall_n overall_wr =
     (let gap = fsub wr overall_wr; base = jget_or strat ''entry_threshold'' (JFloat (fl (1/2))); tier = tier_of scope ov;
          current = jget_or (dget_or tier key []) ''entry_threshold'' base in
      if below_margin \<bar>gap\<bar> (margin95 x n wr) then Some []
      else do { v \<leftarrow> step_threshold current gap;
                (if py_eq v current then Some []
                 else case merge_override ov scope key ''entry_threshold'' v of
                    Inl e \<Rightarrow> None
                  | Inr ov' \<Rightarrow> Some [suggest x (''strategy_overrides.'' @ scope) (tier_json tier) (tier_json (tier_of scope ov')) n (Some source)
                      (if overall_n = 0 then None else z_score x n wr overall_n overall_wr)]) })"

definition category_conditional_recommendations ::
  "advisor_env \<Rightarrow> (string \<times> history_summary) list \<Rightarrow> settings \<Rightarrow> f64 option \<Rightarrow> overrides \<Rightarrow> nat \<Rightarrow> suggestion list option" where
  "category_conditional_recommendations x rows strat overall ov overall_n =
     (case overall of
        None \<Rightarrow> Some []
      | Some ow \<Rightarrow> collect (map (\<lambda>(c, s). case hs_win_rate_pct s of
            None \<Rightarrow> Some []
          | Some wr \<Rightarrow> if c = [] \<or> hs_total_closed s < CATEGORY_MIN_N then Some []
              else segment_suggestion x ''by_category'' ''category-conditional'' c strat ov (hs_total_closed s) wr overall_n ow) rows))"

definition enough :: "history_summary option \<Rightarrow> (nat \<times> f64) option" where
  "enough so = (case so of None \<Rightarrow> None
     | Some s \<Rightarrow> (case hs_win_rate_pct s of None \<Rightarrow> None | Some wr \<Rightarrow> if hs_total_closed s < CATEGORY_MIN_N then None else Some (hs_total_closed s, wr)))"

definition first_known :: "(string \<Rightarrow> string option) \<Rightarrow> title_cache \<Rightarrow> history_row list \<Rightarrow> string \<Rightarrow> string option" where
  "first_known lookup tc rows series =
     (case filter (\<lambda>r. series_of tc (hr_ticker r) = series \<and> nonempty (lookup (hr_ticker r)) \<noteq> None) rows of
        [] \<Rightarrow> None | r # _ \<Rightarrow> lookup (hr_ticker r))"

text \<open>A series is judged by its own trades, else its subcategory's, else its category's.\<close>

definition series_tiers ::
  "(f64 \<Rightarrow> f64) \<Rightarrow> title_cache \<Rightarrow> category_table \<Rightarrow> history_row list \<Rightarrow> string \<Rightarrow> history_summary \<Rightarrow> (nat \<times> f64) option" where
  "series_tiers sq_root tc ct rows series own =
     (let tickers = map hr_ticker rows;
          sub = first_known (dget (subcategories_for_tickers tickers ct)) tc rows series;
          cat = first_known (dget (categories_for_tickers tickers ct)) tc rows series in
      case enough (Some own) of
        Some e \<Rightarrow> Some e
      | None \<Rightarrow> (case enough (case sub of None \<Rightarrow> None | Some c \<Rightarrow> dget (by_subcategory sq_root ct rows) c) of
          Some e \<Rightarrow> Some e
        | None \<Rightarrow> enough (case cat of None \<Rightarrow> None | Some c \<Rightarrow> dget (by_category sq_root ct rows) c)))"

definition series_conditional_recommendations ::
  "advisor_env \<Rightarrow> title_cache \<Rightarrow> category_table \<Rightarrow> history_row list \<Rightarrow> settings \<Rightarrow> f64 option \<Rightarrow> overrides \<Rightarrow> nat \<Rightarrow> suggestion list option" where
  "series_conditional_recommendations x tc ct rows strat overall ov overall_n =
     (case overall of
        None \<Rightarrow> Some []
      | Some ow \<Rightarrow> collect (map (\<lambda>(series, s). case series_tiers (ax_sqrt x) tc ct rows series s of
            None \<Rightarrow> Some []
          | Some (n, wr) \<Rightarrow> segment_suggestion x ''by_series'' ''series-conditional'' series strat ov n wr overall_n ow)
          (by_series (ax_sqrt x) tc rows)))"

subsection \<open>The whole list\<close>

definition fresh_count :: "history_row list \<Rightarrow> f64 \<Rightarrow> nat" where
  "fresh_count rows t = length (filter (\<lambda>r. case hr_entry_timestamp r of None \<Rightarrow> False | Some e \<Rightarrow> e > t) rows)"

definition drop_stale_recommendations :: "suggestion list \<Rightarrow> history_row list \<Rightarrow> (string, f64) pdict \<Rightarrow> suggestion list" where
  "drop_stale_recommendations recs rows last_applied =
     concat (map (\<lambda>s. case dget last_applied (sg_config_path s) of
         None \<Rightarrow> [s\<lparr> sg_fresh := None \<rparr>]
       | Some t \<Rightarrow> if fresh_count rows t > 0 then [s\<lparr> sg_fresh := Some (fresh_count rows t) \<rparr>] else []) recs)"

text \<open>What the routes gather for a call.\<close>

record advisor_inputs =
  ai_rows :: "history_row list"
  ai_gates :: "gate_stats list"
  ai_series :: "series_evidence list"
  ai_titles :: title_cache
  ai_categories :: category_table

definition generate_recommendations ::
  "advisor_env \<Rightarrow> advisor_inputs \<Rightarrow> settings \<Rightarrow> overrides \<Rightarrow> string \<Rightarrow> (string, msg) pdict \<Rightarrow> nat \<Rightarrow> (string, f64) pdict \<Rightarrow> string list
     \<Rightarrow> (suggestion list \<times> nat) option" where
  "generate_recommendations x inp strat ov current_fp variants min_resolved last_applied declined =
     (let rows = ai_rows inp; summaries = variant_summaries x rows; overall = compute_summary (ax_sqrt x) rows;
          category_rows = by_category (ax_sqrt x) (ai_categories inp) rows;
          resolved = (case dget summaries current_fp of None \<Rightarrow> 0 | Some s \<Rightarrow> hs_total_closed s)
      in do { a \<leftarrow> within_variant_recommendations x rows strat;
              b \<leftarrow> rejected_candidate_recommendations x (ai_gates inp) strat overall;
              c \<leftarrow> (if category_rows = [] then Some []
                    else collect [category_conditional_recommendations x category_rows strat (hs_win_rate_pct overall) ov (hs_total_closed overall),
                                  series_conditional_recommendations x (ai_titles inp) (ai_categories inp) rows strat (hs_win_rate_pct overall) ov
                                    (hs_total_closed overall)]);
              (let recs = a @ cross_variant_recommendations x current_fp summaries variants min_resolved @ b
                     @ series_evaluator_recommendations x (ai_series inp) strat @ c;
                   kept = drop_stale_recommendations recs rows last_applied
               in Some (filter (\<lambda>s. sg_id s \<notin> set declined) kept, resolved)) })"

subsection \<open>Applying one\<close>

text \<open>A tier that is no dictionary reads as an empty one.\<close>

definition tier_of_json :: "json \<Rightarrow> (string, settings) pdict" where
  "tier_of_json j = (case j of JObj d \<Rightarrow> map (\<lambda>(k, v). (k, case v of JObj e \<Rightarrow> e | _ \<Rightarrow> [])) d | _ \<Rightarrow> [])"

definition overrides_of :: "json \<Rightarrow> overrides" where
  "overrides_of j = (case j of
      JObj d \<Rightarrow> \<lparr>ov_by_category = tier_of_json (jget d ''by_category''), ov_by_series = tier_of_json (jget d ''by_series'')\<rparr>
    | _ \<Rightarrow> no_overrides)"

definition recommendations_for :: "advisor_env \<Rightarrow> (json \<Rightarrow> string) \<Rightarrow> advisor_inputs \<Rightarrow> msg \<Rightarrow> perf_db \<Rightarrow> declined_table \<Rightarrow> nat \<Rightarrow> (suggestion list \<times> nat) option" where
  "recommendations_for x dumps inp cfg db declined min_resolved =
     do { strat \<leftarrow> (case dget cfg ''strategy'' of Some (JObj d) \<Rightarrow> Some d | _ \<Rightarrow> None);
          fp \<leftarrow> fingerprint (ax_sha256 x) dumps cfg;
          generate_recommendations x inp strat (overrides_of (jget cfg ''strategy_overrides'')) fp
            (map (\<lambda>v. (vr_fingerprint v, case vr_config v of JObj d \<Rightarrow> d | _ \<Rightarrow> [])) (all_variants db)) min_resolved
            (all_last_applied_by_path db) (declined_ids declined) }"

definition split_path :: "string \<Rightarrow> string \<times> string" where
  "split_path p = (takeWhile (\<lambda>c. c \<noteq> CHR ''.'') p, drop 1 (dropWhile (\<lambda>c. c \<noteq> CHR ''.'') p))"

datatype apply_result = Disabled | NotOffered | ApplyFailed | Applied suggestion

record advisor_state =
  ad_file :: config_file
  ad_store :: config_store
  ad_perf :: perf_db
  ad_declined :: declined_table

text \<open>
  \<open>POST /api/advisory/recommendations/apply\<close>: the list is made afresh and the suggestion with the id is
  written and logged. \<open>written\<close> and \<open>stamp\<close> are the outcome of writing the settings file.
\<close>

definition apply_recommendation ::
  "advisor_env \<Rightarrow> (json \<Rightarrow> string) \<Rightarrow> advisor_inputs \<Rightarrow> string \<Rightarrow> f64 \<Rightarrow> bool \<Rightarrow> f64 option \<Rightarrow> advisor_state \<Rightarrow> apply_result \<times> advisor_state" where
  "apply_recommendation x dumps inp i now written stamp st =
     (let store = get_config (ad_file st) (ad_store st); st0 = st\<lparr> ad_store := store \<rparr> in
      case cs_data store of
        JObj cfg \<Rightarrow>
          (case jget cfg ''advisory'' of
             JObj adv \<Rightarrow>
               if \<not> truthy (jget adv ''enabled'') then (Disabled, st0)
               else (case (as_int_instance (jget adv ''min_resolved_trades_per_variant''), fingerprint (ax_sha256 x) dumps cfg) of
                 (Some k, Some fp) \<Rightarrow>
                   (case recommendations_for x dumps inp cfg (ad_perf st) (ad_declined st) (nat k) of
                      None \<Rightarrow> (ApplyFailed, st0)
                    | Some (recs, n) \<Rightarrow>
                       (case find (\<lambda>s. sg_id s = i) recs of
                          None \<Rightarrow> (NotOffered, st0)
                        | Some s \<Rightarrow>
                           (let (section, field) = split_path (sg_config_path s) in
                            (case update_config written stamp [(section, JObj [(field, sg_suggested s)])] (ad_file st, store) of
                               (Inr (JObj new), f', store') \<Rightarrow>
                                 (case fingerprint (ax_sha256 x) dumps new of
                                    None \<Rightarrow> (ApplyFailed, st0\<lparr> ad_file := f', ad_store := store' \<rparr>)
                                  | Some fp' \<Rightarrow>
                                     (Applied s, st0\<lparr> ad_file := f', ad_store := store',
                                        ad_perf := log_applied_change (sg_config_path s) (sg_current s) (sg_suggested s) [] (sg_n s) fp fp' False
                                          ''unified-advisory'' now (ad_perf st) \<rparr>))
                             | (_, f', store') \<Rightarrow> (ApplyFailed, st0\<lparr> ad_file := f', ad_store := store' \<rparr>)))))
               | _ \<Rightarrow> (ApplyFailed, st0))
           | _ \<Rightarrow> (ApplyFailed, st0))
      | _ \<Rightarrow> (ApplyFailed, st0))"

end
