(* ===== verification/AdvisoryFacts.thy ===== *)
theory AdvisoryFacts
  imports Advisory
begin

text \<open>
  What the advisor promises: a setting that was changed is not suggested again on the same evidence, a
  declined suggestion does not come back, and stepped thresholds stay in their range.
\<close>

lemma kept_suggestion:
  "s \<in> set (drop_stale_recommendations recs rows last_applied)
    \<Longrightarrow> (case dget last_applied (sg_config_path s) of None \<Rightarrow> sg_fresh s = None
         | Some t \<Rightarrow> sg_fresh s = Some (fresh_count rows t) \<and> fresh_count rows t > 0)"
  by (auto simp: drop_stale_recommendations_def split: option.splits if_splits)

lemma offered_suggestion:
  assumes "recommendations_for x dumps inp cfg db declined k = Some (recs, n)" "s \<in> set recs"
  shows "sg_id s \<notin> set (declined_ids declined)
    \<and> (case latest_change (filter (\<lambda>r. cr_config_path r = sg_config_path s) (pd_changes db)) of None \<Rightarrow> sg_fresh s = None
       | Some t \<Rightarrow> sg_fresh s = Some (fresh_count (ai_rows inp) t) \<and> fresh_count (ai_rows inp) t > 0)"
  using assms kept_suggestion [of s _ "ai_rows inp" "all_last_applied_by_path db"]
  by (auto simp: recommendations_for_def generate_recommendations_def Let_def last_applied_lookup bind_eq_Some_conv)

lemma fresh_count_zero: "\<forall>r \<in> set rows. \<forall>e. hr_entry_timestamp r = Some e \<longrightarrow> e \<le> t \<Longrightarrow> fresh_count rows t = 0"
  by (auto simp: fresh_count_def filter_empty_conv not_less split: option.split)

lemma applied_is_logged:
  assumes "apply_recommendation x dumps inp i now written stamp st = (Applied s, st')"
  shows "\<exists>r \<in> set (pd_changes (ad_perf st')). cr_config_path r = sg_config_path s \<and> cr_applied_at r = now"
  using assms
  by (auto simp: apply_recommendation_def Let_def log_applied_change_def split: json.splits if_splits option.splits prod.splits sum.splits)

text \<open>
  C20: After a suggestion was applied no suggestion for the same setting is offered, whatever the settings,
  the candidates and the verdicts are by then, until a trade is entered later than the change.
\<close>
theorem applied_setting_needs_new_trades:
  assumes "apply_recommendation x dumps inp i now written stamp st = (Applied s, st')"
    and "\<forall>r \<in> set (ai_rows inp'). \<forall>e. hr_entry_timestamp r = Some e \<longrightarrow> e \<le> now"
    and "recommendations_for x dumps inp' cfg (ad_perf st') declined k = Some (recs, n)"
  shows "sg_config_path s \<notin> set (map sg_config_path recs)"
proof
  assume "sg_config_path s \<in> set (map sg_config_path recs)"
  then obtain s' where s': "s' \<in> set recs" "sg_config_path s' = sg_config_path s" by auto
  obtain r where r: "r \<in> set (pd_changes (ad_perf st'))" "cr_config_path r = sg_config_path s" "cr_applied_at r = now"
    using applied_is_logged [OF assms(1)] by blast
  obtain t where t: "latest_change (filter (\<lambda>r. cr_config_path r = sg_config_path s) (pd_changes (ad_perf st'))) = Some t" "now \<le> t"
    using latest_change_ge [of r "filter (\<lambda>r. cr_config_path r = sg_config_path s) (pd_changes (ad_perf st'))"] r by auto
  have "fresh_count (ai_rows inp') t = 0"
    using assms(2) t(2) by (intro fresh_count_zero) force
  then show False using offered_suggestion [OF assms(3) s'(1)] s'(2) t(1) by simp
qed

definition old_trade :: history_row where
  "old_trade = \<lparr>hr_ticker = ''KXBTC-1'', hr_side = Yes, hr_size = 1, hr_entry_price = None, hr_exit_price = fl (1/2),
     hr_entry_timestamp = Some 10, hr_exit_timestamp = 20, hr_hold_sec = None, hr_time_to_open_sec = None, hr_close_type = None,
     hr_realized_pnl = None, hr_won = False, hr_entry_confidence = None, hr_entry_reason = None, hr_exit_reason = [],
     hr_left_on_table = None, hr_cost_basis = None, hr_cash_back = 0, hr_fees_paid = 0, hr_config_fingerprint = None\<rparr>"

definition advisor_demo :: advisor_env where
  "advisor_demo = \<lparr>ax_sqrt = (\<lambda>x. 1), ax_square = (\<lambda>x. fmul x x), ax_sha256 = (\<lambda>s. s)\<rparr>"

definition inputs_demo :: advisor_inputs where
  "inputs_demo = \<lparr>ai_rows = [old_trade], ai_gates = [],
     ai_series = [\<lparr>sv_series = ''KXBTC'', sv_rejected = True, sv_below_floor = False, sv_resolved = 5\<rparr>],
     ai_titles = empty_title_cache, ai_categories = []\<rparr>"

definition settings_demo :: msg where
  "settings_demo = [(''strategy'', JObj [(''entry_threshold'', JInt 1)]),
     (''advisory'', JObj [(''enabled'', JBool True), (''min_resolved_trades_per_variant'', JInt 1)])]"

definition state_demo :: advisor_state where
  "state_demo = \<lparr>ad_file = \<lparr>cf_content = Some (JObj settings_demo), cf_mtime = Some 1\<rparr>, ad_store = \<lparr>cs_data = JObj settings_demo, cs_mtime = Some 1\<rparr>,
     ad_perf = \<lparr>pd_variants = [], pd_changes = [], pd_next_id = 1, pd_history = init_history_push\<rparr>, ad_declined = []\<rparr>"

definition demo_run :: "apply_result \<times> advisor_state" where
  "demo_run = apply_recommendation advisor_demo (\<lambda>j. []) inputs_demo ''strategy.exc'' 50 True (Some 2) state_demo"


lemma demo_applies: "case fst demo_run of Applied s \<Rightarrow> sg_config_path s = ''strategy.excluded_series'' | _ \<Rightarrow> False"
  by code_simp

lemma demo_returns: "recommendations_for advisor_demo (\<lambda>j. []) inputs_demo settings_demo (ad_perf (snd demo_run)) [] 1 \<noteq> None"
  by code_simp

theorem applied_setting_needs_new_trades_witness:
  "\<exists>s st recs n. demo_run = (Applied s, st) \<and> sg_config_path s = ''strategy.excluded_series''
     \<and> recommendations_for advisor_demo (\<lambda>j. []) inputs_demo settings_demo (ad_perf st) [] 1 = Some (recs, n)
     \<and> sg_config_path s \<notin> set (map sg_config_path recs)"
proof -
  obtain s where s: "fst demo_run = Applied s" "sg_config_path s = ''strategy.excluded_series''"
    using demo_applies by (cases "fst demo_run") simp_all
  obtain st where run: "demo_run = (Applied s, st)" using s(1) by (metis prod.collapse)
  obtain recs n where again: "recommendations_for advisor_demo (\<lambda>j. []) inputs_demo settings_demo (ad_perf st) [] 1 = Some (recs, n)"
    using demo_returns by (cases "recommendations_for advisor_demo (\<lambda>j. []) inputs_demo settings_demo (ad_perf (snd demo_run)) [] 1")
      (auto simp: run)
  have old: "\<forall>r \<in> set (ai_rows inputs_demo). \<forall>e. hr_entry_timestamp r = Some e \<longrightarrow> e \<le> 50"
    by (simp add: inputs_demo_def old_trade_def)
  show ?thesis using applied_setting_needs_new_trades [OF run [unfolded demo_run_def] old again] run s(2) again by blast
qed

subsection \<open>Stepped thresholds\<close>

lemma steps_fixed: "py_round 3 (fl (95/100)) = fl (95/100)" "py_round 3 (fl (5/100)) = fl (5/100)"
  by code_simp+

lemma fsub_below: "c \<le> fl d \<Longrightarrow> 0 \<le> e \<Longrightarrow> fsub (fl c) e \<le> fl d"
  unfolding fsub_def by (metis fl_idem fl_mono diff_le_eq le_add_same_cancel1 order_trans)

lemma fadd_above: "fl d \<le> c \<Longrightarrow> 0 \<le> e \<Longrightarrow> fl d \<le> fadd (fl c) e"
  unfolding fadd_def by (metis fl_idem fl_mono le_add_same_cancel1 order_trans)

lemma as_num_val: "as_num a = Some b \<Longrightarrow> num_val b = num_val a \<and> (case b of JInt n \<Rightarrow> True | JFloat x \<Rightarrow> True | _ \<Rightarrow> False)"
  by (cases a) auto

lemma stepped_value:
  assumes "step_threshold current gap = Some v"
  shows "v = JFloat (py_round 3 (if gap < 0 then min (fl (95/100)) (fadd (fl (num_val current)) (fl (5/100)))
                                 else max (fl (5/100)) (fsub (fl (num_val current)) (fl (5/100)))))"
proof -
  obtain b where b: "as_num current = Some b"
    using assms by (auto simp: step_threshold_def num_add_def num_sub_def num_op_def bind_eq_Some_conv split: if_splits)
  show ?thesis
  proof (cases "gap < 0")
    case True
    then show ?thesis using assms as_num_val [OF b] b
      by (cases b) (auto simp: step_threshold_def num_add_def num_op_def num_min_def num_round_def min_def bind_eq_Some_conv split: if_splits)
  next
    case False
    then show ?thesis using assms as_num_val [OF b] b
      by (cases b) (auto simp: step_threshold_def num_sub_def num_op_def num_max_def num_round_def max_def bind_eq_Some_conv split: if_splits)
  qed
qed

text \<open>
  A stepped entry threshold is never above 0.95 when it is raised nor below 0.05 when it is lowered,
  and a threshold inside that range stays inside it, by whichever gap it is stepped.
\<close>
theorem stepped_thresholds_stay_in_range:
  assumes "step_threshold current gap = Some v"
  shows "(gap < 0 \<longrightarrow> num_val v \<le> fl (95/100)) \<and> (gap \<ge> 0 \<longrightarrow> num_val v \<ge> fl (5/100))
    \<and> (fl (5/100) \<le> num_val current \<and> num_val current \<le> fl (95/100) \<longrightarrow> fl (5/100) \<le> num_val v \<and> num_val v \<le> fl (95/100))"
proof -
  have order: "fl (5/100) \<le> fl (95/100)" by (rule fl_mono) simp
  have pos: "0 \<le> fl (5/100)" by (rule fl_nonneg) simp
  have mono: "a \<le> b \<Longrightarrow> py_round 3 a \<le> py_round 3 b" for a b by (rule py_round_mono)
  have "a \<le> fl (95/100) \<Longrightarrow> py_round 3 a \<le> fl (95/100)" "fl (5/100) \<le> a \<Longrightarrow> fl (5/100) \<le> py_round 3 a" for a
    by (metis mono steps_fixed)+
  then show ?thesis unfolding stepped_value [OF assms]
    using order fsub_below [OF _ pos, of "num_val current" "95/100"] fadd_above [OF _ pos, of "5/100" "num_val current"] by auto
qed

theorem stepped_thresholds_stay_in_range_witness:
  "(case step_threshold (JFloat (fl (93/100))) (- 10) of Some v \<Rightarrow> num_val v \<le> fl (95/100) | None \<Rightarrow> False)"
proof -
  have "step_threshold (JFloat (fl (93/100))) (- 10) = Some (JFloat (fl (95/100)))" by code_simp
  then show ?thesis using stepped_thresholds_stay_in_range [of "JFloat (fl (93/100))" "- 10"] by simp
qed

text \<open>
  The cap turns a raise into a cut: a segment that wins less than the book and whose threshold is 0.98
  is offered 0.95, as if that asked for more conviction.
\<close>
theorem capped_raise_lowers:
  "step_threshold (JFloat (fl (98/100))) (- 10) = Some (JFloat (fl (95/100))) \<and> fl (95/100) < fl (98/100)"
  by code_simp

text \<open>A gate whose threshold is 0 is offered a negative one.\<close>
theorem zero_gate_goes_negative: "nudge MinGate 0 = - fl (1/10)"
  by code_simp

subsection \<open>Other variants\<close>

definition adopt :: "suggestion list \<Rightarrow> msg \<Rightarrow> msg" where
  "adopt recs d = fold (\<lambda>s. dput (snd (split_path (sg_config_path s))) (sg_suggested s)) recs d"

lemma strategy_field: "snd (split_path (''strategy.'' @ k)) = k"
  by (simp add: split_path_def)

lemma adopted: "adopt (map (variant_suggestion x fp c n z) kvs) d = dict_update d kvs"
proof (induction kvs arbitrary: d)
  case (Cons kv kvs)
  have one: "sg_config_path (variant_suggestion x fp c n z kv) = ''strategy.'' @ fst kv"
    "sg_suggested (variant_suggestion x fp c n z kv) = snd kv"
    by (simp_all add: variant_suggestion_def suggest_def)
  show ?case using Cons.IH [of "dput (fst kv) (snd kv) d"]
    unfolding adopt_def dict_update_def by (simp only: list.map fold_simps prod.case_eq_if one strategy_field)
qed (simp add: adopt_def dict_update_def)

text \<open>
  Taking all the suggestions derived from one earlier variant gives the current configuration that
  variant's value in every field it has, and changes no other field.
\<close>
theorem variant_suggestions_restore_the_variant:
  assumes "dget variants fp = Some other" "dict_ok other"
    and "variant_suggestions x current_fp cur wr current variants min_resolved (fp, s) \<noteq> []"
  shows "(\<forall>k v. dget other k = Some v \<longrightarrow> py_eq (jget (adopt (variant_suggestions x current_fp cur wr current variants min_resolved (fp, s)) current) k) v)
    \<and> (\<forall>k. dget other k = None \<longrightarrow>
         dget (adopt (variant_suggestions x current_fp cur wr current variants min_resolved (fp, s)) current) k = dget current k)"
proof -
  obtain n z where eq: "variant_suggestions x current_fp cur wr current variants min_resolved (fp, s)
      = map (variant_suggestion x fp current n z) (variant_diffs current other)"
    using assms(1,3) by (auto simp: variant_suggestions_def split: if_splits option.splits)
  have ok: "dict_ok (variant_diffs current other)"
    using assms(2) by (simp add: variant_diffs_def dict_ok_def dkeys_def distinct_map_filter)
  have diff: "dget (variant_diffs current other) k = Some w \<longleftrightarrow> dget other k = Some w \<and> \<not> py_eq (jget current k) w" for k w
    using dget_iff_in_set [OF ok, of k w] dget_iff_in_set [OF assms(2), of k w] by (auto simp: variant_diffs_def)
  have none: "dget other k = None \<Longrightarrow> dget (variant_diffs current other) k = None" for k
    by (metis diff not_None_eq)
  have read: "dget (dict_update current (variant_diffs current other)) k
      = (case dget (variant_diffs current other) k of None \<Rightarrow> dget current k | Some v \<Rightarrow> Some v)" for k
    by (rule dget_dict_update [OF ok])
  have "py_eq (jget (dict_update current (variant_diffs current other)) k) v" if "dget other k = Some v" for k v
  proof (cases "py_eq (jget current k) v")
    case True
    then have "dget (variant_diffs current other) k = None"
      using that by (metis diff not_None_eq option.inject)
    then show ?thesis using True by (simp add: jget_def read)
  next
    case False
    then have "dget (variant_diffs current other) k = Some v" using that by (metis diff)
    then show ?thesis by (simp add: jget_def read py_eq_def)
  qed
  then show ?thesis unfolding eq adopted by (simp add: none read)
qed

end
