(* ===== verification/Calibration.thy ===== *)
theory Calibration
  imports SignalLog MarketHistory ShadowMode TradeHistory Confidence Ranking
begin

text \<open>
  \<open>services/whale_calibration/confidence_calibration.py\<close> and \<open>calibration_history.py\<close>: what the factors
  of a score explain, the weights suggested from it, the calibration bands, the edge correction per
  category and price band, and the snapshots kept of the report. The square root is a parameter; a row is
  what \<open>resolved_signals_with_factors\<close> gives, its factors numbers or null.
\<close>

definition BUCKET_COUNT :: nat where "BUCKET_COUNT = 3"
definition FACTOR_NAMES :: "string list" where "FACTOR_NAMES = map fst DEFAULT_WEIGHTS"
definition MIN_DISCRIMINATION_GAP :: f64 where "MIN_DISCRIMINATION_GAP = 10"
definition MIN_SUGGESTED_WEIGHT :: f64 where "MIN_SUGGESTED_WEIGHT = fl (5/100)"
definition MIN_BAND_SIZE :: nat where "MIN_BAND_SIZE = 3"

subsection \<open>Thirds by a factor\<close>

definition tied_run_size :: "f64 list \<Rightarrow> nat \<Rightarrow> nat" where
  "tied_run_size vals c =
     (if c = 0 \<or> c \<ge> length vals \<or> vals ! c \<noteq> vals ! (c - 1) then 0
      else let v = vals ! (c - 1) in
        length (takeWhile (\<lambda>x. x = v) (rev (take c vals))) + length (takeWhile (\<lambda>x. x = v) (drop c vals)))"

definition factor_of :: "string \<Rightarrow> graded_factors \<Rightarrow> json" where
  "factor_of name r = (case gf_factors r of JObj d \<Rightarrow> jget d name | _ \<Rightarrow> JNull)"

definition factor_value :: "string \<Rightarrow> graded_factors \<Rightarrow> f64" where
  "factor_value name r = (case json_num (factor_of name r) of None \<Rightarrow> 0 | Some v \<Rightarrow> v)"

datatype data_status = InsufficientVariance | Contaminated | Ok

record factor_bucket =
  fb_n :: nat
  fb_win_rate :: f64

definition bucket_rate :: "graded_factors list \<Rightarrow> f64" where
  "bucket_rate g = py_round 1 (fmul (fl (of_nat (length (filter gf_correct g)) / of_nat (length g))) 100)"

definition thirds :: "'a list \<Rightarrow> (string \<times> 'a list) list" where
  "thirds xs = (let n = length xs; k = n div BUCKET_COUNT in
     [(''low'', take k xs), (''mid'', take (n - k - k) (drop k xs)), (''high'', drop (n - k) xs)])"

definition sorted_by_factor :: "string \<Rightarrow> graded_factors list \<Rightarrow> graded_factors list" where
  "sorted_by_factor name rows = sort_key (factor_value name) (filter (\<lambda>r. factor_of name r \<noteq> JNull) rows)"

definition bucket_win_rates :: "graded_factors list \<Rightarrow> string \<Rightarrow> (string, factor_bucket) pdict \<times> data_status" where
  "bucket_win_rates rows name =
     (let xs = sorted_by_factor name rows; n = length xs; vals = map (\<lambda>r. py_round 6 (factor_value name r)) xs;
          k = n div BUCKET_COUNT; floor_n = max 30 (fmul (fl (5/1000)) (fint (int n)))
      in if n < BUCKET_COUNT \<or> length (remdups vals) < BUCKET_COUNT then ([], InsufficientVariance)
         else if list_ex (\<lambda>c. fint (int (tied_run_size vals c)) \<ge> floor_n) [k, n - k] then ([], Contaminated)
         else (map (\<lambda>(key, g). (key, \<lparr>fb_n = length g, fb_win_rate = bucket_rate g\<rparr>)) (filter (\<lambda>(key, g). g \<noteq> []) (thirds xs)), Ok))"

record factor_report =
  fr_factor :: string
  fr_buckets :: "(string, factor_bucket) pdict"
  fr_gap_pts :: "f64 option"
  fr_discriminates :: "bool option"
  fr_status :: data_status

definition factor_report_of :: "graded_factors list \<Rightarrow> string \<Rightarrow> factor_report" where
  "factor_report_of rows name =
     (let (buckets, status) = bucket_win_rates rows name in
      case (dget buckets ''low'', dget buckets ''high'') of
        (Some l, Some h) \<Rightarrow>
          (let gap = py_round 1 (fsub (fb_win_rate h) (fb_win_rate l)) in
           \<lparr>fr_factor = name, fr_buckets = buckets, fr_gap_pts = Some gap, fr_discriminates = Some (gap \<ge> MIN_DISCRIMINATION_GAP),
            fr_status = status\<rparr>)
      | _ \<Rightarrow> \<lparr>fr_factor = name, fr_buckets = buckets, fr_gap_pts = None, fr_discriminates = None, fr_status = status\<rparr>)"

subsection \<open>Weights\<close>

definition suggested_weights :: "factor_report list \<Rightarrow> (string, f64) pdict option" where
  "suggested_weights per_factor =
     (let gaps = concat (map (\<lambda>f. case fr_gap_pts f of None \<Rightarrow> [] | Some g \<Rightarrow> [(fr_factor f, g)]) per_factor) in
      if gaps = [] \<or> list_all (\<lambda>(k, g). g \<le> 0) gaps then None
      else let clamped = map (\<lambda>(k, g). (k, max g 0)) gaps; s = py_sum (map snd clamped) in
        if s \<le> 0 then None
        else let floored = map (\<lambda>(k, g). (k, max (fdiv g s) MIN_SUGGESTED_WEIGHT)) clamped; t = py_sum (map snd floored)
          in Some (map (\<lambda>(k, g). (k, py_round 2 (fdiv g t))) floored))"

definition blended_weights_for_auto_apply :: "(string, f64) pdict \<Rightarrow> (string, f64) pdict option \<Rightarrow> (string, f64) pdict option" where
  "blended_weights_for_auto_apply current suggested =
     (case suggested of
        None \<Rightarrow> None
      | Some d \<Rightarrow>
          if d = [] then None
          else let blended = dict_update current d; s = py_sum (map snd blended) in
            if s \<le> 0 then None else Some (map (\<lambda>(k, v). (k, py_round 4 (fdiv v s))) blended))"

subsection \<open>Bands\<close>

definition CONFIDENCE_BANDS :: "(f64 \<times> f64 \<times> string) list" where
  "CONFIDENCE_BANDS = [(0, fl (1/2), ''<50%''), (fl (1/2), fl (6/10), ''50-60%''), (fl (6/10), fl (7/10), ''60-70%''),
     (fl (7/10), fl (8/10), ''70-80%''), (fl (8/10), fl (9/10), ''80-90%''), (fl (9/10), fl (101/100), ''90-100%'')]"

record band_report =
  bn_band :: string
  bn_n :: nat
  bn_predicted :: f64
  bn_observed :: f64
  bn_gap :: f64

definition in_band :: "f64 \<times> f64 \<times> string \<Rightarrow> f64 \<Rightarrow> bool" where
  "in_band b c = (case b of (lo, hi, label) \<Rightarrow> lo \<le> c \<and> c < hi)"

definition band_reports :: "graded_factors list \<Rightarrow> (f64 \<times> f64 \<times> string) \<Rightarrow> band_report list" where
  "band_reports rows b =
     (case b of (lo, hi, label) \<Rightarrow>
       let g = filter (\<lambda>r. in_band b (gf_confidence r)) rows; observed = bucket_rate g;
           predicted = py_round 1 (fmul (fdiv (fadd lo (min hi 1)) 2) 100)
       in if length g < MIN_BAND_SIZE then []
          else [\<lparr>bn_band = label, bn_n = length g, bn_predicted = predicted, bn_observed = observed, bn_gap = py_round 1 (fsub observed predicted)\<rparr>])"

definition confidence_calibration_bands :: "graded_factors list \<Rightarrow> band_report list" where
  "confidence_calibration_bands rows = concat (map (band_reports rows) CONFIDENCE_BANDS)"

definition series_win_rates :: "graded_factors list \<Rightarrow> (string \<times> nat \<times> f64) list" where
  "series_win_rates rows =
     sort_key (\<lambda>(s, n, w). - int n)
       (map (\<lambda>(s, g). (s, length g, bucket_rate g))
         (filter (\<lambda>(s, g). length g \<ge> MIN_BAND_SIZE)
           (fold (\<lambda>r d. dput (gf_series r) (dget_or d (gf_series r) [] @ [r]) d) rows [])))"

definition price_band_label :: "f64 \<Rightarrow> string" where
  "price_band_label q =
     (case filter (\<lambda>b. in_band b q) CONFIDENCE_BANDS of
        (lo, hi, label) # _ \<Rightarrow> label | [] \<Rightarrow> snd (snd (last CONFIDENCE_BANDS)))"

subsection \<open>Edge corrections\<close>

record edge_row =
  eg_category :: "string option"
  eg_q_pre :: f64
  eg_correct :: bool

definition edge_cells :: "edge_row list \<Rightarrow> (string \<times> string, f64 list) pdict" where
  "edge_cells rows =
     fold (\<lambda>r d. case eg_category r of None \<Rightarrow> d
       | Some c \<Rightarrow> (let k = (c, price_band_label (eg_q_pre r)) in
           dput k (dget_or d k [] @ [fsub (if eg_correct r then 1 else 0) (eg_q_pre r)]) d)) rows []"

definition bucket_delta_by_category_price_band :: "edge_row list \<Rightarrow> nat \<Rightarrow> (string \<times> string, f64) pdict" where
  "bucket_delta_by_category_price_band rows min_bucket_n =
     map (\<lambda>(k, ds). (k, fdiv (py_sum ds) (fint (int (length ds))))) (filter (\<lambda>(k, ds). length ds \<ge> min_bucket_n) (edge_cells rows))"

definition delta_calibrated_for :: "(string \<times> string, f64) pdict \<Rightarrow> string option \<Rightarrow> f64 \<Rightarrow> f64" where
  "delta_calibrated_for cache category q_pre =
     (case category of None \<Rightarrow> 0 | Some c \<Rightarrow> dget_or cache (c, price_band_label q_pre) 0)"

text \<open>
  \<open>recompute_deltas\<close>: rows whose price before the print is unknown are left out; a row with neither side
  raises and leaves the cache as it was.
\<close>

fun edge_rows_of ::
  "settings \<Rightarrow> market_history \<Rightarrow> (string, string) pdict \<Rightarrow> signal_row list \<Rightarrow> value_error + edge_row list" where
  "edge_rows_of strat h categories [] = Inr []"
| "edge_rows_of strat h categories (r # rows) =
     (case recent_price (sr_ticker r) (cfg_num_or strat ''edge_gate_p_pre_max_age_sec'' 600)
             (fsub (sr_seen_at r) (cfg_num_or strat ''edge_gate_pre_print_offset_sec'' 10)) h of
        None \<Rightarrow> edge_rows_of strat h categories rows
      | Some p \<Rightarrow>
          (case unit_cost_py (sr_side r) (Some p) of
             Inl e \<Rightarrow> Inl e
           | Inr None \<Rightarrow> edge_rows_of strat h categories rows
           | Inr (Some q) \<Rightarrow> map_sum id ((#) \<lparr>eg_category = dget categories (sr_ticker r), eg_q_pre = q,
                 eg_correct = (case sr_correct r of None \<Rightarrow> False | Some c \<Rightarrow> c \<noteq> 0)\<rparr>) (edge_rows_of strat h categories rows)))"

definition recompute_deltas ::
  "settings \<Rightarrow> f64 \<Rightarrow> signal_log \<Rightarrow> market_history \<Rightarrow> category_table \<Rightarrow> (string \<times> string, f64) pdict
     \<Rightarrow> (value_error + (string \<times> string, f64) pdict) \<times> (string \<times> string, f64) pdict" where
  "recompute_deltas strat now l h ct cache =
     (let rows = resolved_signals_for_edge_calibration (Some (fsub now 2592000)) l in
      if rows = [] then (Inr [], cache)
      else case edge_rows_of strat h (categories_for_tickers (map sr_ticker rows) ct) rows of
        Inl e \<Rightarrow> (Inl e, cache)
      | Inr edge_rows \<Rightarrow> (let d = bucket_delta_by_category_price_band edge_rows
             (case as_int_instance (jget strat ''edge_gate_min_bucket_n'') of None \<Rightarrow> 50 | Some n \<Rightarrow> nat n)
        in (Inr d, d)))"

subsection \<open>The report\<close>

definition coverage_of :: "string \<Rightarrow> graded_factors list \<Rightarrow> nat \<times> f64" where
  "coverage_of name rows =
     (length rows, if rows = [] then 0
       else py_round 1 (fmul (fl (of_nat (length (filter (\<lambda>r. factor_of name r = JNull) rows)) / of_nat (length rows))) 100))"

record input_coverage =
  iv_depth :: "nat \<times> f64"
  iv_trend :: "nat \<times> f64"
  iv_agreement :: "nat \<times> f64"
  iv_raw_spread :: "nat \<times> f64"
  iv_score_fallback_pct :: f64

definition share_of :: "(graded_factors \<Rightarrow> bool) \<Rightarrow> graded_factors list \<Rightarrow> f64" where
  "share_of P rows = (if rows = [] then 0 else py_round 1 (fmul (fl (of_nat (length (filter P rows)) / of_nat (length rows))) 100))"

definition compute_input_coverage :: "graded_factors list \<Rightarrow> input_coverage" where
  "compute_input_coverage rows =
     \<lparr>iv_depth = coverage_of ''depth_factor'' rows, iv_trend = coverage_of ''trend_factor'' rows,
      iv_agreement = coverage_of ''agreement_factor'' rows,
      iv_raw_spread = (length rows, share_of (\<lambda>r. gf_raw_spread r = None) rows),
      iv_score_fallback_pct = share_of (\<lambda>r. factor_of ''depth_factor'' r = JNull \<and> factor_of ''trend_factor'' r = JNull
        \<and> factor_of ''agreement_factor'' r = JNull \<and> gf_confidence r = fl (1/2)) rows\<rparr>"

record calibration_report =
  cl_resolved_count :: nat
  cl_overall_win_rate :: f64
  cl_margin_pts :: "f64 option"
  cl_label :: string
  cl_current_weights :: "(string, f64) pdict"
  cl_per_factor :: "factor_report list"
  cl_ranked :: "string list"
  cl_suggested :: "(string, f64) pdict option"
  cl_bands :: "band_report list"
  cl_by_series :: "(string \<times> nat \<times> f64) list"
  cl_coverage :: input_coverage

text \<open>
  \<open>None\<close> is the division by zero of the win rate when the floor lets no row at all through; \<open>Some None\<close> is the
  gated report.
\<close>

definition generate_calibration_report ::
  "(f64 \<Rightarrow> f64) \<Rightarrow> graded_factors list \<Rightarrow> f64 \<Rightarrow> (string, f64) pdict \<Rightarrow> calibration_report option option" where
  "generate_calibration_report sq_root rows min_resolved current =
     (if fint (int (length rows)) < min_resolved then Some None
      else if rows = [] then None
      else let reports = map (factor_report_of rows) FACTOR_NAMES; n = length rows; rate = bucket_rate rows in
        Some (Some \<lparr>cl_resolved_count = n, cl_overall_win_rate = rate,
          cl_margin_pts = map_option (py_round 1) (margin_of_error_pts sq_root (int n) rate (fl (95/100))),
          cl_label = confidence_label n, cl_current_weights = dict_update DEFAULT_WEIGHTS current, cl_per_factor = reports,
          cl_ranked = map fr_factor (sorted_desc (\<lambda>f. the (fr_gap_pts f)) (filter (\<lambda>f. fr_gap_pts f \<noteq> None) reports)),
          cl_suggested = suggested_weights reports, cl_bands = confidence_calibration_bands rows,
          cl_by_series = series_win_rates rows, cl_coverage = compute_input_coverage rows\<rparr>))"

subsection \<open>Snapshots\<close>

record calibration_snapshot =
  cn_recorded_at :: f64
  cn_resolved_count :: nat
  cn_overall_win_rate :: f64
  cn_per_factor :: "(string, f64 option \<times> bool option) pdict"
  cn_weights :: "(string, f64) pdict"

definition snapshot_due :: "f64 \<Rightarrow> f64 \<Rightarrow> calibration_snapshot list \<Rightarrow> bool" where
  "snapshot_due now interval rows \<longleftrightarrow> rows = [] \<or> fsub now (Max (set (map cn_recorded_at rows))) \<ge> interval"

definition record_snapshot :: "calibration_report \<Rightarrow> f64 \<Rightarrow> calibration_snapshot list \<Rightarrow> calibration_snapshot list" where
  "record_snapshot rep now rows =
     rows @ [\<lparr>cn_recorded_at = now, cn_resolved_count = cl_resolved_count rep, cn_overall_win_rate = cl_overall_win_rate rep,
       cn_per_factor = fold (\<lambda>f d. dput (fr_factor f) (fr_gap_pts f, fr_discriminates f) d) (cl_per_factor rep) [],
       cn_weights = cl_current_weights rep\<rparr>]"

definition snapshot_history :: "nat \<Rightarrow> calibration_snapshot list \<Rightarrow> calibration_snapshot list" where
  "snapshot_history limit rows = take limit (sorted_desc cn_recorded_at rows)"

definition clear_snapshots :: "calibration_snapshot list \<Rightarrow> calibration_snapshot list" where "clear_snapshots rows = []"

end
