(* ===== verification/AutoApply.thy ===== *)
theory AutoApply
  imports Advisory Calibration
begin

text \<open>
  \<open>_maybe_run_auto_apply\<close> of \<open>main.py\<close>: the calibration snapshot with the weights it may write, and the
  advisory's own write, both under a cooldown read from the log of applied changes. \<open>degraded\<close> is the
  answer of the provenance check; a write that fails raises and leaves the rest undone (\<open>False\<close>).
\<close>

definition weights_of :: "json \<Rightarrow> (string, f64) pdict" where
  "weights_of j = (case j of JObj d \<Rightarrow> concat (map (\<lambda>(k, v). case json_num v of None \<Rightarrow> [] | Some x \<Rightarrow> [(k, x)]) d) | _ \<Rightarrow> [])"

definition weights_json :: "(string, f64) pdict \<Rightarrow> json" where "weights_json d = JObj (map (\<lambda>(k, x). (k, JFloat x)) d)"

definition section_of :: "msg \<Rightarrow> string \<Rightarrow> settings" where
  "section_of cfg k = (case jget cfg k of JObj d \<Rightarrow> d | _ \<Rightarrow> [])"

definition cooled_down :: "string \<Rightarrow> f64 \<Rightarrow> f64 \<Rightarrow> perf_db \<Rightarrow> bool" where
  "cooled_down source cooldown now db \<longleftrightarrow> (case last_applied_at source db of None \<Rightarrow> True | Some t \<Rightarrow> fsub now t \<ge> cooldown)"

record auto_state =
  at_advisor :: advisor_state
  at_snapshots :: "calibration_snapshot list"

text \<open>One write of the settings with its entry in the log.\<close>

definition write_and_log ::
  "advisor_env \<Rightarrow> (json \<Rightarrow> string) \<Rightarrow> msg \<Rightarrow> msg \<Rightarrow> string \<Rightarrow> json \<Rightarrow> json \<Rightarrow> nat \<Rightarrow> string \<Rightarrow> f64 \<Rightarrow> bool \<Rightarrow> f64 option
     \<Rightarrow> advisor_state \<Rightarrow> bool \<times> advisor_state" where
  "write_and_log x dumps cfg patch path old_value new_value n source now written stamp st =
     (case fingerprint (ax_sha256 x) dumps cfg of
        None \<Rightarrow> (False, st)
      | Some fp \<Rightarrow>
          (case update_config written stamp patch (ad_file st, ad_store st) of
             (Inr (JObj new), f, store) \<Rightarrow>
               (case fingerprint (ax_sha256 x) dumps new of
                  None \<Rightarrow> (False, st\<lparr> ad_file := f, ad_store := store \<rparr>)
                | Some fp' \<Rightarrow> (True, st\<lparr> ad_file := f, ad_store := store,
                    ad_perf := log_applied_change path old_value new_value [] n fp fp' True source now (ad_perf st) \<rparr>))
           | (_, f, store) \<Rightarrow> (False, st\<lparr> ad_file := f, ad_store := store \<rparr>)))"

definition calibration_auto_apply ::
  "advisor_env \<Rightarrow> (json \<Rightarrow> string) \<Rightarrow> msg \<Rightarrow> graded_factors list \<Rightarrow> bool \<Rightarrow> f64 \<Rightarrow> bool \<Rightarrow> f64 option \<Rightarrow> auto_state \<Rightarrow> bool \<times> auto_state" where
  "calibration_auto_apply x dumps cfg rows degraded now written stamp st =
     (let c = section_of cfg ''confidence_calibration''; current = weights_of (jget cfg ''whale_confidence_weights'') in
      if \<not> truthy (jget c ''enabled'') \<or> \<not> snapshot_due now (cfg_num_or c ''snapshot_interval_sec'' 21600) (at_snapshots st) then (True, st)
      else case cfg_num c ''min_resolved_signals'' of
        None \<Rightarrow> (False, st)
      | Some m \<Rightarrow>
          (case generate_calibration_report (ax_sqrt x) rows m current of
             None \<Rightarrow> (False, st)
           | Some None \<Rightarrow> (True, st)
           | Some (Some rep) \<Rightarrow>
              (let st1 = st\<lparr> at_snapshots := record_snapshot rep now (at_snapshots st) \<rparr> in
               if truthy (jget c ''auto_apply_enabled'')
                  \<and> cooled_down ''calibration-auto-apply'' (cfg_num_or c ''auto_apply_cooldown_sec'' 86400) now (ad_perf (at_advisor st))
                  \<and> fint (int (cl_resolved_count rep)) \<ge> cfg_num_or c ''auto_apply_min_resolved_signals'' 150 \<and> \<not> degraded
               then (case blended_weights_for_auto_apply current (cl_suggested rep) of
                       None \<Rightarrow> (True, st1)
                     | Some w \<Rightarrow>
                         if py_eq (weights_json w) (weights_json current) then (True, st1)
                         else apsnd (\<lambda>a. st1\<lparr> at_advisor := a \<rparr>)
                           (write_and_log x dumps cfg [(''whale_confidence_weights'', weights_json w)] ''whale_confidence_weights''
                             (weights_json current) (weights_json w) (cl_resolved_count rep) ''calibration-auto-apply'' now written stamp (at_advisor st)))
               else (True, st1))))"

definition CONFIDENCE_RANK :: "(string, nat) pdict" where "CONFIDENCE_RANK = [(''low'', 0), (''moderate'', 1), (''higher'', 2)]"

definition advisory_auto_apply ::
  "advisor_env \<Rightarrow> (json \<Rightarrow> string) \<Rightarrow> msg \<Rightarrow> advisor_inputs \<Rightarrow> bool \<Rightarrow> f64 \<Rightarrow> bool \<Rightarrow> f64 option \<Rightarrow> auto_state \<Rightarrow> bool \<times> auto_state" where
  "advisory_auto_apply x dumps cfg inp degraded now written stamp st =
     (let c = section_of cfg ''advisory''; adv = at_advisor st in
      if \<not> truthy (jget c ''enabled'') \<or> \<not> truthy (jget c ''auto_apply_enabled'')
         \<or> \<not> cooled_down ''unified-advisory-auto'' (cfg_num_or c ''auto_apply_cooldown_sec'' 86400) now (ad_perf adv) then (True, st)
      else case as_int_instance (jget c ''min_resolved_trades_per_variant'') of
        None \<Rightarrow> (False, st)
      | Some k \<Rightarrow>
          (case recommendations_for x dumps inp cfg (ad_perf adv) (ad_declined adv) (nat k) of
             None \<Rightarrow> (False, st)
           | Some (recs, m) \<Rightarrow>
              (let rank = dget_or CONFIDENCE_RANK (case jget_or c ''auto_apply_min_confidence'' (JStr ''higher'') of JStr s \<Rightarrow> s | _ \<Rightarrow> []) 2;
                   qualifying = filter (\<lambda>s. dget_or CONFIDENCE_RANK (sg_label s) 0 \<ge> rank
                     \<and> fint (int (sg_n s)) \<ge> cfg_num_or c ''auto_apply_min_n'' 25) recs in
               case qualifying of
                 [] \<Rightarrow> (True, st)
               | s # _ \<Rightarrow>
                  if degraded then (True, st)
                  else apsnd (\<lambda>a. st\<lparr> at_advisor := a \<rparr>)
                    (let (section, field) = split_path (sg_config_path s) in
                     write_and_log x dumps cfg [(section, JObj [(field, sg_suggested s)])] (sg_config_path s) (sg_current s) (sg_suggested s)
                       (sg_n s) ''unified-advisory-auto'' now written stamp adv))))"

text \<open>The whole trigger: a part that raises ends it.\<close>

definition run_auto_apply ::
  "advisor_env \<Rightarrow> (json \<Rightarrow> string) \<Rightarrow> msg \<Rightarrow> graded_factors list \<Rightarrow> advisor_inputs \<Rightarrow> bool \<Rightarrow> f64 \<Rightarrow> bool \<Rightarrow> f64 option \<Rightarrow> auto_state \<Rightarrow> bool \<times> auto_state" where
  "run_auto_apply x dumps cfg rows inp degraded now written stamp st =
     (case calibration_auto_apply x dumps cfg rows degraded now written stamp st of
        (False, st1) \<Rightarrow> (False, st1)
      | (True, st1) \<Rightarrow> advisory_auto_apply x dumps cfg inp degraded now written stamp st1)"

end
