(* ===== verification/AutoApplyFacts.thy ===== *)
theory AutoApplyFacts
  imports AutoApply
begin

text \<open>
  What calibration and automatic application promise: thirds and bands partition the signals, an edge
  correction is the mean of its cell, and a run of tied values is counted whole.
\<close>

subsection \<open>Thirds and ties\<close>

lemma run_length: "sorted xs \<Longrightarrow> \<forall>x \<in> set xs. v \<le> x \<Longrightarrow> length (takeWhile (\<lambda>x. x = v) xs) = count_list xs v"
  for v :: "'a :: linorder"
proof (induction xs)
  case (Cons x xs)
  then show ?case by (auto simp: count_list_0_iff)
qed simp

lemma run_length_rev: "sorted xs \<Longrightarrow> \<forall>x \<in> set xs. x \<le> v \<Longrightarrow> length (takeWhile (\<lambda>x. x = v) (rev xs)) = count_list xs v"
  for v :: "'a :: linorder"
proof (induction xs rule: rev_induct)
  case (snoc x xs)
  then show ?case by (auto simp: sorted_append count_list_0_iff)
qed simp

text \<open>
  In sorted values the run that straddles a cut, found by walking outward from it, is every occurrence
  of the value on both sides of the cut, and nothing when the neighbours differ.
\<close>
theorem tied_run_is_every_occurrence:
  assumes "sorted vals"
  shows "tied_run_size vals c =
    (if 0 < c \<and> c < length vals \<and> vals ! c = vals ! (c - 1) then count_list vals (vals ! c) else 0)"
proof (cases "0 < c \<and> c < length vals \<and> vals ! c = vals ! (c - 1)")
  case True
  let ?v = "vals ! (c - 1)"
  have split: "vals = take c vals @ drop c vals" by simp
  have s: "sorted (take c vals)" "sorted (drop c vals)" using assms by (simp_all add: sorted_wrt_take sorted_wrt_drop)
  have low: "\<forall>x \<in> set (take c vals). x \<le> ?v"
  proof
    fix x assume "x \<in> set (take c vals)"
    then obtain i where i: "i < c" "x = vals ! i" using True by (auto simp: in_set_conv_nth)
    have "i \<le> c - 1" "c - 1 < length vals" using i True by linarith+
    then show "x \<le> ?v" using sorted_nth_mono [OF assms] i by simp
  qed
  have high: "\<forall>x \<in> set (drop c vals). ?v \<le> x"
    using True assms by (auto simp: in_set_conv_nth intro!: sorted_nth_mono)
  have "count_list vals ?v = count_list (take c vals) ?v + count_list (drop c vals) ?v"
    by (metis split count_list_append)
  then show ?thesis using True run_length_rev [OF s(1) low] run_length [OF s(2) high]
    by (simp add: tied_run_size_def Let_def)
qed (auto simp: tied_run_size_def)

theorem tied_run_is_every_occurrence_witness: "tied_run_size [1, 2, 2, 2, 3] 2 = 3"
  using tied_run_is_every_occurrence [of "[1, 2, 2, 2, 3]" 2] by simp

lemma thirds_partition: "concat (map snd (thirds xs)) = xs"
proof -
  let ?k = "length xs div 3"
  have "take ?k xs @ take (length xs - ?k - ?k) (drop ?k xs) @ drop (length xs - ?k) xs = xs"
  proof -
    have "drop (length xs - ?k) xs = drop (length xs - ?k - ?k) (drop ?k xs)" by (simp add: add.commute)
    then show ?thesis by (simp only: append_take_drop_id)
  qed
  then show ?thesis by (simp add: thirds_def Let_def BUCKET_COUNT_def)
qed

lemma nonempty_parts: "(\<Sum>(k, g)\<leftarrow>filter (\<lambda>(k, g). g \<noteq> []) parts. length g) = (\<Sum>(k, g)\<leftarrow>parts. length g)"
  by (induction parts) auto

text \<open>
  When a factor's thirds are reported they hold every signal that has the factor once, and no signal
  of the low third has a higher value than one of the high third.
\<close>
theorem factor_thirds_partition:
  assumes "bucket_win_rates rows name = (buckets, Ok)"
  shows "(\<Sum>(k, b)\<leftarrow>buckets. fb_n b) = length (filter (\<lambda>r. factor_of name r \<noteq> JNull) rows)
    \<and> (\<forall>a \<in> set (snd (thirds (sorted_by_factor name rows) ! 0)). \<forall>b \<in> set (snd (thirds (sorted_by_factor name rows) ! 2)).
         factor_value name a \<le> factor_value name b)"
proof
  let ?xs = "sorted_by_factor name rows"
  have b: "buckets = map (\<lambda>(key, g). (key, \<lparr>fb_n = length g, fb_win_rate = bucket_rate g\<rparr>)) (filter (\<lambda>(key, g). g \<noteq> []) (thirds ?xs))"
    using assms by (auto simp: bucket_win_rates_def Let_def split: if_splits)
  have "(\<Sum>(k, b)\<leftarrow>buckets. fb_n b) = (\<Sum>(k, g)\<leftarrow>filter (\<lambda>(k, g). g \<noteq> []) (thirds ?xs). length g)"
    unfolding b by (simp add: comp_def split_def)
  also have "\<dots> = length (concat (map snd (thirds ?xs)))" unfolding nonempty_parts by (simp add: length_concat comp_def split_def)
  also have "\<dots> = length ?xs" by (simp only: thirds_partition)
  finally show "(\<Sum>(k, b)\<leftarrow>buckets. fb_n b) = length (filter (\<lambda>r. factor_of name r \<noteq> JNull) rows)"
    by (simp add: sorted_by_factor_def)
  have sorted: "sorted (map (factor_value name) ?xs)" by (simp add: sorted_by_factor_def)
  show "\<forall>a \<in> set (snd (thirds ?xs ! 0)). \<forall>b \<in> set (snd (thirds ?xs ! 2)). factor_value name a \<le> factor_value name b"
  proof (intro ballI)
    fix a b assume "a \<in> set (snd (thirds ?xs ! 0))" "b \<in> set (snd (thirds ?xs ! 2))"
    then obtain i j where i: "i < length ?xs div 3" "a = ?xs ! i" and j: "j < length ?xs div 3" "b = ?xs ! (length ?xs - length ?xs div 3 + j)"
      by (auto simp: thirds_def Let_def BUCKET_COUNT_def in_set_conv_nth)
    then show "factor_value name a \<le> factor_value name b"
      using sorted_nth_mono [OF sorted, of i "length ?xs - length ?xs div 3 + j"] by simp
  qed
qed


subsection \<open>Bands\<close>

lemma bands_are_distinct: "distinct (map (\<lambda>(lo, hi, label). label) CONFIDENCE_BANDS)"
  by (simp add: CONFIDENCE_BANDS_def)

text \<open>
  The calibration bands partition the confidences: every confidence from 0 to 1, both ends included,
  is in exactly one band, and the label of a price is that band's.
\<close>
theorem every_confidence_has_one_band:
  assumes "0 \<le> c" "c \<le> 1"
  shows "\<exists>lo hi label. filter (\<lambda>b. in_band b c) CONFIDENCE_BANDS = [(lo, hi, label)] \<and> price_band_label c = label"
proof -
  have cuts: "(0 :: f64) < fl (1/2)" "fl (1/2) < fl (6/10)" "fl (6/10) < fl (7/10)" "fl (7/10) < fl (8/10)"
    "fl (8/10) < fl (9/10)" "1 < fl (101/100)" "fl (9/10) < fl (101/100)" by code_simp+
  consider "c < fl (1/2)" | "fl (1/2) \<le> c" "c < fl (6/10)" | "fl (6/10) \<le> c" "c < fl (7/10)" | "fl (7/10) \<le> c" "c < fl (8/10)"
    | "fl (8/10) \<le> c" "c < fl (9/10)" | "fl (9/10) \<le> c" by linarith
  then show ?thesis using assms cuts
    by cases (simp_all only: price_band_label_def CONFIDENCE_BANDS_def in_band_def filter.simps prod.case, auto)
qed

theorem every_confidence_has_one_band_witness: "\<exists>lo hi label. filter (\<lambda>b. in_band b 1) CONFIDENCE_BANDS = [(lo, hi, label)] \<and> price_band_label 1 = label"
  by (rule every_confidence_has_one_band) simp_all

subsection \<open>Edge corrections\<close>

definition edge_key :: "edge_row \<Rightarrow> (string \<times> string) option" where
  "edge_key r = map_option (\<lambda>c. (c, price_band_label (eg_q_pre r))) (eg_category r)"

definition edge_residual :: "edge_row \<Rightarrow> f64" where
  "edge_residual r = fsub (if eg_correct r then 1 else 0) (eg_q_pre r)"

definition residuals_of :: "(string \<times> string) \<Rightarrow> edge_row list \<Rightarrow> f64 list" where
  "residuals_of k rows = map edge_residual (filter (\<lambda>r. edge_key r = Some k) rows)"

lemma edge_cells_snoc: "edge_cells (rows @ [r]) = (case edge_key r of None \<Rightarrow> edge_cells rows
   | Some k \<Rightarrow> dput k (dget_or (edge_cells rows) k [] @ [edge_residual r]) (edge_cells rows))"
  by (simp add: edge_cells_def edge_key_def edge_residual_def Let_def split: option.split)

lemma edge_cells_ok: "dict_ok (edge_cells rows)"
  by (induction rows rule: rev_induct) (simp_all add: edge_cells_snoc split: option.split, simp add: edge_cells_def)

lemma edge_cells_hold: "dget (edge_cells rows) k = (if residuals_of k rows = [] then None else Some (residuals_of k rows))"
proof (induction rows rule: rev_induct)
  case Nil
  then show ?case by (simp add: edge_cells_def residuals_of_def)
next
  case (snoc r rows)
  have "residuals_of k (rows @ [r]) = residuals_of k rows @ (if edge_key r = Some k then [edge_residual r] else [])"
    by (simp add: residuals_of_def)
  then show ?case using snoc by (auto simp: edge_cells_snoc dget_or_def split: option.split)
qed

text \<open>
  The correction table has a cell exactly for the category and price band with enough graded prints,
  and the cell is the mean of outcome minus price over exactly the prints of that cell.
\<close>
theorem edge_cell_is_the_mean_of_its_prints:
  "dget (bucket_delta_by_category_price_band rows m) k =
     (if residuals_of k rows \<noteq> [] \<and> length (residuals_of k rows) \<ge> m
      then Some (fdiv (py_sum (residuals_of k rows)) (fint (int (length (residuals_of k rows))))) else None)"
proof -
  have f: "\<And>d :: (string \<times> string, f64 list) pdict. \<And>g :: f64 list \<Rightarrow> f64. \<And>P. dict_ok d \<Longrightarrow> dget (map (\<lambda>(k, ds). (k, g ds)) (filter (\<lambda>(k, ds). P ds) d)) k =
      (case dget d k of None \<Rightarrow> None | Some ds \<Rightarrow> if P ds then Some (g ds) else None)"
  proof -
    fix d :: "(string \<times> string, f64 list) pdict" and g :: "f64 list \<Rightarrow> f64" and P
    assume "dict_ok d"
    then show "dget (map (\<lambda>(k, ds). (k, g ds)) (filter (\<lambda>(k, ds). P ds) d)) k =
      (case dget d k of None \<Rightarrow> None | Some ds \<Rightarrow> if P ds then Some (g ds) else None)"
    proof (induction d)
      case (Cons p d)
      then have "dget d (fst p) = None" "dict_ok d" by (simp_all add: dict_ok_def dget_eq_None_iff)
      then show ?case using Cons.IH by (cases p) auto
    qed simp
  qed
  show ?thesis unfolding bucket_delta_by_category_price_band_def f [OF edge_cells_ok]
    by (simp add: edge_cells_hold)
qed

end
