(* ===== verification/Spec2Isabelle.thy ===== *)
theory Spec2Isabelle
  imports BrokerFacts ExitFacts StrategyFacts HttpFacts SignalFacts TapeFacts SettlementFacts StreamFacts SubsFacts RealOrders SettlementResolver ConfigStore EventPhase FaultLog CandidateFacts HistoryFacts WatcherFacts HandlerFacts SeriesEvalFacts QuarantineFacts AdvisoryFacts AutoApplyFacts
begin

text \<open>
  Verification development of the Kalshi whale terminal: a Python program that watches the public trade tape
  of a prediction exchange for large prints, scores them, follows them with paper money, and learns from the
  outcomes. This theory imports every other one and holds no definition; the properties stand in the theories
  of their components.

  \<^bold>\<open>The program.\<close> Frames of the exchange's stream (\<open>kalshi/websocket.py\<close>) are gated, queued and handled
  (\<open>whale_stream\<close>); a trade large enough becomes a signal (\<open>kalshi_trade_tape.py\<close> with
  \<open>confidence_scoring.py\<close>), is claimed once (\<open>candidate_ledger.py\<close>) and decided on
  (\<open>decision_bridge.py\<close>, \<open>strategy_engine.py\<close>) under the guards of \<open>risk_manager.py\<close>, with the
  account in \<open>paper_broker.py\<close>. Positions are closed by \<open>exit_engine.py\<close> and \<open>position_netting.py\<close>.
  Settlements (\<open>settlement_resolver.py\<close>) grade what \<open>signal_log.py\<close>, \<open>candidate_log.py\<close> and
  \<open>market_history.py\<close> recorded; the trade history, calibration and advisory parts turn the graded records into
  settings, which \<open>config_store.py\<close> writes. All paths below are under src/services unless said otherwise.

  \<^bold>\<open>Foundations.\<close> Prelude: dictionaries as association lists in insertion order. Binary64, FloatBounds: Python
  floats as rationals with rounding after every operation. PyValues, PyRepr: JSON values, \<open>float(x)\<close>, and the
  text of numbers. Ranking: descending sorts. Durable: the contract of a component that mirrors its memory in a
  table and claims that a restart is invisible; it is interpreted by Risk and BrokerStore.

  \<^bold>\<open>Exchange.\<close> Contracts (\<open>kalshi/contracts\<close>), HttpClient and HttpFacts (\<open>http_client.py\<close>), StreamIngest,
  StreamSubs, StreamFacts and SubsFacts (\<open>kalshi/websocket.py\<close>, \<open>whale_gate.py\<close>), StreamHandlers and
  HandlerFacts (\<open>whale_stream/whale_stream_handlers.py\<close>, \<open>position/account_positions.py\<close>), RealOrders
  (\<open>kalshi/orders.py\<close>, \<open>execution.py\<close>), TitleCache, Fees, MarketLookup, LatencyAgg and HistoryPush
  (the files of those names). The reader, the consumers, the trade tasks and the reconnects of the stream are
  steps of an interleaving; the properties hold for every one of them.

  \<^bold>\<open>Decisions.\<close> TradeTape and TapeFacts, Confidence, CandidateRetry (\<open>candidate_retry.py\<close>,
  \<open>candidate_ledger.py\<close>), MutualExcl, ConfigOverrides, ConfigBounds, Strategy and StrategyFacts, DecisionBridge,
  BridgeFacts and BridgeExamples, ShadowMode (\<open>shadow_mode.py\<close>, \<open>trade_category.py\<close>), EventPhase
  (\<open>market_events/event_lifecycle.py\<close>, \<open>market_watch/selection.py\<close>).

  \<^bold>\<open>Account.\<close> Risk, Broker, BrokerStore and BrokerFacts (\<open>paper_broker.py\<close>), Exits and ExitFacts
  (\<open>exits/exit_engine.py\<close>), Netting (\<open>exits/position_netting.py\<close>), IndexFeed, SettlementEdge and
  SettlementFacts (\<open>index_feed\<close>, \<open>settlement_edge.py\<close>, \<open>settlement_edge_entry.py\<close>).

  \<^bold>\<open>Records.\<close> CaptureWriter, CandidateLog and CandidateFacts, SignalLog and SignalFacts, MarketHistory,
  SettlementResolver, FaultLog, SeriesWatcher and WatcherFacts, SeriesEval and SeriesEvalFacts, Quarantine and
  QuarantineFacts (\<open>data_quarantine.py\<close>).

  \<^bold>\<open>Learning.\<close> TradeHistory and HistoryFacts (\<open>history/trade_analytics.py\<close>, \<open>stats_power.py\<close>), Regime
  (\<open>history/regime_analytics.py\<close>), ConfigStore, ConfigPerf (\<open>config/config_performance.py\<close>,
  \<open>history/suggestion_decisions.py\<close>), Advisory and AdvisoryFacts (\<open>advisory/advisory_engine.py\<close>),
  Calibration (\<open>whale_calibration/confidence_calibration.py\<close>, \<open>calibration_history.py\<close>), AutoApply and
  AutoApplyFacts (\<open>_maybe_run_auto_apply\<close> of src/main.py).

  \<^bold>\<open>Correspondence.\<close> A class or a module with globals is a record; a SQLite table is the list of its rows in
  rowid order; a method is a definition of the same name on the record, returning it updated; a raised exception
  is \<open>None\<close> or the left of a sum, with the state as far as it had been changed. A function that is long in the
  code is cut where the code has its blocks, and its whole is a definition too. The clock is an argument, or the
  list of the readings a call takes; so are the answers of the exchange and the outcomes of database calls.

  \<^bold>\<open>What the lemmas show.\<close> The \<open>Facts\<close> theories hold, per component, the invariants with their
  preservation by every operation (tables and memory agree, queues within bounds, each row accounted for), the
  guards an effect implies (an entry passed every gate, a fill honours its limit, an exit has a rule), agreement
  of fast and plain versions (bulk statistics, one-pass pairing, round robin), round trips (settings merged and
  removed, results printed and read back), and the places where the code does not do what it says, each on a
  concrete run. A witness applies a property that has hypotheses to a run of the model.

  \<^bold>\<open>Bounds.\<close> Recursions are structural or measured. The backoff of the limiter is a recursion over the clock
  readings it is given and ends by a measure; \<open>bucket_loop\<close> of IndexFeed is a \<open>partial_function (option)\<close>,
  shown to return. The tape read over REST follows at most fifty pages, the code's own limit. The decimal
  exponent of a float is found in at most 400 steps, more than the 324 a binary64 can need.
  Integers are unbounded as in Python.

  \<^bold>\<open>Parameters.\<close> The mathematical functions of the C library; SHA-256 and \<open>json.dumps\<close>;
  the parsers of JSON and of ISO times; the exchange's and the index provider's answers; SQL's own averages. What
  a property needs of them is a hypothesis of it.

  \<^bold>\<open>Not modelled.\<close> Not-a-number and infinities beyond the overflow that raises; text of rationales, logs
  and faults where nothing reads it; threads inside one locked region. Of the program: the wiring, scheduling and
  routes of src/main.py and the \<open>routes.py\<close> files, which only call modelled operations; REST paging of the market
  catalog, event schedule, milestones and game state, whose behaviour is that of services outside the repository;
  language-model analyses; authentication and signing; backups, diagnostics, storage and process metrics,
  alerting; the simulator; the administrative reset and archive; src/tools, src/bench and the browser code, which
  are not part of the running program.
\<close>

end
